(* ===== verification/Go_Base.thy ===== *)
theory Go_Base
  imports Main "HOL-Library.AList"
begin

text \<open>
  The prelude: the parts of the Go language and of its standard library that the modelled
  packages use, and the facts about them that every other theory shares.

  \<^item> A Go map is an association list. Iteration (\<open>for k, v := range m\<close>) visits the list from
    left to right; Go leaves the order open, so a theorem about an iterating function is stated
    for every list, that is for every order. A map that was built by Go has distinct keys
    (\<open>wf_map\<close>). A nil map reads like an empty one, and both are \<open>[]\<close>; where the source
    tells them apart the model uses \<open>option\<close>.
  \<^item> \<open>int32\<close> and \<open>int64\<close> values are \<open>int\<close>; where the source does arithmetic on them the
    two's complement wrap-around is written out (\<open>wrap64\<close>).
  \<^item> A \<open>time.Duration\<close> is an \<open>int64\<close> number of nanoseconds.
  \<^item> An \<open>error\<close> is a value of \<open>go_error\<close>; \<open>error + 'a\<close> is Go's \<open>(a, err)\<close> result pair.
  \<^item> \<open>fmt.Sprintf\<close> is string concatenation with \<open>go_quote\<close> for \<open>%q\<close> and \<open>go_itoa\<close> for
    \<open>%d\<close>.
\<close>

named_theorems go_simps "evaluation rules for the Go library functions"

section \<open>Maps\<close>

type_synonym ('k, 'v) go_map = "('k \<times> 'v) list"
type_synonym str_map = "(string \<times> string) list"

abbreviation wf_map :: "('k, 'v) go_map \<Rightarrow> bool" where
  "wf_map m \<equiv> distinct (map fst m)"

text \<open>\<open>m[k]\<close> for a map with string values: a missing key reads as the empty string.\<close>

definition map_get :: "('k, string) go_map \<Rightarrow> 'k \<Rightarrow> string" where
  "map_get m k = (case map_of m k of None \<Rightarrow> [] | Some v \<Rightarrow> v)"

text \<open>\<open>m[k]\<close> for a \<open>map[K]bool\<close> used as a set.\<close>

definition map_has :: "('k, bool) go_map \<Rightarrow> 'k \<Rightarrow> bool" where
  "map_has m k = (case map_of m k of None \<Rightarrow> False | Some b \<Rightarrow> b)"

text \<open>\<open>for k, v := range src { dst[k] = v }\<close>, which is also \<open>maps.Copy(dst, src)\<close>.\<close>

fun maps_Copy :: "('k, 'v) go_map \<Rightarrow> ('k, 'v) go_map \<Rightarrow> ('k, 'v) go_map" where
  "maps_Copy dst [] = dst"
| "maps_Copy dst ((k, v) # src) = maps_Copy (AList.update k v dst) src"

text \<open>\<open>m := make(map[K]V); for _, x := range xs { m[key(x)] = x }\<close>: a later element wins.\<close>

fun index_by :: "('v \<Rightarrow> 'k) \<Rightarrow> 'v list \<Rightarrow> ('k, 'v) go_map \<Rightarrow> ('k, 'v) go_map" where
  "index_by key [] m = m"
| "index_by key (x # xs) m = index_by key xs (AList.update (key x) x m)"

section \<open>Integers\<close>

definition wrap64 :: "int \<Rightarrow> int" where
  "wrap64 x = (x + 2 ^ 63) mod 2 ^ 64 - 2 ^ 63"

definition wrap32 :: "int \<Rightarrow> int" where
  "wrap32 x = (x + 2 ^ 31) mod 2 ^ 32 - 2 ^ 31"

definition is_int64 :: "int \<Rightarrow> bool" where
  "is_int64 x \<longleftrightarrow> - (2 ^ 63) \<le> x \<and> x < 2 ^ 63"

definition is_int32 :: "int \<Rightarrow> bool" where
  "is_int32 x \<longleftrightarrow> - (2 ^ 31) \<le> x \<and> x < 2 ^ 31"

text \<open>Go's integer division truncates towards zero.\<close>

definition go_div :: "int \<Rightarrow> int \<Rightarrow> int" where
  "go_div a b = sgn a * sgn b * (\<bar>a\<bar> div \<bar>b\<bar>)"

type_synonym duration = int

definition time_Millisecond :: duration where
  "time_Millisecond = 1000000"

definition time_Second :: duration where
  "time_Second = 1000000000"

definition time_Minute :: duration where
  "time_Minute = 60 * time_Second"

text \<open>\<open>time.Duration.Milliseconds()\<close>.\<close>

definition dur_Milliseconds :: "duration \<Rightarrow> int" where
  "dur_Milliseconds d = go_div d time_Millisecond"

text \<open>A \<open>time.Time\<close> is the number of nanoseconds since the epoch; \<open>UnixMilli()\<close> rounds down.\<close>

type_synonym go_time = int

definition UnixMilli :: "go_time \<Rightarrow> int" where
  "UnixMilli t = t div time_Millisecond"

section \<open>Strings\<close>

fun nat_digits :: "nat \<Rightarrow> string" where
  "nat_digits n =
     (if n < 10 then [char_of (48 + n)] else nat_digits (n div 10) @ [char_of (48 + n mod 10)])"

declare nat_digits.simps [simp del]

definition go_itoa :: "int \<Rightarrow> string" where
  "go_itoa i = (if i < 0 then CHR ''-'' # nat_digits (nat (- i)) else nat_digits (nat i))"

definition hex_digit :: "nat \<Rightarrow> char" where
  "hex_digit n = (if n < 10 then char_of (48 + n) else char_of (87 + n))"

text \<open>
  \<open>strconv.Quote\<close> on one byte. Bytes from 128 up are copied: that is what Go does with the UTF-8
  encoding of a printable character.
\<close>

definition quote_char :: "char \<Rightarrow> string" where
  "quote_char c =
     (if c = CHR 0x22 then [CHR 0x5C, CHR 0x22]
      else if c = CHR 0x5C then [CHR 0x5C, CHR 0x5C]
      else if c = CHR 0x07 then [CHR 0x5C, CHR ''a'']
      else if c = CHR 0x08 then [CHR 0x5C, CHR ''b'']
      else if c = CHR 0x0C then [CHR 0x5C, CHR ''f'']
      else if c = CHR 0x0A then [CHR 0x5C, CHR ''n'']
      else if c = CHR 0x0D then [CHR 0x5C, CHR ''r'']
      else if c = CHR 0x09 then [CHR 0x5C, CHR ''t'']
      else if c = CHR 0x0B then [CHR 0x5C, CHR ''v'']
      else if (of_char c :: nat) < 32 \<or> (of_char c :: nat) = 127
      then [CHR 0x5C, CHR ''x'', hex_digit (of_char c div 16), hex_digit (of_char c mod 16)]
      else [c])"

definition go_quote :: "string \<Rightarrow> string" where
  "go_quote s = CHR 0x22 # concat (map quote_char s) @ [CHR 0x22]"

fun strings_Join :: "string list \<Rightarrow> string \<Rightarrow> string" where
  "strings_Join [] sep = []"
| "strings_Join [x] sep = x"
| "strings_Join (x # xs) sep = x @ sep @ strings_Join xs sep"

text \<open>\<open>%v\<close> of a \<open>[]string\<close>.\<close>

definition fmt_slice :: "string list \<Rightarrow> string" where
  "fmt_slice xs = ''['' @ strings_Join xs '' '' @ '']''"

text \<open>
  \<open>bytes.TrimSpace\<close>: the UTF-8 encodings of the white space characters of Unicode, removed from both
  ends.
\<close>

definition white_runes :: "string list" where
  "white_runes =
     [[CHR 0x09], [CHR 0x0A], [CHR 0x0B], [CHR 0x0C], [CHR 0x0D], [CHR 0x20],
      [CHR 0xC2, CHR 0x85], [CHR 0xC2, CHR 0xA0], [CHR 0xE1, CHR 0x9A, CHR 0x80],
      [CHR 0xE2, CHR 0x80, CHR 0x80], [CHR 0xE2, CHR 0x80, CHR 0x81], [CHR 0xE2, CHR 0x80, CHR 0x82],
      [CHR 0xE2, CHR 0x80, CHR 0x83], [CHR 0xE2, CHR 0x80, CHR 0x84], [CHR 0xE2, CHR 0x80, CHR 0x85],
      [CHR 0xE2, CHR 0x80, CHR 0x86], [CHR 0xE2, CHR 0x80, CHR 0x87], [CHR 0xE2, CHR 0x80, CHR 0x88],
      [CHR 0xE2, CHR 0x80, CHR 0x89], [CHR 0xE2, CHR 0x80, CHR 0x8A], [CHR 0xE2, CHR 0x80, CHR 0xA8],
      [CHR 0xE2, CHR 0x80, CHR 0xA9], [CHR 0xE2, CHR 0x80, CHR 0xAF], [CHR 0xE2, CHR 0x81, CHR 0x9F],
      [CHR 0xE3, CHR 0x80, CHR 0x80]]"

definition starts_with :: "string \<Rightarrow> string \<Rightarrow> bool" where
  "starts_with s p \<longleftrightarrow> take (length p) s = p"

function trim_left :: "string list \<Rightarrow> string \<Rightarrow> string" where
  "trim_left runes s =
     (case find (\<lambda>r. r \<noteq> [] \<and> starts_with s r) runes of
       None \<Rightarrow> s
     | Some r \<Rightarrow> trim_left runes (drop (length r) s))"
  by pat_completeness auto

termination
proof (relation "measure (\<lambda>(runes, s). length s)")
  fix runes s and r :: string
  assume "find (\<lambda>r. r \<noteq> [] \<and> starts_with s r) runes = Some r"
  then have "r \<noteq> []" and "take (length r) s = r"
    by (auto simp: find_Some_iff starts_with_def)
  from \<open>r \<noteq> []\<close> have "0 < length r"
    by simp
  moreover have "length r \<le> length s"
    using arg_cong [OF \<open>take (length r) s = r\<close>, of length] by simp
  ultimately have "length s - length r < length s"
    by arith
  then show "((runes, drop (length r) s), (runes, s)) \<in> measure (\<lambda>(runes, s). length s)"
    by simp
qed simp

declare trim_left.simps [simp del]

definition bytes_TrimSpace :: "string \<Rightarrow> string" where
  "bytes_TrimSpace s = rev (trim_left (map rev white_runes) (rev (trim_left white_runes s)))"

text \<open>\<open>hex.EncodeToString\<close>.\<close>

definition hex_EncodeToString :: "string \<Rightarrow> string" where
  "hex_EncodeToString bs =
     concat (map (\<lambda>c. [hex_digit (of_char c div 16), hex_digit (of_char c mod 16)]) bs)"

section \<open>Errors\<close>

text \<open>
  An error is classified by what the source asks of it: \<open>apierrors.IsNotFound\<close>,
  \<open>apierrors.IsConflict\<close>, or anything else. The string is \<open>err.Error()\<close>.
\<close>

datatype go_error =
    ErrNotFound string
  | ErrConflict string
  | ErrOther string

primrec err_Error :: "go_error \<Rightarrow> string" where
  "err_Error (ErrNotFound s) = s"
| "err_Error (ErrConflict s) = s"
| "err_Error (ErrOther s) = s"

primrec IsNotFound :: "go_error \<Rightarrow> bool" where
  "IsNotFound (ErrNotFound s) = True"
| "IsNotFound (ErrConflict s) = False"
| "IsNotFound (ErrOther s) = False"

primrec IsConflict :: "go_error \<Rightarrow> bool" where
  "IsConflict (ErrNotFound s) = False"
| "IsConflict (ErrConflict s) = True"
| "IsConflict (ErrOther s) = False"

text \<open>\<open>fmt.Errorf("prefix: %w", err)\<close>: the wrapped error keeps its classification.\<close>

primrec errorf_w :: "string \<Rightarrow> go_error \<Rightarrow> go_error" where
  "errorf_w p (ErrNotFound s) = ErrNotFound (p @ s)"
| "errorf_w p (ErrConflict s) = ErrConflict (p @ s)"
| "errorf_w p (ErrOther s) = ErrOther (p @ s)"

text \<open>\<open>ptr.Deref(p, def)\<close>.\<close>

definition ptr_Deref :: "'a option \<Rightarrow> 'a \<Rightarrow> 'a" where
  "ptr_Deref p d = (case p of None \<Rightarrow> d | Some x \<Rightarrow> x)"

section \<open>Facts about maps\<close>

lemma map_get_simps [simp, go_simps]:
  "map_get [] k = []"
  "map_get ((k', v) # m) k = (if k' = k then v else map_get m k)"
  by (simp_all add: map_get_def)

lemma map_has_simps [simp, go_simps]:
  "map_has [] k = False"
  "map_has ((k', b) # m) k = (if k' = k then b else map_has m k)"
  by (simp_all add: map_has_def)

lemma map_get_Some: "map_of m k = Some v \<Longrightarrow> map_get m k = v"
  by (simp add: map_get_def)

lemma map_get_None: "map_of m k = None \<Longrightarrow> map_get m k = []"
  by (simp add: map_get_def)

lemma map_get_update: "map_get (AList.update k v m) k' = (if k = k' then v else map_get m k')"
  by (simp add: map_get_def update_conv)

lemma wf_map_lookup: "wf_map m \<Longrightarrow> (k, v) \<in> set m \<Longrightarrow> map_of m k = Some v"
  by simp

lemma wf_map_update: "wf_map m \<Longrightarrow> wf_map (AList.update k v m)"
  by (rule distinct_update)

lemma wf_map_delete: "wf_map m \<Longrightarrow> wf_map (AList.delete k m)"
  by (rule distinct_delete)

lemma maps_Copy_dom: "fst ` set (maps_Copy dst src) = fst ` set dst \<union> fst ` set src"
  by (induction dst src rule: maps_Copy.induct) (auto simp: dom_update)

lemma wf_maps_Copy: "wf_map dst \<Longrightarrow> wf_map (maps_Copy dst src)"
  by (induction dst src rule: maps_Copy.induct) (simp_all add: distinct_update)

lemma map_of_maps_Copy:
  "wf_map src \<Longrightarrow>
   map_of (maps_Copy dst src) k = (case map_of src k of None \<Rightarrow> map_of dst k | Some v \<Rightarrow> Some v)"
proof (induction dst src rule: maps_Copy.induct)
  case (2 dst k' v src)
  then have "map_of src k' = None"
    by (simp add: map_of_eq_None_iff)
  with 2 show ?case
    by (auto simp: update_conv split: option.splits)
qed simp

lemma find_append_option:
  "find P (xs @ ys) = (case find P xs of None \<Rightarrow> find P ys | Some x \<Rightarrow> Some x)"
  by (induction xs) simp_all

lemma map_of_index_by:
  "map_of (index_by key xs m) k =
     (case find (\<lambda>x. key x = k) (rev xs) of None \<Rightarrow> map_of m k | Some x \<Rightarrow> Some x)"
proof (induction xs arbitrary: m)
  case (Cons x xs)
  then show ?case
    by (auto simp: update_conv find_append_option split: option.splits)
qed simp

lemma wf_index_by: "wf_map m \<Longrightarrow> wf_map (index_by key xs m)"
  by (induction xs arbitrary: m) (simp_all add: distinct_update)

lemma index_by_Some:
  assumes "map_of (index_by key xs []) k = Some x"
  shows "x \<in> set xs" and "key x = k"
proof -
  from assms have "find (\<lambda>x. key x = k) (rev xs) = Some x"
    by (simp add: map_of_index_by split: option.splits)
  then show "x \<in> set xs" and "key x = k"
    by (auto simp: find_Some_iff) (metis nth_mem set_rev length_rev)+
qed

lemma index_by_None: "map_of (index_by key xs []) k = None \<longleftrightarrow> k \<notin> key ` set xs"
proof (cases "map_of (index_by key xs []) k")
  case None
  then show ?thesis
    by (auto simp: map_of_index_by find_None_iff split: option.splits)
next
  case (Some x)
  then have "x \<in> set xs" and "key x = k"
    by (rule index_by_Some)+
  with Some show ?thesis
    by auto
qed

lemma index_by_distinct:
  assumes "distinct (map key xs)" and "x \<in> set xs"
  shows "map_of (index_by key xs []) (key x) = Some x"
proof (cases "map_of (index_by key xs []) (key x)")
  case None
  with assms(2) show ?thesis
    by (simp add: index_by_None)
next
  case (Some y)
  then have "y \<in> set xs" and "key y = key x"
    by (rule index_by_Some)+
  with assms have "y = x"
    by (auto simp: distinct_map dest: inj_onD)
  with Some show ?thesis
    by simp
qed

section \<open>Facts about integers\<close>

lemma wrap64_id: "is_int64 x \<Longrightarrow> wrap64 x = x"
  by (simp add: wrap64_def is_int64_def)

lemma wrap32_id: "is_int32 x \<Longrightarrow> wrap32 x = x"
  by (simp add: wrap32_def is_int32_def)

lemma wrap64_range [simp]: "is_int64 (wrap64 x)"
  by (simp add: wrap64_def is_int64_def)

lemma wrap32_range [simp]: "is_int32 (wrap32 x)"
  by (simp add: wrap32_def is_int32_def)

lemma go_div_nonneg: "0 \<le> a \<Longrightarrow> 0 < b \<Longrightarrow> go_div a b = a div b"
  by (cases "a = 0") (simp_all add: go_div_def)

lemma go_div_mult: "0 < b \<Longrightarrow> go_div (a * b) b = a"
  by (auto simp: go_div_def abs_mult sgn_mult) (simp add: abs_sgn_eq sgn_if)

section \<open>Facts about strings and errors\<close>

lemma nat_digits_nonempty [simp]: "nat_digits n \<noteq> []"
  by (subst nat_digits.simps) simp

lemma IsNotFound_errorf_w [simp]: "IsNotFound (errorf_w p e) = IsNotFound e"
  by (cases e) simp_all

lemma IsConflict_errorf_w [simp]: "IsConflict (errorf_w p e) = IsConflict e"
  by (cases e) simp_all

lemma err_Error_errorf_w [simp]: "err_Error (errorf_w p e) = p @ err_Error e"
  by (cases e) simp_all

lemma ptr_Deref_simps [simp]: "ptr_Deref None d = d" "ptr_Deref (Some x) d = x"
  by (simp_all add: ptr_Deref_def)

end
