(* ===== verification/Sha256.thy ===== *)
theory Sha256
  imports Go_Base "HOL-Library.Word"
begin

text \<open>
  \<open>crypto/sha256\<close> of the Go standard library, which the ConfigMap cache of the controller and the
  revisions of the backend use: \<open>sha256_Sum256\<close> maps a byte string to its digest (FIPS 180-4), on
  32-bit words.
\<close>

unbundle bit_operations_syntax

section \<open>The compression function\<close>

type_synonym word32 = "32 word"

record sha_state =
  sh_a :: word32
  sh_b :: word32
  sh_c :: word32
  sh_d :: word32
  sh_e :: word32
  sh_f :: word32
  sh_g :: word32
  sh_h :: word32

definition rotr32 :: "nat \<Rightarrow> word32 \<Rightarrow> word32" where
  "rotr32 n w = drop_bit n w OR push_bit (32 - n) w"

definition sha_K :: "word32 list" where
  "sha_K =
     [0x428A2F98, 0x71374491, 0xB5C0FBCF, 0xE9B5DBA5, 0x3956C25B, 0x59F111F1,
      0x923F82A4, 0xAB1C5ED5, 0xD807AA98, 0x12835B01, 0x243185BE, 0x550C7DC3,
      0x72BE5D74, 0x80DEB1FE, 0x9BDC06A7, 0xC19BF174, 0xE49B69C1, 0xEFBE4786,
      0x0FC19DC6, 0x240CA1CC, 0x2DE92C6F, 0x4A7484AA, 0x5CB0A9DC, 0x76F988DA,
      0x983E5152, 0xA831C66D, 0xB00327C8, 0xBF597FC7, 0xC6E00BF3, 0xD5A79147,
      0x06CA6351, 0x14292967, 0x27B70A85, 0x2E1B2138, 0x4D2C6DFC, 0x53380D13,
      0x650A7354, 0x766A0ABB, 0x81C2C92E, 0x92722C85, 0xA2BFE8A1, 0xA81A664B,
      0xC24B8B70, 0xC76C51A3, 0xD192E819, 0xD6990624, 0xF40E3585, 0x106AA070,
      0x19A4C116, 0x1E376C08, 0x2748774C, 0x34B0BCB5, 0x391C0CB3, 0x4ED8AA4A,
      0x5B9CCA4F, 0x682E6FF3, 0x748F82EE, 0x78A5636F, 0x84C87814, 0x8CC70208,
      0x90BEFFFA, 0xA4506CEB, 0xBEF9A3F7, 0xC67178F2]"

definition sha_init :: sha_state where
  "sha_init =
     \<lparr>sh_a = 0x6A09E667, sh_b = 0xBB67AE85, sh_c = 0x3C6EF372, sh_d = 0xA54FF53A,
      sh_e = 0x510E527F, sh_f = 0x9B05688C, sh_g = 0x1F83D9AB, sh_h = 0x5BE0CD19\<rparr>"

text \<open>The message schedule, newest word first: \<open>n\<close> more words.\<close>

fun sha_schedule :: "nat \<Rightarrow> word32 list \<Rightarrow> word32 list" where
  "sha_schedule 0 ws = ws"
| "sha_schedule (Suc n) ws =
     (let w15 = ws ! 14; w2 = ws ! 1;
          s0 = rotr32 7 w15 XOR rotr32 18 w15 XOR drop_bit 3 w15;
          s1 = rotr32 17 w2 XOR rotr32 19 w2 XOR drop_bit 10 w2
      in sha_schedule n ((ws ! 15 + s0 + ws ! 6 + s1) # ws))"

definition sha_round :: "word32 \<times> word32 \<Rightarrow> sha_state \<Rightarrow> sha_state" where
  "sha_round kw s =
     (let e = sh_e s; a = sh_a s;
          t1 = sh_h s + (rotr32 6 e XOR rotr32 11 e XOR rotr32 25 e) +
                 ((e AND sh_f s) XOR (NOT e AND sh_g s)) + fst kw + snd kw;
          t2 = (rotr32 2 a XOR rotr32 13 a XOR rotr32 22 a) +
                 ((a AND sh_b s) XOR (a AND sh_c s) XOR (sh_b s AND sh_c s))
      in \<lparr>sh_a = t1 + t2, sh_b = a, sh_c = sh_b s, sh_d = sh_c s,
          sh_e = sh_d s + t1, sh_f = e, sh_g = sh_f s, sh_h = sh_g s\<rparr>)"

definition sha_add :: "sha_state \<Rightarrow> sha_state \<Rightarrow> sha_state" where
  "sha_add s t =
     \<lparr>sh_a = sh_a s + sh_a t, sh_b = sh_b s + sh_b t, sh_c = sh_c s + sh_c t, sh_d = sh_d s + sh_d t,
      sh_e = sh_e s + sh_e t, sh_f = sh_f s + sh_f t, sh_g = sh_g s + sh_g t, sh_h = sh_h s + sh_h t\<rparr>"

definition sha_block :: "word32 list \<Rightarrow> sha_state \<Rightarrow> sha_state" where
  "sha_block ws s = sha_add s (fold sha_round (zip sha_K (rev (sha_schedule 48 (rev ws)))) s)"

section \<open>Padding and output\<close>

text \<open>\<open>n\<close> bytes, most significant first.\<close>

fun be_bytes :: "nat \<Rightarrow> int \<Rightarrow> string" where
  "be_bytes 0 v = []"
| "be_bytes (Suc n) v = be_bytes n (v div 256) @ [char_of (v mod 256)]"

definition sha_pad :: "string \<Rightarrow> string" where
  "sha_pad m =
     m @ CHR 0x80 # replicate ((119 - length m mod 64) mod 64) (CHR 0x00) @ be_bytes 8 (8 * int (length m))"

fun be_words :: "string \<Rightarrow> word32 list" where
  "be_words (a # b # c # d # bs) =
     (of_int (((of_char a * 256 + of_char b) * 256 + of_char c) * 256 + of_char d)) # be_words bs"
| "be_words bs = []"

fun sha_blocks :: "nat \<Rightarrow> word32 list \<Rightarrow> sha_state \<Rightarrow> sha_state" where
  "sha_blocks 0 ws s = s"
| "sha_blocks (Suc n) ws s = sha_blocks n (drop 16 ws) (sha_block (take 16 ws) s)"

definition sha_output :: "sha_state \<Rightarrow> string" where
  "sha_output s =
     concat (map (\<lambda>w. be_bytes 4 (uint w)) [sh_a s, sh_b s, sh_c s, sh_d s, sh_e s, sh_f s, sh_g s, sh_h s])"

definition sha256_Sum256 :: "string \<Rightarrow> string" where
  "sha256_Sum256 m =
     (let ws = be_words (sha_pad m) in sha_output (sha_blocks (length ws div 16) ws sha_init))"

section \<open>Lengths\<close>

lemma length_be_bytes [simp]: "length (be_bytes n v) = n"
  by (induction n v rule: be_bytes.induct) simp_all

lemma length_sha_pad: "length (sha_pad m) mod 64 = 0"
proof -
  let ?r = "length m mod 64"
  have "length (sha_pad m) mod 64 = (length m + 9 + (119 - ?r) mod 64) mod 64"
    by (simp add: sha_pad_def add.assoc)
  also have "\<dots> = (length m + 9 + (119 - ?r)) mod 64"
    by (rule mod_add_right_eq)
  also have "\<dots> = (?r + 9 + (119 - ?r)) mod 64"
    by (simp only: add.assoc mod_add_left_eq)
  also have "?r + 9 + (119 - ?r) = 128"
    using mod_less_divisor [of 64 "length m"] by simp
  finally show ?thesis
    by simp
qed

lemma length_sha256 [simp]: "length (sha256_Sum256 m) = 32"
  by (simp add: sha256_Sum256_def sha_output_def Let_def)

lemma length_hex [simp]: "length (hex_EncodeToString bs) = 2 * length bs"
  by (induction bs) (simp_all add: hex_EncodeToString_def)

end
