(* ===== verification/K8s_Types.thy ===== *)
theory K8s_Types
  imports Go_Base
begin

text \<open>
  The Kubernetes and Istio API objects the program reads and writes, as records that hold the
  fields the program uses. Field names are the Go field names behind a prefix for the struct.
  A field the program only copies from one object to another without reading it (affinity,
  probes, security contexts, resource requirements, tolerations) is \<open>opaque\<close>: its serialised
  form. A pointer is an \<open>option\<close>. These types are declared in packages outside this repository.
\<close>

type_synonym opaque = string
type_synonym uid = string

section \<open>Metadata\<close>

record OwnerReference =
  or_APIVersion :: string
  or_Kind :: string
  or_Name :: string
  or_UID :: uid
  or_Controller :: "bool option"

record ManagedFieldsEntry =
  mf_Manager :: string
  mf_Operation :: string
  mf_Subresource :: string
  mf_FieldsType :: string
  mf_FieldsV1 :: string

record ObjectMeta =
  om_Name :: string
  om_GenerateName :: string
  om_Namespace :: string
  om_UID :: uid
  om_ResourceVersion :: string
  om_Generation :: int
  om_CreationTimestamp :: "int option"
  om_DeletionTimestamp :: "int option"
  om_Labels :: str_map
  om_Annotations :: str_map
  om_OwnerReferences :: "OwnerReference list"
  om_Finalizers :: "string list"
  om_ManagedFields :: "ManagedFieldsEntry list"

text \<open>The zero value of \<open>metav1.ObjectMeta\<close>, which a composite literal starts from.\<close>

definition ObjectMeta_zero :: ObjectMeta where
  "ObjectMeta_zero =
     \<lparr>om_Name = [], om_GenerateName = [], om_Namespace = [], om_UID = [],
      om_ResourceVersion = [], om_Generation = 0, om_CreationTimestamp = None, om_DeletionTimestamp = None,
      om_Labels = [], om_Annotations = [], om_OwnerReferences = [], om_Finalizers = [],
      om_ManagedFields = []\<rparr>"

record LabelSelectorRequirement =
  lsr_Key :: string
  lsr_Operator :: string
  lsr_Values :: "string list"

record LabelSelector =
  ls_MatchLabels :: str_map
  ls_MatchExpressions :: "LabelSelectorRequirement list"

section \<open>Pods\<close>

record EnvVar =
  ev_Name :: string
  ev_Value :: string
  ev_ValueFrom :: "opaque option"

record ContainerPort =
  cp_Name :: string
  cp_ContainerPort :: int
  cp_Protocol :: string

datatype VolumeSource =
    PersistentVolumeClaimVolumeSource (pvcvs_ClaimName: string) (pvcvs_ReadOnly: bool)
  | SecretVolumeSource (svs_SecretName: string) (svs_DefaultMode: "int option")
  | OtherVolumeSource opaque

record Volume =
  vol_Name :: string
  vol_Source :: VolumeSource

record VolumeMount =
  vm_Name :: string
  vm_MountPath :: string
  vm_ReadOnly :: bool
  vm_Rest :: opaque

record Container =
  ct_Name :: string
  ct_Image :: string
  ct_ImagePullPolicy :: string
  ct_Ports :: "ContainerPort list"
  ct_ReadinessProbe :: "opaque option"
  ct_LivenessProbe :: "opaque option"
  ct_StartupProbe :: "opaque option"
  ct_SecurityContext :: "opaque option"
  ct_VolumeMounts :: "VolumeMount list"
  ct_Env :: "EnvVar list"
  ct_Resources :: opaque

record PodSpec =
  ps_Affinity :: "opaque option"
  ps_Containers :: "Container list"
  ps_InitContainers :: "Container list"
  ps_NodeSelector :: str_map
  ps_NodeName :: string
  ps_SchedulerName :: string
  ps_SecurityContext :: "opaque option"
  ps_ServiceAccountName :: string
  ps_Tolerations :: opaque
  ps_Volumes :: "Volume list"

record PodTemplateSpec =
  pts_Labels :: str_map
  pts_Annotations :: str_map
  pts_Spec :: PodSpec

record PodCondition =
  pc_Type :: string
  pc_Status :: string
  pc_Reason :: string
  pc_Message :: string

text \<open>\<open>ContainerState.Waiting\<close> with its reason and message.\<close>

record ContainerStateWaiting =
  csw_Reason :: string
  csw_Message :: string

record ContainerStatus =
  cs_Name :: string
  cs_Waiting :: "ContainerStateWaiting option"

record Pod =
  pod_Meta :: ObjectMeta
  pod_Spec :: PodSpec
  pod_Phase :: string
  pod_Conditions :: "PodCondition list"
  pod_ContainerStatuses :: "ContainerStatus list"

section \<open>Owned objects\<close>

record StatefulSetSpec =
  sts_Replicas :: "int option"
  sts_Selector :: LabelSelector
  sts_Template :: PodTemplateSpec
  sts_UpdateStrategy :: string
  sts_SpecRest :: opaque

record StatefulSet =
  sts_Meta :: ObjectMeta
  sts_Spec :: StatefulSetSpec
  sts_ObservedGeneration :: int
  sts_UpdateRevision :: string

record ServicePort =
  sp_Name :: string
  sp_TargetPort :: int
  sp_Port :: int
  sp_Protocol :: string
  sp_AppProtocol :: "string option"

text \<open>\<open>svc_SpecRest\<close> stands for \<open>spec.clusterIP\<close> and the fields like it that the API server fills in.\<close>

record Service =
  svc_Meta :: ObjectMeta
  svc_Ports :: "ServicePort list"
  svc_Selector :: str_map
  svc_Type :: string
  svc_SpecRest :: opaque

record ServiceAccount =
  sa_Meta :: ObjectMeta
  sa_Rest :: opaque

record RoleRef =
  rr_APIGroup :: string
  rr_Kind :: string
  rr_Name :: string

record Subject =
  sub_Kind :: string
  sub_Name :: string
  sub_Namespace :: string

record RoleBinding =
  rb_Meta :: ObjectMeta
  rb_RoleRef :: RoleRef
  rb_Subjects :: "Subject list"

record HeaderOperations =
  ho_Set :: "str_map option"
  ho_Add :: "str_map option"
  ho_Remove :: "string list"

record HTTPRoute =
  hr_RequestHeaders :: "HeaderOperations option"
  hr_RewriteUri :: "string option"
  hr_MatchUriPrefix :: string
  hr_DestinationHost :: string
  hr_DestinationPort :: int

record VirtualServiceSpec =
  vss_Gateways :: "string list"
  vss_Hosts :: "string list"
  vss_Http :: "HTTPRoute list"

record VirtualService =
  vs_Meta :: ObjectMeta
  vs_Spec :: VirtualServiceSpec

section \<open>Events, namespaces, config maps\<close>

record Event =
  evt_Type :: string
  evt_InvolvedKind :: string
  evt_InvolvedUID :: uid
  evt_InvolvedNamespace :: string
  evt_InvolvedName :: string
  evt_Reason :: string
  evt_Message :: string
  evt_LastTimestamp :: int

record ConfigMap =
  cm_Meta :: ObjectMeta
  cm_Data :: str_map
  cm_BinaryData :: str_map

end
