(* ===== verification/Api_Types.thy ===== *)
theory Api_Types
  imports K8s_Types
begin

text \<open>
  The custom resources of the program: \<open>Workspace\<close> (\<open>api/v1beta1/workspace_types.go\<close>) and
  \<open>WorkspaceKind\<close> (\<open>api/v1beta1/workspacekind_types.go\<close>). One record per Go struct, one
  datatype per Go enum. The string enum \<open>WorkspaceState\<close> gets a constructor for the zero value
  \<open>""\<close>, which a status that was never written holds.
\<close>

section \<open>Workspace: spec\<close>

record WorkspacePodMetadata =
  wpm_Labels :: str_map
  wpm_Annotations :: str_map

record PodVolumeMount =
  pvm_PVCName :: string
  pvm_MountPath :: string
  pvm_ReadOnly :: "bool option"

record PodSecretMount =
  psm_SecretName :: string
  psm_MountPath :: string
  psm_DefaultMode :: "int option"

record WorkspacePodVolumes =
  wv_Home :: "string option"
  wv_Data :: "PodVolumeMount list"
  wv_Secrets :: "PodSecretMount list"

record WorkspacePodOptions =
  wpo_ImageConfig :: string
  wpo_PodConfig :: string

record WorkspacePodTemplate =
  wpt_PodMetadata :: "WorkspacePodMetadata option"
  wpt_Volumes :: WorkspacePodVolumes
  wpt_Options :: WorkspacePodOptions

record WorkspaceSpec =
  ws_Paused :: bool
  ws_DisplayName :: "string option"
  ws_Kind :: string
  ws_PodTemplate :: WorkspacePodTemplate

section \<open>Workspace: status\<close>

datatype WorkspaceProbeResult = ProbeSuccess | ProbeFailure | ProbeTimeout

record WorkspaceActivityLastProbe =
  lp_StartTime :: int
  lp_EndTime :: int
  lp_Result :: WorkspaceProbeResult
  lp_Message :: string

record WorkspaceActivityPauseRule =
  pr_EligibleAfter :: int

record WorkspaceActivityRules =
  war_PauseWorkspace :: "WorkspaceActivityPauseRule option"

record WorkspaceActivity =
  wa_LastActivity :: int
  wa_LastUpdate :: int
  wa_LastProbe :: "WorkspaceActivityLastProbe option"
  wa_Rules :: "WorkspaceActivityRules option"

record WorkspacePodOptionRedirectStep =
  rs_Source :: string
  rs_Target :: string

record WorkspacePodOptionInfo =
  oi_Desired :: string
  oi_RedirectChain :: "WorkspacePodOptionRedirectStep list"

record WorkspacePodOptionsStatus =
  os_ImageConfig :: WorkspacePodOptionInfo
  os_PodConfig :: WorkspacePodOptionInfo

record WorkspacePodStatus =
  wps_Name :: string
  wps_UID :: uid
  wps_NodeName :: string
  wps_ServiceAccountName :: string
  wps_Containers :: "string list"
  wps_InitContainers :: "string list"

record WorkspaceStatefulSetStatus =
  wss_Name :: string
  wss_UID :: uid

datatype WorkspaceState =
    WorkspaceStateUnset
  | WorkspaceStateRunning
  | WorkspaceStateTerminating
  | WorkspaceStatePaused
  | WorkspaceStatePending
  | WorkspaceStateError
  | WorkspaceStateUnknown

record WorkspaceStatus =
  st_Activity :: WorkspaceActivity
  st_LastRunningTime :: int
  st_PauseTime :: int
  st_PendingRestart :: bool
  st_PodTemplateOptions :: WorkspacePodOptionsStatus
  st_PodTemplatePod :: WorkspacePodStatus
  st_PodTemplateStatefulSet :: WorkspaceStatefulSetStatus
  st_State :: WorkspaceState
  st_StateMessage :: string

record Workspace =
  w_Meta :: ObjectMeta
  w_Spec :: WorkspaceSpec
  w_Status :: WorkspaceStatus

section \<open>WorkspaceKind: activity\<close>

definition DefaultProbeIntervalSeconds :: int where
  "DefaultProbeIntervalSeconds = 3600"

definition DefaultMinProbeIntervalSeconds :: int where
  "DefaultMinProbeIntervalSeconds = 300"

definition DefaultPodExecTimeoutSeconds :: int where
  "DefaultPodExecTimeoutSeconds = 60"

record ActivityRuleConfig =
  arc_SecondsSinceActive :: int
  arc_MinRunningSeconds :: "int option"

text \<open>\<open>ActivityRuleSelector\<close> and \<open>FilterRuleSelector\<close> wrap one label selector.\<close>

record ActivityRuleMatch =
  arm_MatchNamespace :: "LabelSelector option"
  arm_MatchPodConfig :: "LabelSelector option"

record ActivityRuleEffect =
  are_PauseWorkspace :: "bool option"

record ActivityRule =
  ar_Config :: ActivityRuleConfig
  ar_Match :: "ActivityRuleMatch list"
  ar_Effect :: ActivityRuleEffect

record ActivityProbePodExec =
  pe_TimeoutSeconds :: "int option"
  pe_Script :: string

record ActivityProbe =
  ap_MinProbeIntervalSeconds :: "int option"
  ap_ProbeIntervalSeconds :: "int option"
  ap_PodExec :: ActivityProbePodExec

section \<open>WorkspaceKind: spawner, pod template, options\<close>

record WorkspaceKindAssetConfigMap =
  acm_Name :: string
  acm_Namespace :: string
  acm_Key :: string
  acm_MediaType :: string

record WorkspaceKindAsset =
  as_Url :: "string option"
  as_ConfigMap :: "WorkspaceKindAssetConfigMap option"

record WorkspaceKindSpawner =
  sw_DisplayName :: string
  sw_Description :: string
  sw_Hidden :: "bool option"
  sw_Deprecated :: "bool option"
  sw_DeprecationMessage :: "string option"
  sw_Icon :: WorkspaceKindAsset
  sw_Logo :: WorkspaceKindAsset

text \<open>
  \<open>WorkspaceKindPodMetadata\<close>, \<open>WorkspaceKindStatefulSetMetadata\<close> and
  \<open>WorkspaceKindServiceAccountMetadata\<close> have the same two fields.
\<close>

record WorkspaceKindMetadata =
  km_Labels :: str_map
  km_Annotations :: str_map

record WorkspaceKindServiceAccount =
  ksa_ClusterRoles :: "string list"
  ksa_Metadata :: "WorkspaceKindMetadata option"

record WorkspaceKindMainContainer =
  mc_SecurityContext :: "opaque option"
  mc_StartupProbe :: "opaque option"
  mc_LivenessProbe :: "opaque option"
  mc_ReadinessProbe :: "opaque option"
  mc_ExtraEnv :: "EnvVar list"
  mc_ExtraVolumeMounts :: "VolumeMount list"

record WorkspaceKindPodSpec =
  kps_SchedulerName :: "string option"
  kps_SecurityContext :: "opaque option"
  kps_ExtraVolumes :: "Volume list"
  kps_MainContainer :: WorkspaceKindMainContainer

record IstioHeaderOperations =
  iho_Set :: "str_map option"
  iho_Add :: "str_map option"
  iho_Remove :: "string list"

record HTTPProxy =
  hp_RemovePathPrefix :: "bool option"
  hp_RequestHeaders :: "IstioHeaderOperations option"

text \<open>\<open>ImagePortProtocol\<close> is a string type with one constant, \<open>"HTTP"\<close>.\<close>

datatype ImagePortProtocol = ImagePortProtocolHTTP | ImagePortProtocolOther string

record WorkspaceKindPort =
  kp_Id :: string
  kp_Protocol :: ImagePortProtocol
  kp_DefaultDisplayName :: string
  kp_HTTPProxy :: "HTTPProxy option"

record ImagePort =
  ip_Id :: string
  ip_Port :: int
  ip_DisplayName :: "string option"

record ImageConfigSpec =
  ics_Image :: string
  ics_ImagePullPolicy :: "string option"
  ics_Ports :: "ImagePort list"

record PodConfigSpec =
  pcs_Affinity :: "opaque option"
  pcs_NodeSelector :: str_map
  pcs_Tolerations :: opaque
  pcs_Resources :: "opaque option"
  pcs_SchedulerName :: "string option"
  pcs_PodMetadata :: "WorkspaceKindMetadata option"
  pcs_StatefulSetMetadata :: "WorkspaceKindMetadata option"
  pcs_ExtraEnv :: "EnvVar list"

record OptionSpawnerLabel =
  osl_Key :: string
  osl_Value :: string

record OptionSpawnerInfo =
  osi_DisplayName :: string
  osi_Description :: "string option"
  osi_Labels :: "OptionSpawnerLabel list"
  osi_Hidden :: "bool option"

datatype RedirectMessageLevel =
    RedirectMessageLevelInfo | RedirectMessageLevelWarning | RedirectMessageLevelDanger

record RedirectMessage =
  rm_Level :: RedirectMessageLevel
  rm_Text :: string

record OptionRedirect =
  redir_To :: string
  redir_Message :: "RedirectMessage option"

record ImageConfigValue =
  icv_Id :: string
  icv_Spawner :: OptionSpawnerInfo
  icv_Redirect :: "OptionRedirect option"
  icv_Spec :: ImageConfigSpec

record PodConfigValue =
  pcv_Id :: string
  pcv_Spawner :: OptionSpawnerInfo
  pcv_Redirect :: "OptionRedirect option"
  pcv_Spec :: PodConfigSpec

text \<open>\<open>ic_Default\<close> and \<open>pcf_Default\<close> are \<open>spawner.default\<close> of \<open>ImageConfig\<close> and \<open>PodConfig\<close>.\<close>

record ImageConfig =
  ic_Default :: string
  ic_Values :: "ImageConfigValue list"

record PodConfig =
  pcf_Default :: string
  pcf_Values :: "PodConfigValue list"

record WorkspaceKindPodTemplate =
  kpt_PodMetadata :: "WorkspaceKindMetadata option"
  kpt_StatefulSetMetadata :: "WorkspaceKindMetadata option"
  kpt_ServiceAccount :: "WorkspaceKindServiceAccount option"
  kpt_ActivityProbe :: "ActivityProbe option"
  kpt_PodSpec :: WorkspaceKindPodSpec
  kpt_HomeMountPath :: string
  kpt_Ports :: "WorkspaceKindPort list"
  kpt_ImageConfig :: ImageConfig
  kpt_PodConfig :: PodConfig

section \<open>WorkspaceKind: filter rules\<close>

datatype FilterRuleScope =
    FilterRuleScopeWorkspaceKind | FilterRuleScopePodConfig | FilterRuleScopeImageConfig

record FilterRuleEffectUI =
  fru_Hide :: bool

record FilterRuleEffectAPI =
  fra_Hide :: "bool option"
  fra_Deny :: "bool option"
  fra_DenyMessage :: "string option"

record FilterRuleEffect =
  fre_UI :: "FilterRuleEffectUI option"
  fre_API :: "FilterRuleEffectAPI option"

record FilterRuleMatch =
  frm_MatchNamespace :: "LabelSelector option"
  frm_MatchImageConfig :: "LabelSelector option"
  frm_MatchPodConfig :: "LabelSelector option"

record FilterRule =
  fr_Scope :: FilterRuleScope
  fr_Effect :: FilterRuleEffect
  fr_Match :: "FilterRuleMatch list"

section \<open>WorkspaceKind: spec and status\<close>

record WorkspaceKindSpec =
  wks_Spawner :: WorkspaceKindSpawner
  wks_PodTemplate :: WorkspaceKindPodTemplate
  wks_ActivityRules :: "ActivityRule list"
  wks_FilterRules :: "FilterRule list"

datatype ConfigMapError =
    ConfigMapErrorNotFound | ConfigMapErrorKeyNotFound | ConfigMapErrorOther

record WorkspaceKindAssetConfigMapStatus =
  cms_Error :: "ConfigMapError option"
  cms_ErrorMessage :: "string option"

record ImageAssetStatus =
  ias_Sha256 :: string
  ias_ConfigMap :: "WorkspaceKindAssetConfigMapStatus option"

record OptionMetric =
  omt_Id :: string
  omt_Workspaces :: int

record PodTemplateOptionsMetrics =
  ptm_ImageConfig :: "OptionMetric list"
  ptm_PodConfig :: "OptionMetric list"

record WorkspaceKindStatus =
  wkst_Workspaces :: int
  wkst_PodTemplateOptions :: PodTemplateOptionsMetrics
  wkst_SpawnerIcon :: ImageAssetStatus
  wkst_SpawnerLogo :: ImageAssetStatus

record WorkspaceKind =
  wk_Meta :: ObjectMeta
  wk_Spec :: WorkspaceKindSpec
  wk_Status :: WorkspaceKindStatus

section \<open>Zero values and paths through the records\<close>

definition WorkspaceActivity_zero :: WorkspaceActivity where
  "WorkspaceActivity_zero =
     \<lparr>wa_LastActivity = 0, wa_LastUpdate = 0, wa_LastProbe = None, wa_Rules = None\<rparr>"

definition WorkspacePodStatus_zero :: WorkspacePodStatus where
  "WorkspacePodStatus_zero =
     \<lparr>wps_Name = [], wps_UID = [], wps_NodeName = [], wps_ServiceAccountName = [],
      wps_Containers = [], wps_InitContainers = []\<rparr>"

definition WorkspaceStatefulSetStatus_zero :: WorkspaceStatefulSetStatus where
  "WorkspaceStatefulSetStatus_zero = \<lparr>wss_Name = [], wss_UID = []\<rparr>"

definition ImageAssetStatus_zero :: ImageAssetStatus where
  "ImageAssetStatus_zero = \<lparr>ias_Sha256 = [], ias_ConfigMap = None\<rparr>"

abbreviation w_Name :: "Workspace \<Rightarrow> string" where
  "w_Name w \<equiv> om_Name (w_Meta w)"

abbreviation w_Namespace :: "Workspace \<Rightarrow> string" where
  "w_Namespace w \<equiv> om_Namespace (w_Meta w)"

abbreviation w_Options :: "Workspace \<Rightarrow> WorkspacePodOptions" where
  "w_Options w \<equiv> wpt_Options (ws_PodTemplate (w_Spec w))"

abbreviation wk_Name :: "WorkspaceKind \<Rightarrow> string" where
  "wk_Name k \<equiv> om_Name (wk_Meta k)"

abbreviation wk_PodTemplate :: "WorkspaceKind \<Rightarrow> WorkspaceKindPodTemplate" where
  "wk_PodTemplate k \<equiv> wks_PodTemplate (wk_Spec k)"

abbreviation wk_ImageConfigValues :: "WorkspaceKind \<Rightarrow> ImageConfigValue list" where
  "wk_ImageConfigValues k \<equiv> ic_Values (kpt_ImageConfig (wk_PodTemplate k))"

abbreviation wk_PodConfigValues :: "WorkspaceKind \<Rightarrow> PodConfigValue list" where
  "wk_PodConfigValues k \<equiv> pcf_Values (kpt_PodConfig (wk_PodTemplate k))"

section \<open>Controller configuration\<close>

text \<open>\<open>config.EnvConfig\<close>; the client rate is a float that the program only hands on.\<close>

record EnvConfig =
  cfg_IstioGateway :: string
  cfg_IstioHosts :: string
  cfg_ClusterDomain :: string
  cfg_UseIstio :: bool
  cfg_WatchWarningEvents :: bool
  cfg_ClientQPS :: opaque
  cfg_ClientBurst :: int

end
