(* ===== verification/K8s_Lib.thy ===== *)
theory K8s_Lib
  imports Api_Types
begin

text \<open>
  The functions of other packages the program calls (Kubernetes apimachinery, controller-runtime,
  Istio, structured-merge-diff, \<open>text/template\<close>), as one record of parameters. Every definition that
  calls one takes the record \<open>K\<close> as its first argument. What a theorem needs of such a function is a
  hypothesis of that theorem, stated with the predicates at the end of this theory, each of which
  says what the function's documentation says. \<open>lib0\<close> is a concrete instance for witnesses.
\<close>

section \<open>Field errors\<close>

text \<open>
  \<open>field.Error\<close> of apimachinery: the constructors the program calls. A path is its rendered form,
  for example \<open>spec.podTemplate.ports[0].id\<close>.
\<close>

datatype field_error =
    FieldInvalid (fe_Path: string) (fe_BadValue: string) (fe_Detail: string)
  | FieldRequired (fe_Path: string) (fe_Detail: string)
  | FieldForbidden (fe_Path: string) (fe_Detail: string)
  | FieldInternalError (fe_Path: string) (fe_Cause: go_error)

text \<open>\<open>path.Child(a)\<close>, \<open>path.Key(k)\<close> and \<open>path.Index(i)\<close>.\<close>

definition path_Child :: "string \<Rightarrow> string \<Rightarrow> string" where
  "path_Child p c = p @ ''.'' @ c"

definition path_Key :: "string \<Rightarrow> string \<Rightarrow> string" where
  "path_Key p k = p @ ''['' @ k @ '']''"

definition path_Index :: "string \<Rightarrow> nat \<Rightarrow> string" where
  "path_Index p i = p @ ''['' @ nat_digits i @ '']''"

section \<open>The parameters\<close>

type_synonym selector = "str_map \<Rightarrow> bool"
type_synonym field_path = "string list"

record k8s_lib =
  GetControllerOf :: "ObjectMeta \<Rightarrow> OwnerReference option"
  SetControllerReference :: "ObjectMeta \<Rightarrow> ObjectMeta \<Rightarrow> go_error + ObjectMeta"
  ParseGroupVersion :: "string \<Rightarrow> go_error + string \<times> string"
  FieldSetFromJSON :: "string \<Rightarrow> go_error + field_path list"
  LabelSelectorAsSelector :: "LabelSelector \<Rightarrow> go_error + selector"
  FormatLabelSelector :: "LabelSelector \<Rightarrow> string"
  labels_Merge :: "str_map \<Rightarrow> str_map \<Rightarrow> str_map"
  eq_LabelSelector :: "LabelSelector \<Rightarrow> LabelSelector \<Rightarrow> bool"
  eq_PodTemplateSpec :: "PodTemplateSpec \<Rightarrow> PodTemplateSpec \<Rightarrow> bool"
  eq_UpdateStrategy :: "string \<Rightarrow> string \<Rightarrow> bool"
  eq_ServicePorts :: "ServicePort list \<Rightarrow> ServicePort list \<Rightarrow> bool"
  eq_StringMap :: "str_map \<Rightarrow> str_map \<Rightarrow> bool"
  eq_Subjects :: "Subject list \<Rightarrow> Subject list \<Rightarrow> bool"
  eq_VirtualServiceSpec :: "VirtualServiceSpec \<Rightarrow> VirtualServiceSpec \<Rightarrow> bool"
  eq_WorkspaceStatus :: "WorkspaceStatus \<Rightarrow> WorkspaceStatus \<Rightarrow> bool"
  eq_WorkspaceKindStatus :: "WorkspaceKindStatus \<Rightarrow> WorkspaceKindStatus \<Rightarrow> bool"
  eq_WorkspacePodMetadata :: "WorkspacePodMetadata option \<Rightarrow> WorkspacePodMetadata option \<Rightarrow> bool"
  eq_KindMetadata :: "WorkspaceKindMetadata option \<Rightarrow> WorkspaceKindMetadata option \<Rightarrow> bool"
  eq_EnvVars :: "EnvVar list \<Rightarrow> EnvVar list \<Rightarrow> bool"
  eq_KindPorts :: "WorkspaceKindPort list \<Rightarrow> WorkspaceKindPort list \<Rightarrow> bool"
  eq_FilterRules :: "FilterRule list \<Rightarrow> FilterRule list \<Rightarrow> bool"
  eq_ActivityProbe :: "ActivityProbe option \<Rightarrow> ActivityProbe option \<Rightarrow> bool"
  eq_ActivityRules :: "ActivityRule list \<Rightarrow> ActivityRule list \<Rightarrow> bool"
  eq_Redirect :: "OptionRedirect option \<Rightarrow> OptionRedirect option \<Rightarrow> bool"
  eq_ImageConfigSpec :: "ImageConfigSpec \<Rightarrow> ImageConfigSpec \<Rightarrow> bool"
  eq_PodConfigSpec :: "PodConfigSpec \<Rightarrow> PodConfigSpec \<Rightarrow> bool"
  IsDNS1123Label :: "string \<Rightarrow> string list"
  ValidateLabels :: "str_map \<Rightarrow> string \<Rightarrow> field_error list"
  ValidateAnnotations :: "str_map \<Rightarrow> string \<Rightarrow> field_error list"
  ValidateLabelSelector :: "LabelSelector \<Rightarrow> string \<Rightarrow> field_error list"
  template_Parse :: "string \<Rightarrow> go_error + ((string \<Rightarrow> string) \<Rightarrow> go_error + string)"

text \<open>\<open>ctrl.Result\<close> of controller-runtime.\<close>

record Result =
  res_Requeue :: bool
  res_RequeueAfter :: duration

definition Result_zero :: Result where
  "Result_zero = \<lparr>res_Requeue = False, res_RequeueAfter = 0\<rparr>"

section \<open>A concrete instance\<close>

definition controller_refs :: "OwnerReference list \<Rightarrow> OwnerReference list" where
  "controller_refs refs = filter (\<lambda>r. or_Controller r = Some True) refs"

definition GetControllerOf0 :: "ObjectMeta \<Rightarrow> OwnerReference option" where
  "GetControllerOf0 m = (case controller_refs (om_OwnerReferences m) of [] \<Rightarrow> None | r # _ \<Rightarrow> Some r)"

definition SetControllerReference0 :: "ObjectMeta \<Rightarrow> ObjectMeta \<Rightarrow> go_error + ObjectMeta" where
  "SetControllerReference0 owner m =
     (case GetControllerOf0 m of
       Some r \<Rightarrow>
         if or_UID r = om_UID owner then Inr m
         else Inl (ErrOther (''Object is already owned by another controller ''  @ or_Name r))
     | None \<Rightarrow>
         Inr (m\<lparr>om_OwnerReferences := om_OwnerReferences m @
                [\<lparr>or_APIVersion = ''kubeflow.org/v1beta1'', or_Kind = ''Workspace'',
                  or_Name = om_Name owner, or_UID = om_UID owner, or_Controller = Some True\<rparr>]\<rparr>))"

definition ParseGroupVersion0 :: "string \<Rightarrow> go_error + string \<times> string" where
  "ParseGroupVersion0 s =
     (let g = takeWhile (\<lambda>c. c \<noteq> CHR ''/'') s; v = drop (Suc (length g)) s
      in if CHR ''/'' \<notin> set s then Inr ([], s)
         else if CHR ''/'' \<in> set v then Inl (ErrOther (''unexpected GroupVersion string: '' @ s))
         else Inr (g, v))"

definition LabelSelectorAsSelector0 :: "LabelSelector \<Rightarrow> go_error + selector" where
  "LabelSelectorAsSelector0 sel =
     (if ls_MatchExpressions sel = []
      then Inr (\<lambda>lbls. list_all (\<lambda>(k, v). map_of lbls k = Some v) (ls_MatchLabels sel))
      else Inl (ErrOther ''match expressions are not part of this instance''))"

definition lib0 :: k8s_lib where
  "lib0 =
     \<lparr>GetControllerOf = GetControllerOf0,
      SetControllerReference = SetControllerReference0,
      ParseGroupVersion = ParseGroupVersion0,
      FieldSetFromJSON = (\<lambda>s. Inr [[''metadata'', ''labels'', s]]),
      LabelSelectorAsSelector = LabelSelectorAsSelector0,
      FormatLabelSelector = (\<lambda>sel. concat (map (\<lambda>(k, v). k @ ''='' @ v) (ls_MatchLabels sel))),
      labels_Merge = (\<lambda>a b. maps_Copy (maps_Copy [] a) b),
      eq_LabelSelector = (=),
      eq_PodTemplateSpec = (=),
      eq_UpdateStrategy = (=),
      eq_ServicePorts = (=),
      eq_StringMap = (=),
      eq_Subjects = (=),
      eq_VirtualServiceSpec = (=),
      eq_WorkspaceStatus = (=),
      eq_WorkspaceKindStatus = (=),
      eq_WorkspacePodMetadata = (=),
      eq_KindMetadata = (=),
      eq_EnvVars = (=),
      eq_KindPorts = (=),
      eq_FilterRules = (=),
      eq_ActivityProbe = (=),
      eq_ActivityRules = (=),
      eq_Redirect = (=),
      eq_ImageConfigSpec = (=),
      eq_PodConfigSpec = (=),
      IsDNS1123Label = (\<lambda>s. if s = [] then [''must not be empty''] else []),
      ValidateLabels = (\<lambda>m p. []),
      ValidateAnnotations = (\<lambda>m p. []),
      ValidateLabelSelector = (\<lambda>s p. []),
      template_Parse = (\<lambda>s. Inr (\<lambda>f. Inr s))\<rparr>"

section \<open>What the documentation of the parameters says\<close>

text \<open>
  \<open>GetControllerOf\<close>: "returns a pointer to a copy of the controllerRef if controllee has a
  controller"; there is one exactly if an owner reference has \<open>controller: true\<close>.
\<close>

definition GetControllerOf_spec :: "k8s_lib \<Rightarrow> bool" where
  "GetControllerOf_spec K \<longleftrightarrow>
     (\<forall>m. (case GetControllerOf K m of
             None \<Rightarrow> controller_refs (om_OwnerReferences m) = []
           | Some r \<Rightarrow> r \<in> set (controller_refs (om_OwnerReferences m))))"

text \<open>
  \<open>SetControllerReference\<close>: "sets owner as a Controller OwnerReference on controlled ... Since only
  one OwnerReference can be a controller, it returns an error if there is another OwnerReference
  with Controller flag set." It changes nothing but the owner references. It also fails for other
  reasons (an owner in another namespace, a type the scheme does not know), so the predicate only
  speaks of calls that succeed.
\<close>

definition SetControllerReference_spec :: "k8s_lib \<Rightarrow> bool" where
  "SetControllerReference_spec K \<longleftrightarrow>
     (\<forall>owner m m'. controller_refs (om_OwnerReferences m) = [] \<longrightarrow>
        SetControllerReference K owner m = Inr m' \<longrightarrow>
        (\<exists>refs ref. m' = m\<lparr>om_OwnerReferences := refs\<rparr> \<and>
               controller_refs refs = [ref] \<and> or_UID ref = om_UID owner \<and>
               or_Name ref = om_Name owner \<and> or_Kind ref = ''Workspace'' \<and>
               or_APIVersion ref = ''kubeflow.org/v1beta1''))"

text \<open>
  \<open>labels.Merge\<close>: "combines given maps ... In case of conflicts, second map (labels2) wins". Like every
  Go map the result has distinct keys.
\<close>

definition labels_Merge_spec :: "k8s_lib \<Rightarrow> bool" where
  "labels_Merge_spec K \<longleftrightarrow>
     (\<forall>a b. wf_map a \<longrightarrow> wf_map b \<longrightarrow> wf_map (labels_Merge K a b) \<and>
        (\<forall>k. map_of (labels_Merge K a b) k = (case map_of b k of Some v \<Rightarrow> Some v | None \<Rightarrow> map_of a k)))"

text \<open>\<open>equality.Semantic.DeepEqual\<close> and \<open>proto.Equal\<close> accept identical values.\<close>

definition deep_equal_refl :: "('a \<Rightarrow> 'a \<Rightarrow> bool) \<Rightarrow> bool" where
  "deep_equal_refl eq \<longleftrightarrow> (\<forall>x. eq x x)"

lemma deep_equal_reflD [simp]: "deep_equal_refl eq \<Longrightarrow> eq x x"
  by (simp add: deep_equal_refl_def)

lemma deep_equal_refl_eq [simp]: "deep_equal_refl (=)"
  by (simp add: deep_equal_refl_def)

lemma lib0_GetControllerOf: "GetControllerOf_spec lib0"
proof -
  have "case GetControllerOf0 m of
      None \<Rightarrow> controller_refs (om_OwnerReferences m) = []
    | Some r \<Rightarrow> r \<in> set (controller_refs (om_OwnerReferences m))" for m
    by (simp add: GetControllerOf0_def split: list.splits)
  then show ?thesis
    by (simp add: GetControllerOf_spec_def lib0_def)
qed

lemma lib0_SetControllerReference: "SetControllerReference_spec lib0"
  unfolding SetControllerReference_spec_def
proof (intro allI impI)
  fix owner m m' :: ObjectMeta
  let ?ref = "\<lparr>or_APIVersion = ''kubeflow.org/v1beta1'', or_Kind = ''Workspace'',
    or_Name = om_Name owner, or_UID = om_UID owner, or_Controller = Some True\<rparr>"
  assume none: "controller_refs (om_OwnerReferences m) = []"
  assume "SetControllerReference lib0 owner m = Inr m'"
  with none have "m' = m\<lparr>om_OwnerReferences := om_OwnerReferences m @ [?ref]\<rparr>"
    by (simp add: lib0_def SetControllerReference0_def GetControllerOf0_def)
  moreover from none have "controller_refs (om_OwnerReferences m @ [?ref]) = [?ref]"
    by (simp add: controller_refs_def)
  ultimately show "\<exists>refs ref. m' = m\<lparr>om_OwnerReferences := refs\<rparr> \<and>
      controller_refs refs = [ref] \<and> or_UID ref = om_UID owner \<and> or_Name ref = om_Name owner \<and>
      or_Kind ref = ''Workspace'' \<and> or_APIVersion ref = ''kubeflow.org/v1beta1''"
    by force
qed

lemma lib0_labels_Merge: "labels_Merge_spec lib0"
  by (auto simp: labels_Merge_spec_def lib0_def wf_maps_Copy map_of_maps_Copy split: option.splits)

end
