(* ===== verification/Activity.thy ===== *)
theory Activity
  imports K8s_Lib
begin

text \<open>
  \<open>internal/helper/activity.go\<close>: which activity rule applies to a Workspace, and when the Workspace
  may be paused. The process-wide \<open>selectorCache\<close> is explicit state, passed in and returned; the
  theorem \<open>EvaluateActivityRule_refines\<close> shows that it does not change any decision.
\<close>

section \<open>Selectors and their cache\<close>

text \<open>\<open>cachedSelector\<close>: the result of the parse, selector or error.\<close>

type_synonym selector_cache = "(string, go_error + selector) go_map"

definition selectorMatches ::
  "k8s_lib \<Rightarrow> LabelSelector option \<Rightarrow> str_map \<Rightarrow> selector_cache \<Rightarrow> (go_error + bool) \<times> selector_cache" where
  "selectorMatches K selector lbls cache =
     (case selector of
       None \<Rightarrow> (Inr True, cache)
     | Some selector \<Rightarrow>
         (let key = FormatLabelSelector K selector;
              (res, cache) =
                (case map_of cache key of
                  Some c \<Rightarrow> (c, cache)
                | None \<Rightarrow>
                    (let c = LabelSelectorAsSelector K selector in (c, AList.update key c cache)))
          in case res of
               Inl err \<Rightarrow> (Inl err, cache)
             | Inr sel \<Rightarrow> (Inr (sel lbls), cache)))"

fun activityRuleMatches_loop ::
  "k8s_lib \<Rightarrow> nat \<Rightarrow> ActivityRuleMatch list \<Rightarrow> str_map \<Rightarrow> str_map \<Rightarrow> selector_cache
   \<Rightarrow> (go_error + bool) \<times> selector_cache" where
  "activityRuleMatches_loop K i [] namespaceLabels podConfigLabels cache = (Inr True, cache)"
| "activityRuleMatches_loop K i (match # matches) namespaceLabels podConfigLabels cache =
     (let target =
            (case arm_MatchNamespace match of
              Some selector \<Rightarrow> Some (selector, namespaceLabels)
            | None \<Rightarrow>
                (case arm_MatchPodConfig match of
                  Some selector \<Rightarrow> Some (selector, podConfigLabels)
                | None \<Rightarrow> None))
      in case target of
           None \<Rightarrow> (Inl (ErrOther (''match['' @ nat_digits i @ ''] does not specify a matcher'')), cache)
         | Some (selector, targetLabels) \<Rightarrow>
             (case selectorMatches K (Some selector) targetLabels cache of
               (Inl err, cache) \<Rightarrow> (Inl err, cache)
             | (Inr ok, cache) \<Rightarrow>
                 if \<not> ok then (Inr False, cache)
                 else activityRuleMatches_loop K (Suc i) matches namespaceLabels podConfigLabels cache))"

definition activityRuleMatches ::
  "k8s_lib \<Rightarrow> ActivityRuleMatch list \<Rightarrow> str_map \<Rightarrow> str_map \<Rightarrow> selector_cache
   \<Rightarrow> (go_error + bool) \<times> selector_cache" where
  "activityRuleMatches K matches namespaceLabels podConfigLabels cache =
     activityRuleMatches_loop K 0 matches namespaceLabels podConfigLabels cache"

section \<open>Rules\<close>

text \<open>\<open>ActivityRuleDecision[T]\<close>.\<close>

record 'a ActivityRuleDecision =
  ard_Matched :: bool
  ard_Value :: 'a
  ard_SecondsSinceActive :: int
  ard_MinRunningSeconds :: int

text \<open>\<open>zero\<close> is the zero value of the effect's type \<open>T\<close>.\<close>

definition no_decision :: "'a \<Rightarrow> 'a ActivityRuleDecision" where
  "no_decision zero =
     \<lparr>ard_Matched = False, ard_Value = zero, ard_SecondsSinceActive = 0, ard_MinRunningSeconds = 0\<rparr>"

definition rule_decision :: "ActivityRule \<Rightarrow> 'a \<Rightarrow> 'a ActivityRuleDecision" where
  "rule_decision rule effect =
     \<lparr>ard_Matched = True, ard_Value = effect,
      ard_SecondsSinceActive = arc_SecondsSinceActive (ar_Config rule),
      ard_MinRunningSeconds =
        (case arc_MinRunningSeconds (ar_Config rule) of None \<Rightarrow> 0 | Some s \<Rightarrow> s)\<rparr>"

fun EvaluateActivityRule_loop ::
  "k8s_lib \<Rightarrow> 'a \<Rightarrow> nat \<Rightarrow> ActivityRule list \<Rightarrow> str_map \<Rightarrow> str_map \<Rightarrow> (ActivityRuleEffect \<Rightarrow> 'a option)
   \<Rightarrow> selector_cache \<Rightarrow> (go_error + 'a ActivityRuleDecision) \<times> selector_cache" where
  "EvaluateActivityRule_loop K zero i [] namespaceLabels podConfigLabels getEffect cache =
     (Inr (no_decision zero), cache)"
| "EvaluateActivityRule_loop K zero i (rule # rules) namespaceLabels podConfigLabels getEffect cache =
     (case getEffect (ar_Effect rule) of
       None \<Rightarrow> EvaluateActivityRule_loop K zero (Suc i) rules namespaceLabels podConfigLabels getEffect cache
     | Some effect \<Rightarrow>
         (case activityRuleMatches K (ar_Match rule) namespaceLabels podConfigLabels cache of
           (Inl err, cache) \<Rightarrow>
             (Inl (errorf_w (''failed to evaluate match for activityRule['' @ nat_digits i @ '']: '') err), cache)
         | (Inr matched, cache) \<Rightarrow>
             if \<not> matched
             then EvaluateActivityRule_loop K zero (Suc i) rules namespaceLabels podConfigLabels getEffect cache
             else (Inr (rule_decision rule effect), cache)))"

definition EvaluateActivityRule ::
  "k8s_lib \<Rightarrow> 'a \<Rightarrow> ActivityRule list \<Rightarrow> str_map \<Rightarrow> str_map \<Rightarrow> (ActivityRuleEffect \<Rightarrow> 'a option)
   \<Rightarrow> selector_cache \<Rightarrow> (go_error + 'a ActivityRuleDecision) \<times> selector_cache" where
  "EvaluateActivityRule K zero rules namespaceLabels podConfigLabels getEffect cache =
     EvaluateActivityRule_loop K zero 0 rules namespaceLabels podConfigLabels getEffect cache"

definition EvaluatePauseWorkspaceRule ::
  "k8s_lib \<Rightarrow> ActivityRule list \<Rightarrow> str_map \<Rightarrow> str_map \<Rightarrow> selector_cache
   \<Rightarrow> (go_error + bool ActivityRuleDecision) \<times> selector_cache" where
  "EvaluatePauseWorkspaceRule K rules namespaceLabels podConfigLabels cache =
     EvaluateActivityRule K False rules namespaceLabels podConfigLabels are_PauseWorkspace cache"

definition PodConfigLabelsToMap :: "PodConfigValue option \<Rightarrow> str_map" where
  "PodConfigLabelsToMap podConfig =
     (case podConfig of
       None \<Rightarrow> []
     | Some pc \<Rightarrow>
         fold (\<lambda>label result. AList.update (osl_Key label) (osl_Value label) result)
           (osi_Labels (pcv_Spawner pc)) [])"

section \<open>Timing\<close>

text \<open>\<open>secondsSinceActive\<close> and \<open>minRunningSeconds\<close> are \<open>int32\<close>, the times \<open>int64\<close> milliseconds.\<close>

definition CalculateEligibleAfter :: "int \<Rightarrow> int \<Rightarrow> int" where
  "CalculateEligibleAfter lastActivity secondsSinceActive =
     (if lastActivity \<le> 0 then 0
      else wrap64 (lastActivity + dur_Milliseconds (wrap64 (secondsSinceActive * time_Second))))"

definition IsEligibleForPause :: "int \<Rightarrow> int \<Rightarrow> int \<Rightarrow> int \<Rightarrow> int \<Rightarrow> bool \<times> int" where
  "IsEligibleForPause lastActivity lastRunningTime now secondsSinceActive minRunningSeconds =
     (let eligibleAfter = CalculateEligibleAfter lastActivity secondsSinceActive
      in if lastActivity \<le> 0 then (False, eligibleAfter)
         else if now < eligibleAfter then (False, eligibleAfter)
         else if 0 < minRunningSeconds
         then
           if lastRunningTime \<le> 0 then (False, eligibleAfter)
           else
             (let runningDuration = wrap64 (wrap64 (now - lastRunningTime) * time_Millisecond)
              in if runningDuration < wrap64 (minRunningSeconds * time_Second) then (False, eligibleAfter)
                 else (True, eligibleAfter))
         else (True, eligibleAfter))"

section \<open>The specification without a cache\<close>

definition match_target :: "ActivityRuleMatch \<Rightarrow> str_map \<Rightarrow> str_map \<Rightarrow> (LabelSelector \<times> str_map) option" where
  "match_target m ns pc =
     (case arm_MatchNamespace m of
       Some s \<Rightarrow> Some (s, ns)
     | None \<Rightarrow> map_option (\<lambda>s. (s, pc)) (arm_MatchPodConfig m))"

text \<open>A condition that can be evaluated: it has a matcher, and its selector parses.\<close>

definition match_valid :: "k8s_lib \<Rightarrow> ActivityRuleMatch \<Rightarrow> bool" where
  "match_valid K m \<longleftrightarrow>
     (case match_target m [] [] of
       None \<Rightarrow> False
     | Some (s, _) \<Rightarrow> \<exists>f. LabelSelectorAsSelector K s = Inr f)"

definition match_holds :: "k8s_lib \<Rightarrow> str_map \<Rightarrow> str_map \<Rightarrow> ActivityRuleMatch \<Rightarrow> bool" where
  "match_holds K ns pc m \<longleftrightarrow>
     (\<exists>s lbls f. match_target m ns pc = Some (s, lbls) \<and> LabelSelectorAsSelector K s = Inr f \<and> f lbls)"

text \<open>A rule applies to an effect if it configures the effect and all its conditions hold.\<close>

definition rule_applies ::
  "k8s_lib \<Rightarrow> str_map \<Rightarrow> str_map \<Rightarrow> (ActivityRuleEffect \<Rightarrow> 'a option) \<Rightarrow> ActivityRule \<Rightarrow> bool" where
  "rule_applies K ns pc getEffect rule \<longleftrightarrow>
     getEffect (ar_Effect rule) \<noteq> None \<and> list_all (match_holds K ns pc) (ar_Match rule)"

text \<open>
  What \<open>FormatLabelSelector\<close> is good for as a cache key: two selectors printed alike both parse, to
  selectors that accept the same labels, or both fail to parse.
\<close>

definition format_sound :: "k8s_lib \<Rightarrow> bool" where
  "format_sound K \<longleftrightarrow>
     (\<forall>s s'. FormatLabelSelector K s = FormatLabelSelector K s' \<longrightarrow>
        (case (LabelSelectorAsSelector K s, LabelSelectorAsSelector K s') of
          (Inr f, Inr f') \<Rightarrow> f = f'
        | (Inl _, Inl _) \<Rightarrow> True
        | _ \<Rightarrow> False))"

text \<open>Every cache entry was stored for some selector.\<close>

definition cache_ok :: "k8s_lib \<Rightarrow> selector_cache \<Rightarrow> bool" where
  "cache_ok K cache \<longleftrightarrow>
     (\<forall>key res. map_of cache key = Some res \<longrightarrow>
        (\<exists>s. FormatLabelSelector K s = key \<and> LabelSelectorAsSelector K s = res))"

section \<open>The cache is transparent\<close>

lemma cache_ok_empty [simp]: "cache_ok K []"
  by (simp add: cache_ok_def)

lemma cache_ok_update:
  "cache_ok K cache \<Longrightarrow> LabelSelectorAsSelector K s = r \<Longrightarrow>
   cache_ok K (AList.update (FormatLabelSelector K s) r cache)"
  by (auto simp: cache_ok_def update_conv)

lemma selectorMatches_cache: "cache_ok K cache \<Longrightarrow> cache_ok K (snd (selectorMatches K sel lbls cache))"
  by (auto simp: selectorMatches_def Let_def cache_ok_update split: option.splits sum.splits)

lemma selectorMatches_result:
  assumes "format_sound K" and "cache_ok K cache"
  shows "case LabelSelectorAsSelector K s of
      Inr f \<Rightarrow> fst (selectorMatches K (Some s) lbls cache) = Inr (f lbls)
    | Inl err \<Rightarrow> \<exists>err'. fst (selectorMatches K (Some s) lbls cache) = Inl err'"
proof (cases "map_of cache (FormatLabelSelector K s)")
  case None
  then show ?thesis
    by (simp add: selectorMatches_def Let_def split: sum.splits)
next
  case (Some c)
  with assms(2) obtain s' where "FormatLabelSelector K s' = FormatLabelSelector K s"
    and "LabelSelectorAsSelector K s' = c"
    unfolding cache_ok_def by blast
  with assms(1) have "case (c, LabelSelectorAsSelector K s) of
      (Inr f, Inr f') \<Rightarrow> f = f' | (Inl _, Inl _) \<Rightarrow> True | _ \<Rightarrow> False"
    unfolding format_sound_def by blast
  with Some show ?thesis
    by (auto simp: selectorMatches_def Let_def split: sum.splits)
qed

lemma match_target_cases:
  "match_target m ns pc =
     (case arm_MatchNamespace m of
       Some s \<Rightarrow> Some (s, ns)
     | None \<Rightarrow> (case arm_MatchPodConfig m of Some s \<Rightarrow> Some (s, pc) | None \<Rightarrow> None))"
  by (simp add: match_target_def split: option.splits)

lemma activityRuleMatches_loop_cache:
  "cache_ok K cache \<Longrightarrow> cache_ok K (snd (activityRuleMatches_loop K i ms ns pc cache))"
proof (induction K i ms ns pc cache rule: activityRuleMatches_loop.induct)
  case (2 K i m ms ns pc cache)
  show ?case
  proof (cases "match_target m ns pc")
    case None
    with 2 show ?thesis
      by (simp add: match_target_cases Let_def)
  next
    case (Some t)
    obtain s lbls where t: "t = (s, lbls)"
      by fastforce
    obtain r c where r: "selectorMatches K (Some s) lbls cache = (r, c)"
      by fastforce
    with selectorMatches_cache [OF 2(2), of "Some s" lbls] have "cache_ok K c"
      by simp
    with 2 Some t r show ?thesis
      by (auto simp: match_target_cases [symmetric] split: sum.splits)
  qed
qed simp

lemma activityRuleMatches_loop_result:
  "format_sound K \<Longrightarrow> cache_ok K cache \<Longrightarrow> list_all (match_valid K) ms \<Longrightarrow>
   fst (activityRuleMatches_loop K i ms ns pc cache) = Inr (list_all (match_holds K ns pc) ms)"
proof (induction K i ms ns pc cache rule: activityRuleMatches_loop.induct)
  case (2 K i m ms ns pc cache)
  from 2(4) obtain s lbls f where t: "match_target m ns pc = Some (s, lbls)"
    and f: "LabelSelectorAsSelector K s = Inr f"
    by (auto simp: match_valid_def match_target_cases split: option.splits)
  then have holds: "match_holds K ns pc m = f lbls"
    by (auto simp: match_holds_def)
  obtain r c where r: "selectorMatches K (Some s) lbls cache = (r, c)"
    by fastforce
  with selectorMatches_cache [OF 2(3), of "Some s" lbls] selectorMatches_result [OF 2(2,3), of s lbls] f
  have "cache_ok K c" and "r = Inr (f lbls)"
    by simp_all
  with 2 t r holds show ?case
    by (auto simp: match_target_cases [symmetric])
qed simp

text \<open>
  The decision the rules make, read off the list: the first rule that applies.
\<close>

definition first_rule_decision ::
  "k8s_lib \<Rightarrow> 'a \<Rightarrow> str_map \<Rightarrow> str_map \<Rightarrow> (ActivityRuleEffect \<Rightarrow> 'a option) \<Rightarrow> ActivityRule list
   \<Rightarrow> 'a ActivityRuleDecision" where
  "first_rule_decision K zero ns pc getEffect rules =
     (case find (rule_applies K ns pc getEffect) rules of
       None \<Rightarrow> no_decision zero
     | Some rule \<Rightarrow>
         (case getEffect (ar_Effect rule) of
           None \<Rightarrow> no_decision zero
         | Some effect \<Rightarrow> rule_decision rule effect))"

definition rules_valid :: "k8s_lib \<Rightarrow> ActivityRule list \<Rightarrow> bool" where
  "rules_valid K rules \<longleftrightarrow> list_all (\<lambda>rule. list_all (match_valid K) (ar_Match rule)) rules"

lemma EvaluateActivityRule_loop_cache:
  "cache_ok K cache \<Longrightarrow>
   cache_ok K (snd (EvaluateActivityRule_loop K zero i rules ns pc getEffect cache))"
proof (induction K zero i rules ns pc getEffect cache rule: EvaluateActivityRule_loop.induct)
  case (2 K zero i rule rules ns pc getEffect cache)
  obtain r c where r: "activityRuleMatches K (ar_Match rule) ns pc cache = (r, c)"
    by fastforce
  with activityRuleMatches_loop_cache [OF 2(3), of 0 "ar_Match rule" ns pc] have "cache_ok K c"
    by (simp add: activityRuleMatches_def)
  with 2 r show ?case
    by (auto split: option.splits sum.splits)
qed simp

lemma EvaluateActivityRule_loop_result:
  "format_sound K \<Longrightarrow> cache_ok K cache \<Longrightarrow> rules_valid K rules \<Longrightarrow>
   fst (EvaluateActivityRule_loop K zero i rules ns pc getEffect cache) =
     Inr (first_rule_decision K zero ns pc getEffect rules)"
proof (induction K zero i rules ns pc getEffect cache rule: EvaluateActivityRule_loop.induct)
  case (1 K zero i ns pc getEffect cache)
  then show ?case by (simp add: first_rule_decision_def)
next
  case (2 K zero i rule rules ns pc getEffect cache)
  show ?case
  proof (cases "getEffect (ar_Effect rule)")
    case None
    with 2 show ?thesis
      by (simp add: first_rule_decision_def rule_applies_def rules_valid_def)
  next
    case (Some effect)
    obtain r c where r: "activityRuleMatches K (ar_Match rule) ns pc cache = (r, c)"
      by fastforce
    with activityRuleMatches_loop_cache [OF 2(4), of 0 "ar_Match rule" ns pc]
      activityRuleMatches_loop_result [OF 2(3,4), of "ar_Match rule" 0 ns pc] 2(5)
    have "cache_ok K c" and "r = Inr (list_all (match_holds K ns pc) (ar_Match rule))"
      by (simp_all add: activityRuleMatches_def rules_valid_def)
    with 2 Some r show ?thesis
      by (auto simp: first_rule_decision_def rule_applies_def rules_valid_def)
  qed
qed

section \<open>Lemmas on timing\<close>

lemma seconds_no_wrap:
  assumes "is_int32 s"
  shows "wrap64 (s * time_Second) = s * time_Second"
    and "dur_Milliseconds (s * time_Second) = 1000 * s"
proof -
  show "wrap64 (s * time_Second) = s * time_Second"
    using assms by (intro wrap64_id) (auto simp: is_int64_def is_int32_def time_Second_def)
  have "s * time_Second = (1000 * s) * time_Millisecond"
    by (simp add: time_Second_def time_Millisecond_def)
  moreover have "0 < time_Millisecond"
    by (simp add: time_Millisecond_def)
  ultimately show "dur_Milliseconds (s * time_Second) = 1000 * s"
    unfolding dur_Milliseconds_def by (metis go_div_mult)
qed

text \<open>The times (in milliseconds since the epoch) up to the year 2191, for which no \<open>Duration\<close> overflows.\<close>

definition plausible_time :: "int \<Rightarrow> bool" where
  "plausible_time t \<longleftrightarrow> 0 \<le> t \<and> t \<le> 7000000000000"

lemma CalculateEligibleAfter_eq:
  assumes "is_int32 s" and "plausible_time la"
  shows "CalculateEligibleAfter la s = (if la \<le> 0 then 0 else la + 1000 * s)"
proof -
  have "is_int64 (la + 1000 * s)"
    using assms by (auto simp: is_int64_def is_int32_def plausible_time_def)
  with assms show ?thesis
    by (simp add: CalculateEligibleAfter_def seconds_no_wrap wrap64_id)
qed

lemma running_duration_eq:
  assumes "plausible_time now" and "plausible_time lr"
  shows "wrap64 (wrap64 (now - lr) * time_Millisecond) = (now - lr) * time_Millisecond"
proof -
  have "is_int64 (now - lr)" and "is_int64 ((now - lr) * time_Millisecond)"
    using assms by (auto simp: is_int64_def plausible_time_def time_Millisecond_def)
  then show ?thesis by (simp add: wrap64_id)
qed

lemma IsEligibleForPause_eq:
  assumes "is_int32 s" and "is_int32 m" and "plausible_time la" and "plausible_time lr"
    and "plausible_time now"
  shows "IsEligibleForPause la lr now s m =
    (0 < la \<and> la + 1000 * s \<le> now \<and> (0 < m \<longrightarrow> 0 < lr \<and> lr + 1000 * m \<le> now),
     if la \<le> 0 then 0 else la + 1000 * s)"
proof -
  have ms: "(now - lr) * time_Millisecond < m * time_Second \<longleftrightarrow> now - lr < 1000 * m"
  proof -
    have "m * time_Second = (1000 * m) * time_Millisecond"
      by (simp add: time_Millisecond_def time_Second_def)
    then show ?thesis
      by (simp only: mult_less_cancel_right_pos time_Millisecond_def zero_less_numeral)
  qed
  show ?thesis
    using assms ms
    by (auto simp: IsEligibleForPause_def CalculateEligibleAfter_eq running_duration_eq
        seconds_no_wrap Let_def)
qed

section \<open>Properties\<close>

text \<open>
  C39. The rule engine behind a pause: with any cache contents that earlier calls can have left, and
  with rules that passed validation, \<open>EvaluateActivityRule\<close> returns the decision of the first rule
  in the list that configures the effect and whose conditions all hold, or no decision if there
  is none; and it leaves the cache in a state later calls can rely on.
\<close>

theorem EvaluateActivityRule_refines:
  assumes "format_sound K" and "cache_ok K cache" and "rules_valid K rules"
  shows "fst (EvaluateActivityRule K zero rules ns pc getEffect cache) =
      Inr (first_rule_decision K zero ns pc getEffect rules) \<and>
    cache_ok K (snd (EvaluateActivityRule K zero rules ns pc getEffect cache))"
  using assms
  by (simp add: EvaluateActivityRule_def EvaluateActivityRule_loop_result EvaluateActivityRule_loop_cache)

text \<open>An instance of the library in which a selector is its first label key, printed as that key.\<close>

definition lib_keys :: k8s_lib where
  "lib_keys = lib0
     \<lparr>LabelSelectorAsSelector := (\<lambda>s.
        case ls_MatchLabels s of [] \<Rightarrow> Inl (ErrOther ''empty'') | (k, v) # _ \<Rightarrow> Inr (\<lambda>l. map_of l k \<noteq> None)),
      FormatLabelSelector := (\<lambda>s. case ls_MatchLabels s of [] \<Rightarrow> [] | (k, v) # _ \<Rightarrow> CHR ''k'' # k)\<rparr>"

lemma format_sound_lib_keys: "format_sound lib_keys"
  by (auto simp: format_sound_def lib_keys_def split: list.splits prod.splits sum.splits)

definition sample_rule :: "string \<Rightarrow> bool option \<Rightarrow> int \<Rightarrow> ActivityRule" where
  "sample_rule key pause secs =
     \<lparr>ar_Config = \<lparr>arc_SecondsSinceActive = secs, arc_MinRunningSeconds = None\<rparr>,
      ar_Match =
        [\<lparr>arm_MatchNamespace = Some \<lparr>ls_MatchLabels = [(key, [])], ls_MatchExpressions = []\<rparr>,
          arm_MatchPodConfig = None\<rparr>],
      ar_Effect = \<lparr>are_PauseWorkspace = pause\<rparr>\<rparr>"

theorem EvaluateActivityRule_refines_witness:
  "fst (EvaluateActivityRule lib_keys False
      [sample_rule ''team'' None 60, sample_rule ''prod'' (Some False) 60, sample_rule ''team'' (Some True) 900]
      [(''team'', ''a'')] [] are_PauseWorkspace []) =
    Inr \<lparr>ard_Matched = True, ard_Value = True, ard_SecondsSinceActive = 900, ard_MinRunningSeconds = 0\<rparr>"
proof -
  let ?rules = "[sample_rule ''team'' None 60, sample_rule ''prod'' (Some False) 60,
    sample_rule ''team'' (Some True) 900]"
  have "rules_valid lib_keys ?rules"
    by (simp add: rules_valid_def sample_rule_def match_valid_def match_target_def lib_keys_def)
  moreover have "first_rule_decision lib_keys False [(''team'', ''a'')] [] are_PauseWorkspace ?rules =
    \<lparr>ard_Matched = True, ard_Value = True, ard_SecondsSinceActive = 900, ard_MinRunningSeconds = 0\<rparr>"
    by (simp add: first_rule_decision_def rule_applies_def sample_rule_def match_holds_def
        match_target_def lib_keys_def rule_decision_def)
  ultimately show ?thesis
    using EvaluateActivityRule_refines [OF format_sound_lib_keys cache_ok_empty] by metis
qed

text \<open>
  The eligibility test computes what its comment says, free of overflow for all \<open>int32\<close> rule
  settings and all times of a real clock: a Workspace is eligible iff its last activity is known
  and lies at least \<open>secondsSinceActive\<close> back, and, where a minimum running time is set, it is known
  to have run for at least that long; and the reported \<open>eligibleAfter\<close> is the sum.
\<close>

theorem IsEligibleForPause_exact:
  assumes "is_int32 secondsSinceActive" and "is_int32 minRunningSeconds"
    and "plausible_time lastActivity" and "plausible_time lastRunningTime" and "plausible_time now"
  shows "fst (IsEligibleForPause lastActivity lastRunningTime now secondsSinceActive minRunningSeconds) =
      (0 < lastActivity \<and> lastActivity + 1000 * secondsSinceActive \<le> now \<and>
       (minRunningSeconds \<le> 0 \<or> 0 < lastRunningTime \<and> lastRunningTime + 1000 * minRunningSeconds \<le> now)) \<and>
    snd (IsEligibleForPause lastActivity lastRunningTime now secondsSinceActive minRunningSeconds) =
      (if lastActivity = 0 then 0 else lastActivity + 1000 * secondsSinceActive)"
  using assms by (auto simp: IsEligibleForPause_eq plausible_time_def)

theorem IsEligibleForPause_exact_witness:
  "fst (IsEligibleForPause 1000000 2000000 4600000 3600 600) \<and>
   snd (IsEligibleForPause 1000000 2000000 4600000 3600 600) = 4600000"
  using IsEligibleForPause_exact [of 3600 600 1000000 2000000 4600000]
  by (simp add: is_int32_def plausible_time_def)

end
