(* ===== verification/Samples.thy ===== *)
theory Samples
  imports Api_Types
begin

text \<open>
  Concrete objects: a WorkspaceKind in the shape of the sample manifests of the repository
  (two images of which the older one redirects to the newer one, two pod configs without
  redirects) and a Workspace of that kind. The witnesses of the properties evaluate the model on
  them and on small variations of them.
\<close>

definition sample_spawner_info :: OptionSpawnerInfo where
  "sample_spawner_info =
     \<lparr>osi_DisplayName = ''option'', osi_Description = None,
      osi_Labels = [\<lparr>osl_Key = ''size'', osl_Value = ''small''\<rparr>], osi_Hidden = Some False\<rparr>"

definition sample_image_spec :: ImageConfigSpec where
  "sample_image_spec =
     \<lparr>ics_Image = ''jupyter:1'', ics_ImagePullPolicy = Some ''IfNotPresent'',
      ics_Ports = [\<lparr>ip_Id = ''jupyterlab'', ip_Port = 8888, ip_DisplayName = Some ''JupyterLab''\<rparr>]\<rparr>"

definition sample_image :: "string \<Rightarrow> string option \<Rightarrow> ImageConfigValue" where
  "sample_image i target =
     \<lparr>icv_Id = i, icv_Spawner = sample_spawner_info,
      icv_Redirect = map_option (\<lambda>t. \<lparr>redir_To = t, redir_Message = None\<rparr>) target,
      icv_Spec = sample_image_spec\<rparr>"

definition sample_pod_spec :: PodConfigSpec where
  "sample_pod_spec =
     \<lparr>pcs_Affinity = None, pcs_NodeSelector = [], pcs_Tolerations = [], pcs_Resources = None,
      pcs_SchedulerName = None, pcs_PodMetadata = None, pcs_StatefulSetMetadata = None,
      pcs_ExtraEnv = []\<rparr>"

definition sample_pod_config :: "string \<Rightarrow> string option \<Rightarrow> PodConfigValue" where
  "sample_pod_config i target =
     \<lparr>pcv_Id = i, pcv_Spawner = sample_spawner_info,
      pcv_Redirect = map_option (\<lambda>t. \<lparr>redir_To = t, redir_Message = None\<rparr>) target,
      pcv_Spec = sample_pod_spec\<rparr>"

definition sample_probe :: ActivityProbe where
  "sample_probe =
     \<lparr>ap_MinProbeIntervalSeconds = None, ap_ProbeIntervalSeconds = None,
      ap_PodExec = \<lparr>pe_TimeoutSeconds = Some 30, pe_Script = ''#!/bin/sh''\<rparr>\<rparr>"

definition sample_port :: WorkspaceKindPort where
  "sample_port =
     \<lparr>kp_Id = ''jupyterlab'', kp_Protocol = ImagePortProtocolHTTP,
      kp_DefaultDisplayName = ''JupyterLab'', kp_HTTPProxy = None\<rparr>"

definition sample_pod_template :: WorkspaceKindPodTemplate where
  "sample_pod_template =
     \<lparr>kpt_PodMetadata = None, kpt_StatefulSetMetadata = None, kpt_ServiceAccount = None,
      kpt_ActivityProbe = Some sample_probe,
      kpt_PodSpec =
        \<lparr>kps_SchedulerName = None, kps_SecurityContext = None, kps_ExtraVolumes = [],
         kps_MainContainer =
           \<lparr>mc_SecurityContext = None, mc_StartupProbe = None, mc_LivenessProbe = None,
            mc_ReadinessProbe = None, mc_ExtraEnv = [], mc_ExtraVolumeMounts = []\<rparr>\<rparr>,
      kpt_HomeMountPath = ''/home/jovyan'', kpt_Ports = [sample_port],
      kpt_ImageConfig =
        \<lparr>ic_Default = ''img2'', ic_Values = [sample_image ''img1'' (Some ''img2''), sample_image ''img2'' None]\<rparr>,
      kpt_PodConfig =
        \<lparr>pcf_Default = ''tiny'',
         pcf_Values = [sample_pod_config ''tiny'' (Some ''small''), sample_pod_config ''small'' None]\<rparr>\<rparr>"

definition sample_asset :: WorkspaceKindAsset where
  "sample_asset = \<lparr>as_Url = Some ''https://logo'', as_ConfigMap = None\<rparr>"

definition sample_kind :: WorkspaceKind where
  "sample_kind =
     \<lparr>wk_Meta = ObjectMeta_zero\<lparr>om_Name := ''jupyterlab''\<rparr>,
      wk_Spec =
        \<lparr>wks_Spawner =
           \<lparr>sw_DisplayName = ''JupyterLab'', sw_Description = ''notebook'', sw_Hidden = None,
            sw_Deprecated = None, sw_DeprecationMessage = None, sw_Icon = sample_asset,
            sw_Logo = sample_asset\<rparr>,
         wks_PodTemplate = sample_pod_template,
         wks_ActivityRules =
           [\<lparr>ar_Config = \<lparr>arc_SecondsSinceActive = 3600, arc_MinRunningSeconds = Some 600\<rparr>,
             ar_Match = [], ar_Effect = \<lparr>are_PauseWorkspace = Some True\<rparr>\<rparr>],
         wks_FilterRules = []\<rparr>,
      wk_Status =
        \<lparr>wkst_Workspaces = 0,
         wkst_PodTemplateOptions = \<lparr>ptm_ImageConfig = [], ptm_PodConfig = []\<rparr>,
         wkst_SpawnerIcon = ImageAssetStatus_zero, wkst_SpawnerLogo = ImageAssetStatus_zero\<rparr>\<rparr>"

definition sample_status :: WorkspaceStatus where
  "sample_status =
     \<lparr>st_Activity = WorkspaceActivity_zero, st_LastRunningTime = 0, st_PauseTime = 0,
      st_PendingRestart = False,
      st_PodTemplateOptions =
        \<lparr>os_ImageConfig = \<lparr>oi_Desired = [], oi_RedirectChain = []\<rparr>,
         os_PodConfig = \<lparr>oi_Desired = [], oi_RedirectChain = []\<rparr>\<rparr>,
      st_PodTemplatePod = WorkspacePodStatus_zero,
      st_PodTemplateStatefulSet = WorkspaceStatefulSetStatus_zero,
      st_State = WorkspaceStateUnset, st_StateMessage = []\<rparr>"

definition sample_workspace :: Workspace where
  "sample_workspace =
     \<lparr>w_Meta = ObjectMeta_zero\<lparr>om_Name := ''notebook'', om_Namespace := ''team'', om_UID := ''uid-w''\<rparr>,
      w_Spec =
        \<lparr>ws_Paused = False, ws_DisplayName = None, ws_Kind = ''jupyterlab'',
         ws_PodTemplate =
           \<lparr>wpt_PodMetadata = None,
            wpt_Volumes = \<lparr>wv_Home = Some ''home-pvc'', wv_Data = [], wv_Secrets = []\<rparr>,
            wpt_Options = \<lparr>wpo_ImageConfig = ''img1'', wpo_PodConfig = ''tiny''\<rparr>\<rparr>\<rparr>,
      w_Status = sample_status\<rparr>"

lemmas sample_defs =
  sample_spawner_info_def sample_image_spec_def sample_image_def sample_pod_spec_def
  sample_pod_config_def sample_probe_def sample_port_def sample_pod_template_def sample_asset_def
  sample_kind_def sample_status_def sample_workspace_def ObjectMeta_zero_def

end
