(* ===== verification/Probe.thy ===== *)
theory Probe
  imports Samples
begin

text \<open>
  \<open>internal/helper/probe.go\<close>: the activity probe that the controller runs inside a Workspace Pod.
  What the call depends on (the clock, the random source, the exec subresource, the decoders of
  \<open>encoding/json\<close> and of \<open>time.Parse\<close>) is a record \<open>probe_env\<close>, so every theorem holds for every
  behaviour of them. The executor is an argument; \<open>RemoteCommandExecutor\<close> is in \<open>Pod_Exec\<close>.
\<close>

section \<open>Results\<close>

record ProbeResult =
  prr_StartTime :: go_time
  prr_EndTime :: go_time
  prr_Result :: WorkspaceProbeResult
  prr_Message :: string
  prr_LastActivity :: "go_time option"

definition Succeeded :: "ProbeResult \<Rightarrow> bool" where
  "Succeeded r \<longleftrightarrow> prr_Result r = ProbeSuccess"

text \<open>\<open>newFailureResult\<close> reads the clock; its reading is the argument \<open>now\<close>.\<close>

definition newFailureResult :: "go_time \<Rightarrow> go_time \<Rightarrow> string \<Rightarrow> ProbeResult" where
  "newFailureResult now startTime message =
     \<lparr>prr_StartTime = startTime, prr_EndTime = now, prr_Result = ProbeFailure,
      prr_Message = message, prr_LastActivity = None\<rparr>"

definition newTimeoutResult :: "go_time \<Rightarrow> go_time \<Rightarrow> string \<Rightarrow> ProbeResult" where
  "newTimeoutResult startTime endTime message =
     \<lparr>prr_StartTime = startTime, prr_EndTime = endTime, prr_Result = ProbeTimeout,
      prr_Message = message, prr_LastActivity = None\<rparr>"

definition newSuccessResult :: "go_time \<Rightarrow> go_time \<Rightarrow> string \<Rightarrow> go_time option \<Rightarrow> ProbeResult" where
  "newSuccessResult startTime endTime message lastActivity =
     \<lparr>prr_StartTime = startTime, prr_EndTime = endTime, prr_Result = ProbeSuccess,
      prr_Message = message, prr_LastActivity = lastActivity\<rparr>"

section \<open>The bounded buffer\<close>

record limitedBuffer =
  lb_Bytes :: string
  lb_max :: nat

text \<open>\<open>Write\<close> returns the buffer and the number of bytes it reports as written; its error is always nil.\<close>

definition limitedBuffer_Write :: "limitedBuffer \<Rightarrow> string \<Rightarrow> limitedBuffer \<times> nat" where
  "limitedBuffer_Write b p =
     (if lb_max b \<le> length (lb_Bytes b) then (b, length p)
      else
        (let p = (if lb_max b < length (lb_Bytes b) + length p
                  then take (lb_max b - length (lb_Bytes b)) p else p)
         in (b\<lparr>lb_Bytes := lb_Bytes b @ p\<rparr>, length p)))"

definition maxProbeResponseBytes :: nat where
  "maxProbeResponseBytes = 2 ^ 20"

definition write_all :: "limitedBuffer \<Rightarrow> string list \<Rightarrow> limitedBuffer" where
  "write_all b chunks = fold (\<lambda>p b. fst (limitedBuffer_Write b p)) chunks b"

section \<open>What the probe depends on\<close>

record podExecOutput =
  peo_HasActivity :: "bool option"
  peo_LastActivity :: "string option"

text \<open>
  An exec error: its text, whether it is (or wraps) \<open>context.DeadlineExceeded\<close>, and the exit status
  if it has one. \<open>ex_CtxDeadline\<close> tells whether the context of the call has passed its deadline.
\<close>

record exec_error =
  ee_Text :: string
  ee_IsDeadline :: bool
  ee_ExitStatus :: "int option"

record exec_result =
  ex_Stdout :: "string list"
  ex_Err :: "exec_error option"
  ex_CtxDeadline :: bool

text \<open>\<open>Exec\<close> of the interface \<open>PodExecutor\<close>: timeout of the context, namespace, pod, container, command, stdin.\<close>

type_synonym pod_executor =
  "duration option \<Rightarrow> string \<Rightarrow> string \<Rightarrow> string \<Rightarrow> string list \<Rightarrow> string \<Rightarrow> exec_result"

record probe_env =
  pv_StartTime :: go_time
  pv_EndTime :: go_time
  pv_FailTime :: go_time
  pv_RandRead :: "go_error + string"
  pv_Unmarshal :: "string \<Rightarrow> go_error + podExecOutput"
  pv_TimeParse :: "string \<Rightarrow> string \<Rightarrow> go_error + go_time"

section \<open>The probe\<close>

definition isDeadlineExceeded :: "bool \<Rightarrow> exec_error \<Rightarrow> bool" where
  "isDeadlineExceeded ctxDeadline err \<longleftrightarrow> ctxDeadline \<or> ee_IsDeadline err"

definition exitCodeFromError :: "exec_error \<Rightarrow> int option" where
  "exitCodeFromError err = ee_ExitStatus err"

definition randomOutputPath :: "probe_env \<Rightarrow> go_error + string" where
  "randomOutputPath V =
     (case pv_RandRead V of
       Inl err \<Rightarrow> Inl err
     | Inr buf \<Rightarrow> Inr (''/tmp/.ws-activity-probe-'' @ hex_EncodeToString buf @ ''.json''))"

definition parseISO8601 :: "probe_env \<Rightarrow> string \<Rightarrow> go_error + go_time" where
  "parseISO8601 V s =
     (if s = [] then Inl (ErrOther ''empty timestamp'')
      else
        (case pv_TimeParse V ''2006-01-02T15:04:05Z07:00'' s of
          Inr t \<Rightarrow> Inr t
        | Inl _ \<Rightarrow>
            (case pv_TimeParse V ''2006-01-02T15:04:05.999999999Z07:00'' s of
              Inr t \<Rightarrow> Inr t
            | Inl err \<Rightarrow> Inl (errorf_w (''cannot parse timestamp '' @ go_quote s @ '': '') err))))"

definition parsePodExecOutput :: "probe_env \<Rightarrow> string \<Rightarrow> go_time \<Rightarrow> go_error + go_time option" where
  "parsePodExecOutput V raw endTime =
     (let trimmed = bytes_TrimSpace raw
      in if length trimmed = 0 then Inr (Some endTime)
         else
           (case pv_Unmarshal V trimmed of
             Inl err \<Rightarrow> Inl (errorf_w ''invalid JSON file: '' err)
           | Inr out \<Rightarrow>
               (case peo_HasActivity out of
                 Some active \<Rightarrow> if active then Inr (Some endTime) else Inr None
               | None \<Rightarrow>
                   (case peo_LastActivity out of
                     Some s \<Rightarrow>
                       (case parseISO8601 V s of
                         Inl err \<Rightarrow> Inl (errorf_w ''invalid JSON file: '' err)
                       | Inr t \<Rightarrow> Inr (Some t))
                   | None \<Rightarrow> Inr (Some endTime)))))"

definition ProbeMessagePrefixPodExecFailed :: string where
  "ProbeMessagePrefixPodExecFailed = ''PodExec probe failed: ''"

definition ProbeMessagePodExecSucceeded :: string where
  "ProbeMessagePodExecSucceeded = ''PodExec probe succeeded''"

definition ProbeMessagePodNotReady :: string where
  "ProbeMessagePodNotReady = ''probe failed: Workspace Pod is not ready''"

definition probeContainerName :: string where
  "probeContainerName = ''main''"

text \<open>The \<open>Sprintf\<close> of the shell command; \<open>dq\<close> puts double quotes around a path.\<close>

definition dq :: "string \<Rightarrow> string" where
  "dq s = CHR 0x22 # s @ [CHR 0x22]"

definition probe_shell_command :: "string \<Rightarrow> string \<Rightarrow> string" where
  "probe_shell_command scriptPath outputPath =
     ''cat > '' @ dq scriptPath @ '' && chmod +x '' @ dq scriptPath @ '' && OUTPUT_JSON_PATH='' @
     dq outputPath @ '' '' @ dq scriptPath @ '' >/dev/null; rc=$?; rm -f '' @ dq scriptPath @ ''; '' @
     ''if [ $rc -ne 0 ]; then exit $rc; fi; '' @
     ''if [ -f '' @ dq outputPath @ '' ]; then cat '' @ dq outputPath @ ''; rm -f '' @ dq outputPath @ ''; fi''"

definition RunPodExecProbe ::
  "probe_env \<Rightarrow> pod_executor \<Rightarrow> string \<Rightarrow> string \<Rightarrow> string \<Rightarrow> duration \<Rightarrow> ProbeResult" where
  "RunPodExecProbe V executor namespace podName script timeout =
     (let startTime = pv_StartTime V
      in case randomOutputPath V of
           Inl err \<Rightarrow> newFailureResult (pv_FailTime V) startTime
             (ProbeMessagePrefixPodExecFailed @ ''unable to generate output path: '' @ err_Error err)
         | Inr outputPath \<Rightarrow>
             (let execTimeout = (if 0 < timeout then Some timeout else None);
                  scriptPath = outputPath @ ''.script'';
                  command = [''/bin/sh'', ''-c'', probe_shell_command scriptPath outputPath];
                  ex = executor execTimeout namespace podName probeContainerName command script;
                  stdout = write_all \<lparr>lb_Bytes = [], lb_max = maxProbeResponseBytes\<rparr> (ex_Stdout ex);
                  endTime = pv_EndTime V
              in case ex_Err ex of
                   Some execErr \<Rightarrow>
                     if isDeadlineExceeded (ex_CtxDeadline ex) execErr
                     then newTimeoutResult startTime endTime
                       (ProbeMessagePrefixPodExecFailed @ ''timeout after '' @
                        go_itoa (dur_Milliseconds timeout) @ ''ms'')
                     else
                       (case exitCodeFromError execErr of
                         Some code \<Rightarrow> newFailureResult (pv_FailTime V) startTime
                           (ProbeMessagePrefixPodExecFailed @ ''unexpected exit code '' @ go_itoa code)
                       | None \<Rightarrow> newFailureResult (pv_FailTime V) startTime
                           (ProbeMessagePrefixPodExecFailed @ ee_Text execErr))
                 | None \<Rightarrow>
                     (case parsePodExecOutput V (lb_Bytes stdout) endTime of
                       Inl err \<Rightarrow> newFailureResult (pv_FailTime V) startTime
                         (ProbeMessagePrefixPodExecFailed @ err_Error err)
                     | Inr lastActivity \<Rightarrow>
                         newSuccessResult startTime endTime ProbeMessagePodExecSucceeded lastActivity)))"

section \<open>Lemmas\<close>

lemmas new_result_defs = newFailureResult_def newTimeoutResult_def newSuccessResult_def

lemma Succeeded_new [simp]:
  "\<not> Succeeded (newFailureResult t s m)"
  "\<not> Succeeded (newTimeoutResult s e m)"
  "Succeeded (newSuccessResult s e m a)"
  by (simp_all add: Succeeded_def new_result_defs)

definition buffer_ok :: "limitedBuffer \<Rightarrow> bool" where
  "buffer_ok b \<longleftrightarrow> length (lb_Bytes b) \<le> lb_max b"

lemma limitedBuffer_Write_bytes:
  assumes "buffer_ok b"
  shows "lb_Bytes (fst (limitedBuffer_Write b p)) = take (lb_max b) (lb_Bytes b @ p)"
    and "lb_max (fst (limitedBuffer_Write b p)) = lb_max b"
  using assms by (auto simp: limitedBuffer_Write_def buffer_ok_def Let_def)

lemma limitedBuffer_Write_ok: "buffer_ok b \<Longrightarrow> buffer_ok (fst (limitedBuffer_Write b p))"
  by (simp add: buffer_ok_def limitedBuffer_Write_bytes)

lemma write_all_bytes:
  "buffer_ok b \<Longrightarrow> lb_Bytes (write_all b ps) = take (lb_max b) (lb_Bytes b @ concat ps)"
proof (induction ps arbitrary: b)
  case Nil
  then show ?case by (simp add: write_all_def buffer_ok_def)
next
  case (Cons p ps)
  let ?b = "fst (limitedBuffer_Write b p)"
  have "write_all b (p # ps) = write_all ?b ps"
    by (simp add: write_all_def)
  with Cons limitedBuffer_Write_ok [of b p] have
    "lb_Bytes (write_all b (p # ps)) = take (lb_max b) (take (lb_max b) (lb_Bytes b @ p) @ concat ps)"
    by (simp add: limitedBuffer_Write_bytes)
  also have "\<dots> = take (lb_max b) (lb_Bytes b @ p @ concat ps)"
    by (simp add: min_def)
  finally show ?case by simp
qed

lemma trim_left_Nil [simp]: "trim_left runes [] = []"
proof -
  have "find (\<lambda>r. r \<noteq> [] \<and> starts_with [] r) runes = None"
    by (auto simp: find_None_iff starts_with_def)
  then show ?thesis by (subst trim_left.simps) simp
qed

lemma bytes_TrimSpace_Nil [simp]: "bytes_TrimSpace [] = []"
  by (simp add: bytes_TrimSpace_def)

text \<open>The call that \<open>RunPodExecProbe\<close> makes for an output path.\<close>

definition probe_call :: "pod_executor \<Rightarrow> string \<Rightarrow> string \<Rightarrow> string \<Rightarrow> duration \<Rightarrow> string \<Rightarrow> exec_result" where
  "probe_call executor namespace podName script timeout path =
     executor (if 0 < timeout then Some timeout else None) namespace podName ''main''
       [''/bin/sh'', ''-c'', probe_shell_command (path @ ''.script'') path] script"

section \<open>Properties\<close>

text \<open>
  When a probe counts as successful, exactly: an output path could be generated, the exec call
  returned no error, and the first \<open>maxProbeResponseBytes\<close> bytes of what it wrote to stdout, in whatever chunks,
  parse as probe output; the probe reports a timeout exactly if the exec call failed on a deadline;
  and a probe that did not succeed never carries an activity time.
\<close>

theorem RunPodExecProbe_exact:
  fixes V executor namespace podName script timeout
  defines "r \<equiv> RunPodExecProbe V executor namespace podName script timeout"
    and "call \<equiv> probe_call executor namespace podName script timeout"
  shows "(Succeeded r \<longleftrightarrow>
      (\<exists>path a. randomOutputPath V = Inr path \<and> ex_Err (call path) = None \<and>
         parsePodExecOutput V (take maxProbeResponseBytes (concat (ex_Stdout (call path)))) (pv_EndTime V) = Inr a \<and>
         prr_LastActivity r = a)) \<and>
    (prr_Result r = ProbeTimeout \<longleftrightarrow>
      (\<exists>path e. randomOutputPath V = Inr path \<and> ex_Err (call path) = Some e \<and>
         (ex_CtxDeadline (call path) \<or> ee_IsDeadline e))) \<and>
    (Succeeded r \<or> prr_LastActivity r = None)"
proof (cases "randomOutputPath V")
  case (Inl err)
  then show ?thesis
    by (simp add: r_def RunPodExecProbe_def new_result_defs Succeeded_def)
next
  case (Inr path)
  have "buffer_ok \<lparr>lb_Bytes = [], lb_max = maxProbeResponseBytes\<rparr>"
    by (simp add: buffer_ok_def)
  note out = write_all_bytes [OF this, simplified]
  show ?thesis
  proof (cases "ex_Err (call path)")
    case (Some e)
    with Inr show ?thesis
      by (auto simp: r_def call_def RunPodExecProbe_def probe_call_def new_result_defs Let_def
          Succeeded_def isDeadlineExceeded_def probeContainerName_def split: option.splits)
  next
    case None
    with Inr show ?thesis
      by (cases "parsePodExecOutput V (take maxProbeResponseBytes (concat (ex_Stdout (call path)))) (pv_EndTime V)")
        (auto simp: r_def call_def RunPodExecProbe_def probe_call_def new_result_defs Let_def
          Succeeded_def probeContainerName_def out)
  qed
qed

text \<open>
  The buffer that receives probe output never holds more than its bound, and holds the longest
  prefix of everything written to it that fits. But the call that crosses the bound reports fewer
  bytes than it was given, with a nil error, which a caller such as \<open>io.Copy\<close> takes for a short
  write; every other call reports the full length.
\<close>

theorem limitedBuffer_bounded:
  assumes "length (lb_Bytes b) \<le> lb_max b"
  shows "lb_Bytes (write_all b chunks) = take (lb_max b) (lb_Bytes b @ concat chunks) \<and>
    length (lb_Bytes (write_all b chunks)) \<le> lb_max b \<and>
    (snd (limitedBuffer_Write b p) \<noteq> length p \<longleftrightarrow>
       length (lb_Bytes b) < lb_max b \<and> lb_max b < length (lb_Bytes b) + length p)"
proof -
  from assms have "lb_Bytes (write_all b chunks) = take (lb_max b) (lb_Bytes b @ concat chunks)"
    by (simp add: write_all_bytes buffer_ok_def)
  moreover have "snd (limitedBuffer_Write b p) \<noteq> length p \<longleftrightarrow>
      length (lb_Bytes b) < lb_max b \<and> lb_max b < length (lb_Bytes b) + length p"
    by (auto simp: limitedBuffer_Write_def Let_def)
  ultimately show ?thesis by simp
qed

theorem limitedBuffer_bounded_witness:
  "lb_Bytes (write_all \<lparr>lb_Bytes = [], lb_max = 3\<rparr> [''ab'', ''cd'', ''e'']) = ''abc'' \<and>
   snd (limitedBuffer_Write \<lparr>lb_Bytes = [], lb_max = 3\<rparr> ''abcd'') \<noteq> 4"
  using limitedBuffer_bounded [of "\<lparr>lb_Bytes = [], lb_max = 3\<rparr>" "[''ab'', ''cd'', ''e'']" "''abcd''"]
  by simp

end
