(* ===== verification/Activity_Reconcile.thy ===== *)
theory Activity_Reconcile
  imports Activity Probe
begin

text \<open>
  \<open>internal/controller/workspace_activity.go\<close>: the part of a reconcile that probes a running
  Workspace and decides whether to pause it for inactivity. The Workspace is passed in and
  returned, because the Go functions mutate \<open>status.activity\<close> in place, also on paths that end in an
  error. The inputs from outside are arguments: the clock readings, the \<open>Get\<close> of the namespace and
  the executor (\<open>None\<close> when the reconciler has none).
\<close>

section \<open>The functions\<close>

definition map_activity :: "(WorkspaceActivity \<Rightarrow> WorkspaceActivity) \<Rightarrow> Workspace \<Rightarrow> Workspace" where
  "map_activity f w = w\<lparr>w_Status := (w_Status w)\<lparr>st_Activity := f (st_Activity (w_Status w))\<rparr>\<rparr>"

abbreviation w_Activity :: "Workspace \<Rightarrow> WorkspaceActivity" where
  "w_Activity w \<equiv> st_Activity (w_Status w)"

definition timeUntilProbeDue :: "Workspace \<Rightarrow> int \<Rightarrow> duration \<Rightarrow> duration \<Rightarrow> duration \<times> bool" where
  "timeUntilProbeDue workspace now minProbeInterval probeInterval =
     (case wa_LastProbe (w_Activity workspace) of
       None \<Rightarrow> (0, True)
     | Some lastProbe \<Rightarrow>
         (let lastProbeStart = lp_StartTime lastProbe
          in if lastProbeStart \<le> 0 then (0, True)
             else
               (let elapsed = wrap64 (wrap64 (now - lastProbeStart) * time_Millisecond);
                    requiredInterval =
                      (if lp_Result lastProbe = ProbeSuccess then probeInterval else minProbeInterval)
                in if elapsed < requiredInterval then (wrap64 (requiredInterval - elapsed), False)
                   else (0, True))))"

definition runProbe ::
  "probe_env \<Rightarrow> go_time \<Rightarrow> pod_executor option \<Rightarrow> ActivityProbe \<Rightarrow> Pod option \<Rightarrow> ProbeResult" where
  "runProbe V now podExecutor activityProbe pod =
     (case pod of
       None \<Rightarrow>
         \<lparr>prr_StartTime = now, prr_EndTime = now, prr_Result = ProbeFailure,
          prr_Message = ProbeMessagePodNotReady, prr_LastActivity = None\<rparr>
     | Some pod \<Rightarrow>
         (case podExecutor of
           None \<Rightarrow>
             \<lparr>prr_StartTime = now, prr_EndTime = now, prr_Result = ProbeFailure,
              prr_Message = ProbeMessagePrefixPodExecFailed @ ''exec is not configured'',
              prr_LastActivity = None\<rparr>
         | Some executor \<Rightarrow>
             (let timeout = wrap64 (ptr_Deref (pe_TimeoutSeconds (ap_PodExec activityProbe))
                              DefaultPodExecTimeoutSeconds * time_Second)
              in RunPodExecProbe V executor (om_Namespace (pod_Meta pod)) (om_Name (pod_Meta pod))
                   (pe_Script (ap_PodExec activityProbe)) timeout)))"

definition updateActivityStatusFromProbe :: "Workspace \<Rightarrow> ProbeResult \<Rightarrow> Workspace" where
  "updateActivityStatusFromProbe workspace result =
     (let workspace = map_activity (\<lambda>a. a\<lparr>wa_LastProbe := Some
            \<lparr>lp_StartTime = UnixMilli (prr_StartTime result), lp_EndTime = UnixMilli (prr_EndTime result),
             lp_Result = prr_Result result, lp_Message = prr_Message result\<rparr>\<rparr>) workspace
      in if Succeeded result
         then
           (let workspace =
                  (case prr_LastActivity result of
                    Some t \<Rightarrow> map_activity (\<lambda>a. a\<lparr>wa_LastActivity := UnixMilli t\<rparr>) workspace
                  | None \<Rightarrow>
                      if wa_LastActivity (w_Activity workspace) \<le> 0 \<and>
                         0 < st_LastRunningTime (w_Status workspace)
                      then map_activity
                             (\<lambda>a. a\<lparr>wa_LastActivity := st_LastRunningTime (w_Status workspace)\<rparr>) workspace
                      else workspace)
            in map_activity (\<lambda>a. a\<lparr>wa_LastUpdate := UnixMilli (prr_EndTime result)\<rparr>) workspace)
         else workspace)"

text \<open>\<open>if workspace.Status.Activity.Rules != nil { workspace.Status.Activity.Rules.PauseWorkspace = nil }\<close>\<close>

definition clear_pause_rule :: "Workspace \<Rightarrow> Workspace" where
  "clear_pause_rule workspace =
     map_activity (\<lambda>a. a\<lparr>wa_Rules := map_option (\<lambda>r. r\<lparr>war_PauseWorkspace := None\<rparr>) (wa_Rules a)\<rparr>) workspace"

definition evaluatePauseDecision ::
  "k8s_lib \<Rightarrow> Workspace \<Rightarrow> WorkspaceKind \<Rightarrow> str_map \<Rightarrow> str_map \<Rightarrow> int \<Rightarrow> bool \<Rightarrow> selector_cache
   \<Rightarrow> (go_error + bool) \<times> Workspace \<times> selector_cache" where
  "evaluatePauseDecision K workspace workspaceKind namespaceLabels podConfigLabels now allowPause cache =
     (let rules = wks_ActivityRules (wk_Spec workspaceKind)
      in if length rules = 0 then (Inr False, clear_pause_rule workspace, cache)
         else
           (case EvaluatePauseWorkspaceRule K rules namespaceLabels podConfigLabels cache of
             (Inl err, cache) \<Rightarrow> (Inl err, workspace, cache)
           | (Inr decision, cache) \<Rightarrow>
               if \<not> ard_Matched decision \<or> \<not> ard_Value decision
               then (Inr False, clear_pause_rule workspace, cache)
               else
                 (let (eligible, eligibleAfter) =
                        IsEligibleForPause (wa_LastActivity (w_Activity workspace))
                          (st_LastRunningTime (w_Status workspace)) now
                          (ard_SecondsSinceActive decision) (ard_MinRunningSeconds decision);
                      workspace = map_activity (\<lambda>a. a\<lparr>wa_Rules :=
                        Some (case wa_Rules a of
                                None \<Rightarrow> \<lparr>war_PauseWorkspace = Some \<lparr>pr_EligibleAfter = eligibleAfter\<rparr>\<rparr>
                              | Some r \<Rightarrow> r\<lparr>war_PauseWorkspace := Some \<lparr>pr_EligibleAfter = eligibleAfter\<rparr>\<rparr>)\<rparr>)
                        workspace
                  in (Inr (eligible \<and> allowPause), workspace, cache))))"

text \<open>\<open>getNamespaceLabels\<close>: \<open>nsGet\<close> is the client's \<open>Get\<close> of a Namespace, its labels or the error.\<close>

definition getNamespaceLabels :: "(string \<Rightarrow> go_error + str_map) \<Rightarrow> string \<Rightarrow> go_error + str_map" where
  "getNamespaceLabels nsGet namespaceName =
     (case nsGet namespaceName of
       Inl err \<Rightarrow> if IsNotFound err then Inr [] else Inl err
     | Inr labels \<Rightarrow> Inr (maps_Copy [] labels))"

definition minProbeInterval_of :: "ActivityProbe \<Rightarrow> duration" where
  "minProbeInterval_of p =
     wrap64 (ptr_Deref (ap_MinProbeIntervalSeconds p) DefaultMinProbeIntervalSeconds * time_Second)"

definition probeInterval_of :: "ActivityProbe \<Rightarrow> duration" where
  "probeInterval_of p =
     wrap64 (ptr_Deref (ap_ProbeIntervalSeconds p) DefaultProbeIntervalSeconds * time_Second)"

text \<open>
  \<open>reconcileActivity\<close>. \<open>now0\<close> is the reading of \<open>metav1.Now()\<close> at the start, \<open>now1\<close> that of \<open>time.Now()\<close>
  in \<open>runProbe\<close>. The result is the error or the pair of reconcile result and pause decision, with the
  Workspace and the selector cache as the call leaves them.
\<close>

definition reconcileActivity ::
  "k8s_lib \<Rightarrow> (string \<Rightarrow> go_error + str_map) \<Rightarrow> go_time \<Rightarrow> go_time \<Rightarrow> probe_env \<Rightarrow> pod_executor option
   \<Rightarrow> Workspace \<Rightarrow> WorkspaceKind \<Rightarrow> PodConfigValue option \<Rightarrow> Pod option \<Rightarrow> selector_cache
   \<Rightarrow> (go_error + Result \<times> bool) \<times> Workspace \<times> selector_cache" where
  "reconcileActivity K nsGet now0 now1 V podExecutor workspace workspaceKind currentPodConfig pod cache =
     (case kpt_ActivityProbe (wk_PodTemplate workspaceKind) of
       None \<Rightarrow> (Inr (Result_zero, False), workspace, cache)
     | Some activityProbe \<Rightarrow>
         if st_State (w_Status workspace) \<noteq> WorkspaceStateRunning
         then (Inr (Result_zero, False), workspace, cache)
         else
           (let now = UnixMilli now0;
                minProbeInterval = minProbeInterval_of activityProbe;
                probeInterval = probeInterval_of activityProbe
            in case getNamespaceLabels nsGet (w_Namespace workspace) of
                 Inl err \<Rightarrow> (Inl err, workspace, cache)
               | Inr namespaceLabels \<Rightarrow>
                   (let podConfigLabels = PodConfigLabelsToMap currentPodConfig;
                        (remaining, due) = timeUntilProbeDue workspace now minProbeInterval probeInterval
                    in if \<not> due
                       then
                         (case evaluatePauseDecision K workspace workspaceKind namespaceLabels
                                 podConfigLabels now False cache of
                           (Inl err, workspace, cache) \<Rightarrow> (Inl err, workspace, cache)
                         | (Inr _, workspace, cache) \<Rightarrow>
                             (Inr (Result_zero\<lparr>res_RequeueAfter := remaining\<rparr>, False), workspace, cache))
                       else
                         (let probeResult = runProbe V now1 podExecutor activityProbe pod;
                              workspace = updateActivityStatusFromProbe workspace probeResult
                          in case evaluatePauseDecision K workspace workspaceKind namespaceLabels
                                    podConfigLabels now (Succeeded probeResult) cache of
                               (Inl err, workspace, cache) \<Rightarrow> (Inl err, workspace, cache)
                             | (Inr paused, workspace, cache) \<Rightarrow>
                                 (let nextInterval =
                                        (if \<not> Succeeded probeResult then minProbeInterval else probeInterval)
                                  in (Inr (Result_zero\<lparr>res_RequeueAfter := nextInterval\<rparr>, paused),
                                      workspace, cache))))))"

section \<open>Lemmas\<close>

lemma map_activity_simps [simp]:
  "w_Activity (map_activity f w) = f (w_Activity w)"
  "st_State (w_Status (map_activity f w)) = st_State (w_Status w)"
  "st_LastRunningTime (w_Status (map_activity f w)) = st_LastRunningTime (w_Status w)"
  "w_Spec (map_activity f w) = w_Spec w"
  "w_Meta (map_activity f w) = w_Meta w"
  by (simp_all add: map_activity_def)

lemma clear_pause_rule_simps [simp]:
  "wa_LastActivity (w_Activity (clear_pause_rule w)) = wa_LastActivity (w_Activity w)"
  "wa_LastUpdate (w_Activity (clear_pause_rule w)) = wa_LastUpdate (w_Activity w)"
  "wa_LastProbe (w_Activity (clear_pause_rule w)) = wa_LastProbe (w_Activity w)"
  "st_LastRunningTime (w_Status (clear_pause_rule w)) = st_LastRunningTime (w_Status w)"
  by (simp_all add: clear_pause_rule_def)

text \<open>The rule evaluation touches the rules part of the activity status only.\<close>

lemma evaluatePauseDecision_frame:
  assumes "evaluatePauseDecision K w wk ns pc now allow cache = (r, w', cache')"
  shows "wa_LastActivity (w_Activity w') = wa_LastActivity (w_Activity w)"
    and "wa_LastUpdate (w_Activity w') = wa_LastUpdate (w_Activity w)"
    and "wa_LastProbe (w_Activity w') = wa_LastProbe (w_Activity w)"
    and "st_LastRunningTime (w_Status w') = st_LastRunningTime (w_Status w)"
  using assms
  by (auto simp: evaluatePauseDecision_def Let_def split: if_splits prod.splits sum.splits)

lemma evaluatePauseDecision_pause:
  assumes "evaluatePauseDecision K w wk ns pc now allow cache = (Inr True, w', cache')"
  shows "allow"
    and "\<exists>decision cache''. EvaluatePauseWorkspaceRule K (wks_ActivityRules (wk_Spec wk)) ns pc cache = (Inr decision, cache'') \<and>
      ard_Matched decision \<and> ard_Value decision \<and>
      fst (IsEligibleForPause (wa_LastActivity (w_Activity w)) (st_LastRunningTime (w_Status w)) now
             (ard_SecondsSinceActive decision) (ard_MinRunningSeconds decision))"
  using assms
  by (auto simp: evaluatePauseDecision_def Let_def split: if_splits prod.splits sum.splits)

lemma updateActivityStatusFromProbe_frame [simp]:
  "st_LastRunningTime (w_Status (updateActivityStatusFromProbe w r)) = st_LastRunningTime (w_Status w)"
  by (simp add: updateActivityStatusFromProbe_def Let_def split: option.splits)

lemma updateActivityStatusFromProbe_failed:
  assumes "\<not> Succeeded r"
  shows "wa_LastActivity (w_Activity (updateActivityStatusFromProbe w r)) = wa_LastActivity (w_Activity w)"
    and "wa_LastUpdate (w_Activity (updateActivityStatusFromProbe w r)) = wa_LastUpdate (w_Activity w)"
  using assms by (simp_all add: updateActivityStatusFromProbe_def)

text \<open>The due test on the intervals of a probe.\<close>

abbreviation probe_due :: "Workspace \<Rightarrow> ActivityProbe \<Rightarrow> go_time \<Rightarrow> bool" where
  "probe_due w p now \<equiv>
     snd (timeUntilProbeDue w (UnixMilli now) (minProbeInterval_of p) (probeInterval_of p))"

text \<open>Every way \<open>reconcileActivity\<close> can come to the decision to pause.\<close>

lemma reconcileActivity_pauseE:
  assumes "reconcileActivity K nsGet now0 now1 V ex w wk pc pod cache = (Inr (res, True), w', cache')"
  obtains p ns where "kpt_ActivityProbe (wk_PodTemplate wk) = Some p"
    and "st_State (w_Status w) = WorkspaceStateRunning"
    and "getNamespaceLabels nsGet (w_Namespace w) = Inr ns"
    and "probe_due w p now0"
    and "evaluatePauseDecision K (updateActivityStatusFromProbe w (runProbe V now1 ex p pod)) wk ns
           (PodConfigLabelsToMap pc) (UnixMilli now0) (Succeeded (runProbe V now1 ex p pod)) cache
         = (Inr True, w', cache')"
  using assms
  by (auto simp: reconcileActivity_def Let_def split: option.splits if_splits sum.splits prod.splits)

lemma first_rule_decision_pause:
  assumes "ard_Matched (first_rule_decision K False ns pc are_PauseWorkspace rules)"
    and "ard_Value (first_rule_decision K False ns pc are_PauseWorkspace rules)"
  obtains rule where "find (rule_applies K ns pc are_PauseWorkspace) rules = Some rule"
    and "are_PauseWorkspace (ar_Effect rule) = Some True"
    and "first_rule_decision K False ns pc are_PauseWorkspace rules = rule_decision rule True"
  using assms
  by (auto simp: first_rule_decision_def no_decision_def rule_decision_def split: option.splits)

definition rules_int32 :: "ActivityRule list \<Rightarrow> bool" where
  "rules_int32 rules \<longleftrightarrow>
     list_all (\<lambda>rule. is_int32 (arc_SecondsSinceActive (ar_Config rule)) \<and>
       is_int32 (ptr_Deref (arc_MinRunningSeconds (ar_Config rule)) 0)) rules"

lemma rules_int32_find:
  assumes "rules_int32 rules" and "find P rules = Some rule"
  shows "is_int32 (arc_SecondsSinceActive (ar_Config rule))"
    and "is_int32 (ptr_Deref (arc_MinRunningSeconds (ar_Config rule)) 0)"
proof -
  from assms(2) have "rule \<in> set rules"
    by (auto simp: find_Some_iff)
  with assms(1) show "is_int32 (arc_SecondsSinceActive (ar_Config rule))"
    and "is_int32 (ptr_Deref (arc_MinRunningSeconds (ar_Config rule)) 0)"
    by (auto simp: rules_int32_def list_all_iff)
qed

lemma rule_decision_times:
  "ard_SecondsSinceActive (rule_decision rule e) = arc_SecondsSinceActive (ar_Config rule)"
  "ard_MinRunningSeconds (rule_decision rule e) = ptr_Deref (arc_MinRunningSeconds (ar_Config rule)) 0"
  by (simp_all add: rule_decision_def ptr_Deref_def)

section \<open>Properties\<close>

text \<open>
  C1. No Workspace is paused without fresh evidence. If \<open>reconcileActivity\<close> decides to pause, then the
  Workspace is running, its kind has an activity probe, a probe was due and succeeded in this very
  call, the first activity rule that applies to the Workspace asks for the pause, the last
  activity known after that probe lies at least \<open>secondsSinceActive\<close> back, and the Workspace has been
  running for the minimum time, where one is set.
\<close>

theorem reconcileActivity_pause_safe:
  assumes run: "reconcileActivity K nsGet now0 now1 V ex w wk pc pod cache = (Inr (res, True), w', cache')"
    and lib: "format_sound K" "cache_ok K cache" "rules_valid K (wks_ActivityRules (wk_Spec wk))"
    and width: "rules_int32 (wks_ActivityRules (wk_Spec wk))"
    and times: "plausible_time (wa_LastActivity (w_Activity w'))"
      "plausible_time (st_LastRunningTime (w_Status w))" "plausible_time (UnixMilli now0)"
  shows "\<exists>probe ns rule.
    kpt_ActivityProbe (wk_PodTemplate wk) = Some probe \<and>
    st_State (w_Status w) = WorkspaceStateRunning \<and> probe_due w probe now0 \<and>
    Succeeded (runProbe V now1 ex probe pod) \<and>
    getNamespaceLabels nsGet (w_Namespace w) = Inr ns \<and>
    find (rule_applies K ns (PodConfigLabelsToMap pc) are_PauseWorkspace)
      (wks_ActivityRules (wk_Spec wk)) = Some rule \<and>
    are_PauseWorkspace (ar_Effect rule) = Some True \<and>
    0 < wa_LastActivity (w_Activity w') \<and>
    wa_LastActivity (w_Activity w') + 1000 * arc_SecondsSinceActive (ar_Config rule) \<le> UnixMilli now0 \<and>
    (ptr_Deref (arc_MinRunningSeconds (ar_Config rule)) 0 \<le> 0 \<or>
     0 < st_LastRunningTime (w_Status w) \<and>
     st_LastRunningTime (w_Status w) + 1000 * ptr_Deref (arc_MinRunningSeconds (ar_Config rule)) 0
       \<le> UnixMilli now0)"
  using run
proof (cases rule: reconcileActivity_pauseE)
  case (1 p ns)
  let ?w = "updateActivityStatusFromProbe w (runProbe V now1 ex p pod)"
  let ?pc = "PodConfigLabelsToMap pc" and ?rules = "wks_ActivityRules (wk_Spec wk)"
  note ev = 1(5)
  have dec: "fst (EvaluatePauseWorkspaceRule K ?rules ns ?pc cache) =
      Inr (first_rule_decision K False ns ?pc are_PauseWorkspace ?rules)"
    unfolding EvaluatePauseWorkspaceRule_def EvaluateActivityRule_def
    using lib by (rule EvaluateActivityRule_loop_result)
  with evaluatePauseDecision_pause(2) [OF ev] have
    m: "ard_Matched (first_rule_decision K False ns ?pc are_PauseWorkspace ?rules)"
      "ard_Value (first_rule_decision K False ns ?pc are_PauseWorkspace ?rules)"
    and el: "fst (IsEligibleForPause (wa_LastActivity (w_Activity ?w)) (st_LastRunningTime (w_Status ?w))
      (UnixMilli now0)
      (ard_SecondsSinceActive (first_rule_decision K False ns ?pc are_PauseWorkspace ?rules))
      (ard_MinRunningSeconds (first_rule_decision K False ns ?pc are_PauseWorkspace ?rules)))"
    by auto
  from m obtain rule where rule: "find (rule_applies K ns ?pc are_PauseWorkspace) ?rules = Some rule"
    "are_PauseWorkspace (ar_Effect rule) = Some True"
    "first_rule_decision K False ns ?pc are_PauseWorkspace ?rules = rule_decision rule True"
    by (rule first_rule_decision_pause)
  have la: "wa_LastActivity (w_Activity ?w) = wa_LastActivity (w_Activity w')"
    using evaluatePauseDecision_frame(1) [OF ev] by simp
  from el rules_int32_find [OF width rule(1)] times
  have "0 < wa_LastActivity (w_Activity w') \<and>
    wa_LastActivity (w_Activity w') + 1000 * arc_SecondsSinceActive (ar_Config rule) \<le> UnixMilli now0 \<and>
    (ptr_Deref (arc_MinRunningSeconds (ar_Config rule)) 0 \<le> 0 \<or>
     0 < st_LastRunningTime (w_Status w) \<and>
     st_LastRunningTime (w_Status w) + 1000 * ptr_Deref (arc_MinRunningSeconds (ar_Config rule)) 0
       \<le> UnixMilli now0)"
    by (auto simp: IsEligibleForPause_eq la rule(3) rule_decision_times)
  with 1 rule evaluatePauseDecision_pause(1) [OF ev] show ?thesis
    by blast
qed

text \<open>A running Workspace, its Pod, and a probe that reports no activity.\<close>

definition sample_running :: Workspace where
  "sample_running = sample_workspace\<lparr>w_Status := sample_status
     \<lparr>st_State := WorkspaceStateRunning, st_LastRunningTime := 1000000\<rparr>\<rparr>"

definition sample_pod :: Pod where
  "sample_pod =
     \<lparr>pod_Meta = ObjectMeta_zero\<lparr>om_Name := ''ws-0'', om_Namespace := ''team''\<rparr>,
      pod_Spec =
        \<lparr>ps_Affinity = None, ps_Containers = [], ps_InitContainers = [], ps_NodeSelector = [],
         ps_NodeName = [], ps_SchedulerName = [], ps_SecurityContext = None,
         ps_ServiceAccountName = [], ps_Tolerations = [], ps_Volumes = []\<rparr>,
      pod_Phase = ''Running'', pod_Conditions = [], pod_ContainerStatuses = []\<rparr>"

definition sample_env :: probe_env where
  "sample_env =
     \<lparr>pv_StartTime = 10000000000000, pv_EndTime = 10000000000000, pv_FailTime = 10000000000000,
      pv_RandRead = Inr ''r'',
      pv_Unmarshal = (\<lambda>_. Inr \<lparr>peo_HasActivity = Some False, peo_LastActivity = None\<rparr>),
      pv_TimeParse = (\<lambda>_ _. Inr 0)\<rparr>"

definition sample_executor :: "exec_error option \<Rightarrow> pod_executor" where
  "sample_executor err = (\<lambda>_ _ _ _ _ _. \<lparr>ex_Stdout = [''x''], ex_Err = err, ex_CtxDeadline = False\<rparr>)"

lemma bytes_TrimSpace_x: "bytes_TrimSpace ''x'' = ''x''"
  by (simp add: bytes_TrimSpace_def trim_left.simps white_runes_def starts_with_def)

lemma sample_probe_result:
  "runProbe sample_env 0 (Some (sample_executor None)) sample_probe (Some pod) =
     newSuccessResult 10000000000000 10000000000000 ProbeMessagePodExecSucceeded None"
  by (simp add: runProbe_def RunPodExecProbe_def randomOutputPath_def sample_env_def sample_executor_def
      parsePodExecOutput_def write_all_def limitedBuffer_Write_def maxProbeResponseBytes_def
      bytes_TrimSpace_x Let_def)

lemma sample_probe_of_kind:
  "kpt_ActivityProbe (wk_PodTemplate sample_kind) = Some sample_probe"
  by (simp add: sample_kind_def sample_pod_template_def)

lemma sample_times:
  "UnixMilli 10000000000000 = 10000000"
  "UnixMilli 20000000000000 = 20000000"
  by (simp_all add: UnixMilli_def time_Millisecond_def)

lemma sample_due: "w_Activity w = WorkspaceActivity_zero \<Longrightarrow> timeUntilProbeDue w now a b = (0, True)"
  by (simp add: timeUntilProbeDue_def WorkspaceActivity_zero_def)

text \<open>The state and the probe result after the sample run.\<close>

lemma sample_eligible: "IsEligibleForPause 1000000 1000000 10000000 3600 600 = (True, 4600000)"
  by (subst IsEligibleForPause_eq) (simp_all add: is_int32_def plausible_time_def)

lemma sample_rule_decision:
  "EvaluatePauseWorkspaceRule lib_keys (wks_ActivityRules (wk_Spec sample_kind)) ns pc cache =
     (Inr \<lparr>ard_Matched = True, ard_Value = True, ard_SecondsSinceActive = 3600,
           ard_MinRunningSeconds = 600\<rparr>, cache)"
  by (simp add: EvaluatePauseWorkspaceRule_def EvaluateActivityRule_def activityRuleMatches_def
      sample_kind_def rule_decision_def)

lemma idle_reconcileActivity:
  assumes "st_State (w_Status w) = WorkspaceStateRunning" and "st_LastRunningTime (w_Status w) = 1000000"
    and "w_Activity w = WorkspaceActivity_zero"
  shows "\<exists>res w'. reconcileActivity lib_keys (\<lambda>_. Inr []) 10000000000000 0 sample_env
       (Some (sample_executor None)) w sample_kind pc (Some pod) [] =
     (Inr (res, True), w', []) \<and> wa_LastActivity (w_Activity w') = 1000000"
proof -
  let ?w = "updateActivityStatusFromProbe w
    (newSuccessResult 10000000000000 10000000000000 ProbeMessagePodExecSucceeded None)"
  have w: "wa_LastActivity (w_Activity ?w) = 1000000"
    using assms by (simp add: updateActivityStatusFromProbe_def WorkspaceActivity_zero_def Let_def)
      (simp add: newSuccessResult_def)
  have lr: "st_LastRunningTime (w_Status ?w) = 1000000"
    using assms by simp
  have rules: "wks_ActivityRules (wk_Spec sample_kind) \<noteq> []"
    by (simp add: sample_kind_def)
  have "\<exists>w'. evaluatePauseDecision lib_keys ?w sample_kind ns pc 10000000 True [] = (Inr True, w', []) \<and>
      wa_LastActivity (w_Activity w') = 1000000" for ns pc
    using rules w lr by (simp add: evaluatePauseDecision_def sample_rule_decision sample_eligible)
  then obtain w' where ev: "evaluatePauseDecision lib_keys ?w sample_kind [] (PodConfigLabelsToMap pc) 10000000 True [] =
      (Inr True, w', [])" "wa_LastActivity (w_Activity w') = 1000000"
    by blast
  with assms show ?thesis
    by (simp add: reconcileActivity_def sample_probe_of_kind sample_due sample_probe_result
        getNamespaceLabels_def sample_times)
qed

lemma sample_running_idle:
  "st_State (w_Status sample_running) = WorkspaceStateRunning" "st_LastRunningTime (w_Status sample_running) = 1000000"
  "w_Activity sample_running = WorkspaceActivity_zero"
  by (simp_all add: sample_running_def sample_status_def)

theorem reconcileActivity_pause_safe_witness:
  "\<exists>w' probe.
    kpt_ActivityProbe (wk_PodTemplate sample_kind) = Some probe \<and>
    Succeeded (runProbe sample_env 0 (Some (sample_executor None)) probe (Some sample_pod)) \<and>
    0 < wa_LastActivity (w_Activity w')"
proof -
  obtain res w' where
    run: "reconcileActivity lib_keys (\<lambda>_. Inr []) 10000000000000 0 sample_env (Some (sample_executor None))
       sample_running sample_kind None (Some sample_pod) [] = (Inr (res, True), w', [])"
    and la: "wa_LastActivity (w_Activity w') = 1000000"
    using idle_reconcileActivity [OF sample_running_idle] by blast
  have rv: "rules_valid lib_keys (wks_ActivityRules (wk_Spec sample_kind))"
    and ri: "rules_int32 (wks_ActivityRules (wk_Spec sample_kind))"
    by (simp_all add: rules_valid_def rules_int32_def sample_kind_def is_int32_def)
  have times: "plausible_time (wa_LastActivity (w_Activity w'))"
    "plausible_time (st_LastRunningTime (w_Status sample_running))"
    "plausible_time (UnixMilli 10000000000000)"
    using la by (simp_all add: plausible_time_def sample_running_def sample_times)
  show ?thesis
    using reconcileActivity_pause_safe [OF run format_sound_lib_keys cache_ok_empty rv ri times] by blast
qed

text \<open>
  C2. Stale or missing evidence changes nothing. In a call in which no probe was due, or the probe
  failed or timed out, \<open>reconcileActivity\<close> does not decide to pause, and it leaves \<open>lastActivity\<close> and
  \<open>lastUpdate\<close> as they were.
\<close>

theorem reconcileActivity_no_stale_pause:
  assumes run: "reconcileActivity K nsGet now0 now1 V ex w wk pc pod cache = (r, w', cache')"
    and no_probe: "\<forall>p. kpt_ActivityProbe (wk_PodTemplate wk) = Some p \<longrightarrow> probe_due w p now0 \<longrightarrow>
      \<not> Succeeded (runProbe V now1 ex p pod)"
  shows "(\<nexists>res. r = Inr (res, True)) \<and>
    wa_LastActivity (w_Activity w') = wa_LastActivity (w_Activity w) \<and>
    wa_LastUpdate (w_Activity w') = wa_LastUpdate (w_Activity w)"
proof -
  have "\<not> r = Inr (res, True)" for res
  proof
    assume "r = Inr (res, True)"
    with run have "reconcileActivity K nsGet now0 now1 V ex w wk pc pod cache = (Inr (res, True), w', cache')"
      by simp
    then show False
      by (cases rule: reconcileActivity_pauseE)
        (use no_probe in \<open>auto dest: evaluatePauseDecision_pause(1)\<close>)
  qed
  moreover have "wa_LastActivity (w_Activity w') = wa_LastActivity (w_Activity w) \<and>
      wa_LastUpdate (w_Activity w') = wa_LastUpdate (w_Activity w)"
    using run no_probe
    by (auto simp: reconcileActivity_def Let_def updateActivityStatusFromProbe_failed
        dest: evaluatePauseDecision_frame split: option.splits if_splits sum.splits prod.splits)
  ultimately show ?thesis by blast
qed

theorem reconcileActivity_no_stale_pause_witness:
  "\<exists>w'. snd (reconcileActivity lib_keys (\<lambda>_. Inr []) 10000000000000 0 sample_env
       (Some (sample_executor (Some \<lparr>ee_Text = ''gone'', ee_IsDeadline = True, ee_ExitStatus = None\<rparr>)))
       sample_running sample_kind None (Some sample_pod) []) = (w', []) \<and>
     wa_LastActivity (w_Activity w') = 0"
proof -
  let ?ex = "Some (sample_executor (Some \<lparr>ee_Text = ''gone'', ee_IsDeadline = True, ee_ExitStatus = None\<rparr>))"
  have failed: "\<not> Succeeded (runProbe sample_env 0 ?ex p (Some sample_pod))" for p
    by (simp add: runProbe_def RunPodExecProbe_def randomOutputPath_def sample_env_def sample_executor_def
        isDeadlineExceeded_def Let_def)
  obtain r w' cache' where run: "reconcileActivity lib_keys (\<lambda>_. Inr []) 10000000000000 0 sample_env ?ex
      sample_running sample_kind None (Some sample_pod) [] = (r, w', cache')"
    by (metis prod_cases3)
  have "cache' = []"
    using run by (auto simp: reconcileActivity_def sample_probe_of_kind sample_due getNamespaceLabels_def
        evaluatePauseDecision_def sample_rule_decision Let_def split: prod.splits if_splits)
  moreover have "wa_LastActivity (w_Activity sample_running) = 0"
    by (simp add: sample_running_def sample_status_def WorkspaceActivity_zero_def)
  ultimately show ?thesis
    using reconcileActivity_no_stale_pause [OF run] failed run by simp
qed

definition required_interval :: "WorkspaceActivityLastProbe \<Rightarrow> int \<Rightarrow> int \<Rightarrow> int" where
  "required_interval lp minS probeS = (if lp_Result lp = ProbeSuccess then probeS else minS)"

lemma timeUntilProbeDue_eq:
  assumes "is_int32 minS" and "is_int32 probeS" and "plausible_time now"
    and "wa_LastProbe (w_Activity w) = Some lp" and "0 < lp_StartTime lp" and "plausible_time (lp_StartTime lp)"
  shows "timeUntilProbeDue w now (minS * time_Second) (probeS * time_Second) =
    (if now - lp_StartTime lp < 1000 * required_interval lp minS probeS
     then ((1000 * required_interval lp minS probeS - (now - lp_StartTime lp)) * time_Millisecond, False)
     else (0, True))"
proof -
  let ?e = "now - lp_StartTime lp" and ?s = "required_interval lp minS probeS"
  have e: "wrap64 (wrap64 ?e * time_Millisecond) = ?e * time_Millisecond"
    using assms by (intro running_duration_eq)
  have s: "(if lp_Result lp = ProbeSuccess then probeS * time_Second else minS * time_Second) =
      (1000 * ?s) * time_Millisecond"
    by (simp add: required_interval_def time_Second_def time_Millisecond_def)
  have "is_int64 ((1000 * ?s) * time_Millisecond - ?e * time_Millisecond)"
    using assms by (auto simp: required_interval_def is_int64_def is_int32_def plausible_time_def
        time_Millisecond_def)
  then have "wrap64 ((1000 * ?s) * time_Millisecond - ?e * time_Millisecond) =
      (1000 * ?s - ?e) * time_Millisecond"
    by (simp add: wrap64_id left_diff_distrib)
  moreover have "?e * time_Millisecond < (1000 * ?s) * time_Millisecond \<longleftrightarrow> ?e < 1000 * ?s"
    by (simp only: mult_less_cancel_right_pos time_Millisecond_def zero_less_numeral)
  ultimately show ?thesis
    using assms(4,5) e s by (simp add: timeUntilProbeDue_def Let_def)
qed



end
