(* ===== verification/Workspace_State.thy ===== *)
theory Workspace_State
  imports Activity_Reconcile
begin

text \<open>
  The status part of \<open>internal/controller/workspace_controller.go\<close>: how the state of a Workspace is
  derived from its StatefulSet, its Pod and the warning events about them, and how the status
  record is filled in. \<open>listEvents namespace uid\<close> is the client's \<open>List\<close> of Events with the field
  selector \<open>involvedObject.uid\<close>. A nil \<open>*StatefulSet\<close> or \<open>*Pod\<close> is \<open>None\<close>.
\<close>

section \<open>Warning events\<close>

definition isWarningEvent :: "Event \<Rightarrow> bool" where
  "isWarningEvent ev =
     (if evt_Type ev \<noteq> ''Warning'' then False
      else evt_InvolvedKind ev = ''Pod'' \<or> evt_InvolvedKind ev = ''StatefulSet'')"

text \<open>The cache notifications of \<open>predicate.Funcs\<close>; \<open>None\<close> is an object that is not an Event.\<close>

datatype watch_event =
    CreateEvent "Event option"
  | UpdateEvent "Event option" "Event option"
  | DeleteEvent "Event option"
  | GenericEvent "Event option"

fun predWarningEvent :: "watch_event \<Rightarrow> bool" where
  "predWarningEvent (CreateEvent ev) = (case ev of None \<Rightarrow> False | Some ev \<Rightarrow> isWarningEvent ev)"
| "predWarningEvent (UpdateEvent old new) = (case new of None \<Rightarrow> False | Some newEv \<Rightarrow> isWarningEvent newEv)"
| "predWarningEvent (DeleteEvent ev) = False"
| "predWarningEvent (GenericEvent ev) = False"

fun last_warning_loop :: "Event list \<Rightarrow> Event option \<Rightarrow> Event option" where
  "last_warning_loop [] lastWarningEvent = lastWarningEvent"
| "last_warning_loop (event # events) lastWarningEvent =
     (if evt_Type event \<noteq> ''Warning'' then last_warning_loop events lastWarningEvent
      else
        (case lastWarningEvent of
          None \<Rightarrow> last_warning_loop events (Some event)
        | Some l \<Rightarrow>
            if evt_LastTimestamp l < evt_LastTimestamp event then last_warning_loop events (Some event)
            else last_warning_loop events lastWarningEvent))"

type_synonym event_lister = "string \<Rightarrow> uid \<Rightarrow> go_error + Event list"

definition getLastWarningEvent :: "event_lister \<Rightarrow> string \<Rightarrow> uid \<Rightarrow> go_error + Event option" where
  "getLastWarningEvent listEvents namespace uid =
     (case listEvents namespace uid of
       Inl err \<Rightarrow> Inl err
     | Inr items \<Rightarrow> Inr (last_warning_loop items None))"

section \<open>State\<close>

definition requeue_after :: "duration \<Rightarrow> Result" where
  "requeue_after d = Result_zero\<lparr>res_RequeueAfter := d\<rparr>"

text \<open>\<open>for _, condition := range pod.Status.Conditions\<close>: the last condition of each type.\<close>

definition PodCondition_zero :: PodCondition where
  "PodCondition_zero = \<lparr>pc_Type = [], pc_Status = [], pc_Reason = [], pc_Message = []\<rparr>"

fun pod_conditions_loop :: "PodCondition list \<Rightarrow> PodCondition \<times> PodCondition \<Rightarrow> PodCondition \<times> PodCondition" where
  "pod_conditions_loop [] (sched, ready) = (sched, ready)"
| "pod_conditions_loop (condition # conditions) (sched, ready) =
     (if pc_Type condition = ''PodScheduled'' then pod_conditions_loop conditions (condition, ready)
      else if pc_Type condition = ''Ready'' then pod_conditions_loop conditions (sched, condition)
      else pod_conditions_loop conditions (sched, ready))"

definition pod_conditions :: "Pod \<Rightarrow> PodCondition \<times> PodCondition" where
  "pod_conditions pod = pod_conditions_loop (pod_Conditions pod) (PodCondition_zero, PodCondition_zero)"

definition unscheduled_message :: "PodCondition \<Rightarrow> string option" where
  "unscheduled_message c =
     (if pc_Reason c = ''Unschedulable'' then Some (''Workspace Pod is unschedulable: '' @ pc_Message c)
      else if pc_Reason c = ''SchedulingGated''
      then Some (''Workspace Pod is waiting for scheduling gate: '' @ pc_Message c)
      else if pc_Reason c = ''SchedulerError'' then Some (''Workspace Pod has scheduler error: '' @ pc_Message c)
      else None)"

definition main_container_waiting :: "Pod \<Rightarrow> ContainerStateWaiting option" where
  "main_container_waiting pod =
     (case find (\<lambda>c. cs_Name c = ''main'') (pod_ContainerStatuses pod) of
       None \<Rightarrow> None
     | Some c \<Rightarrow> cs_Waiting c)"

definition waiting_message :: "ContainerStateWaiting option \<Rightarrow> string option" where
  "waiting_message waiting =
     (case waiting of
       None \<Rightarrow> None
     | Some w \<Rightarrow>
         if csw_Reason w = ''CrashLoopBackOff''
         then Some (''Workspace Container is not running (CrashLoopBackOff): '' @ csw_Message w)
         else if csw_Reason w = ''ImagePullBackOff''
         then Some (''Workspace Container is not running (ImagePullBackOff): '' @ csw_Message w)
         else None)"

type_synonym state_result = "go_error + WorkspaceState \<times> string \<times> Result"

definition generateWorkspaceState ::
  "event_lister \<Rightarrow> bool \<Rightarrow> StatefulSet option \<Rightarrow> Pod option \<Rightarrow> state_result" where
  "generateWorkspaceState listEvents paused statefulSet pod =
     (case statefulSet of
       None \<Rightarrow>
         Inr (WorkspaceStateUnknown, ''Workspace is in an unknown state'', requeue_after (5 * time_Minute))
     | Some statefulSet \<Rightarrow>
         if om_Generation (sts_Meta statefulSet) \<noteq> sts_ObservedGeneration statefulSet
         then Inr (WorkspaceStatePending,
                   ''Workspace is pending: Waiting for Kubernetes to reconcile StatefulSet'',
                   requeue_after (5 * time_Second))
         else
           (case pod of
             None \<Rightarrow>
               if paused then Inr (WorkspaceStatePaused, ''Workspace is paused'', Result_zero)
               else
                 (case getLastWarningEvent listEvents (om_Namespace (sts_Meta statefulSet))
                         (om_UID (sts_Meta statefulSet)) of
                   Inl err \<Rightarrow> Inl err
                 | Inr (Some lastStsWarningEvent) \<Rightarrow>
                     Inr (WorkspaceStateError,
                          ''Workspace StatefulSet has warning event: '' @ evt_Message lastStsWarningEvent,
                          Result_zero)
                 | Inr None \<Rightarrow>
                     Inr (WorkspaceStatePending, ''Workspace is pending: Waiting for Pod to be created'',
                          requeue_after (15 * time_Second)))
           | Some pod \<Rightarrow>
               if om_DeletionTimestamp (pod_Meta pod) \<noteq> None
               then Inr (WorkspaceStateTerminating, ''Workspace is terminating'', requeue_after (5 * time_Second))
               else if map_get (om_Labels (pod_Meta pod)) ''controller-revision-hash''
                         \<noteq> sts_UpdateRevision statefulSet
               then Inr (WorkspaceStatePending, ''Workspace is pending: Waiting for Pod to be updated'',
                         requeue_after (5 * time_Second))
               else
                 (let podPhase = pod_Phase pod;
                      (podScheduledCondition, podReadyCondition) = pod_conditions pod;
                      podScheduled = (pc_Status podScheduledCondition = ''True'');
                      podReady = (pc_Status podReadyCondition = ''True'')
                  in case (if \<not> podScheduled then unscheduled_message podScheduledCondition else None) of
                       Some msg \<Rightarrow> Inr (WorkspaceStateError, msg, Result_zero)
                     | None \<Rightarrow>
                         if podPhase = ''Running'' \<and> podReady
                         then Inr (WorkspaceStateRunning, ''Workspace is running'', Result_zero)
                         else
                           (case waiting_message (main_container_waiting pod) of
                             Some msg \<Rightarrow> Inr (WorkspaceStateError, msg, Result_zero)
                           | None \<Rightarrow>
                               (case getLastWarningEvent listEvents (om_Namespace (pod_Meta pod))
                                       (om_UID (pod_Meta pod)) of
                                 Inl err \<Rightarrow> Inl err
                               | Inr (Some lastPodWarningEvent) \<Rightarrow>
                                   Inr (WorkspaceStateError,
                                        ''Workspace Pod has warning event: '' @ evt_Message lastPodWarningEvent,
                                        Result_zero)
                               | Inr None \<Rightarrow>
                                   if podPhase = ''Pending''
                                   then Inr (WorkspaceStatePending, ''Workspace is pending: Pod is pending'',
                                             requeue_after (15 * time_Second))
                                   else if podPhase = ''Running'' \<and> \<not> podReady
                                   then Inr (WorkspaceStatePending,
                                             ''Workspace is pending: Pod is running but not ready: '' @
                                             pc_Message podReadyCondition, requeue_after (60 * time_Second))
                                   else if podPhase = ''Failed''
                                   then Inr (WorkspaceStateError, ''Workspace Pod in failed phase'', Result_zero)
                                   else Inr (WorkspaceStateUnknown, ''Workspace is in an unknown state'',
                                             requeue_after (5 * time_Minute)))))))"

section \<open>Status\<close>

definition generateWorkspacePodStatus :: "Pod option \<Rightarrow> WorkspacePodStatus" where
  "generateWorkspacePodStatus pod =
     (case pod of
       None \<Rightarrow> WorkspacePodStatus_zero
     | Some pod \<Rightarrow>
         WorkspacePodStatus_zero
           \<lparr>wps_Name := om_Name (pod_Meta pod),
            wps_UID := om_UID (pod_Meta pod),
            wps_NodeName := ps_NodeName (pod_Spec pod),
            wps_Containers := map ct_Name (ps_Containers (pod_Spec pod)),
            wps_InitContainers := map ct_Name (ps_InitContainers (pod_Spec pod))\<rparr>)"

definition generateWorkspaceStatefulSetStatus :: "StatefulSet option \<Rightarrow> WorkspaceStatefulSetStatus" where
  "generateWorkspaceStatefulSetStatus sts =
     (case sts of
       None \<Rightarrow> WorkspaceStatefulSetStatus_zero
     | Some sts \<Rightarrow>
         if om_UID (sts_Meta sts) = [] then WorkspaceStatefulSetStatus_zero
         else WorkspaceStatefulSetStatus_zero
                \<lparr>wss_Name := om_Name (sts_Meta sts), wss_UID := om_UID (sts_Meta sts)\<rparr>)"

text \<open>The clock reading of \<open>metav1.Now()\<close> is the argument \<open>now\<close>.\<close>

definition recordRunningTransition ::
  "go_time \<Rightarrow> WorkspaceStatus \<Rightarrow> WorkspaceState \<Rightarrow> WorkspaceState \<Rightarrow> WorkspaceStatus" where
  "recordRunningTransition now status currentState newState =
     (if newState \<noteq> WorkspaceStateRunning then status
      else if currentState \<noteq> WorkspaceStateRunning \<or> st_LastRunningTime status = 0
      then status\<lparr>st_LastRunningTime := UnixMilli now, st_Activity := WorkspaceActivity_zero\<rparr>
      else status)"

definition generateWorkspaceStatus ::
  "event_lister \<Rightarrow> go_time \<Rightarrow> go_time \<Rightarrow> Workspace \<Rightarrow> Pod option \<Rightarrow> StatefulSet option \<Rightarrow> ServiceAccount option
   \<Rightarrow> WorkspaceStatus \<times> (go_error + Result)" where
  "generateWorkspaceStatus listEvents now0 now1 workspace pod statefulSet serviceAccount =
     (let status = w_Status workspace;
          workspacePaused = ws_Paused (w_Spec workspace);
          status =
            (if workspacePaused
             then if st_PauseTime status = 0 then status\<lparr>st_PauseTime := UnixMilli now0\<rparr> else status
             else if st_PauseTime status \<noteq> 0 then status\<lparr>st_PauseTime := 0\<rparr> else status);
          status = status\<lparr>st_PodTemplatePod := generateWorkspacePodStatus pod\<rparr>;
          status =
            (case serviceAccount of
              None \<Rightarrow> status
            | Some sa \<Rightarrow>
                status\<lparr>st_PodTemplatePod := (st_PodTemplatePod status)
                         \<lparr>wps_ServiceAccountName := om_Name (sa_Meta sa)\<rparr>\<rparr>);
          status = status\<lparr>st_PodTemplateStatefulSet := generateWorkspaceStatefulSetStatus statefulSet\<rparr>
      in case generateWorkspaceState listEvents workspacePaused statefulSet pod of
           Inl err \<Rightarrow> (status, Inl err)
         | Inr (workspaceState, workspaceStateMessage, result) \<Rightarrow>
             (let status = status\<lparr>st_State := workspaceState, st_StateMessage := workspaceStateMessage\<rparr>;
                  status = recordRunningTransition now1 status (st_State (w_Status workspace)) workspaceState
              in (status, Inr result)))"

definition mergeReconcileResult :: "Result \<Rightarrow> Result \<Rightarrow> Result" where
  "mergeReconcileResult a b =
     (if res_RequeueAfter a \<le> 0 then b
      else if res_RequeueAfter b \<le> 0 then a
      else if res_RequeueAfter a \<le> res_RequeueAfter b then a
      else b)"

section \<open>Lemmas\<close>

lemma last_warning_loop_Some:
  "\<exists>l'. last_warning_loop events (Some l) = Some l' \<and>
     (l' = l \<or> l' \<in> set events \<and> evt_Type l' = ''Warning'') \<and>
     evt_LastTimestamp l \<le> evt_LastTimestamp l' \<and>
     (\<forall>e \<in> set events. evt_Type e = ''Warning'' \<longrightarrow> evt_LastTimestamp e \<le> evt_LastTimestamp l')"
proof (induction events arbitrary: l)
  case (Cons e events)
  consider (skip) "evt_Type e \<noteq> ''Warning''"
    | (newer) "evt_Type e = ''Warning''" "evt_LastTimestamp l < evt_LastTimestamp e"
    | (older) "evt_Type e = ''Warning''" "evt_LastTimestamp e \<le> evt_LastTimestamp l"
    by fastforce
  then show ?case
  proof cases
    case skip
    with Cons [of l] show ?thesis by auto
  next
    case newer
    with Cons [of e] show ?thesis by auto
  next
    case older
    with Cons [of l] show ?thesis by auto
  qed
qed simp

lemma last_warning_loop_None:
  "case last_warning_loop events None of
     None \<Rightarrow> \<forall>e \<in> set events. evt_Type e \<noteq> ''Warning''
   | Some l \<Rightarrow> l \<in> set events \<and> evt_Type l = ''Warning'' \<and>
       (\<forall>e \<in> set events. evt_Type e = ''Warning'' \<longrightarrow> evt_LastTimestamp e \<le> evt_LastTimestamp l)"
proof (induction events)
  case (Cons e events)
  show ?case
  proof (cases "evt_Type e = ''Warning''")
    case True
    with last_warning_loop_Some [of events e] show ?thesis by auto
  next
    case False
    with Cons show ?thesis by (auto split: option.splits)
  qed
qed simp

lemma requeue_after_RequeueAfter [simp]: "res_RequeueAfter (requeue_after d) = d"
  by (simp add: requeue_after_def)

lemma Result_zero_RequeueAfter [simp]: "res_RequeueAfter Result_zero = 0"
  by (simp add: Result_zero_def)

lemma durations_pos [simp]: "0 < time_Second" "0 < time_Minute"
  by (simp_all add: time_Second_def time_Minute_def)

text \<open>The sooner of two requests to come back, where a request of zero is none.\<close>

lemma mergeReconcileResult_after:
  assumes "0 \<le> res_RequeueAfter a" and "0 \<le> res_RequeueAfter b"
  shows "res_RequeueAfter (mergeReconcileResult a b) =
    (if res_RequeueAfter a = 0 then res_RequeueAfter b
     else if res_RequeueAfter b = 0 then res_RequeueAfter a
     else min (res_RequeueAfter a) (res_RequeueAfter b))"
  using assms by (auto simp: mergeReconcileResult_def min_def)

text \<open>The StatefulSet controller has seen the current generation.\<close>

definition sts_observed :: "StatefulSet \<Rightarrow> bool" where
  "sts_observed sts \<longleftrightarrow> om_Generation (sts_Meta sts) = sts_ObservedGeneration sts"

text \<open>The Pod is of the current revision and is not being deleted.\<close>

definition pod_current :: "StatefulSet \<Rightarrow> Pod \<Rightarrow> bool" where
  "pod_current sts pod \<longleftrightarrow>
     om_DeletionTimestamp (pod_Meta pod) = None \<and>
     map_get (om_Labels (pod_Meta pod)) ''controller-revision-hash'' = sts_UpdateRevision sts"

text \<open>No reported scheduling problem, phase Running, condition Ready.\<close>

definition pod_serving :: "Pod \<Rightarrow> bool" where
  "pod_serving pod \<longleftrightarrow>
     (pc_Status (fst (pod_conditions pod)) = ''True'' \<or> unscheduled_message (fst (pod_conditions pod)) = None) \<and>
     pod_Phase pod = ''Running'' \<and> pc_Status (snd (pod_conditions pod)) = ''True''"

section \<open>What the states mean\<close>

text \<open>
  The last condition of a type, as the Pod reports it; a scheduling problem; a container that cannot start; and an
  object with a warning event.
\<close>

definition condition_of :: "string \<Rightarrow> Pod \<Rightarrow> PodCondition" where
  "condition_of ty pod =
     (let cs = filter (\<lambda>c. pc_Type c = ty) (pod_Conditions pod) in if cs = [] then PodCondition_zero else last cs)"

definition sched_problem :: "Pod \<Rightarrow> bool" where
  "sched_problem pod \<longleftrightarrow> pc_Status (condition_of ''PodScheduled'' pod) \<noteq> ''True'' \<and>
     pc_Reason (condition_of ''PodScheduled'' pod) \<in> {''Unschedulable'', ''SchedulingGated'', ''SchedulerError''}"

definition pod_ready :: "Pod \<Rightarrow> bool" where
  "pod_ready pod \<longleftrightarrow> pod_Phase pod = ''Running'' \<and> pc_Status (condition_of ''Ready'' pod) = ''True''"

definition container_problem :: "Pod \<Rightarrow> bool" where
  "container_problem pod \<longleftrightarrow>
     (\<exists>c w. find (\<lambda>c. cs_Name c = ''main'') (pod_ContainerStatuses pod) = Some c \<and> cs_Waiting c = Some w \<and>
        csw_Reason w \<in> {''CrashLoopBackOff'', ''ImagePullBackOff''})"

definition has_warning :: "event_lister \<Rightarrow> ObjectMeta \<Rightarrow> bool" where
  "has_warning listEvents m \<longleftrightarrow>
     (\<exists>events e. listEvents (om_Namespace m) (om_UID m) = Inr events \<and> e \<in> set events \<and> evt_Type e = ''Warning'')"

text \<open>A current Pod that has neither come up nor failed to for a reason that it reports itself.\<close>

definition pod_starting :: "Pod \<Rightarrow> bool" where
  "pod_starting pod \<longleftrightarrow> \<not> sched_problem pod \<and> \<not> pod_ready pod \<and> \<not> container_problem pod"

text \<open>
  The meaning of each state, for an optional StatefulSet and Pod. In the first three the events do not matter.
\<close>

fun state_means :: "event_lister \<Rightarrow> bool \<Rightarrow> StatefulSet option \<Rightarrow> Pod option \<Rightarrow> WorkspaceState \<Rightarrow> bool" where
  "state_means listEvents paused sts pod WorkspaceStateRunning \<longleftrightarrow>
     (\<exists>s p. sts = Some s \<and> pod = Some p \<and> sts_observed s \<and> pod_current s p \<and> \<not> sched_problem p \<and> pod_ready p)"
| "state_means listEvents paused sts pod WorkspaceStatePaused \<longleftrightarrow>
     (\<exists>s. sts = Some s \<and> pod = None \<and> sts_observed s \<and> paused)"
| "state_means listEvents paused sts pod WorkspaceStateTerminating \<longleftrightarrow>
     (\<exists>s p. sts = Some s \<and> pod = Some p \<and> sts_observed s \<and> om_DeletionTimestamp (pod_Meta p) \<noteq> None)"
| "state_means listEvents paused sts pod WorkspaceStateError \<longleftrightarrow>
     (\<exists>s. sts = Some s \<and> sts_observed s \<and>
        (case pod of
           None \<Rightarrow> \<not> paused \<and> has_warning listEvents (sts_Meta s)
         | Some p \<Rightarrow> pod_current s p \<and>
             (sched_problem p \<or> \<not> pod_ready p \<and>
                (container_problem p \<or> has_warning listEvents (pod_Meta p) \<or> pod_Phase p = ''Failed''))))"
| "state_means listEvents paused sts pod WorkspaceStatePending \<longleftrightarrow>
     (\<exists>s. sts = Some s \<and> (\<not> sts_observed s \<or>
        (case pod of
           None \<Rightarrow> \<not> paused \<and> \<not> has_warning listEvents (sts_Meta s)
         | Some p \<Rightarrow> om_DeletionTimestamp (pod_Meta p) = None \<and>
             (\<not> pod_current s p \<or>
              pod_starting p \<and> \<not> has_warning listEvents (pod_Meta p) \<and> pod_Phase p \<in> {''Pending'', ''Running''}))))"
| "state_means listEvents paused sts pod WorkspaceStateUnknown \<longleftrightarrow>
     sts = None \<or>
     (\<exists>s p. sts = Some s \<and> pod = Some p \<and> sts_observed s \<and> pod_current s p \<and> pod_starting p \<and>
        \<not> has_warning listEvents (pod_Meta p) \<and> pod_Phase p \<notin> {''Pending'', ''Running'', ''Failed''})"
| "state_means listEvents paused sts pod WorkspaceStateUnset \<longleftrightarrow> False"

text \<open>The object whose events the controller lists, if it lists any.\<close>

definition event_object :: "bool \<Rightarrow> StatefulSet option \<Rightarrow> Pod option \<Rightarrow> ObjectMeta option" where
  "event_object paused sts pod =
     (case sts of
        None \<Rightarrow> None
      | Some s \<Rightarrow>
          if \<not> sts_observed s then None
          else case pod of
            None \<Rightarrow> if paused then None else Some (sts_Meta s)
          | Some p \<Rightarrow> if pod_current s p \<and> pod_starting p then Some (pod_Meta p) else None)"

lemma pod_conditions_loop_last:
  "pod_conditions_loop cs (x, y) =
     (last (x # filter (\<lambda>c. pc_Type c = ''PodScheduled'') cs), last (y # filter (\<lambda>c. pc_Type c = ''Ready'') cs))"
  by (induction cs arbitrary: x y) auto

lemma pod_conditions_of: "pod_conditions pod = (condition_of ''PodScheduled'' pod, condition_of ''Ready'' pod)"
  by (simp add: pod_conditions_def pod_conditions_loop_last condition_of_def Let_def)

lemma unscheduled_message_None:
  "unscheduled_message c = None \<longleftrightarrow> pc_Reason c \<notin> {''Unschedulable'', ''SchedulingGated'', ''SchedulerError''}"
  by (simp add: unscheduled_message_def)

lemma waiting_message_None: "waiting_message (main_container_waiting pod) = None \<longleftrightarrow> \<not> container_problem pod"
  by (auto simp: waiting_message_def main_container_waiting_def container_problem_def split: option.splits)

lemma getLastWarningEvent_cases:
  obtains (failed) err where "listEvents (om_Namespace m) (om_UID m) = Inl err"
      and "getLastWarningEvent listEvents (om_Namespace m) (om_UID m) = Inl err"
  | (quiet) events where "listEvents (om_Namespace m) (om_UID m) = Inr events" and "\<not> has_warning listEvents m"
      and "getLastWarningEvent listEvents (om_Namespace m) (om_UID m) = Inr None"
  | (warned) events e where "listEvents (om_Namespace m) (om_UID m) = Inr events" and "has_warning listEvents m"
      and "getLastWarningEvent listEvents (om_Namespace m) (om_UID m) = Inr (Some e)"
proof (cases "listEvents (om_Namespace m) (om_UID m)")
  case (Inr events)
  with last_warning_loop_None [of events] quiet warned show thesis
    by (cases "last_warning_loop events None") (auto simp: getLastWarningEvent_def has_warning_def)
qed (simp add: failed getLastWarningEvent_def)

text \<open>The decision, stage by stage.\<close>

lemma generateWorkspaceState_waiting:
  "generateWorkspaceState listEvents paused None pod =
     Inr (WorkspaceStateUnknown, ''Workspace is in an unknown state'', requeue_after (5 * time_Minute))"
  "\<not> sts_observed sts \<Longrightarrow> \<exists>msg. generateWorkspaceState listEvents paused (Some sts) pod =
     Inr (WorkspaceStatePending, msg, requeue_after (5 * time_Second))"
  "sts_observed sts \<Longrightarrow> om_DeletionTimestamp (pod_Meta p) \<noteq> None \<Longrightarrow>
     \<exists>msg. generateWorkspaceState listEvents paused (Some sts) (Some p) =
       Inr (WorkspaceStateTerminating, msg, requeue_after (5 * time_Second))"
  "sts_observed sts \<Longrightarrow> om_DeletionTimestamp (pod_Meta p) = None \<Longrightarrow> \<not> pod_current sts p \<Longrightarrow>
     \<exists>msg. generateWorkspaceState listEvents paused (Some sts) (Some p) =
       Inr (WorkspaceStatePending, msg, requeue_after (5 * time_Second))"
  by (simp_all add: generateWorkspaceState_def sts_observed_def pod_current_def)

lemma generateWorkspaceState_no_pod:
  assumes "sts_observed sts"
  shows "generateWorkspaceState listEvents paused (Some sts) None =
    (if paused then Inr (WorkspaceStatePaused, ''Workspace is paused'', Result_zero)
     else case getLastWarningEvent listEvents (om_Namespace (sts_Meta sts)) (om_UID (sts_Meta sts)) of
        Inl err \<Rightarrow> Inl err
      | Inr (Some e) \<Rightarrow>
          Inr (WorkspaceStateError, ''Workspace StatefulSet has warning event: '' @ evt_Message e, Result_zero)
      | Inr None \<Rightarrow>
          Inr (WorkspaceStatePending, ''Workspace is pending: Waiting for Pod to be created'', requeue_after (15 * time_Second)))"
  using assms by (simp add: generateWorkspaceState_def sts_observed_def)

lemma generateWorkspaceState_pod:
  assumes "sts_observed sts" and "pod_current sts p"
  shows "sched_problem p \<Longrightarrow> \<exists>msg. generateWorkspaceState listEvents paused (Some sts) (Some p) =
      Inr (WorkspaceStateError, msg, Result_zero)"
    and "\<not> sched_problem p \<Longrightarrow> pod_ready p \<Longrightarrow> generateWorkspaceState listEvents paused (Some sts) (Some p) =
      Inr (WorkspaceStateRunning, ''Workspace is running'', Result_zero)"
    and "\<not> sched_problem p \<Longrightarrow> \<not> pod_ready p \<Longrightarrow> container_problem p \<Longrightarrow>
      \<exists>msg. generateWorkspaceState listEvents paused (Some sts) (Some p) = Inr (WorkspaceStateError, msg, Result_zero)"
    and "pod_starting p \<Longrightarrow> generateWorkspaceState listEvents paused (Some sts) (Some p) =
      (case getLastWarningEvent listEvents (om_Namespace (pod_Meta p)) (om_UID (pod_Meta p)) of
         Inl err \<Rightarrow> Inl err
       | Inr (Some e) \<Rightarrow> Inr (WorkspaceStateError, ''Workspace Pod has warning event: '' @ evt_Message e, Result_zero)
       | Inr None \<Rightarrow>
           if pod_Phase p = ''Pending''
           then Inr (WorkspaceStatePending, ''Workspace is pending: Pod is pending'', requeue_after (15 * time_Second))
           else if pod_Phase p = ''Running''
           then Inr (WorkspaceStatePending, ''Workspace is pending: Pod is running but not ready: '' @
             pc_Message (condition_of ''Ready'' p), requeue_after (60 * time_Second))
           else if pod_Phase p = ''Failed'' then Inr (WorkspaceStateError, ''Workspace Pod in failed phase'', Result_zero)
           else Inr (WorkspaceStateUnknown, ''Workspace is in an unknown state'', requeue_after (5 * time_Minute)))"
proof -
  have msg: "(if pc_Status (condition_of ''PodScheduled'' p) \<noteq> ''True''
      then unscheduled_message (condition_of ''PodScheduled'' p) else None) = None \<longleftrightarrow> \<not> sched_problem p"
    by (simp add: sched_problem_def unscheduled_message_None)
  have gen: "generateWorkspaceState listEvents paused (Some sts) (Some p) =
      (case (if pc_Status (condition_of ''PodScheduled'' p) \<noteq> ''True''
         then unscheduled_message (condition_of ''PodScheduled'' p) else None) of
        Some msg \<Rightarrow> Inr (WorkspaceStateError, msg, Result_zero)
      | None \<Rightarrow>
        if pod_ready p then Inr (WorkspaceStateRunning, ''Workspace is running'', Result_zero)
        else case waiting_message (main_container_waiting p) of
          Some msg \<Rightarrow> Inr (WorkspaceStateError, msg, Result_zero)
        | None \<Rightarrow>
          case getLastWarningEvent listEvents (om_Namespace (pod_Meta p)) (om_UID (pod_Meta p)) of
            Inl err \<Rightarrow> Inl err
          | Inr (Some e) \<Rightarrow> Inr (WorkspaceStateError, ''Workspace Pod has warning event: '' @ evt_Message e, Result_zero)
          | Inr None \<Rightarrow>
            if pod_Phase p = ''Pending''
            then Inr (WorkspaceStatePending, ''Workspace is pending: Pod is pending'', requeue_after (15 * time_Second))
            else if pod_Phase p = ''Running''
            then Inr (WorkspaceStatePending, ''Workspace is pending: Pod is running but not ready: '' @
              pc_Message (condition_of ''Ready'' p), requeue_after (60 * time_Second))
            else if pod_Phase p = ''Failed'' then Inr (WorkspaceStateError, ''Workspace Pod in failed phase'', Result_zero)
            else Inr (WorkspaceStateUnknown, ''Workspace is in an unknown state'', requeue_after (5 * time_Minute)))"
    using assms
    by (auto simp: generateWorkspaceState_def sts_observed_def pod_current_def pod_ready_def pod_conditions_of Let_def
        split: option.split sum.split)
  show "sched_problem p \<Longrightarrow> \<exists>msg. generateWorkspaceState listEvents paused (Some sts) (Some p) =
      Inr (WorkspaceStateError, msg, Result_zero)"
    unfolding gen using msg by (cases "if pc_Status (condition_of ''PodScheduled'' p) \<noteq> ''True''
      then unscheduled_message (condition_of ''PodScheduled'' p) else None") simp_all
  show "\<not> sched_problem p \<Longrightarrow> pod_ready p \<Longrightarrow> generateWorkspaceState listEvents paused (Some sts) (Some p) =
      Inr (WorkspaceStateRunning, ''Workspace is running'', Result_zero)"
    unfolding gen using msg by simp
  show "\<not> sched_problem p \<Longrightarrow> \<not> pod_ready p \<Longrightarrow> container_problem p \<Longrightarrow>
      \<exists>msg. generateWorkspaceState listEvents paused (Some sts) (Some p) = Inr (WorkspaceStateError, msg, Result_zero)"
    unfolding gen using msg waiting_message_None [of p] by (auto split: option.split)
  show "pod_starting p \<Longrightarrow> generateWorkspaceState listEvents paused (Some sts) (Some p) =
      (case getLastWarningEvent listEvents (om_Namespace (pod_Meta p)) (om_UID (pod_Meta p)) of
         Inl err \<Rightarrow> Inl err
       | Inr (Some e) \<Rightarrow> Inr (WorkspaceStateError, ''Workspace Pod has warning event: '' @ evt_Message e, Result_zero)
       | Inr None \<Rightarrow>
           if pod_Phase p = ''Pending''
           then Inr (WorkspaceStatePending, ''Workspace is pending: Pod is pending'', requeue_after (15 * time_Second))
           else if pod_Phase p = ''Running''
           then Inr (WorkspaceStatePending, ''Workspace is pending: Pod is running but not ready: '' @
             pc_Message (condition_of ''Ready'' p), requeue_after (60 * time_Second))
           else if pod_Phase p = ''Failed'' then Inr (WorkspaceStateError, ''Workspace Pod in failed phase'', Result_zero)
           else Inr (WorkspaceStateUnknown, ''Workspace is in an unknown state'', requeue_after (5 * time_Minute)))"
    unfolding gen using msg waiting_message_None [of p] by (simp add: pod_starting_def)
qed

lemma sched_problem_serving: "pod_serving p \<longleftrightarrow> \<not> sched_problem p \<and> pod_ready p"
  by (auto simp: pod_serving_def sched_problem_def pod_ready_def pod_conditions_of unscheduled_message_None)

definition decides :: "event_lister \<Rightarrow> bool \<Rightarrow> StatefulSet option \<Rightarrow> Pod option \<Rightarrow> bool" where
  "decides listEvents paused sts pod \<longleftrightarrow>
     (case generateWorkspaceState listEvents paused sts pod of
        Inl err \<Rightarrow> \<exists>m. event_object paused sts pod = Some m \<and> listEvents (om_Namespace m) (om_UID m) = Inl err
      | Inr (st, msg, res) \<Rightarrow>
          (\<forall>st'. state_means listEvents paused sts pod st' \<longleftrightarrow> st' = st) \<and>
          (case event_object paused sts pod of
             None \<Rightarrow> True | Some m \<Rightarrow> \<exists>events. listEvents (om_Namespace m) (om_UID m) = Inr events) \<and>
          (0 < res_RequeueAfter res \<longleftrightarrow>
             st \<in> {WorkspaceStatePending, WorkspaceStateTerminating, WorkspaceStateUnknown}))"

lemma decidesI:
  assumes "generateWorkspaceState listEvents paused sts pod = Inr (st, msg, res)"
    and "\<And>st'. state_means listEvents paused sts pod st' \<longleftrightarrow> st' = st"
    and "case event_object paused sts pod of
      None \<Rightarrow> True | Some m \<Rightarrow> \<exists>events. listEvents (om_Namespace m) (om_UID m) = Inr events"
    and "0 < res_RequeueAfter res \<longleftrightarrow> st \<in> {WorkspaceStatePending, WorkspaceStateTerminating, WorkspaceStateUnknown}"
  shows "decides listEvents paused sts pod"
  unfolding decides_def using assms by simp

lemma decides_again:
  assumes "generateWorkspaceState listEvents paused sts pod = Inr (st, msg, requeue_after d)" and "0 < d"
    and "st \<in> {WorkspaceStatePending, WorkspaceStateTerminating, WorkspaceStateUnknown}"
    and "case event_object paused sts pod of
      None \<Rightarrow> True | Some m \<Rightarrow> \<exists>events. listEvents (om_Namespace m) (om_UID m) = Inr events"
    and "\<And>st'. state_means listEvents paused sts pod st' \<longleftrightarrow> st' = st"
  shows "decides listEvents paused sts pod"
  by (rule decidesI [OF assms(1,5,4)]) (use assms(2,3) in simp)

lemma decides_for_good:
  assumes "generateWorkspaceState listEvents paused sts pod = Inr (st, msg, Result_zero)"
    and "st \<notin> {WorkspaceStatePending, WorkspaceStateTerminating, WorkspaceStateUnknown}"
    and "case event_object paused sts pod of
      None \<Rightarrow> True | Some m \<Rightarrow> \<exists>events. listEvents (om_Namespace m) (om_UID m) = Inr events"
    and "\<And>st'. state_means listEvents paused sts pod st' \<longleftrightarrow> st' = st"
  shows "decides listEvents paused sts pod"
  by (rule decidesI [OF assms(1,4,3)]) (use assms(2) in simp)

lemma decides_failed:
  assumes "generateWorkspaceState listEvents paused sts pod = Inl err" and "event_object paused sts pod = Some m"
    and "listEvents (om_Namespace m) (om_UID m) = Inl err"
  shows "decides listEvents paused sts pod"
  unfolding decides_def using assms by simp

text \<open>Without a Pod the decision rests on the events of the StatefulSet.\<close>

lemma no_pod_decides:
  assumes "sts_observed sts"
  shows "decides listEvents paused (Some sts) None"
proof (cases paused)
  case True
  show ?thesis
    by (rule decides_for_good [of _ _ _ _ WorkspaceStatePaused])
      (use assms True in \<open>simp_all add: generateWorkspaceState_no_pod event_object_def split: WorkspaceState.split,
        case_tac st', simp_all\<close>)
next
  case False
  note gen = generateWorkspaceState_no_pod [OF assms, of listEvents paused]
  have obj: "event_object paused (Some sts) None = Some (sts_Meta sts)"
    using assms False by (simp add: event_object_def)
  show ?thesis
  proof (cases listEvents "sts_Meta sts" rule: getLastWarningEvent_cases)
    case (failed err)
    show ?thesis
      using gen False failed obj by (intro decides_failed) simp_all
  next
    case (quiet events)
    have run: "generateWorkspaceState listEvents paused (Some sts) None = Inr (WorkspaceStatePending,
        ''Workspace is pending: Waiting for Pod to be created'', requeue_after (15 * time_Second))"
      using gen False quiet by simp
    show ?thesis
    proof (rule decides_again [OF run])
      show "state_means listEvents paused (Some sts) None st' \<longleftrightarrow> st' = WorkspaceStatePending" for st'
        using assms False quiet by (cases st') simp_all
    qed (use obj quiet in simp_all)
  next
    case (warned events e)
    have run: "generateWorkspaceState listEvents paused (Some sts) None = Inr (WorkspaceStateError,
        ''Workspace StatefulSet has warning event: '' @ evt_Message e, Result_zero)"
      using gen False warned by simp
    show ?thesis
    proof (rule decides_for_good [OF run])
      show "state_means listEvents paused (Some sts) None st' \<longleftrightarrow> st' = WorkspaceStateError" for st'
        using assms False warned by (cases st') simp_all
    qed (use obj warned in simp_all)
  qed
qed

text \<open>A Pod that is starting: the decision rests on its events and its phase.\<close>

lemma quiet_pod_decides:
  assumes sts: "sts_observed sts" "pod_current sts p" and p: "pod_starting p" "\<not> has_warning listEvents (pod_Meta p)"
    and obj: "case event_object paused (Some sts) (Some p) of
      None \<Rightarrow> True | Some m \<Rightarrow> \<exists>events. listEvents (om_Namespace m) (om_UID m) = Inr events"
    and quiet: "getLastWarningEvent listEvents (om_Namespace (pod_Meta p)) (om_UID (pod_Meta p)) = Inr None"
  shows "decides listEvents paused (Some sts) (Some p)"
proof -
  note gen = generateWorkspaceState_pod(4) [OF sts p(1), of listEvents paused]
  have facts: "om_DeletionTimestamp (pod_Meta p) = None" "\<not> sched_problem p" "\<not> pod_ready p" "\<not> container_problem p"
    using sts(2) p(1) by (simp_all add: pod_current_def pod_starting_def)
  consider (waiting) d msg where "pod_Phase p \<in> {''Pending'', ''Running''}" "0 < d"
      "generateWorkspaceState listEvents paused (Some sts) (Some p) = Inr (WorkspaceStatePending, msg, requeue_after d)"
    | (failed) msg where "pod_Phase p = ''Failed''"
      "generateWorkspaceState listEvents paused (Some sts) (Some p) = Inr (WorkspaceStateError, msg, Result_zero)"
    | (other) d msg where "pod_Phase p \<notin> {''Pending'', ''Running'', ''Failed''}" "0 < d"
      "generateWorkspaceState listEvents paused (Some sts) (Some p) = Inr (WorkspaceStateUnknown, msg, requeue_after d)"
    using gen quiet by (force split: if_splits)
  then show ?thesis
  proof cases
    case waiting
    show ?thesis
    proof (rule decides_again [OF waiting(3,2) _ obj])
      show "state_means listEvents paused (Some sts) (Some p) st' \<longleftrightarrow> st' = WorkspaceStatePending" for st'
        using sts p facts waiting(1) by (cases st') auto
    qed simp
  next
    case failed
    show ?thesis
    proof (rule decides_for_good [OF failed(2) _ obj])
      show "state_means listEvents paused (Some sts) (Some p) st' \<longleftrightarrow> st' = WorkspaceStateError" for st'
        using sts p facts failed(1) by (cases st') auto
    qed simp
  next
    case other
    show ?thesis
    proof (rule decides_again [OF other(3,2) _ obj])
      show "state_means listEvents paused (Some sts) (Some p) st' \<longleftrightarrow> st' = WorkspaceStateUnknown" for st'
        using sts p facts other(1) by (cases st') auto
    qed simp
  qed
qed

lemma starting_pod_decides:
  assumes "sts_observed sts" and "pod_current sts p" and "pod_starting p"
  shows "decides listEvents paused (Some sts) (Some p)"
proof -
  note gen = generateWorkspaceState_pod(4) [OF assms, of listEvents paused]
  have obj: "event_object paused (Some sts) (Some p) = Some (pod_Meta p)"
    using assms by (simp add: event_object_def)
  show ?thesis
  proof (cases listEvents "pod_Meta p" rule: getLastWarningEvent_cases)
    case (failed err)
    show ?thesis
      using gen failed obj by (intro decides_failed) simp_all
  next
    case (quiet events)
    show ?thesis
      by (rule quiet_pod_decides [OF assms quiet(2) _ quiet(3)]) (simp add: obj quiet)
  next
    case (warned events e)
    have run: "generateWorkspaceState listEvents paused (Some sts) (Some p) = Inr (WorkspaceStateError,
        ''Workspace Pod has warning event: '' @ evt_Message e, Result_zero)"
      using gen warned by simp
    show ?thesis
    proof (rule decides_for_good [OF run])
      show "state_means listEvents paused (Some sts) (Some p) st' \<longleftrightarrow> st' = WorkspaceStateError" for st'
        using assms warned by (cases st') (auto simp: pod_starting_def pod_current_def)
    qed (use obj warned in simp_all)
  qed
qed

text \<open>A Pod whose state does not depend on its events.\<close>

lemma outdated_pod_decides:
  assumes sts: "sts_observed sts" and p: "\<not> pod_current sts p"
  shows "decides listEvents paused (Some sts) (Some p)"
proof -
  have obj: "event_object paused (Some sts) (Some p) = None"
    using p by (simp add: event_object_def)
  show ?thesis
  proof (cases "om_DeletionTimestamp (pod_Meta p)")
    case None
    from generateWorkspaceState_waiting(4) [OF sts None p, of listEvents paused] obtain msg where
      run: "generateWorkspaceState listEvents paused (Some sts) (Some p) =
        Inr (WorkspaceStatePending, msg, requeue_after (5 * time_Second))"
      by blast
    show ?thesis
    proof (rule decides_again [OF run])
      show "state_means listEvents paused (Some sts) (Some p) st' \<longleftrightarrow> st' = WorkspaceStatePending" for st'
        using sts p None by (cases st') simp_all
    qed (simp_all add: obj)
  next
    case (Some d)
    then have "om_DeletionTimestamp (pod_Meta p) \<noteq> None"
      by simp
    from generateWorkspaceState_waiting(3) [OF sts this, of listEvents paused] obtain msg where
      run: "generateWorkspaceState listEvents paused (Some sts) (Some p) =
        Inr (WorkspaceStateTerminating, msg, requeue_after (5 * time_Second))"
      by blast
    show ?thesis
    proof (rule decides_again [OF run])
      show "state_means listEvents paused (Some sts) (Some p) st' \<longleftrightarrow> st' = WorkspaceStateTerminating" for st'
        using sts p Some by (cases st') simp_all
    qed (simp_all add: obj)
  qed
qed

lemma settled_pod_decides:
  assumes sts: "sts_observed sts" "pod_current sts p" and p: "\<not> pod_starting p"
  shows "decides listEvents paused (Some sts) (Some p)"
proof -
  have del: "om_DeletionTimestamp (pod_Meta p) = None"
    using sts(2) by (simp add: pod_current_def)
  have obj: "event_object paused (Some sts) (Some p) = None"
    using p by (simp add: event_object_def)
  show ?thesis
  proof (cases "\<not> sched_problem p \<and> pod_ready p")
    case True
    show ?thesis
    proof (rule decides_for_good [OF generateWorkspaceState_pod(2) [OF sts]])
      show "state_means listEvents paused (Some sts) (Some p) st' \<longleftrightarrow> st' = WorkspaceStateRunning" for st'
        using sts del True p by (cases st') simp_all
    qed (simp_all add: obj True)
  next
    case False
    then have "sched_problem p \<or> \<not> sched_problem p \<and> \<not> pod_ready p \<and> container_problem p"
      using p by (auto simp: pod_starting_def)
    then obtain msg where
      run: "generateWorkspaceState listEvents paused (Some sts) (Some p) = Inr (WorkspaceStateError, msg, Result_zero)"
      using generateWorkspaceState_pod(1,3) [OF sts, of listEvents paused] by blast
    show ?thesis
    proof (rule decides_for_good [OF run])
      show "state_means listEvents paused (Some sts) (Some p) st' \<longleftrightarrow> st' = WorkspaceStateError" for st'
        using sts del False p by (cases st') (auto simp: pod_starting_def)
    qed (simp_all add: obj)
  qed
qed

lemma pod_decides: "sts_observed sts \<Longrightarrow> decides listEvents paused (Some sts) (Some p)"
  using outdated_pod_decides settled_pod_decides starting_pod_decides by blast

section \<open>Properties\<close>

text \<open>
  C34. What the reported state means, for every StatefulSet, Pod and event list: a state is reported exactly if its
  meaning holds, so that each situation has one state. Running: the StatefulSet is settled, its Pod is of its revision, not
  being deleted, without a scheduling problem, in the phase Running and ready. Paused: to be paused, and the settled
  StatefulSet has no Pod. Terminating: its Pod is being deleted. Error: no Pod, and a warning event of the StatefulSet; or
  a current Pod with a scheduling problem, or one that is not ready and whose container cannot start, which has a
  warning event, or whose phase is Failed. Pending: the StatefulSet is not settled, the Pod has another
  revision, or there is no Pod yet or one in the phase Pending or Running without any of these problems. Unknown: there is no
  StatefulSet, or the Pod is in another phase without any of these problems. The controller asks to be called
  again exactly in the states Pending, Terminating and Unknown, which can change without an
  event. It fails exactly if the events of the object that decides (the StatefulSet without a Pod, or a Pod that is starting)
  cannot be listed, with that error.
\<close>

theorem generateWorkspaceState_exact:
  "case generateWorkspaceState listEvents paused statefulSet pod of
     Inl err \<Rightarrow> \<exists>m. event_object paused statefulSet pod = Some m \<and> listEvents (om_Namespace m) (om_UID m) = Inl err
   | Inr (st, msg, res) \<Rightarrow>
       (\<forall>st'. state_means listEvents paused statefulSet pod st' \<longleftrightarrow> st' = st) \<and>
       (case event_object paused statefulSet pod of
          None \<Rightarrow> True | Some m \<Rightarrow> \<exists>events. listEvents (om_Namespace m) (om_UID m) = Inr events) \<and>
       (0 < res_RequeueAfter res \<longleftrightarrow>
          st \<in> {WorkspaceStatePending, WorkspaceStateTerminating, WorkspaceStateUnknown})"
  unfolding decides_def [symmetric]
proof (cases statefulSet)
  case None
  have "state_means listEvents paused None pod st' \<longleftrightarrow> st' = WorkspaceStateUnknown" for st'
    by (cases st') simp_all
  then show "decides listEvents paused statefulSet pod"
    unfolding None by (intro decides_again [OF generateWorkspaceState_waiting(1)]) (simp_all add: event_object_def)
next
  case (Some sts)
  show "decides listEvents paused statefulSet pod"
  proof (cases "sts_observed sts")
    case True
    with Some show ?thesis
      by (cases pod) (simp_all add: no_pod_decides pod_decides)
  next
    case False
    obtain msg where run: "generateWorkspaceState listEvents paused (Some sts) pod =
        Inr (WorkspaceStatePending, msg, requeue_after (5 * time_Second))"
      using generateWorkspaceState_waiting(2) [OF False, of listEvents paused pod] by blast
    show ?thesis
      unfolding Some
    proof (rule decides_again [OF run])
      show "state_means listEvents paused (Some sts) pod st' \<longleftrightarrow> st' = WorkspaceStatePending" for st'
        using False by (cases st') simp_all
    qed (simp_all add: False event_object_def)
  qed
qed

text \<open>
  \<open>getLastWarningEvent\<close> returns a warning event of the object with the latest timestamp, and
  \<open>nil\<close> exactly if the object has no warning event.
\<close>

theorem getLastWarningEvent_latest:
  "case listEvents namespace uid of
     Inl err \<Rightarrow> getLastWarningEvent listEvents namespace uid = Inl err
   | Inr events \<Rightarrow>
       (\<exists>res. getLastWarningEvent listEvents namespace uid = Inr res \<and>
          (case res of
            None \<Rightarrow> filter (\<lambda>e. evt_Type e = ''Warning'') events = []
          | Some l \<Rightarrow>
              l \<in> set events \<and> evt_Type l = ''Warning'' \<and>
              list_all (\<lambda>e. evt_LastTimestamp e \<le> evt_LastTimestamp l)
                (filter (\<lambda>e. evt_Type e = ''Warning'') events)))"
proof (cases "listEvents namespace uid")
  case (Inr events)
  with last_warning_loop_None [of events] show ?thesis
    by (auto simp: getLastWarningEvent_def filter_empty_conv list_all_iff split: option.splits)
qed (simp add: getLastWarningEvent_def)

text \<open>
  The times in the status. \<open>pauseTime\<close> is zero unless the Workspace is to be paused; when it is,
  a time set earlier is kept and otherwise it is set to the current time. \<open>lastRunningTime\<close> changes,
  and the activity record is cleared, exactly when the Workspace enters the running state (or is
  running without a recorded time), so that activity of an earlier run cannot pause a new one.
\<close>

theorem generateWorkspaceStatus_times:
  assumes "generateWorkspaceStatus listEvents now0 now1 workspace pod statefulSet serviceAccount = (status, Inr result)"
  shows "st_PauseTime status =
      (if ws_Paused (w_Spec workspace)
       then if st_PauseTime (w_Status workspace) = 0 then UnixMilli now0 else st_PauseTime (w_Status workspace)
       else 0) \<and>
    (\<exists>msg. generateWorkspaceState listEvents (ws_Paused (w_Spec workspace)) statefulSet pod =
       Inr (st_State status, msg, result)) \<and>
    (if st_State status = WorkspaceStateRunning \<and>
        (st_State (w_Status workspace) \<noteq> WorkspaceStateRunning \<or> st_LastRunningTime (w_Status workspace) = 0)
     then st_LastRunningTime status = UnixMilli now1 \<and> st_Activity status = WorkspaceActivity_zero
     else st_LastRunningTime status = st_LastRunningTime (w_Status workspace) \<and>
       st_Activity status = st_Activity (w_Status workspace))"
  using assms
  by (auto simp: generateWorkspaceStatus_def recordRunningTransition_def Let_def
      split: sum.splits option.splits if_splits prod.splits)

theorem generateWorkspaceStatus_times_witness:
  "st_PauseTime (fst (generateWorkspaceStatus (\<lambda>_ _. Inr []) 10000000000000 20000000000000 sample_workspace
     None None None)) = 0 \<and>
   st_LastRunningTime (fst (generateWorkspaceStatus (\<lambda>_ _. Inr []) 10000000000000 20000000000000
     sample_workspace None None None)) = 0"
proof -
  obtain status where run: "generateWorkspaceStatus (\<lambda>_ _. Inr []) 10000000000000 20000000000000
      sample_workspace None None None = (status, Inr (requeue_after (5 * time_Minute)))"
    and "st_State status = WorkspaceStateUnknown"
    by (simp add: generateWorkspaceStatus_def generateWorkspaceState_def recordRunningTransition_def Let_def)
  with generateWorkspaceStatus_times [OF run] show ?thesis
    by (simp add: sample_workspace_def sample_status_def)
qed

end
