(* ===== verification/Client.thy ===== *)
theory Client
  imports Workspace_State
begin

text \<open>
  The Kubernetes API as the reconcilers see it. The API server, its caches, other clients and the
  clock are a world of an arbitrary type \<open>'s\<close>: every request takes the world and returns its answer
  with a new world, so a theorem over all clients holds for every failure, every stale cache and
  every interleaving with other writers. A run also records the writes it has issued, in order,
  and carries the selector cache of the process.

  A step either goes on with a value (\<open>Inr\<close>) or ends the reconcile (\<open>Inl\<close>), as the Go code does with its
  early returns.
\<close>

section \<open>Writes\<close>

datatype owned_object =
    OwnedServiceAccount ServiceAccount
  | OwnedStatefulSet StatefulSet
  | OwnedService Service
  | OwnedVirtualService VirtualService
  | OwnedRoleBinding RoleBinding

primrec owned_meta :: "owned_object \<Rightarrow> ObjectMeta" where
  "owned_meta (OwnedServiceAccount x) = sa_Meta x"
| "owned_meta (OwnedStatefulSet x) = sts_Meta x"
| "owned_meta (OwnedService x) = svc_Meta x"
| "owned_meta (OwnedVirtualService x) = vs_Meta x"
| "owned_meta (OwnedRoleBinding x) = rb_Meta x"

text \<open>
  A delete carries the UID and the resource version of its object as preconditions; a patch is
  computed from the object as it was fetched and the object to be reached.
\<close>

datatype api_call =
    CallUpdateKind WorkspaceKind
  | CallUpdateKindStatus WorkspaceKind
  | CallCreate owned_object
  | CallUpdate owned_object
  | CallDeleteRoleBinding RoleBinding
  | CallDeletePod Pod
  | CallUpdateStatus Workspace
  | CallPatchWorkspace Workspace Workspace

section \<open>The client\<close>

type_synonym ('s, 'a) request = "'s \<Rightarrow> (go_error + 'a) \<times> 's"

text \<open>\<open>List\<close> takes the namespace and the name of the owning Workspace (the index on the controller).\<close>

record ('s, 'o) owned_ops =
  op_List :: "string \<Rightarrow> string \<Rightarrow> ('s, 'o list) request"
  op_Create :: "'o \<Rightarrow> ('s, 'o) request"
  op_Update :: "'o \<Rightarrow> ('s, 'o) request"

text \<open>What the status phase reads: events, the clock, the namespace, the probe.\<close>

record readings =
  rd_listEvents :: event_lister
  rd_statusNow0 :: go_time
  rd_statusNow1 :: go_time
  rd_nsGet :: "string \<Rightarrow> go_error + str_map"
  rd_activityNow0 :: go_time
  rd_activityNow1 :: go_time
  rd_probe :: probe_env

record 's client =
  c_GetWorkspace :: "string \<Rightarrow> string \<Rightarrow> ('s, Workspace) request"
  c_GetWorkspaceKind :: "string \<Rightarrow> ('s, WorkspaceKind) request"
  c_UpdateWorkspaceKind :: "WorkspaceKind \<Rightarrow> ('s, WorkspaceKind) request"
  c_ServiceAccounts :: "('s, ServiceAccount) owned_ops"
  c_StatefulSets :: "('s, StatefulSet) owned_ops"
  c_Services :: "('s, Service) owned_ops"
  c_VirtualServices :: "('s, VirtualService) owned_ops"
  c_RoleBindings :: "('s, RoleBinding) owned_ops"
  c_DeleteRoleBinding :: "RoleBinding \<Rightarrow> ('s, unit) request"
  c_GetPod :: "string \<Rightarrow> string \<Rightarrow> ('s, Pod) request"
  c_DeletePod :: "Pod \<Rightarrow> ('s, unit) request"
  c_UpdateStatus :: "Workspace \<Rightarrow> ('s, Workspace) request"
  c_PatchWorkspace :: "Workspace \<Rightarrow> Workspace \<Rightarrow> ('s, Workspace) request"
  c_Readings :: "'s \<Rightarrow> readings \<times> 's"

section \<open>Runs\<close>

record 's run =
  run_world :: 's
  run_cache :: selector_cache
  run_calls :: "api_call list"

text \<open>How a reconcile ends: with a result and an error, or in a panic, or not at all.\<close>

datatype outcome =
    Returned Result "go_error option"
  | Panicked
  | Diverged

type_synonym ('s, 'a) act = "'s run \<Rightarrow> (outcome + 'a) \<times> 's run"

definition act_return :: "'a \<Rightarrow> ('s, 'a) act" where
  "act_return x s = (Inr x, s)"

definition act_stop :: "outcome \<Rightarrow> ('s, 'a) act" where
  "act_stop out s = (Inl out, s)"

definition act_bind :: "('s, 'a) act \<Rightarrow> ('a \<Rightarrow> ('s, 'b) act) \<Rightarrow> ('s, 'b) act" where
  "act_bind m f s =
     (case m s of
       (Inl out, s) \<Rightarrow> (Inl out, s)
     | (Inr x, s) \<Rightarrow> f x s)"

definition act_read :: "('s, 'a) request \<Rightarrow> ('s, go_error + 'a) act" where
  "act_read f s = (case f (run_world s) of (r, w) \<Rightarrow> (Inr r, s\<lparr>run_world := w\<rparr>))"

definition act_write :: "api_call \<Rightarrow> ('s, 'a) request \<Rightarrow> ('s, go_error + 'a) act" where
  "act_write c f s =
     (case f (run_world s) of (r, w) \<Rightarrow> (Inr r, s\<lparr>run_world := w, run_calls := run_calls s @ [c]\<rparr>))"

text \<open>\<open>return ctrl.Result{...}, err\<close> of the reconcile itself.\<close>

definition act_finish :: "Result \<times> go_error option \<Rightarrow> ('s, 'a) act" where
  "act_finish r = act_stop (Returned (fst r) (snd r))"

section \<open>What a run writes\<close>

text \<open>
  \<open>act_spec P E Q m\<close>: whatever the world does, every write that \<open>m\<close> issues satisfies \<open>P\<close>; if \<open>m\<close> ends the
  reconcile, the outcome satisfies \<open>E\<close>; if it goes on with a value, the value satisfies \<open>Q\<close>.
\<close>

definition act_spec :: "(api_call \<Rightarrow> bool) \<Rightarrow> (outcome \<Rightarrow> bool) \<Rightarrow> ('a \<Rightarrow> bool) \<Rightarrow> ('s, 'a) act \<Rightarrow> bool" where
  "act_spec P E Q m \<longleftrightarrow>
     (\<forall>s r s'. m s = (r, s') \<longrightarrow>
        (\<exists>new. run_calls s' = run_calls s @ new \<and> list_all P new) \<and>
        (case r of Inl out \<Rightarrow> E out | Inr x \<Rightarrow> Q x))"

named_theorems spec_intros

lemma act_specE:
  assumes "act_spec P E Q m" and "m s = (r, s')"
  obtains new where "run_calls s' = run_calls s @ new" and "list_all P new"
    and "case r of Inl out \<Rightarrow> E out | Inr x \<Rightarrow> Q x"
proof -
  have "(\<exists>new. run_calls s' = run_calls s @ new \<and> list_all P new) \<and> (case r of Inl out \<Rightarrow> E out | Inr x \<Rightarrow> Q x)"
    by (rule assms(1) [unfolded act_spec_def, rule_format, OF assms(2)])
  then show thesis
    using that by auto
qed

lemma act_spec_return [spec_intros]: "Q x \<Longrightarrow> act_spec P E Q (act_return x)"
  by (simp add: act_spec_def act_return_def)

lemma act_spec_stop [spec_intros]: "E out \<Longrightarrow> act_spec P E Q (act_stop out)"
  by (simp add: act_spec_def act_stop_def)

lemma act_spec_finish [spec_intros]: "E (Returned (fst r) (snd r)) \<Longrightarrow> act_spec P E Q (act_finish r)"
  by (simp add: act_finish_def act_spec_stop)

lemma act_spec_bind:
  assumes "act_spec P E R m" and "\<And>x. R x \<Longrightarrow> act_spec P E Q (f x)"
  shows "act_spec P E Q (act_bind m f)"
  unfolding act_spec_def
proof (intro allI impI)
  fix s r s'
  assume run: "act_bind m f s = (r, s')"
  obtain r1 s1 where m: "m s = (r1, s1)"
    by fastforce
  from act_specE [OF assms(1) m] obtain new1 where n1: "run_calls s1 = run_calls s @ new1" "list_all P new1"
    and R: "case r1 of Inl out \<Rightarrow> E out | Inr x \<Rightarrow> R x"
    by metis
  show "(\<exists>new. run_calls s' = run_calls s @ new \<and> list_all P new) \<and> (case r of Inl out \<Rightarrow> E out | Inr x \<Rightarrow> Q x)"
  proof (cases r1)
    case (Inl out)
    with run m n1 R show ?thesis by (auto simp: act_bind_def)
  next
    case (Inr x)
    with run m have "f x s1 = (r, s')"
      by (simp add: act_bind_def)
    from R Inr have "R x"
      by simp
    from act_specE [OF assms(2) [OF this] \<open>f x s1 = (r, s')\<close>] obtain new2 where
      "run_calls s' = run_calls s1 @ new2" "list_all P new2" and "case r of Inl out \<Rightarrow> E out | Inr x \<Rightarrow> Q x"
      by metis
    with n1 show ?thesis by auto
  qed
qed

lemma act_spec_read [spec_intros]: "act_spec P E (\<lambda>r. True) (act_read f)"
  by (auto simp: act_spec_def act_read_def split: prod.splits)

lemma act_spec_read_post:
  "(\<And>w r w'. f w = (r, w') \<Longrightarrow> Q r) \<Longrightarrow> act_spec P E Q (act_read f)"
  by (auto simp: act_spec_def act_read_def split: prod.splits)

lemma act_spec_write [spec_intros]: "P c \<Longrightarrow> act_spec P E (\<lambda>r. True) (act_write c f)"
  by (auto simp: act_spec_def act_write_def split: prod.splits)

end
