(* ===== verification/Redirects.thy ===== *)
theory Redirects
  imports Samples
begin

text \<open>
  \<open>getImageConfig\<close> and \<open>getPodConfig\<close> of \<open>internal/controller/workspace_controller.go\<close>: the option a
  Workspace selects and the option it should use after following redirects. The two Go functions
  are the same text over two types, so the model has one loop, \<open>followRedirects\<close>, and one function,
  \<open>getOptionConfig\<close>, with the accessors of the option type as arguments.

  The loop is a \<open>partial_function\<close>: \<open>None\<close> is a run that never returns. The specification is the
  inductive relation \<open>resolves\<close>; the interface \<open>option_resolver\<close> states what a caller relies on, and
  is interpreted for both option types.
\<close>

section \<open>The functions\<close>

type_synonym redirect_chain = "WorkspacePodOptionRedirectStep list"

partial_function (option) followRedirects ::
  "string \<Rightarrow> ('v \<Rightarrow> string) \<Rightarrow> ('v \<Rightarrow> OptionRedirect option) \<Rightarrow> (string, 'v) go_map
   \<Rightarrow> 'v \<Rightarrow> redirect_chain \<Rightarrow> (string, bool) go_map \<Rightarrow> (go_error + 'v \<times> redirect_chain) option" where
  "followRedirects what idOf redirectOf idMap desired chain visited =
     (case redirectOf desired of
       None \<Rightarrow> Some (Inr (desired, chain))
     | Some redirect \<Rightarrow>
         if map_has visited (redir_To redirect)
         then Some (Inl (ErrOther
                (what @ '' with id '' @ go_quote (idOf desired) @ '' has a circular redirect'')))
         else
           (case map_of idMap (redir_To redirect) of
             None \<Rightarrow> Some (Inl (ErrOther
                (what @ '' with id '' @ go_quote (redir_To redirect) @
                 '' not found, was redirected from '' @ go_quote (idOf desired))))
           | Some nextNode \<Rightarrow>
               followRedirects what idOf redirectOf idMap nextNode
                 (chain @ [\<lparr>rs_Source = idOf desired, rs_Target = idOf nextNode\<rparr>])
                 (AList.update (idOf nextNode) True visited)))"

text \<open>The result is \<open>(current, desired, redirectChain)\<close>; \<open>None\<close> in second place is Go's \<open>nil\<close>.\<close>

definition getOptionConfig ::
  "string \<Rightarrow> ('v \<Rightarrow> string) \<Rightarrow> ('v \<Rightarrow> OptionRedirect option) \<Rightarrow> 'v list \<Rightarrow> string
   \<Rightarrow> (go_error + 'v \<times> 'v option \<times> redirect_chain) option" where
  "getOptionConfig what idOf redirectOf values key =
     (let idMap = index_by idOf values []
      in case map_of idMap key of
           None \<Rightarrow> Some (Inl (ErrOther (what @ '' with id '' @ go_quote key @ '' not found'')))
         | Some current \<Rightarrow>
             (case followRedirects what idOf redirectOf idMap current [] [(idOf current, True)] of
               None \<Rightarrow> None
             | Some (Inl err) \<Rightarrow> Some (Inl err)
             | Some (Inr (desired, chain)) \<Rightarrow>
                 if idOf current \<noteq> idOf desired
                 then Some (Inr (current, Some desired, chain))
                 else Some (Inr (current, None, []))))"

definition getImageConfig ::
  "Workspace \<Rightarrow> WorkspaceKind
   \<Rightarrow> (go_error + ImageConfigValue \<times> ImageConfigValue option \<times> redirect_chain) option" where
  "getImageConfig workspace workspaceKind =
     getOptionConfig ''imageConfig'' icv_Id icv_Redirect (wk_ImageConfigValues workspaceKind)
       (wpo_ImageConfig (w_Options workspace))"

definition getPodConfig ::
  "Workspace \<Rightarrow> WorkspaceKind
   \<Rightarrow> (go_error + PodConfigValue \<times> PodConfigValue option \<times> redirect_chain) option" where
  "getPodConfig workspace workspaceKind =
     getOptionConfig ''podConfig'' pcv_Id pcv_Redirect (wk_PodConfigValues workspaceKind)
       (wpo_PodConfig (w_Options workspace))"

section \<open>The specification\<close>

text \<open>
  \<open>resolves idOf redirectOf idMap v d steps\<close>: following the redirects from \<open>v\<close> ends at \<open>d\<close>, which has
  no redirect, through the steps listed.
\<close>

inductive resolves ::
  "('v \<Rightarrow> string) \<Rightarrow> ('v \<Rightarrow> OptionRedirect option) \<Rightarrow> (string, 'v) go_map
   \<Rightarrow> 'v \<Rightarrow> 'v \<Rightarrow> redirect_chain \<Rightarrow> bool"
  for idOf redirectOf idMap where
  resolves_stop: "redirectOf v = None \<Longrightarrow> resolves idOf redirectOf idMap v v []"
| resolves_step:
    "redirectOf v = Some r \<Longrightarrow> map_of idMap (redir_To r) = Some v' \<Longrightarrow>
     resolves idOf redirectOf idMap v' d steps \<Longrightarrow>
     resolves idOf redirectOf idMap v d (\<lparr>rs_Source = idOf v, rs_Target = idOf v'\<rparr> # steps)"

inductive_cases resolvesE: "resolves idOf redirectOf idMap v d steps"
inductive_cases resolves_NilE: "resolves idOf redirectOf idMap v d []"
inductive_cases resolves_ConsE: "resolves idOf redirectOf idMap v d (s # steps)"

lemma resolves_det:
  "resolves f r m v d steps \<Longrightarrow> resolves f r m v d' steps' \<Longrightarrow> d = d' \<and> steps = steps'"
proof (induction arbitrary: d' steps' rule: resolves.induct)
  case (resolves_stop v)
  then show ?case by (auto elim: resolvesE)
next
  case (resolves_step v rd v' d steps)
  from resolves_step.prems resolves_step.hyps(1,2) obtain t where
    t: "steps' = \<lparr>rs_Source = f v, rs_Target = f v'\<rparr> # t" "resolves f r m v' d' t"
    by (auto elim: resolvesE)
  with resolves_step.IH show ?case by blast
qed

lemma resolves_end: "resolves f r m v d steps \<Longrightarrow> r d = None"
  by (induction rule: resolves.induct) simp_all

section \<open>The loop implements the specification\<close>

text \<open>
  \<open>keyed\<close>: every value is stored under its own id. \<open>visited_inv\<close>: every visited id belongs to a value
  whose resolution, if it has one, is at least as long as that of the current value.
\<close>

definition keyed :: "('v \<Rightarrow> string) \<Rightarrow> (string, 'v) go_map \<Rightarrow> bool" where
  "keyed idOf idMap \<longleftrightarrow> (\<forall>k v. map_of idMap k = Some v \<longrightarrow> idOf v = k)"

definition visited_inv ::
  "('v \<Rightarrow> string) \<Rightarrow> ('v \<Rightarrow> OptionRedirect option) \<Rightarrow> (string, 'v) go_map \<Rightarrow> (string, bool) go_map
   \<Rightarrow> 'v \<Rightarrow> bool" where
  "visited_inv f r m visited v \<longleftrightarrow>
     (\<forall>u. map_has visited u \<longrightarrow>
        (\<exists>vu. map_of m u = Some vu \<and>
           (\<forall>d s. resolves f r m v d s \<longrightarrow> (\<exists>s'. resolves f r m vu d s' \<and> length s \<le> length s'))))"

lemma visited_inv_start:
  "map_of m (f v) = Some v \<Longrightarrow> visited_inv f r m [(f v, True)] v"
  by (auto simp: visited_inv_def)

lemma map_has_update: "map_has (AList.update k True m) k' \<longleftrightarrow> k = k' \<or> map_has m k'"
  by (simp add: map_has_def update_conv)

lemma visited_inv_step:
  assumes "visited_inv f r m visited v" and "keyed f m"
    and "r v = Some rd" and "map_of m (redir_To rd) = Some v'"
  shows "visited_inv f r m (AList.update (f v') True visited) v'"
  unfolding visited_inv_def
proof (intro allI impI)
  fix u
  assume u: "map_has (AList.update (f v') True visited) u"
  show "\<exists>vu. map_of m u = Some vu \<and>
      (\<forall>d s. resolves f r m v' d s \<longrightarrow> (\<exists>s'. resolves f r m vu d s' \<and> length s \<le> length s'))"
  proof (cases "u = f v'")
    case True
    with assms(2,4) show ?thesis
      by (auto simp: keyed_def)
  next
    case False
    with u have "map_has visited u"
      by (simp add: map_has_update)
    with assms(1) obtain vu where vu: "map_of m u = Some vu"
      and long: "\<And>d s. resolves f r m v d s \<Longrightarrow> \<exists>s'. resolves f r m vu d s' \<and> length s \<le> length s'"
      by (auto simp: visited_inv_def)
    have "\<exists>s'. resolves f r m vu d s' \<and> length s \<le> length s'" if "resolves f r m v' d s" for d s
      using long [OF resolves_step [of r v rd m v' f, OF assms(3,4) that]] by auto
    with vu show ?thesis by blast
  qed
qed

text \<open>A redirect back to a visited id is a redirect that never ends.\<close>

lemma visited_no_resolution:
  assumes "visited_inv f r m visited v" and "r v = Some rd" and "map_has visited (redir_To rd)"
  shows "\<not> resolves f r m v d s"
proof
  assume res: "resolves f r m v d s"
  with assms(2) obtain v' t where v': "map_of m (redir_To rd) = Some v'" and t: "resolves f r m v' d t"
    and s: "length s = Suc (length t)"
    by (auto elim: resolvesE)
  from assms(1,3) v' res obtain s' where "resolves f r m v' d s'" and "length s \<le> length s'"
    unfolding visited_inv_def by (metis option.inject)
  with t s show False
    by (auto dest: resolves_det)
qed

text \<open>
  The loop returns; a value it returns is the resolution; an error means there is none. Induction
  on the number of ids not visited yet.
\<close>

lemma followRedirects_spec:
  "keyed f m \<Longrightarrow> visited_inv f r m visited v \<Longrightarrow>
   \<exists>res. followRedirects what f r m v chain visited = Some res \<and>
     (\<forall>d c. res = Inr (d, c) \<longrightarrow> (\<exists>steps. c = chain @ steps \<and> resolves f r m v d steps)) \<and>
     (\<forall>err. res = Inl err \<longrightarrow> (\<forall>d steps. \<not> resolves f r m v d steps))"
proof (induction "card (fst ` set m - {u. map_has visited u})" arbitrary: v chain visited
    rule: less_induct)
  case less
  note unfold = followRedirects.simps [of what f r m v chain visited]
  show ?case
  proof (cases "r v")
    case None
    then show ?thesis
      by (simp add: unfold) (blast intro: resolves_stop)
  next
    case (Some rd)
    consider (circular) "map_has visited (redir_To rd)"
      | (missing) "\<not> map_has visited (redir_To rd)" "map_of m (redir_To rd) = None"
      | (forward) v' where "\<not> map_has visited (redir_To rd)" "map_of m (redir_To rd) = Some v'"
      by blast
    then show ?thesis
    proof cases
      case circular
      with Some less.prems show ?thesis
        by (simp add: unfold visited_no_resolution)
    next
      case missing
      with Some show ?thesis
        by (auto simp: unfold elim: resolvesE)
    next
      case forward
      with less.prems(1) have "f v' = redir_To rd"
        by (simp add: keyed_def)
      moreover from forward(2) have "redir_To rd \<in> fst ` set m"
        by (metis domIff dom_map_of_conv_image_fst option.distinct(1))
      ultimately have "card (fst ` set m - {u. map_has (AList.update (f v') True visited) u})
          < card (fst ` set m - {u. map_has visited u})"
        using forward(1) by (intro psubset_card_mono) (auto simp: map_has_update)
      moreover have "visited_inv f r m (AList.update (f v') True visited) v'"
        using less.prems Some forward(2) by (intro visited_inv_step)
      ultimately obtain res where
        res: "followRedirects what f r m v' (chain @ [\<lparr>rs_Source = f v, rs_Target = f v'\<rparr>])
               (AList.update (f v') True visited) = Some res"
        and ok: "\<And>d c. res = Inr (d, c) \<Longrightarrow>
               \<exists>steps. c = (chain @ [\<lparr>rs_Source = f v, rs_Target = f v'\<rparr>]) @ steps \<and>
                 resolves f r m v' d steps"
        and bad: "\<And>err. res = Inl err \<Longrightarrow> \<forall>d steps. \<not> resolves f r m v' d steps"
        using less.hyps less.prems(1) by blast
      have "\<exists>steps. c = chain @ steps \<and> resolves f r m v d steps" if "res = Inr (d, c)" for d c
        using ok [OF that] resolves_step [of r v rd m v' f, OF Some forward(2)] by fastforce
      moreover have "\<not> resolves f r m v d steps" if "res = Inl err" for err d steps
        using bad [OF that] Some forward(2) by (auto elim: resolvesE)
      ultimately show ?thesis
        using Some forward res by (auto simp: unfold)
    qed
  qed
qed

lemma keyed_index_by: "keyed f (index_by f vs [])"
  by (auto simp: keyed_def dest: index_by_Some(2))

text \<open>What the result of \<open>getOptionConfig\<close> says, as one relation between key and result.\<close>

definition option_result ::
  "('v \<Rightarrow> string) \<Rightarrow> ('v \<Rightarrow> OptionRedirect option) \<Rightarrow> 'v list \<Rightarrow> string
   \<Rightarrow> 'v \<times> 'v option \<times> redirect_chain \<Rightarrow> bool" where
  "option_result f r vs key res \<longleftrightarrow>
     (\<exists>cur d steps. map_of (index_by f vs []) key = Some cur \<and>
        resolves f r (index_by f vs []) cur d steps \<and>
        res = (if f cur = f d then (cur, None, []) else (cur, Some d, steps)))"

lemma getOptionConfig_spec:
  "\<exists>res. getOptionConfig what f r vs key = Some res \<and>
     (\<forall>x. res = Inr x \<longrightarrow> option_result f r vs key x) \<and>
     (\<forall>err. res = Inl err \<longrightarrow> (\<forall>x. \<not> option_result f r vs key x))"
proof (cases "map_of (index_by f vs []) key")
  case None
  then show ?thesis
    by (simp add: getOptionConfig_def option_result_def)
next
  case (Some cur)
  then have key: "f cur = key"
    by (rule index_by_Some)
  with Some have "visited_inv f r (index_by f vs []) [(f cur, True)] cur"
    by (intro visited_inv_start) simp
  then obtain res where
    res: "followRedirects what f r (index_by f vs []) cur [] [(f cur, True)] = Some res"
    and ok: "\<And>d c. res = Inr (d, c) \<Longrightarrow> resolves f r (index_by f vs []) cur d c"
    and bad: "\<And>err d c. res = Inl err \<Longrightarrow> \<not> resolves f r (index_by f vs []) cur d c"
    using followRedirects_spec [OF keyed_index_by, of f r vs "[(f cur, True)]" cur what "[]"]
    by auto
  show ?thesis
  proof (cases res)
    case (Inl err)
    with Some res bad show ?thesis
      by (simp add: getOptionConfig_def option_result_def)
  next
    case (Inr dc)
    obtain d c where dc: "dc = (d, c)"
      by fastforce
    with ok Inr have "resolves f r (index_by f vs []) cur d c"
      by simp
    with Some res Inr dc show ?thesis
      by (auto simp: getOptionConfig_def option_result_def)
  qed
qed

lemma option_result_det:
  "option_result f r vs key x \<Longrightarrow> option_result f r vs key y \<Longrightarrow> x = y"
  unfolding option_result_def by (auto dest: resolves_det)

lemma getOptionConfig_iff:
  "getOptionConfig what f r vs key = Some (Inr x) \<longleftrightarrow> option_result f r vs key x"
proof -
  obtain res where res: "getOptionConfig what f r vs key = Some res"
    and ok: "\<And>x. res = Inr x \<Longrightarrow> option_result f r vs key x"
    and bad: "\<And>err x. res = Inl err \<Longrightarrow> \<not> option_result f r vs key x"
    using getOptionConfig_spec [of what f r vs key] by blast
  show ?thesis
  proof (cases res)
    case (Inl err)
    with res bad show ?thesis by simp
  next
    case (Inr y)
    with res ok show ?thesis
      by (auto dest: option_result_det)
  qed
qed

section \<open>The interface for callers\<close>

text \<open>
  \<open>option_resolver\<close>: what the reconciler relies on when it asks for the current and the desired
  option. The provider always answers; it answers with a result exactly when the selected option
  exists and its redirects resolve.
\<close>

locale option_resolver =
  fixes resolve :: "'v list \<Rightarrow> string \<Rightarrow> (go_error + 'v \<times> 'v option \<times> redirect_chain) option"
    and idOf :: "'v \<Rightarrow> string"
    and redirectOf :: "'v \<Rightarrow> OptionRedirect option"
  assumes resolve_total: "\<exists>res. resolve vs key = Some res"
    and resolve_iff: "resolve vs key = Some (Inr x) \<longleftrightarrow> option_result idOf redirectOf vs key x"
begin

lemma resolve_current:
  assumes "resolve vs key = Some (Inr (cur, des, chain))"
  shows "cur \<in> set vs" and "idOf cur = key"
proof -
  from assms have "map_of (index_by idOf vs []) key = Some cur"
    by (auto simp: resolve_iff option_result_def split: if_splits)
  then show "cur \<in> set vs" and "idOf cur = key"
    by (rule index_by_Some)+
qed

text \<open>A desired option is a different one, it is final, and the chain leads from the current one to it.\<close>

lemma resolve_desired:
  assumes "resolve vs key = Some (Inr (cur, Some d, chain))"
  shows "idOf d \<noteq> idOf cur" and "redirectOf d = None"
    and "resolves idOf redirectOf (index_by idOf vs []) cur d chain"
  using assms by (auto simp: resolve_iff option_result_def dest: resolves_end split: if_splits)

lemma resolve_no_desired:
  assumes "resolve vs key = Some (Inr (cur, None, chain))"
  shows "chain = []" and "redirectOf cur = None"
proof -
  from assms obtain d steps where
    cur: "map_of (index_by idOf vs []) key = Some cur"
    and res: "resolves idOf redirectOf (index_by idOf vs []) cur d steps"
    and eq: "idOf cur = idOf d" and "chain = []"
    by (auto simp: resolve_iff option_result_def split: if_splits)
  show "chain = []" by fact
  from res show "redirectOf cur = None"
  proof (cases rule: resolves.cases)
    case (resolves_step rd v' t)
    have "map_of (index_by idOf vs []) (idOf x) = Some x"
      if "resolves idOf redirectOf (index_by idOf vs []) y x s"
        and "map_of (index_by idOf vs []) (idOf y) = Some y" for x y s
      using that
    proof (induction rule: resolves.induct)
      case (resolves_step v rd' v'' d' s')
      then show ?case by (metis index_by_Some(2))
    qed
    moreover have "map_of (index_by idOf vs []) (idOf cur) = Some cur"
      using cur index_by_Some(2) by fastforce
    ultimately have "d = cur"
      using res eq by (metis option.inject)
    with res show ?thesis
      by (auto dest: resolves_end)
  qed simp
qed

end

interpretation image_resolver: option_resolver
  "getOptionConfig ''imageConfig'' icv_Id icv_Redirect" icv_Id icv_Redirect
proof
  show "\<exists>res. getOptionConfig ''imageConfig'' icv_Id icv_Redirect vs key = Some res" for vs key
    using getOptionConfig_spec [of "''imageConfig''" icv_Id icv_Redirect vs key] by blast
  show "getOptionConfig ''imageConfig'' icv_Id icv_Redirect vs key = Some (Inr x) \<longleftrightarrow>
      option_result icv_Id icv_Redirect vs key x" for vs key x
    by (rule getOptionConfig_iff)
qed

interpretation pod_resolver: option_resolver
  "getOptionConfig ''podConfig'' pcv_Id pcv_Redirect" pcv_Id pcv_Redirect
proof
  show "\<exists>res. getOptionConfig ''podConfig'' pcv_Id pcv_Redirect vs key = Some res" for vs key
    using getOptionConfig_spec [of "''podConfig''" pcv_Id pcv_Redirect vs key] by blast
  show "getOptionConfig ''podConfig'' pcv_Id pcv_Redirect vs key = Some (Inr x) \<longleftrightarrow>
      option_result pcv_Id pcv_Redirect vs key x" for vs key x
    by (rule getOptionConfig_iff)
qed

section \<open>Properties\<close>

text \<open>
  C37. \<open>getImageConfig\<close> always returns, and it implements the relation \<open>option_result\<close> exactly: it
  returns a triple (current, desired, chain) iff the selected id exists in the kind and following
  its redirects ends, desired being the last option when it differs from the current one (and
  \<open>nil\<close> with an empty chain otherwise). Hence it returns an error iff the id is unknown, a redirect
  target is missing or the redirects are circular.
\<close>

theorem getImageConfig_refines:
  "(\<exists>res. getImageConfig workspace workspaceKind = Some res) \<and>
   (getImageConfig workspace workspaceKind = Some (Inr x) \<longleftrightarrow>
      option_result icv_Id icv_Redirect (wk_ImageConfigValues workspaceKind)
        (wpo_ImageConfig (w_Options workspace)) x)"
  unfolding getImageConfig_def
  using image_resolver.resolve_total image_resolver.resolve_iff by blast

text \<open>
  The same for \<open>getPodConfig\<close>; and what a caller gets from it: the current option is the one the
  Workspace selects, a desired option is a different one without a redirect of its own that the
  recorded chain leads to, and without a desired option the current one has no redirect.
\<close>

theorem getPodConfig_result:
  assumes "getPodConfig workspace workspaceKind = Some (Inr (cur, desired, chain))"
  shows "cur \<in> set (wk_PodConfigValues workspaceKind) \<and>
    pcv_Id cur = wpo_PodConfig (w_Options workspace) \<and>
    (case desired of
           None \<Rightarrow> pcv_Redirect cur = None \<and> chain = []
         | Some d \<Rightarrow> pcv_Id d \<noteq> pcv_Id cur \<and> pcv_Redirect d = None \<and>
             resolves pcv_Id pcv_Redirect
               (index_by pcv_Id (wk_PodConfigValues workspaceKind) []) cur d chain)"
  using assms unfolding getPodConfig_def
  by (cases desired)
    (auto dest: pod_resolver.resolve_current pod_resolver.resolve_desired
      pod_resolver.resolve_no_desired)

theorem getPodConfig_result_witness:
  "pcv_Id (sample_pod_config ''tiny'' (Some ''small'')) = ''tiny'' \<and>
   pcv_Id (sample_pod_config ''small'' None) \<noteq> pcv_Id (sample_pod_config ''tiny'' (Some ''small'')) \<and>
   resolves pcv_Id pcv_Redirect (index_by pcv_Id (wk_PodConfigValues sample_kind) [])
     (sample_pod_config ''tiny'' (Some ''small'')) (sample_pod_config ''small'' None)
     [\<lparr>rs_Source = ''tiny'', rs_Target = ''small''\<rparr>]"
proof -
  have "getPodConfig sample_workspace sample_kind =
      Some (Inr (sample_pod_config ''tiny'' (Some ''small''), Some (sample_pod_config ''small'' None),
                 [\<lparr>rs_Source = ''tiny'', rs_Target = ''small''\<rparr>]))"
    by (simp add: getPodConfig_def getOptionConfig_def followRedirects.simps sample_defs Let_def)
  from getPodConfig_result [OF this] show ?thesis
    by (auto simp: sample_workspace_def)
qed

end
