(* ===== verification/Copy_Fields.thy ===== *)
theory Copy_Fields
  imports K8s_Lib
begin

text \<open>
  The field copiers of \<open>internal/helper/helper.go\<close>: each brings the managed fields of an object that
  exists in the cluster in line with the object the controller wants, and tells whether the API
  server has to be called. A Go function that mutates \<open>target\<close> returns it; \<open>None\<close> is a run-time panic
  (\<open>CopyStatefulSetFields\<close> dereferences two pointers).

  The interface \<open>field_copier\<close> states what the reconciler relies on: the managed fields agree
  afterwards, the rest is untouched, the flag is set exactly if they did not agree before. From it
  follows that a second pass asks for no update, that is, that reconciliation settles.
\<close>

section \<open>Labels and annotations\<close>

definition ControllerFieldOwner :: string where
  "ControllerFieldOwner = ''kubeflow-workspaces-controller''"

text \<open>\<open>for k, v := range m { if other[k] != v { requireUpdate = true } }\<close>\<close>

fun range_differs :: "str_map \<Rightarrow> str_map \<Rightarrow> bool \<Rightarrow> bool" where
  "range_differs other [] requireUpdate = requireUpdate"
| "range_differs other ((k, v) # m) requireUpdate =
     range_differs other m (if map_get other k \<noteq> v then True else requireUpdate)"

definition copyLabelFields :: "str_map \<Rightarrow> str_map \<Rightarrow> str_map \<times> bool" where
  "copyLabelFields desiredLabels targetLabels =
     (let requireUpdate = range_differs desiredLabels targetLabels False;
          requireUpdate = range_differs targetLabels desiredLabels requireUpdate
      in (desiredLabels, requireUpdate))"

definition copyAnnotationFields :: "str_map \<Rightarrow> str_map \<Rightarrow> str_map \<times> bool" where
  "copyAnnotationFields desiredAnnotations targetAnnotations =
     (let requireUpdate = range_differs desiredAnnotations targetAnnotations False;
          requireUpdate = range_differs targetAnnotations desiredAnnotations requireUpdate
      in (desiredAnnotations, requireUpdate))"

text \<open>The first two steps of every copier that replaces the metadata.\<close>

definition copyMetadata :: "ObjectMeta \<Rightarrow> ObjectMeta \<Rightarrow> ObjectMeta \<times> bool" where
  "copyMetadata desired target =
     (let requireUpdate = False;
          (labels, updated) = copyLabelFields (om_Labels desired) (om_Labels target);
          target = target\<lparr>om_Labels := labels\<rparr>;
          requireUpdate = (if updated then True else requireUpdate);
          (annotations, updated) = copyAnnotationFields (om_Annotations desired) (om_Annotations target);
          target = target\<lparr>om_Annotations := annotations\<rparr>;
          requireUpdate = (if updated then True else requireUpdate)
      in (target, requireUpdate))"

section \<open>The copiers\<close>

definition CopyStatefulSetFields ::
  "k8s_lib \<Rightarrow> StatefulSet \<Rightarrow> StatefulSet \<Rightarrow> (StatefulSet \<times> bool) option" where
  "CopyStatefulSetFields K desired target =
     (let (meta, requireUpdate) = copyMetadata (sts_Meta desired) (sts_Meta target);
          target = target\<lparr>sts_Meta := meta\<rparr>;
          dspec = sts_Spec desired; tspec = sts_Spec target
      in case (sts_Replicas dspec, sts_Replicas tspec) of
           (Some d, Some t) \<Rightarrow>
             (let (tspec, requireUpdate) =
                    (if d \<noteq> t then (tspec\<lparr>sts_Replicas := Some d\<rparr>, True) else (tspec, requireUpdate));
                  (tspec, requireUpdate) =
                    (if \<not> eq_LabelSelector K (sts_Selector tspec) (sts_Selector dspec)
                     then (tspec\<lparr>sts_Selector := sts_Selector dspec\<rparr>, True) else (tspec, requireUpdate));
                  (tspec, requireUpdate) =
                    (if \<not> eq_PodTemplateSpec K (sts_Template tspec) (sts_Template dspec)
                     then (tspec\<lparr>sts_Template := sts_Template dspec\<rparr>, True) else (tspec, requireUpdate));
                  (tspec, requireUpdate) =
                    (if \<not> eq_UpdateStrategy K (sts_UpdateStrategy tspec) (sts_UpdateStrategy dspec)
                     then (tspec\<lparr>sts_UpdateStrategy := sts_UpdateStrategy dspec\<rparr>, True)
                     else (tspec, requireUpdate))
              in Some (target\<lparr>sts_Spec := tspec\<rparr>, requireUpdate))
         | _ \<Rightarrow> None)"

definition CopyServiceFields :: "k8s_lib \<Rightarrow> Service \<Rightarrow> Service \<Rightarrow> Service \<times> bool" where
  "CopyServiceFields K desired target =
     (let (meta, requireUpdate) = copyMetadata (svc_Meta desired) (svc_Meta target);
          target = target\<lparr>svc_Meta := meta\<rparr>;
          (target, requireUpdate) =
            (if \<not> eq_ServicePorts K (svc_Ports target) (svc_Ports desired)
             then (target\<lparr>svc_Ports := svc_Ports desired\<rparr>, True) else (target, requireUpdate));
          (target, requireUpdate) =
            (if \<not> eq_StringMap K (svc_Selector target) (svc_Selector desired)
             then (target\<lparr>svc_Selector := svc_Selector desired\<rparr>, True) else (target, requireUpdate));
          (target, requireUpdate) =
            (if svc_Type target \<noteq> svc_Type desired
             then (target\<lparr>svc_Type := svc_Type desired\<rparr>, True) else (target, requireUpdate))
      in (target, requireUpdate))"

text \<open>
  A \<open>fieldpath.Set\<close> is the list of its paths: \<open>Union\<close> appends, \<open>Has\<close> is membership. \<open>FromJSON\<close> is a
  parameter.
\<close>

fun fields_owned_loop ::
  "k8s_lib \<Rightarrow> nat \<Rightarrow> ManagedFieldsEntry list \<Rightarrow> field_path list \<Rightarrow> go_error + field_path list" where
  "fields_owned_loop K index [] owned = Inr owned"
| "fields_owned_loop K index (entry # entries) owned =
     (if mf_Manager entry \<noteq> ControllerFieldOwner \<or> mf_Operation entry \<noteq> ''Update'' \<or>
         mf_Subresource entry \<noteq> []
      then fields_owned_loop K (Suc index) entries owned
      else if mf_FieldsType entry \<noteq> ''FieldsV1''
      then Inl (ErrOther (''unexpected managedFields entry at index '' @ nat_digits index @
             '': expected FieldsType=FieldsV1, got '' @ mf_FieldsType entry))
      else
        (case FieldSetFromJSON K (mf_FieldsV1 entry) of
          Inl err \<Rightarrow> Inl (errorf_w (''unable to parse managedFields at index '' @ nat_digits index @ '': '') err)
        | Inr entryFields \<Rightarrow> fields_owned_loop K (Suc index) entries (owned @ entryFields)))"

definition getFieldsOwnedByController :: "k8s_lib \<Rightarrow> ObjectMeta \<Rightarrow> go_error + field_path list" where
  "getFieldsOwnedByController K obj = fields_owned_loop K 0 (om_ManagedFields obj) []"

text \<open>The two loops of \<open>mergeStringMapFields\<close>; the first one iterates over \<open>target\<close> while deleting from it.\<close>

fun merge_remove_loop ::
  "str_map \<Rightarrow> field_path list \<Rightarrow> field_path \<Rightarrow> string list \<Rightarrow> str_map \<Rightarrow> bool \<Rightarrow> str_map \<times> bool" where
  "merge_remove_loop desired owned mapFieldPath [] target requireUpdate = (target, requireUpdate)"
| "merge_remove_loop desired owned mapFieldPath (k # ks) target requireUpdate =
     (if map_of desired k \<noteq> None
      then merge_remove_loop desired owned mapFieldPath ks target requireUpdate
      else if mapFieldPath @ [k] \<in> set owned
      then merge_remove_loop desired owned mapFieldPath ks (AList.delete k target) True
      else merge_remove_loop desired owned mapFieldPath ks target requireUpdate)"

fun merge_add_loop :: "str_map \<Rightarrow> str_map \<Rightarrow> bool \<Rightarrow> str_map \<times> bool" where
  "merge_add_loop [] target requireUpdate = (target, requireUpdate)"
| "merge_add_loop ((k, v) # desired) target requireUpdate =
     (if map_get target k \<noteq> v
      then merge_add_loop desired (AList.update k v target) True
      else merge_add_loop desired target requireUpdate)"

definition mergeStringMapFields ::
  "str_map \<Rightarrow> str_map \<Rightarrow> field_path list \<Rightarrow> field_path \<Rightarrow> str_map \<times> bool" where
  "mergeStringMapFields desired target owned mapFieldPath =
     (let (target, requireUpdate) =
            merge_remove_loop desired owned mapFieldPath (map fst target) target False
      in merge_add_loop desired target requireUpdate)"

definition CopyServiceAccountFields ::
  "k8s_lib \<Rightarrow> ServiceAccount \<Rightarrow> ServiceAccount \<Rightarrow> go_error + ServiceAccount \<times> bool" where
  "CopyServiceAccountFields K desired target =
     (case getFieldsOwnedByController K (sa_Meta target) of
       Inl err \<Rightarrow> Inl (errorf_w (''unable to determine fields owned by controller for ServiceAccount '' @
                 om_Namespace (sa_Meta target) @ ''/'' @ om_Name (sa_Meta target) @ '': '') err)
     | Inr owned \<Rightarrow>
         (let requireUpdate = False;
              (labels, updated) = mergeStringMapFields (om_Labels (sa_Meta desired))
                 (om_Labels (sa_Meta target)) owned [''metadata'', ''labels''];
              target = target\<lparr>sa_Meta := (sa_Meta target)\<lparr>om_Labels := labels\<rparr>\<rparr>;
              requireUpdate = (if updated then True else requireUpdate);
              (annotations, updated) = mergeStringMapFields (om_Annotations (sa_Meta desired))
                 (om_Annotations (sa_Meta target)) owned [''metadata'', ''annotations''];
              target = target\<lparr>sa_Meta := (sa_Meta target)\<lparr>om_Annotations := annotations\<rparr>\<rparr>;
              requireUpdate = (if updated then True else requireUpdate)
          in Inr (target, requireUpdate)))"

definition CopyRoleBindingFields :: "k8s_lib \<Rightarrow> RoleBinding \<Rightarrow> RoleBinding \<Rightarrow> RoleBinding \<times> bool" where
  "CopyRoleBindingFields K desired target =
     (let (meta, requireUpdate) = copyMetadata (rb_Meta desired) (rb_Meta target);
          target = target\<lparr>rb_Meta := meta\<rparr>;
          (target, requireUpdate) =
            (if \<not> eq_Subjects K (rb_Subjects target) (rb_Subjects desired)
             then (target\<lparr>rb_Subjects := rb_Subjects desired\<rparr>, True) else (target, requireUpdate))
      in (target, requireUpdate))"

definition CopyVirtualServiceFields ::
  "k8s_lib \<Rightarrow> VirtualService \<Rightarrow> VirtualService \<Rightarrow> VirtualService \<times> bool" where
  "CopyVirtualServiceFields K desired target =
     (let (meta, requireUpdate) = copyMetadata (vs_Meta desired) (vs_Meta target);
          target = target\<lparr>vs_Meta := meta\<rparr>;
          (target, requireUpdate) =
            (if \<not> eq_VirtualServiceSpec K (vs_Spec target) (vs_Spec desired)
             then (target\<lparr>vs_Spec := vs_Spec desired\<rparr>, True) else (target, requireUpdate))
      in (target, requireUpdate))"

section \<open>Lemmas on the loops\<close>

lemma range_differs_iff:
  "range_differs other m b \<longleftrightarrow> b \<or> (\<exists>(k, v) \<in> set m. map_get other k \<noteq> v)"
  by (induction other m b rule: range_differs.induct) auto

lemma map_get_wf: "wf_map m \<Longrightarrow> (k, v) \<in> set m \<Longrightarrow> map_get m k = v"
  by (simp add: map_get_def)

lemma map_get_nonempty: "map_get m k \<noteq> [] \<Longrightarrow> (k, map_get m k) \<in> set m"
  by (auto simp: map_get_def dest: map_of_SomeD split: option.splits)

text \<open>Two maps read the same: the same string under every key, a missing key reading as the empty string.\<close>

definition same_reads :: "str_map \<Rightarrow> str_map \<Rightarrow> bool" where
  "same_reads m m' \<longleftrightarrow> (\<forall>k. map_get m k = map_get m' k)"

lemma same_reads_refl [simp]: "same_reads m m"
  by (simp add: same_reads_def)

lemma both_ranges_iff:
  assumes "wf_map d" and "wf_map t"
  shows "range_differs t d (range_differs d t False) \<longleftrightarrow> \<not> same_reads d t"
proof
  assume "range_differs t d (range_differs d t False)"
  with assms show "\<not> same_reads d t"
    by (auto simp: range_differs_iff same_reads_def map_get_wf) (metis map_get_wf)+
next
  assume "\<not> same_reads d t"
  then obtain k where k: "map_get d k \<noteq> map_get t k"
    by (auto simp: same_reads_def)
  then have "map_get d k \<noteq> [] \<or> map_get t k \<noteq> []"
    by auto
  then have "(k, map_get d k) \<in> set d \<or> (k, map_get t k) \<in> set t"
    using map_get_nonempty by metis
  with k show "range_differs t d (range_differs d t False)"
    by (auto simp: range_differs_iff)
qed

text \<open>What \<open>copyMetadata\<close> does, given maps as Go builds them.\<close>

definition wf_meta :: "ObjectMeta \<Rightarrow> bool" where
  "wf_meta m \<longleftrightarrow> wf_map (om_Labels m) \<and> wf_map (om_Annotations m)"

definition meta_agrees :: "ObjectMeta \<Rightarrow> ObjectMeta \<Rightarrow> bool" where
  "meta_agrees d t \<longleftrightarrow>
     same_reads (om_Labels d) (om_Labels t) \<and> same_reads (om_Annotations d) (om_Annotations t)"

lemma copyMetadata_eq:
  assumes "wf_meta d" and "wf_meta t"
  shows "copyMetadata d t =
    (t\<lparr>om_Labels := om_Labels d, om_Annotations := om_Annotations d\<rparr>, \<not> meta_agrees d t)"
  using assms
  by (simp add: copyMetadata_def copyLabelFields_def copyAnnotationFields_def both_ranges_iff
      wf_meta_def meta_agrees_def)

lemma meta_agrees_copied [simp]:
  "meta_agrees d (t\<lparr>om_Labels := om_Labels d, om_Annotations := om_Annotations d\<rparr>)"
  by (simp add: meta_agrees_def)

lemma wf_meta_copied [simp]:
  "wf_meta d \<Longrightarrow> wf_meta (t\<lparr>om_Labels := om_Labels d, om_Annotations := om_Annotations d\<rparr>)"
  by (simp add: wf_meta_def)

section \<open>Merging into a map that others write too\<close>

definition drops :: "str_map \<Rightarrow> field_path list \<Rightarrow> field_path \<Rightarrow> string \<Rightarrow> bool" where
  "drops desired owned path k \<longleftrightarrow> map_of desired k = None \<and> path @ [k] \<in> set owned"

lemma merge_remove_loop_lookup:
  "map_of (fst (merge_remove_loop desired owned path ks target b)) k =
     (if k \<in> set ks \<and> drops desired owned path k then None else map_of target k)"
  by (induction desired owned path ks target b rule: merge_remove_loop.induct)
    (auto simp: drops_def delete_conv')

lemma merge_remove_loop_flag:
  "snd (merge_remove_loop desired owned path ks target b) \<longleftrightarrow>
     b \<or> (\<exists>k \<in> set ks. drops desired owned path k)"
  by (induction desired owned path ks target b rule: merge_remove_loop.induct)
    (auto simp: drops_def)

lemma merge_remove_loop_wf:
  "wf_map target \<Longrightarrow> wf_map (fst (merge_remove_loop desired owned path ks target b))"
  by (induction desired owned path ks target b rule: merge_remove_loop.induct)
    (auto simp: distinct_delete)

lemma merge_add_loop_lookup:
  "wf_map desired \<Longrightarrow>
   map_of (fst (merge_add_loop desired target b)) k =
     (case map_of desired k of
       None \<Rightarrow> map_of target k
     | Some v \<Rightarrow> if v = [] \<and> map_of target k = None then None else Some v)"
proof (induction desired target b rule: merge_add_loop.induct)
  case (2 k' v desired target b)
  from 2(3) have fresh: "map_of desired k' = None"
    by (simp add: map_of_eq_None_iff)
  show ?case
    using 2 fresh
    by (cases "k = k'") (auto simp: update_conv map_get_def split: option.splits if_splits)
qed simp

lemma map_get_update_other [simp]:
  "k \<noteq> k' \<Longrightarrow> map_get (AList.update k v m) k' = map_get m k'"
  by (simp add: map_get_update)

lemma merge_add_loop_flag:
  "wf_map desired \<Longrightarrow>
   snd (merge_add_loop desired target b) \<longleftrightarrow> b \<or> (\<exists>(k, v) \<in> set desired. map_get target k \<noteq> v)"
proof (induction desired target b rule: merge_add_loop.induct)
  case (2 k' v desired target b)
  then show ?case
    by (cases "map_get target k' \<noteq> v") auto
qed simp

lemma merge_add_loop_wf: "wf_map target \<Longrightarrow> wf_map (fst (merge_add_loop desired target b))"
  by (induction desired target b rule: merge_add_loop.induct) (auto simp: distinct_update)

text \<open>
  \<open>merged\<close>: nothing is left to do for a map: every desired key reads as desired, and no other key
  on the target is owned by the controller.
\<close>

definition merged :: "str_map \<Rightarrow> str_map \<Rightarrow> field_path list \<Rightarrow> field_path \<Rightarrow> bool" where
  "merged desired target owned path \<longleftrightarrow>
     (\<forall>(k, v) \<in> set desired. map_get target k = v) \<and>
     (\<forall>k \<in> fst ` set target. \<not> drops desired owned path k)"

lemma mergeStringMapFields_fst:
  "fst (mergeStringMapFields desired target owned path) =
     fst (merge_add_loop desired
       (fst (merge_remove_loop desired owned path (map fst target) target False))
       (snd (merge_remove_loop desired owned path (map fst target) target False)))"
  by (simp add: mergeStringMapFields_def split: prod.splits)

lemma mergeStringMapFields_lookup:
  assumes "wf_map desired"
  shows "map_of (fst (mergeStringMapFields desired target owned path)) k =
     (case map_of desired k of
       None \<Rightarrow> if path @ [k] \<in> set owned then None else map_of target k
     | Some v \<Rightarrow> if v = [] \<and> map_of target k = None then None else Some v)"
proof -
  have "map_of (fst (merge_remove_loop desired owned path (map fst target) target False)) k =
      (if drops desired owned path k then None else map_of target k)"
    by (cases "k \<in> fst ` set target") (simp_all add: merge_remove_loop_lookup map_of_eq_None_iff)
  with assms show ?thesis
    by (simp add: mergeStringMapFields_fst merge_add_loop_lookup drops_def split: option.splits)
qed

lemma mergeStringMapFields_flag:
  assumes "wf_map desired"
  shows "snd (mergeStringMapFields desired target owned path) \<longleftrightarrow> \<not> merged desired target owned path"
proof -
  let ?r = "merge_remove_loop desired owned path (map fst target) target False"
  have same: "map_get (fst ?r) k = map_get target k" if "(k, v) \<in> set desired" for k v
  proof -
    from that assms have "map_of desired k = Some v" by simp
    then show ?thesis
      by (simp add: map_get_def merge_remove_loop_lookup drops_def)
  qed
  have "snd (mergeStringMapFields desired target owned path) \<longleftrightarrow>
      snd ?r \<or> (\<exists>(k, v) \<in> set desired. map_get (fst ?r) k \<noteq> v)"
    using assms by (simp add: mergeStringMapFields_def merge_add_loop_flag split: prod.splits)
  also have "\<dots> \<longleftrightarrow> \<not> merged desired target owned path"
    using same by (fastforce simp: merge_remove_loop_flag merged_def)
  finally show ?thesis .
qed

lemma mergeStringMapFields_merged:
  assumes "wf_map desired"
  shows "merged desired (fst (mergeStringMapFields desired target owned path)) owned path"
proof -
  let ?t = "fst (mergeStringMapFields desired target owned path)"
  have "map_get ?t k = v" if "(k, v) \<in> set desired" for k v
    using that assms by (simp add: map_get_def mergeStringMapFields_lookup)
  moreover have "\<not> drops desired owned path k" if "k \<in> fst ` set ?t" for k
  proof
    assume d: "drops desired owned path k"
    then have "map_of ?t k = None"
      using assms by (simp add: mergeStringMapFields_lookup drops_def)
    with that show False
      by (simp add: map_of_eq_None_iff)
  qed
  ultimately show ?thesis
    by (auto simp: merged_def)
qed

lemma mergeStringMapFields_wf:
  "wf_map target \<Longrightarrow> wf_map (fst (mergeStringMapFields desired target owned path))"
  by (simp add: mergeStringMapFields_fst merge_add_loop_wf merge_remove_loop_wf)

section \<open>The interface of the copiers\<close>

text \<open>
  \<open>field_copier\<close>: \<open>copy d t\<close> is a copier on the desired object \<open>d\<close> and the object \<open>t\<close> of the cluster
  (\<open>None\<close> where it fails), \<open>usable\<close> what it needs of its arguments, \<open>agrees\<close> that \<open>t\<close> has the
  managed fields of \<open>d\<close>, \<open>rest\<close> the part of an object that the copier must not touch.
\<close>

locale field_copier =
  fixes copy :: "'o \<Rightarrow> 'o \<Rightarrow> ('o \<times> bool) option"
    and usable :: "'o \<Rightarrow> 'o \<Rightarrow> bool"
    and agrees :: "'o \<Rightarrow> 'o \<Rightarrow> bool"
    and rest :: "'o \<Rightarrow> 'r"
  assumes copy_total: "usable d t \<Longrightarrow> \<exists>t' upd. copy d t = Some (t', upd)"
    and copy_agrees: "usable d t \<Longrightarrow> copy d t = Some (t', upd) \<Longrightarrow> agrees d t'"
    and copy_flag: "usable d t \<Longrightarrow> copy d t = Some (t', upd) \<Longrightarrow> upd \<longleftrightarrow> \<not> agrees d t"
    and copy_rest: "usable d t \<Longrightarrow> copy d t = Some (t', upd) \<Longrightarrow> rest t' = rest t"
    and copy_usable: "usable d t \<Longrightarrow> copy d t = Some (t', upd) \<Longrightarrow> usable d t'"
begin

text \<open>The contract in one statement, and the second pass, which asks for no update.\<close>

lemma second_pass:
  assumes "usable d t" and "copy d t = Some (t', upd)"
  shows "\<exists>t''. copy d t' = Some (t'', False)"
proof -
  from assms have "usable d t'" by (rule copy_usable)
  then obtain t'' upd' where c: "copy d t' = Some (t'', upd')"
    using copy_total by blast
  with \<open>usable d t'\<close> assms have "\<not> upd'"
    using copy_flag copy_agrees by blast
  with c show ?thesis by auto
qed

lemma copier_contract:
  assumes "usable d t"
  shows "\<exists>t' upd. copy d t = Some (t', upd) \<and> agrees d t' \<and> rest t' = rest t \<and>
    (upd = (\<not> agrees d t)) \<and> (\<exists>t''. copy d t' = Some (t'', False))"
proof -
  from assms obtain t' upd where c: "copy d t = Some (t', upd)"
    using copy_total by blast
  with copy_agrees [OF assms c] copy_flag [OF assms c] copy_rest [OF assms c] second_pass [OF assms c]
  show ?thesis by auto
qed

end

section \<open>The copiers implement the interface\<close>

definition meta_rest :: "ObjectMeta \<Rightarrow> ObjectMeta" where
  "meta_rest m = m\<lparr>om_Labels := [], om_Annotations := []\<rparr>"

lemma meta_rest_copied [simp]:
  "meta_rest (t\<lparr>om_Labels := l, om_Annotations := a\<rparr>) = meta_rest t"
  by (simp add: meta_rest_def)

definition sts_usable :: "k8s_lib \<Rightarrow> StatefulSet \<Rightarrow> StatefulSet \<Rightarrow> bool" where
  "sts_usable K d t \<longleftrightarrow>
     deep_equal_refl (eq_LabelSelector K) \<and> deep_equal_refl (eq_PodTemplateSpec K) \<and>
     deep_equal_refl (eq_UpdateStrategy K) \<and> wf_meta (sts_Meta d) \<and> wf_meta (sts_Meta t) \<and>
     sts_Replicas (sts_Spec d) \<noteq> None \<and> sts_Replicas (sts_Spec t) \<noteq> None"

definition sts_agrees :: "k8s_lib \<Rightarrow> StatefulSet \<Rightarrow> StatefulSet \<Rightarrow> bool" where
  "sts_agrees K d t \<longleftrightarrow>
     meta_agrees (sts_Meta d) (sts_Meta t) \<and>
     sts_Replicas (sts_Spec t) = sts_Replicas (sts_Spec d) \<and>
     eq_LabelSelector K (sts_Selector (sts_Spec t)) (sts_Selector (sts_Spec d)) \<and>
     eq_PodTemplateSpec K (sts_Template (sts_Spec t)) (sts_Template (sts_Spec d)) \<and>
     eq_UpdateStrategy K (sts_UpdateStrategy (sts_Spec t)) (sts_UpdateStrategy (sts_Spec d))"

definition sts_rest :: "StatefulSet \<Rightarrow> ObjectMeta \<times> opaque \<times> int \<times> string" where
  "sts_rest t = (meta_rest (sts_Meta t), sts_SpecRest (sts_Spec t), sts_ObservedGeneration t,
     sts_UpdateRevision t)"

interpretation sts_copier: field_copier "CopyStatefulSetFields K" "sts_usable K" "sts_agrees K" sts_rest
  for K
proof
  fix d t t' :: StatefulSet and upd
  assume u: "sts_usable K d t"
  then obtain rd rt where reps: "sts_Replicas (sts_Spec d) = Some rd" "sts_Replicas (sts_Spec t) = Some rt"
    by (auto simp: sts_usable_def)
  with u show "\<exists>t' upd. CopyStatefulSetFields K d t = Some (t', upd)"
    by (simp add: CopyStatefulSetFields_def Let_def case_prod_beta)
  assume "CopyStatefulSetFields K d t = Some (t', upd)"
  with u reps show "sts_agrees K d t'" and "upd \<longleftrightarrow> \<not> sts_agrees K d t"
    and "sts_rest t' = sts_rest t" and "sts_usable K d t'"
    by (auto simp: CopyStatefulSetFields_def sts_usable_def sts_agrees_def sts_rest_def
        copyMetadata_eq Let_def split: if_splits)
qed

definition svc_usable :: "k8s_lib \<Rightarrow> Service \<Rightarrow> Service \<Rightarrow> bool" where
  "svc_usable K d t \<longleftrightarrow>
     deep_equal_refl (eq_ServicePorts K) \<and> deep_equal_refl (eq_StringMap K) \<and>
     wf_meta (svc_Meta d) \<and> wf_meta (svc_Meta t)"

definition svc_agrees :: "k8s_lib \<Rightarrow> Service \<Rightarrow> Service \<Rightarrow> bool" where
  "svc_agrees K d t \<longleftrightarrow>
     meta_agrees (svc_Meta d) (svc_Meta t) \<and> eq_ServicePorts K (svc_Ports t) (svc_Ports d) \<and>
     eq_StringMap K (svc_Selector t) (svc_Selector d) \<and> svc_Type t = svc_Type d"

definition svc_rest :: "Service \<Rightarrow> ObjectMeta \<times> opaque" where
  "svc_rest t = (meta_rest (svc_Meta t), svc_SpecRest t)"

interpretation svc_copier: field_copier "\<lambda>d t. Some (CopyServiceFields K d t)" "svc_usable K"
  "svc_agrees K" svc_rest
  for K
proof
  fix d t t' :: Service and upd
  assume u: "svc_usable K d t"
  show "\<exists>t' upd. Some (CopyServiceFields K d t) = Some (t', upd)"
    by simp
  assume "Some (CopyServiceFields K d t) = Some (t', upd)"
  with u show "svc_agrees K d t'" and "upd \<longleftrightarrow> \<not> svc_agrees K d t"
    and "svc_rest t' = svc_rest t" and "svc_usable K d t'"
    by (auto simp: CopyServiceFields_def svc_usable_def svc_agrees_def svc_rest_def
        copyMetadata_eq Let_def split: if_splits)
qed

definition rb_usable :: "k8s_lib \<Rightarrow> RoleBinding \<Rightarrow> RoleBinding \<Rightarrow> bool" where
  "rb_usable K d t \<longleftrightarrow>
     deep_equal_refl (eq_Subjects K) \<and> wf_meta (rb_Meta d) \<and> wf_meta (rb_Meta t)"

definition rb_agrees :: "k8s_lib \<Rightarrow> RoleBinding \<Rightarrow> RoleBinding \<Rightarrow> bool" where
  "rb_agrees K d t \<longleftrightarrow>
     meta_agrees (rb_Meta d) (rb_Meta t) \<and> eq_Subjects K (rb_Subjects t) (rb_Subjects d)"

definition rb_rest :: "RoleBinding \<Rightarrow> ObjectMeta \<times> RoleRef" where
  "rb_rest t = (meta_rest (rb_Meta t), rb_RoleRef t)"

interpretation rb_copier: field_copier "\<lambda>d t. Some (CopyRoleBindingFields K d t)" "rb_usable K"
  "rb_agrees K" rb_rest
  for K
proof
  fix d t t' :: RoleBinding and upd
  assume u: "rb_usable K d t"
  show "\<exists>t' upd. Some (CopyRoleBindingFields K d t) = Some (t', upd)"
    by simp
  assume "Some (CopyRoleBindingFields K d t) = Some (t', upd)"
  with u show "rb_agrees K d t'" and "upd \<longleftrightarrow> \<not> rb_agrees K d t"
    and "rb_rest t' = rb_rest t" and "rb_usable K d t'"
    by (auto simp: CopyRoleBindingFields_def rb_usable_def rb_agrees_def rb_rest_def
        copyMetadata_eq Let_def split: if_splits)
qed

definition vs_usable :: "k8s_lib \<Rightarrow> VirtualService \<Rightarrow> VirtualService \<Rightarrow> bool" where
  "vs_usable K d t \<longleftrightarrow>
     deep_equal_refl (eq_VirtualServiceSpec K) \<and> wf_meta (vs_Meta d) \<and> wf_meta (vs_Meta t)"

definition vs_agrees :: "k8s_lib \<Rightarrow> VirtualService \<Rightarrow> VirtualService \<Rightarrow> bool" where
  "vs_agrees K d t \<longleftrightarrow>
     meta_agrees (vs_Meta d) (vs_Meta t) \<and> eq_VirtualServiceSpec K (vs_Spec t) (vs_Spec d)"

definition vs_rest :: "VirtualService \<Rightarrow> ObjectMeta" where
  "vs_rest t = meta_rest (vs_Meta t)"

interpretation vs_copier: field_copier "\<lambda>d t. Some (CopyVirtualServiceFields K d t)" "vs_usable K"
  "vs_agrees K" vs_rest
  for K
proof
  fix d t t' :: VirtualService and upd
  assume u: "vs_usable K d t"
  show "\<exists>t' upd. Some (CopyVirtualServiceFields K d t) = Some (t', upd)"
    by simp
  assume "Some (CopyVirtualServiceFields K d t) = Some (t', upd)"
  with u show "vs_agrees K d t'" and "upd \<longleftrightarrow> \<not> vs_agrees K d t"
    and "vs_rest t' = vs_rest t" and "vs_usable K d t'"
    by (auto simp: CopyVirtualServiceFields_def vs_usable_def vs_agrees_def vs_rest_def
        copyMetadata_eq Let_def split: if_splits)
qed

text \<open>The ServiceAccount is shared with administrators: its copier merges and can fail.\<close>

definition sa_usable :: "k8s_lib \<Rightarrow> ServiceAccount \<Rightarrow> ServiceAccount \<Rightarrow> bool" where
  "sa_usable K d t \<longleftrightarrow>
     (\<exists>owned. getFieldsOwnedByController K (sa_Meta t) = Inr owned) \<and> wf_meta (sa_Meta d)"

definition sa_agrees :: "k8s_lib \<Rightarrow> ServiceAccount \<Rightarrow> ServiceAccount \<Rightarrow> bool" where
  "sa_agrees K d t \<longleftrightarrow>
     (case getFieldsOwnedByController K (sa_Meta t) of
       Inl err \<Rightarrow> False
     | Inr owned \<Rightarrow>
         merged (om_Labels (sa_Meta d)) (om_Labels (sa_Meta t)) owned [''metadata'', ''labels''] \<and>
         merged (om_Annotations (sa_Meta d)) (om_Annotations (sa_Meta t)) owned
           [''metadata'', ''annotations''])"

definition sa_rest :: "ServiceAccount \<Rightarrow> ObjectMeta \<times> opaque" where
  "sa_rest t = (meta_rest (sa_Meta t), sa_Rest t)"

definition sa_copy :: "k8s_lib \<Rightarrow> ServiceAccount \<Rightarrow> ServiceAccount \<Rightarrow> (ServiceAccount \<times> bool) option" where
  "sa_copy K d t = (case CopyServiceAccountFields K d t of Inl err \<Rightarrow> None | Inr r \<Rightarrow> Some r)"

lemma sa_copy_eq:
  assumes "getFieldsOwnedByController K (sa_Meta t) = Inr owned" and "wf_meta (sa_Meta d)"
  defines "l \<equiv> fst (mergeStringMapFields (om_Labels (sa_Meta d)) (om_Labels (sa_Meta t)) owned
                      [''metadata'', ''labels''])"
    and "a \<equiv> fst (mergeStringMapFields (om_Annotations (sa_Meta d)) (om_Annotations (sa_Meta t)) owned
                      [''metadata'', ''annotations''])"
  shows "sa_copy K d t =
    Some (t\<lparr>sa_Meta := (sa_Meta t)\<lparr>om_Labels := l, om_Annotations := a\<rparr>\<rparr>, \<not> sa_agrees K d t)"
  using assms mergeStringMapFields_flag
  by (auto simp: sa_copy_def CopyServiceAccountFields_def sa_agrees_def wf_meta_def Let_def
      split: prod.splits) (metis snd_conv)+

lemma owned_metadata_only [simp]:
  "getFieldsOwnedByController K (m\<lparr>om_Labels := l, om_Annotations := a\<rparr>) = getFieldsOwnedByController K m"
  by (simp add: getFieldsOwnedByController_def)

interpretation sa_copier: field_copier "sa_copy K" "sa_usable K" "sa_agrees K" sa_rest
  for K
proof
  fix d t t' :: ServiceAccount and upd
  assume u: "sa_usable K d t"
  then obtain owned where o: "getFieldsOwnedByController K (sa_Meta t) = Inr owned"
    and wf: "wf_meta (sa_Meta d)"
    by (auto simp: sa_usable_def)
  note eq = sa_copy_eq [OF o wf]
  from eq show "\<exists>t' upd. sa_copy K d t = Some (t', upd)"
    by blast
  assume "sa_copy K d t = Some (t', upd)"
  with eq o wf show "sa_agrees K d t'" and "upd \<longleftrightarrow> \<not> sa_agrees K d t"
    and "sa_rest t' = sa_rest t" and "sa_usable K d t'"
    by (auto simp: sa_agrees_def sa_rest_def sa_usable_def wf_meta_def
        intro: mergeStringMapFields_merged)
qed

section \<open>Properties\<close>

text \<open>
  Exact agreement: the same keys with the same values. It is the same as agreement of the reads where no value is
  empty; with an empty value, which reads like a missing key, it is not (see the last but one theorem below).
\<close>

definition no_empty_values :: "ObjectMeta \<Rightarrow> bool" where
  "no_empty_values m \<longleftrightarrow> [] \<notin> snd ` set (om_Labels m) \<and> [] \<notin> snd ` set (om_Annotations m)"

definition same_meta :: "ObjectMeta \<Rightarrow> ObjectMeta \<Rightarrow> bool" where
  "same_meta d t \<longleftrightarrow>
     map_of (om_Labels d) = map_of (om_Labels t) \<and> map_of (om_Annotations d) = map_of (om_Annotations t)"

definition sts_same_managed :: "k8s_lib \<Rightarrow> StatefulSet \<Rightarrow> StatefulSet \<Rightarrow> bool" where
  "sts_same_managed K d t \<longleftrightarrow>
     same_meta (sts_Meta d) (sts_Meta t) \<and>
     sts_Replicas (sts_Spec t) = sts_Replicas (sts_Spec d) \<and>
     eq_LabelSelector K (sts_Selector (sts_Spec t)) (sts_Selector (sts_Spec d)) \<and>
     eq_PodTemplateSpec K (sts_Template (sts_Spec t)) (sts_Template (sts_Spec d)) \<and>
     eq_UpdateStrategy K (sts_UpdateStrategy (sts_Spec t)) (sts_UpdateStrategy (sts_Spec d))"

lemma same_reads_exact:
  assumes "[] \<notin> snd ` set m" and "[] \<notin> snd ` set m'"
  shows "same_reads m m' \<longleftrightarrow> map_of m = map_of m'"
proof
  assume same: "same_reads m m'"
  show "map_of m = map_of m'"
  proof
    fix k
    have nonempty: "map_of m k \<noteq> Some []" "map_of m' k \<noteq> Some []"
      using assms by (force dest: map_of_SomeD)+
    from same have "map_get m k = map_get m' k"
      by (simp add: same_reads_def)
    with nonempty show "map_of m k = map_of m' k"
      by (auto simp: map_get_def split: option.splits)
  qed
qed (simp add: same_reads_def map_get_def)

lemma meta_agrees_exact: "no_empty_values d \<Longrightarrow> no_empty_values t \<Longrightarrow> meta_agrees d t \<longleftrightarrow> same_meta d t"
  by (simp add: no_empty_values_def meta_agrees_def same_meta_def same_reads_exact)

lemma CopyStatefulSetFields_labels:
  assumes "sts_usable K d t" and "CopyStatefulSetFields K d t = Some (t', upd)"
  shows "om_Labels (sts_Meta t') = om_Labels (sts_Meta d)" and "om_Annotations (sts_Meta t') = om_Annotations (sts_Meta d)"
  using assms by (auto simp: CopyStatefulSetFields_def sts_usable_def copyMetadata_eq Let_def split: option.splits if_splits)

text \<open>
  C38. \<open>CopyStatefulSetFields\<close> on two StatefulSets whose \<open>spec.replicas\<close> is set and whose labels and annotations
  have no empty value: it does not panic; the result has exactly the labels and annotations (the same keys with the same
  values), the replicas, selector, template and update strategy of the desired one; the rest of the existing object is
  kept; an update is required exactly if these fields did not agree before; and a second call on the
  result requires no update. Nothing is claimed for empty values: the code does not notice a label or
  annotation that is empty on one side and missing on the other.
\<close>

theorem CopyStatefulSetFields_contract:
  assumes "sts_usable K desired target"
    and "no_empty_values (sts_Meta desired)" and "no_empty_values (sts_Meta target)"
  shows "\<exists>target' upd. CopyStatefulSetFields K desired target = Some (target', upd) \<and>
    sts_same_managed K desired target' \<and> sts_rest target' = sts_rest target \<and>
    upd = (\<not> sts_same_managed K desired target) \<and>
    (\<exists>t. CopyStatefulSetFields K desired target' = Some (t, False))"
proof -
  from sts_copier.copier_contract [OF assms(1)] obtain target' upd where
    run: "CopyStatefulSetFields K desired target = Some (target', upd)" and agrees: "sts_agrees K desired target'"
    and rest: "sts_rest target' = sts_rest target" "upd = (\<not> sts_agrees K desired target)"
      "\<exists>t. CopyStatefulSetFields K desired target' = Some (t, False)"
    by blast
  have "sts_same_managed K desired target'"
    using agrees CopyStatefulSetFields_labels [OF assms(1) run]
    by (simp add: sts_agrees_def sts_same_managed_def same_meta_def)
  moreover have "sts_agrees K desired target \<longleftrightarrow> sts_same_managed K desired target"
    using meta_agrees_exact [OF assms(2,3)] by (simp add: sts_agrees_def sts_same_managed_def)
  ultimately show ?thesis
    using run rest by blast
qed

definition sample_sts :: "int \<Rightarrow> str_map \<Rightarrow> StatefulSet" where
  "sample_sts r labels =
     \<lparr>sts_Meta = ObjectMeta_zero\<lparr>om_Name := ''ws-notebook-abc'', om_Labels := labels\<rparr>,
      sts_Spec =
        \<lparr>sts_Replicas = Some r, sts_Selector = \<lparr>ls_MatchLabels = [], ls_MatchExpressions = []\<rparr>,
         sts_Template =
           \<lparr>pts_Labels = [], pts_Annotations = [],
            pts_Spec =
              \<lparr>ps_Affinity = None, ps_Containers = [], ps_InitContainers = [], ps_NodeSelector = [],
               ps_NodeName = [], ps_SchedulerName = [], ps_SecurityContext = None,
               ps_ServiceAccountName = [], ps_Tolerations = [], ps_Volumes = []\<rparr>\<rparr>,
         sts_UpdateStrategy = ''RollingUpdate'', sts_SpecRest = []\<rparr>,
      sts_ObservedGeneration = 1, sts_UpdateRevision = ''rev1''\<rparr>"

theorem CopyStatefulSetFields_contract_witness:
  "\<exists>target'. CopyStatefulSetFields lib0 (sample_sts 0 [(''a'', ''b'')]) (sample_sts 1 []) = Some (target', True) \<and>
     sts_same_managed lib0 (sample_sts 0 [(''a'', ''b'')]) target'"
proof -
  have "sts_usable lib0 (sample_sts 0 [(''a'', ''b'')]) (sample_sts 1 [])"
    by (simp add: sts_usable_def lib0_def sample_sts_def wf_meta_def ObjectMeta_zero_def)
  moreover have "\<not> sts_same_managed lib0 (sample_sts 0 [(''a'', ''b'')]) (sample_sts 1 [])"
    by (simp add: sts_same_managed_def sample_sts_def)
  moreover have "no_empty_values (sts_Meta (sample_sts 0 [(''a'', ''b'')]))" "no_empty_values (sts_Meta (sample_sts 1 []))"
    by (simp_all add: no_empty_values_def sample_sts_def ObjectMeta_zero_def)
  ultimately show ?thesis
    using CopyStatefulSetFields_contract [of lib0 "sample_sts 0 [(''a'', ''b'')]" "sample_sts 1 []"]
    by auto
qed

text \<open>
  The same contract for \<open>CopyServiceFields\<close> (which leaves the cluster IP and similar fields
  alone), \<open>CopyRoleBindingFields\<close> (which leaves \<open>roleRef\<close> alone) and \<open>CopyVirtualServiceFields\<close>:
  the managed fields agree afterwards, the rest is kept, the flag is set exactly if they did not
  agree before, and a second call requires no update.
\<close>

theorem Copy_objects_contract:
  "(svc_usable K svc svc0 \<longrightarrow>
      (\<exists>svc1 upd. CopyServiceFields K svc svc0 = (svc1, upd) \<and> svc_agrees K svc svc1 \<and>
         svc_rest svc1 = svc_rest svc0 \<and> upd = (\<not> svc_agrees K svc svc0) \<and>
         (\<exists>x. CopyServiceFields K svc svc1 = (x, False)))) \<and>
   (rb_usable K rb rb0 \<longrightarrow>
      (\<exists>rb1 upd. CopyRoleBindingFields K rb rb0 = (rb1, upd) \<and> rb_agrees K rb rb1 \<and>
         rb_rest rb1 = rb_rest rb0 \<and> upd = (\<not> rb_agrees K rb rb0) \<and>
         (\<exists>x. CopyRoleBindingFields K rb rb1 = (x, False)))) \<and>
   (vs_usable K vs vs0 \<longrightarrow>
      (\<exists>vs1 upd. CopyVirtualServiceFields K vs vs0 = (vs1, upd) \<and> vs_agrees K vs vs1 \<and>
         vs_rest vs1 = vs_rest vs0 \<and> upd = (\<not> vs_agrees K vs vs0) \<and>
         (\<exists>x. CopyVirtualServiceFields K vs vs1 = (x, False))))"
  using svc_copier.copier_contract [of K svc svc0] rb_copier.copier_contract [of K rb rb0]
    vs_copier.copier_contract [of K vs vs0]
  by simp

theorem Copy_objects_contract_witness:
  "\<exists>svc1.
     CopyServiceFields lib0
       \<lparr>svc_Meta = ObjectMeta_zero, svc_Ports = [], svc_Selector = [], svc_Type = ''ClusterIP'',
        svc_SpecRest = []\<rparr>
       \<lparr>svc_Meta = ObjectMeta_zero, svc_Ports = [], svc_Selector = [], svc_Type = ''NodePort'',
        svc_SpecRest = ''10.0.0.1''\<rparr> = (svc1, True) \<and>
     svc_rest svc1 = (meta_rest ObjectMeta_zero, ''10.0.0.1'')"
proof -
  let ?d = "\<lparr>svc_Meta = ObjectMeta_zero, svc_Ports = [], svc_Selector = [], svc_Type = ''ClusterIP'',
    svc_SpecRest = []\<rparr>"
  let ?t = "\<lparr>svc_Meta = ObjectMeta_zero, svc_Ports = [], svc_Selector = [], svc_Type = ''NodePort'',
    svc_SpecRest = ''10.0.0.1''\<rparr>"
  have "svc_usable lib0 ?d ?t"
    by (simp add: svc_usable_def lib0_def wf_meta_def ObjectMeta_zero_def)
  with Copy_objects_contract [of lib0 ?d ?t] obtain svc1 upd where
    "CopyServiceFields lib0 ?d ?t = (svc1, upd)" "svc_rest svc1 = svc_rest ?t"
    "upd = (\<not> svc_agrees lib0 ?d ?t)"
    by blast
  then show ?thesis
    by (simp add: svc_agrees_def svc_rest_def)
qed

text \<open>
  \<open>copyLabelFields\<close> returns the desired labels and asks for an update exactly if some key reads
  differently in the two maps. A label with an empty value reads like a missing one, so two maps
  that differ only in such labels are not brought in line: the second part is an instance.
\<close>

theorem copyLabelFields_exact:
  assumes "wf_map desired" and "wf_map target"
  shows "copyLabelFields desired target = (desired, \<exists>k. map_get desired k \<noteq> map_get target k) \<and>
    copyLabelFields [(''team'', [])] [] = ([(''team'', [])], False)"
  using assms both_ranges_iff [of desired target]
  by (simp add: copyLabelFields_def same_reads_def)

theorem copyLabelFields_exact_witness:
  "copyLabelFields [(''a'', ''1'')] [(''b'', ''2'')] = ([(''a'', ''1'')], True)"
  using copyLabelFields_exact [of "[(''a'', ''1'')]" "[(''b'', ''2'')]"]
  by auto

text \<open>
  The label map that \<open>CopyServiceAccountFields\<close> leaves on a ServiceAccount, key by key. A desired
  key gets the desired value (except a desired empty value for a key the target does not have,
  which is not added); any other key is removed if the controller owns it in \<open>managedFields\<close> and is
  kept as it was otherwise. The call fails exactly if the managed fields cannot be read, and an
  update is required exactly if something is left to merge.
\<close>

theorem CopyServiceAccountFields_exact:
  assumes "wf_meta (sa_Meta desired)"
  shows "case getFieldsOwnedByController K (sa_Meta target) of
      Inl err \<Rightarrow> \<exists>err'. CopyServiceAccountFields K desired target = Inl err'
    | Inr owned \<Rightarrow>
        \<exists>target' upd. CopyServiceAccountFields K desired target = Inr (target', upd) \<and>
          upd = (\<not> sa_agrees K desired target) \<and> sa_rest target' = sa_rest target \<and>
          (\<forall>k. map_of (om_Labels (sa_Meta target')) k =
             (case map_of (om_Labels (sa_Meta desired)) k of
               None \<Rightarrow>
                 if [''metadata'', ''labels'', k] \<in> set owned then None
                 else map_of (om_Labels (sa_Meta target)) k
             | Some v \<Rightarrow>
                 if v = [] \<and> map_of (om_Labels (sa_Meta target)) k = None then None else Some v))"
proof (cases "getFieldsOwnedByController K (sa_Meta target)")
  case (Inl err)
  then show ?thesis
    by (simp add: CopyServiceAccountFields_def)
next
  case (Inr owned)
  from sa_copy_eq [OF Inr assms] show ?thesis
    using Inr assms
    by (auto simp: sa_copy_def sa_rest_def wf_meta_def mergeStringMapFields_lookup
        split: sum.splits option.splits)
qed

definition sample_sa :: "str_map \<Rightarrow> ManagedFieldsEntry list \<Rightarrow> ServiceAccount" where
  "sample_sa labels entries =
     \<lparr>sa_Meta = ObjectMeta_zero\<lparr>om_Name := ''sa'', om_Labels := labels, om_ManagedFields := entries\<rparr>,
      sa_Rest = []\<rparr>"

definition sample_entry :: ManagedFieldsEntry where
  "sample_entry =
     \<lparr>mf_Manager = ControllerFieldOwner, mf_Operation = ''Update'', mf_Subresource = [],
      mf_FieldsType = ''FieldsV1'', mf_FieldsV1 = ''old''\<rparr>"

theorem CopyServiceAccountFields_exact_witness:
  "\<exists>target' upd.
     CopyServiceAccountFields lib0 (sample_sa [(''new'', ''1'')] [])
       (sample_sa [(''old'', ''1''), (''admin'', ''2'')] [sample_entry]) = Inr (target', upd) \<and>
     map_of (om_Labels (sa_Meta target')) ''new'' = Some ''1'' \<and>
     map_of (om_Labels (sa_Meta target')) ''old'' = None \<and>
     map_of (om_Labels (sa_Meta target')) ''admin'' = Some ''2''"
proof -
  have "wf_meta (sa_Meta (sample_sa [(''new'', ''1'')] []))"
    by (simp add: sample_sa_def wf_meta_def ObjectMeta_zero_def)
  moreover have "getFieldsOwnedByController lib0
      (sa_Meta (sample_sa [(''old'', ''1''), (''admin'', ''2'')] [sample_entry])) =
      Inr [[''metadata'', ''labels'', ''old'']]"
    by (simp add: getFieldsOwnedByController_def sample_sa_def sample_entry_def lib0_def)
  ultimately show ?thesis
    using CopyServiceAccountFields_exact [of "sample_sa [(''new'', ''1'')] []" lib0
      "sample_sa [(''old'', ''1''), (''admin'', ''2'')] [sample_entry]"]
    by (auto simp: sample_sa_def)
qed

end
