(* ===== verification/Owner_Index.thy ===== *)
theory Owner_Index
  imports K8s_Lib Samples
begin

text \<open>
  \<open>internal/helper/index.go\<close>, the cache indexes by which the reconcilers find the objects of a
  Workspace, and \<open>ReplaceWorkspaceAsController\<close> of \<open>internal/helper/helper.go\<close>, which takes over an
  object that another Workspace (or an older API version) controls.
\<close>

section \<open>Owner references\<close>

definition OwnerKindWorkspace :: string where
  "OwnerKindWorkspace = ''Workspace''"

definition GroupVersion_Group :: string where
  "GroupVersion_Group = ''kubeflow.org''"

definition GroupVersion_String :: string where
  "GroupVersion_String = GroupVersion_Group @ ''/'' @ ''v1beta1''"

definition isWorkspaceControllerRef :: "k8s_lib \<Rightarrow> OwnerReference option \<Rightarrow> bool" where
  "isWorkspaceControllerRef K ref =
     (case ref of
       None \<Rightarrow> False
     | Some ref \<Rightarrow>
         (case ParseGroupVersion K (or_APIVersion ref) of
           Inl err \<Rightarrow> False
         | Inr (ownerGroup, version) \<Rightarrow> ownerGroup = GroupVersion_Group \<and> or_Kind ref = OwnerKindWorkspace))"

definition indexWorkspaceOwner :: "k8s_lib \<Rightarrow> ObjectMeta \<Rightarrow> string list" where
  "indexWorkspaceOwner K rawObj =
     (case GetControllerOf K rawObj of
       None \<Rightarrow> []
     | Some owner \<Rightarrow> if \<not> isWorkspaceControllerRef K (Some owner) then [] else [or_Name owner])"

definition indexWorkspaceOwnedResourceUIDs :: "Workspace \<Rightarrow> string list" where
  "indexWorkspaceOwnedResourceUIDs ws =
     (let uids = [];
          uid = wps_UID (st_PodTemplatePod (w_Status ws));
          uids = (if uid \<noteq> [] then uids @ [uid] else uids);
          uid = wss_UID (st_PodTemplateStatefulSet (w_Status ws));
          uids = (if uid \<noteq> [] then uids @ [uid] else uids)
      in uids)"

text \<open>The index functions that \<open>SetupManagerFieldIndexers\<close> defines in place.\<close>

definition indexEventInvolvedObjectUid :: "Event \<Rightarrow> string list" where
  "indexEventInvolvedObjectUid event =
     (if evt_InvolvedUID event = [] then [] else [evt_InvolvedUID event])"

definition indexWorkspaceKind :: "Workspace \<Rightarrow> string list" where
  "indexWorkspaceKind ws = (if ws_Kind (w_Spec ws) = [] then [] else [ws_Kind (w_Spec ws)])"

definition indexConfigMapImageSource :: "WorkspaceKind \<Rightarrow> string list" where
  "indexConfigMapImageSource wsk =
     (let indexValues = [];
          iconConfigMap = as_ConfigMap (sw_Icon (wks_Spawner (wk_Spec wsk)));
          logoConfigMap = as_ConfigMap (sw_Logo (wks_Spawner (wk_Spec wsk)));
          indexValues = (case iconConfigMap of None \<Rightarrow> indexValues
            | Some cm \<Rightarrow> indexValues @ [acm_Namespace cm @ ''/'' @ acm_Name cm]);
          indexValues = (case logoConfigMap of None \<Rightarrow> indexValues
            | Some cm \<Rightarrow> indexValues @ [acm_Namespace cm @ ''/'' @ acm_Name cm])
      in indexValues)"

text \<open>
  \<open>SetupManagerFieldIndexers\<close>: the registrations in order, each a pair of object type and index
  field. \<open>indexField\<close> is the manager's \<open>IndexField\<close>: \<open>Some err\<close> is its error. The result is the list of
  registrations that were made, with the error that stopped it, if any.
\<close>

fun register_all ::
  "(string \<times> string \<Rightarrow> go_error option) \<Rightarrow> (string \<times> string) list
   \<Rightarrow> (string \<times> string) list \<times> go_error option" where
  "register_all indexField [] = ([], None)"
| "register_all indexField (r # rs) =
     (case indexField r of
       Some err \<Rightarrow> ([], Some err)
     | None \<Rightarrow> (case register_all indexField rs of (done', err) \<Rightarrow> (r # done', err)))"

definition SetupManagerFieldIndexers ::
  "(string \<times> string \<Rightarrow> go_error option) \<Rightarrow> EnvConfig option \<Rightarrow> (string \<times> string) list \<times> go_error option" where
  "SetupManagerFieldIndexers indexField cfg =
     register_all indexField
       ((case cfg of
          None \<Rightarrow> []
        | Some c \<Rightarrow> if cfg_WatchWarningEvents c then [(''Event'', ''involvedObject.uid'')] else []) @
        [(''StatefulSet'', ''.metadata.controller''), (''Service'', ''.metadata.controller''),
         (''ServiceAccount'', ''.metadata.controller''), (''RoleBinding'', ''.metadata.controller'')] @
        (case cfg of
          None \<Rightarrow> []
        | Some c \<Rightarrow> if cfg_UseIstio c then [(''VirtualService'', ''.metadata.controller'')] else []) @
        [(''Workspace'', ''.spec.kind''), (''Workspace'', ''.status.ownedResourceUIDs''),
         (''WorkspaceKind'', ''.spec.configMapImageSource'')])"

section \<open>Taking over an object\<close>

text \<open>
  The object is its metadata. The result is the error, or the object with the flag that tells
  whether the controller reference was replaced.
\<close>

definition ReplaceWorkspaceAsController ::
  "k8s_lib \<Rightarrow> ObjectMeta \<Rightarrow> Workspace \<Rightarrow> go_error + ObjectMeta \<times> bool" where
  "ReplaceWorkspaceAsController K obj workspace =
     (let setRef = (\<lambda>obj.
            case SetControllerReference K (w_Meta workspace) obj of
              Inl err \<Rightarrow> Inl err
            | Inr obj' \<Rightarrow> Inr (obj', True))
      in case GetControllerOf K obj of
           None \<Rightarrow> setRef obj
         | Some currentController \<Rightarrow>
             if or_UID currentController = om_UID (w_Meta workspace) \<and>
                or_APIVersion currentController = GroupVersion_String
             then Inr (obj, False)
             else if \<not> isWorkspaceControllerRef K (Some currentController)
             then Inl (ErrOther (''object '' @ om_Namespace obj @ ''/'' @ om_Name obj @
                    '' is controlled by '' @ or_Kind currentController @ ''/'' @ or_Name currentController @
                    '', which is not a Workspace''))
             else
               (let oldOwnerRefs = om_OwnerReferences obj;
                    newOwnerRefs = filter (\<lambda>ref. \<not> (or_Controller ref = Some True \<and>
                                       or_UID ref = or_UID currentController)) oldOwnerRefs
                in setRef (obj\<lparr>om_OwnerReferences := newOwnerRefs\<rparr>)))"

section \<open>Lemmas\<close>

lemma register_all_prefix:
  "\<exists>rest. rs = fst (register_all indexField rs) @ rest \<and>
     (snd (register_all indexField rs) = None \<longrightarrow> rest = [])"
proof (induction rs)
  case (Cons r rs)
  show ?case
  proof (cases "indexField r")
    case None
    with Cons show ?thesis
      by (auto split: prod.splits)
  qed simp
qed simp

text \<open>At most one owner reference is the controller: the API server enforces it.\<close>

definition one_controller :: "ObjectMeta \<Rightarrow> bool" where
  "one_controller obj \<longleftrightarrow> length (controller_refs (om_OwnerReferences obj)) \<le> 1"

lemma one_controller_removed:
  assumes "one_controller obj" and "r \<in> set (controller_refs (om_OwnerReferences obj))"
  shows "controller_refs (filter (\<lambda>ref. \<not> (or_Controller ref = Some True \<and> or_UID ref = or_UID r))
           (om_OwnerReferences obj)) = []"
proof -
  from assms have "controller_refs (om_OwnerReferences obj) = [r]"
    by (cases "controller_refs (om_OwnerReferences obj)") (auto simp: one_controller_def)
  then have "set (controller_refs (om_OwnerReferences obj)) = {r}"
    by simp
  then show ?thesis
    by (auto simp: controller_refs_def filter_empty_conv)
qed

lemma GetControllerOf_single:
  assumes "GetControllerOf_spec K" and "controller_refs (om_OwnerReferences obj) = [r]"
  shows "GetControllerOf K obj = Some r"
  using assms by (auto simp: GetControllerOf_spec_def dest: spec [of _ obj] split: option.splits)

lemma GetControllerOf_cases:
  assumes "GetControllerOf_spec K"
  shows "GetControllerOf K obj = None \<Longrightarrow> controller_refs (om_OwnerReferences obj) = []"
    and "GetControllerOf K obj = Some r \<Longrightarrow> r \<in> set (controller_refs (om_OwnerReferences obj))"
  using assms by (auto simp: GetControllerOf_spec_def dest: spec [of _ obj])

lemma SetControllerReference_D:
  assumes "SetControllerReference_spec K" and "controller_refs (om_OwnerReferences m) = []"
    and "SetControllerReference K owner m = Inr m'"
  shows "\<exists>refs ref. m' = m\<lparr>om_OwnerReferences := refs\<rparr> \<and> controller_refs refs = [ref] \<and>
    or_UID ref = om_UID owner \<and> or_Name ref = om_Name owner \<and> or_Kind ref = ''Workspace'' \<and>
    or_APIVersion ref = ''kubeflow.org/v1beta1''"
  using assms(1) [unfolded SetControllerReference_spec_def, rule_format, OF assms(2,3)] .

section \<open>Properties\<close>

text \<open>
  \<open>ReplaceWorkspaceAsController\<close>, on an object with at most one controller. When it returns
  without an error, the controller of the object is the given Workspace under the current API
  version, nothing but the owner references changed, and the flag tells whether that was not so
  before. An object under the control of something that is not a Workspace is refused.
\<close>

theorem ReplaceWorkspaceAsController_correct:
  assumes "GetControllerOf_spec K" and "SetControllerReference_spec K" and "one_controller obj"
  shows "case ReplaceWorkspaceAsController K obj workspace of
      Inr (obj', replaced) \<Rightarrow>
        (\<exists>refs ref. obj' = obj\<lparr>om_OwnerReferences := refs\<rparr> \<and> GetControllerOf K obj' = Some ref \<and>
           or_UID ref = om_UID (w_Meta workspace) \<and> or_APIVersion ref = GroupVersion_String) \<and>
        replaced = (\<nexists>ref. GetControllerOf K obj = Some ref \<and>
           or_UID ref = om_UID (w_Meta workspace) \<and> or_APIVersion ref = GroupVersion_String) \<and>
        (replaced \<longrightarrow> GetControllerOf K obj = None \<or>
           isWorkspaceControllerRef K (GetControllerOf K obj))
    | Inl err \<Rightarrow>
        \<not> isWorkspaceControllerRef K (GetControllerOf K obj) \<or>
        (\<exists>refs. SetControllerReference K (w_Meta workspace) (obj\<lparr>om_OwnerReferences := refs\<rparr>) = Inl err)"
proof -
  have set_ok: "\<exists>refs' ref. obj' = obj\<lparr>om_OwnerReferences := refs'\<rparr> \<and> GetControllerOf K obj' = Some ref \<and>
      or_UID ref = om_UID (w_Meta workspace) \<and> or_APIVersion ref = GroupVersion_String"
    if "SetControllerReference K (w_Meta workspace) (obj\<lparr>om_OwnerReferences := refs\<rparr>) = Inr obj'"
      and "controller_refs refs = []" for refs obj'
  proof -
    from SetControllerReference_D [OF assms(2) _ that(1)] that(2) obtain refs' ref where
      "obj' = obj\<lparr>om_OwnerReferences := refs'\<rparr>" and "controller_refs refs' = [ref]"
      and "or_UID ref = om_UID (w_Meta workspace)" and "or_APIVersion ref = ''kubeflow.org/v1beta1''"
      by auto
    with GetControllerOf_single [OF assms(1), of obj' ref] show ?thesis
      by (auto simp: GroupVersion_String_def GroupVersion_Group_def)
  qed
  show ?thesis
  proof (cases "GetControllerOf K obj")
    case None
    then have "controller_refs (om_OwnerReferences obj) = []"
      by (rule GetControllerOf_cases [OF assms(1)])
    with None set_ok [of "om_OwnerReferences obj"] show ?thesis
      by (auto simp: ReplaceWorkspaceAsController_def isWorkspaceControllerRef_def split: sum.splits)
  next
    case (Some r)
    then have "r \<in> set (controller_refs (om_OwnerReferences obj))"
      by (rule GetControllerOf_cases [OF assms(1)])
    note removed = set_ok [OF _ one_controller_removed [OF assms(3) this]]
    have same: "\<exists>refs. obj = obj\<lparr>om_OwnerReferences := refs\<rparr>"
      by (rule exI [of _ "om_OwnerReferences obj"]) simp
    show ?thesis
    proof (cases "or_UID r = om_UID (w_Meta workspace) \<and> or_APIVersion r = GroupVersion_String")
      case True
      with Some same show ?thesis
        by (simp add: ReplaceWorkspaceAsController_def)
    next
      case False
      with Some removed show ?thesis
        by (auto simp: ReplaceWorkspaceAsController_def Let_def split: sum.splits)
    qed
  qed
qed

definition sample_ref :: "string \<Rightarrow> string \<Rightarrow> OwnerReference" where
  "sample_ref kind i =
     \<lparr>or_APIVersion = ''kubeflow.org/v1alpha1'', or_Kind = kind, or_Name = ''old'', or_UID = i,
      or_Controller = Some True\<rparr>"

theorem ReplaceWorkspaceAsController_correct_witness:
  "\<exists>obj' ref.
     ReplaceWorkspaceAsController lib0
       (ObjectMeta_zero\<lparr>om_OwnerReferences := [sample_ref ''Workspace'' ''uid-old'']\<rparr>) sample_workspace =
       Inr (obj', True) \<and>
     GetControllerOf lib0 obj' = Some ref \<and> or_UID ref = ''uid-w''"
proof -
  let ?obj = "ObjectMeta_zero\<lparr>om_OwnerReferences := [sample_ref ''Workspace'' ''uid-old'']\<rparr>"
  have one: "one_controller ?obj"
    by (simp add: one_controller_def controller_refs_def)
  have run: "\<exists>obj'. ReplaceWorkspaceAsController lib0 ?obj sample_workspace = Inr (obj', True)"
    by (simp add: ReplaceWorkspaceAsController_def lib0_def GetControllerOf0_def controller_refs_def
        sample_ref_def isWorkspaceControllerRef_def ParseGroupVersion0_def GroupVersion_Group_def
        GroupVersion_String_def OwnerKindWorkspace_def SetControllerReference0_def sample_workspace_def
        Let_def)
  show ?thesis
    using run ReplaceWorkspaceAsController_correct [OF lib0_GetControllerOf lib0_SetControllerReference one,
      of sample_workspace]
    by (auto simp: sample_workspace_def)
qed

text \<open>
  An object is indexed under a Workspace name exactly if its controller is a Workspace of the
  \<open>kubeflow.org\<close> API group of that name, whatever the version; so an index lookup by name finds the
  objects the Workspace controls and no others.
\<close>

theorem indexWorkspaceOwner_exact:
  "n \<in> set (indexWorkspaceOwner K obj) \<longleftrightarrow>
     (\<exists>ref version. GetControllerOf K obj = Some ref \<and> or_Name ref = n \<and> or_Kind ref = ''Workspace'' \<and>
        ParseGroupVersion K (or_APIVersion ref) = Inr (''kubeflow.org'', version))"
proof (cases "GetControllerOf K obj")
  case None
  then show ?thesis
    by (simp add: indexWorkspaceOwner_def)
next
  case (Some ref)
  then show ?thesis
    by (cases "ParseGroupVersion K (or_APIVersion ref)")
      (auto simp: indexWorkspaceOwner_def isWorkspaceControllerRef_def GroupVersion_Group_def
        OwnerKindWorkspace_def)
qed

end
