(* ===== verification/Generate.thy ===== *)
theory Generate
  imports K8s_Lib Samples
begin

text \<open>
  The generators of \<open>internal/controller/workspace_controller.go\<close>, which compute the objects a
  Workspace should own, and \<open>internal/helper/template.go\<close>. \<open>generateStatefulSet\<close> can panic (it
  dereferences the pointer \<open>readOnly\<close> of a data volume): its result is an \<open>option\<close>, \<open>None\<close> being the
  panic, around the Go result. The template engine is the parameter \<open>template_Parse\<close>.
\<close>

section \<open>Names and paths\<close>

definition workspaceNameLabel :: string where
  "workspaceNameLabel = ''workspaces.kubeflow.org/workspace-name''"

definition workspaceSelectorLabel :: string where
  "workspaceSelectorLabel = ''statefulset''"

definition workspacePodTemplateContainerName :: string where
  "workspacePodTemplateContainerName = ''main''"

definition generateNameSuffixLength :: int where
  "generateNameSuffixLength = 6"

definition getWorkspaceConnectPath :: "string \<Rightarrow> string \<Rightarrow> string \<Rightarrow> string" where
  "getWorkspaceConnectPath namespace workspaceName portId =
     ''/workspace/connect/'' @ namespace @ ''/'' @ workspaceName @ ''/'' @ portId @ ''/''"

text \<open>
  The callers pass the constants 52, 63 and 253, for which neither the slice expression nor the
  index of the last byte can panic.
\<close>

definition generateNamePrefix :: "string \<Rightarrow> int \<Rightarrow> string" where
  "generateNamePrefix workspaceName maxLength =
     (let namePrefix = ''ws-'' @ workspaceName;
          maxLength = maxLength - generateNameSuffixLength;
          maxLength = maxLength - 1;
          namePrefix = (if maxLength < int (length namePrefix)
                        then take (nat (min (int (length namePrefix)) maxLength)) namePrefix
                        else namePrefix);
          namePrefix = (if namePrefix ! (length namePrefix - 1) \<noteq> CHR ''-'' then namePrefix @ ''-''
                        else namePrefix)
      in namePrefix)"

definition maxStatefulSetNameLength :: int where "maxStatefulSetNameLength = 52"
definition maxServiceNameLength :: int where "maxServiceNameLength = 63"
definition maxVirtualServiceNameLength :: int where "maxVirtualServiceNameLength = 63"
definition maxServiceAccountNameLength :: int where "maxServiceAccountNameLength = 253"
definition maxRoleBindingNameLength :: int where "maxRoleBindingNameLength = 253"

section \<open>Templates and environment\<close>

definition RenderGoTemplate :: "k8s_lib \<Rightarrow> string \<Rightarrow> (string \<Rightarrow> string) \<Rightarrow> go_error + string" where
  "RenderGoTemplate K rawValue httpPathPrefixFunc =
     (case template_Parse K rawValue of
       Inl err \<Rightarrow> Inl (errorf_w (''failed to parse template '' @ go_quote rawValue @ '': '') err)
     | Inr tmpl \<Rightarrow>
         (case tmpl httpPathPrefixFunc of
           Inl err \<Rightarrow> Inl (errorf_w (''failed to execute template '' @ go_quote rawValue @ '': '') err)
         | Inr out \<Rightarrow> Inr out))"

text \<open>The state of the merge: the list \<open>mergedEnv\<close> and the map \<open>envIndexByName\<close>.\<close>

fun env_kind_loop :: "EnvVar list \<Rightarrow> EnvVar list \<times> (string, nat) go_map \<Rightarrow> EnvVar list \<times> (string, nat) go_map" where
  "env_kind_loop [] (mergedEnv, envIndexByName) = (mergedEnv, envIndexByName)"
| "env_kind_loop (env # envs) (mergedEnv, envIndexByName) =
     env_kind_loop envs
       (mergedEnv @ [env], AList.update (ev_Name env) (length mergedEnv) envIndexByName)"

fun env_pod_loop :: "EnvVar list \<Rightarrow> EnvVar list \<times> (string, nat) go_map \<Rightarrow> EnvVar list \<times> (string, nat) go_map" where
  "env_pod_loop [] (mergedEnv, envIndexByName) = (mergedEnv, envIndexByName)"
| "env_pod_loop (env # envs) (mergedEnv, envIndexByName) =
     (case map_of envIndexByName (ev_Name env) of
       Some idx \<Rightarrow> env_pod_loop envs (mergedEnv[idx := env], envIndexByName)
     | None \<Rightarrow>
         env_pod_loop envs
           (mergedEnv @ [env], AList.update (ev_Name env) (length mergedEnv) envIndexByName))"

fun env_render_loop :: "k8s_lib \<Rightarrow> (string \<Rightarrow> string) \<Rightarrow> EnvVar list \<Rightarrow> go_error + EnvVar list" where
  "env_render_loop K f [] = Inr []"
| "env_render_loop K f (env # envs) =
     (case (if ev_Value env \<noteq> [] then RenderGoTemplate K (ev_Value env) f else Inr (ev_Value env)) of
       Inl err \<Rightarrow> Inl (errorf_w (''failed to render extraEnv '' @ go_quote (ev_Name env) @ '': '') err)
     | Inr outValue \<Rightarrow>
         (case env_render_loop K f envs of
           Inl err \<Rightarrow> Inl err
         | Inr envs' \<Rightarrow> Inr (env\<lparr>ev_Value := outValue\<rparr> # envs')))"

definition generateContainerEnv ::
  "k8s_lib \<Rightarrow> EnvVar list \<Rightarrow> EnvVar list \<Rightarrow> (string \<Rightarrow> string) \<Rightarrow> go_error + EnvVar list" where
  "generateContainerEnv K wskExtraEnv podConfigExtraEnv httpPathPrefixFunc =
     (let st = env_kind_loop wskExtraEnv ([], []);
          st = env_pod_loop podConfigExtraEnv st
      in env_render_loop K httpPathPrefixFunc (fst st))"

section \<open>ServiceAccount and RoleBinding\<close>

definition generateServiceAccount :: "k8s_lib \<Rightarrow> Workspace \<Rightarrow> WorkspaceKind \<Rightarrow> ServiceAccount" where
  "generateServiceAccount K workspace workspaceKind =
     (let namePrefix = generateNamePrefix (w_Name workspace) maxServiceAccountNameLength;
          (saAnnotations, saLabels) =
            (case kpt_ServiceAccount (wk_PodTemplate workspaceKind) of
              None \<Rightarrow> ([], [])
            | Some cfg \<Rightarrow>
                (case ksa_Metadata cfg of
                  None \<Rightarrow> ([], [])
                | Some m \<Rightarrow> (maps_Copy [] (km_Annotations m), maps_Copy [] (km_Labels m))))
      in \<lparr>sa_Meta = ObjectMeta_zero
            \<lparr>om_GenerateName := namePrefix, om_Namespace := w_Namespace workspace,
             om_Annotations := saAnnotations,
             om_Labels := labels_Merge K saLabels [(workspaceNameLabel, w_Name workspace)]\<rparr>,
          sa_Rest = []\<rparr>)"

definition generateRoleBinding :: "Workspace \<Rightarrow> ServiceAccount \<Rightarrow> string \<Rightarrow> RoleBinding" where
  "generateRoleBinding workspace serviceAccount clusterRoleName =
     (let namePrefix = generateNamePrefix (w_Name workspace) maxRoleBindingNameLength
      in \<lparr>rb_Meta = ObjectMeta_zero
            \<lparr>om_GenerateName := namePrefix, om_Namespace := w_Namespace workspace,
             om_Labels := [(workspaceNameLabel, w_Name workspace)]\<rparr>,
          rb_RoleRef = \<lparr>rr_APIGroup = ''rbac.authorization.k8s.io'', rr_Kind = ''ClusterRole'',
                        rr_Name = clusterRoleName\<rparr>,
          rb_Subjects = [\<lparr>sub_Kind = ''ServiceAccount'', sub_Name = om_Name (sa_Meta serviceAccount),
                          sub_Namespace = w_Namespace workspace\<rparr>]\<rparr>)"

section \<open>StatefulSet: ports and volumes\<close>

text \<open>\<open>httpPathPrefixFunc\<close> of a list of ports: the connect path of a known port, else the empty string.\<close>

definition httpPathPrefix_of :: "Workspace \<Rightarrow> ImagePort list \<Rightarrow> string \<Rightarrow> string" where
  "httpPathPrefix_of workspace ports portId =
     (case map_of (index_by ip_Id ports []) portId of
       Some port \<Rightarrow> getWorkspaceConnectPath (w_Namespace workspace) (w_Name workspace) (ip_Id port)
     | None \<Rightarrow> [])"

fun container_ports_loop :: "ImagePort list \<Rightarrow> (int, bool) go_map \<Rightarrow> go_error + ContainerPort list" where
  "container_ports_loop [] seenPorts = Inr []"
| "container_ports_loop (port # ports) seenPorts =
     (if map_has seenPorts (ip_Port port)
      then Inl (ErrOther (''duplicate port number '' @ go_itoa (ip_Port port) @ '' in imageConfig''))
      else
        (case container_ports_loop ports (AList.update (ip_Port port) True seenPorts) of
          Inl err \<Rightarrow> Inl err
        | Inr rest \<Rightarrow>
            Inr (\<lparr>cp_Name = ip_Id port, cp_ContainerPort = ip_Port port, cp_Protocol = ''TCP''\<rparr> # rest)))"

text \<open>The four variables of the volume section.\<close>

record volume_state =
  vst_volumes :: "Volume list"
  vst_volumeMounts :: "VolumeMount list"
  vst_seenVolumeNames :: "(string, bool) go_map"
  vst_seenVolumeMountPaths :: "(string, bool) go_map"

definition add_volume :: "Volume \<Rightarrow> VolumeMount \<Rightarrow> volume_state \<Rightarrow> volume_state" where
  "add_volume volume volumeMount st =
     \<lparr>vst_volumes = vst_volumes st @ [volume],
      vst_volumeMounts = vst_volumeMounts st @ [volumeMount],
      vst_seenVolumeNames = AList.update (vol_Name volume) True (vst_seenVolumeNames st),
      vst_seenVolumeMountPaths = AList.update (vm_MountPath volumeMount) True (vst_seenVolumeMountPaths st)\<rparr>"

definition add_home_volume :: "Workspace \<Rightarrow> WorkspaceKind \<Rightarrow> volume_state \<Rightarrow> volume_state" where
  "add_home_volume workspace workspaceKind st =
     (case wv_Home (wpt_Volumes (ws_PodTemplate (w_Spec workspace))) of
       None \<Rightarrow> st
     | Some home \<Rightarrow>
         add_volume
           \<lparr>vol_Name = ''home-volume'', vol_Source = PersistentVolumeClaimVolumeSource home False\<rparr>
           \<lparr>vm_Name = ''home-volume'', vm_MountPath = kpt_HomeMountPath (wk_PodTemplate workspaceKind),
            vm_ReadOnly = False, vm_Rest = []\<rparr>
           st)"

text \<open>\<open>*data.ReadOnly\<close> panics on a nil pointer.\<close>

fun add_data_loop :: "nat \<Rightarrow> PodVolumeMount list \<Rightarrow> volume_state \<Rightarrow> volume_state option" where
  "add_data_loop i [] st = Some st"
| "add_data_loop i (data # datas) st =
     (case pvm_ReadOnly data of
       None \<Rightarrow> None
     | Some readOnly \<Rightarrow>
         (let name = ''data-volume-'' @ nat_digits i;
              dataVolume = \<lparr>vol_Name = name, vol_Source = PersistentVolumeClaimVolumeSource (pvm_PVCName data) readOnly\<rparr>;
              dataVolumeMount = \<lparr>vm_Name = name, vm_MountPath = pvm_MountPath data, vm_ReadOnly = readOnly, vm_Rest = []\<rparr>
          in if map_has (vst_seenVolumeNames st) name then add_data_loop (Suc i) datas st
             else if map_has (vst_seenVolumeMountPaths st) (pvm_MountPath data)
             then add_data_loop (Suc i) datas st
             else add_data_loop (Suc i) datas (add_volume dataVolume dataVolumeMount st)))"

fun add_secret_loop :: "nat \<Rightarrow> PodSecretMount list \<Rightarrow> volume_state \<Rightarrow> volume_state" where
  "add_secret_loop i [] st = st"
| "add_secret_loop i (secret # secrets) st =
     (let name = ''secret-volume-'' @ nat_digits i;
          secretVolume = \<lparr>vol_Name = name, vol_Source = SecretVolumeSource (psm_SecretName secret) (psm_DefaultMode secret)\<rparr>;
          secretVolumeMount = \<lparr>vm_Name = name, vm_MountPath = psm_MountPath secret, vm_ReadOnly = False, vm_Rest = []\<rparr>
      in if map_has (vst_seenVolumeNames st) name then add_secret_loop (Suc i) secrets st
         else if map_has (vst_seenVolumeMountPaths st) (psm_MountPath secret)
         then add_secret_loop (Suc i) secrets st
         else add_secret_loop (Suc i) secrets (add_volume secretVolume secretVolumeMount st))"

fun add_extra_volumes_loop :: "Volume list \<Rightarrow> volume_state \<Rightarrow> volume_state" where
  "add_extra_volumes_loop [] st = st"
| "add_extra_volumes_loop (extraVolume # extraVolumes) st =
     (if map_has (vst_seenVolumeNames st) (vol_Name extraVolume)
      then add_extra_volumes_loop extraVolumes st
      else add_extra_volumes_loop extraVolumes
        (st\<lparr>vst_volumes := vst_volumes st @ [extraVolume],
            vst_seenVolumeNames := AList.update (vol_Name extraVolume) True (vst_seenVolumeNames st)\<rparr>))"

fun add_extra_mounts_loop :: "VolumeMount list \<Rightarrow> volume_state \<Rightarrow> volume_state" where
  "add_extra_mounts_loop [] st = st"
| "add_extra_mounts_loop (extraVolumeMount # extraVolumeMounts) st =
     (if map_has (vst_seenVolumeMountPaths st) (vm_MountPath extraVolumeMount)
      then add_extra_mounts_loop extraVolumeMounts st
      else if \<not> map_has (vst_seenVolumeNames st) (vm_Name extraVolumeMount)
      then add_extra_mounts_loop extraVolumeMounts st
      else add_extra_mounts_loop extraVolumeMounts
        (st\<lparr>vst_volumeMounts := vst_volumeMounts st @ [extraVolumeMount],
            vst_seenVolumeMountPaths :=
              AList.update (vm_MountPath extraVolumeMount) True (vst_seenVolumeMountPaths st)\<rparr>))"

definition volume_state_empty :: volume_state where
  "volume_state_empty =
     \<lparr>vst_volumes = [], vst_volumeMounts = [], vst_seenVolumeNames = [], vst_seenVolumeMountPaths = []\<rparr>"

text \<open>The volume section as a whole; \<open>None\<close> is the panic.\<close>

definition generate_volumes :: "Workspace \<Rightarrow> WorkspaceKind \<Rightarrow> volume_state option" where
  "generate_volumes workspace workspaceKind =
     (let vols = wpt_Volumes (ws_PodTemplate (w_Spec workspace));
          podSpec = kpt_PodSpec (wk_PodTemplate workspaceKind);
          st = add_home_volume workspace workspaceKind volume_state_empty
      in case add_data_loop 0 (wv_Data vols) st of
           None \<Rightarrow> None
         | Some st \<Rightarrow>
             (let st = add_secret_loop 0 (wv_Secrets vols) st;
                  st = add_extra_volumes_loop (kps_ExtraVolumes podSpec) st;
                  st = add_extra_mounts_loop (mc_ExtraVolumeMounts (kps_MainContainer podSpec)) st
              in Some st))"

section \<open>StatefulSet\<close>

text \<open>\<open>if m != nil { maps.Copy(annotations, m.Annotations); maps.Copy(labels, m.Labels) }\<close>\<close>

definition copy_metadata :: "WorkspaceKindMetadata option \<Rightarrow> str_map \<times> str_map \<Rightarrow> str_map \<times> str_map" where
  "copy_metadata m al =
     (case m of
       None \<Rightarrow> al
     | Some m \<Rightarrow> (maps_Copy (fst al) (km_Annotations m), maps_Copy (snd al) (km_Labels m)))"

definition copy_pod_metadata :: "WorkspacePodMetadata option \<Rightarrow> str_map \<times> str_map \<Rightarrow> str_map \<times> str_map" where
  "copy_pod_metadata m al =
     (case m of
       None \<Rightarrow> al
     | Some m \<Rightarrow> (maps_Copy (fst al) (wpm_Annotations m), maps_Copy (snd al) (wpm_Labels m)))"

definition generateStatefulSet ::
  "k8s_lib \<Rightarrow> Workspace \<Rightarrow> WorkspaceKind \<Rightarrow> ImageConfigSpec \<Rightarrow> PodConfigSpec \<Rightarrow> ServiceAccount
   \<Rightarrow> (go_error + StatefulSet) option" where
  "generateStatefulSet K workspace workspaceKind imageConfigSpec podConfigSpec serviceAccount =
     (let namePrefix = generateNamePrefix (w_Name workspace) maxStatefulSetNameLength;
          replicas = (if ws_Paused (w_Spec workspace) then 0 else 1);
          (podAnnotations, podLabels) =
            copy_pod_metadata (wpt_PodMetadata (ws_PodTemplate (w_Spec workspace)))
              (copy_metadata (pcs_PodMetadata podConfigSpec)
                (copy_metadata (kpt_PodMetadata (wk_PodTemplate workspaceKind)) ([], [])));
          (stsAnnotations, stsLabels) =
            copy_metadata (pcs_StatefulSetMetadata podConfigSpec)
              (copy_metadata (kpt_StatefulSetMetadata (wk_PodTemplate workspaceKind)) ([], []));
          imagePullPolicy = ptr_Deref (ics_ImagePullPolicy imageConfigSpec) ''IfNotPresent'';
          httpPathPrefixFunc = httpPathPrefix_of workspace (ics_Ports imageConfigSpec);
          podSpec = kpt_PodSpec (wk_PodTemplate workspaceKind);
          mainContainer = kps_MainContainer podSpec
      in case container_ports_loop (ics_Ports imageConfigSpec) [] of
           Inl err \<Rightarrow> Some (Inl err)
         | Inr containerPorts \<Rightarrow>
             (case generateContainerEnv K (mc_ExtraEnv mainContainer) (pcs_ExtraEnv podConfigSpec)
                     httpPathPrefixFunc of
               Inl err \<Rightarrow> Some (Inl err)
             | Inr containerEnv \<Rightarrow>
                 (let containerResources = ptr_Deref (pcs_Resources podConfigSpec) [];
                      schedulerName = ptr_Deref (kps_SchedulerName podSpec) [];
                      schedulerName = ptr_Deref (pcs_SchedulerName podConfigSpec) schedulerName
                  in case generate_volumes workspace workspaceKind of
                       None \<Rightarrow> None
                     | Some st \<Rightarrow>
                         Some (Inr
                           \<lparr>sts_Meta = ObjectMeta_zero
                              \<lparr>om_GenerateName := namePrefix, om_Namespace := w_Namespace workspace,
                               om_Annotations := stsAnnotations,
                               om_Labels := labels_Merge K stsLabels [(workspaceNameLabel, w_Name workspace)]\<rparr>,
                            sts_Spec =
                              \<lparr>sts_Replicas = Some replicas,
                               sts_Selector =
                                 \<lparr>ls_MatchLabels = [(workspaceNameLabel, w_Name workspace),
                                                    (workspaceSelectorLabel, w_Name workspace)],
                                  ls_MatchExpressions = []\<rparr>,
                               sts_Template =
                                 \<lparr>pts_Labels = labels_Merge K podLabels
                                     [(workspaceNameLabel, w_Name workspace),
                                      (workspaceSelectorLabel, w_Name workspace)],
                                  pts_Annotations = podAnnotations,
                                  pts_Spec =
                                    \<lparr>ps_Affinity = pcs_Affinity podConfigSpec,
                                     ps_Containers =
                                       [\<lparr>ct_Name = workspacePodTemplateContainerName,
                                         ct_Image = ics_Image imageConfigSpec,
                                         ct_ImagePullPolicy = imagePullPolicy,
                                         ct_Ports = containerPorts,
                                         ct_ReadinessProbe = mc_ReadinessProbe mainContainer,
                                         ct_LivenessProbe = mc_LivenessProbe mainContainer,
                                         ct_StartupProbe = mc_StartupProbe mainContainer,
                                         ct_SecurityContext = mc_SecurityContext mainContainer,
                                         ct_VolumeMounts = vst_volumeMounts st,
                                         ct_Env = containerEnv,
                                         ct_Resources = containerResources\<rparr>],
                                     ps_InitContainers = [],
                                     ps_NodeSelector = pcs_NodeSelector podConfigSpec,
                                     ps_NodeName = [],
                                     ps_SchedulerName = schedulerName,
                                     ps_SecurityContext = kps_SecurityContext podSpec,
                                     ps_ServiceAccountName = om_Name (sa_Meta serviceAccount),
                                     ps_Tolerations = pcs_Tolerations podConfigSpec,
                                     ps_Volumes = vst_volumes st\<rparr>\<rparr>,
                               sts_UpdateStrategy = ''OnDelete'',
                               sts_SpecRest = []\<rparr>,
                            sts_ObservedGeneration = 0,
                            sts_UpdateRevision = []\<rparr>))))"

section \<open>Service and VirtualService\<close>

fun service_ports_loop ::
  "(string, WorkspaceKindPort) go_map \<Rightarrow> ImagePort list \<Rightarrow> (int, bool) go_map \<Rightarrow> go_error + ServicePort list" where
  "service_ports_loop podTemplatePortsIdMap [] seenPorts = Inr []"
| "service_ports_loop podTemplatePortsIdMap (port # ports) seenPorts =
     (if map_has seenPorts (ip_Port port)
      then Inl (ErrOther (''duplicate port number '' @ go_itoa (ip_Port port) @ '' in imageConfig''))
      else
        (case map_of podTemplatePortsIdMap (ip_Id port) of
          None \<Rightarrow> Inl (ErrOther (''port with id '' @ go_quote (ip_Id port) @ '' not found in workspaceKind''))
        | Some wskPort \<Rightarrow>
            (case kp_Protocol wskPort of
              ImagePortProtocolHTTP \<Rightarrow>
                (case service_ports_loop podTemplatePortsIdMap ports
                        (AList.update (ip_Port port) True seenPorts) of
                  Inl err \<Rightarrow> Inl err
                | Inr rest \<Rightarrow>
                    Inr (\<lparr>sp_Name = ip_Id port, sp_TargetPort = ip_Port port, sp_Port = ip_Port port,
                          sp_Protocol = ''TCP'', sp_AppProtocol = Some ''http''\<rparr> # rest))
            | ImagePortProtocolOther s \<Rightarrow>
                Inl (ErrOther (''unsupported protocol '' @ go_quote s @
                       '' for port with id '' @ go_quote (ip_Id port))))))"

definition generateService ::
  "Workspace \<Rightarrow> WorkspaceKind \<Rightarrow> ImageConfigSpec \<Rightarrow> go_error + Service" where
  "generateService workspace workspaceKind imageConfigSpec =
     (let namePrefix = generateNamePrefix (w_Name workspace) maxServiceNameLength;
          podTemplatePortsIdMap = index_by kp_Id (kpt_Ports (wk_PodTemplate workspaceKind)) []
      in case service_ports_loop podTemplatePortsIdMap (ics_Ports imageConfigSpec) [] of
           Inl err \<Rightarrow> Inl err
         | Inr servicePorts \<Rightarrow>
             Inr \<lparr>svc_Meta = ObjectMeta_zero
                    \<lparr>om_GenerateName := namePrefix, om_Namespace := w_Namespace workspace,
                     om_Labels := [(workspaceNameLabel, w_Name workspace)]\<rparr>,
                  svc_Ports = servicePorts,
                  svc_Selector = [(workspaceNameLabel, w_Name workspace),
                                  (workspaceSelectorLabel, w_Name workspace)],
                  svc_Type = ''ClusterIP'',
                  svc_SpecRest = []\<rparr>)"

fun render_headers_loop ::
  "k8s_lib \<Rightarrow> string \<Rightarrow> (string \<Rightarrow> string) \<Rightarrow> str_map \<Rightarrow> str_map \<Rightarrow> go_error + str_map" where
  "render_headers_loop K what f [] out = Inr out"
| "render_headers_loop K what f ((k, v) # headers) out =
     (case RenderGoTemplate K v f of
       Inl err \<Rightarrow> Inl (errorf_w (''failed to render requestHeaders.'' @ what @ '' '' @ go_quote k @ '': '') err)
     | Inr rendered \<Rightarrow> render_headers_loop K what f headers (AList.update k rendered out))"

definition render_headers ::
  "k8s_lib \<Rightarrow> string \<Rightarrow> (string \<Rightarrow> string) \<Rightarrow> str_map option \<Rightarrow> go_error + str_map option" where
  "render_headers K what f headers =
     (case headers of
       None \<Rightarrow> Inr None
     | Some hs \<Rightarrow>
         (case render_headers_loop K what f hs [] of Inl err \<Rightarrow> Inl err | Inr out \<Rightarrow> Inr (Some out)))"

definition generateVirtualServiceHTTPRoute ::
  "k8s_lib \<Rightarrow> EnvConfig \<Rightarrow> Workspace \<Rightarrow> Service \<Rightarrow> ImagePort \<Rightarrow> WorkspaceKindPort \<Rightarrow> (string \<Rightarrow> string)
   \<Rightarrow> go_error + HTTPRoute" where
  "generateVirtualServiceHTTPRoute K cfg workspace service imageConfigPort podTemplatePort httpPathPrefixFunc =
     (let matchUriPrefix =
            getWorkspaceConnectPath (w_Namespace workspace) (w_Name workspace) (ip_Id imageConfigPort);
          httpRouteRewrite =
            (case kp_HTTPProxy podTemplatePort of
              None \<Rightarrow> None
            | Some proxy \<Rightarrow> if ptr_Deref (hp_RemovePathPrefix proxy) False then Some ''/'' else None);
          route = (\<lambda>httpRouteHeaders.
            \<lparr>hr_RequestHeaders = httpRouteHeaders,
             hr_RewriteUri = httpRouteRewrite,
             hr_MatchUriPrefix = matchUriPrefix,
             hr_DestinationHost = om_Name (svc_Meta service) @ ''.'' @ om_Namespace (svc_Meta service) @
               ''.svc.'' @ cfg_ClusterDomain cfg,
             hr_DestinationPort = ip_Port imageConfigPort mod 2 ^ 32\<rparr>)
      in case Option.bind (kp_HTTPProxy podTemplatePort) hp_RequestHeaders of
           None \<Rightarrow> Inr (route None)
         | Some requestHeaders \<Rightarrow>
             (case render_headers K ''set'' httpPathPrefixFunc (iho_Set requestHeaders) of
               Inl err \<Rightarrow> Inl err
             | Inr setHeaders \<Rightarrow>
                 (case render_headers K ''add'' httpPathPrefixFunc (iho_Add requestHeaders) of
                   Inl err \<Rightarrow> Inl err
                 | Inr addHeaders \<Rightarrow>
                     Inr (route (Some \<lparr>ho_Set = setHeaders, ho_Add = addHeaders,
                                       ho_Remove = iho_Remove requestHeaders\<rparr>)))))"

fun http_routes_loop ::
  "k8s_lib \<Rightarrow> EnvConfig \<Rightarrow> Workspace \<Rightarrow> Service \<Rightarrow> (string, WorkspaceKindPort) go_map \<Rightarrow> (string \<Rightarrow> string)
   \<Rightarrow> ImagePort list \<Rightarrow> HTTPRoute list \<Rightarrow> go_error + HTTPRoute list" where
  "http_routes_loop K cfg workspace service portsMap f [] httpRoutes = Inr httpRoutes"
| "http_routes_loop K cfg workspace service portsMap f (imageConfigPort # ports) httpRoutes =
     (case map_of portsMap (ip_Id imageConfigPort) of
       None \<Rightarrow> http_routes_loop K cfg workspace service portsMap f ports httpRoutes
     | Some podTemplatePort \<Rightarrow>
         (case kp_Protocol podTemplatePort of
           ImagePortProtocolHTTP \<Rightarrow>
             (case generateVirtualServiceHTTPRoute K cfg workspace service imageConfigPort podTemplatePort f of
               Inl err \<Rightarrow> Inl err
             | Inr httpRoute \<Rightarrow>
                 http_routes_loop K cfg workspace service portsMap f ports (httpRoutes @ [httpRoute]))
         | ImagePortProtocolOther s \<Rightarrow>
             http_routes_loop K cfg workspace service portsMap f ports httpRoutes))"

definition generateVirtualService ::
  "k8s_lib \<Rightarrow> EnvConfig \<Rightarrow> Workspace \<Rightarrow> WorkspaceKind \<Rightarrow> Service \<Rightarrow> ImageConfigSpec \<Rightarrow> go_error + VirtualService" where
  "generateVirtualService K cfg workspace workspaceKind service imageConfigSpec =
     (let namePrefix = generateNamePrefix (w_Name workspace) maxVirtualServiceNameLength;
          currentPodTemplatePortsMap = index_by kp_Id (kpt_Ports (wk_PodTemplate workspaceKind)) [];
          httpPathPrefixFunc = httpPathPrefix_of workspace (ics_Ports imageConfigSpec)
      in case http_routes_loop K cfg workspace service currentPodTemplatePortsMap httpPathPrefixFunc
                (ics_Ports imageConfigSpec) [] of
           Inl err \<Rightarrow> Inl err
         | Inr httpRoutes \<Rightarrow>
             Inr \<lparr>vs_Meta = ObjectMeta_zero
                    \<lparr>om_GenerateName := namePrefix, om_Namespace := w_Namespace workspace,
                     om_Labels := [(workspaceNameLabel, w_Name workspace)]\<rparr>,
                  vs_Spec = \<lparr>vss_Gateways = [cfg_IstioGateway cfg], vss_Hosts = [cfg_IstioHosts cfg],
                             vss_Http = httpRoutes\<rparr>\<rparr>)"

section \<open>Volumes: the invariant of the section\<close>

text \<open>
  \<open>volumes_ok\<close>: no two volumes share a name, no two mounts share a path, every mount names a volume
  of the list, and the two sets of seen names and paths are exact.
\<close>

definition volumes_ok :: "volume_state \<Rightarrow> bool" where
  "volumes_ok st \<longleftrightarrow>
     distinct (map vol_Name (vst_volumes st)) \<and>
     distinct (map vm_MountPath (vst_volumeMounts st)) \<and>
     vm_Name ` set (vst_volumeMounts st) \<subseteq> vol_Name ` set (vst_volumes st) \<and>
     (\<forall>n. map_has (vst_seenVolumeNames st) n \<longleftrightarrow> n \<in> vol_Name ` set (vst_volumes st)) \<and>
     (\<forall>p. map_has (vst_seenVolumeMountPaths st) p \<longleftrightarrow> p \<in> vm_MountPath ` set (vst_volumeMounts st))"

lemma map_has_AList_update [simp]: "map_has (AList.update k True m) k' \<longleftrightarrow> k = k' \<or> map_has m k'"
  by (simp add: map_has_def update_conv)

lemma volumes_ok_empty: "volumes_ok volume_state_empty"
  by (simp add: volumes_ok_def volume_state_empty_def)

lemma volumes_ok_add:
  assumes "volumes_ok st" and "\<not> map_has (vst_seenVolumeNames st) (vol_Name v)"
    and "\<not> map_has (vst_seenVolumeMountPaths st) (vm_MountPath m)" and "vm_Name m = vol_Name v"
  shows "volumes_ok (add_volume v m st)"
  using assms by (auto simp: volumes_ok_def add_volume_def)

lemma volumes_ok_home: "volumes_ok (add_home_volume w wk volume_state_empty)"
  using volumes_ok_empty
  by (auto simp: add_home_volume_def volume_state_empty_def intro!: volumes_ok_add split: option.splits)

lemma volumes_ok_data:
  "volumes_ok st \<Longrightarrow> add_data_loop i ds st = Some st' \<Longrightarrow> volumes_ok st'"
  by (induction i ds st rule: add_data_loop.induct)
    (auto simp: Let_def volumes_ok_add split: option.splits if_splits)

lemma volumes_ok_secret: "volumes_ok st \<Longrightarrow> volumes_ok (add_secret_loop i ss st)"
  by (induction i ss st rule: add_secret_loop.induct) (auto simp: Let_def volumes_ok_add)

lemma volumes_ok_extra_volumes: "volumes_ok st \<Longrightarrow> volumes_ok (add_extra_volumes_loop vs st)"
proof (induction vs st rule: add_extra_volumes_loop.induct)
  case (2 v vs st)
  show ?case
  proof (cases "map_has (vst_seenVolumeNames st) (vol_Name v)")
    case False
    with 2(3) have "volumes_ok (st\<lparr>vst_volumes := vst_volumes st @ [v],
        vst_seenVolumeNames := AList.update (vol_Name v) True (vst_seenVolumeNames st)\<rparr>)"
      by (auto simp: volumes_ok_def)
    with 2 False show ?thesis by simp
  qed (use 2 in simp)
qed simp

lemma volumes_ok_extra_mounts: "volumes_ok st \<Longrightarrow> volumes_ok (add_extra_mounts_loop ms st)"
proof (induction ms st rule: add_extra_mounts_loop.induct)
  case (2 m ms st)
  show ?case
  proof (cases "map_has (vst_seenVolumeMountPaths st) (vm_MountPath m) \<or>
      \<not> map_has (vst_seenVolumeNames st) (vm_Name m)")
    case True
    with 2 show ?thesis by auto
  next
    case False
    with 2(4) have "volumes_ok (st\<lparr>vst_volumeMounts := vst_volumeMounts st @ [m],
        vst_seenVolumeMountPaths := AList.update (vm_MountPath m) True (vst_seenVolumeMountPaths st)\<rparr>)"
      by (auto simp: volumes_ok_def)
    with 2 False show ?thesis by simp
  qed
qed simp

lemma generate_volumes_ok: "generate_volumes w wk = Some st \<Longrightarrow> volumes_ok st"
  by (auto simp: generate_volumes_def Let_def split: option.splits
      intro!: volumes_ok_extra_mounts volumes_ok_extra_volumes volumes_ok_secret
      intro: volumes_ok_data [OF volumes_ok_home])

lemma add_data_loop_panic:
  "add_data_loop i ds st = None \<longleftrightarrow> (\<exists>d \<in> set ds. pvm_ReadOnly d = None)"
  by (induction i ds st rule: add_data_loop.induct) (auto simp: Let_def split: option.splits)

lemma generate_volumes_panic:
  "generate_volumes w wk = None \<longleftrightarrow>
     (\<exists>d \<in> set (wv_Data (wpt_Volumes (ws_PodTemplate (w_Spec w)))). pvm_ReadOnly d = None)"
proof -
  have "generate_volumes w wk = None \<longleftrightarrow>
      add_data_loop 0 (wv_Data (wpt_Volumes (ws_PodTemplate (w_Spec w))))
        (add_home_volume w wk volume_state_empty) = None"
    by (simp add: generate_volumes_def Let_def split: option.splits)
  then show ?thesis
    by (simp only: add_data_loop_panic)
qed

section \<open>Ports\<close>

lemma container_ports_loop_iff:
  "container_ports_loop ports seen = Inr cps \<longleftrightarrow>
     distinct (map ip_Port ports) \<and> (\<forall>p \<in> set ports. \<not> map_has seen (ip_Port p)) \<and>
     cps = map (\<lambda>p. \<lparr>cp_Name = ip_Id p, cp_ContainerPort = ip_Port p, cp_Protocol = ''TCP''\<rparr>) ports"
proof (induction ports seen arbitrary: cps rule: container_ports_loop.induct)
  case (2 port ports seen)
  show ?case
  proof (cases "map_has seen (ip_Port port)")
    case False
    with 2(1) show ?thesis
      by (cases "container_ports_loop ports (AList.update (ip_Port port) True seen)") auto
  qed simp
qed auto

definition http_port :: "(string, WorkspaceKindPort) go_map \<Rightarrow> ImagePort \<Rightarrow> bool" where
  "http_port m p \<longleftrightarrow> (\<exists>kp. map_of m (ip_Id p) = Some kp \<and> kp_Protocol kp = ImagePortProtocolHTTP)"

lemma service_ports_loop_iff:
  "service_ports_loop m ports seen = Inr sps \<longleftrightarrow>
     distinct (map ip_Port ports) \<and> (\<forall>p \<in> set ports. \<not> map_has seen (ip_Port p)) \<and>
     list_all (http_port m) ports \<and>
     sps = map (\<lambda>p. \<lparr>sp_Name = ip_Id p, sp_TargetPort = ip_Port p, sp_Port = ip_Port p,
                     sp_Protocol = ''TCP'', sp_AppProtocol = Some ''http''\<rparr>) ports"
proof (induction m ports seen arbitrary: sps rule: service_ports_loop.induct)
  case (2 m port ports seen)
  consider (seen) "map_has seen (ip_Port port)"
    | (bad) "\<not> map_has seen (ip_Port port)" "\<not> http_port m port"
    | (good) kp where "\<not> map_has seen (ip_Port port)" "map_of m (ip_Id port) = Some kp"
        "kp_Protocol kp = ImagePortProtocolHTTP"
    by (auto simp: http_port_def)
  then show ?case
  proof cases
    case seen
    then show ?thesis by simp
  next
    case bad
    then show ?thesis
      by (auto simp: http_port_def split: option.splits ImagePortProtocol.splits)
  next
    case good
    with 2(1) [OF good] show ?thesis
      by (cases "service_ports_loop m ports (AList.update (ip_Port port) True seen)")
        (auto simp: http_port_def)
  qed
qed auto

section \<open>Environment\<close>

text \<open>
  The merge as a whole: the variables of the kind in place, each replaced by the variable of the
  podConfig of that name if there is one, then the variables only the podConfig has.
\<close>

definition env_override :: "EnvVar list \<Rightarrow> EnvVar \<Rightarrow> EnvVar" where
  "env_override pcs e = (case find (\<lambda>e'. ev_Name e' = ev_Name e) pcs of None \<Rightarrow> e | Some e' \<Rightarrow> e')"

definition env_merge :: "EnvVar list \<Rightarrow> EnvVar list \<Rightarrow> EnvVar list" where
  "env_merge ks pcs = map (env_override pcs) ks @ filter (\<lambda>e. ev_Name e \<notin> ev_Name ` set ks) pcs"

text \<open>The index map is exact for a list with distinct names.\<close>

definition env_index :: "EnvVar list \<Rightarrow> (string, nat) go_map \<Rightarrow> bool" where
  "env_index es m \<longleftrightarrow>
     distinct (map ev_Name es) \<and>
     (\<forall>n i. map_of m n = Some i \<longleftrightarrow> i < length es \<and> ev_Name (es ! i) = n)"

lemma env_index_Nil: "env_index [] []"
  by (simp add: env_index_def)

lemma env_index_snoc:
  assumes "env_index es m" and "ev_Name e \<notin> ev_Name ` set es"
  shows "env_index (es @ [e]) (AList.update (ev_Name e) (length es) m)"
  unfolding env_index_def
proof (intro conjI allI)
  show "distinct (map ev_Name (es @ [e]))"
    using assms by (auto simp: env_index_def)
  fix n i
  show "map_of (AList.update (ev_Name e) (length es) m) n = Some i \<longleftrightarrow>
      i < length (es @ [e]) \<and> ev_Name ((es @ [e]) ! i) = n"
  proof (cases "n = ev_Name e")
    case True
    have "ev_Name (es ! i) \<noteq> n" if "i < length es" for i
    proof -
      from that have "ev_Name (es ! i) \<in> ev_Name ` set es"
        by (intro imageI nth_mem)
      with assms(2) True show ?thesis by metis
    qed
    with True show ?thesis
      by (auto simp: update_conv nth_append less_Suc_eq)
  next
    case False
    with assms(1) show ?thesis
      by (auto simp: env_index_def update_conv nth_append less_Suc_eq)
  qed
qed

lemma env_index_None: "env_index es m \<Longrightarrow> map_of m n = None \<longleftrightarrow> n \<notin> ev_Name ` set es"
proof -
  assume "env_index es m"
  then have "(\<exists>i. map_of m n = Some i) \<longleftrightarrow> (\<exists>i. i < length es \<and> ev_Name (es ! i) = n)"
    by (simp add: env_index_def)
  also have "\<dots> \<longleftrightarrow> n \<in> ev_Name ` set es"
    by (auto simp: set_conv_nth)
  finally show ?thesis by auto
qed

lemma env_kind_loop_eq:
  "env_index es m \<Longrightarrow> distinct (map ev_Name (es @ ks)) \<Longrightarrow>
   \<exists>m'. env_kind_loop ks (es, m) = (es @ ks, m') \<and> env_index (es @ ks) m'"
proof (induction ks arbitrary: es m)
  case (Cons k ks)
  from Cons(3) have "ev_Name k \<notin> ev_Name ` set es"
    by auto
  with Cons(2) have "env_index (es @ [k]) (AList.update (ev_Name k) (length es) m)"
    by (rule env_index_snoc)
  from Cons(1) [OF this] Cons(3) show ?case by simp
qed simp

lemma env_index_replace:
  assumes "env_index es m" and "map_of m (ev_Name e) = Some i"
  shows "env_index (es[i := e]) m"
    and "es[i := e] = map (\<lambda>x. if ev_Name x = ev_Name e then e else x) es"
proof -
  from assms have i: "i < length es" "ev_Name (es ! i) = ev_Name e" and d: "distinct (map ev_Name es)"
    by (auto simp: env_index_def)
  then have same: "map ev_Name (es[i := e]) = map ev_Name es"
    by (metis list_update_id map_update nth_map)
  then have "ev_Name (es[i := e] ! j) = ev_Name (es ! j)" if "j < length es" for j
    using that by (metis length_list_update nth_map)
  with assms same d show "env_index (es[i := e]) m"
    unfolding env_index_def by (metis length_list_update)
  have "ev_Name (es ! j) = ev_Name e \<longleftrightarrow> j = i" if "j < length es" for j
    using that i d by (metis distinct_conv_nth length_map nth_map)
  with i show "es[i := e] = map (\<lambda>x. if ev_Name x = ev_Name e then e else x) es"
    by (auto intro!: nth_equalityI simp: nth_list_update)
qed

lemma env_override_Cons:
  "env_override (p # ps) x = (if ev_Name p = ev_Name x then p else env_override ps x)"
  by (simp add: env_override_def)

lemma env_override_Nil [simp]: "env_override [] x = x"
  by (simp add: env_override_def)

lemma env_override_fresh: "ev_Name x \<notin> ev_Name ` set ps \<Longrightarrow> env_override ps x = x"
  by (induction ps) (auto simp: env_override_Cons)

lemma env_merge_replace:
  assumes "ev_Name p \<notin> ev_Name ` set ps" and "ev_Name p \<in> ev_Name ` set es"
  shows "env_merge (map (\<lambda>x. if ev_Name x = ev_Name p then p else x) es) ps = env_merge es (p # ps)"
proof -
  let ?es = "map (\<lambda>x. if ev_Name x = ev_Name p then p else x) es"
  have "ev_Name ` set ?es = ev_Name ` set es"
    by (induction es) auto
  moreover have "map (env_override ps) ?es = map (env_override (p # ps)) es"
    using assms(1) by (auto simp: env_override_Cons env_override_fresh)
  ultimately show ?thesis
    using assms(2) unfolding env_merge_def by auto
qed

lemma env_merge_append:
  assumes "ev_Name p \<notin> ev_Name ` set ps" and "ev_Name p \<notin> ev_Name ` set es"
  shows "env_merge (es @ [p]) ps = env_merge es (p # ps)"
proof -
  have "map (env_override ps) es = map (env_override (p # ps)) es"
    using assms(2) by (auto simp: env_override_Cons)
  moreover have "filter (\<lambda>e. ev_Name e \<notin> ev_Name ` set (es @ [p])) ps =
      filter (\<lambda>e. ev_Name e \<notin> ev_Name ` set es) ps"
    using assms(1) by (intro filter_cong) (auto simp: image_iff)
  ultimately show ?thesis
    using assms by (simp add: env_merge_def env_override_fresh)
qed

lemma env_pod_loop_eq:
  "env_index es m \<Longrightarrow> distinct (map ev_Name ps) \<Longrightarrow> fst (env_pod_loop ps (es, m)) = env_merge es ps"
proof (induction ps arbitrary: es m)
  case Nil
  have "env_override [] = (\<lambda>x. x)"
    by (rule ext) simp
  then show ?case by (simp add: env_merge_def)
next
  case (Cons p ps)
  from Cons.prems have fresh: "ev_Name p \<notin> ev_Name ` set ps" and d: "distinct (map ev_Name ps)"
    by auto
  show ?case
  proof (cases "map_of m (ev_Name p)")
    case None
    with Cons.prems env_index_None have new: "ev_Name p \<notin> ev_Name ` set es"
      by blast
    from Cons.IH [OF env_index_snoc [OF Cons.prems(1) new] d] None fresh new show ?thesis
      by (simp add: env_merge_append)
  next
    case (Some i)
    with env_index_None [OF Cons.prems(1), of "ev_Name p"] have "ev_Name p \<in> ev_Name ` set es"
      by simp
    with Cons.IH [OF env_index_replace(1) [OF Cons.prems(1) Some] d] Some fresh show ?thesis
      by (simp add: env_index_replace(2) [OF Cons.prems(1) Some] env_merge_replace)
  qed
qed

lemma wf_copy_metadata:
  "wf_map (snd al) \<Longrightarrow> wf_map (snd (copy_metadata m al))"
  "wf_map (snd al) \<Longrightarrow> wf_map (snd (copy_pod_metadata m' al))"
  by (simp_all add: copy_metadata_def copy_pod_metadata_def wf_maps_Copy split: option.splits)

lemma http_routes_loop_Inr:
  "http_routes_loop K cfg w svc m f ports acc = Inr routes \<Longrightarrow>
   \<exists>new. routes = acc @ new \<and>
     map hr_MatchUriPrefix new =
       map (\<lambda>p. getWorkspaceConnectPath (w_Namespace w) (w_Name w) (ip_Id p)) (filter (http_port m) ports) \<and>
     map hr_DestinationPort new = map (\<lambda>p. ip_Port p mod 2 ^ 32) (filter (http_port m) ports)"
proof (induction K cfg w svc m f ports acc rule: http_routes_loop.induct)
  case (2 K cfg w svc m f port ports acc)
  show ?case
  proof (cases "http_port m port")
    case False
    with 2 show ?thesis
      by (auto simp: http_port_def split: option.splits ImagePortProtocol.splits)
  next
    case True
    then obtain kp where kp: "map_of m (ip_Id port) = Some kp" "kp_Protocol kp = ImagePortProtocolHTTP"
      by (auto simp: http_port_def)
    with 2(4) obtain r where
      r: "generateVirtualServiceHTTPRoute K cfg w svc port kp f = Inr r"
      "http_routes_loop K cfg w svc m f ports (acc @ [r]) = Inr routes"
      by (auto split: sum.splits)
    from r(1) have "hr_MatchUriPrefix r = getWorkspaceConnectPath (w_Namespace w) (w_Name w) (ip_Id port)"
      and "hr_DestinationPort r = ip_Port port mod 2 ^ 32"
      by (auto simp: generateVirtualServiceHTTPRoute_def Let_def split: option.splits sum.splits)
    with 2(2) [OF kp r] True show ?thesis by auto
  qed
qed simp

section \<open>Properties\<close>

text \<open>
  The name prefix of a generated object starts with \<open>ws-\<close>, ends in a dash, and with the suffix that
  the API server appends to it (\<open>generateNameSuffixLength\<close>) stays within the length limit of the
  object; a name that is short enough is kept whole.
\<close>

theorem generateNamePrefix_bounds:
  assumes "11 \<le> maxLength"
  shows "int (length (generateNamePrefix workspaceName maxLength)) + generateNameSuffixLength \<le> maxLength \<and>
    take 3 (generateNamePrefix workspaceName maxLength) = ''ws-'' \<and>
    last (generateNamePrefix workspaceName maxLength) = CHR ''-'' \<and>
    (int (length workspaceName) + 10 \<le> maxLength \<longrightarrow>
       generateNamePrefix workspaceName maxLength =
         (if workspaceName \<noteq> [] \<and> last workspaceName \<noteq> CHR ''-'' then ''ws-'' @ workspaceName @ ''-''
          else ''ws-'' @ workspaceName))"
proof -
  define full where "full = ''ws-'' @ workspaceName"
  define pre where "pre = (if maxLength - 7 < int (length full)
    then take (nat (min (int (length full)) (maxLength - 7))) full else full)"
  have gen: "generateNamePrefix workspaceName maxLength =
      (if pre ! (length pre - 1) \<noteq> CHR ''-'' then pre @ ''-'' else pre)"
    by (simp add: generateNamePrefix_def generateNameSuffixLength_def pre_def full_def Let_def)
  have len: "int (length pre) \<le> maxLength - 7" "3 \<le> length pre"
    using assms by (auto simp: pre_def full_def min_def)
  have pre: "take 3 pre = ''ws-''"
    using assms by (auto simp: pre_def full_def min_def take_Cons' numeral_3_eq_3)
  have last: "pre ! (length pre - 1) = last pre"
    using len by (subst last_conv_nth) auto
  have short: "int (length workspaceName) + 10 \<le> maxLength \<Longrightarrow> pre = full"
    by (simp add: pre_def full_def)
  show ?thesis
    unfolding gen last using len pre short
    by (auto simp: generateNameSuffixLength_def full_def last_append)
qed

theorem generateNamePrefix_bounds_witness:
  "generateNamePrefix ''notebook'' maxStatefulSetNameLength = ''ws-notebook-''"
  using generateNamePrefix_bounds [of maxStatefulSetNameLength "''notebook''"]
  by (simp add: maxStatefulSetNameLength_def)

text \<open>
  The environment of the main container: with distinct names on either side (the API enforces
  it), \<open>generateContainerEnv\<close> renders exactly the merge it documents. The variables of the kind come
  first, in their order, each replaced in place by the podConfig's variable of the same name; the
  remaining variables of the podConfig follow in their order.
\<close>

theorem generateContainerEnv_merge:
  assumes "distinct (map ev_Name wskExtraEnv)" and "distinct (map ev_Name podConfigExtraEnv)"
  shows "generateContainerEnv K wskExtraEnv podConfigExtraEnv f =
    env_render_loop K f (env_merge wskExtraEnv podConfigExtraEnv)"
proof -
  from env_kind_loop_eq [OF env_index_Nil, of wskExtraEnv] assms(1) obtain m where
    "env_kind_loop wskExtraEnv ([], []) = (wskExtraEnv, m)" and "env_index wskExtraEnv m"
    by auto
  with assms(2) show ?thesis
    by (simp add: generateContainerEnv_def env_pod_loop_eq)
qed

definition sample_env_var :: "string \<Rightarrow> string \<Rightarrow> EnvVar" where
  "sample_env_var n v = \<lparr>ev_Name = n, ev_Value = v, ev_ValueFrom = None\<rparr>"

theorem generateContainerEnv_merge_witness:
  "generateContainerEnv lib0 [sample_env_var ''A'' ''1'', sample_env_var ''B'' ''2'']
     [sample_env_var ''C'' ''3'', sample_env_var ''A'' ''4''] (\<lambda>p. p) =
   Inr [sample_env_var ''A'' ''4'', sample_env_var ''B'' ''2'', sample_env_var ''C'' ''3'']"
  using generateContainerEnv_merge [of "[sample_env_var ''A'' ''1'', sample_env_var ''B'' ''2'']"
    "[sample_env_var ''C'' ''3'', sample_env_var ''A'' ''4'']" lib0 "\<lambda>p. p"]
  by (simp add: sample_env_var_def env_merge_def env_override_def RenderGoTemplate_def lib0_def)

text \<open>
  C35. \<open>generateStatefulSet\<close> panics exactly if a data volume has no \<open>readOnly\<close> (the ports and the
  environment being in order), and what it returns is a StatefulSet the API server accepts: zero
  replicas iff the Workspace is paused, a selector that the labels of the Pod template satisfy,
  one main container whose port numbers are distinct, volumes with distinct names, mounts with
  distinct paths, each of a volume of the Pod. It never updates Pods on its own (\<open>OnDelete\<close>).
\<close>

theorem generateStatefulSet_valid:
  assumes "labels_Merge_spec K"
  shows "case generateStatefulSet K workspace workspaceKind ic pc sa of
      None \<Rightarrow> (\<exists>d \<in> set (wv_Data (wpt_Volumes (ws_PodTemplate (w_Spec workspace)))). pvm_ReadOnly d = None)
    | Some (Inl err) \<Rightarrow>
        \<not> distinct (map ip_Port (ics_Ports ic)) \<or>
        generateContainerEnv K (mc_ExtraEnv (kps_MainContainer (kpt_PodSpec (wk_PodTemplate workspaceKind))))
          (pcs_ExtraEnv pc) (httpPathPrefix_of workspace (ics_Ports ic)) = Inl err
    | Some (Inr sts) \<Rightarrow>
        sts_Replicas (sts_Spec sts) = Some (if ws_Paused (w_Spec workspace) then 0 else 1) \<and>
        (\<forall>(k, v) \<in> set (ls_MatchLabels (sts_Selector (sts_Spec sts))).
           map_of (pts_Labels (sts_Template (sts_Spec sts))) k = Some v) \<and>
        (\<exists>c. ps_Containers (pts_Spec (sts_Template (sts_Spec sts))) = [c] \<and>
           distinct (map cp_ContainerPort (ct_Ports c)) \<and>
           distinct (map vm_MountPath (ct_VolumeMounts c)) \<and>
           vm_Name ` set (ct_VolumeMounts c) \<subseteq>
             vol_Name ` set (ps_Volumes (pts_Spec (sts_Template (sts_Spec sts))))) \<and>
        distinct (map vol_Name (ps_Volumes (pts_Spec (sts_Template (sts_Spec sts))))) \<and>
        sts_UpdateStrategy (sts_Spec sts) = ''OnDelete''"
proof -
  let ?al = "copy_pod_metadata (wpt_PodMetadata (ws_PodTemplate (w_Spec workspace)))
    (copy_metadata (pcs_PodMetadata pc) (copy_metadata (kpt_PodMetadata (wk_PodTemplate workspaceKind)) ([], [])))"
  let ?b = "[(workspaceNameLabel, w_Name workspace), (workspaceSelectorLabel, w_Name workspace)]"
  let ?env = "generateContainerEnv K (mc_ExtraEnv (kps_MainContainer (kpt_PodSpec (wk_PodTemplate workspaceKind))))
    (pcs_ExtraEnv pc) (httpPathPrefix_of workspace (ics_Ports ic))"
  have "wf_map ?b"
    by (simp add: workspaceNameLabel_def workspaceSelectorLabel_def)
  moreover have "wf_map (snd ?al)"
    by (intro wf_copy_metadata) simp
  ultimately have sel: "map_of (labels_Merge K (snd ?al) ?b) k = Some v" if "(k, v) \<in> set ?b" for k v
    using that assms unfolding labels_Merge_spec_def by fastforce
  have ports: "container_ports_loop (ics_Ports ic) [] = Inr cps \<longleftrightarrow> distinct (map ip_Port (ics_Ports ic)) \<and>
      cps = map (\<lambda>p. \<lparr>cp_Name = ip_Id p, cp_ContainerPort = ip_Port p, cp_Protocol = ''TCP''\<rparr>) (ics_Ports ic)"
    for cps
    by (simp add: container_ports_loop_iff)
  show ?thesis
  proof (cases "container_ports_loop (ics_Ports ic) []")
    case (Inl err)
    then have "\<not> distinct (map ip_Port (ics_Ports ic))"
      using ports by (metis Inl_Inr_False)
    with Inl show ?thesis
      by (simp add: generateStatefulSet_def Let_def case_prod_beta)
  next
    case (Inr cps)
    note cps = Inr
    from ports [THEN iffD1, OF Inr] have dp: "distinct (map cp_ContainerPort cps)"
      by (simp add: comp_def)
    show ?thesis
    proof (cases ?env)
      case (Inl err)
      with cps show ?thesis
        by (simp add: generateStatefulSet_def Let_def case_prod_beta)
    next
      case (Inr env)
      show ?thesis
      proof (cases "generate_volumes workspace workspaceKind")
        case None
        with cps Inr generate_volumes_panic [of workspace workspaceKind] show ?thesis
          by (simp add: generateStatefulSet_def Let_def case_prod_beta)
      next
        case (Some st)
        from generate_volumes_ok [OF Some] cps Inr Some dp sel show ?thesis
          by (simp add: generateStatefulSet_def Let_def case_prod_beta volumes_ok_def)
      qed
    qed
  qed
qed

theorem generateStatefulSet_valid_witness:
  "\<exists>sts. generateStatefulSet lib0 sample_workspace sample_kind sample_image_spec sample_pod_spec
      \<lparr>sa_Meta = ObjectMeta_zero, sa_Rest = []\<rparr> = Some (Inr sts) \<and>
    sts_Replicas (sts_Spec sts) = Some 1 \<and>
    distinct (map vol_Name (ps_Volumes (pts_Spec (sts_Template (sts_Spec sts)))))"
proof -
  have "\<exists>sts. generateStatefulSet lib0 sample_workspace sample_kind sample_image_spec sample_pod_spec
      \<lparr>sa_Meta = ObjectMeta_zero, sa_Rest = []\<rparr> = Some (Inr sts)"
    by (simp add: generateStatefulSet_def generate_volumes_def generateContainerEnv_def sample_defs Let_def
        case_prod_beta)
  with generateStatefulSet_valid [OF lib0_labels_Merge, where workspace = sample_workspace and
      workspaceKind = sample_kind and ic = sample_image_spec and pc = sample_pod_spec and
      sa = "\<lparr>sa_Meta = ObjectMeta_zero, sa_Rest = []\<rparr>"]
  show ?thesis
    by (auto simp: sample_workspace_def)
qed

text \<open>
  \<open>generateService\<close> succeeds exactly if the port numbers of the image are distinct and each port
  id is an HTTP port of the kind; the Service then has one port per image port, in order, with the
  same number and id, and it selects exactly the labels by which the StatefulSet selects its Pods.
\<close>

theorem generateService_exact:
  "(\<exists>svc. generateService workspace workspaceKind ic = Inr svc) =
     (distinct (map ip_Port (ics_Ports ic)) \<and>
      list_all (http_port (index_by kp_Id (kpt_Ports (wk_PodTemplate workspaceKind)) [])) (ics_Ports ic)) \<and>
   (case generateService workspace workspaceKind ic of
     Inl err \<Rightarrow> True
   | Inr svc \<Rightarrow>
       map (\<lambda>sp. (sp_Name sp, sp_Port sp, sp_TargetPort sp)) (svc_Ports svc) =
         map (\<lambda>p. (ip_Id p, ip_Port p, ip_Port p)) (ics_Ports ic) \<and>
       (case generateStatefulSet K workspace workspaceKind ic pc sa of
         Some (Inr sts) \<Rightarrow> svc_Selector svc = ls_MatchLabels (sts_Selector (sts_Spec sts))
       | _ \<Rightarrow> True))"
proof -
  let ?m = "index_by kp_Id (kpt_Ports (wk_PodTemplate workspaceKind)) []"
  have sel: "ls_MatchLabels (sts_Selector (sts_Spec sts)) =
      [(workspaceNameLabel, w_Name workspace), (workspaceSelectorLabel, w_Name workspace)]"
    if "generateStatefulSet K workspace workspaceKind ic pc sa = Some (Inr sts)" for sts
    using that
    by (auto simp: generateStatefulSet_def Let_def case_prod_beta split: sum.splits option.splits)
  show ?thesis
  proof (cases "service_ports_loop ?m (ics_Ports ic) []")
    case (Inl err)
    then have "\<not> (distinct (map ip_Port (ics_Ports ic)) \<and> list_all (http_port ?m) (ics_Ports ic))"
      by (metis service_ports_loop_iff [of ?m "ics_Ports ic" "[]"] Inl_Inr_False map_has_simps(1))
    with Inl show ?thesis
      by (simp add: generateService_def Let_def)
  next
    case (Inr sps)
    with service_ports_loop_iff [of ?m "ics_Ports ic" "[]" sps] sel show ?thesis
      by (auto simp: generateService_def Let_def split: option.splits sum.splits)
  qed
qed

text \<open>
  A VirtualService has one route for each port of the image that is an HTTP port of the kind, in
  order: the route matches the connect path of the Workspace and the port, and leads to the port
  number of the image (as the unsigned 32-bit number Istio expects).
\<close>

theorem generateVirtualService_routes:
  assumes "generateVirtualService K cfg workspace workspaceKind service ic = Inr vs"
  shows "map (\<lambda>r. (hr_MatchUriPrefix r, hr_DestinationPort r)) (vss_Http (vs_Spec vs)) =
    map (\<lambda>p. (getWorkspaceConnectPath (w_Namespace workspace) (w_Name workspace) (ip_Id p), ip_Port p mod 2 ^ 32))
      (filter (http_port (index_by kp_Id (kpt_Ports (wk_PodTemplate workspaceKind)) [])) (ics_Ports ic))"
proof -
  from assms have "http_routes_loop K cfg workspace service
      (index_by kp_Id (kpt_Ports (wk_PodTemplate workspaceKind)) [])
      (httpPathPrefix_of workspace (ics_Ports ic)) (ics_Ports ic) [] = Inr (vss_Http (vs_Spec vs))"
    by (auto simp: generateVirtualService_def Let_def split: sum.splits)
  from http_routes_loop_Inr [OF this] show ?thesis
    by (auto simp: list_eq_iff_nth_eq)
qed

theorem generateVirtualService_routes_witness:
  "\<exists>vs. generateVirtualService lib0
      \<lparr>cfg_IstioGateway = ''gw'', cfg_IstioHosts = ''*'', cfg_ClusterDomain = ''cluster.local'',
       cfg_UseIstio = True, cfg_WatchWarningEvents = False, cfg_ClientQPS = [], cfg_ClientBurst = 0\<rparr>
      sample_workspace sample_kind
      \<lparr>svc_Meta = ObjectMeta_zero, svc_Ports = [], svc_Selector = [], svc_Type = [], svc_SpecRest = []\<rparr>
      sample_image_spec = Inr vs \<and>
    map hr_DestinationPort (vss_Http (vs_Spec vs)) = [8888]"
proof -
  let ?cfg = "\<lparr>cfg_IstioGateway = ''gw'', cfg_IstioHosts = ''*'', cfg_ClusterDomain = ''cluster.local'',
    cfg_UseIstio = True, cfg_WatchWarningEvents = False, cfg_ClientQPS = [], cfg_ClientBurst = 0\<rparr>"
  let ?svc = "\<lparr>svc_Meta = ObjectMeta_zero, svc_Ports = [], svc_Selector = [], svc_Type = [], svc_SpecRest = []\<rparr>"
  have "\<exists>vs. generateVirtualService lib0 ?cfg sample_workspace sample_kind ?svc sample_image_spec = Inr vs"
    by (simp add: generateVirtualService_def generateVirtualServiceHTTPRoute_def sample_kind_def
        sample_pod_template_def sample_port_def sample_image_spec_def Let_def)
  then obtain vs where run: "generateVirtualService lib0 ?cfg sample_workspace sample_kind ?svc sample_image_spec = Inr vs"
    by blast
  have "filter (http_port (index_by kp_Id (kpt_Ports (wk_PodTemplate sample_kind)) []))
      (ics_Ports sample_image_spec) = ics_Ports sample_image_spec"
    by (simp add: sample_kind_def sample_pod_template_def sample_port_def sample_image_spec_def http_port_def)
  with arg_cong [OF generateVirtualService_routes [OF run], of "map snd"]
  have "map hr_DestinationPort (vss_Http (vs_Spec vs)) = map (\<lambda>p. ip_Port p mod 2 ^ 32) (ics_Ports sample_image_spec)"
    by (simp add: comp_def)
  then have port: "map hr_DestinationPort (vss_Http (vs_Spec vs)) = [8888]"
    by (simp add: sample_image_spec_def)
  show ?thesis
    by (rule exI [of _ vs]) (rule conjI [OF run port])
qed

end
