(* ===== verification/Graph.thy ===== *)
theory Graph
  imports Go_Base
begin

text \<open>
  \<open>internal/helper/graph.go\<close>: cycle detection in the redirect graph of a WorkspaceKind, in which
  every node has at most one outgoing edge. The loop is a \<open>partial_function\<close>, so that a run that
  never returns is the value \<open>None\<close>; \<open>DetectGraphCycle_total\<close> shows that this does not happen.
\<close>

section \<open>The algorithm\<close>

text \<open>\<open>for i, node := range currentPath { if node == currentNode { return currentPath[i:] } }\<close>\<close>

fun cycle_suffix :: "string \<Rightarrow> string list \<Rightarrow> string list option" where
  "cycle_suffix currentNode [] = None"
| "cycle_suffix currentNode (node # path) =
     (if node = currentNode then Some (node # path) else cycle_suffix currentNode path)"

text \<open>\<open>for node := range currentPathNodes { checkedNodes[node] = true }\<close>\<close>

fun mark_checked :: "(string, bool) go_map \<Rightarrow> (string, bool) go_map \<Rightarrow> (string, bool) go_map" where
  "mark_checked checkedNodes [] = checkedNodes"
| "mark_checked checkedNodes ((node, b) # nodes) =
     mark_checked (AList.update node True checkedNodes) nodes"

text \<open>
  The \<open>for !checkedNodes[currentNode]\<close> loop. The result is the returned slice (\<open>None\<close> for
  Go's \<open>nil\<close>) and the map \<open>checkedNodes\<close> as the call leaves it.
\<close>

partial_function (option) DetectGraphCycle_loop ::
  "(string, string) go_map \<Rightarrow> (string, bool) go_map \<Rightarrow> string list \<Rightarrow> (string, bool) go_map \<Rightarrow> string
   \<Rightarrow> (string list option \<times> (string, bool) go_map) option" where
  "DetectGraphCycle_loop edgeMap checkedNodes currentPath currentPathNodes currentNode =
     (if map_has checkedNodes currentNode
      then Some (None, mark_checked checkedNodes currentPathNodes)
      else
        (case (if map_has currentPathNodes currentNode
               then cycle_suffix currentNode currentPath else None) of
          Some cycle \<Rightarrow> Some (Some cycle, checkedNodes)
        | None \<Rightarrow>
            (let currentPath' = currentPath @ [currentNode];
                 currentPathNodes' = AList.update currentNode True currentPathNodes
             in (case map_of edgeMap currentNode of
                  None \<Rightarrow> Some (None, mark_checked checkedNodes currentPathNodes')
                | Some nextNode \<Rightarrow>
                    DetectGraphCycle_loop edgeMap checkedNodes currentPath' currentPathNodes' nextNode))))"

definition DetectGraphCycle ::
  "string \<Rightarrow> (string, bool) go_map \<Rightarrow> (string, string) go_map
   \<Rightarrow> (string list option \<times> (string, bool) go_map) option" where
  "DetectGraphCycle startNode checkedNodes edgeMap =
     DetectGraphCycle_loop edgeMap checkedNodes [] [] startNode"

section \<open>What the graph is\<close>

text \<open>\<open>chain e p n\<close>: the nodes of \<open>p\<close> follow each other along edges, and the last one's edge goes to \<open>n\<close>.\<close>

fun chain :: "(string, string) go_map \<Rightarrow> string list \<Rightarrow> string \<Rightarrow> bool" where
  "chain e [] n = True"
| "chain e [x] n = (map_of e x = Some n)"
| "chain e (x # y # p) n = (map_of e x = Some y \<and> chain e (y # p) n)"

text \<open>A cycle: a non-empty list of distinct nodes whose last edge goes back to the first one.\<close>

definition is_cycle :: "(string, string) go_map \<Rightarrow> string list \<Rightarrow> bool" where
  "is_cycle e c \<longleftrightarrow> c \<noteq> [] \<and> distinct c \<and> chain e c (hd c)"

text \<open>\<open>ends e n\<close>: following the edges from \<open>n\<close> reaches a node without an outgoing edge.\<close>

inductive ends :: "(string, string) go_map \<Rightarrow> string \<Rightarrow> bool" for e where
  ends_stop: "map_of e n = None \<Longrightarrow> ends e n"
| ends_step: "map_of e n = Some m \<Longrightarrow> ends e m \<Longrightarrow> ends e n"

inductive_cases ends_edgeE: "ends e n"

lemma ends_iff: "ends e n \<longleftrightarrow> (case map_of e n of None \<Rightarrow> True | Some m \<Rightarrow> ends e m)"
  by (auto intro: ends.intros elim: ends_edgeE split: option.splits)

lemma chain_snoc: "chain e (p @ [x]) n \<longleftrightarrow> chain e p x \<and> map_of e x = Some n"
  by (induction e p x rule: chain.induct) auto

lemma chain_ends: "chain e p n \<Longrightarrow> x \<in> set p \<Longrightarrow> ends e x = ends e n"
proof (induction e p n arbitrary: x rule: chain.induct)
  case (2 e x n)
  then show ?case by (simp add: ends_iff)
next
  case (3 e x' y p n)
  have "ends e x' = ends e y"
    using 3 by (subst ends_iff) simp
  with 3 show ?case by auto
qed simp

lemma chain_successor:
  "chain e p n \<Longrightarrow> x \<in> set p \<Longrightarrow> \<exists>y. map_of e x = Some y \<and> (y \<in> set p \<or> y = n)"
  by (induction e p n rule: chain.induct) auto

lemma chain_drop: "chain e (p @ q) n \<Longrightarrow> chain e q n"
proof (induction p)
  case (Cons x p)
  then show ?case by (cases "p @ q") (auto simp: Cons.IH)
qed simp

text \<open>Nothing on a cycle ever ends, by rule induction on \<open>ends\<close>.\<close>

lemma cycle_never_ends:
  assumes "is_cycle e c"
  shows "x \<in> set c \<Longrightarrow> \<not> ends e x"
proof
  assume "x \<in> set c" and "ends e x"
  from \<open>ends e x\<close> \<open>x \<in> set c\<close> show False
  proof (induction rule: ends.induct)
    case (ends_stop n)
    with assms show ?case
      by (auto simp: is_cycle_def dest: chain_successor)
  next
    case (ends_step n m)
    from assms ends_step.prems obtain y where "map_of e n = Some y" and "y \<in> set c"
      by (force simp: is_cycle_def dest: chain_successor)
    with ends_step show ?case by simp
  qed
qed

lemma cycle_suffix_Some:
  "n \<in> set p \<Longrightarrow> \<exists>q r. cycle_suffix n p = Some (n # r) \<and> p = q @ n # r"
proof (induction p)
  case (Cons x p)
  show ?case
  proof (cases "x = n")
    case False
    with Cons obtain q r where "cycle_suffix n p = Some (n # r)" and "p = q @ n # r"
      by auto
    with False have "cycle_suffix n (x # p) = Some (n # r) \<and> x # p = (x # q) @ n # r"
      by simp
    then show ?thesis by blast
  qed auto
qed simp

lemma map_has_mark_checked:
  "map_has (mark_checked ch ns) n \<longleftrightarrow> map_has ch n \<or> n \<in> fst ` set ns"
  by (induction ch ns rule: mark_checked.induct) (auto simp: map_has_def update_conv)

section \<open>The loop's invariant and its result\<close>

text \<open>
  \<open>path_inv\<close>: the path has no repetitions, the set \<open>currentPathNodes\<close> holds exactly its nodes,
  its edges lead to the current node.
\<close>

definition path_inv ::
  "(string, string) go_map \<Rightarrow> string list \<Rightarrow> (string, bool) go_map \<Rightarrow> string \<Rightarrow> bool" where
  "path_inv e path nodes n \<longleftrightarrow>
     distinct path \<and> fst ` set nodes = set path \<and> (\<forall>m. map_has nodes m \<longleftrightarrow> m \<in> set path) \<and>
     chain e path n"

text \<open>\<open>loop_post\<close>: what a returned result says about the node \<open>s\<close> the search started from.\<close>

definition loop_post ::
  "(string, string) go_map \<Rightarrow> (string, bool) go_map \<Rightarrow> string list \<Rightarrow> string
   \<Rightarrow> string list option \<times> (string, bool) go_map \<Rightarrow> bool" where
  "loop_post e ch path n r \<longleftrightarrow>
     (case r of
       (Some c, ch') \<Rightarrow> is_cycle e c \<and> ch' = ch \<and> \<not> ends e n
     | (None, ch') \<Rightarrow>
         (\<forall>m. map_has ch m \<longrightarrow> map_has ch' m) \<and> map_has ch' n \<and> (\<forall>m \<in> set path. map_has ch' m) \<and>
         ((\<forall>m. map_has ch m \<longrightarrow> ends e m) \<longrightarrow> (\<forall>m. map_has ch' m \<longrightarrow> ends e m)))"

lemma path_inv_step:
  assumes "path_inv e path nodes n" and "n \<notin> set path" and "map_of e n = Some m"
  shows "path_inv e (path @ [n]) (AList.update n True nodes) m"
  using assms by (auto simp: path_inv_def chain_snoc map_has_def update_conv dom_update)

lemma path_inv_cycle:
  assumes "path_inv e path nodes n" and "n \<in> set path"
  obtains c where "cycle_suffix n path = Some c" and "is_cycle e c" and "\<not> ends e n"
proof -
  from assms(2) obtain q r where c: "cycle_suffix n path = Some (n # r)" and p: "path = q @ n # r"
    using cycle_suffix_Some by blast
  from assms(1) p have "is_cycle e (n # r)"
    by (auto simp: path_inv_def is_cycle_def dest: chain_drop)
  moreover from this have "\<not> ends e n"
    by (rule cycle_never_ends) simp
  ultimately show thesis
    using c that by blast
qed

lemma loop_post_stop:
  assumes "path_inv e path nodes n" and "map_of e n = None"
  shows "loop_post e ch path n (None, mark_checked ch (AList.update n True nodes))"
proof -
  from assms(2) have "ends e n" by (rule ends_stop)
  with assms(1) have "\<forall>m \<in> set path. ends e m"
    by (auto simp: path_inv_def chain_ends)
  with \<open>ends e n\<close> assms(1) show ?thesis
    by (auto simp: loop_post_def map_has_mark_checked path_inv_def dom_update)
qed

lemma loop_post_checked:
  assumes "path_inv e path nodes n" and "map_has ch n"
  shows "loop_post e ch path n (None, mark_checked ch nodes)"
  using assms by (auto simp: loop_post_def map_has_mark_checked path_inv_def chain_ends)

lemma loop_post_weaken:
  assumes "loop_post e ch (path @ [n]) m r" and "map_of e n = Some m"
  shows "loop_post e ch path n r"
  using assms by (auto simp: loop_post_def ends_iff [of e n] split: prod.splits option.splits)

text \<open>
  The loop returns, and what it returns is right: induction on the number of source nodes that
  are not on the path yet.
\<close>

lemma DetectGraphCycle_loop_spec:
  "path_inv e path nodes n \<Longrightarrow>
   \<exists>r. DetectGraphCycle_loop e ch path nodes n = Some r \<and> loop_post e ch path n r"
proof (induction "card (fst ` set e - set path)" arbitrary: path nodes n rule: less_induct)
  case less
  note unfold = DetectGraphCycle_loop.simps [of e ch path nodes n]
  consider (checked) "map_has ch n"
    | (onpath) "\<not> map_has ch n" "n \<in> set path"
    | (stop) "\<not> map_has ch n" "n \<notin> set path" "map_of e n = None"
    | (step) m where "\<not> map_has ch n" "n \<notin> set path" "map_of e n = Some m"
    by blast
  then show ?case
  proof cases
    case checked
    with less.prems show ?thesis
      by (simp add: unfold loop_post_checked)
  next
    case onpath
    from less.prems onpath(2) obtain c where
      c: "cycle_suffix n path = Some c" "is_cycle e c" "\<not> ends e n"
      by (rule path_inv_cycle)
    moreover from less.prems onpath(2) have "map_has nodes n"
      by (simp add: path_inv_def)
    ultimately show ?thesis
      using onpath by (simp add: unfold loop_post_def)
  next
    case stop
    from less.prems stop(2) have "\<not> map_has nodes n"
      by (simp add: path_inv_def)
    with less.prems stop show ?thesis
      by (simp add: unfold loop_post_stop)
  next
    case step
    from step(3) have "n \<in> fst ` set e"
      by (metis domIff dom_map_of_conv_image_fst option.distinct(1))
    with step(2) have "card (fst ` set e - set (path @ [n])) < card (fst ` set e - set path)"
      by (intro psubset_card_mono) auto
    moreover from less.prems step have "path_inv e (path @ [n]) (AList.update n True nodes) m"
      by (intro path_inv_step)
    ultimately obtain r where
      "DetectGraphCycle_loop e ch (path @ [n]) (AList.update n True nodes) m = Some r"
      "loop_post e ch (path @ [n]) m r"
      using less.hyps by blast
    moreover from less.prems step(2) have "\<not> map_has nodes n"
      by (simp add: path_inv_def)
    ultimately show ?thesis
      using step by (auto simp: unfold Let_def intro: loop_post_weaken)
  qed
qed

lemma path_inv_start: "path_inv e [] [] n"
  by (simp add: path_inv_def)

lemma DetectGraphCycle_spec:
  "\<exists>r. DetectGraphCycle n ch e = Some r \<and> loop_post e ch [] n r"
  unfolding DetectGraphCycle_def by (rule DetectGraphCycle_loop_spec [OF path_inv_start])

lemma DetectGraphCycle_Some:
  "DetectGraphCycle n ch e = Some r \<Longrightarrow> loop_post e ch [] n r"
  using DetectGraphCycle_spec [of n ch e] by auto

section \<open>Properties\<close>

text \<open>
  C36. \<open>DetectGraphCycle\<close> returns for every start node, every set of checked nodes and every edge
  map. When nothing is marked as checked it decides the question exactly: it returns \<open>nil\<close> iff
  following the edges from the start node comes to an end, and otherwise the slice it returns is
  a cycle of the graph (distinct nodes, each edge to the next one, the last edge to the first).
\<close>

theorem DetectGraphCycle_total_correct:
  "\<exists>res checked. DetectGraphCycle startNode [] edgeMap = Some (res, checked) \<and>
     (res = None) = ends edgeMap startNode \<and>
     (case res of None \<Rightarrow> True | Some cycle \<Rightarrow> is_cycle edgeMap cycle)"
proof -
  obtain res checked where r: "DetectGraphCycle startNode [] edgeMap = Some (res, checked)"
    and post: "loop_post edgeMap [] [] startNode (res, checked)"
    using DetectGraphCycle_spec [of startNode "[]" edgeMap] by fastforce
  then show ?thesis
    by (cases res) (auto simp: loop_post_def)
qed

text \<open>
  The memo table is sound: if every node marked as checked really leads to an end, then
  \<open>DetectGraphCycle\<close> gives the same verdict as without the table, it keeps every mark, and after a
  \<open>nil\<close> result every marked node still leads to an end, the start node included.
\<close>

theorem DetectGraphCycle_memo_sound:
  assumes "\<forall>n. map_has checkedNodes n \<longrightarrow> ends edgeMap n"
    and "DetectGraphCycle startNode checkedNodes edgeMap = Some (res, checkedNodes')"
  shows "(res = None) = ends edgeMap startNode \<and>
    (\<forall>n. map_has checkedNodes n \<longrightarrow> map_has checkedNodes' n) \<and>
    (\<forall>n. map_has checkedNodes' n \<longrightarrow> ends edgeMap n) \<and>
    (res = None \<longrightarrow> map_has checkedNodes' startNode)"
  using assms(1) DetectGraphCycle_Some [OF assms(2)]
  by (cases res) (auto simp: loop_post_def)

theorem DetectGraphCycle_memo_sound_witness:
  "ends [(''a'', ''b'')] ''a'' \<and> map_has (mark_checked [(''b'', True)] [(''a'', True)]) ''a''"
proof -
  have chk: "\<forall>n. map_has [(''b'', True)] n \<longrightarrow> ends [(''a'', ''b'')] n"
    by (auto simp: ends_iff [of _ "''b''"])
  have run: "DetectGraphCycle ''a'' [(''b'', True)] [(''a'', ''b'')] =
      Some (None, mark_checked [(''b'', True)] [(''a'', True)])"
    by (simp add: DetectGraphCycle_def DetectGraphCycle_loop.simps)
  show ?thesis
    using DetectGraphCycle_memo_sound [OF chk run] by simp
qed

end
