(* ===== verification/Kind_Webhook.thy ===== *)
theory Kind_Webhook
  imports Graph Redirects Generate Activity
begin

text \<open>
  \<open>internal/webhook/workspacekind_webhook.go\<close>: the admission webhook for WorkspaceKinds. A validation
  returns the list of its field errors; an object is accepted iff that list is empty. Where the Go
  code ranges over a map, the model ranges over the association list of the map: theorems about such
  loops hold for every list, hence for every iteration order.

  The Go functions for imageConfig and podConfig are the same text over two types. The model has one
  definition for each pair, with the accessors as arguments, and two instances. \<open>None\<close> is a run that
  does not return (\<open>DetectGraphCycle\<close> is a partial function until proved total).
\<close>

section \<open>Names, metadata, templates\<close>

definition validateWorkspaceKindName :: "k8s_lib \<Rightarrow> WorkspaceKind \<Rightarrow> field_error list" where
  "validateWorkspaceKindName K workspaceKind =
     map (\<lambda>nameErr. FieldInvalid ''metadata.name'' (wk_Name workspaceKind) nameErr)
       (IsDNS1123Label K (wk_Name workspaceKind))"

definition validateLabelsAndAnnotations :: "k8s_lib \<Rightarrow> str_map \<Rightarrow> str_map \<Rightarrow> string \<Rightarrow> field_error list" where
  "validateLabelsAndAnnotations K labels annotations path =
     ValidateLabels K labels (path_Child path ''labels'') @
     ValidateAnnotations K annotations (path_Child path ''annotations'')"

text \<open>The common body of the validators of an optional metadata pointer.\<close>

definition validateMetadata :: "k8s_lib \<Rightarrow> WorkspaceKindMetadata option \<Rightarrow> string \<Rightarrow> field_error list" where
  "validateMetadata K metadata path =
     (case metadata of
       None \<Rightarrow> []
     | Some m \<Rightarrow> validateLabelsAndAnnotations K (km_Labels m) (km_Annotations m) path)"

definition validatePodTemplatePodMetadata :: "k8s_lib \<Rightarrow> WorkspaceKind \<Rightarrow> field_error list" where
  "validatePodTemplatePodMetadata K workspaceKind =
     validateMetadata K (kpt_PodMetadata (wk_PodTemplate workspaceKind)) ''spec.podTemplate.podMetadata''"

definition validatePodTemplateStatefulSetMetadata :: "k8s_lib \<Rightarrow> WorkspaceKind \<Rightarrow> field_error list" where
  "validatePodTemplateStatefulSetMetadata K workspaceKind =
     validateMetadata K (kpt_StatefulSetMetadata (wk_PodTemplate workspaceKind))
       ''spec.podTemplate.statefulSetMetadata''"

definition getServiceAccountMetadata :: "WorkspaceKind \<Rightarrow> WorkspaceKindMetadata option" where
  "getServiceAccountMetadata workspaceKind =
     (case kpt_ServiceAccount (wk_PodTemplate workspaceKind) of
       None \<Rightarrow> None
     | Some sa \<Rightarrow> ksa_Metadata sa)"

definition validatePodTemplateServiceAccountMetadata :: "k8s_lib \<Rightarrow> WorkspaceKind \<Rightarrow> field_error list" where
  "validatePodTemplateServiceAccountMetadata K workspaceKind =
     validateMetadata K (getServiceAccountMetadata workspaceKind) ''spec.podTemplate.serviceAccount.metadata''"

definition validatePodConfigMetadata :: "k8s_lib \<Rightarrow> PodConfigValue \<Rightarrow> string \<Rightarrow> field_error list" where
  "validatePodConfigMetadata K podConfigValue path =
     validateMetadata K (pcs_PodMetadata (pcv_Spec podConfigValue)) (path @ ''.spec.podMetadata'') @
     validateMetadata K (pcs_StatefulSetMetadata (pcv_Spec podConfigValue)) (path @ ''.spec.statefulSetMetadata'')"

definition dummy_prefix :: "string \<Rightarrow> string" where
  "dummy_prefix portId = ''DUMMY_HTTP_PATH_PREFIX''"

fun validateExtraEnvEntries :: "k8s_lib \<Rightarrow> EnvVar list \<Rightarrow> string \<Rightarrow> field_error list" where
  "validateExtraEnvEntries K [] extraEnvPath = []"
| "validateExtraEnvEntries K (env # extraEnv) extraEnvPath =
     (if ev_Value env \<noteq> []
      then
        (case RenderGoTemplate K (ev_Value env) dummy_prefix of
          Inl err \<Rightarrow> [FieldInvalid (path_Child (path_Key extraEnvPath (ev_Name env)) ''value'') (ev_Value env)
                       (err_Error err)]
        | Inr _ \<Rightarrow> [])
      else []) @ validateExtraEnvEntries K extraEnv extraEnvPath"

definition validateExtraEnv :: "k8s_lib \<Rightarrow> WorkspaceKind \<Rightarrow> field_error list" where
  "validateExtraEnv K workspaceKind =
     validateExtraEnvEntries K (mc_ExtraEnv (kps_MainContainer (kpt_PodSpec (wk_PodTemplate workspaceKind))))
       ''spec.podTemplate.podSpec.mainContainer.extraEnv''"

definition validatePodConfigExtraEnv :: "k8s_lib \<Rightarrow> PodConfigValue \<Rightarrow> string \<Rightarrow> field_error list" where
  "validatePodConfigExtraEnv K podConfigValue path =
     validateExtraEnvEntries K (pcs_ExtraEnv (pcv_Spec podConfigValue)) (path @ ''.spec.extraEnv'')"

fun validate_headers_loop :: "k8s_lib \<Rightarrow> string \<Rightarrow> str_map \<Rightarrow> field_error list" where
  "validate_headers_loop K path [] = []"
| "validate_headers_loop K path ((k, v) # headers) =
     (case RenderGoTemplate K v dummy_prefix of
       Inl err \<Rightarrow> [FieldInvalid (path_Key path k) v (err_Error err)]
     | Inr _ \<Rightarrow> []) @ validate_headers_loop K path headers"

fun validate_ports_headers :: "k8s_lib \<Rightarrow> nat \<Rightarrow> WorkspaceKindPort list \<Rightarrow> field_error list" where
  "validate_ports_headers K i [] = []"
| "validate_ports_headers K i (port # ports) =
     (case Option.bind (kp_HTTPProxy port) hp_RequestHeaders of
       None \<Rightarrow> []
     | Some headers \<Rightarrow>
         (let headersPath = path_Index ''spec.podTemplate.ports'' i @ ''.httpProxy.requestHeaders''
          in (case iho_Set headers of None \<Rightarrow> []
              | Some hs \<Rightarrow> validate_headers_loop K (path_Child headersPath ''set'') hs) @
             (case iho_Add headers of None \<Rightarrow> []
              | Some hs \<Rightarrow> validate_headers_loop K (path_Child headersPath ''add'') hs))) @
     validate_ports_headers K (Suc i) ports"

definition validateRequestHeaders :: "k8s_lib \<Rightarrow> WorkspaceKind \<Rightarrow> field_error list" where
  "validateRequestHeaders K workspaceKind =
     validate_ports_headers K 0 (kpt_Ports (wk_PodTemplate workspaceKind))"

section \<open>Filter rules\<close>

definition filter_rule_has_effect :: "FilterRuleEffect \<Rightarrow> bool" where
  "filter_rule_has_effect effect =
     (let hasUIEffect = (case fre_UI effect of None \<Rightarrow> False | Some ui \<Rightarrow> fru_Hide ui);
          hasAPIEffect = (case fre_API effect of None \<Rightarrow> False
            | Some api \<Rightarrow> ptr_Deref (fra_Hide api) False \<or> ptr_Deref (fra_Deny api) False)
      in hasUIEffect \<or> hasAPIEffect)"

fun validate_filter_matches ::
  "k8s_lib \<Rightarrow> FilterRuleScope \<Rightarrow> string \<Rightarrow> nat \<Rightarrow> FilterRuleMatch list \<Rightarrow> field_error list" where
  "validate_filter_matches K scope matchPath j [] = []"
| "validate_filter_matches K scope matchPath j (match # matches) =
     (let conditionPath = path_Index matchPath j
      in (case frm_MatchNamespace match of None \<Rightarrow> []
          | Some s \<Rightarrow> ValidateLabelSelector K s (conditionPath @ ''.matchNamespace.selector'')) @
         (case frm_MatchImageConfig match of None \<Rightarrow> []
          | Some s \<Rightarrow>
              (if scope = FilterRuleScopeWorkspaceKind
               then [FieldInvalid (path_Child conditionPath ''matchImageConfig'') []
                      (CHR 0x27 # ''matchImageConfig'' @ CHR 0x27 # '' is only valid when '' @
                       CHR 0x27 # ''scope'' @ CHR 0x27 # '' is '' @ CHR 0x27 # ''POD_CONFIG'' @ CHR 0x27 # '' or '' @
                       CHR 0x27 # ''IMAGE_CONFIG'' @ [CHR 0x27])]
               else []) @
              ValidateLabelSelector K s (conditionPath @ ''.matchImageConfig.selector'')) @
         (case frm_MatchPodConfig match of None \<Rightarrow> []
          | Some s \<Rightarrow>
              (if scope = FilterRuleScopeWorkspaceKind
               then [FieldInvalid (path_Child conditionPath ''matchPodConfig'') []
                      (CHR 0x27 # ''matchPodConfig'' @ CHR 0x27 # '' is only valid when '' @
                       CHR 0x27 # ''scope'' @ CHR 0x27 # '' is '' @ CHR 0x27 # ''POD_CONFIG'' @ CHR 0x27 # '' or '' @
                       CHR 0x27 # ''IMAGE_CONFIG'' @ [CHR 0x27])]
               else []) @
              ValidateLabelSelector K s (conditionPath @ ''.matchPodConfig.selector''))) @
     validate_filter_matches K scope matchPath (Suc j) matches"

fun validate_filter_rules_loop :: "k8s_lib \<Rightarrow> nat \<Rightarrow> FilterRule list \<Rightarrow> field_error list" where
  "validate_filter_rules_loop K i [] = []"
| "validate_filter_rules_loop K i (rule # rules) =
     (let rulePath = path_Index ''spec.filterRules'' i
      in (if \<not> filter_rule_has_effect (fr_Effect rule)
          then [FieldInvalid (path_Child rulePath ''effect'') []
                 (''must specify at least one effect: one of '' @ CHR 0x27 # ''ui.hide'' @ CHR 0x27 # '', '' @
                  CHR 0x27 # ''api.hide'' @ CHR 0x27 # '', or '' @ CHR 0x27 # ''api.deny'' @ CHR 0x27 # '' must be true'')]
          else []) @
         validate_filter_matches K (fr_Scope rule) (path_Child rulePath ''match'') 0 (fr_Match rule)) @
     validate_filter_rules_loop K (Suc i) rules"

definition validateFilterRules :: "k8s_lib \<Rightarrow> WorkspaceKind \<Rightarrow> field_error list" where
  "validateFilterRules K workspaceKind = validate_filter_rules_loop K 0 (wks_FilterRules (wk_Spec workspaceKind))"

section \<open>Options: defaults, ports, redirects\<close>

definition option_value_path :: "string \<Rightarrow> string \<Rightarrow> string" where
  "option_value_path what i = path_Key (''spec.podTemplate.options.'' @ what @ ''.values'') i"

definition validateDefaultOption :: "string \<Rightarrow> string \<Rightarrow> (string, 'v) go_map \<Rightarrow> field_error list" where
  "validateDefaultOption what def valueMap =
     (case map_of valueMap def of
       Some _ \<Rightarrow> []
     | None \<Rightarrow> [FieldInvalid (''spec.podTemplate.options.'' @ what @ ''.spawner.default'') def
                 (''default '' @ what @ '' '' @ go_quote def @ '' not found'')])"

definition validateDefaultImageConfig :: "WorkspaceKind \<Rightarrow> (string, ImageConfigValue) go_map \<Rightarrow> field_error list" where
  "validateDefaultImageConfig workspaceKind m =
     validateDefaultOption ''imageConfig'' (ic_Default (kpt_ImageConfig (wk_PodTemplate workspaceKind))) m"

definition validateDefaultPodConfig :: "WorkspaceKind \<Rightarrow> (string, PodConfigValue) go_map \<Rightarrow> field_error list" where
  "validateDefaultPodConfig workspaceKind m =
     validateDefaultOption ''podConfig'' (pcf_Default (kpt_PodConfig (wk_PodTemplate workspaceKind))) m"

fun validate_image_ports_loop ::
  "string \<Rightarrow> (string, WorkspaceKindPort) go_map \<Rightarrow> ImagePort list \<Rightarrow> (int, bool) go_map \<Rightarrow> field_error list" where
  "validate_image_ports_loop path podTemplatePortsIdMap [] seenPorts = []"
| "validate_image_ports_loop path podTemplatePortsIdMap (port # ports) seenPorts =
     (if map_of seenPorts (ip_Port port) \<noteq> None
      then [FieldInvalid (path_Child (path_Key (path @ ''.spec.ports'') (ip_Id port)) ''port'') (go_itoa (ip_Port port))
             (''port '' @ go_itoa (ip_Port port) @ '' is defined more than once'')]
      else []) @
     (case map_of podTemplatePortsIdMap (ip_Id port) of
       None \<Rightarrow> [FieldInvalid (path_Child (path_Key (path @ ''.spec.ports'') (ip_Id port)) ''id'') (ip_Id port)
                 ''missing from spec.podTemplate.ports'']
     | Some podTemplatePort \<Rightarrow> []) @
     validate_image_ports_loop path podTemplatePortsIdMap ports (AList.update (ip_Port port) True seenPorts)"

definition validateImageConfigValue ::
  "ImageConfigValue \<Rightarrow> string \<Rightarrow> (string, WorkspaceKindPort) go_map \<Rightarrow> field_error list" where
  "validateImageConfigValue imageConfigValue path podTemplatePortsIdMap =
     validate_image_ports_loop path podTemplatePortsIdMap (ics_Ports (icv_Spec imageConfigValue)) []"

text \<open>The loop over the redirect map; \<open>break\<close> on a cycle ends it.\<close>

fun validate_redirects_loop ::
  "string \<Rightarrow> (string, 'v) go_map \<Rightarrow> (string, string) go_map \<Rightarrow> (string, string) go_map \<Rightarrow> (string, bool) go_map
   \<Rightarrow> field_error list option" where
  "validate_redirects_loop what idMap redirectMap [] checkedNodes = Some []"
| "validate_redirects_loop what idMap redirectMap ((i, redirectTo) # entries) checkedNodes =
     (let redirectToPath = option_value_path what i @ ''.redirect.to''
      in case DetectGraphCycle i checkedNodes redirectMap of
           None \<Rightarrow> None
         | Some (Some cycle, checkedNodes) \<Rightarrow>
             Some [FieldInvalid redirectToPath redirectTo
                    (what @ '' redirect cycle detected: '' @ fmt_slice cycle)]
         | Some (None, checkedNodes) \<Rightarrow>
             map_option (\<lambda>errs.
                 (if map_of idMap redirectTo = None
                  then [FieldInvalid redirectToPath redirectTo
                         (''target '' @ what @ '' '' @ go_quote redirectTo @ '' does not exist'')]
                  else []) @ errs)
               (validate_redirects_loop what idMap redirectMap entries checkedNodes))"

definition validateImageConfigRedirects ::
  "(string, ImageConfigValue) go_map \<Rightarrow> (string, string) go_map \<Rightarrow> field_error list option" where
  "validateImageConfigRedirects imageConfigIdMap imageConfigRedirectMap =
     validate_redirects_loop ''imageConfig'' imageConfigIdMap imageConfigRedirectMap imageConfigRedirectMap []"

definition validatePodConfigRedirects ::
  "(string, PodConfigValue) go_map \<Rightarrow> (string, string) go_map \<Rightarrow> field_error list option" where
  "validatePodConfigRedirects podConfigIdMap podConfigRedirectMap =
     validate_redirects_loop ''podConfig'' podConfigIdMap podConfigRedirectMap podConfigRedirectMap []"

section \<open>Activity probe and rules\<close>

text \<open>
  The regular expression \<open>^#![ \t]*([^ \t]+)(?:[ \t]+.+)?$\<close> on a line: after \<open>#!\<close> and blanks comes an
  interpreter without blanks, and what follows it, if anything, is at least a blank and one more
  character.
\<close>

definition is_blank :: "char \<Rightarrow> bool" where
  "is_blank c \<longleftrightarrow> c = CHR '' '' \<or> c = CHR 0x09"

definition shebangRegex_MatchString :: "string \<Rightarrow> bool" where
  "shebangRegex_MatchString s =
     (if take 2 s \<noteq> ''#!'' then False
      else
        (let r = dropWhile is_blank (drop 2 s);
             rest = dropWhile (\<lambda>c. \<not> is_blank c) r
         in r \<noteq> [] \<and> (rest = [] \<or> 2 \<le> length rest)))"

definition first_line :: "string \<Rightarrow> string" where
  "first_line script = takeWhile (\<lambda>c. c \<noteq> CHR 0x0D \<and> c \<noteq> CHR 0x0A) script"

definition validateActivityProbe :: "ActivityProbe option \<Rightarrow> string \<Rightarrow> field_error list" where
  "validateActivityProbe activityProbe path =
     (case activityProbe of
       None \<Rightarrow> []
     | Some probe \<Rightarrow>
         (let script = pe_Script (ap_PodExec probe);
              shebangLine = first_line script
          in if \<not> shebangRegex_MatchString shebangLine
             then [FieldInvalid (path @ ''.podExec.script'') script
                    (''script shebang is invalid (e.g., '' @ CHR 0x27 # ''#!/bin/bash'' @ CHR 0x27 # '')'')]
             else if 255 < length shebangLine
             then [FieldInvalid (path @ ''.podExec.script'') script ''shebang line exceeds the 255 character limit'']
             else []))"

fun validate_activity_matches :: "k8s_lib \<Rightarrow> string \<Rightarrow> nat \<Rightarrow> ActivityRuleMatch list \<Rightarrow> field_error list" where
  "validate_activity_matches K matchPath j [] = []"
| "validate_activity_matches K matchPath j (match # matches) =
     (case arm_MatchNamespace match of None \<Rightarrow> []
      | Some s \<Rightarrow> ValidateLabelSelector K s (path_Index matchPath j @ ''.matchNamespace.selector'')) @
     (case arm_MatchPodConfig match of None \<Rightarrow> []
      | Some s \<Rightarrow> ValidateLabelSelector K s (path_Index matchPath j @ ''.matchPodConfig.selector'')) @
     validate_activity_matches K matchPath (Suc j) matches"

text \<open>The state of the rule loop: \<open>hasPauseWorkspaceRule\<close>, \<open>hasCatchAllPauseWorkspace\<close>, errors, warnings.\<close>

fun validate_activity_rules_loop ::
  "k8s_lib \<Rightarrow> int \<Rightarrow> nat \<Rightarrow> ActivityRule list \<Rightarrow> bool \<Rightarrow> bool \<Rightarrow> field_error list \<Rightarrow> string list
   \<Rightarrow> bool \<times> field_error list \<times> string list" where
  "validate_activity_rules_loop K probeIntervalSeconds i [] hasPause hasCatchAll errs warnings =
     (hasPause, errs, warnings)"
| "validate_activity_rules_loop K probeIntervalSeconds i (rule # rules) hasPause hasCatchAll errs warnings =
     (let rulePath = path_Index ''spec.activityRules'' i;
          matchPath = path_Child rulePath ''match'';
          errs = errs @ validate_activity_matches K matchPath 0 (ar_Match rule);
          isEmpty = (length (ar_Match rule) = 0);
          (hasPause, hasCatchAll, errs) =
            (case are_PauseWorkspace (ar_Effect rule) of
              None \<Rightarrow> (hasPause, hasCatchAll, errs)
            | Some pause \<Rightarrow>
                (let hasPause = (if pause then True else hasPause)
                 in if isEmpty
                    then
                      (hasPause, True,
                       errs @
                       (if hasCatchAll
                        then [FieldInvalid matchPath ''[]''
                               ''at most one catch-all (empty match) rule is allowed for pauseWorkspace effect'']
                        else []) @
                       (if list_ex (\<lambda>r. are_PauseWorkspace (ar_Effect r) \<noteq> None) rules
                        then [FieldInvalid matchPath ''[]''
                               ''catch-all (empty match) rule must be the last rule configuring the pauseWorkspace effect'']
                        else []))
                    else (hasPause, hasCatchAll, errs)));
          warnings =
            (if are_PauseWorkspace (ar_Effect rule) = Some True \<and>
                arc_SecondsSinceActive (ar_Config rule) < 2 * probeIntervalSeconds
             then warnings @
               [''spec.activityRules['' @ nat_digits i @ ''].config.secondsSinceActive ('' @
                go_itoa (arc_SecondsSinceActive (ar_Config rule)) @
                '') is less than twice the probeIntervalSeconds ('' @ go_itoa probeIntervalSeconds @
                ''). This may cause Workspaces to be paused too quickly or prematurely.'']
             else warnings)
      in validate_activity_rules_loop K probeIntervalSeconds (Suc i) rules hasPause hasCatchAll errs warnings)"

definition validateActivityRules :: "k8s_lib \<Rightarrow> WorkspaceKind \<Rightarrow> field_error list \<times> string list" where
  "validateActivityRules K workspaceKind =
     (let rules = wks_ActivityRules (wk_Spec workspaceKind)
      in if length rules = 0 then ([], [])
         else
           (let probe = kpt_ActivityProbe (wk_PodTemplate workspaceKind);
                probeIntervalSeconds =
                  (case Option.bind probe ap_ProbeIntervalSeconds of
                    None \<Rightarrow> DefaultProbeIntervalSeconds
                  | Some s \<Rightarrow> s);
                (hasPauseWorkspaceRule, errs, warnings) =
                  validate_activity_rules_loop K probeIntervalSeconds 0 rules False False [] [];
                errs =
                  (if hasPauseWorkspaceRule \<and> probe = None
                   then errs @ [FieldRequired ''spec.podTemplate.activityProbe''
                      ''activityProbe must be configured when activityRules with pauseWorkspace effect exist'']
                   else errs)
            in (errs, warnings)))"

section \<open>Create\<close>

text \<open>\<open>if value.Redirect != nil { redirectMap[value.Id] = value.Redirect.To }\<close>\<close>

fun redirect_map ::
  "('v \<Rightarrow> string) \<Rightarrow> ('v \<Rightarrow> OptionRedirect option) \<Rightarrow> 'v list \<Rightarrow> (string, string) go_map \<Rightarrow> (string, string) go_map" where
  "redirect_map idOf redirectOf [] m = m"
| "redirect_map idOf redirectOf (v # vs) m =
     redirect_map idOf redirectOf vs
       (case redirectOf v of None \<Rightarrow> m | Some r \<Rightarrow> AList.update (idOf v) (redir_To r) m)"

definition image_values_errors ::
  "(string, WorkspaceKindPort) go_map \<Rightarrow> (string \<times> ImageConfigValue) list \<Rightarrow> field_error list" where
  "image_values_errors ports values =
     concat (map (\<lambda>(i, v). validateImageConfigValue v (option_value_path ''imageConfig'' i) ports) values)"

definition pod_values_errors :: "k8s_lib \<Rightarrow> (string \<times> PodConfigValue) list \<Rightarrow> field_error list" where
  "pod_values_errors K values =
     concat (map (\<lambda>(i, v). validatePodConfigMetadata K v (option_value_path ''podConfig'' i) @
                            validatePodConfigExtraEnv K v (option_value_path ''podConfig'' i)) values)"

text \<open>\<open>apierrors.NewInvalid\<close> carries the error list; the object is accepted iff the list is empty.\<close>

definition WorkspaceKind_ValidateCreate :: "k8s_lib \<Rightarrow> WorkspaceKind \<Rightarrow> (string list \<times> field_error list) option" where
  "WorkspaceKind_ValidateCreate K workspaceKind =
     (let allErrs =
            validateWorkspaceKindName K workspaceKind @
            validatePodTemplatePodMetadata K workspaceKind @
            validatePodTemplateStatefulSetMetadata K workspaceKind @
            validatePodTemplateServiceAccountMetadata K workspaceKind @
            validateExtraEnv K workspaceKind @
            validateRequestHeaders K workspaceKind @
            validateFilterRules K workspaceKind;
          imageConfigIdMap = index_by icv_Id (wk_ImageConfigValues workspaceKind) [];
          imageConfigRedirectMap = redirect_map icv_Id icv_Redirect (wk_ImageConfigValues workspaceKind) [];
          podConfigIdMap = index_by pcv_Id (wk_PodConfigValues workspaceKind) [];
          podConfigRedirectMap = redirect_map pcv_Id pcv_Redirect (wk_PodConfigValues workspaceKind) [];
          podTemplatePortsIdMap = index_by kp_Id (kpt_Ports (wk_PodTemplate workspaceKind)) [];
          allErrs = allErrs @
            validateActivityProbe (kpt_ActivityProbe (wk_PodTemplate workspaceKind)) ''spec.podTemplate.activityProbe'' @
            validateDefaultImageConfig workspaceKind imageConfigIdMap @
            validateDefaultPodConfig workspaceKind podConfigIdMap @
            image_values_errors podTemplatePortsIdMap imageConfigIdMap @
            pod_values_errors K podConfigIdMap
      in case validateImageConfigRedirects imageConfigIdMap imageConfigRedirectMap of
           None \<Rightarrow> None
         | Some imageErrs \<Rightarrow>
             (case validatePodConfigRedirects podConfigIdMap podConfigRedirectMap of
               None \<Rightarrow> None
             | Some podErrs \<Rightarrow>
                 (let (rulesErrs, rulesWarnings) = validateActivityRules K workspaceKind
                  in Some (rulesWarnings, allErrs @ imageErrs @ podErrs @ rulesErrs))))"

section \<open>Update\<close>

text \<open>\<open>imageConfigUsageCount[x]++\<close> on \<open>map[string]int32\<close>.\<close>

definition count_inc :: "string \<Rightarrow> (string, int) go_map \<Rightarrow> (string, int) go_map" where
  "count_inc k m = AList.update k (wrap32 ((case map_of m k of None \<Rightarrow> 0 | Some c \<Rightarrow> c) + 1)) m"

definition usage_counts ::
  "('v \<Rightarrow> string) \<Rightarrow> (Workspace \<Rightarrow> string) \<Rightarrow> 'v list \<Rightarrow> Workspace list \<Rightarrow> (string, int) go_map" where
  "usage_counts idOf optionOf values workspaces =
     fold (\<lambda>ws m. count_inc (optionOf ws) m) workspaces
       (fold (\<lambda>v m. AList.update (idOf v) 0 m) values [])"

text \<open>\<open>listByKind\<close> is the client's \<open>List\<close> of Workspaces by the index on \<open>.spec.kind\<close>.\<close>

definition getOptionsUsageCounts ::
  "(string \<Rightarrow> go_error + Workspace list) \<Rightarrow> WorkspaceKind \<Rightarrow> go_error + (string, int) go_map \<times> (string, int) go_map" where
  "getOptionsUsageCounts listByKind workspaceKind =
     (case listByKind (wk_Name workspaceKind) of
       Inl err \<Rightarrow> Inl err
     | Inr workspaces \<Rightarrow>
         Inr (usage_counts icv_Id (\<lambda>ws. wpo_ImageConfig (w_Options ws)) (wk_ImageConfigValues workspaceKind) workspaces,
              usage_counts pcv_Id (\<lambda>ws. wpo_PodConfig (w_Options ws)) (wk_PodConfigValues workspaceKind) workspaces))"

definition usage_lookup :: "string \<Rightarrow> (string, int) go_map \<Rightarrow> string \<Rightarrow> go_error + int" where
  "usage_lookup what counts i =
     (case map_of counts i of
       None \<Rightarrow> Inl (ErrOther (''unknown '' @ what @ '' id''))
     | Some count \<Rightarrow> Inr count)"

definition getLazyOptionUsageCountFuncs ::
  "(string \<Rightarrow> go_error + Workspace list) \<Rightarrow> WorkspaceKind \<Rightarrow> (string \<Rightarrow> go_error + int) \<times> (string \<Rightarrow> go_error + int)" where
  "getLazyOptionUsageCountFuncs listByKind workspaceKind =
     (let lazyGetOptionsUsageCounts = getOptionsUsageCounts listByKind workspaceKind
      in (\<lambda>i. case lazyGetOptionsUsageCounts of Inl err \<Rightarrow> Inl err
              | Inr (imageCounts, podCounts) \<Rightarrow> usage_lookup ''imageConfig'' imageCounts i,
          \<lambda>i. case lazyGetOptionsUsageCounts of Inl err \<Rightarrow> Inl err
              | Inr (imageCounts, podCounts) \<Rightarrow> usage_lookup ''podConfig'' podCounts i))"

record option_changes =
  oc_validateRedirects :: bool
  oc_toValidate :: "(string, bool) go_map"
  oc_badChanged :: "(string, bool) go_map"
  oc_badRemoved :: "(string, bool) go_map"

definition usage_error :: "string \<Rightarrow> string \<Rightarrow> go_error \<Rightarrow> go_error" where
  "usage_error what i err = ErrOther (''failed to get usage count for '' @ what @ '' with id '' @ go_quote i @ '': '' @ err_Error err)"

fun changed_options_loop ::
  "string \<Rightarrow> ('v \<Rightarrow> string) \<Rightarrow> ('v \<Rightarrow> 'v \<Rightarrow> bool) \<Rightarrow> ('v \<Rightarrow> 'v \<Rightarrow> bool) \<Rightarrow> bool \<Rightarrow> (string \<Rightarrow> go_error + int)
   \<Rightarrow> (string, 'v) go_map \<Rightarrow> 'v list \<Rightarrow> option_changes \<Rightarrow> go_error + option_changes" where
  "changed_options_loop what idOf eqRedirect eqSpec validateAll usageCount oldIdMap [] st = Inr st"
| "changed_options_loop what idOf eqRedirect eqSpec validateAll usageCount oldIdMap (v # vs) st =
     (let st = (if validateAll then st\<lparr>oc_toValidate := AList.update (idOf v) True (oc_toValidate st)\<rparr> else st)
      in case map_of oldIdMap (idOf v) of
           None \<Rightarrow>
             changed_options_loop what idOf eqRedirect eqSpec validateAll usageCount oldIdMap vs
               (st\<lparr>oc_toValidate := AList.update (idOf v) True (oc_toValidate st), oc_validateRedirects := True\<rparr>)
         | Some old \<Rightarrow>
             (let st = (if \<not> oc_validateRedirects st \<and> \<not> eqRedirect old v
                        then st\<lparr>oc_validateRedirects := True\<rparr> else st)
              in if \<not> eqSpec old v
                 then
                   (let st = st\<lparr>oc_toValidate := AList.update (idOf v) True (oc_toValidate st)\<rparr>
                    in case usageCount (idOf v) of
                         Inl err \<Rightarrow> Inl (usage_error what (idOf v) err)
                       | Inr count \<Rightarrow>
                           changed_options_loop what idOf eqRedirect eqSpec validateAll usageCount oldIdMap vs
                             (if 0 < count
                              then st\<lparr>oc_badChanged := AList.update (idOf v) True (oc_badChanged st)\<rparr> else st))
                 else changed_options_loop what idOf eqRedirect eqSpec validateAll usageCount oldIdMap vs st))"

fun removed_options_loop ::
  "string \<Rightarrow> (string \<Rightarrow> go_error + int) \<Rightarrow> (string, 'v) go_map \<Rightarrow> string list \<Rightarrow> option_changes
   \<Rightarrow> go_error + option_changes" where
  "removed_options_loop what usageCount newIdMap [] st = Inr st"
| "removed_options_loop what usageCount newIdMap (i # is) st =
     (if map_of newIdMap i = None
      then
        (case usageCount i of
          Inl err \<Rightarrow> Inl (usage_error what i err)
        | Inr count \<Rightarrow>
            removed_options_loop what usageCount newIdMap is
              ((if 0 < count then st\<lparr>oc_badRemoved := AList.update i True (oc_badRemoved st)\<rparr> else st)
                 \<lparr>oc_validateRedirects := True\<rparr>))
      else removed_options_loop what usageCount newIdMap is st)"

definition option_changes_empty :: option_changes where
  "option_changes_empty =
     \<lparr>oc_validateRedirects = False, oc_toValidate = [], oc_badChanged = [], oc_badRemoved = []\<rparr>"

definition calculate_option_changes ::
  "string \<Rightarrow> ('v \<Rightarrow> string) \<Rightarrow> ('v \<Rightarrow> 'v \<Rightarrow> bool) \<Rightarrow> ('v \<Rightarrow> 'v \<Rightarrow> bool) \<Rightarrow> bool \<Rightarrow> (string \<Rightarrow> go_error + int)
   \<Rightarrow> 'v list \<Rightarrow> 'v list \<Rightarrow> go_error + option_changes" where
  "calculate_option_changes what idOf eqRedirect eqSpec validateAll usageCount oldValues newValues =
     (let oldIdMap = index_by idOf oldValues []; newIdMap = index_by idOf newValues []
      in case changed_options_loop what idOf eqRedirect eqSpec validateAll usageCount oldIdMap newValues
                option_changes_empty of
           Inl err \<Rightarrow> Inl err
         | Inr st \<Rightarrow> removed_options_loop what usageCount newIdMap (map fst oldIdMap) st)"

definition bad_option_errors :: "string \<Rightarrow> option_changes \<Rightarrow> field_error list" where
  "bad_option_errors what st =
     map (\<lambda>(i, _). FieldInvalid (option_value_path what i) i
            (what @ '' value '' @ go_quote i @ '' is in use and cannot be changed'')) (oc_badChanged st) @
     map (\<lambda>(i, _). FieldInvalid (option_value_path what i) i
            (what @ '' value '' @ go_quote i @ '' is in use and cannot be removed'')) (oc_badRemoved st)"

text \<open>
  \<open>for id := range toValidate { value := newIdMap[id]; ... }\<close>. Every id in \<open>toValidate\<close> is a key of the
  new id map, so the zero value of a missing key never arises.
\<close>

definition select_values :: "(string, bool) go_map \<Rightarrow> (string, 'v) go_map \<Rightarrow> (string \<times> 'v) list" where
  "select_values toValidate newIdMap =
     concat (map (\<lambda>(i, _). case map_of newIdMap i of None \<Rightarrow> [] | Some v \<Rightarrow> [(i, v)]) toValidate)"

definition WorkspaceKind_ValidateUpdate ::
  "k8s_lib \<Rightarrow> (string \<Rightarrow> go_error + Workspace list) \<Rightarrow> WorkspaceKind \<Rightarrow> WorkspaceKind
   \<Rightarrow> (go_error + string list \<times> field_error list) option" where
  "WorkspaceKind_ValidateUpdate K listByKind old new =
     (let (getImageConfigUsageCount, getPodConfigUsageCount) = getLazyOptionUsageCountFuncs listByKind old;
          oldT = wk_PodTemplate old; newT = wk_PodTemplate new;
          portsChanged = (\<not> eq_KindPorts K (kpt_Ports newT) (kpt_Ports oldT));
          probeChanged = (\<not> eq_ActivityProbe K (kpt_ActivityProbe newT) (kpt_ActivityProbe oldT));
          allErrs =
            (if \<not> eq_KindMetadata K (kpt_PodMetadata newT) (kpt_PodMetadata oldT)
             then validatePodTemplatePodMetadata K new else []) @
            (if \<not> eq_KindMetadata K (kpt_StatefulSetMetadata newT) (kpt_StatefulSetMetadata oldT)
             then validatePodTemplateStatefulSetMetadata K new else []) @
            (if \<not> eq_KindMetadata K (getServiceAccountMetadata new) (getServiceAccountMetadata old)
             then validatePodTemplateServiceAccountMetadata K new else []) @
            (if \<not> eq_EnvVars K (mc_ExtraEnv (kps_MainContainer (kpt_PodSpec newT)))
                    (mc_ExtraEnv (kps_MainContainer (kpt_PodSpec oldT)))
             then validateExtraEnv K new else []) @
            (if portsChanged then validateRequestHeaders K new else []) @
            (if \<not> eq_FilterRules K (wks_FilterRules (wk_Spec new)) (wks_FilterRules (wk_Spec old))
             then validateFilterRules K new else []) @
            (if probeChanged
             then validateActivityProbe (kpt_ActivityProbe newT) ''spec.podTemplate.activityProbe'' else []);
          (rulesErrs, warnings) =
            (if \<not> eq_ActivityRules K (wks_ActivityRules (wk_Spec new)) (wks_ActivityRules (wk_Spec old)) \<or> probeChanged
             then validateActivityRules K new else ([], []));
          allErrs = allErrs @ rulesErrs
      in case calculate_option_changes ''imageConfig'' icv_Id
                (\<lambda>a b. eq_Redirect K (icv_Redirect a) (icv_Redirect b))
                (\<lambda>a b. eq_ImageConfigSpec K (icv_Spec a) (icv_Spec b))
                portsChanged getImageConfigUsageCount (wk_ImageConfigValues old) (wk_ImageConfigValues new) of
           Inl err \<Rightarrow> Some (Inl err)
         | Inr imageChanges \<Rightarrow>
             (case calculate_option_changes ''podConfig'' pcv_Id
                     (\<lambda>a b. eq_Redirect K (pcv_Redirect a) (pcv_Redirect b))
                     (\<lambda>a b. eq_PodConfigSpec K (pcv_Spec a) (pcv_Spec b))
                     False getPodConfigUsageCount (wk_PodConfigValues old) (wk_PodConfigValues new) of
               Inl err \<Rightarrow> Some (Inl err)
             | Inr podChanges \<Rightarrow>
                 (let newImageConfigIdMap = index_by icv_Id (wk_ImageConfigValues new) [];
                      newPodConfigIdMap = index_by pcv_Id (wk_PodConfigValues new) [];
                      podTemplatePortsIdMap = index_by kp_Id (kpt_Ports newT) [];
                      allErrs = allErrs @
                        validateDefaultImageConfig new newImageConfigIdMap @
                        validateDefaultPodConfig new newPodConfigIdMap @
                        image_values_errors podTemplatePortsIdMap
                          (select_values (oc_toValidate imageChanges) newImageConfigIdMap) @
                        pod_values_errors K (select_values (oc_toValidate podChanges) newPodConfigIdMap) @
                        bad_option_errors ''imageConfig'' imageChanges @
                        bad_option_errors ''podConfig'' podChanges
                  in case (if oc_validateRedirects imageChanges
                           then validateImageConfigRedirects newImageConfigIdMap
                                  (redirect_map icv_Id icv_Redirect (wk_ImageConfigValues new) [])
                           else Some []) of
                       None \<Rightarrow> None
                     | Some imageErrs \<Rightarrow>
                         (case (if oc_validateRedirects podChanges
                                then validatePodConfigRedirects newPodConfigIdMap
                                       (redirect_map pcv_Id pcv_Redirect (wk_PodConfigValues new) [])
                                else Some []) of
                           None \<Rightarrow> None
                         | Some podErrs \<Rightarrow> Some (Inr (warnings, allErrs @ imageErrs @ podErrs))))))"

section \<open>Delete\<close>

definition WorkspaceKindFinalizer :: string where
  "WorkspaceKindFinalizer = ''workspaces.kubeflow.org/workspacekind-protection''"

text \<open>The refusals are conflicts; the text of \<open>causes\<close> is the message kept here.\<close>

definition WorkspaceKind_ValidateDelete :: "WorkspaceKind \<Rightarrow> go_error option" where
  "WorkspaceKind_ValidateDelete workspaceKind =
     (if 0 < wkst_Workspaces (wk_Status workspaceKind)
      then Some (ErrConflict (''WorkspaceKind is used by '' @ go_itoa (wkst_Workspaces (wk_Status workspaceKind)) @
                              '' workspace(s)''))
      else if WorkspaceKindFinalizer \<in> set (om_Finalizers (wk_Meta workspaceKind))
      then Some (ErrConflict
             ''WorkspaceKind has protection finalizer, indicating one or more workspaces are still using it'')
      else None)"

end
