(* ===== verification/Reconcile.thy ===== *)
theory Reconcile
  imports Client Redirects Copy_Fields Owner_Index Generate Kind_Webhook
begin

text \<open>
  \<open>Reconcile\<close> of \<open>internal/controller/workspace_controller.go\<close> with everything it calls. The Go method is one
  long sequence; the model has one definition for each of its sections, composed in its order. The
  sections for ServiceAccount, StatefulSet, Service and VirtualService are the same text over four
  types: the model has one definition, \<open>reconcile_owned\<close>, and four instances.
\<close>

section \<open>Updating the state\<close>

definition updateWorkspaceState ::
  "'s client \<Rightarrow> Workspace option \<Rightarrow> WorkspaceState \<Rightarrow> string \<Rightarrow> ('s, Result \<times> go_error option) act" where
  "updateWorkspaceState C workspace state message =
     (case workspace of
       None \<Rightarrow> act_return (Result_zero, Some (ErrOther ''provided Workspace was nil''))
     | Some workspace \<Rightarrow>
         if st_State (w_Status workspace) \<noteq> state \<or> st_StateMessage (w_Status workspace) \<noteq> message
         then
           (let workspace = workspace\<lparr>w_Status := (w_Status workspace)
                  \<lparr>st_State := state, st_StateMessage := message\<rparr>\<rparr>
            in act_bind (act_write (CallUpdateStatus workspace) (c_UpdateStatus C workspace))
                 (\<lambda>r. case r of
                    Inl err \<Rightarrow>
                      if IsConflict err then act_return (requeue_after 1, None)
                      else act_return (Result_zero, Some err)
                  | Inr _ \<Rightarrow> act_return (Result_zero, None)))
         else act_return (Result_zero, None))"

definition updateWorkspaceStateThenError ::
  "'s client \<Rightarrow> Workspace option \<Rightarrow> WorkspaceState \<Rightarrow> string \<Rightarrow> go_error \<Rightarrow> ('s, Result \<times> go_error option) act" where
  "updateWorkspaceStateThenError C workspace state message thenError =
     act_bind (updateWorkspaceState C workspace state message)
       (\<lambda>(result, err).
          case err of
            Some e \<Rightarrow> act_return (Result_zero, Some e)
          | None \<Rightarrow>
              if 0 < res_RequeueAfter result then act_return (result, None)
              else act_return (result, Some thenError))"

definition updateWorkspaceStateThenResult ::
  "'s client \<Rightarrow> Workspace option \<Rightarrow> WorkspaceState \<Rightarrow> string \<Rightarrow> Result \<Rightarrow> ('s, Result \<times> go_error option) act" where
  "updateWorkspaceStateThenResult C workspace state message thenResult =
     act_bind (updateWorkspaceState C workspace state message)
       (\<lambda>(result, err).
          case err of
            Some e \<Rightarrow> act_return (Result_zero, Some e)
          | None \<Rightarrow>
              if 0 < res_RequeueAfter result then act_return (result, None)
              else act_return (thenResult, None))"

text \<open>\<open>return r.updateWorkspaceState(..., WorkspaceStateError, message)\<close>, and with an error.\<close>

definition stop_error_state :: "'s client \<Rightarrow> Workspace \<Rightarrow> string \<Rightarrow> ('s, 'a) act" where
  "stop_error_state C workspace message =
     act_bind (updateWorkspaceState C (Some workspace) WorkspaceStateError message) act_finish"

definition stop_error_state_then :: "'s client \<Rightarrow> Workspace \<Rightarrow> string \<Rightarrow> go_error \<Rightarrow> ('s, 'a) act" where
  "stop_error_state_then C workspace message err =
     act_bind (updateWorkspaceStateThenError C (Some workspace) WorkspaceStateError message err) act_finish"

definition stop_error :: "go_error \<Rightarrow> ('s, 'a) act" where
  "stop_error err = act_stop (Returned Result_zero (Some err))"

section \<open>Workspace, WorkspaceKind and options\<close>

definition reconcile_fetch :: "'s client \<Rightarrow> string \<Rightarrow> string \<Rightarrow> ('s, Workspace) act" where
  "reconcile_fetch C namespace name =
     act_bind (act_read (c_GetWorkspace C namespace name))
       (\<lambda>r. case r of
          Inl err \<Rightarrow> if IsNotFound err then act_stop (Returned Result_zero None) else stop_error err
        | Inr workspace \<Rightarrow>
            if om_DeletionTimestamp (w_Meta workspace) \<noteq> None then act_stop (Returned Result_zero None)
            else act_return workspace)"

definition reconcile_kind :: "'s client \<Rightarrow> Workspace \<Rightarrow> ('s, WorkspaceKind) act" where
  "reconcile_kind C workspace =
     act_bind (act_read (c_GetWorkspaceKind C (ws_Kind (w_Spec workspace))))
       (\<lambda>r. case r of
          Inl err \<Rightarrow>
            if IsNotFound err
            then stop_error_state C workspace
                   (''Workspace references unknown WorkspaceKind: '' @ ws_Kind (w_Spec workspace))
            else stop_error err
        | Inr workspaceKind \<Rightarrow>
            if om_DeletionTimestamp (wk_Meta workspaceKind) = None \<and>
               WorkspaceKindFinalizer \<notin> set (om_Finalizers (wk_Meta workspaceKind))
            then
              (let workspaceKind = workspaceKind\<lparr>wk_Meta := (wk_Meta workspaceKind)
                     \<lparr>om_Finalizers := om_Finalizers (wk_Meta workspaceKind) @ [WorkspaceKindFinalizer]\<rparr>\<rparr>
               in act_bind (act_write (CallUpdateKind workspaceKind) (c_UpdateWorkspaceKind C workspaceKind))
                    (\<lambda>r. case r of
                       Inl err \<Rightarrow>
                         if IsConflict err then act_stop (Returned (requeue_after 1) None) else stop_error err
                     | Inr workspaceKind \<Rightarrow> act_return workspaceKind))
            else act_return workspaceKind)"

text \<open>The writes to \<open>workspace.Status.PodTemplateOptions\<close> for one option.\<close>

definition option_info :: "string \<Rightarrow> string option \<Rightarrow> redirect_chain \<Rightarrow> WorkspacePodOptionInfo" where
  "option_info current desired redirectChain =
     (case desired of
       Some d \<Rightarrow> \<lparr>oi_Desired = d, oi_RedirectChain = redirectChain\<rparr>
     | None \<Rightarrow> \<lparr>oi_Desired = current, oi_RedirectChain = []\<rparr>)"

definition map_status :: "(WorkspaceStatus \<Rightarrow> WorkspaceStatus) \<Rightarrow> Workspace \<Rightarrow> Workspace" where
  "map_status f workspace = workspace\<lparr>w_Status := f (w_Status workspace)\<rparr>"

definition reconcile_image_config ::
  "'s client \<Rightarrow> Workspace \<Rightarrow> WorkspaceKind \<Rightarrow> ('s, Workspace \<times> ImageConfigValue) act" where
  "reconcile_image_config C workspace workspaceKind =
     (let workspace = map_status (\<lambda>st. st\<lparr>st_PendingRestart := False\<rparr>) workspace
      in case getImageConfig workspace workspaceKind of
           None \<Rightarrow> act_stop Diverged
         | Some (Inl err) \<Rightarrow>
             stop_error_state C workspace (''Workspace has invalid imageConfig: '' @ err_Error err)
         | Some (Inr (current, desired, redirectChain)) \<Rightarrow>
             act_return
               (map_status (\<lambda>st. st
                  \<lparr>st_PendingRestart := (if desired \<noteq> None then True else st_PendingRestart st),
                   st_PodTemplateOptions := (st_PodTemplateOptions st)
                     \<lparr>os_ImageConfig := option_info (icv_Id current) (map_option icv_Id desired) redirectChain\<rparr>\<rparr>) workspace,
                current))"

definition reconcile_pod_config ::
  "'s client \<Rightarrow> Workspace \<Rightarrow> WorkspaceKind \<Rightarrow> ('s, Workspace \<times> PodConfigValue) act" where
  "reconcile_pod_config C workspace workspaceKind =
     (case getPodConfig workspace workspaceKind of
       None \<Rightarrow> act_stop Diverged
     | Some (Inl err) \<Rightarrow>
         stop_error_state C workspace (''Workspace has invalid podConfig: '' @ err_Error err)
     | Some (Inr (current, desired, redirectChain)) \<Rightarrow>
         act_return
           (map_status (\<lambda>st. st
              \<lparr>st_PendingRestart := (if desired \<noteq> None then True else st_PendingRestart st),
               st_PodTemplateOptions := (st_PodTemplateOptions st)
                 \<lparr>os_PodConfig := option_info (pcv_Id current) (map_option pcv_Id desired) redirectChain\<rparr>\<rparr>) workspace,
            current))"

section \<open>Owned objects\<close>

text \<open>What a copier of \<open>helper\<close> does: it returns the target with the update flag, or fails, or panics.\<close>

datatype 'o copied =
    Copied 'o bool
  | CopyFailed go_error
  | CopyPanicked

definition sa_copier :: "k8s_lib \<Rightarrow> ServiceAccount \<Rightarrow> ServiceAccount \<Rightarrow> ServiceAccount copied" where
  "sa_copier K desired target =
     (case CopyServiceAccountFields K desired target of
       Inl err \<Rightarrow> CopyFailed err
     | Inr (target, updated) \<Rightarrow> Copied target updated)"

definition sts_copier :: "k8s_lib \<Rightarrow> StatefulSet \<Rightarrow> StatefulSet \<Rightarrow> StatefulSet copied" where
  "sts_copier K desired target =
     (case CopyStatefulSetFields K desired target of
       None \<Rightarrow> CopyPanicked
     | Some (target, updated) \<Rightarrow> Copied target updated)"

definition svc_copier :: "k8s_lib \<Rightarrow> Service \<Rightarrow> Service \<Rightarrow> Service copied" where
  "svc_copier K desired target = (case CopyServiceFields K desired target of (target, updated) \<Rightarrow> Copied target updated)"

definition vs_copier :: "k8s_lib \<Rightarrow> VirtualService \<Rightarrow> VirtualService \<Rightarrow> VirtualService copied" where
  "vs_copier K desired target =
     (case CopyVirtualServiceFields K desired target of (target, updated) \<Rightarrow> Copied target updated)"

text \<open>The branch for no owned object, and the one for a single owned object.\<close>

definition create_owned ::
  "'s client \<Rightarrow> ('s, 'o) owned_ops \<Rightarrow> ('o \<Rightarrow> owned_object) \<Rightarrow> ('o \<Rightarrow> ObjectMeta) \<Rightarrow> string \<Rightarrow> Workspace \<Rightarrow> 'o
   \<Rightarrow> ('s, 'o \<times> string) act" where
  "create_owned C ops wrap metaOf kind workspace desired =
     act_bind (act_write (CallCreate (wrap desired)) (op_Create ops desired))
       (\<lambda>r. case r of
          Inl err \<Rightarrow>
            stop_error_state_then C workspace (''Failed to create '' @ kind @ '': '' @ err_Error err) err
        | Inr created \<Rightarrow> act_return (created, om_Name (metaOf created)))"

definition update_owned ::
  "'s client \<Rightarrow> ('s, 'o) owned_ops \<Rightarrow> ('o \<Rightarrow> owned_object) \<Rightarrow> ('o \<Rightarrow> ObjectMeta) \<Rightarrow> (ObjectMeta \<Rightarrow> 'o \<Rightarrow> 'o)
   \<Rightarrow> k8s_lib \<Rightarrow> ('o \<Rightarrow> 'o \<Rightarrow> 'o copied) \<Rightarrow> string \<Rightarrow> Workspace \<Rightarrow> 'o \<Rightarrow> 'o \<Rightarrow> ('s, 'o \<times> string) act" where
  "update_owned C ops wrap metaOf setMeta K copier kind workspace desired found =
     (let name = om_Name (metaOf found)
      in case ReplaceWorkspaceAsController K (metaOf found) workspace of
           Inl err \<Rightarrow> stop_error err
         | Inr (meta, controllerRefUpdated) \<Rightarrow>
             (case copier desired (setMeta meta found) of
               CopyPanicked \<Rightarrow> act_stop Panicked
             | CopyFailed err \<Rightarrow>
                 stop_error_state_then C workspace
                   (''Failed to update '' @ kind @ '' '' @ name @ '': '' @ err_Error err) err
             | Copied found updated \<Rightarrow>
                 if updated \<or> controllerRefUpdated
                 then
                   act_bind (act_write (CallUpdate (wrap found)) (op_Update ops found))
                     (\<lambda>r. case r of
                        Inl err \<Rightarrow>
                          if IsConflict err then act_stop (Returned (requeue_after 1) None)
                          else
                            stop_error_state_then C workspace
                              (''Failed to update '' @ kind @ '' '' @ name @ '': '' @ err_Error err) err
                      | Inr found \<Rightarrow> act_return (found, name))
                 else act_return (found, name)))"

text \<open>
  The section for one kind of object: set the controller reference on the generated object, list
  the owned objects, then create, update or refuse. The value is the object, and its name as the
  code read it.
\<close>

definition reconcile_owned ::
  "'s client \<Rightarrow> ('s, 'o) owned_ops \<Rightarrow> ('o \<Rightarrow> owned_object) \<Rightarrow> ('o \<Rightarrow> ObjectMeta) \<Rightarrow> (ObjectMeta \<Rightarrow> 'o \<Rightarrow> 'o)
   \<Rightarrow> k8s_lib \<Rightarrow> ('o \<Rightarrow> 'o \<Rightarrow> 'o copied) \<Rightarrow> string \<Rightarrow> string \<Rightarrow> Workspace \<Rightarrow> 'o \<Rightarrow> ('s, 'o \<times> string) act" where
  "reconcile_owned C ops wrap metaOf setMeta K copier kind namespace workspace desired =
     (case SetControllerReference K (w_Meta workspace) (metaOf desired) of
       Inl err \<Rightarrow> stop_error err
     | Inr meta \<Rightarrow>
         (let desired = setMeta meta desired
          in act_bind (act_read (op_List ops namespace (w_Name workspace)))
               (\<lambda>listed. case listed of
                  Inl err \<Rightarrow> stop_error err
                | Inr [] \<Rightarrow> create_owned C ops wrap metaOf kind workspace desired
                | Inr [found] \<Rightarrow> update_owned C ops wrap metaOf setMeta K copier kind workspace desired found
                | Inr items \<Rightarrow>
                    stop_error_state C workspace
                      (''Workspace owns multiple '' @ kind @ ''s: '' @
                       strings_Join (map (\<lambda>x. om_Name (metaOf x)) items) '', ''))))"

definition reconcile_service_account ::
  "k8s_lib \<Rightarrow> 's client \<Rightarrow> string \<Rightarrow> Workspace \<Rightarrow> WorkspaceKind \<Rightarrow> ('s, ServiceAccount \<times> string) act" where
  "reconcile_service_account K C namespace workspace workspaceKind =
     reconcile_owned C (c_ServiceAccounts C) OwnedServiceAccount sa_Meta (\<lambda>m x. x\<lparr>sa_Meta := m\<rparr>) K (sa_copier K)
       ''ServiceAccount'' namespace workspace (generateServiceAccount K workspace workspaceKind)"

definition reconcile_stateful_set ::
  "k8s_lib \<Rightarrow> 's client \<Rightarrow> string \<Rightarrow> Workspace \<Rightarrow> WorkspaceKind \<Rightarrow> ImageConfigSpec \<Rightarrow> PodConfigSpec \<Rightarrow> ServiceAccount
   \<Rightarrow> ('s, StatefulSet \<times> string) act" where
  "reconcile_stateful_set K C namespace workspace workspaceKind imageConfigSpec podConfigSpec serviceAccount =
     (case generateStatefulSet K workspace workspaceKind imageConfigSpec podConfigSpec serviceAccount of
       None \<Rightarrow> act_stop Panicked
     | Some (Inl err) \<Rightarrow>
         stop_error_state C workspace (''Failed to generate StatefulSet with error: '' @ err_Error err)
     | Some (Inr statefulSet) \<Rightarrow>
         reconcile_owned C (c_StatefulSets C) OwnedStatefulSet sts_Meta (\<lambda>m x. x\<lparr>sts_Meta := m\<rparr>) K (sts_copier K)
           ''StatefulSet'' namespace workspace statefulSet)"

definition reconcile_service ::
  "k8s_lib \<Rightarrow> 's client \<Rightarrow> string \<Rightarrow> Workspace \<Rightarrow> WorkspaceKind \<Rightarrow> ImageConfigSpec \<Rightarrow> ('s, Service \<times> string) act" where
  "reconcile_service K C namespace workspace workspaceKind imageConfigSpec =
     (case generateService workspace workspaceKind imageConfigSpec of
       Inl err \<Rightarrow> stop_error_state C workspace (''Failed to generate Service with error: '' @ err_Error err)
     | Inr service \<Rightarrow>
         reconcile_owned C (c_Services C) OwnedService svc_Meta (\<lambda>m x. x\<lparr>svc_Meta := m\<rparr>) K (svc_copier K)
           ''Service'' namespace workspace service)"

definition reconcile_virtual_service ::
  "k8s_lib \<Rightarrow> EnvConfig \<Rightarrow> 's client \<Rightarrow> string \<Rightarrow> Workspace \<Rightarrow> WorkspaceKind \<Rightarrow> Service \<Rightarrow> ImageConfigSpec
   \<Rightarrow> ('s, unit) act" where
  "reconcile_virtual_service K cfg C namespace workspace workspaceKind service imageConfigSpec =
     (if cfg_UseIstio cfg
      then
        (case generateVirtualService K cfg workspace workspaceKind service imageConfigSpec of
          Inl err \<Rightarrow>
            stop_error_state C workspace (''Failed to generate VirtualService with error: '' @ err_Error err)
        | Inr virtualsvc \<Rightarrow>
            act_bind
              (reconcile_owned C (c_VirtualServices C) OwnedVirtualService vs_Meta (\<lambda>m x. x\<lparr>vs_Meta := m\<rparr>) K
                 (vs_copier K) ''VirtualService'' namespace workspace virtualsvc)
              (\<lambda>_. act_return ()))
      else act_return ())"

section \<open>RoleBindings\<close>

text \<open>
  The functions of this section return to their caller, which decides whether to end the reconcile:
  \<open>Inl\<close> of the value is an early return with a result and an error.
\<close>

fun desired_role_bindings ::
  "k8s_lib \<Rightarrow> Workspace \<Rightarrow> ServiceAccount \<Rightarrow> string list \<Rightarrow> (RoleRef, RoleBinding) go_map
   \<Rightarrow> go_error + (RoleRef, RoleBinding) go_map" where
  "desired_role_bindings K workspace serviceAccount [] desired = Inr desired"
| "desired_role_bindings K workspace serviceAccount (clusterRole # clusterRoles) desired =
     (let roleBinding = generateRoleBinding workspace serviceAccount clusterRole
      in case SetControllerReference K (w_Meta workspace) (rb_Meta roleBinding) of
           Inl err \<Rightarrow> Inl err
         | Inr meta \<Rightarrow>
             desired_role_bindings K workspace serviceAccount clusterRoles
               (AList.update (rb_RoleRef roleBinding) (roleBinding\<lparr>rb_Meta := meta\<rparr>) desired))"

fun owned_role_bindings_loop ::
  "k8s_lib \<Rightarrow> 's client \<Rightarrow> Workspace \<Rightarrow> RoleBinding list \<Rightarrow> (RoleRef, RoleBinding) go_map
   \<Rightarrow> ('s, (Result \<times> go_error option) + (RoleRef, RoleBinding) go_map) act" where
  "owned_role_bindings_loop K C workspace [] desired = act_return (Inr desired)"
| "owned_role_bindings_loop K C workspace (found # items) desired =
     (case map_of desired (rb_RoleRef found) of
       Some desiredRoleBinding \<Rightarrow>
         (case ReplaceWorkspaceAsController K (rb_Meta found) workspace of
           Inl err \<Rightarrow> act_return (Inl (Result_zero, Some err))
         | Inr (meta, controllerRefUpdated) \<Rightarrow>
             (let (found, updated) = CopyRoleBindingFields K desiredRoleBinding (found\<lparr>rb_Meta := meta\<rparr>);
                  continue = (\<lambda>found. owned_role_bindings_loop K C workspace items
                                        (AList.delete (rb_RoleRef found) desired))
              in if updated \<or> controllerRefUpdated
                 then
                   act_bind (act_write (CallUpdate (OwnedRoleBinding found)) (op_Update (c_RoleBindings C) found))
                     (\<lambda>r. case r of
                        Inl err \<Rightarrow>
                          if IsConflict err then act_return (Inl (requeue_after 1, None))
                          else
                            act_bind
                              (updateWorkspaceStateThenError C (Some workspace) WorkspaceStateError
                                 (''Failed to update RoleBinding '' @ om_Name (rb_Meta found) @ '': '' @ err_Error err) err)
                              (\<lambda>x. act_return (Inl x))
                      | Inr found \<Rightarrow> continue found)
                 else continue found))
     | None \<Rightarrow>
         act_bind (act_write (CallDeleteRoleBinding found) (c_DeleteRoleBinding C found))
           (\<lambda>r. case r of
              Inl err \<Rightarrow>
                if IsNotFound err then owned_role_bindings_loop K C workspace items desired
                else if IsConflict err then act_return (Inl (requeue_after 1, None))
                else
                  act_bind
                    (updateWorkspaceStateThenError C (Some workspace) WorkspaceStateError
                       (''Failed to delete RoleBinding '' @ om_Name (rb_Meta found) @ '': '' @ err_Error err) err)
                    (\<lambda>x. act_return (Inl x))
            | Inr _ \<Rightarrow> owned_role_bindings_loop K C workspace items desired))"

text \<open>The map is ranged over in the order of its list; the theorems hold for every order.\<close>

fun create_role_bindings_loop ::
  "'s client \<Rightarrow> Workspace \<Rightarrow> (RoleRef, RoleBinding) go_map \<Rightarrow> ('s, Result \<times> go_error option) act" where
  "create_role_bindings_loop C workspace [] = act_return (Result_zero, None)"
| "create_role_bindings_loop C workspace ((ref, roleBinding) # desired) =
     act_bind (act_write (CallCreate (OwnedRoleBinding roleBinding)) (op_Create (c_RoleBindings C) roleBinding))
       (\<lambda>r. case r of
          Inl err \<Rightarrow>
            updateWorkspaceStateThenError C (Some workspace) WorkspaceStateError
              (''Failed to create RoleBinding: '' @ err_Error err) err
        | Inr _ \<Rightarrow> create_role_bindings_loop C workspace desired)"

definition cluster_roles :: "WorkspaceKind \<Rightarrow> string list" where
  "cluster_roles workspaceKind =
     (case kpt_ServiceAccount (wk_PodTemplate workspaceKind) of None \<Rightarrow> [] | Some sa \<Rightarrow> ksa_ClusterRoles sa)"

definition reconcileRoleBindings ::
  "k8s_lib \<Rightarrow> 's client \<Rightarrow> Workspace \<Rightarrow> WorkspaceKind \<Rightarrow> ServiceAccount \<Rightarrow> ('s, Result \<times> go_error option) act" where
  "reconcileRoleBindings K C workspace workspaceKind serviceAccount =
     (case desired_role_bindings K workspace serviceAccount (cluster_roles workspaceKind) [] of
       Inl err \<Rightarrow> act_return (Result_zero, Some err)
     | Inr desired \<Rightarrow>
         act_bind (act_read (op_List (c_RoleBindings C) (w_Namespace workspace) (w_Name workspace)))
           (\<lambda>listed. case listed of
              Inl err \<Rightarrow> act_return (Result_zero, Some err)
            | Inr items \<Rightarrow>
                act_bind (owned_role_bindings_loop K C workspace items desired)
                  (\<lambda>r. case r of
                     Inl x \<Rightarrow> act_return x
                   | Inr desired \<Rightarrow> create_role_bindings_loop C workspace desired)))"

definition reconcile_role_bindings_section ::
  "k8s_lib \<Rightarrow> 's client \<Rightarrow> Workspace \<Rightarrow> WorkspaceKind \<Rightarrow> ServiceAccount \<Rightarrow> ('s, unit) act" where
  "reconcile_role_bindings_section K C workspace workspaceKind serviceAccount =
     act_bind (reconcileRoleBindings K C workspace workspaceKind serviceAccount)
       (\<lambda>(result, err).
          case err of
            Some e \<Rightarrow> stop_error e
          | None \<Rightarrow> if 0 < res_RequeueAfter result then act_stop (Returned result None) else act_return ())"

section \<open>Pod\<close>

definition StatefulSetRevisionLabel :: string where
  "StatefulSetRevisionLabel = ''controller-revision-hash''"

text \<open>The StatefulSet has a revision for the Pod that the Pod does not run.\<close>

definition pending_revision :: "StatefulSet \<Rightarrow> Pod \<Rightarrow> bool" where
  "pending_revision statefulSet pod \<longleftrightarrow>
     om_Generation (sts_Meta statefulSet) = sts_ObservedGeneration statefulSet \<and>
     sts_UpdateRevision statefulSet \<noteq> [] \<and>
     map_get (om_Labels (pod_Meta pod)) StatefulSetRevisionLabel \<noteq> sts_UpdateRevision statefulSet"

definition reconcile_pod_found ::
  "k8s_lib \<Rightarrow> 's client \<Rightarrow> Workspace \<Rightarrow> StatefulSet \<Rightarrow> Pod \<Rightarrow> ('s, Pod option) act" where
  "reconcile_pod_found K C workspace statefulSet pod =
     (if (case GetControllerOf K (pod_Meta pod) of
            None \<Rightarrow> True
          | Some podOwner \<Rightarrow> or_UID podOwner \<noteq> om_UID (sts_Meta statefulSet))
      then
        stop_error_state C workspace
          (''Workspace Pod '' @ om_Name (pod_Meta pod) @ '' is not owned by the Workspace StatefulSet '' @
           om_Name (sts_Meta statefulSet))
      else if pending_revision statefulSet pod
      then
        if om_DeletionTimestamp (pod_Meta pod) \<noteq> None
        then
          act_bind
            (updateWorkspaceStateThenResult C (Some workspace) WorkspaceStateTerminating ''Workspace is terminating''
               (requeue_after (5 * time_Second))) act_finish
        else
          act_bind (act_write (CallDeletePod pod) (c_DeletePod C pod))
            (\<lambda>r. case r of
               Inl err \<Rightarrow>
                 if IsNotFound err then act_stop (Returned (requeue_after (5 * time_Second)) None)
                 else if IsConflict err then act_stop (Returned (requeue_after 1) None)
                 else
                   stop_error_state_then C workspace
                     (''Failed to delete Pod '' @ om_Name (pod_Meta pod) @ '': '' @ err_Error err) err
             | Inr _ \<Rightarrow>
                 act_bind
                   (updateWorkspaceStateThenResult C (Some workspace) WorkspaceStateTerminating
                      ''Workspace is terminating'' (requeue_after (5 * time_Second))) act_finish)
      else act_return (Some pod))"

definition reconcile_pod ::
  "k8s_lib \<Rightarrow> 's client \<Rightarrow> string \<Rightarrow> Workspace \<Rightarrow> StatefulSet \<Rightarrow> string \<Rightarrow> ('s, Pod option) act" where
  "reconcile_pod K C namespace workspace statefulSet statefulSetName =
     act_bind (act_read (c_GetPod C namespace (statefulSetName @ ''-0'')))
       (\<lambda>r. case r of
          Inl err \<Rightarrow> if IsNotFound err then act_return None else stop_error err
        | Inr pod \<Rightarrow> reconcile_pod_found K C workspace statefulSet pod)"

section \<open>Status, activity and pause\<close>

definition act_readings :: "'s client \<Rightarrow> ('s, readings) act" where
  "act_readings C s = (case c_Readings C (run_world s) of (r, w) \<Rightarrow> (Inr r, s\<lparr>run_world := w\<rparr>))"

definition act_activity ::
  "k8s_lib \<Rightarrow> readings \<Rightarrow> pod_executor option \<Rightarrow> Workspace \<Rightarrow> WorkspaceKind \<Rightarrow> PodConfigValue \<Rightarrow> Pod option
   \<Rightarrow> ('s, (go_error + Result \<times> bool) \<times> Workspace) act" where
  "act_activity K rd podExecutor workspace workspaceKind currentPodConfig pod s =
     (case reconcileActivity K (rd_nsGet rd) (rd_activityNow0 rd) (rd_activityNow1 rd) (rd_probe rd) podExecutor
             workspace workspaceKind (Some currentPodConfig) pod (run_cache s) of
        (r, workspace, cache) \<Rightarrow> (Inr (r, workspace), s\<lparr>run_cache := cache\<rparr>))"

text \<open>The pause, after the status update: \<open>workspace\<close> is what the API server returned for it.\<close>

definition reconcile_pause ::
  "'s client \<Rightarrow> Workspace \<Rightarrow> Workspace \<Rightarrow> bool \<Rightarrow> Result \<Rightarrow> ('s, unit) act" where
  "reconcile_pause C originalWorkspace workspace paused result =
     (if paused
      then
        (let workspace = workspace\<lparr>w_Spec := (w_Spec workspace)\<lparr>ws_Paused := True\<rparr>\<rparr>
         in act_bind (act_write (CallPatchWorkspace originalWorkspace workspace)
                       (c_PatchWorkspace C originalWorkspace workspace))
              (\<lambda>r. case r of
                 Inl err \<Rightarrow>
                   if IsConflict err then act_stop (Returned (requeue_after 1) None) else stop_error err
               | Inr _ \<Rightarrow> act_stop (Returned Result_zero None)))
      else act_stop (Returned result None))"

definition reconcile_status ::
  "k8s_lib \<Rightarrow> pod_executor option \<Rightarrow> 's client \<Rightarrow> Workspace \<Rightarrow> Workspace \<Rightarrow> WorkspaceKind \<Rightarrow> PodConfigValue
   \<Rightarrow> StatefulSet \<Rightarrow> ServiceAccount \<Rightarrow> Pod option \<Rightarrow> ('s, unit) act" where
  "reconcile_status K podExecutor C originalWorkspace workspace workspaceKind currentPodConfig statefulSet
       serviceAccount pod =
     act_bind (act_readings C) (\<lambda>rd.
       case generateWorkspaceStatus (rd_listEvents rd) (rd_statusNow0 rd) (rd_statusNow1 rd) workspace pod
              (Some statefulSet) (Some serviceAccount) of
         (_, Inl err) \<Rightarrow>
           stop_error_state_then C workspace (''Failed to generate Workspace status with error: '' @ err_Error err) err
       | (status, Inr result) \<Rightarrow>
           act_bind (act_activity K rd podExecutor (workspace\<lparr>w_Status := status\<rparr>) workspaceKind currentPodConfig pod)
             (\<lambda>(r, workspace).
                case r of
                  Inl err \<Rightarrow> stop_error err
                | Inr (activityResult, paused) \<Rightarrow>
                    (let result = mergeReconcileResult result activityResult
                     in if \<not> eq_WorkspaceStatus K (w_Status originalWorkspace) (w_Status workspace)
                        then
                          act_bind (act_write (CallUpdateStatus workspace) (c_UpdateStatus C workspace))
                            (\<lambda>r. case r of
                               Inl err \<Rightarrow>
                                 if IsConflict err then act_stop (Returned (requeue_after 1) None)
                                 else stop_error err
                             | Inr workspace \<Rightarrow> reconcile_pause C originalWorkspace workspace paused result)
                        else reconcile_pause C originalWorkspace workspace paused result)))"

section \<open>The whole reconcile\<close>

text \<open>The request is a namespace and a name; \<open>cfg\<close> and \<open>podExecutor\<close> are fields of the reconciler.\<close>

definition reconcile_objects ::
  "k8s_lib \<Rightarrow> EnvConfig \<Rightarrow> pod_executor option \<Rightarrow> 's client \<Rightarrow> string \<Rightarrow> Workspace \<Rightarrow> Workspace \<Rightarrow> WorkspaceKind
   \<Rightarrow> ImageConfigValue \<Rightarrow> PodConfigValue \<Rightarrow> ('s, unit) act" where
  "reconcile_objects K cfg podExecutor C namespace originalWorkspace workspace workspaceKind currentImageConfig
       currentPodConfig =
     act_bind (reconcile_service_account K C namespace workspace workspaceKind) (\<lambda>(serviceAccount, serviceAccountName).
     act_bind (reconcile_stateful_set K C namespace workspace workspaceKind (icv_Spec currentImageConfig)
                 (pcv_Spec currentPodConfig) serviceAccount) (\<lambda>(statefulSet, statefulSetName).
     act_bind (reconcile_service K C namespace workspace workspaceKind (icv_Spec currentImageConfig)) (\<lambda>(service, serviceName).
     act_bind (reconcile_virtual_service K cfg C namespace workspace workspaceKind service (icv_Spec currentImageConfig)) (\<lambda>_.
     act_bind (reconcile_role_bindings_section K C workspace workspaceKind serviceAccount) (\<lambda>_.
     act_bind (reconcile_pod K C namespace workspace statefulSet statefulSetName) (\<lambda>pod.
     reconcile_status K podExecutor C originalWorkspace workspace workspaceKind currentPodConfig statefulSet
       serviceAccount pod))))))"

definition Reconcile_steps ::
  "k8s_lib \<Rightarrow> EnvConfig \<Rightarrow> pod_executor option \<Rightarrow> 's client \<Rightarrow> string \<Rightarrow> string \<Rightarrow> ('s, unit) act" where
  "Reconcile_steps K cfg podExecutor C namespace name =
     act_bind (reconcile_fetch C namespace name) (\<lambda>originalWorkspace.
     act_bind (reconcile_kind C originalWorkspace) (\<lambda>workspaceKind.
     act_bind (reconcile_image_config C originalWorkspace workspaceKind) (\<lambda>(workspace, currentImageConfig).
     act_bind (reconcile_pod_config C workspace workspaceKind) (\<lambda>(workspace, currentPodConfig).
     reconcile_objects K cfg podExecutor C namespace originalWorkspace workspace workspaceKind currentImageConfig
       currentPodConfig))))"

definition Reconcile ::
  "k8s_lib \<Rightarrow> EnvConfig \<Rightarrow> pod_executor option \<Rightarrow> 's client \<Rightarrow> string \<Rightarrow> string \<Rightarrow> 's run \<Rightarrow> outcome \<times> 's run" where
  "Reconcile K cfg podExecutor C namespace name s =
     (case Reconcile_steps K cfg podExecutor C namespace name s of
       (Inl out, s) \<Rightarrow> (out, s)
     | (Inr _, s) \<Rightarrow> (Returned Result_zero None, s))"

section \<open>Which Workspaces to reconcile\<close>

text \<open>
  The map functions of the watches: from a changed object to the Workspaces to reconcile, a list of
  namespace and name. \<open>listByKind\<close> and \<open>listByOwnedUID\<close> are the client's \<open>List\<close> with the field indexes on
  the kind and on the UIDs of owned objects, the latter within a namespace.
\<close>

definition mapPodToRequest :: "ObjectMeta \<Rightarrow> (string \<times> string) list" where
  "mapPodToRequest object = [(om_Namespace object, map_get (om_Labels object) workspaceNameLabel)]"

definition predPodHasWSLabel :: "ObjectMeta \<Rightarrow> bool" where
  "predPodHasWSLabel object \<longleftrightarrow> map_of (om_Labels object) workspaceNameLabel \<noteq> None"

definition mapWorkspaceKindToRequest ::
  "(string \<Rightarrow> go_error + Workspace list) \<Rightarrow> WorkspaceKind \<Rightarrow> (string \<times> string) list" where
  "mapWorkspaceKindToRequest listByKind workspaceKind =
     (case listByKind (wk_Name workspaceKind) of
       Inl err \<Rightarrow> []
     | Inr items \<Rightarrow> map (\<lambda>item. (w_Namespace item, w_Name item)) items)"

definition mapEventToRequest ::
  "(string \<Rightarrow> uid \<Rightarrow> go_error + Workspace list) \<Rightarrow> Event option \<Rightarrow> (string \<times> string) list" where
  "mapEventToRequest listByOwnedUID obj =
     (case obj of
       None \<Rightarrow> []
     | Some ev \<Rightarrow>
         if evt_InvolvedUID ev = [] then []
         else if evt_InvolvedKind ev \<noteq> ''Pod'' \<and> evt_InvolvedKind ev \<noteq> ''StatefulSet'' then []
         else
           (case listByOwnedUID (evt_InvolvedNamespace ev) (evt_InvolvedUID ev) of
             Inl err \<Rightarrow> []
           | Inr items \<Rightarrow> map (\<lambda>ws. (w_Namespace ws, w_Name ws)) items))"

end
