(* ===== verification/Caches.thy ===== *)
theory Caches
  imports Sha256 Reconcile
begin

text \<open>
  The cache transforms of \<open>internal/helper\<close>: \<open>configmap_cache.go\<close> adds the SHA-256 of every key of an
  image ConfigMap as a virtual annotation, \<open>event_cache.go\<close> drops what the controller never reads from
  an Event.
\<close>

section \<open>The ConfigMap cache\<close>

definition ImageSourceLabel :: string where
  "ImageSourceLabel = ''workspaces.kubeflow.org/image-source''"

definition ImageSourceLabelValue :: string where
  "ImageSourceLabelValue = ''true''"

definition SHA256AnnotationPrefix :: string where
  "SHA256AnnotationPrefix = ''VIRTUAL.workspaces.kubeflow.org/sha256.''"

text \<open>An object on its way into a cache; the rest is what is neither a ConfigMap nor an Event. A time that
  is \<open>None\<close> is the zero value of \<open>metav1.Time\<close>.\<close>

record CachedEvent = Event +
  cev_ManagedFields :: "ManagedFieldsEntry list"
  cev_Annotations :: str_map
  cev_InvolvedAPIVersion :: string
  cev_InvolvedResourceVersion :: string
  cev_InvolvedFieldPath :: string
  cev_Source :: string
  cev_FirstTimestamp :: "go_time option"
  cev_EventTime :: "go_time option"
  cev_Series :: "opaque option"
  cev_Action :: string
  cev_Related :: "opaque option"
  cev_ReportingController :: string
  cev_ReportingInstance :: string

datatype cache_object =
    CacheConfigMap ConfigMap
  | CacheEvent CachedEvent
  | CacheOther opaque

text \<open>\<open>for key, value := range data { annotations[prefix+key] = hex(sha256(value)) }\<close>.\<close>

fun annotate_hashes :: "str_map \<Rightarrow> str_map \<Rightarrow> str_map" where
  "annotate_hashes annotations [] = annotations"
| "annotate_hashes annotations ((key, data) # rest) =
     annotate_hashes
       (AList.update (SHA256AnnotationPrefix @ key) (hex_EncodeToString (sha256_Sum256 data)) annotations) rest"

definition TransformConfigMapSHA256 :: "cache_object \<Rightarrow> go_error + cache_object" where
  "TransformConfigMapSHA256 inp =
     (case inp of
       CacheConfigMap cm \<Rightarrow>
         (let annotations = om_Annotations (cm_Meta cm);
              annotations = annotate_hashes annotations (cm_Data cm);
              annotations = annotate_hashes annotations (cm_BinaryData cm)
          in Inr (CacheConfigMap (cm\<lparr>cm_Meta := (cm_Meta cm)\<lparr>om_Annotations := annotations\<rparr>\<rparr>)))
     | CacheEvent ev \<Rightarrow> Inr inp
     | CacheOther x \<Rightarrow> Inr inp)"

text \<open>
  \<open>BuildImageSourceConfigMapCache\<close>: the options that configure the cache for ConfigMaps, and the calls
  into the manager, which are parameters.
\<close>

record cache_options =
  co_Label :: selector
  co_Transform :: "cache_object \<Rightarrow> go_error + cache_object"
  co_ReaderFailOnMissingInformer :: bool

record 'c cache_builder =
  cb_NewRequirement :: "string \<Rightarrow> string list \<Rightarrow> go_error + selector"
  cb_New :: "cache_options \<Rightarrow> go_error + 'c"
  cb_GetInformer :: "'c \<Rightarrow> go_error option"
  cb_Add :: "'c \<Rightarrow> go_error option"

definition BuildImageSourceConfigMapCache :: "'c cache_builder \<Rightarrow> go_error + 'c" where
  "BuildImageSourceConfigMapCache mgr =
     (case cb_NewRequirement mgr ImageSourceLabel [ImageSourceLabelValue] of
       Inl err \<Rightarrow> Inl (errorf_w ''failed to create label requirement: '' err)
     | Inr imageSourceLabelSelector \<Rightarrow>
         (case cb_New mgr
                 \<lparr>co_Label = imageSourceLabelSelector, co_Transform = TransformConfigMapSHA256,
                  co_ReaderFailOnMissingInformer = True\<rparr> of
           Inl err \<Rightarrow> Inl (errorf_w ''failed to create ConfigMap cache: '' err)
         | Inr configMapCache \<Rightarrow>
             (case cb_GetInformer mgr configMapCache of
               Some err \<Rightarrow> Inl (errorf_w ''failed to get ConfigMap informer: '' err)
             | None \<Rightarrow>
                 (case cb_Add mgr configMapCache of
                   Some err \<Rightarrow> Inl (errorf_w ''failed to add ConfigMap cache to manager: '' err)
                 | None \<Rightarrow> Inr configMapCache))))"

section \<open>The Event cache\<close>

definition StripEventForCache :: "cache_object \<Rightarrow> go_error + cache_object" where
  "StripEventForCache obj =
     (case obj of
       CacheEvent event \<Rightarrow>
         Inr (CacheEvent (event
           \<lparr>cev_ManagedFields := [], cev_Annotations := [], cev_InvolvedAPIVersion := [],
            cev_InvolvedResourceVersion := [], cev_InvolvedFieldPath := [], cev_Source := [],
            cev_FirstTimestamp := None, cev_EventTime := None, cev_Series := None, cev_Action := [],
            cev_Related := None, cev_ReportingController := [], cev_ReportingInstance := []\<rparr>))
     | CacheConfigMap cm \<Rightarrow> Inr obj
     | CacheOther x \<Rightarrow> Inr obj)"

section \<open>Lemmas\<close>

lemma annotate_hashes_lookup:
  "wf_map data \<Longrightarrow>
   map_of (annotate_hashes annotations data) (SHA256AnnotationPrefix @ key) =
     (case map_of data key of
       Some v \<Rightarrow> Some (hex_EncodeToString (sha256_Sum256 v))
     | None \<Rightarrow> map_of annotations (SHA256AnnotationPrefix @ key))"
proof (induction annotations data rule: annotate_hashes.induct)
  case (2 annotations key' v rest)
  then have "map_of rest key' = None"
    by (simp add: map_of_eq_None_iff)
  with 2 show ?case
    by (auto simp: update_conv split: option.splits)
qed simp

lemma annotate_hashes_other:
  "(\<And>k. k \<in> fst ` set data \<Longrightarrow> a \<noteq> SHA256AnnotationPrefix @ k) \<Longrightarrow>
   map_of (annotate_hashes annotations data) a = map_of annotations a"
  by (induction annotations data rule: annotate_hashes.induct) (auto simp: update_conv)

lemma StripEventForCache_idempotent:
  "StripEventForCache obj = Inr obj' \<Longrightarrow> StripEventForCache obj' = Inr obj'"
  by (cases obj) (auto simp: StripEventForCache_def)

text \<open>Everything the controller reads of an Event survives the transform.\<close>

lemma StripEventForCache_reads:
  "StripEventForCache (CacheEvent ev) = Inr (CacheEvent ev') \<Longrightarrow> Event.truncate ev' = Event.truncate ev"
  by (auto simp: StripEventForCache_def Event.truncate_def)

lemma StripEventForCache_kind: "\<exists>ev'. StripEventForCache (CacheEvent ev) = Inr (CacheEvent ev')"
  by (simp add: StripEventForCache_def)

end
