(* ===== verification/Workspace_Webhook.thy ===== *)
theory Workspace_Webhook
  imports K8s_Lib
begin

text \<open>
  \<open>internal/webhook/workspace_webhook.go\<close>: the admission webhook for Workspaces. \<open>getKind\<close> is the
  client's \<open>Get\<close> of a WorkspaceKind by name.
\<close>

definition validateWorkspaceKind ::
  "(string \<Rightarrow> go_error + WorkspaceKind) \<Rightarrow> Workspace \<Rightarrow> field_error + WorkspaceKind" where
  "validateWorkspaceKind getKind workspace =
     (let workspaceKindName = ws_Kind (w_Spec workspace)
      in case getKind workspaceKindName of
           Inr workspaceKind \<Rightarrow> Inr workspaceKind
         | Inl err \<Rightarrow>
             if IsNotFound err
             then Inl (FieldInvalid ''spec.kind'' workspaceKindName
                        (''workspace kind '' @ go_quote workspaceKindName @ '' not found''))
             else Inl (FieldInternalError ''spec.kind'' err))"

definition validateWorkspaceName :: "k8s_lib \<Rightarrow> Workspace \<Rightarrow> field_error list" where
  "validateWorkspaceName K workspace =
     map (\<lambda>nameErr. FieldInvalid ''metadata.name'' (w_Name workspace) nameErr) (IsDNS1123Label K (w_Name workspace))"

definition workspace_validatePodMetadata :: "k8s_lib \<Rightarrow> Workspace \<Rightarrow> field_error list" where
  "workspace_validatePodMetadata K workspace =
     (case wpt_PodMetadata (ws_PodTemplate (w_Spec workspace)) of
       None \<Rightarrow> []
     | Some podMetadata \<Rightarrow>
         ValidateLabels K (wpm_Labels podMetadata) ''spec.podTemplate.podMetadata.labels'' @
         ValidateAnnotations K (wpm_Annotations podMetadata) ''spec.podTemplate.podMetadata.annotations'')"

definition validateImageConfig :: "Workspace \<Rightarrow> WorkspaceKind \<Rightarrow> field_error list" where
  "validateImageConfig workspace workspaceKind =
     (let imageConfig = wpo_ImageConfig (w_Options workspace);
          foundImageConfig = list_ex (\<lambda>v. imageConfig = icv_Id v) (wk_ImageConfigValues workspaceKind)
      in if \<not> foundImageConfig
         then [FieldInvalid ''spec.podTemplate.options.imageConfig'' imageConfig
                (''imageConfig with id '' @ go_quote imageConfig @ '' not found in workspace kind '' @
                 go_quote (wk_Name workspaceKind))]
         else [])"

definition validatePodConfig :: "Workspace \<Rightarrow> WorkspaceKind \<Rightarrow> field_error list" where
  "validatePodConfig workspace workspaceKind =
     (let podConfig = wpo_PodConfig (w_Options workspace);
          foundPodConfig = list_ex (\<lambda>v. podConfig = pcv_Id v) (wk_PodConfigValues workspaceKind)
      in if \<not> foundPodConfig
         then [FieldInvalid ''spec.podTemplate.options.podConfig'' podConfig
                (''podConfig with id '' @ go_quote podConfig @ '' not found in workspace kind '' @
                 go_quote (wk_Name workspaceKind))]
         else [])"

text \<open>The error list of \<open>apierrors.NewInvalid\<close>; the object is accepted iff it is empty.\<close>

definition Workspace_ValidateCreate ::
  "k8s_lib \<Rightarrow> (string \<Rightarrow> go_error + WorkspaceKind) \<Rightarrow> Workspace \<Rightarrow> field_error list" where
  "Workspace_ValidateCreate K getKind workspace =
     (case validateWorkspaceKind getKind workspace of
       Inl err \<Rightarrow> [err]
     | Inr workspaceKind \<Rightarrow>
         validateWorkspaceName K workspace @
         workspace_validatePodMetadata K workspace @
         validateImageConfig workspace workspaceKind @
         validatePodConfig workspace workspaceKind)"

definition Workspace_ValidateUpdate ::
  "k8s_lib \<Rightarrow> (string \<Rightarrow> go_error + WorkspaceKind) \<Rightarrow> Workspace \<Rightarrow> Workspace \<Rightarrow> field_error list" where
  "Workspace_ValidateUpdate K getKind oldWorkspace newWorkspace =
     (let workspaceKindChange = (ws_Kind (w_Spec newWorkspace) \<noteq> ws_Kind (w_Spec oldWorkspace));
          podMetadataChange = (\<not> eq_WorkspacePodMetadata K
             (wpt_PodMetadata (ws_PodTemplate (w_Spec newWorkspace)))
             (wpt_PodMetadata (ws_PodTemplate (w_Spec oldWorkspace))));
          imageConfigChange =
            (wpo_ImageConfig (w_Options newWorkspace) \<noteq> wpo_ImageConfig (w_Options oldWorkspace));
          podConfigChange = (wpo_PodConfig (w_Options newWorkspace) \<noteq> wpo_PodConfig (w_Options oldWorkspace))
      in if workspaceKindChange \<or> podMetadataChange \<or> imageConfigChange \<or> podConfigChange
         then
           (case validateWorkspaceKind getKind newWorkspace of
             Inl err \<Rightarrow> [err]
           | Inr workspaceKind \<Rightarrow>
               (if podMetadataChange then workspace_validatePodMetadata K newWorkspace else []) @
               (if imageConfigChange then validateImageConfig newWorkspace workspaceKind else []) @
               (if podConfigChange then validatePodConfig newWorkspace workspaceKind else []))
         else [])"

definition Workspace_ValidateDelete :: "Workspace \<Rightarrow> field_error list" where
  "Workspace_ValidateDelete workspace = []"

section \<open>Lemmas\<close>

definition options_exist :: "Workspace \<Rightarrow> WorkspaceKind \<Rightarrow> bool" where
  "options_exist w wk \<longleftrightarrow>
     wpo_ImageConfig (w_Options w) \<in> icv_Id ` set (wk_ImageConfigValues wk) \<and>
     wpo_PodConfig (w_Options w) \<in> pcv_Id ` set (wk_PodConfigValues wk)"

lemma validateImageConfig_iff:
  "validateImageConfig w wk = [] \<longleftrightarrow> wpo_ImageConfig (w_Options w) \<in> icv_Id ` set (wk_ImageConfigValues wk)"
  by (auto simp: validateImageConfig_def Let_def list_ex_iff)

lemma validatePodConfig_iff:
  "validatePodConfig w wk = [] \<longleftrightarrow> wpo_PodConfig (w_Options w) \<in> pcv_Id ` set (wk_PodConfigValues wk)"
  by (auto simp: validatePodConfig_def Let_def list_ex_iff)

lemma Workspace_ValidateCreate_accepts:
  "Workspace_ValidateCreate K getKind w = [] \<Longrightarrow> \<exists>wk. getKind (ws_Kind (w_Spec w)) = Inr wk \<and> options_exist w wk"
  by (auto simp: Workspace_ValidateCreate_def validateWorkspaceKind_def options_exist_def Let_def
      validateImageConfig_iff validatePodConfig_iff split: sum.splits if_splits)

text \<open>An accepted update keeps the options existing, as long as the kind itself did not change.\<close>

lemma Workspace_ValidateUpdate_accepts:
  assumes "Workspace_ValidateUpdate K getKind old new = []"
    and "ws_Kind (w_Spec new) = ws_Kind (w_Spec old)"
    and "getKind (ws_Kind (w_Spec old)) = Inr wk" and "options_exist old wk"
  shows "options_exist new wk"
  using assms
  by (auto simp: Workspace_ValidateUpdate_def validateWorkspaceKind_def options_exist_def Let_def
      validateImageConfig_iff validatePodConfig_iff split: sum.splits if_splits)

end
