(* ===== verification/Kind_Validity.thy ===== *)
theory Kind_Validity
  imports Kind_Webhook Workspace_Webhook
begin

text \<open>
  What the admission webhooks guarantee: every WorkspaceKind that the webhook has let through, at
  creation and at every later update, resolves all its redirects, has its default options and
  generates Services; and an option that a Workspace uses keeps its spec.
\<close>

section \<open>Redirects\<close>

lemma ends_cong: "map_of e = map_of e' \<Longrightarrow> ends e n \<Longrightarrow> ends e' n"
proof (rotate_tac, induction rule: ends.induct)
  case (ends_stop n)
  then show ?case by (auto intro: ends.ends_stop)
next
  case (ends_step n m)
  then show ?case by (auto intro: ends.ends_step)
qed

lemma validate_redirects_loop_exact:
  assumes "\<forall>n. map_has ch n \<longrightarrow> ends rm n"
  shows "\<exists>errs. validate_redirects_loop what ids rm es ch = Some errs \<and>
    (errs = [] \<longleftrightarrow> (\<forall>(i, t) \<in> set es. ends rm i \<and> map_of ids t \<noteq> None))"
  using assms
proof (induction es arbitrary: ch)
  case (Cons it es)
  obtain i t where it: "it = (i, t)"
    by fastforce
  obtain res ch' where d: "DetectGraphCycle i ch rm = Some (res, ch')"
    and post: "loop_post rm ch [] i (res, ch')"
    using DetectGraphCycle_spec [of i ch rm] by fastforce
  show ?case
  proof (cases res)
    case None
    with post Cons.prems have "\<forall>n. map_has ch' n \<longrightarrow> ends rm n" and "ends rm i"
      by (auto simp: loop_post_def)
    with Cons.IH [of ch'] it d None show ?thesis by auto
  next
    case (Some c)
    with post have "\<not> ends rm i"
      by (auto simp: loop_post_def)
    with it d Some show ?thesis by auto
  qed
qed simp

text \<open>\<open>redirects_ok\<close>: following any redirect ends, and every redirect has a target.\<close>

definition redirects_ok :: "('v \<Rightarrow> string) \<Rightarrow> ('v \<Rightarrow> OptionRedirect option) \<Rightarrow> 'v list \<Rightarrow> bool" where
  "redirects_ok idOf redirectOf vs \<longleftrightarrow>
     (\<forall>i t. map_of (redirect_map idOf redirectOf vs []) i = Some t \<longrightarrow>
        ends (redirect_map idOf redirectOf vs []) i \<and> map_of (index_by idOf vs []) t \<noteq> None)"

lemma wf_redirect_map: "wf_map m \<Longrightarrow> wf_map (redirect_map f r vs m)"
  by (induction vs arbitrary: m) (simp_all add: distinct_update split: option.splits)

lemma validate_redirects_iff:
  "\<exists>errs. validate_redirects_loop what (index_by f vs []) (redirect_map f r vs []) (redirect_map f r vs []) [] = Some errs \<and>
     (errs = [] \<longleftrightarrow> redirects_ok f r vs)"
proof -
  have wf: "wf_map (redirect_map f r vs [])"
    by (rule wf_redirect_map) simp
  have "(\<forall>(i, t) \<in> set (redirect_map f r vs []). P i t) \<longleftrightarrow>
      (\<forall>i t. map_of (redirect_map f r vs []) i = Some t \<longrightarrow> P i t)" for P
    using wf by auto
  with validate_redirects_loop_exact [of "[]" "redirect_map f r vs []" what "index_by f vs []" "redirect_map f r vs []"]
  show ?thesis
    by (simp add: redirects_ok_def)
qed

text \<open>With distinct ids the redirect map says what the values say.\<close>

lemma redirect_map_other: "i \<notin> f ` set vs \<Longrightarrow> map_of (redirect_map f r vs m) i = map_of m i"
  by (induction vs arbitrary: m) (auto simp: update_conv split: option.splits)

lemma redirect_map_lookup:
  "distinct (map f vs) \<Longrightarrow> v \<in> set vs \<Longrightarrow> map_of m (f v) = None \<Longrightarrow>
   map_of (redirect_map f r vs m) (f v) = map_option redir_To (r v)"
proof (induction vs arbitrary: m)
  case (Cons x vs)
  show ?case
  proof (cases "x = v")
    case True
    with Cons.prems have "f v \<notin> f ` set vs"
      by auto
    with True Cons.prems(3) show ?thesis
      by (simp add: redirect_map_other update_conv split: option.splits)
  next
    case False
    with Cons.prems have "v \<in> set vs" and "f x \<noteq> f v"
      by (auto simp: image_iff)
    with Cons.prems Cons.IH show ?thesis
      by (simp add: update_conv split: option.splits)
  qed
qed simp

lemma redirect_map_eq:
  assumes "distinct (map f vs)"
  shows "map_of (redirect_map f r vs []) i =
    (case map_of (index_by f vs []) i of None \<Rightarrow> None | Some v \<Rightarrow> map_option redir_To (r v))"
proof (cases "map_of (index_by f vs []) i")
  case None
  then have "i \<notin> f ` set vs"
    by (simp add: index_by_None)
  with None show ?thesis
    by (simp add: redirect_map_other)
next
  case (Some v)
  then have "v \<in> set vs" and "f v = i"
    by (rule index_by_Some)+
  with assms Some redirect_map_lookup [of f vs v "[]" r] show ?thesis
    by simp
qed

lemma redirects_ok_resolves:
  assumes d: "distinct (map f vs)" and ok: "redirects_ok f r vs"
  shows "ends (redirect_map f r vs []) i \<Longrightarrow> map_of (index_by f vs []) i = Some v \<Longrightarrow>
    \<exists>d steps. resolves f r (index_by f vs []) v d steps"
proof (induction arbitrary: v rule: ends.induct)
  case (ends_stop i)
  with d have "r v = None"
    by (simp add: redirect_map_eq split: option.splits)
  then show ?case by (blast intro: resolves_stop)
next
  case (ends_step i t)
  with d obtain rd where rd: "r v = Some rd" "redir_To rd = t"
    by (auto simp: redirect_map_eq)
  from ok ends_step.hyps(1) have "map_of (index_by f vs []) t \<noteq> None"
    unfolding redirects_ok_def by blast
  then obtain v' where v': "map_of (index_by f vs []) t = Some v'"
    by blast
  with ends_step.IH obtain d' steps where "resolves f r (index_by f vs []) v' d' steps"
    by blast
  with rd v' show ?case
    using resolves_step [of r v rd "index_by f vs []" v' f d' steps] by blast
qed

lemma redirects_ok_result:
  assumes "distinct (map f vs)" and "redirects_ok f r vs" and "key \<in> f ` set vs"
  shows "\<exists>x. getOptionConfig what f r vs key = Some (Inr x)"
proof -
  from assms(3) obtain v where v: "map_of (index_by f vs []) key = Some v"
    using index_by_None [of f vs key] by auto
  have "ends (redirect_map f r vs []) key"
  proof (cases "map_of (redirect_map f r vs []) key")
    case (Some t)
    with assms(2) show ?thesis by (auto simp: redirects_ok_def)
  qed (rule ends_stop)
  with redirects_ok_resolves [OF assms(1,2)] v obtain d steps where
    "resolves f r (index_by f vs []) v d steps"
    by blast
  with v have "option_result f r vs key (if f v = f d then (v, None, []) else (v, Some d, steps))"
    unfolding option_result_def by blast
  then show ?thesis
    using getOptionConfig_iff by blast
qed

section \<open>A valid kind\<close>

text \<open>
  The ids of the options of a kind are unique: the schema declares the lists as maps keyed by id
  (\<open>listType:="map"\<close>, \<open>listMapKey:="id"\<close>), which the API server enforces before the webhook runs.
\<close>

definition unique_ids :: "WorkspaceKind \<Rightarrow> bool" where
  "unique_ids wk \<longleftrightarrow> distinct (map icv_Id (wk_ImageConfigValues wk)) \<and> distinct (map pcv_Id (wk_PodConfigValues wk))"

abbreviation kind_ports :: "WorkspaceKind \<Rightarrow> (string, WorkspaceKindPort) go_map" where
  "kind_ports wk \<equiv> index_by kp_Id (kpt_Ports (wk_PodTemplate wk)) []"

text \<open>The ports of an image: distinct numbers, known ids.\<close>

definition ports_ok :: "(string, WorkspaceKindPort) go_map \<Rightarrow> ImageConfigSpec \<Rightarrow> bool" where
  "ports_ok m ic \<longleftrightarrow> distinct (map ip_Port (ics_Ports ic)) \<and> (\<forall>p \<in> set (ics_Ports ic). map_of m (ip_Id p) \<noteq> None)"

definition kind_ok :: "WorkspaceKind \<Rightarrow> bool" where
  "kind_ok wk \<longleftrightarrow>
     redirects_ok icv_Id icv_Redirect (wk_ImageConfigValues wk) \<and>
     redirects_ok pcv_Id pcv_Redirect (wk_PodConfigValues wk) \<and>
     ic_Default (kpt_ImageConfig (wk_PodTemplate wk)) \<in> icv_Id ` set (wk_ImageConfigValues wk) \<and>
     pcf_Default (kpt_PodConfig (wk_PodTemplate wk)) \<in> pcv_Id ` set (wk_PodConfigValues wk) \<and>
     (\<forall>v \<in> set (wk_ImageConfigValues wk). ports_ok (kind_ports wk) (icv_Spec v))"

lemma validate_image_ports_loop_iff:
  "validate_image_ports_loop path m ports seen = [] \<longleftrightarrow>
     distinct (map ip_Port ports) \<and> (\<forall>p \<in> set ports. map_of seen (ip_Port p) = None \<and> map_of m (ip_Id p) \<noteq> None)"
proof (induction ports arbitrary: seen)
  case (Cons p ports)
  have upd: "map_of (AList.update (ip_Port p) True seen) (ip_Port q) = None \<longleftrightarrow>
      ip_Port q \<noteq> ip_Port p \<and> map_of seen (ip_Port q) = None" for q
    by (simp add: update_conv)
  have fresh: "ip_Port p \<notin> ip_Port ` set ports \<longleftrightarrow> (\<forall>q \<in> set ports. ip_Port q \<noteq> ip_Port p)"
    by (metis image_iff)
  show ?case
    by (simp only: validate_image_ports_loop.simps append_is_Nil_conv Cons.IH upd list.map distinct.simps set_map fresh)
      (auto split: option.splits)
qed simp

lemma validateImageConfigValue_iff:
  "validateImageConfigValue v path m = [] \<longleftrightarrow> ports_ok m (icv_Spec v)"
  by (auto simp: validateImageConfigValue_def validate_image_ports_loop_iff ports_ok_def)

lemma validateDefaultOption_iff: "validateDefaultOption what d m = [] \<longleftrightarrow> map_of m d \<noteq> None"
  by (simp add: validateDefaultOption_def split: option.splits)

lemma image_values_errors_iff:
  "image_values_errors m values = [] \<longleftrightarrow> (\<forall>(i, v) \<in> set values. ports_ok m (icv_Spec v))"
  by (auto simp: image_values_errors_def validateImageConfigValue_iff)

lemma index_by_range:
  assumes "distinct (map f vs)"
  shows "snd ` set (index_by f vs []) = set vs"
proof -
  have wf: "wf_map (index_by f vs [])"
    by (rule wf_index_by) simp
  have "v \<in> snd ` set (index_by f vs [])" if "v \<in> set vs" for v
    using index_by_distinct [OF assms that] by (force dest: map_of_SomeD)
  moreover have "v \<in> set vs" if "(i, v) \<in> set (index_by f vs [])" for i v
    using that wf index_by_Some(1) [of f vs i v] by simp
  ultimately show ?thesis by force
qed

lemma kind_options_total:
  obtains ie pe where
    "validateImageConfigRedirects (index_by icv_Id (wk_ImageConfigValues wk) [])
       (redirect_map icv_Id icv_Redirect (wk_ImageConfigValues wk) []) = Some ie"
    "validatePodConfigRedirects (index_by pcv_Id (wk_PodConfigValues wk) [])
       (redirect_map pcv_Id pcv_Redirect (wk_PodConfigValues wk) []) = Some pe"
    "ie = [] \<longleftrightarrow> redirects_ok icv_Id icv_Redirect (wk_ImageConfigValues wk)"
    "pe = [] \<longleftrightarrow> redirects_ok pcv_Id pcv_Redirect (wk_PodConfigValues wk)"
  using validate_redirects_iff [of "''imageConfig''" icv_Id "wk_ImageConfigValues wk" icv_Redirect]
    validate_redirects_iff [of "''podConfig''" pcv_Id "wk_PodConfigValues wk" pcv_Redirect]
  unfolding validateImageConfigRedirects_def validatePodConfigRedirects_def by blast

lemma ValidateCreate_kind_ok:
  assumes "unique_ids wk" and "WorkspaceKind_ValidateCreate K wk = Some (warnings, [])"
  shows "kind_ok wk"
proof -
  from kind_options_total [of wk] obtain ie pe where
    r: "validateImageConfigRedirects (index_by icv_Id (wk_ImageConfigValues wk) [])
       (redirect_map icv_Id icv_Redirect (wk_ImageConfigValues wk) []) = Some ie"
    "validatePodConfigRedirects (index_by pcv_Id (wk_PodConfigValues wk) [])
       (redirect_map pcv_Id pcv_Redirect (wk_PodConfigValues wk) []) = Some pe"
    "ie = [] \<longleftrightarrow> redirects_ok icv_Id icv_Redirect (wk_ImageConfigValues wk)"
    "pe = [] \<longleftrightarrow> redirects_ok pcv_Id pcv_Redirect (wk_PodConfigValues wk)"
    by blast
  with assms(2) have "ie = []" "pe = []"
    "validateDefaultImageConfig wk (index_by icv_Id (wk_ImageConfigValues wk) []) = []"
    "validateDefaultPodConfig wk (index_by pcv_Id (wk_PodConfigValues wk) []) = []"
    "image_values_errors (kind_ports wk) (index_by icv_Id (wk_ImageConfigValues wk) []) = []"
    by (simp_all add: WorkspaceKind_ValidateCreate_def Let_def case_prod_beta)
  moreover have "\<forall>v \<in> set (wk_ImageConfigValues wk). ports_ok (kind_ports wk) (icv_Spec v)"
    using calculation(5) assms(1) index_by_range [of icv_Id "wk_ImageConfigValues wk"]
    by (auto simp: image_values_errors_iff unique_ids_def) fastforce
  ultimately show ?thesis
    using r by (auto simp: kind_ok_def validateDefaultImageConfig_def validateDefaultPodConfig_def
        validateDefaultOption_iff index_by_None)
qed

section \<open>Updates\<close>

text \<open>What \<open>changed_options_loop\<close> has found out about the new values.\<close>

definition changes_of ::
  "('v \<Rightarrow> string) \<Rightarrow> ('v \<Rightarrow> 'v \<Rightarrow> bool) \<Rightarrow> ('v \<Rightarrow> 'v \<Rightarrow> bool) \<Rightarrow> bool \<Rightarrow> (string \<Rightarrow> go_error + int) \<Rightarrow> (string, 'v) go_map
   \<Rightarrow> 'v \<Rightarrow> option_changes \<Rightarrow> bool" where
  "changes_of f eqR eqS all use oldm v st \<longleftrightarrow>
     (oc_validateRedirects st \<or> (\<exists>w. map_of oldm (f v) = Some w \<and> eqR w v)) \<and>
     (f v \<in> fst ` set (oc_toValidate st) \<or> \<not> all \<and> (\<exists>w. map_of oldm (f v) = Some w \<and> eqS w v)) \<and>
     (\<forall>w. map_of oldm (f v) = Some w \<longrightarrow> \<not> eqS w v \<longrightarrow>
        (\<exists>c. use (f v) = Inr c \<and> (0 < c \<longrightarrow> oc_badChanged st \<noteq> [])))"

definition changes_le :: "option_changes \<Rightarrow> option_changes \<Rightarrow> bool" where
  "changes_le st st' \<longleftrightarrow>
     (oc_validateRedirects st \<longrightarrow> oc_validateRedirects st') \<and>
     fst ` set (oc_toValidate st) \<subseteq> fst ` set (oc_toValidate st') \<and>
     (oc_badChanged st \<noteq> [] \<longrightarrow> oc_badChanged st' \<noteq> []) \<and>
     (oc_badRemoved st \<noteq> [] \<longrightarrow> oc_badRemoved st' \<noteq> [])"

lemma update_nonempty [simp]: "AList.update k v m \<noteq> []"
  by (cases m) auto

lemma changes_le_refl: "changes_le st st"
  by (simp add: changes_le_def)

lemma changes_le_trans: "changes_le a b \<Longrightarrow> changes_le b c \<Longrightarrow> changes_le a c"
  by (auto simp: changes_le_def)

lemma changes_of_mono: "changes_le st st' \<Longrightarrow> changes_of f eqR eqS all use oldm v st \<Longrightarrow> changes_of f eqR eqS all use oldm v st'"
  unfolding changes_of_def changes_le_def by blast

lemma changed_options_loop_result:
  "changed_options_loop what f eqR eqS all use oldm vs st = Inr st' \<Longrightarrow>
   changes_le st st' \<and> (\<forall>v \<in> set vs. changes_of f eqR eqS all use oldm v st')"
proof (induction vs arbitrary: st)
  case Nil
  then show ?case by (simp add: changes_le_refl)
next
  case (Cons v vs)
  have step: "\<exists>st1. changed_options_loop what f eqR eqS all use oldm vs st1 = Inr st' \<and>
      changes_le st st1 \<and> changes_of f eqR eqS all use oldm v st1"
  proof (cases "map_of oldm (f v)")
    case None
    with Cons.prems show ?thesis
      by (intro exI [of _ "(if all then st\<lparr>oc_toValidate := AList.update (f v) True (oc_toValidate st)\<rparr> else st)
          \<lparr>oc_toValidate := AList.update (f v) True (oc_toValidate
            (if all then st\<lparr>oc_toValidate := AList.update (f v) True (oc_toValidate st)\<rparr> else st)),
           oc_validateRedirects := True\<rparr>"])
        (auto simp: Let_def changes_le_def changes_of_def dom_update)
  next
    case (Some w)
    define s1 where "s1 = (if all then st\<lparr>oc_toValidate := AList.update (f v) True (oc_toValidate st)\<rparr> else st)"
    define s2 where "s2 = (if \<not> oc_validateRedirects s1 \<and> \<not> eqR w v then s1\<lparr>oc_validateRedirects := True\<rparr> else s1)"
    define s3 where "s3 = s2\<lparr>oc_toValidate := AList.update (f v) True (oc_toValidate s2)\<rparr>"
    have run: "(if \<not> eqS w v then
        case use (f v) of Inl err \<Rightarrow> Inl (usage_error what (f v) err)
        | Inr c \<Rightarrow> changed_options_loop what f eqR eqS all use oldm vs
            (if 0 < c then s3\<lparr>oc_badChanged := AList.update (f v) True (oc_badChanged s3)\<rparr> else s3)
      else changed_options_loop what f eqR eqS all use oldm vs s2) = Inr st'"
      using Cons.prems unfolding s3_def s2_def s1_def changed_options_loop.simps Let_def Some option.case .
    have le: "changes_le st s2" and red: "oc_validateRedirects s2 \<or> eqR w v"
      and val: "all \<longrightarrow> f v \<in> fst ` set (oc_toValidate s2)"
      by (auto simp: s1_def s2_def changes_le_def dom_update)
    show ?thesis
    proof (cases "eqS w v")
      case True
      with run have "changed_options_loop what f eqR eqS all use oldm vs s2 = Inr st'"
        by simp
      moreover have "changes_of f eqR eqS all use oldm v s2"
        using True Some red val by (auto simp: changes_of_def)
      ultimately show ?thesis using le by blast
    next
      case False
      with run obtain c where c: "use (f v) = Inr c"
        and run3: "changed_options_loop what f eqR eqS all use oldm vs
          (if 0 < c then s3\<lparr>oc_badChanged := AList.update (f v) True (oc_badChanged s3)\<rparr> else s3) = Inr st'"
        by (auto split: sum.splits)
      let ?s4 = "if 0 < c then s3\<lparr>oc_badChanged := AList.update (f v) True (oc_badChanged s3)\<rparr> else s3"
      have "changes_le s2 ?s4"
        by (auto simp: s3_def changes_le_def dom_update)
      moreover have "changes_of f eqR eqS all use oldm v ?s4"
        using Some c red by (auto simp: changes_of_def s3_def dom_update)
      ultimately show ?thesis
        using le run3 changes_le_trans by blast
    qed
  qed
  then obtain st1 where st1: "changed_options_loop what f eqR eqS all use oldm vs st1 = Inr st'"
    "changes_le st st1" "changes_of f eqR eqS all use oldm v st1"
    by blast
  with Cons.IH [OF st1(1)] show ?case
    using changes_le_trans changes_of_mono by (metis set_ConsD)
qed

lemma removed_options_loop_result:
  "removed_options_loop what use newm is st = Inr st' \<Longrightarrow>
   changes_le st st' \<and> (\<forall>i \<in> set is. map_of newm i = None \<longrightarrow> oc_validateRedirects st' \<and>
      (\<exists>c. use i = Inr c \<and> (0 < c \<longrightarrow> oc_badRemoved st' \<noteq> [])))"
proof (induction "is" arbitrary: st)
  case Nil
  then show ?case by (simp add: changes_le_refl)
next
  case (Cons i "is")
  show ?case
  proof (cases "map_of newm i")
    case (Some v)
    with Cons show ?thesis by auto
  next
    case None
    with Cons.prems obtain c st1 where c: "use i = Inr c"
      and st1: "st1 = (if 0 < c then st\<lparr>oc_badRemoved := AList.update i True (oc_badRemoved st)\<rparr> else st)
        \<lparr>oc_validateRedirects := True\<rparr>"
      and run: "removed_options_loop what use newm is st1 = Inr st'"
      by (auto split: sum.splits)
    from Cons.IH [OF run] have "changes_le st1 st'"
      and rest: "\<forall>i \<in> set is. map_of newm i = None \<longrightarrow> oc_validateRedirects st' \<and>
        (\<exists>c. use i = Inr c \<and> (0 < c \<longrightarrow> oc_badRemoved st' \<noteq> []))"
      by blast+
    moreover have "changes_le st st1" and "oc_validateRedirects st1" and "0 < c \<longrightarrow> oc_badRemoved st1 \<noteq> []"
      by (auto simp: st1 changes_le_def)
    ultimately have "changes_le st st'" and "oc_validateRedirects st'" and "0 < c \<longrightarrow> oc_badRemoved st' \<noteq> []"
      using changes_le_trans [of st st1 st'] by (simp_all add: changes_le_def [of st1])
    with c rest show ?thesis by auto
  qed
qed

text \<open>The redirects stay valid if no option was added, removed or redirected elsewhere.\<close>

lemma redirects_ok_same:
  assumes d: "distinct (map f old)" "distinct (map f new)"
    and ids: "f ` set old \<subseteq> f ` set new"
    and same: "\<forall>v \<in> set new. \<exists>w. map_of (index_by f old []) (f v) = Some w \<and>
        map_option redir_To (r w) = map_option redir_To (r v)"
    and ok: "redirects_ok f r old"
  shows "redirects_ok f r new"
proof -
  let ?o = "index_by f old []" and ?n = "index_by f new []"
  let ?ro = "redirect_map f r old []" and ?rn = "redirect_map f r new []"
  have dom: "map_of ?n i = None \<longleftrightarrow> map_of ?o i = None" for i
    using ids same by (auto simp: index_by_None image_iff) (metis index_by_Some)+
  have "map_of ?rn i = map_of ?ro i" for i
  proof (cases "map_of ?n i")
    case None
    with dom [of i] show ?thesis
      by (simp add: redirect_map_eq d)
  next
    case (Some v)
    then have "v \<in> set new" and "f v = i"
      by (rule index_by_Some)+
    with same obtain w where "map_of ?o i = Some w" "map_option redir_To (r w) = map_option redir_To (r v)"
      by blast
    with Some show ?thesis
      by (simp add: redirect_map_eq d)
  qed
  then have eq: "map_of ?ro = map_of ?rn" by auto
  with ok dom show ?thesis
    unfolding redirects_ok_def using ends_cong [OF eq] by (metis)
qed

lemma ports_ok_same:
  assumes "ports_ok m ic" and "ics_Ports ic = ics_Ports ic'" and "\<forall>i. map_of m i = None \<longleftrightarrow> map_of m' i = None"
  shows "ports_ok m' ic'"
  using assms by (auto simp: ports_ok_def)

text \<open>
  What \<open>equality.Semantic.DeepEqual\<close> promises of the values it is called with here: equal structures
  have equal leaves.
\<close>

definition Semantic_DeepEqual_sound :: "k8s_lib \<Rightarrow> bool" where
  "Semantic_DeepEqual_sound K \<longleftrightarrow>
     (\<forall>a b. eq_Redirect K a b \<longrightarrow> map_option redir_To a = map_option redir_To b) \<and>
     (\<forall>a b. eq_ImageConfigSpec K a b \<longrightarrow> ics_Image a = ics_Image b \<and> ics_Ports a = ics_Ports b) \<and>
     (\<forall>a b. eq_KindPorts K a b \<longrightarrow> map kp_Id a = map kp_Id b \<and> map kp_Protocol a = map kp_Protocol b)"

lemma kind_ports_None: "map_of (kind_ports wk) i = None \<longleftrightarrow> i \<notin> set (map kp_Id (kpt_Ports (wk_PodTemplate wk)))"
  by (simp add: index_by_None)

lemma calculate_option_changes_result:
  assumes "calculate_option_changes what f eqR eqS all use old new = Inr st"
  shows "(\<forall>v \<in> set new. changes_of f eqR eqS all use (index_by f old []) v st) \<and>
    (\<forall>i \<in> f ` set old - f ` set new. oc_validateRedirects st \<and>
      (\<exists>c. use i = Inr c \<and> (0 < c \<longrightarrow> oc_badRemoved st \<noteq> [])))"
proof -
  let ?o = "index_by f old []" and ?n = "index_by f new []"
  from assms obtain s where s: "changed_options_loop what f eqR eqS all use ?o new option_changes_empty = Inr s"
    and r: "removed_options_loop what use ?n (map fst ?o) s = Inr st"
    by (auto simp: calculate_option_changes_def Let_def split: sum.splits)
  have "\<forall>v \<in> set new. changes_of f eqR eqS all use ?o v st"
    using changed_options_loop_result [OF s] removed_options_loop_result [OF r]
    by (auto intro: changes_of_mono [of s st])
  moreover have "i \<in> set (map fst ?o) \<and> map_of ?n i = None" if "i \<in> f ` set old - f ` set new" for i
    using that index_by_None [of f old i] index_by_None [of f new i]
    by (metis DiffD1 DiffD2 list.set_map map_of_eq_None_iff)
  ultimately show ?thesis
    using removed_options_loop_result [OF r] by blast
qed

lemma select_values_mem:
  "i \<in> fst ` set tv \<Longrightarrow> map_of m i = Some v \<Longrightarrow> (i, v) \<in> set (select_values tv m)"
  by (force simp: select_values_def split: option.splits)

text \<open>What an accepted update has checked.\<close>

lemma ValidateUpdate_accepted:
  assumes "WorkspaceKind_ValidateUpdate K list old new = Some (Inr (warnings, []))"
  obtains ic pc where
    "calculate_option_changes ''imageConfig'' icv_Id (\<lambda>a b. eq_Redirect K (icv_Redirect a) (icv_Redirect b))
       (\<lambda>a b. eq_ImageConfigSpec K (icv_Spec a) (icv_Spec b))
       (\<not> eq_KindPorts K (kpt_Ports (wk_PodTemplate new)) (kpt_Ports (wk_PodTemplate old)))
       (fst (getLazyOptionUsageCountFuncs list old)) (wk_ImageConfigValues old) (wk_ImageConfigValues new) = Inr ic"
    and "calculate_option_changes ''podConfig'' pcv_Id (\<lambda>a b. eq_Redirect K (pcv_Redirect a) (pcv_Redirect b))
       (\<lambda>a b. eq_PodConfigSpec K (pcv_Spec a) (pcv_Spec b)) False
       (snd (getLazyOptionUsageCountFuncs list old)) (wk_PodConfigValues old) (wk_PodConfigValues new) = Inr pc"
    and "oc_badChanged ic = []" "oc_badRemoved ic = []" "oc_badChanged pc = []" "oc_badRemoved pc = []"
    and "oc_validateRedirects ic \<longrightarrow> redirects_ok icv_Id icv_Redirect (wk_ImageConfigValues new)"
    and "oc_validateRedirects pc \<longrightarrow> redirects_ok pcv_Id pcv_Redirect (wk_PodConfigValues new)"
    and "ic_Default (kpt_ImageConfig (wk_PodTemplate new)) \<in> icv_Id ` set (wk_ImageConfigValues new)"
    and "pcf_Default (kpt_PodConfig (wk_PodTemplate new)) \<in> pcv_Id ` set (wk_PodConfigValues new)"
    and "image_values_errors (kind_ports new)
       (select_values (oc_toValidate ic) (index_by icv_Id (wk_ImageConfigValues new) [])) = []"
proof -
  from kind_options_total [of new] obtain ie pe where
    r: "validateImageConfigRedirects (index_by icv_Id (wk_ImageConfigValues new) [])
       (redirect_map icv_Id icv_Redirect (wk_ImageConfigValues new) []) = Some ie"
    "validatePodConfigRedirects (index_by pcv_Id (wk_PodConfigValues new) [])
       (redirect_map pcv_Id pcv_Redirect (wk_PodConfigValues new) []) = Some pe"
    "ie = [] \<longleftrightarrow> redirects_ok icv_Id icv_Redirect (wk_ImageConfigValues new)"
    "pe = [] \<longleftrightarrow> redirects_ok pcv_Id pcv_Redirect (wk_PodConfigValues new)"
    by blast
  note accept = assms [unfolded WorkspaceKind_ValidateUpdate_def Let_def case_prod_beta r(1,2)]
  from accept obtain ic where ic: "calculate_option_changes ''imageConfig'' icv_Id
       (\<lambda>a b. eq_Redirect K (icv_Redirect a) (icv_Redirect b))
       (\<lambda>a b. eq_ImageConfigSpec K (icv_Spec a) (icv_Spec b))
       (\<not> eq_KindPorts K (kpt_Ports (wk_PodTemplate new)) (kpt_Ports (wk_PodTemplate old)))
       (fst (getLazyOptionUsageCountFuncs list old)) (wk_ImageConfigValues old) (wk_ImageConfigValues new) = Inr ic"
    by (auto split: sum.splits)
  note accept = accept [unfolded ic sum.case]
  from accept obtain pc where pc: "calculate_option_changes ''podConfig'' pcv_Id
       (\<lambda>a b. eq_Redirect K (pcv_Redirect a) (pcv_Redirect b))
       (\<lambda>a b. eq_PodConfigSpec K (pcv_Spec a) (pcv_Spec b)) False
       (snd (getLazyOptionUsageCountFuncs list old)) (wk_PodConfigValues old) (wk_PodConfigValues new) = Inr pc"
    by (auto split: sum.splits)
  note accept = accept [unfolded pc sum.case]
  show thesis
  proof (rule that [OF ic pc])
    show "oc_validateRedirects ic \<longrightarrow> redirects_ok icv_Id icv_Redirect (wk_ImageConfigValues new)"
      "oc_validateRedirects pc \<longrightarrow> redirects_ok pcv_Id pcv_Redirect (wk_PodConfigValues new)"
      using accept r(3,4) by (auto split: if_splits)
  qed (use accept in \<open>auto simp: bad_option_errors_def validateDefaultImageConfig_def
      validateDefaultPodConfig_def validateDefaultOption_iff index_by_None split: if_splits\<close>)
qed

lemma option_redirects_kept:
  assumes d: "distinct (map f old)" "distinct (map f new)"
    and c: "calculate_option_changes what f (\<lambda>a b. eq (r a) (r b)) eqS all use old new = Inr st"
    and checked: "oc_validateRedirects st \<longrightarrow> redirects_ok f r new"
    and sound: "\<forall>a b. eq a b \<longrightarrow> map_option redir_To a = map_option redir_To b"
    and ok: "redirects_ok f r old"
  shows "redirects_ok f r new"
proof (cases "oc_validateRedirects st")
  case True
  with checked show ?thesis by simp
next
  case False
  with calculate_option_changes_result [OF c] have "f ` set old \<subseteq> f ` set new"
    and "\<forall>v \<in> set new. \<exists>w. map_of (index_by f old []) (f v) = Some w \<and> eq (r w) (r v)"
    by (auto simp: changes_of_def)
  with sound redirects_ok_same [OF d] ok show ?thesis by metis
qed

lemma ValidateUpdate_kind_ok:
  assumes sound: "Semantic_DeepEqual_sound K" and u: "unique_ids old" "unique_ids new"
    and accept: "WorkspaceKind_ValidateUpdate K list old new = Some (Inr (warnings, []))"
    and ok: "kind_ok old"
  shows "kind_ok new"
proof -
  from ValidateUpdate_accepted [OF accept] obtain ic pc where
    ic: "calculate_option_changes ''imageConfig'' icv_Id (\<lambda>a b. eq_Redirect K (icv_Redirect a) (icv_Redirect b))
       (\<lambda>a b. eq_ImageConfigSpec K (icv_Spec a) (icv_Spec b))
       (\<not> eq_KindPorts K (kpt_Ports (wk_PodTemplate new)) (kpt_Ports (wk_PodTemplate old)))
       (fst (getLazyOptionUsageCountFuncs list old)) (wk_ImageConfigValues old) (wk_ImageConfigValues new) = Inr ic"
    and pc: "calculate_option_changes ''podConfig'' pcv_Id (\<lambda>a b. eq_Redirect K (pcv_Redirect a) (pcv_Redirect b))
       (\<lambda>a b. eq_PodConfigSpec K (pcv_Spec a) (pcv_Spec b)) False
       (snd (getLazyOptionUsageCountFuncs list old)) (wk_PodConfigValues old) (wk_PodConfigValues new) = Inr pc"
    and ri: "oc_validateRedirects ic \<longrightarrow> redirects_ok icv_Id icv_Redirect (wk_ImageConfigValues new)"
    and rp: "oc_validateRedirects pc \<longrightarrow> redirects_ok pcv_Id pcv_Redirect (wk_PodConfigValues new)"
    and def: "ic_Default (kpt_ImageConfig (wk_PodTemplate new)) \<in> icv_Id ` set (wk_ImageConfigValues new)"
      "pcf_Default (kpt_PodConfig (wk_PodTemplate new)) \<in> pcv_Id ` set (wk_PodConfigValues new)"
    and img: "image_values_errors (kind_ports new)
       (select_values (oc_toValidate ic) (index_by icv_Id (wk_ImageConfigValues new) [])) = []"
    by metis
  from sound have eqR: "\<forall>a b. eq_Redirect K a b \<longrightarrow> map_option redir_To a = map_option redir_To b"
    and eqS: "eq_ImageConfigSpec K a b \<Longrightarrow> ics_Ports a = ics_Ports b"
    and eqP: "eq_KindPorts K ps qs \<Longrightarrow> map kp_Id ps = map kp_Id qs" for a b ps qs
    by (auto simp: Semantic_DeepEqual_sound_def)
  have "redirects_ok icv_Id icv_Redirect (wk_ImageConfigValues new)"
    using option_redirects_kept [OF _ _ ic ri eqR] u ok by (simp add: unique_ids_def kind_ok_def)
  moreover have "redirects_ok pcv_Id pcv_Redirect (wk_PodConfigValues new)"
    using option_redirects_kept [OF _ _ pc rp eqR] u ok by (simp add: unique_ids_def kind_ok_def)
  moreover have "ports_ok (kind_ports new) (icv_Spec v)" if v: "v \<in> set (wk_ImageConfigValues new)" for v
  proof -
    have new: "map_of (index_by icv_Id (wk_ImageConfigValues new) []) (icv_Id v) = Some v"
      using u(2) v by (simp add: unique_ids_def index_by_distinct)
    from calculate_option_changes_result [OF ic] v
    consider "icv_Id v \<in> fst ` set (oc_toValidate ic)"
      | w where "eq_KindPorts K (kpt_Ports (wk_PodTemplate new)) (kpt_Ports (wk_PodTemplate old))"
          "map_of (index_by icv_Id (wk_ImageConfigValues old) []) (icv_Id v) = Some w"
          "eq_ImageConfigSpec K (icv_Spec w) (icv_Spec v)"
      unfolding changes_of_def by blast
    then show ?thesis
    proof cases
      case 1
      from select_values_mem [OF this new] img show ?thesis
        by (auto simp: image_values_errors_iff)
    next
      case 2
      from 2(2) have "w \<in> set (wk_ImageConfigValues old)"
        by (rule index_by_Some)
      with ok have "ports_ok (kind_ports old) (icv_Spec w)"
        by (simp add: kind_ok_def)
      then show ?thesis
        using ports_ok_same [OF _ eqS [OF 2(3)]] eqP [OF 2(1)] by (simp add: kind_ports_None)
    qed
  qed
  ultimately show ?thesis
    using def by (simp add: kind_ok_def)
qed

section \<open>Usage counts\<close>

abbreviation count_of :: "(string, int) go_map \<Rightarrow> string \<Rightarrow> int" where
  "count_of m k \<equiv> (case map_of m k of None \<Rightarrow> 0 | Some c \<Rightarrow> c)"

lemma count_of_zeroes:
  "(\<forall>k. count_of m k = 0) \<Longrightarrow> count_of (fold (\<lambda>v. AList.update (f v) 0) vs m) k = 0"
  by (induction vs arbitrary: m) (auto simp: update_conv)

lemma count_of_fold:
  assumes "\<forall>k. 0 \<le> count_of m k \<and> count_of m k + int (length wss) < 2 ^ 31"
  shows "count_of (fold (\<lambda>ws. count_inc (opt ws)) wss m) k = count_of m k + int (length (filter (\<lambda>ws. opt ws = k) wss))"
  using assms
proof (induction wss arbitrary: m)
  case (Cons w wss)
  have "wrap32 (count_of m (opt w) + 1) = count_of m (opt w) + 1"
    using Cons.prems [THEN spec, of "opt w"] by (intro wrap32_id) (simp add: is_int32_def)
  then have step: "count_of (count_inc (opt w) m) k' = count_of m k' + (if opt w = k' then 1 else 0)" for k'
    by (simp add: count_inc_def update_conv)
  have "count_of (fold (\<lambda>ws. count_inc (opt ws)) wss (count_inc (opt w) m)) k =
      count_of (count_inc (opt w) m) k + int (length (filter (\<lambda>ws. opt ws = k) wss))"
  proof (rule Cons.IH, rule allI)
    show "0 \<le> count_of (count_inc (opt w) m) k' \<and> count_of (count_inc (opt w) m) k' + int (length wss) < 2 ^ 31" for k'
      unfolding step using Cons.prems [THEN spec, of k'] by simp
  qed
  then show ?case
    by (simp add: step)
qed simp

lemma usage_counts_exact:
  assumes "int (length wss) < 2 ^ 31"
  shows "count_of (usage_counts f opt vs wss) i = int (length (filter (\<lambda>ws. opt ws = i) wss))"
  unfolding usage_counts_def using assms by (subst count_of_fold) (simp_all add: count_of_zeroes)

lemma usage_counts_used:
  assumes "int (length wss) < 2 ^ 31" and "w \<in> set wss"
  shows "\<exists>c. map_of (usage_counts f opt vs wss) (opt w) = Some c \<and> 0 < c"
proof -
  have "0 < length (filter (\<lambda>ws. opt ws = opt w) wss)"
    using assms(2) by (auto simp: filter_empty_conv)
  moreover have "count_of (usage_counts f opt vs wss) (opt w) = int (length (filter (\<lambda>ws. opt ws = opt w) wss))"
    by (rule usage_counts_exact [OF assms(1)])
  ultimately show ?thesis
    by (cases "map_of (usage_counts f opt vs wss) (opt w)") auto
qed

text \<open>An option in use is still there after an accepted update, with an equal spec.\<close>

lemma used_option_kept:
  assumes c: "calculate_option_changes what f eqR eqS all use old new = Inr st"
    and bad: "oc_badChanged st = []" "oc_badRemoved st = []"
    and d: "distinct (map f old)"
    and v: "v \<in> set old" and used: "\<exists>c. use (f v) = Inr c \<and> 0 < c"
  shows "\<exists>v' \<in> set new. f v' = f v \<and> eqS v v'"
proof -
  note res = calculate_option_changes_result [OF c]
  have "f v \<in> f ` set new"
  proof (rule ccontr)
    assume "f v \<notin> f ` set new"
    with res v have "\<exists>c. use (f v) = Inr c \<and> (0 < c \<longrightarrow> oc_badRemoved st \<noteq> [])"
      by blast
    with bad used show False by auto
  qed
  then obtain v' where v': "v' \<in> set new" "f v' = f v"
    by auto
  with res have "changes_of f eqR eqS all use (index_by f old []) v' st"
    by blast
  moreover have "map_of (index_by f old []) (f v') = Some v"
    using d v v' by (simp add: index_by_distinct)
  ultimately have "eqS v v'"
    using bad used v' unfolding changes_of_def by fastforce
  with v' show ?thesis by blast
qed

end
