(* ===== verification/Kind_Controller.thy ===== *)
theory Kind_Controller
  imports Caches Kind_Validity
begin

text \<open>
  \<open>internal/controller/workspacekind_controller.go\<close>: the reconciler of WorkspaceKinds, which removes the
  protection finalizer of an unused kind, counts the Workspaces of each option and reports the hashes
  of the image assets. It runs in the same monad as the Workspace reconciler.
\<close>

section \<open>The client\<close>

text \<open>\<open>kc_ListWorkspaces\<close> lists by the index on the kind in all namespaces; \<open>kc_GetConfigMap\<close> reads the image source cache.\<close>

record 's kind_client =
  kc_GetKind :: "string \<Rightarrow> ('s, WorkspaceKind) request"
  kc_ListWorkspaces :: "string \<Rightarrow> ('s, Workspace list) request"
  kc_UpdateKind :: "WorkspaceKind \<Rightarrow> ('s, WorkspaceKind) request"
  kc_UpdateKindStatus :: "WorkspaceKind \<Rightarrow> ('s, WorkspaceKind) request"
  kc_GetConfigMap :: "string \<Rightarrow> string \<Rightarrow> ('s, ConfigMap) request"

section \<open>Assets\<close>

definition asset_error :: "ConfigMapError \<Rightarrow> string \<Rightarrow> ImageAssetStatus" where
  "asset_error errType errMsg =
     \<lparr>ias_Sha256 = [], ias_ConfigMap = Some \<lparr>cms_Error = Some errType, cms_ErrorMessage = Some errMsg\<rparr>\<rparr>"

definition asset_status_of ::
  "WorkspaceKindAssetConfigMap \<Rightarrow> go_error + ConfigMap \<Rightarrow> ImageAssetStatus" where
  "asset_status_of cmRef got =
     (case got of
       Inl err \<Rightarrow>
         if IsNotFound err
         then asset_error ConfigMapErrorNotFound
                (''ConfigMap '' @ go_quote (acm_Name cmRef) @ '' not found in namespace '' @
                 go_quote (acm_Namespace cmRef) @ '' (if it exists, ensure it has the '' @
                 go_quote ImageSourceLabel @ '' label)'')
         else asset_error ConfigMapErrorOther
                (''failed to get ConfigMap '' @ go_quote (acm_Name cmRef) @ '' in namespace '' @
                 go_quote (acm_Namespace cmRef) @ '': '' @ err_Error err)
     | Inr cm \<Rightarrow>
         (case map_of (om_Annotations (cm_Meta cm)) (SHA256AnnotationPrefix @ acm_Key cmRef) of
           None \<Rightarrow>
             asset_error ConfigMapErrorKeyNotFound
               (''key '' @ go_quote (acm_Key cmRef) @ '' not found in ConfigMap '' @ go_quote (acm_Name cmRef) @
                '' in namespace '' @ go_quote (acm_Namespace cmRef))
         | Some sha256Hash \<Rightarrow> \<lparr>ias_Sha256 = sha256Hash, ias_ConfigMap = None\<rparr>))"

definition reconcileAssetStatus :: "'s kind_client \<Rightarrow> WorkspaceKindAsset \<Rightarrow> ('s, ImageAssetStatus) act" where
  "reconcileAssetStatus C asset =
     (if as_Url asset \<noteq> None then act_return ImageAssetStatus_zero
      else
        (case as_ConfigMap asset of
          None \<Rightarrow> act_return ImageAssetStatus_zero
        | Some cmRef \<Rightarrow>
            act_bind (act_read (kc_GetConfigMap C (acm_Namespace cmRef) (acm_Name cmRef)))
              (\<lambda>got. act_return (asset_status_of cmRef got))))"

section \<open>The reconcile\<close>

definition kind_finalizer :: "'s kind_client \<Rightarrow> WorkspaceKind \<Rightarrow> Workspace list \<Rightarrow> ('s, WorkspaceKind) act" where
  "kind_finalizer C workspaceKind workspaces =
     (if workspaces = [] \<and> WorkspaceKindFinalizer \<in> set (om_Finalizers (wk_Meta workspaceKind))
      then
        (let workspaceKind = workspaceKind\<lparr>wk_Meta := (wk_Meta workspaceKind)
               \<lparr>om_Finalizers := filter (\<lambda>f. f \<noteq> WorkspaceKindFinalizer) (om_Finalizers (wk_Meta workspaceKind))\<rparr>\<rparr>
         in act_bind (act_write (CallUpdateKind workspaceKind) (kc_UpdateKind C workspaceKind))
              (\<lambda>r. case r of
                 Inl err \<Rightarrow> if IsConflict err then act_finish (requeue_after 1, None) else stop_error err
               | Inr workspaceKind \<Rightarrow> act_return workspaceKind))
      else act_return workspaceKind)"

definition option_metrics :: "('v \<Rightarrow> string) \<Rightarrow> (string, int) go_map \<Rightarrow> 'v list \<Rightarrow> OptionMetric list" where
  "option_metrics idOf counts options =
     map (\<lambda>v. \<lparr>omt_Id = idOf v,
               omt_Workspaces = (case map_of counts (idOf v) of None \<Rightarrow> 0 | Some c \<Rightarrow> c)\<rparr>) options"

definition kind_status ::
  "WorkspaceKind \<Rightarrow> Workspace list \<Rightarrow> ImageAssetStatus \<Rightarrow> ImageAssetStatus \<Rightarrow> WorkspaceKindStatus" where
  "kind_status workspaceKind workspaces icon logo =
     \<lparr>wkst_Workspaces = wrap32 (int (length workspaces)),
      wkst_PodTemplateOptions =
        \<lparr>ptm_ImageConfig =
           option_metrics icv_Id
             (usage_counts icv_Id (\<lambda>ws. wpo_ImageConfig (w_Options ws)) (wk_ImageConfigValues workspaceKind) workspaces)
             (wk_ImageConfigValues workspaceKind),
         ptm_PodConfig =
           option_metrics pcv_Id
             (usage_counts pcv_Id (\<lambda>ws. wpo_PodConfig (w_Options ws)) (wk_PodConfigValues workspaceKind) workspaces)
             (wk_PodConfigValues workspaceKind)\<rparr>,
      wkst_SpawnerIcon = icon,
      wkst_SpawnerLogo = logo\<rparr>"

definition kind_update_status ::
  "k8s_lib \<Rightarrow> 's kind_client \<Rightarrow> WorkspaceKindStatus \<Rightarrow> WorkspaceKind \<Rightarrow> ('s, unit) act" where
  "kind_update_status K C currentStatus workspaceKind =
     (if \<not> eq_WorkspaceKindStatus K currentStatus (wk_Status workspaceKind)
      then
        act_bind (act_write (CallUpdateKindStatus workspaceKind) (kc_UpdateKindStatus C workspaceKind))
          (\<lambda>r. case r of
             Inl err \<Rightarrow> if IsConflict err then act_finish (requeue_after 1, None) else stop_error err
           | Inr _ \<Rightarrow> act_finish (Result_zero, None))
      else act_finish (Result_zero, None))"

definition KindReconcile_found ::
  "k8s_lib \<Rightarrow> 's kind_client \<Rightarrow> WorkspaceKind \<Rightarrow> Workspace list \<Rightarrow> ('s, unit) act" where
  "KindReconcile_found K C original workspaces =
     act_bind (kind_finalizer C original workspaces) (\<lambda>workspaceKind.
     act_bind (reconcileAssetStatus C (sw_Icon (wks_Spawner (wk_Spec workspaceKind)))) (\<lambda>icon.
     act_bind (reconcileAssetStatus C (sw_Logo (wks_Spawner (wk_Spec workspaceKind)))) (\<lambda>logo.
     kind_update_status K C (wk_Status original)
       (workspaceKind\<lparr>wk_Status := kind_status workspaceKind workspaces icon logo\<rparr>))))"

definition KindReconcile_steps :: "k8s_lib \<Rightarrow> 's kind_client \<Rightarrow> string \<Rightarrow> ('s, unit) act" where
  "KindReconcile_steps K C name =
     act_bind (act_read (kc_GetKind C name))
       (\<lambda>r. case r of
          Inl err \<Rightarrow> if IsNotFound err then act_finish (Result_zero, None) else stop_error err
        | Inr workspaceKind \<Rightarrow>
            act_bind (act_read (kc_ListWorkspaces C (wk_Name workspaceKind)))
              (\<lambda>r. case r of
                 Inl err \<Rightarrow> stop_error err
               | Inr workspaces \<Rightarrow> KindReconcile_found K C workspaceKind workspaces))"

definition KindReconcile :: "k8s_lib \<Rightarrow> 's kind_client \<Rightarrow> string \<Rightarrow> 's run \<Rightarrow> outcome \<times> 's run" where
  "KindReconcile K C name s =
     (case KindReconcile_steps K C name s of
       (Inl out, s) \<Rightarrow> (out, s)
     | (Inr _, s) \<Rightarrow> (Returned Result_zero None, s))"

section \<open>Which kinds to reconcile\<close>

text \<open>The requests carry a name only. \<open>listByConfigMap\<close> is the client's \<open>List\<close> by the image source index.\<close>

definition mapWorkspaceToRequest :: "Workspace \<Rightarrow> string list" where
  "mapWorkspaceToRequest ws = [ws_Kind (w_Spec ws)]"

definition mapConfigMapToRequests :: "(string \<Rightarrow> go_error + WorkspaceKind list) \<Rightarrow> ConfigMap \<Rightarrow> string list" where
  "mapConfigMapToRequests listByConfigMap cm =
     (case listByConfigMap (om_Namespace (cm_Meta cm) @ ''/'' @ om_Name (cm_Meta cm)) of
       Inl err \<Rightarrow> []
     | Inr items \<Rightarrow> map wk_Name items)"

section \<open>Lemmas\<close>

definition unprotected :: "WorkspaceKind \<Rightarrow> WorkspaceKind" where
  "unprotected k = k\<lparr>wk_Meta := (wk_Meta k)
     \<lparr>om_Finalizers := filter (\<lambda>f. f \<noteq> WorkspaceKindFinalizer) (om_Finalizers (wk_Meta k))\<rparr>\<rparr>"

lemma kind_finalizer_run:
  assumes "kind_finalizer C k wss s = (r, s')"
  shows "run_calls s' = run_calls s @
      (if wss = [] \<and> WorkspaceKindFinalizer \<in> set (om_Finalizers (wk_Meta k)) then [CallUpdateKind (unprotected k)] else [])"
    and "\<And>out. r = Inl out \<Longrightarrow> out = Returned (requeue_after 1) None \<or> (\<exists>e. out = Returned Result_zero (Some e))"
    and "\<And>k2. r = Inr k2 \<Longrightarrow> k2 = k \<or> (\<exists>w w'. kc_UpdateKind C (unprotected k) w = (Inr k2, w'))"
  using assms
  by (auto simp: kind_finalizer_def unprotected_def Let_def act_bind_def act_write_def act_return_def
      act_finish_def act_stop_def stop_error_def split: if_splits sum.splits prod.splits)

lemma kind_update_status_run:
  assumes "kind_update_status K C cur k s = (r, s')"
  shows "run_calls s' = run_calls s @
      (if eq_WorkspaceKindStatus K cur (wk_Status k) then [] else [CallUpdateKindStatus k])"
    and "\<exists>result err. r = Inl (Returned result err)"
  using assms
  by (auto simp: kind_update_status_def act_bind_def act_write_def act_finish_def act_stop_def stop_error_def
      split: if_splits sum.splits prod.splits)

text \<open>The status of an asset as the image source cache answers, and the kind with its computed status.\<close>

definition asset_answer :: "'s kind_client \<Rightarrow> WorkspaceKindAsset \<Rightarrow> ImageAssetStatus \<Rightarrow> bool" where
  "asset_answer C asset st \<longleftrightarrow>
     (case (as_Url asset, as_ConfigMap asset) of
       (None, Some cmRef) \<Rightarrow>
         (\<exists>w got w'. kc_GetConfigMap C (acm_Namespace cmRef) (acm_Name cmRef) w = (got, w') \<and>
            st = asset_status_of cmRef got)
     | _ \<Rightarrow> st = ImageAssetStatus_zero)"

definition computed_status :: "'s kind_client \<Rightarrow> WorkspaceKind \<Rightarrow> Workspace list \<Rightarrow> WorkspaceKind \<Rightarrow> bool" where
  "computed_status C k wss k' \<longleftrightarrow>
     (\<exists>k2 icon logo.
        (k2 = k \<or> (\<exists>w w'. kc_UpdateKind C (unprotected k) w = (Inr k2, w'))) \<and>
        asset_answer C (sw_Icon (wks_Spawner (wk_Spec k2))) icon \<and>
        asset_answer C (sw_Logo (wks_Spawner (wk_Spec k2))) logo \<and>
        k' = k2\<lparr>wk_Status := kind_status k2 wss icon logo\<rparr>)"

lemma reconcileAssetStatus_run:
  assumes "reconcileAssetStatus C asset s = (r, s')"
  obtains st where "r = Inr st" and "run_calls s' = run_calls s" and "asset_answer C asset st"
proof -
  from assms have "\<exists>st. r = Inr st \<and> run_calls s' = run_calls s \<and> asset_answer C asset st"
    by (auto simp: reconcileAssetStatus_def asset_answer_def act_bind_def act_return_def act_read_def
        split: if_splits option.splits prod.splits) blast
  with that show thesis by blast
qed

text \<open>After the list, either the update of the kind ended the reconcile or a status was computed.\<close>

lemma KindReconcile_found_run:
  assumes "KindReconcile_found K C k wss s = (r, s')"
  obtains (Stopped) out where "r = Inl out"
      and "out = Returned (requeue_after 1) None \<or> (\<exists>e. out = Returned Result_zero (Some e))"
      and "run_calls s' = run_calls s @
        (if wss = [] \<and> WorkspaceKindFinalizer \<in> set (om_Finalizers (wk_Meta k)) then [CallUpdateKind (unprotected k)] else [])"
  | (Computed) k' result err where "r = Inl (Returned result err)" and "computed_status C k wss k'"
      and "run_calls s' = run_calls s @
        (if wss = [] \<and> WorkspaceKindFinalizer \<in> set (om_Finalizers (wk_Meta k)) then [CallUpdateKind (unprotected k)] else []) @
        (if eq_WorkspaceKindStatus K (wk_Status k) (wk_Status k') then [] else [CallUpdateKindStatus k'])"
proof -
  obtain r1 s1 where fin: "kind_finalizer C k wss s = (r1, s1)"
    by fastforce
  show thesis
  proof (cases r1)
    case (Inl out)
    with assms fin have "r = Inl out" and "s' = s1"
      by (auto simp: KindReconcile_found_def act_bind_def)
    with Inl fin show thesis
      using kind_finalizer_run [OF fin] by (intro Stopped) simp_all
  next
    case (Inr k2)
    obtain r2 s2 where icon: "reconcileAssetStatus C (sw_Icon (wks_Spawner (wk_Spec k2))) s1 = (r2, s2)"
      by fastforce
    obtain r3 s3 where logo: "reconcileAssetStatus C (sw_Logo (wks_Spawner (wk_Spec k2))) s2 = (r3, s3)"
      by fastforce
    obtain i where i: "r2 = Inr i" "run_calls s2 = run_calls s1" "asset_answer C (sw_Icon (wks_Spawner (wk_Spec k2))) i"
      using reconcileAssetStatus_run [OF icon] .
    obtain l where l: "r3 = Inr l" "run_calls s3 = run_calls s2" "asset_answer C (sw_Logo (wks_Spawner (wk_Spec k2))) l"
      using reconcileAssetStatus_run [OF logo] .
    define k' where "k' = k2\<lparr>wk_Status := kind_status k2 wss i l\<rparr>"
    have "computed_status C k wss k'"
      unfolding computed_status_def k'_def using kind_finalizer_run(3) [OF fin Inr] i(3) l(3) by blast
    moreover have "kind_update_status K C (wk_Status k) k' s3 = (r, s')"
      using assms fin Inr icon logo i l by (simp add: KindReconcile_found_def act_bind_def k'_def)
    note upd = kind_update_status_run [OF this]
    from upd(2) obtain result err where "r = Inl (Returned result err)"
      by blast
    moreover have "run_calls s' = run_calls s @
        (if wss = [] \<and> WorkspaceKindFinalizer \<in> set (om_Finalizers (wk_Meta k)) then [CallUpdateKind (unprotected k)] else []) @
        (if eq_WorkspaceKindStatus K (wk_Status k) (wk_Status k') then [] else [CallUpdateKindStatus k'])"
      using upd(1) i(2) l(2) kind_finalizer_run(1) [OF fin] by simp
    ultimately show thesis
      by (intro Computed)
  qed
qed

text \<open>What the counts of a status should be.\<close>

definition counts_right :: "WorkspaceKind \<Rightarrow> Workspace list \<Rightarrow> bool" where
  "counts_right k wss \<longleftrightarrow>
     wkst_Workspaces (wk_Status k) = int (length wss) \<and>
     ptm_ImageConfig (wkst_PodTemplateOptions (wk_Status k)) =
       map (\<lambda>v. \<lparr>omt_Id = icv_Id v,
           omt_Workspaces = int (length (filter (\<lambda>ws. wpo_ImageConfig (w_Options ws) = icv_Id v) wss))\<rparr>)
         (wk_ImageConfigValues k) \<and>
     ptm_PodConfig (wkst_PodTemplateOptions (wk_Status k)) =
       map (\<lambda>v. \<lparr>omt_Id = pcv_Id v,
           omt_Workspaces = int (length (filter (\<lambda>ws. wpo_PodConfig (w_Options ws) = pcv_Id v) wss))\<rparr>)
         (wk_PodConfigValues k)"

lemma kind_status_counts:
  "int (length wss) < 2 ^ 31 \<Longrightarrow> computed_status C k wss k' \<Longrightarrow> counts_right k' wss"
  by (auto simp: computed_status_def counts_right_def kind_status_def option_metrics_def usage_counts_exact wrap32_id is_int32_def)

lemma ValidateDelete_counted:
  "counts_right k wss \<Longrightarrow> WorkspaceKind_ValidateDelete k = None \<Longrightarrow> wss = []"
  by (cases wss) (auto simp: counts_right_def WorkspaceKind_ValidateDelete_def split: if_splits)

section \<open>Properties\<close>

text \<open>
  C10. The reconcile of a WorkspaceKind, whatever the API server answers. It always returns. If the
  kind or its Workspaces cannot be read it writes nothing. Otherwise the protection finalizer is
  removed exactly if no Workspace of the kind was listed, and nothing else of the kind changes; a
  status that is written has the exact number of Workspaces of the kind and of each option, so that
  the webhook admits the deletion of a kind with that status only if there was none; and when the
  reconcile ends well without a write to the status, the stored status already was the computed one.
\<close>

theorem KindReconcile_exact:
  assumes "KindReconcile K C name s = (out, s')" and "run_calls s = []"
    and "\<And>n w wss w'. kc_ListWorkspaces C n w = (Inr wss, w') \<Longrightarrow> int (length wss) < 2 ^ 31"
  shows "(\<exists>result err. out = Returned result err) \<and>
    (case kc_GetKind C name (run_world s) of
      (Inl e, _) \<Rightarrow> run_calls s' = [] \<and> out = Returned Result_zero (if IsNotFound e then None else Some e)
    | (Inr k, w1) \<Rightarrow>
        (case kc_ListWorkspaces C (wk_Name k) w1 of
          (Inl e, _) \<Rightarrow> run_calls s' = [] \<and> out = Returned Result_zero (Some e)
        | (Inr wss, _) \<Rightarrow>
            (\<forall>k'. CallUpdateKind k' \<in> set (run_calls s') \<longleftrightarrow>
               wss = [] \<and> WorkspaceKindFinalizer \<in> set (om_Finalizers (wk_Meta k)) \<and> k' = unprotected k) \<and>
            (\<forall>k'. CallUpdateKindStatus k' \<in> set (run_calls s') \<longrightarrow>
               computed_status C k wss k' \<and> counts_right k' wss \<and> (WorkspaceKind_ValidateDelete k' = None \<longrightarrow> wss = [])) \<and>
            (out = Returned Result_zero None \<longrightarrow>
               (\<exists>k'. computed_status C k wss k' \<and>
                  (CallUpdateKindStatus k' \<in> set (run_calls s') \<or>
                   eq_WorkspaceKindStatus K (wk_Status k) (wk_Status k'))))))"
proof -
  obtain g w1 where get: "kc_GetKind C name (run_world s) = (g, w1)"
    by fastforce
  show ?thesis
  proof (cases g)
    case (Inl e)
    with assms get show ?thesis
      by (auto simp: KindReconcile_def KindReconcile_steps_def act_bind_def act_read_def act_finish_def act_stop_def
          stop_error_def split: if_splits)
  next
    case (Inr k)
    obtain l w2 where list: "kc_ListWorkspaces C (wk_Name k) w1 = (l, w2)"
      by fastforce
    show ?thesis
    proof (cases l)
      case (Inl e)
      with assms get Inr list show ?thesis
        by (auto simp: KindReconcile_def KindReconcile_steps_def act_bind_def act_read_def act_stop_def stop_error_def)
    next
      case l: (Inr wss)
      have bound: "int (length wss) < 2 ^ 31"
        using assms(3) list l by simp
      obtain r s2 where found: "KindReconcile_found K C k wss (s\<lparr>run_world := w2\<rparr>) = (r, s2)"
        by fastforce
      from found show ?thesis
      proof (cases rule: KindReconcile_found_run)
        case (Stopped out')
        with assms get Inr list l found show ?thesis
          by (auto simp: KindReconcile_def KindReconcile_steps_def act_bind_def act_read_def
              requeue_after_def Result_zero_def)
      next
        case (Computed k' result err)
        have right: "counts_right k' wss"
          by (rule kind_status_counts [OF bound Computed(2)])
        have "out = Returned result err" "s' = s2"
          using assms get Inr list l found Computed(1)
          by (auto simp: KindReconcile_def KindReconcile_steps_def act_bind_def act_read_def)
        with Computed(2,3) assms(2) right ValidateDelete_counted [OF right] get Inr list l show ?thesis
          by auto
      qed
    qed
  qed
qed

text \<open>A cluster with one kind whose icon is in a ConfigMap, and the given Workspaces of that kind.\<close>

definition icon_config_map :: ConfigMap where
  "icon_config_map =
     \<lparr>cm_Meta = ObjectMeta_zero\<lparr>om_Name := ''icons'', om_Namespace := ''kubeflow''\<rparr>,
      cm_Data = [(''icon.svg'', ''<svg/>'')], cm_BinaryData = []\<rparr>"

definition icon_ref :: WorkspaceKindAssetConfigMap where
  "icon_ref =
     \<lparr>acm_Name = ''icons'', acm_Namespace = ''kubeflow'', acm_Key = ''icon.svg'',
      acm_MediaType = ''image/svg+xml''\<rparr>"

definition icon_cached :: ConfigMap where
  "icon_cached =
     (case TransformConfigMapSHA256 (CacheConfigMap icon_config_map) of
       Inr (CacheConfigMap cm) \<Rightarrow> cm | _ \<Rightarrow> icon_config_map)"

definition protected_kind :: WorkspaceKind where
  "protected_kind =
     sample_kind\<lparr>wk_Meta := (wk_Meta sample_kind)\<lparr>om_Finalizers := [WorkspaceKindFinalizer]\<rparr>\<rparr>"

definition kind_client0 :: "Workspace list \<Rightarrow> unit kind_client" where
  "kind_client0 wss =
     \<lparr>kc_GetKind = (\<lambda>_ _. (Inr protected_kind, ())),
      kc_ListWorkspaces = (\<lambda>_ _. (Inr wss, ())),
      kc_UpdateKind = (\<lambda>k _. (Inr k, ())),
      kc_UpdateKindStatus = (\<lambda>k _. (Inr k, ())),
      kc_GetConfigMap = (\<lambda>_ _ _. (Inr icon_cached, ()))\<rparr>"

definition kind_run0 :: "unit run" where
  "kind_run0 = \<lparr>run_world = (), run_cache = [], run_calls = []\<rparr>"

lemmas kind_sample_defs = kind_client0_def kind_run0_def protected_kind_def

theorem KindReconcile_exact_witness:
  "CallUpdateKind (unprotected protected_kind) \<in> set (run_calls (snd (KindReconcile lib0 (kind_client0 []) ''jupyterlab'' kind_run0))) \<and>
   CallUpdateKind (unprotected protected_kind) \<notin>
     set (run_calls (snd (KindReconcile lib0 (kind_client0 [sample_workspace]) ''jupyterlab'' kind_run0)))"
proof -
  let ?run = "\<lambda>wss. KindReconcile lib0 (kind_client0 wss) ''jupyterlab'' kind_run0"
  have run: "?run wss = (fst (?run wss), snd (?run wss))" "run_calls kind_run0 = []" for wss
    by (simp_all add: kind_run0_def)
  have small: "int (length wss) < 2 ^ 31" if "length ws \<le> 1" and "kc_ListWorkspaces (kind_client0 ws) n w = (Inr wss, w')"
    for ws n w wss w'
    using that by (simp add: kind_client0_def)
  have fin: "WorkspaceKindFinalizer \<in> set (om_Finalizers (wk_Meta protected_kind))"
    by (simp add: protected_kind_def)
  show ?thesis
    using KindReconcile_exact [OF run small, of "[]"] KindReconcile_exact [OF run small, of "[sample_workspace]"] fin
    by (simp add: kind_client0_def)
qed

text \<open>The status that the controller computes of an asset, if its cache holds the transformed ConfigMap.\<close>

lemma reconcileAssetStatus_cached:
  assumes "wf_map (cm_Data cm)" and "wf_map (cm_BinaryData cm)"
    and "map_of (om_Annotations (cm_Meta cm)) (SHA256AnnotationPrefix @ acm_Key ref) = None"
    and "as_Url asset = None" and "as_ConfigMap asset = Some ref"
    and "\<And>cm'. TransformConfigMapSHA256 (CacheConfigMap cm) = Inr (CacheConfigMap cm') \<Longrightarrow>
           kc_GetConfigMap C (acm_Namespace ref) (acm_Name ref) (run_world s) = (Inr cm', w')"
  shows "\<exists>st. reconcileAssetStatus C asset s = (Inr st, s\<lparr>run_world := w'\<rparr>) \<and>
      (case (map_of (cm_BinaryData cm) (acm_Key ref), map_of (cm_Data cm) (acm_Key ref)) of
        (Some bytes, _) \<Rightarrow>
          st = \<lparr>ias_Sha256 = hex_EncodeToString (sha256_Sum256 bytes), ias_ConfigMap = None\<rparr> \<and> length (ias_Sha256 st) = 64
      | (None, Some bytes) \<Rightarrow>
          st = \<lparr>ias_Sha256 = hex_EncodeToString (sha256_Sum256 bytes), ias_ConfigMap = None\<rparr> \<and> length (ias_Sha256 st) = 64
      | (None, None) \<Rightarrow>
          ias_Sha256 st = [] \<and> map_option cms_Error (ias_ConfigMap st) = Some (Some ConfigMapErrorKeyNotFound))"
proof -
  let ?annotations = "annotate_hashes (annotate_hashes (om_Annotations (cm_Meta cm)) (cm_Data cm)) (cm_BinaryData cm)"
  let ?cm = "cm\<lparr>cm_Meta := (cm_Meta cm)\<lparr>om_Annotations := ?annotations\<rparr>\<rparr>"
  have t: "TransformConfigMapSHA256 (CacheConfigMap cm) = Inr (CacheConfigMap ?cm)"
    by (simp add: TransformConfigMapSHA256_def)
  have "reconcileAssetStatus C asset s = (Inr (asset_status_of ref (Inr ?cm)), s\<lparr>run_world := w'\<rparr>)"
    using assms(4,5) assms(6) [OF t]
    by (simp add: reconcileAssetStatus_def act_bind_def act_read_def act_return_def)
  moreover have "map_of ?annotations (SHA256AnnotationPrefix @ acm_Key ref) =
      map_option (\<lambda>bytes. hex_EncodeToString (sha256_Sum256 bytes))
        (case map_of (cm_BinaryData cm) (acm_Key ref) of None \<Rightarrow> map_of (cm_Data cm) (acm_Key ref) | Some b \<Rightarrow> Some b)"
    using assms(1-3) by (simp add: annotate_hashes_lookup split: option.split)
  ultimately show ?thesis
    by (auto simp: asset_status_of_def asset_error_def split: option.split)
qed

text \<open>
  The hash of an image asset, from the ConfigMap in the cluster through the cache transform to
  the status of the kind. If the cache answers with the transformed ConfigMap, the status carries the
  SHA-256 of the bytes under the key (binary data first), 64 hexadecimal digits, and no error; if the
  ConfigMap has no such key the status says so and carries no hash. The transform never fails, and
  changes nothing but annotations.
\<close>

theorem asset_hash_roundtrip:
  assumes "wf_map (cm_Data cm)" and "wf_map (cm_BinaryData cm)"
    and "map_of (om_Annotations (cm_Meta cm)) (SHA256AnnotationPrefix @ acm_Key ref) = None"
    and "as_Url asset = None" and "as_ConfigMap asset = Some ref"
    and "\<And>cm'. TransformConfigMapSHA256 (CacheConfigMap cm) = Inr (CacheConfigMap cm') \<Longrightarrow>
           kc_GetConfigMap C (acm_Namespace ref) (acm_Name ref) (run_world s) = (Inr cm', w')"
  shows "(\<exists>annotations. TransformConfigMapSHA256 (CacheConfigMap cm) =
        Inr (CacheConfigMap (cm\<lparr>cm_Meta := (cm_Meta cm)\<lparr>om_Annotations := annotations\<rparr>\<rparr>))) \<and>
    (\<exists>st. reconcileAssetStatus C asset s = (Inr st, s\<lparr>run_world := w'\<rparr>) \<and>
      (case (map_of (cm_BinaryData cm) (acm_Key ref), map_of (cm_Data cm) (acm_Key ref)) of
        (Some bytes, _) \<Rightarrow>
          st = \<lparr>ias_Sha256 = hex_EncodeToString (sha256_Sum256 bytes), ias_ConfigMap = None\<rparr> \<and> length (ias_Sha256 st) = 64
      | (None, Some bytes) \<Rightarrow>
          st = \<lparr>ias_Sha256 = hex_EncodeToString (sha256_Sum256 bytes), ias_ConfigMap = None\<rparr> \<and> length (ias_Sha256 st) = 64
      | (None, None) \<Rightarrow>
          ias_Sha256 st = [] \<and> map_option cms_Error (ias_ConfigMap st) = Some (Some ConfigMapErrorKeyNotFound)))"
  using reconcileAssetStatus_cached [OF assms] by (auto simp: TransformConfigMapSHA256_def)

theorem asset_hash_roundtrip_witness:
  "fst (reconcileAssetStatus (kind_client0 []) \<lparr>as_Url = None, as_ConfigMap = Some icon_ref\<rparr> kind_run0) =
     Inr \<lparr>ias_Sha256 = hex_EncodeToString (sha256_Sum256 ''<svg/>''), ias_ConfigMap = None\<rparr>"
proof -
  have cached: "kc_GetConfigMap (kind_client0 []) (acm_Namespace icon_ref) (acm_Name icon_ref) (run_world kind_run0) = (Inr cm', ())"
    if "TransformConfigMapSHA256 (CacheConfigMap icon_config_map) = Inr (CacheConfigMap cm')" for cm'
    using that by (simp add: kind_client0_def icon_cached_def)
  show ?thesis
    using asset_hash_roundtrip [of icon_config_map icon_ref "\<lparr>as_Url = None, as_ConfigMap = Some icon_ref\<rparr>"
        "kind_client0 []" kind_run0 "()", OF _ _ _ _ _ cached]
    by (auto simp: icon_config_map_def icon_ref_def ObjectMeta_zero_def)
qed

end
