(* ===== verification/Admission.thy ===== *)
theory Admission
  imports Kind_Validity Samples
begin

text \<open>
  The guarantees of the two admission webhooks, across components: what a WorkspaceKind that was
  let through promises to the controller that later works with it.
\<close>

section \<open>Kinds that the webhook let through\<close>

text \<open>
  A WorkspaceKind of the cluster was accepted when it was created, and so was each of its later
  updates, each with the Workspaces that existed at that time.
\<close>

inductive admitted :: "k8s_lib \<Rightarrow> WorkspaceKind \<Rightarrow> bool" for K where
  admitted_create:
    "unique_ids wk \<Longrightarrow> WorkspaceKind_ValidateCreate K wk = Some (warnings, []) \<Longrightarrow> admitted K wk"
| admitted_update:
    "admitted K old \<Longrightarrow> unique_ids new \<Longrightarrow>
     WorkspaceKind_ValidateUpdate K listByKind old new = Some (Inr (warnings, [])) \<Longrightarrow> admitted K new"

lemma admitted_unique_ids: "admitted K wk \<Longrightarrow> unique_ids wk"
  by (cases rule: admitted.cases) auto

lemma admitted_kind_ok:
  assumes "Semantic_DeepEqual_sound K" and "admitted K wk"
  shows "kind_ok wk"
  using assms(2)
proof (induction rule: admitted.induct)
  case (admitted_create wk warnings)
  then show ?case by (rule ValidateCreate_kind_ok)
next
  case (admitted_update old new listByKind warnings)
  then show ?case
    using ValidateUpdate_kind_ok [OF assms(1)] admitted_unique_ids by blast
qed

text \<open>The converse of \<open>redirects_ok_resolves\<close>.\<close>

lemma resolves_ends:
  assumes d: "distinct (map f vs)"
  shows "resolves f r (index_by f vs []) v t steps \<Longrightarrow> map_of (index_by f vs []) (f v) = Some v \<Longrightarrow>
    ends (redirect_map f r vs []) (f v)"
proof (induction rule: resolves.induct)
  case (resolves_stop v)
  with d show ?case by (intro ends_stop) (simp add: redirect_map_eq)
next
  case (resolves_step v rd v' t steps)
  from resolves_step.hyps(2) have "f v' = redir_To rd"
    by (rule index_by_Some)
  with resolves_step.IH resolves_step.hyps(2) have "ends (redirect_map f r vs []) (redir_To rd)"
    by simp
  moreover have "map_of (redirect_map f r vs []) (f v) = Some (redir_To rd)"
    using d resolves_step.prems resolves_step.hyps(1) by (simp add: redirect_map_eq)
  ultimately show ?case by (rule ends_step [rotated])
qed

lemma redirects_ok_iff:
  assumes d: "distinct (map f vs)"
  shows "redirects_ok f r vs \<longleftrightarrow> (\<forall>key \<in> f ` set vs. \<exists>x. getOptionConfig what f r vs key = Some (Inr x))"
proof
  assume "redirects_ok f r vs"
  with redirects_ok_result [OF d] show "\<forall>key \<in> f ` set vs. \<exists>x. getOptionConfig what f r vs key = Some (Inr x)"
    by blast
next
  assume all: "\<forall>key \<in> f ` set vs. \<exists>x. getOptionConfig what f r vs key = Some (Inr x)"
  let ?m = "index_by f vs []"
  have res: "\<exists>t steps. resolves f r ?m v t steps" if v: "v \<in> set vs" for v
  proof -
    from all v obtain x where "getOptionConfig what f r vs (f v) = Some (Inr x)"
      by blast
    then have "option_result f r vs (f v) x"
      by (simp add: getOptionConfig_iff)
    with index_by_distinct [OF d v] show ?thesis
      by (auto simp: option_result_def)
  qed
  show "redirects_ok f r vs"
    unfolding redirects_ok_def
  proof (intro allI impI conjI)
    fix i t
    assume "map_of (redirect_map f r vs []) i = Some t"
    then obtain v rd where v: "map_of ?m i = Some v" and rd: "r v = Some rd" "redir_To rd = t"
      by (auto simp: redirect_map_eq [OF d] split: option.splits)
    from v have "v \<in> set vs" "f v = i"
      by (rule index_by_Some)+
    with res obtain e steps where e: "resolves f r ?m v e steps"
      by blast
    with resolves_ends [OF d] v \<open>f v = i\<close> show "ends (redirect_map f r vs []) i"
      by blast
    from e rd show "map_of ?m t \<noteq> None"
      by (cases rule: resolves.cases) auto
  qed
qed

section \<open>Activity rules\<close>

definition configures_pause :: "ActivityRule \<Rightarrow> bool" where
  "configures_pause rule \<longleftrightarrow> are_PauseWorkspace (ar_Effect rule) \<noteq> None"

text \<open>A catch-all rule is one that configures the effect and has no condition.\<close>

definition catch_all :: "ActivityRule \<Rightarrow> bool" where
  "catch_all rule \<longleftrightarrow> configures_pause rule \<and> ar_Match rule = []"

definition rule_match_path :: "nat \<Rightarrow> string" where
  "rule_match_path i = path_Child (path_Index ''spec.activityRules'' i) ''match''"

lemma validate_activity_rules_loop_hasPause:
  "fst (validate_activity_rules_loop K p i rules hp hc errs ws) \<longleftrightarrow>
     hp \<or> (\<exists>r \<in> set rules. are_PauseWorkspace (ar_Effect r) = Some True)"
  by (induction rules arbitrary: i hp hc errs ws)
    (auto simp: Let_def case_prod_beta split: option.splits if_splits)


lemma validate_activity_rules_loop_errors:
  "fst (snd (validate_activity_rules_loop K p i rules hp hc errs ws)) = [] \<longleftrightarrow>
     errs = [] \<and>
     list_all (\<lambda>(j, r). validate_activity_matches K (rule_match_path j) 0 (ar_Match r) = []) (enumerate i rules) \<and>
     (hc \<longrightarrow> \<not> list_ex catch_all rules) \<and>
     sorted_wrt (\<lambda>a b. catch_all a \<longrightarrow> \<not> configures_pause b) rules"
proof (induction rules arbitrary: i hp hc errs ws)
  case (Cons r rules)

  show ?case
  proof (cases "are_PauseWorkspace (ar_Effect r)")
    case None
    then have "\<not> configures_pause r"
      by (simp add: configures_pause_def)
    with None show ?thesis
      by (auto simp: Let_def Cons.IH rule_match_path_def catch_all_def)
  next
    case (Some pause)
    then show ?thesis
      by (auto simp: Let_def Cons.IH rule_match_path_def catch_all_def configures_pause_def list_ex_iff)
  qed
qed simp

text \<open>
  \<open>ValidateLabelSelector\<close> rejects every selector that \<open>LabelSelectorAsSelector\<close> cannot convert, and the
  schema admits exactly one matcher per condition.
\<close>

definition ValidateLabelSelector_sound :: "k8s_lib \<Rightarrow> bool" where
  "ValidateLabelSelector_sound K \<longleftrightarrow>
     (\<forall>s path. ValidateLabelSelector K s path = [] \<longrightarrow> (\<exists>f. LabelSelectorAsSelector K s = Inr f))"

definition one_matcher :: "ActivityRule \<Rightarrow> bool" where
  "one_matcher rule \<longleftrightarrow>
     list_all (\<lambda>m. (arm_MatchNamespace m = None) \<noteq> (arm_MatchPodConfig m = None)) (ar_Match rule)"

lemma validate_activity_matches_valid:
  assumes "ValidateLabelSelector_sound K"
    and "list_all (\<lambda>m. (arm_MatchNamespace m = None) \<noteq> (arm_MatchPodConfig m = None)) ms"
    and "validate_activity_matches K path j ms = []"
  shows "list_all (match_valid K) ms"
  using assms(2,3)
  by (induction ms arbitrary: j)
    (use assms(1) in \<open>auto simp: ValidateLabelSelector_sound_def match_valid_def match_target_def split: option.splits\<close>)

lemma list_all_enumerate: "list_all (\<lambda>(j, x). P j x) (enumerate i xs) \<Longrightarrow> (\<And>j x. P j x \<Longrightarrow> Q x) \<Longrightarrow> list_all Q xs"
  by (induction xs arbitrary: i) auto

lemma validateActivityRules_errors:
  "fst (validateActivityRules K wk) = [] \<longleftrightarrow>
     list_all (\<lambda>(i, rule). validate_activity_matches K (rule_match_path i) 0 (ar_Match rule) = [])
       (enumerate 0 (wks_ActivityRules (wk_Spec wk))) \<and>
     sorted_wrt (\<lambda>a b. catch_all a \<longrightarrow> \<not> configures_pause b) (wks_ActivityRules (wk_Spec wk)) \<and>
     (list_ex (\<lambda>rule. are_PauseWorkspace (ar_Effect rule) = Some True) (wks_ActivityRules (wk_Spec wk)) \<longrightarrow>
      kpt_ActivityProbe (wk_PodTemplate wk) \<noteq> None)"
proof -
  obtain hp errs ws where r: "validate_activity_rules_loop K
      (case Option.bind (kpt_ActivityProbe (wk_PodTemplate wk)) ap_ProbeIntervalSeconds of
         None \<Rightarrow> DefaultProbeIntervalSeconds | Some s \<Rightarrow> s) 0
      (wks_ActivityRules (wk_Spec wk)) False False [] [] = (hp, errs, ws)"
    by (metis prod_cases3)
  from arg_cong [OF r, of fst] have "hp \<longleftrightarrow>
      list_ex (\<lambda>rule. are_PauseWorkspace (ar_Effect rule) = Some True) (wks_ActivityRules (wk_Spec wk))"
    by (simp add: validate_activity_rules_loop_hasPause list_ex_iff)
  moreover from arg_cong [OF r, of "\<lambda>x. fst (snd x) = []"] have "errs = [] \<longleftrightarrow>
     list_all (\<lambda>(i, rule). validate_activity_matches K (rule_match_path i) 0 (ar_Match rule) = [])
       (enumerate 0 (wks_ActivityRules (wk_Spec wk))) \<and>
     sorted_wrt (\<lambda>a b. catch_all a \<longrightarrow> \<not> configures_pause b) (wks_ActivityRules (wk_Spec wk))"
    by (simp add: validate_activity_rules_loop_errors)
  ultimately show ?thesis
    by (auto simp: validateActivityRules_def Let_def r)
qed

lemma accepted_rules_valid:
  assumes "ValidateLabelSelector_sound K" and "list_all one_matcher (wks_ActivityRules (wk_Spec wk))"
    and "fst (validateActivityRules K wk) = []"
  shows "rules_valid K (wks_ActivityRules (wk_Spec wk))"
proof -
  from assms(3) have "list_all (\<lambda>rule. \<exists>i. validate_activity_matches K (rule_match_path i) 0 (ar_Match rule) = [])
      (wks_ActivityRules (wk_Spec wk))"
    unfolding validateActivityRules_errors by (blast intro: list_all_enumerate)
  with assms(2) show ?thesis
    unfolding rules_valid_def list_all_iff one_matcher_def
    using validate_activity_matches_valid [OF assms(1)] by (fastforce simp: list_all_iff)
qed

lemma first_rule_decision_catch_all:
  assumes "\<exists>rule \<in> set rules. catch_all rule"
  shows "ard_Matched (first_rule_decision K zero ns pc are_PauseWorkspace rules)"
proof -
  from assms have "find (rule_applies K ns pc are_PauseWorkspace) rules \<noteq> None"
    by (auto simp: find_None_iff rule_applies_def catch_all_def configures_pause_def)
  then obtain rule where r: "find (rule_applies K ns pc are_PauseWorkspace) rules = Some rule"
    by blast
  then have "are_PauseWorkspace (ar_Effect rule) \<noteq> None"
    by (auto simp: find_Some_iff rule_applies_def)
  with r show ?thesis
    by (auto simp: first_rule_decision_def rule_decision_def)
qed

section \<open>Samples\<close>

text \<open>
  A kind that is created without a warning, and an update of it: the newer image, which nobody uses,
  is replaced by another one, and the image that is used is redirected there.
\<close>

definition first_kind :: WorkspaceKind where
  "first_kind = sample_kind\<lparr>wk_Spec := (wk_Spec sample_kind)\<lparr>wks_ActivityRules :=
     [\<lparr>ar_Config = \<lparr>arc_SecondsSinceActive = 7200, arc_MinRunningSeconds = Some 600\<rparr>,
       ar_Match = [], ar_Effect = \<lparr>are_PauseWorkspace = Some True\<rparr>\<rparr>]\<rparr>\<rparr>"

definition grown_kind :: WorkspaceKind where
  "grown_kind = first_kind\<lparr>wk_Spec := (wk_Spec first_kind)\<lparr>wks_PodTemplate := sample_pod_template
     \<lparr>kpt_ImageConfig := \<lparr>ic_Default = ''img3'',
        ic_Values = [sample_image ''img1'' (Some ''img3''), sample_image ''img3'' None]\<rparr>\<rparr>\<rparr>\<rparr>"

lemma first_created: "WorkspaceKind_ValidateCreate lib0 first_kind = Some ([], [])"
  by (code_simp, simp add: DetectGraphCycle_loop.simps, code_simp, simp add: DetectGraphCycle_loop.simps,
    code_simp)

lemma grown_updated:
  "WorkspaceKind_ValidateUpdate lib0 (\<lambda>_. Inr [sample_workspace]) first_kind grown_kind = Some (Inr ([], []))"
  by (code_simp, simp add: DetectGraphCycle_loop.simps)

lemma sample_unique_ids: "unique_ids first_kind" "unique_ids grown_kind"
  by (simp_all add: unique_ids_def first_kind_def grown_kind_def sample_defs)

lemma grown_kind_admitted: "admitted lib0 grown_kind"
  by (rule admitted_update [OF admitted_create [OF _ first_created] _ grown_updated]) (rule sample_unique_ids)+

lemma lib0_DeepEqual: "Semantic_DeepEqual_sound lib0"
  by (simp add: Semantic_DeepEqual_sound_def lib0_def)

text \<open>Every pair of option ids is selected by some Workspace.\<close>

lemma workspace_with_options: "\<exists>w. wpo_ImageConfig (w_Options w) = i \<and> wpo_PodConfig (w_Options w) = p"
  by (rule exI [of _ "sample_workspace\<lparr>w_Spec := (w_Spec sample_workspace)\<lparr>ws_PodTemplate :=
    (ws_PodTemplate (w_Spec sample_workspace))\<lparr>wpt_Options := \<lparr>wpo_ImageConfig = i, wpo_PodConfig = p\<rparr>\<rparr>\<rparr>\<rparr>"]) simp

section \<open>Properties\<close>

text \<open>
  C9. The redirect check of the webhook is the one the controller needs: it always returns, and on
  option lists with distinct ids it reports no error exactly if the controller can resolve every
  option of the list. The same holds for image and pod configs.
\<close>

theorem validate_redirects_exact:
  "(\<exists>errs. validateImageConfigRedirects (index_by icv_Id (wk_ImageConfigValues wk) [])
      (redirect_map icv_Id icv_Redirect (wk_ImageConfigValues wk) []) = Some errs \<and>
    (distinct (map icv_Id (wk_ImageConfigValues wk)) \<longrightarrow>
     (errs = []) = (\<forall>w. wpo_ImageConfig (w_Options w) \<in> icv_Id ` set (wk_ImageConfigValues wk) \<longrightarrow>
                       (\<exists>x. getImageConfig w wk = Some (Inr x))))) \<and>
   (\<exists>errs. validatePodConfigRedirects (index_by pcv_Id (wk_PodConfigValues wk) [])
      (redirect_map pcv_Id pcv_Redirect (wk_PodConfigValues wk) []) = Some errs \<and>
    (distinct (map pcv_Id (wk_PodConfigValues wk)) \<longrightarrow>
     (errs = []) = (\<forall>w. wpo_PodConfig (w_Options w) \<in> pcv_Id ` set (wk_PodConfigValues wk) \<longrightarrow>
                       (\<exists>x. getPodConfig w wk = Some (Inr x)))))"
proof -
  from kind_options_total [of wk] obtain ie pe where
    r: "validateImageConfigRedirects (index_by icv_Id (wk_ImageConfigValues wk) [])
       (redirect_map icv_Id icv_Redirect (wk_ImageConfigValues wk) []) = Some ie"
    "validatePodConfigRedirects (index_by pcv_Id (wk_PodConfigValues wk) [])
       (redirect_map pcv_Id pcv_Redirect (wk_PodConfigValues wk) []) = Some pe"
    "ie = [] \<longleftrightarrow> redirects_ok icv_Id icv_Redirect (wk_ImageConfigValues wk)"
    "pe = [] \<longleftrightarrow> redirects_ok pcv_Id pcv_Redirect (wk_PodConfigValues wk)"
    by blast
  have image: "(\<forall>w. wpo_ImageConfig (w_Options w) \<in> A \<longrightarrow> P (wpo_ImageConfig (w_Options w))) = (\<forall>key \<in> A. P key)"
    and pod: "(\<forall>w. wpo_PodConfig (w_Options w) \<in> A \<longrightarrow> P (wpo_PodConfig (w_Options w))) = (\<forall>key \<in> A. P key)" for A P
    using workspace_with_options by metis+
  have "distinct (map icv_Id (wk_ImageConfigValues wk)) \<longrightarrow>
      (ie = []) = (\<forall>w. wpo_ImageConfig (w_Options w) \<in> icv_Id ` set (wk_ImageConfigValues wk) \<longrightarrow>
        (\<exists>x. getImageConfig w wk = Some (Inr x)))"
    unfolding r(3) getImageConfig_def by (subst image) (intro impI redirects_ok_iff)
  moreover have "distinct (map pcv_Id (wk_PodConfigValues wk)) \<longrightarrow>
      (pe = []) = (\<forall>w. wpo_PodConfig (w_Options w) \<in> pcv_Id ` set (wk_PodConfigValues wk) \<longrightarrow>
        (\<exists>x. getPodConfig w wk = Some (Inr x)))"
    unfolding r(4) getPodConfig_def by (subst pod) (intro impI redirects_ok_iff)
  ultimately show ?thesis
    unfolding r(1,2) by blast
qed

theorem validate_redirects_exact_witness:
  "\<exists>x. getImageConfig sample_workspace first_kind = Some (Inr x)"
proof -
  have "validateImageConfigRedirects (index_by icv_Id (wk_ImageConfigValues first_kind) [])
      (redirect_map icv_Id icv_Redirect (wk_ImageConfigValues first_kind) []) = Some []"
    by (code_simp, simp add: DetectGraphCycle_loop.simps)
  moreover have "wpo_ImageConfig (w_Options sample_workspace) \<in> icv_Id ` set (wk_ImageConfigValues first_kind)"
    by (simp add: first_kind_def sample_defs)
  ultimately show ?thesis
    using validate_redirects_exact [of first_kind] sample_unique_ids(1) by (auto simp: unique_ids_def)
qed

text \<open>
  C7. Whatever sequence of accepted creations and updates a WorkspaceKind went through, a Workspace
  that the Workspace webhook accepts for it has options the controller can resolve, and so does
  every accepted update of the Workspace that keeps its kind.
\<close>

theorem admitted_options_resolve:
  assumes "Semantic_DeepEqual_sound K" and "admitted K wk"
    and "getKind (ws_Kind (w_Spec old)) = Inr wk" and "ws_Kind (w_Spec w) = ws_Kind (w_Spec old)"
    and "Workspace_ValidateCreate K getKind old = []" and "Workspace_ValidateUpdate K getKind old w = []"
  shows "(\<exists>image. getImageConfig w wk = Some (Inr image)) \<and> (\<exists>pod. getPodConfig w wk = Some (Inr pod))"
proof -
  from Workspace_ValidateCreate_accepts [OF assms(5)] assms(3) have "options_exist old wk"
    by simp
  from Workspace_ValidateUpdate_accepts [OF assms(6,4,3) this] have opts: "options_exist w wk" .
  have "kind_ok wk" and "unique_ids wk"
    using admitted_kind_ok [OF assms(1,2)] admitted_unique_ids [OF assms(2)] by auto
  with opts show ?thesis
    unfolding getImageConfig_def getPodConfig_def options_exist_def kind_ok_def unique_ids_def
    using redirects_ok_result [of icv_Id "wk_ImageConfigValues wk"]
      redirects_ok_result [of pcv_Id "wk_PodConfigValues wk"] by blast
qed

theorem admitted_options_resolve_witness:
  "(\<exists>image. getImageConfig sample_workspace grown_kind = Some (Inr image)) \<and>
   (\<exists>pod. getPodConfig sample_workspace grown_kind = Some (Inr pod))"
proof -
  have "Workspace_ValidateCreate lib0 (\<lambda>_. Inr grown_kind) sample_workspace = []"
    "Workspace_ValidateUpdate lib0 (\<lambda>_. Inr grown_kind) sample_workspace sample_workspace = []"
    by code_simp+
  from admitted_options_resolve [OF lib0_DeepEqual grown_kind_admitted _ _ this] show ?thesis
    by simp
qed

text \<open>
  Every image of a WorkspaceKind that went through any sequence of accepted creations and updates
  yields a Service, as long as its ports speak HTTP (the only protocol of the schema), and the
  container ports of the StatefulSet; neither generator finds a duplicate or unknown port.
\<close>

theorem admitted_service:
  assumes "Semantic_DeepEqual_sound K" and "admitted K wk"
    and "\<forall>p \<in> set (kpt_Ports (wk_PodTemplate wk)). kp_Protocol p = ImagePortProtocolHTTP"
    and "v \<in> set (wk_ImageConfigValues wk)"
  shows "(\<exists>svc. generateService w wk (icv_Spec v) = Inr svc) \<and>
    (\<exists>ports. container_ports_loop (ics_Ports (icv_Spec v)) [] = Inr ports)"
proof -
  from admitted_kind_ok [OF assms(1,2)] assms(4) have ok: "ports_ok (kind_ports wk) (icv_Spec v)"
    by (simp add: kind_ok_def)
  have "http_port (kind_ports wk) p" if p: "p \<in> set (ics_Ports (icv_Spec v))" for p
  proof -
    from ok p obtain kp where kp: "map_of (kind_ports wk) (ip_Id p) = Some kp"
      by (auto simp: ports_ok_def)
    then have "kp \<in> set (kpt_Ports (wk_PodTemplate wk))"
      by (rule index_by_Some)
    with assms(3) kp show ?thesis by (simp add: http_port_def)
  qed
  then have "list_all (http_port (kind_ports wk)) (ics_Ports (icv_Spec v))"
    by (simp add: list_all_iff)
  with ok have "\<exists>sps. service_ports_loop (kind_ports wk) (ics_Ports (icv_Spec v)) [] = Inr sps"
    by (simp add: service_ports_loop_iff ports_ok_def)
  then have "\<exists>svc. generateService w wk (icv_Spec v) = Inr svc"
    by (auto simp: generateService_def Let_def)
  moreover have "\<exists>ports. container_ports_loop (ics_Ports (icv_Spec v)) [] = Inr ports"
    using ok by (simp add: container_ports_loop_iff ports_ok_def)
  ultimately show ?thesis by blast
qed

theorem admitted_service_witness:
  "(\<exists>svc. generateService sample_workspace grown_kind sample_image_spec = Inr svc) \<and>
   (\<exists>ports. container_ports_loop (ics_Ports sample_image_spec) [] = Inr ports)"
  using admitted_service [OF lib0_DeepEqual grown_kind_admitted, of "sample_image ''img3'' None" sample_workspace]
  by (simp add: grown_kind_def first_kind_def sample_defs)

text \<open>
  C8. An accepted update of a WorkspaceKind keeps every option that a Workspace of the kind uses: the
  option is still there and its spec is the same as before. (The counters are 32 bit wide, so this
  needs fewer than \<open>2 ^ 31\<close> Workspaces.)
\<close>

theorem update_keeps_used_options:
  assumes "WorkspaceKind_ValidateUpdate K listByKind old new = Some (Inr (warnings, []))"
    and "unique_ids old" and "listByKind (wk_Name old) = Inr workspaces" and "int (length workspaces) < 2 ^ 31"
    and "w \<in> set workspaces" and "v \<in> set (wk_ImageConfigValues old)" and "p \<in> set (wk_PodConfigValues old)"
    and "wpo_ImageConfig (w_Options w) = icv_Id v" and "wpo_PodConfig (w_Options w) = pcv_Id p"
  shows "(\<exists>v' \<in> set (wk_ImageConfigValues new). icv_Id v' = icv_Id v \<and> eq_ImageConfigSpec K (icv_Spec v) (icv_Spec v')) \<and>
    (\<exists>p' \<in> set (wk_PodConfigValues new). pcv_Id p' = pcv_Id p \<and> eq_PodConfigSpec K (pcv_Spec p) (pcv_Spec p'))"
proof -
  have "\<exists>c. fst (getLazyOptionUsageCountFuncs listByKind old) (icv_Id v) = Inr c \<and> 0 < c"
    "\<exists>c. snd (getLazyOptionUsageCountFuncs listByKind old) (pcv_Id p) = Inr c \<and> 0 < c"
    using usage_counts_used [OF assms(4,5), of icv_Id "\<lambda>ws. wpo_ImageConfig (w_Options ws)" "wk_ImageConfigValues old"]
      usage_counts_used [OF assms(4,5), of pcv_Id "\<lambda>ws. wpo_PodConfig (w_Options ws)" "wk_PodConfigValues old"]
      assms(3,8,9)
    by (auto simp: getLazyOptionUsageCountFuncs_def getOptionsUsageCounts_def usage_lookup_def Let_def)
  note used = this
  from ValidateUpdate_accepted [OF assms(1)] obtain ic pc where
    "calculate_option_changes ''imageConfig'' icv_Id (\<lambda>a b. eq_Redirect K (icv_Redirect a) (icv_Redirect b))
       (\<lambda>a b. eq_ImageConfigSpec K (icv_Spec a) (icv_Spec b))
       (\<not> eq_KindPorts K (kpt_Ports (wk_PodTemplate new)) (kpt_Ports (wk_PodTemplate old)))
       (fst (getLazyOptionUsageCountFuncs listByKind old)) (wk_ImageConfigValues old) (wk_ImageConfigValues new) = Inr ic"
    "calculate_option_changes ''podConfig'' pcv_Id (\<lambda>a b. eq_Redirect K (pcv_Redirect a) (pcv_Redirect b))
       (\<lambda>a b. eq_PodConfigSpec K (pcv_Spec a) (pcv_Spec b)) False
       (snd (getLazyOptionUsageCountFuncs listByKind old)) (wk_PodConfigValues old) (wk_PodConfigValues new) = Inr pc"
    "oc_badChanged ic = []" "oc_badRemoved ic = []" "oc_badChanged pc = []" "oc_badRemoved pc = []"
    by metis
  note ch = this
  from assms(2) have d: "distinct (map icv_Id (wk_ImageConfigValues old))" "distinct (map pcv_Id (wk_PodConfigValues old))"
    by (auto simp: unique_ids_def)
  show ?thesis
    using used_option_kept [OF ch(1,3,4) d(1) assms(6) used(1)]
      used_option_kept [OF ch(2,5,6) d(2) assms(7) used(2)] by (rule conjI)
qed

theorem update_keeps_used_options_witness:
  "\<exists>v' \<in> set (wk_ImageConfigValues grown_kind). icv_Id v' = ''img1'' \<and> icv_Spec v' = sample_image_spec"
proof -
  have "sample_image ''img1'' (Some ''img2'') \<in> set (wk_ImageConfigValues first_kind)"
    "sample_pod_config ''tiny'' (Some ''small'') \<in> set (wk_PodConfigValues first_kind)"
    by (simp_all add: first_kind_def sample_kind_def sample_pod_template_def)
  from update_keeps_used_options [OF grown_updated sample_unique_ids(1) _ _ _ this, of "[sample_workspace]"] show ?thesis
    by (auto simp: lib0_def sample_workspace_def sample_image_def sample_pod_config_def)
qed

text \<open>
  The activity rules of a kind are accepted exactly if every selector of every condition is valid,
  no rule that configures pausing comes after a catch-all rule that does, and an activity probe is
  configured as soon as some rule pauses.
\<close>

theorem validateActivityRules_exact:
  "fst (validateActivityRules K wk) = [] \<longleftrightarrow>
     list_all (\<lambda>(i, rule). validate_activity_matches K (rule_match_path i) 0 (ar_Match rule) = [])
       (enumerate 0 (wks_ActivityRules (wk_Spec wk))) \<and>
     sorted_wrt (\<lambda>a b. \<not> (catch_all a \<and> configures_pause b)) (wks_ActivityRules (wk_Spec wk)) \<and>
     \<not> (list_ex (\<lambda>rule. are_PauseWorkspace (ar_Effect rule) = Some True) (wks_ActivityRules (wk_Spec wk)) \<and>
        kpt_ActivityProbe (wk_PodTemplate wk) = None)"
proof -
  have "(\<lambda>a b. catch_all a \<longrightarrow> \<not> configures_pause b) = (\<lambda>a b. \<not> (catch_all a \<and> configures_pause b))"
    by (intro ext) blast
  then show ?thesis
    by (simp add: validateActivityRules_errors)
qed

text \<open>
  Rules that the webhook accepts never make the rule engine fail: with any reachable cache the
  evaluation returns the decision of the first applicable rule, and if there is a catch-all rule
  there always is one.
\<close>

theorem accepted_rules_evaluate:
  assumes "ValidateLabelSelector_sound K" and "list_all one_matcher (wks_ActivityRules (wk_Spec wk))"
    and "fst (validateActivityRules K wk) = []" and "format_sound K" and "cache_ok K cache"
  shows "\<exists>decision. fst (EvaluateActivityRule K False (wks_ActivityRules (wk_Spec wk)) ns pc are_PauseWorkspace cache) =
      Inr decision \<and> (ard_Matched decision \<or> \<not> list_ex catch_all (wks_ActivityRules (wk_Spec wk)))"
  using accepted_rules_valid [OF assms(1-3)] assms(4,5) first_rule_decision_catch_all
  by (fastforce simp: EvaluateActivityRule_def EvaluateActivityRule_loop_result list_ex_iff)

text \<open>A library whose selector validation asks for a label.\<close>

definition lib_validating :: k8s_lib where
  "lib_validating = lib_keys\<lparr>ValidateLabelSelector :=
     (\<lambda>s path. if ls_MatchLabels s = [] then [FieldRequired path ''labels''] else [])\<rparr>"

theorem accepted_rules_evaluate_witness:
  "\<exists>decision. fst (EvaluateActivityRule lib_validating False (wks_ActivityRules (wk_Spec first_kind)) [] []
      are_PauseWorkspace []) = Inr decision \<and> ard_Matched decision"
proof -
  have "ValidateLabelSelector_sound lib_validating"
    by (auto simp: ValidateLabelSelector_sound_def lib_validating_def lib_keys_def split: list.splits)
  moreover have "format_sound lib_validating"
    using format_sound_lib_keys by (simp add: format_sound_def lib_validating_def)
  moreover have "fst (validateActivityRules lib_validating first_kind) = []"
    by (simp add: validateActivityRules_errors first_kind_def sample_defs)
  moreover have "list_all one_matcher (wks_ActivityRules (wk_Spec first_kind))"
    "list_ex catch_all (wks_ActivityRules (wk_Spec first_kind))"
    by (simp_all add: first_kind_def one_matcher_def catch_all_def configures_pause_def)
  ultimately show ?thesis
    using accepted_rules_evaluate [of lib_validating first_kind "[]" "[]" "[]"] cache_ok_empty by blast
qed

end
