(* ===== verification/Reconcile_Safety.thy ===== *)
theory Reconcile_Safety
  imports Reconcile Samples
begin

text \<open>
  What \<open>Reconcile\<close> may write, whatever the API server answers: a specification \<open>act_spec\<close> of each section,
  put together along the sections.
\<close>

section \<open>Control\<close>

definition controlled_by :: "Workspace \<Rightarrow> ObjectMeta \<Rightarrow> bool" where
  "controlled_by w m \<longleftrightarrow>
     (\<exists>ref \<in> set (controller_refs (om_OwnerReferences m)). or_UID ref = om_UID (w_Meta w))"

lemma replace_controlled:
  assumes K: "GetControllerOf_spec K" "SetControllerReference_spec K" and one: "one_controller obj"
    and run: "ReplaceWorkspaceAsController K obj w = Inr (obj', b)"
  shows "controlled_by w obj' \<and> om_Namespace obj' = om_Namespace obj \<and> om_Name obj' = om_Name obj \<and> om_UID obj' = om_UID obj"
proof -
  have set: "controlled_by w m' \<and> om_Namespace m' = om_Namespace m \<and> om_Name m' = om_Name m \<and> om_UID m' = om_UID m"
    if "controller_refs (om_OwnerReferences m) = []" "SetControllerReference K (w_Meta w) m = Inr m'" for m m'
    using SetControllerReference_D [OF K(2) that] by (auto simp: controlled_by_def)
  show ?thesis
  proof (cases "GetControllerOf K obj")
    case None
    with run have "SetControllerReference K (w_Meta w) obj = Inr obj'"
      by (simp add: ReplaceWorkspaceAsController_def Let_def split: sum.splits)
    with None GetControllerOf_cases(1) [OF K(1)] show ?thesis
      by (intro set) simp_all
  next
    case (Some r)
    then have r: "r \<in> set (controller_refs (om_OwnerReferences obj))"
      by (rule GetControllerOf_cases [OF K(1)])
    let ?obj = "obj\<lparr>om_OwnerReferences := filter (\<lambda>ref. \<not> (or_Controller ref = Some True \<and> or_UID ref = or_UID r))
      (om_OwnerReferences obj)\<rparr>"
    have none: "controller_refs (om_OwnerReferences ?obj) = []"
      using one_controller_removed [OF one r] by simp
    from run Some consider "obj' = obj" "or_UID r = om_UID (w_Meta w)"
      | "SetControllerReference K (w_Meta w) ?obj = Inr obj'"
      by (simp add: ReplaceWorkspaceAsController_def Let_def split: sum.splits if_splits)
    then show ?thesis
    proof cases
      case 1
      with r show ?thesis by (auto simp: controlled_by_def)
    next
      case 2
      from set [OF none this] show ?thesis by simp
    qed
  qed
qed

text \<open>
  What the client's answers have in common: \<open>List\<close> with the owner index returns objects of the
  namespace whose controller is a Workspace of the given name, and no object has two controllers;
  \<open>Get\<close> returns the object it was asked for.
\<close>

definition listed_ok :: "k8s_lib \<Rightarrow> string \<Rightarrow> string \<Rightarrow> ObjectMeta \<Rightarrow> bool" where
  "listed_ok K ns name m \<longleftrightarrow>
     om_Namespace m = ns \<and> name \<in> set (indexWorkspaceOwner K m) \<and> one_controller m"

definition ops_ok :: "k8s_lib \<Rightarrow> ('o \<Rightarrow> ObjectMeta) \<Rightarrow> ('s, 'o) owned_ops \<Rightarrow> bool" where
  "ops_ok K metaOf ops \<longleftrightarrow>
     (\<forall>ns name w items w'. op_List ops ns name w = (Inr items, w') \<longrightarrow>
        list_all (\<lambda>x. listed_ok K ns name (metaOf x)) items)"

lemma ops_okD:
  "ops_ok K metaOf ops \<Longrightarrow> op_List ops ns name w = (Inr items, w') \<Longrightarrow>
   list_all (\<lambda>x. listed_ok K ns name (metaOf x)) items"
  unfolding ops_ok_def by blast

definition client_ok :: "k8s_lib \<Rightarrow> 's client \<Rightarrow> bool" where
  "client_ok K C \<longleftrightarrow>
     (\<forall>ns name w x w'. c_GetWorkspace C ns name w = (Inr x, w') \<longrightarrow> w_Namespace x = ns \<and> w_Name x = name) \<and>
     ops_ok K sa_Meta (c_ServiceAccounts C) \<and> ops_ok K sts_Meta (c_StatefulSets C) \<and>
     ops_ok K svc_Meta (c_Services C) \<and> ops_ok K vs_Meta (c_VirtualServices C) \<and>
     ops_ok K rb_Meta (c_RoleBindings C)"

section \<open>What may be written\<close>

text \<open>An answer that the API server may give to a request, in some state of the world.\<close>

definition gave :: "('s, 'a) request \<Rightarrow> 'a \<Rightarrow> bool" where
  "gave f x \<longleftrightarrow> (\<exists>s s'. f s = (Inr x, s'))"

text \<open>
  An object (by its UID and name) that the API server listed for the Workspace, of a kind and of any of the
  kinds the controller owns.
\<close>

definition from_list :: "('s, 'o) owned_ops \<Rightarrow> ('o \<Rightarrow> ObjectMeta) \<Rightarrow> Workspace \<Rightarrow> ObjectMeta \<Rightarrow> bool" where
  "from_list ops metaOf w m \<longleftrightarrow>
     (\<exists>items found. gave (op_List ops (w_Namespace w) (w_Name w)) items \<and> found \<in> set items \<and>
        om_UID m = om_UID (metaOf found) \<and> om_Name m = om_Name (metaOf found))"

primrec listed_for :: "'s client \<Rightarrow> Workspace \<Rightarrow> owned_object \<Rightarrow> bool" where
  "listed_for C w (OwnedServiceAccount x) \<longleftrightarrow> from_list (c_ServiceAccounts C) sa_Meta w (sa_Meta x)"
| "listed_for C w (OwnedStatefulSet x) \<longleftrightarrow> from_list (c_StatefulSets C) sts_Meta w (sts_Meta x)"
| "listed_for C w (OwnedService x) \<longleftrightarrow> from_list (c_Services C) svc_Meta w (svc_Meta x)"
| "listed_for C w (OwnedVirtualService x) \<longleftrightarrow> from_list (c_VirtualServices C) vs_Meta w (vs_Meta x)"
| "listed_for C w (OwnedRoleBinding x) \<longleftrightarrow> from_list (c_RoleBindings C) rb_Meta w (rb_Meta x)"

text \<open>
  An object of the Workspace: one that the API server listed for it and that it now controls, or the answer to
  an update of such an object or to the creation of an object that it controls.
\<close>

definition object_of :: "('s, 'o) owned_ops \<Rightarrow> ('o \<Rightarrow> ObjectMeta) \<Rightarrow> Workspace \<Rightarrow> 'o \<Rightarrow> bool" where
  "object_of ops metaOf w x \<longleftrightarrow>
     (\<exists>d. controlled_by w (metaOf d) \<and> om_Namespace (metaOf d) = w_Namespace w \<and>
        (from_list ops metaOf w (metaOf d) \<and> (x = d \<or> gave (op_Update ops d) x) \<or> gave (op_Create ops d) x))"

text \<open>
  For the Workspace \<open>w\<close> of the request: only the finalizer is added, and only to the kind of \<open>w\<close>; created
  objects live in the namespace of \<open>w\<close> and are controlled by \<open>w\<close>; updated objects are moreover among those
  that the API server listed for \<open>w\<close>, and only listed RoleBindings are deleted; only the Pod of the StatefulSet of \<open>w\<close>
  is deleted, if it has a pending revision and is not being deleted already; a status update changes nothing but
  the status of \<open>w\<close>; the patch pauses \<open>w\<close>.
\<close>

fun call_allowed :: "k8s_lib \<Rightarrow> 's client \<Rightarrow> Workspace \<Rightarrow> api_call \<Rightarrow> bool" where
  "call_allowed K C w (CallUpdateKind wk) \<longleftrightarrow>
     (\<exists>old. gave (c_GetWorkspaceKind C (ws_Kind (w_Spec w))) old \<and>
        om_DeletionTimestamp (wk_Meta old) = None \<and> WorkspaceKindFinalizer \<notin> set (om_Finalizers (wk_Meta old)) \<and>
        wk = old\<lparr>wk_Meta := (wk_Meta old)\<lparr>om_Finalizers := om_Finalizers (wk_Meta old) @ [WorkspaceKindFinalizer]\<rparr>\<rparr>)"
| "call_allowed K C w (CallUpdateKindStatus wk) \<longleftrightarrow> False"
| "call_allowed K C w (CallCreate obj) \<longleftrightarrow>
     controlled_by w (owned_meta obj) \<and> om_Namespace (owned_meta obj) = w_Namespace w"
| "call_allowed K C w (CallUpdate obj) \<longleftrightarrow>
     listed_for C w obj \<and> controlled_by w (owned_meta obj) \<and> om_Namespace (owned_meta obj) = w_Namespace w"
| "call_allowed K C w (CallDeleteRoleBinding rb) \<longleftrightarrow>
     listed_for C w (OwnedRoleBinding rb) \<and> om_Namespace (rb_Meta rb) = w_Namespace w \<and>
     w_Name w \<in> set (indexWorkspaceOwner K (rb_Meta rb))"
| "call_allowed K C w (CallDeletePod pod) \<longleftrightarrow>
     om_DeletionTimestamp (pod_Meta pod) = None \<and>
     (\<exists>sts name. object_of (c_StatefulSets C) sts_Meta w sts \<and> gave (c_GetPod C (w_Namespace w) (name @ ''-0'')) pod \<and>
        map_option or_UID (GetControllerOf K (pod_Meta pod)) = Some (om_UID (sts_Meta sts)) \<and> pending_revision sts pod)"
| "call_allowed K C w (CallUpdateStatus w') \<longleftrightarrow> w_Meta w' = w_Meta w \<and> w_Spec w' = w_Spec w"
| "call_allowed K C w (CallPatchWorkspace from to) \<longleftrightarrow> from = w \<and> ws_Paused (w_Spec to)"

text \<open>The Workspace as the code carries it along: only its status differs from the fetched one.\<close>

definition same_object :: "Workspace \<Rightarrow> Workspace \<Rightarrow> bool" where
  "same_object w w' \<longleftrightarrow> w_Meta w' = w_Meta w \<and> w_Spec w' = w_Spec w"

lemma same_object_refl [simp]: "same_object w w"
  by (simp add: same_object_def)

lemma same_object_map_status [simp]: "same_object w (map_status f w') \<longleftrightarrow> same_object w w'"
  by (simp add: same_object_def map_status_def)

text \<open>
  The only panics of the program are nil dereferences: a data volume without \<open>readOnly\<close>, which the schema
  defaults, or a StatefulSet without \<open>spec.replicas\<close>, which the API server defaults.
\<close>

definition can_panic :: "'s client \<Rightarrow> Workspace \<Rightarrow> bool" where
  "can_panic C w \<longleftrightarrow>
     list_ex (\<lambda>v. pvm_ReadOnly v = None) (wv_Data (wpt_Volumes (ws_PodTemplate (w_Spec w)))) \<or>
     (\<exists>ns name x items x'. op_List (c_StatefulSets C) ns name x = (Inr items, x') \<and>
        list_ex (\<lambda>sts. sts_Replicas (sts_Spec sts) = None) items)"

primrec outcome_ok :: "'s client \<Rightarrow> Workspace \<Rightarrow> outcome \<Rightarrow> bool" where
  "outcome_ok C w (Returned result err) = True"
| "outcome_ok C w Panicked = can_panic C w"
| "outcome_ok C w Diverged = False"

abbreviation writes_ok :: "k8s_lib \<Rightarrow> 's client \<Rightarrow> Workspace \<Rightarrow> ('a \<Rightarrow> bool) \<Rightarrow> ('s, 'a) act \<Rightarrow> bool" where
  "writes_ok K C w Q m \<equiv> act_spec (call_allowed K C w) (outcome_ok C w) Q m"

lemma act_spec_write_post:
  "P c \<Longrightarrow> (\<And>w r w'. f w = (r, w') \<Longrightarrow> Q r) \<Longrightarrow> act_spec P E Q (act_write c f)"
  by (auto simp: act_spec_def act_write_def split: prod.splits)

section \<open>State updates\<close>

lemma spec_updateWorkspaceState:
  assumes "same_object w w'"
  shows "writes_ok K C w (\<lambda>r. True) (updateWorkspaceState C (Some w') st msg)"
  using assms unfolding updateWorkspaceState_def option.case Let_def same_object_def
  by (auto intro!: act_spec_bind spec_intros split: sum.splits)

lemma spec_thenError:
  "same_object w w' \<Longrightarrow> writes_ok K C w (\<lambda>r. True) (updateWorkspaceStateThenError C (Some w') st msg err)"
  unfolding updateWorkspaceStateThenError_def
  by (rule act_spec_bind [OF spec_updateWorkspaceState])
    (auto intro!: spec_intros split: option.splits)

lemma spec_thenResult:
  "same_object w w' \<Longrightarrow> writes_ok K C w (\<lambda>r. True) (updateWorkspaceStateThenResult C (Some w') st msg res)"
  unfolding updateWorkspaceStateThenResult_def
  by (rule act_spec_bind [OF spec_updateWorkspaceState])
    (auto intro!: spec_intros split: option.splits)

lemma spec_stop_error_state [spec_intros]: "same_object w w' \<Longrightarrow> writes_ok K C w Q (stop_error_state C w' msg)"
  unfolding stop_error_state_def by (rule act_spec_bind [OF spec_updateWorkspaceState]) (auto intro: spec_intros)

lemma spec_stop_error_state_then [spec_intros]:
  "same_object w w' \<Longrightarrow> writes_ok K C w Q (stop_error_state_then C w' msg err)"
  unfolding stop_error_state_then_def by (rule act_spec_bind [OF spec_thenError]) (auto intro: spec_intros)

lemma spec_stop_error [spec_intros]: "writes_ok K C w Q (stop_error err)"
  unfolding stop_error_def by (rule act_spec_stop) simp

section \<open>Owned objects\<close>

text \<open>
  What the section for owned objects relies on for a kind of object: access to the metadata, and a
  copier that leaves owner references and identity of its target alone.
\<close>

locale owned_kind =
  fixes wrap :: "'o \<Rightarrow> owned_object" and metaOf :: "'o \<Rightarrow> ObjectMeta" and setMeta :: "ObjectMeta \<Rightarrow> 'o \<Rightarrow> 'o"
    and copier :: "'o \<Rightarrow> 'o \<Rightarrow> 'o copied"
  assumes meta_set: "metaOf (setMeta m x) = m"
    and meta_wrap: "owned_meta (wrap x) = metaOf x"
    and copier_keeps: "copier d t = Copied t' u \<Longrightarrow>
      om_OwnerReferences (metaOf t') = om_OwnerReferences (metaOf t) \<and> om_Namespace (metaOf t') = om_Namespace (metaOf t) \<and>
      om_UID (metaOf t') = om_UID (metaOf t) \<and> om_Name (metaOf t') = om_Name (metaOf t)"
begin

lemma create_allowed:
  assumes "SetControllerReference_spec K" and "same_object w w'"
    and "controller_refs (om_OwnerReferences (metaOf desired)) = []" and "om_Namespace (metaOf desired) = w_Namespace w"
    and "SetControllerReference K (w_Meta w') (metaOf desired) = Inr meta"
  shows "call_allowed K C w (CallCreate (wrap (setMeta meta desired)))"
proof -
  from SetControllerReference_D [OF assms(1,3,5)] obtain refs ref where
    "meta = (metaOf desired)\<lparr>om_OwnerReferences := refs\<rparr>" "controller_refs refs = [ref]" "or_UID ref = om_UID (w_Meta w')"
    by auto
  with assms(2,4) show ?thesis
    by (simp add: meta_wrap meta_set controlled_by_def same_object_def)
qed

lemma updated_object:
  assumes "GetControllerOf_spec K" and "SetControllerReference_spec K" and "same_object w w'"
    and "listed_ok K (w_Namespace w) name (metaOf found)" and "from_list ops metaOf w (metaOf found)"
    and "ReplaceWorkspaceAsController K (metaOf found) w' = Inr (meta, b)"
    and "copier desired (setMeta meta found) = Copied found' u"
  shows "from_list ops metaOf w (metaOf found') \<and> controlled_by w (metaOf found') \<and>
    om_Namespace (metaOf found') = w_Namespace w"
proof -
  have one: "one_controller (metaOf found)"
    using assms(4) by (simp add: listed_ok_def)
  from replace_controlled [OF assms(1,2) one assms(6)] assms(3-5) copier_keeps [OF assms(7)] show ?thesis
    by (simp add: meta_set listed_ok_def controlled_by_def same_object_def from_list_def)
qed

lemma create_spec:
  assumes "call_allowed K C w (CallCreate (wrap desired))" and "same_object w w'"
  shows "writes_ok K C w (\<lambda>r. object_of ops metaOf w (fst r)) (create_owned C ops wrap metaOf kind w' desired)"
proof -
  have "writes_ok K C w (\<lambda>r. \<forall>x. r = Inr x \<longrightarrow> object_of ops metaOf w x) (act_write (CallCreate (wrap desired)) (op_Create ops desired))"
    using assms(1) by (intro act_spec_write_post) (auto simp: object_of_def gave_def meta_wrap)
  then show ?thesis
    unfolding create_owned_def
    by (rule act_spec_bind) (auto intro!: spec_intros assms(2) split: sum.splits)
qed

lemma update_spec:
  assumes K: "GetControllerOf_spec K" "SetControllerReference_spec K" and w': "same_object w w'"
    and found: "listed_ok K (w_Namespace w) name (metaOf found)" "from_list ops metaOf w (metaOf found)"
    and lf: "\<And>x. listed_for C w (wrap x) \<longleftrightarrow> from_list ops metaOf w (metaOf x)"
    and panic: "\<And>meta. copier desired (setMeta meta found) = CopyPanicked \<Longrightarrow> can_panic C w"
  shows "writes_ok K C w (\<lambda>r. object_of ops metaOf w (fst r))
    (update_owned C ops wrap metaOf setMeta K copier kind w' desired found)"
proof (cases "ReplaceWorkspaceAsController K (metaOf found) w'")
  case (Inl err)
  then show ?thesis by (simp add: update_owned_def Let_def spec_intros)
next
  case (Inr x)
  obtain meta b where x: "x = (meta, b)"
    by fastforce
  show ?thesis
  proof (cases "copier desired (setMeta meta found)")
    case (Copied found' u)
    note updated = updated_object [OF K w' found Inr [unfolded x] Copied]
    then have own: "object_of ops metaOf w found'"
      by (auto simp: object_of_def)
    have wr: "writes_ok K C w (\<lambda>r. \<forall>x. r = Inr x \<longrightarrow> object_of ops metaOf w x)
        (act_write (CallUpdate (wrap found')) (op_Update ops found'))"
      using updated by (intro act_spec_write_post) (auto simp: object_of_def gave_def meta_wrap lf)
    show ?thesis
      unfolding update_owned_def Inr x Let_def sum.case prod.case Copied copied.case
      by (auto intro!: act_spec_bind [OF wr] spec_intros w' own split: sum.splits)
  qed (simp_all add: update_owned_def Inr x Let_def spec_intros w' panic)
qed

lemma owned_spec:
  assumes K: "GetControllerOf_spec K" "SetControllerReference_spec K" and ops: "ops_ok K metaOf ops"
    and w': "same_object w w'"
    and fresh: "controller_refs (om_OwnerReferences (metaOf desired)) = []" "om_Namespace (metaOf desired) = w_Namespace w"
    and lf: "\<And>x. listed_for C w (wrap x) \<longleftrightarrow> from_list ops metaOf w (metaOf x)"
    and panic: "\<And>ns name x items x' found meta meta'. op_List ops ns name x = (Inr items, x') \<Longrightarrow> found \<in> set items \<Longrightarrow>
      copier (setMeta meta desired) (setMeta meta' found) = CopyPanicked \<Longrightarrow> can_panic C w"
  shows "writes_ok K C w (\<lambda>r. object_of ops metaOf w (fst r))
    (reconcile_owned C ops wrap metaOf setMeta K copier kind (w_Namespace w) w' desired)"
proof (cases "SetControllerReference K (w_Meta w') (metaOf desired)")
  case (Inl err)
  then show ?thesis by (simp add: reconcile_owned_def spec_intros)
next
  case (Inr meta)
  note create = create_allowed [OF K(2) w' fresh Inr]
  have names: "w_Name w' = w_Name w"
    using w' by (simp add: same_object_def)
  have list: "writes_ok K C w (\<lambda>r. \<forall>items. r = Inr items \<longrightarrow> (\<forall>x \<in> set items.
        listed_ok K (w_Namespace w) (w_Name w') (metaOf x) \<and> from_list ops metaOf w (metaOf x) \<and>
        (\<forall>meta'. copier (setMeta meta desired) (setMeta meta' x) = CopyPanicked \<longrightarrow> can_panic C w)))
      (act_read (op_List ops (w_Namespace w) (w_Name w')))"
    unfolding names
    by (rule act_spec_read_post) (auto dest: ops_okD [OF ops] simp: list_all_iff from_list_def gave_def intro: panic)
  show ?thesis
    unfolding reconcile_owned_def Inr sum.case Let_def
    by (rule act_spec_bind [OF list])
      (auto intro!: spec_intros create_spec [OF create] update_spec [OF K w' _ _ lf] simp: w' split: sum.splits list.splits)
qed

end

lemma copyMetadata_keeps:
  "om_OwnerReferences (fst (copyMetadata d t)) = om_OwnerReferences t \<and> om_Namespace (fst (copyMetadata d t)) = om_Namespace t \<and>
   om_UID (fst (copyMetadata d t)) = om_UID t \<and> om_Name (fst (copyMetadata d t)) = om_Name t"
  by (simp add: copyMetadata_def Let_def split: prod.splits)

lemma CopyServiceFields_meta: "svc_Meta (fst (CopyServiceFields K d t)) = fst (copyMetadata (svc_Meta d) (svc_Meta t))"
  by (simp add: CopyServiceFields_def Let_def split: prod.splits)

lemma CopyVirtualServiceFields_meta:
  "vs_Meta (fst (CopyVirtualServiceFields K d t)) = fst (copyMetadata (vs_Meta d) (vs_Meta t))"
  by (simp add: CopyVirtualServiceFields_def Let_def split: prod.splits)

lemma CopyRoleBindingFields_meta:
  "rb_Meta (fst (CopyRoleBindingFields K d t)) = fst (copyMetadata (rb_Meta d) (rb_Meta t))"
  by (simp add: CopyRoleBindingFields_def Let_def split: prod.splits)

lemma CopyRoleBindingFields_ref: "rb_RoleRef (fst (CopyRoleBindingFields K d t)) = rb_RoleRef t"
  by (simp add: CopyRoleBindingFields_def Let_def split: prod.splits)

lemma CopyStatefulSetFields_meta:
  "CopyStatefulSetFields K d t = Some (t', u) \<Longrightarrow> sts_Meta t' = fst (copyMetadata (sts_Meta d) (sts_Meta t))"
  by (auto simp: CopyStatefulSetFields_def Let_def split: prod.splits option.splits if_splits)

lemma CopyServiceAccountFields_meta:
  "CopyServiceAccountFields K d t = Inr (t', u) \<Longrightarrow>
   om_OwnerReferences (sa_Meta t') = om_OwnerReferences (sa_Meta t) \<and> om_Namespace (sa_Meta t') = om_Namespace (sa_Meta t) \<and>
   om_UID (sa_Meta t') = om_UID (sa_Meta t) \<and> om_Name (sa_Meta t') = om_Name (sa_Meta t)"
  by (auto simp: CopyServiceAccountFields_def Let_def split: prod.splits sum.splits)

interpretation owned_sa: owned_kind OwnedServiceAccount sa_Meta "\<lambda>m x. x\<lparr>sa_Meta := m\<rparr>" "sa_copier K" for K
  by unfold_locales
    (auto simp: sa_copier_def split: sum.splits prod.splits dest: CopyServiceAccountFields_meta)

interpretation owned_sts: owned_kind OwnedStatefulSet sts_Meta "\<lambda>m x. x\<lparr>sts_Meta := m\<rparr>" "sts_copier K" for K
  by unfold_locales
    (auto simp: sts_copier_def copyMetadata_keeps split: option.splits prod.splits dest: CopyStatefulSetFields_meta)

interpretation owned_svc: owned_kind OwnedService svc_Meta "\<lambda>m x. x\<lparr>svc_Meta := m\<rparr>" "svc_copier K" for K
proof unfold_locales
  fix d t t' u
  assume "svc_copier K d t = Copied t' u"
  then have "t' = fst (CopyServiceFields K d t)"
    by (simp add: svc_copier_def split: prod.splits)
  then show "om_OwnerReferences (svc_Meta t') = om_OwnerReferences (svc_Meta t) \<and>
      om_Namespace (svc_Meta t') = om_Namespace (svc_Meta t) \<and>
      om_UID (svc_Meta t') = om_UID (svc_Meta t) \<and> om_Name (svc_Meta t') = om_Name (svc_Meta t)"
    by (simp add: CopyServiceFields_meta copyMetadata_keeps)
qed simp_all

interpretation owned_vs: owned_kind OwnedVirtualService vs_Meta "\<lambda>m x. x\<lparr>vs_Meta := m\<rparr>" "vs_copier K" for K
proof unfold_locales
  fix d t t' u
  assume "vs_copier K d t = Copied t' u"
  then have "t' = fst (CopyVirtualServiceFields K d t)"
    by (simp add: vs_copier_def split: prod.splits)
  then show "om_OwnerReferences (vs_Meta t') = om_OwnerReferences (vs_Meta t) \<and>
      om_Namespace (vs_Meta t') = om_Namespace (vs_Meta t) \<and>
      om_UID (vs_Meta t') = om_UID (vs_Meta t) \<and> om_Name (vs_Meta t') = om_Name (vs_Meta t)"
    by (simp add: CopyVirtualServiceFields_meta copyMetadata_keeps)
qed simp_all

text \<open>Generated objects: no owner yet, in the namespace of the Workspace.\<close>

definition fresh_meta :: "Workspace \<Rightarrow> ObjectMeta \<Rightarrow> bool" where
  "fresh_meta w m \<longleftrightarrow> controller_refs (om_OwnerReferences m) = [] \<and> om_Namespace m = w_Namespace w"

lemma fresh_service_account: "fresh_meta w (sa_Meta (generateServiceAccount K w wk))"
  by (simp add: fresh_meta_def generateServiceAccount_def Let_def ObjectMeta_zero_def controller_refs_def split: prod.splits)

lemma fresh_stateful_set:
  "generateStatefulSet K w wk ic pc sa = Some (Inr sts) \<Longrightarrow> fresh_meta w (sts_Meta sts)"
  by (auto simp: fresh_meta_def generateStatefulSet_def Let_def ObjectMeta_zero_def controller_refs_def
      split: prod.splits sum.splits option.splits)

lemma fresh_service: "generateService w wk ic = Inr svc \<Longrightarrow> fresh_meta w (svc_Meta svc)"
  by (auto simp: fresh_meta_def generateService_def Let_def ObjectMeta_zero_def controller_refs_def split: sum.splits)

lemma fresh_virtual_service: "generateVirtualService K cfg w wk svc ic = Inr vs \<Longrightarrow> fresh_meta w (vs_Meta vs)"
  by (auto simp: fresh_meta_def generateVirtualService_def Let_def ObjectMeta_zero_def controller_refs_def
      split: sum.splits)

lemma fresh_role_binding: "fresh_meta w (rb_Meta (generateRoleBinding w sa role))"
  by (simp add: fresh_meta_def generateRoleBinding_def Let_def ObjectMeta_zero_def controller_refs_def)

lemma fresh_meta_same: "same_object w w' \<Longrightarrow> fresh_meta w' m \<Longrightarrow>
    controller_refs (om_OwnerReferences m) = [] \<and> om_Namespace m = w_Namespace w"
  by (simp add: fresh_meta_def same_object_def)

section \<open>The sections\<close>

lemma options_total: "getImageConfig w wk \<noteq> None" "getPodConfig w wk \<noteq> None"
  unfolding getImageConfig_def getPodConfig_def
  using getOptionConfig_spec [of "''imageConfig''" icv_Id icv_Redirect "wk_ImageConfigValues wk" "wpo_ImageConfig (w_Options w)"]
    getOptionConfig_spec [of "''podConfig''" pcv_Id pcv_Redirect "wk_PodConfigValues wk" "wpo_PodConfig (w_Options w)"]
  by auto

lemma copiers_no_panic: "sa_copier K d t \<noteq> CopyPanicked" "svc_copier K d' t' \<noteq> CopyPanicked" "vs_copier K d'' t'' \<noteq> CopyPanicked"
  by (simp_all add: sa_copier_def svc_copier_def vs_copier_def split: sum.splits prod.splits)

lemma sts_copier_panic:
  assumes "sts_copier K d t = CopyPanicked" and "sts_Replicas (sts_Spec d) \<noteq> None"
  shows "sts_Replicas (sts_Spec t) = None"
  using assms by (auto simp: sts_copier_def CopyStatefulSetFields_def Let_def split: option.splits prod.splits if_splits)

lemma generateStatefulSet_replicas:
  "generateStatefulSet K w wk ic pc sa = Some (Inr sts) \<Longrightarrow> sts_Replicas (sts_Spec sts) \<noteq> None"
  by (auto simp: generateStatefulSet_def Let_def split: prod.splits sum.splits option.splits)

lemma generateStatefulSet_panic:
  assumes "generateStatefulSet K w' wk ic pc sa = None" and "same_object w w'"
  shows "can_panic C w"
proof -
  from assms(1) have "generate_volumes w' wk = None"
    by (auto simp: generateStatefulSet_def Let_def split: prod.splits sum.splits option.splits)
  with assms(2) show ?thesis
    by (auto simp: generate_volumes_panic can_panic_def list_ex_iff same_object_def)
qed

lemma sts_list_panic:
  assumes "generateStatefulSet K w' wk ic pc sa = Some (Inr desired)"
    and "op_List (c_StatefulSets C) ns name x = (Inr items, x')" and "found \<in> set items"
    and "sts_copier K (desired\<lparr>sts_Meta := meta\<rparr>) (found\<lparr>sts_Meta := meta'\<rparr>) = CopyPanicked"
  shows "can_panic C w"
proof -
  have "sts_Replicas (sts_Spec found) = None"
    using sts_copier_panic [OF assms(4)] generateStatefulSet_replicas [OF assms(1)] by simp
  with assms(2,3) show ?thesis
    unfolding can_panic_def list_ex_iff by blast
qed

lemma spec_kind:
  assumes "same_object w w'"
  shows "writes_ok K C w (\<lambda>r. True) (reconcile_kind C w')"
proof -
  have kind: "ws_Kind (w_Spec w') = ws_Kind (w_Spec w)"
    using assms by (simp add: same_object_def)
  have read: "writes_ok K C w (\<lambda>r. \<forall>wk. r = Inr wk \<longrightarrow> gave (c_GetWorkspaceKind C (ws_Kind (w_Spec w))) wk)
      (act_read (c_GetWorkspaceKind C (ws_Kind (w_Spec w'))))"
    unfolding kind by (rule act_spec_read_post) (auto simp: gave_def)
  have add: "call_allowed K C w (CallUpdateKind (wk\<lparr>wk_Meta := (wk_Meta wk)
      \<lparr>om_Finalizers := om_Finalizers (wk_Meta wk) @ [WorkspaceKindFinalizer]\<rparr>\<rparr>))"
    if "gave (c_GetWorkspaceKind C (ws_Kind (w_Spec w))) wk" "om_DeletionTimestamp (wk_Meta wk) = None"
      "WorkspaceKindFinalizer \<notin> set (om_Finalizers (wk_Meta wk))" for wk
    unfolding call_allowed.simps using that by (intro exI [of _ wk]) simp
  show ?thesis
    unfolding reconcile_kind_def Let_def
    by (rule act_spec_bind [OF read])
      (auto intro!: spec_intros assms act_spec_bind [OF act_spec_write [of "call_allowed K C w", OF add]] split: sum.splits)
qed

lemma spec_image_config:
  "same_object w w' \<Longrightarrow> writes_ok K C w (\<lambda>r. same_object w (fst r)) (reconcile_image_config C w' wk)"
  unfolding reconcile_image_config_def Let_def
  by (auto intro!: spec_intros simp: options_total split: option.splits sum.splits)

lemma spec_pod_config:
  "same_object w w' \<Longrightarrow> writes_ok K C w (\<lambda>r. same_object w (fst r)) (reconcile_pod_config C w' wk)"
  unfolding reconcile_pod_config_def
  by (auto intro!: spec_intros simp: options_total split: option.splits sum.splits)

lemma spec_owned_sections:
  assumes K: "GetControllerOf_spec K" "SetControllerReference_spec K" and C: "client_ok K C" and w': "same_object w w'"
  shows spec_service_account: "writes_ok K C w (\<lambda>r. object_of (c_ServiceAccounts C) sa_Meta w (fst r)) (reconcile_service_account K C (w_Namespace w) w' wk)"
    and spec_stateful_set: "writes_ok K C w (\<lambda>r. object_of (c_StatefulSets C) sts_Meta w (fst r)) (reconcile_stateful_set K C (w_Namespace w) w' wk ic pc sa)"
    and spec_service: "writes_ok K C w (\<lambda>r. object_of (c_Services C) svc_Meta w (fst r)) (reconcile_service K C (w_Namespace w) w' wk ic)"
    and spec_virtual_service: "writes_ok K C w (\<lambda>r. True) (reconcile_virtual_service K cfg C (w_Namespace w) w' wk svc ic)"
proof -
  from C have ops: "ops_ok K sa_Meta (c_ServiceAccounts C)" "ops_ok K sts_Meta (c_StatefulSets C)"
    "ops_ok K svc_Meta (c_Services C)" "ops_ok K vs_Meta (c_VirtualServices C)"
    by (simp_all add: client_ok_def)
  note fresh = fresh_meta_same [OF w', THEN conjunct1] fresh_meta_same [OF w', THEN conjunct2]
  show "writes_ok K C w (\<lambda>r. object_of (c_ServiceAccounts C) sa_Meta w (fst r)) (reconcile_service_account K C (w_Namespace w) w' wk)"
    unfolding reconcile_service_account_def
    by (intro owned_sa.owned_spec K ops w' fresh fresh_service_account) (simp_all add: copiers_no_panic)
  have "writes_ok K C w (\<lambda>r. object_of (c_StatefulSets C) sts_Meta w (fst r))
      (reconcile_owned C (c_StatefulSets C) OwnedStatefulSet sts_Meta (\<lambda>m x. x\<lparr>sts_Meta := m\<rparr>) K (sts_copier K)
        ''StatefulSet'' (w_Namespace w) w' sts)"
    if gen: "generateStatefulSet K w' wk ic pc sa = Some (Inr sts)" for sts
    using fresh_stateful_set [OF gen] by (intro owned_sts.owned_spec K ops w' fresh sts_list_panic [OF gen]) simp_all
  then show "writes_ok K C w (\<lambda>r. object_of (c_StatefulSets C) sts_Meta w (fst r)) (reconcile_stateful_set K C (w_Namespace w) w' wk ic pc sa)"
    unfolding reconcile_stateful_set_def using generateStatefulSet_panic [of K w' wk ic pc sa w C] w'
    by (auto intro!: spec_intros split: option.splits sum.splits)
  show "writes_ok K C w (\<lambda>r. object_of (c_Services C) svc_Meta w (fst r)) (reconcile_service K C (w_Namespace w) w' wk ic)"
    unfolding reconcile_service_def
    by (auto intro!: owned_svc.owned_spec K ops w' fresh spec_intros dest: fresh_service
        simp: copiers_no_panic split: sum.splits)
  have "writes_ok K C w (\<lambda>r. object_of (c_VirtualServices C) vs_Meta w (fst r))
      (reconcile_owned C (c_VirtualServices C) OwnedVirtualService vs_Meta (\<lambda>m x. x\<lparr>vs_Meta := m\<rparr>) K (vs_copier K)
        ''VirtualService'' (w_Namespace w) w' vs)"
    if "generateVirtualService K cfg w' wk svc ic = Inr vs" for vs
    using fresh_virtual_service [OF that] by (intro owned_vs.owned_spec K ops w' fresh) (simp_all add: copiers_no_panic)
  then show "writes_ok K C w (\<lambda>r. True) (reconcile_virtual_service K cfg C (w_Namespace w) w' wk svc ic)"
    unfolding reconcile_virtual_service_def
    by (auto intro!: act_spec_bind spec_intros w' split: sum.splits)
qed

definition bindings_ok :: "k8s_lib \<Rightarrow> 's client \<Rightarrow> Workspace \<Rightarrow> (RoleRef, RoleBinding) go_map \<Rightarrow> bool" where
  "bindings_ok K C w m \<longleftrightarrow> list_all (\<lambda>(ref, rb). call_allowed K C w (CallCreate (OwnedRoleBinding rb))) m"

lemma bindings_ok_Nil [simp]: "bindings_ok K C w []"
  by (simp add: bindings_ok_def)

lemma bindings_ok_Cons [simp]:
  "bindings_ok K C w ((ref, rb) # m) \<longleftrightarrow> call_allowed K C w (CallCreate (OwnedRoleBinding rb)) \<and> bindings_ok K C w m"
  by (simp add: bindings_ok_def)

lemma bindings_ok_update:
  "bindings_ok K C w m \<Longrightarrow> call_allowed K C w (CallCreate (OwnedRoleBinding rb)) \<Longrightarrow> bindings_ok K C w (AList.update ref rb m)"
  by (induction m) auto

lemma bindings_ok_delete: "bindings_ok K C w m \<Longrightarrow> bindings_ok K C w (AList.delete k m)"
  by (auto simp: bindings_ok_def list_all_iff AList.delete_eq)

lemma desired_role_bindings_ok:
  assumes K: "SetControllerReference_spec K" and w': "same_object w w'"
    and "bindings_ok K C w m"
    and "desired_role_bindings K w' sa roles m = Inr m'"
  shows "bindings_ok K C w m'"
  using assms(3,4)
proof (induction roles arbitrary: m)
  case (Cons role roles)
  let ?rb = "generateRoleBinding w' sa role"
  from Cons.prems(2) obtain meta where meta: "SetControllerReference K (w_Meta w') (rb_Meta ?rb) = Inr meta"
    and rest: "desired_role_bindings K w' sa roles (AList.update (rb_RoleRef ?rb) (?rb\<lparr>rb_Meta := meta\<rparr>) m) = Inr m'"
    by (auto simp: Let_def split: sum.splits)
  have "controlled_by w meta" and "om_Namespace meta = w_Namespace w"
    using SetControllerReference_D [OF K _ meta] fresh_role_binding [of w' sa role] w'
    by (auto simp: fresh_meta_def controlled_by_def same_object_def)
  then have "call_allowed K C w (CallCreate (OwnedRoleBinding (?rb\<lparr>rb_Meta := meta\<rparr>)))"
    by simp
  with Cons.prems(1) have "bindings_ok K C w
      (AList.update (rb_RoleRef ?rb) (?rb\<lparr>rb_Meta := meta\<rparr>) m)"
    by (rule bindings_ok_update)
  then show ?case using rest by (rule Cons.IH)
qed simp

lemma spec_owned_role_bindings_loop:
  assumes K: "GetControllerOf_spec K" "SetControllerReference_spec K" and w': "same_object w w'"
  shows "list_all (\<lambda>x. listed_ok K (w_Namespace w) (w_Name w) (rb_Meta x) \<and> from_list (c_RoleBindings C) rb_Meta w (rb_Meta x)) items \<Longrightarrow>
    bindings_ok K C w m \<Longrightarrow>
    writes_ok K C w (\<lambda>r. \<forall>m'. r = Inr m' \<longrightarrow> bindings_ok K C w m')
      (owned_role_bindings_loop K C w' items m)"
proof (induction items arbitrary: m)
  case Nil
  then show ?case by (auto intro: spec_intros)
next
  case (Cons found items)
  let ?post = "\<lambda>r. \<forall>m'. r = Inr m' \<longrightarrow> bindings_ok K C w m'"
  have del: "bindings_ok K C w (AList.delete k m)" for k
    using Cons.prems(2) by (rule bindings_ok_delete)
  have next_items: "writes_ok K C w ?post (owned_role_bindings_loop K C w' items (AList.delete k m))" for k
    using Cons.IH [OF _ del] Cons.prems(1) by simp
  have fail: "writes_ok K C w ?post (act_bind (updateWorkspaceStateThenError C (Some w') WorkspaceStateError msg err)
      (\<lambda>x. act_return (Inl x)))" for msg err
    by (rule act_spec_bind [OF spec_thenError [OF w']]) (auto intro: spec_intros)
  have listed: "listed_ok K (w_Namespace w) (w_Name w) (rb_Meta found)" "from_list (c_RoleBindings C) rb_Meta w (rb_Meta found)"
    using Cons.prems(1) by simp_all
  show ?case
  proof (cases "map_of m (rb_RoleRef found)")
    case None
    have "call_allowed K C w (CallDeleteRoleBinding found)"
      using listed by (simp add: listed_ok_def)
    note wr = act_spec_write [of "call_allowed K C w", OF this]
    show ?thesis
      using None Cons.IH [OF _ Cons.prems(2)] Cons.prems(1)
      by (auto intro!: act_spec_bind [OF wr] spec_intros fail split: sum.splits)
  next
    case (Some d)
    show ?thesis
    proof (cases "ReplaceWorkspaceAsController K (rb_Meta found) w'")
      case (Inl err)
      with Some show ?thesis by (auto intro: spec_intros)
    next
      case (Inr x)
      obtain meta b where x: "x = (meta, b)"
        by fastforce
      have c: "controlled_by w' meta \<and> om_Namespace meta = om_Namespace (rb_Meta found) \<and>
          om_Name meta = om_Name (rb_Meta found) \<and> om_UID meta = om_UID (rb_Meta found)"
        using replace_controlled [OF K _ Inr [unfolded x]] listed by (simp add: listed_ok_def)
      obtain f u where f: "CopyRoleBindingFields K d (found\<lparr>rb_Meta := meta\<rparr>) = (f, u)"
        by fastforce
      have "rb_Meta f = fst (copyMetadata (rb_Meta d) meta)"
        using CopyRoleBindingFields_meta [of K d "found\<lparr>rb_Meta := meta\<rparr>"] f by simp
      with c listed w' copyMetadata_keeps [of "rb_Meta d" meta]
      have "call_allowed K C w (CallUpdate (OwnedRoleBinding f))"
        by (simp add: controlled_by_def listed_ok_def same_object_def from_list_def)
      note wr = act_spec_write [of "call_allowed K C w", OF this]
      show ?thesis
        unfolding owned_role_bindings_loop.simps Some option.case Inr x sum.case prod.case f Let_def
        by (auto intro!: act_spec_bind [OF wr] spec_intros fail next_items split: sum.splits)
    qed
  qed
qed

lemma spec_create_role_bindings_loop:
  assumes "same_object w w'"
  shows "bindings_ok K C w m \<Longrightarrow>
    writes_ok K C w (\<lambda>r. True) (create_role_bindings_loop C w' m)"
proof (induction m)
  case Nil
  then show ?case by (auto intro: spec_intros)
next
  case (Cons x m)
  obtain ref rb where x: "x = (ref, rb)"
    by fastforce
  with Cons.prems have "call_allowed K C w (CallCreate (OwnedRoleBinding rb))"
    by simp
  note wr = act_spec_write [of "call_allowed K C w", OF this]
  from Cons x show ?case
    by (auto intro!: act_spec_bind [OF wr] spec_thenError assms split: sum.splits)
qed

lemma spec_role_bindings:
  assumes K: "GetControllerOf_spec K" "SetControllerReference_spec K" and C: "client_ok K C" and w': "same_object w w'"
  shows "writes_ok K C w (\<lambda>r. True) (reconcile_role_bindings_section K C w' wk sa)"
proof -
  have ops: "ops_ok K rb_Meta (c_RoleBindings C)"
    using C by (simp add: client_ok_def)
  have eq: "w_Namespace w' = w_Namespace w" "w_Name w' = w_Name w"
    using w' by (simp_all add: same_object_def)
  have list: "writes_ok K C w (\<lambda>r. \<forall>items. r = Inr items \<longrightarrow>
      list_all (\<lambda>x. listed_ok K (w_Namespace w) (w_Name w) (rb_Meta x) \<and> from_list (c_RoleBindings C) rb_Meta w (rb_Meta x)) items)
      (act_read (op_List (c_RoleBindings C) (w_Namespace w') (w_Name w')))"
    unfolding eq by (rule act_spec_read_post) (auto dest: ops_okD [OF ops] simp: list_all_iff from_list_def gave_def)
  have "writes_ok K C w (\<lambda>r. True) (reconcileRoleBindings K C w' wk sa)"
  proof (cases "desired_role_bindings K w' sa (cluster_roles wk) []")
    case (Inl err)
    then show ?thesis by (auto simp: reconcileRoleBindings_def intro: spec_intros)
  next
    case (Inr m)
    have "bindings_ok K C w m"
      by (rule desired_role_bindings_ok [OF K(2) w' _ Inr]) simp
    note loop = spec_owned_role_bindings_loop [OF K w' _ this]
    show ?thesis
      unfolding reconcileRoleBindings_def Inr sum.case
      by (rule act_spec_bind [OF list])
        (auto intro!: spec_intros act_spec_bind [OF loop] spec_create_role_bindings_loop [OF w'] split: sum.splits)
  qed
  then show ?thesis
    unfolding reconcile_role_bindings_section_def
    by (rule act_spec_bind) (auto intro!: spec_intros split: option.splits)
qed

lemma spec_pod:
  assumes "same_object w w'" and sts: "object_of (c_StatefulSets C) sts_Meta w sts"
  shows "writes_ok K C w (\<lambda>r. True) (reconcile_pod K C (w_Namespace w) w' sts name)"
proof -
  have del: "writes_ok K C w (\<lambda>r. True) (act_write (CallDeletePod pod) (c_DeletePod C pod))"
    if "gave (c_GetPod C (w_Namespace w) (name @ ''-0'')) pod" "GetControllerOf K (pod_Meta pod) = Some r"
      "or_UID r = om_UID (sts_Meta sts)" "pending_revision sts pod" "om_DeletionTimestamp (pod_Meta pod) = None" for pod r
    unfolding call_allowed.simps by (rule act_spec_write) (use that sts in auto)
  have terminating: "writes_ok K C w Q (act_bind (updateWorkspaceStateThenResult C (Some w') st msg res) act_finish)"
    for Q :: "Pod option \<Rightarrow> bool" and st msg res
    by (rule act_spec_bind [OF spec_thenResult [OF assms(1)]]) (auto intro: spec_intros)
  have found: "writes_ok K C w (\<lambda>r. True) (reconcile_pod_found K C w' sts pod)"
    if "gave (c_GetPod C (w_Namespace w) (name @ ''-0'')) pod" for pod
    unfolding reconcile_pod_found_def
    by (auto intro!: spec_intros assms(1) terminating act_spec_bind [OF del] that split: option.splits sum.splits)
  have read: "writes_ok K C w (\<lambda>r. \<forall>pod. r = Inr pod \<longrightarrow> gave (c_GetPod C (w_Namespace w) (name @ ''-0'')) pod)
      (act_read (c_GetPod C (w_Namespace w) (name @ ''-0'')))"
    by (rule act_spec_read_post) (auto simp: gave_def)
  show ?thesis
    unfolding reconcile_pod_def
    by (rule act_spec_bind [OF read]) (auto intro!: spec_intros found split: sum.splits)
qed

lemma evaluatePauseDecision_same:
  "evaluatePauseDecision K w wk ns pc now allow cache = (r, w', cache') \<Longrightarrow> w_Meta w' = w_Meta w \<and> w_Spec w' = w_Spec w"
  by (auto simp: evaluatePauseDecision_def Let_def clear_pause_rule_def split: if_splits prod.splits sum.splits)

lemma updateActivityStatusFromProbe_same:
  "w_Meta (updateActivityStatusFromProbe w r) = w_Meta w \<and> w_Spec (updateActivityStatusFromProbe w r) = w_Spec w"
  by (simp add: updateActivityStatusFromProbe_def Let_def split: option.splits)

lemma reconcileActivity_same:
  "reconcileActivity K nsGet now0 now1 V ex w wk pc pod cache = (r, w', cache') \<Longrightarrow>
   w_Meta w' = w_Meta w \<and> w_Spec w' = w_Spec w"
  by (auto simp: reconcileActivity_def Let_def updateActivityStatusFromProbe_same
      dest!: evaluatePauseDecision_same split: option.splits if_splits sum.splits prod.splits)

lemma spec_readings: "act_spec P E (\<lambda>r. True) (act_readings C)"
  by (auto simp: act_spec_def act_readings_def split: prod.splits)

lemma spec_activity:
  "same_object w w' \<Longrightarrow> act_spec P E (\<lambda>r. same_object w (snd r)) (act_activity K rd ex w' wk pc pod)"
  by (auto simp: act_spec_def act_activity_def same_object_def dest!: reconcileActivity_same split: prod.splits)

lemma spec_pause: "writes_ok K C w (\<lambda>r. False) (reconcile_pause C w w' paused result)"
  unfolding reconcile_pause_def Let_def
  by (auto intro!: spec_intros act_spec_bind [OF act_spec_write] split: sum.splits)

lemma spec_status:
  assumes "same_object w w'"
  shows "writes_ok K C w (\<lambda>r. False) (reconcile_status K ex C w w' wk pc sts sa pod)"
proof -
  have st: "same_object w (w'\<lparr>w_Status := st\<rparr>)" for st
    using assms by (simp add: same_object_def)
  have upd: "writes_ok K C w (\<lambda>r. True) (act_write (CallUpdateStatus w'') (c_UpdateStatus C w''))"
    if "same_object w w''" for w''
    by (rule act_spec_write) (use that in \<open>simp add: same_object_def\<close>)
  show ?thesis
    unfolding reconcile_status_def
    by (intro act_spec_bind [OF spec_readings])
      (auto intro!: spec_intros assms act_spec_bind [OF spec_activity [OF st]] act_spec_bind [OF upd] spec_pause
        simp: Let_def split: prod.splits sum.splits)
qed

lemma spec_objects:
  assumes K: "GetControllerOf_spec K" "SetControllerReference_spec K" and C: "client_ok K C" and w': "same_object w w'"
  shows "writes_ok K C w (\<lambda>r. False) (reconcile_objects K cfg ex C (w_Namespace w) w w' wk ic pc)"
  unfolding reconcile_objects_def case_prod_beta
  by (intro act_spec_bind [OF spec_service_account] act_spec_bind [OF spec_stateful_set] act_spec_bind [OF spec_service]
      act_spec_bind [OF spec_virtual_service] act_spec_bind [OF spec_role_bindings] act_spec_bind [OF spec_pod]
      spec_status K C w')

section \<open>A sample cluster\<close>

text \<open>
  A client for the witnesses: it knows the sample Workspace and its kind, accepts every write, and
  has the given RoleBindings and Pod.
\<close>

definition sample_ops :: "'o list \<Rightarrow> (unit, 'o) owned_ops" where
  "sample_ops items =
     \<lparr>op_List = (\<lambda>_ _ _. (Inr items, ())), op_Create = (\<lambda>x _. (Inr x, ())), op_Update = (\<lambda>x _. (Inr x, ()))\<rparr>"

definition sample_readings :: readings where
  "sample_readings =
     \<lparr>rd_listEvents = (\<lambda>_ _. Inr []), rd_statusNow0 = 10000000000000, rd_statusNow1 = 10000000000000,
      rd_nsGet = (\<lambda>_. Inr []), rd_activityNow0 = 10000000000000, rd_activityNow1 = 0, rd_probe = sample_env\<rparr>"

definition sample_client :: "RoleBinding list \<Rightarrow> unit client" where
  "sample_client bindings =
     \<lparr>c_GetWorkspace = (\<lambda>ns name _.
        (if ns = ''team'' \<and> name = ''notebook'' then Inr sample_workspace else Inl (ErrNotFound name), ())),
      c_GetWorkspaceKind = (\<lambda>_ _. (Inr sample_kind, ())),
      c_UpdateWorkspaceKind = (\<lambda>x _. (Inr x, ())),
      c_ServiceAccounts = sample_ops [], c_StatefulSets = sample_ops [], c_Services = sample_ops [],
      c_VirtualServices = sample_ops [], c_RoleBindings = sample_ops bindings,
      c_DeleteRoleBinding = (\<lambda>_ _. (Inr (), ())),
      c_GetPod = (\<lambda>_ name _. (Inl (ErrNotFound name), ())),
      c_DeletePod = (\<lambda>_ _. (Inr (), ())),
      c_UpdateStatus = (\<lambda>x _. (Inr x, ())),
      c_PatchWorkspace = (\<lambda>_ x _. (Inr x, ())),
      c_Readings = (\<lambda>_. (sample_readings, ()))\<rparr>"

definition cfg0 :: EnvConfig where
  "cfg0 = \<lparr>cfg_IstioGateway = ''gateway'', cfg_IstioHosts = ''*'', cfg_ClusterDomain = ''cluster.local'',
     cfg_UseIstio = True, cfg_WatchWarningEvents = True, cfg_ClientQPS = [], cfg_ClientBurst = 0\<rparr>"

definition sample_run :: "unit run" where
  "sample_run = \<lparr>run_world = (), run_cache = [], run_calls = []\<rparr>"

lemma sample_client_ok: "client_ok K (sample_client [])"
  by (simp add: client_ok_def ops_ok_def sample_client_def sample_ops_def sample_workspace_def)

section \<open>Properties\<close>



end
