(* ===== verification/Reconcile_Convergence.thy ===== *)
theory Reconcile_Convergence
  imports Reconcile_Safety "HOL-Library.Multiset"
begin

text \<open>
  What a reconcile achieves: the RoleBindings converge to one for each cluster role of the kind, an
  updated StatefulSet needs no second update, a Pod is deleted only to roll out a newer revision, and
  the Workspace is paused only by a decision of the activity rules.
\<close>

section \<open>Runs\<close>

lemma act_bind_Inr:
  assumes "act_bind m f s = (Inr y, s')"
  obtains x s1 where "m s = (Inr x, s1)" and "f x s1 = (Inr y, s')"
  using assms by (auto simp: act_bind_def split: prod.splits sum.splits)

lemma act_write_run:
  "act_write c f s = (r, s') \<Longrightarrow> \<exists>x w. r = Inr x \<and> f (run_world s) = (x, w) \<and> run_calls s' = run_calls s @ [c]"
  by (auto simp: act_write_def split: prod.splits)

lemma act_read_run:
  "act_read f s = (r, s') \<Longrightarrow> \<exists>x w. r = Inr x \<and> f (run_world s) = (x, w) \<and> run_calls s' = run_calls s"
  by (auto simp: act_read_def split: prod.splits)

section \<open>RoleBindings\<close>

fun deleted_bindings :: "api_call list \<Rightarrow> RoleBinding list" where
  "deleted_bindings [] = []"
| "deleted_bindings (CallDeleteRoleBinding rb # calls) = rb # deleted_bindings calls"
| "deleted_bindings (c # calls) = deleted_bindings calls"

fun created_bindings :: "api_call list \<Rightarrow> RoleBinding list" where
  "created_bindings [] = []"
| "created_bindings (CallCreate (OwnedRoleBinding rb) # calls) = rb # created_bindings calls"
| "created_bindings (c # calls) = created_bindings calls"

lemma created_bindings_append: "created_bindings (a @ b) = created_bindings a @ created_bindings b"
  by (induction a rule: created_bindings.induct) auto

lemma deleted_bindings_append: "deleted_bindings (a @ b) = deleted_bindings a @ deleted_bindings b"
  by (induction a rule: deleted_bindings.induct) auto

text \<open>\<open>roleRef\<close> is immutable: the API server returns it as it was sent.\<close>

definition roleRef_immutable :: "'s client \<Rightarrow> bool" where
  "roleRef_immutable C \<longleftrightarrow>
     (\<forall>rb w rb' w'. op_Update (c_RoleBindings C) rb w = (Inr rb', w') \<longrightarrow> rb_RoleRef rb' = rb_RoleRef rb)"

text \<open>
  \<open>sorted_out items m calls kept m'\<close>: of \<open>items\<close> the calls delete all but \<open>kept\<close>, whose roles are those of \<open>m\<close>
  that are no longer in \<open>m'\<close>, one binding for each.
\<close>

definition sorted_out ::
  "RoleBinding list \<Rightarrow> (RoleRef, RoleBinding) go_map \<Rightarrow> api_call list \<Rightarrow> RoleBinding list
   \<Rightarrow> (RoleRef, RoleBinding) go_map \<Rightarrow> bool" where
  "sorted_out items m calls kept m' \<longleftrightarrow>
     created_bindings calls = [] \<and> mset items = mset kept + mset (deleted_bindings calls) \<and> wf_map m' \<and>
     distinct (map rb_RoleRef kept) \<and> set (map rb_RoleRef kept) = set (map fst m) - set (map fst m') \<and>
     set m' \<subseteq> set m"

lemma sorted_out_Nil: "wf_map m \<Longrightarrow> sorted_out [] m [] [] m"
  by (simp add: sorted_out_def)

lemma sorted_out_deleted:
  "sorted_out items m calls kept m' \<Longrightarrow> sorted_out (found # items) m (CallDeleteRoleBinding found # calls) kept m'"
  by (simp add: sorted_out_def)

lemma sorted_out_kept:
  assumes "sorted_out items (AList.delete (rb_RoleRef found) m) calls kept m'"
    and "rb_RoleRef found \<in> set (map fst m)"
    and "created_bindings pre = []" and "deleted_bindings pre = []"
  shows "sorted_out (found # items) m (pre @ calls) (found # kept) m'"
proof -
  have del: "set (map fst (AList.delete k m)) = set (map fst m) - {k}" "set (AList.delete k m) \<subseteq> set m" for k
    by (auto simp: AList.delete_eq)
  from assms(1) have keys: "set (map rb_RoleRef kept) = set (map fst m) - {rb_RoleRef found} - set (map fst m')"
    and sub: "set m' \<subseteq> set (AList.delete (rb_RoleRef found) m)"
    unfolding sorted_out_def del by blast+
  from sub have "rb_RoleRef found \<notin> set (map fst m')"
    by (auto simp: AList.delete_eq)
  with keys assms(2) have "set (map rb_RoleRef (found # kept)) = set (map fst m) - set (map fst m')"
    by auto
  moreover have "rb_RoleRef found \<notin> set (map rb_RoleRef kept)"
    unfolding keys by blast
  moreover have "set m' \<subseteq> set m"
    using sub del(2) by (rule subset_trans)
  ultimately show ?thesis
    using assms(1,3,4) unfolding sorted_out_def
    by (simp add: created_bindings_append deleted_bindings_append)
qed

lemma owned_role_bindings_step:
  assumes imm: "roleRef_immutable C" and d: "map_of m (rb_RoleRef found) = Some d"
    and run: "owned_role_bindings_loop K C w (found # items) m s = (Inr (Inr m'), s')"
  obtains s1 pre where "run_calls s1 = run_calls s @ pre" and "created_bindings pre = []" and "deleted_bindings pre = []"
    and "owned_role_bindings_loop K C w items (AList.delete (rb_RoleRef found) m) s1 = (Inr (Inr m'), s')"
proof -
  from run d obtain meta b where rep: "ReplaceWorkspaceAsController K (rb_Meta found) w = Inr (meta, b)"
    by (auto simp: act_return_def split: sum.splits)
  obtain f u where f: "CopyRoleBindingFields K d (found\<lparr>rb_Meta := meta\<rparr>) = (f, u)"
    by fastforce
  have ref: "rb_RoleRef f = rb_RoleRef found"
    using CopyRoleBindingFields_ref [of K d "found\<lparr>rb_Meta := meta\<rparr>"] f by simp
  show thesis
  proof (cases "u \<or> b")
    case False
    with run have "owned_role_bindings_loop K C w items (AList.delete (rb_RoleRef found) m) s = (Inr (Inr m'), s')"
      by (simp add: d rep f ref)
    with that [of s "[]"] show thesis by simp
  next
    case True
    let ?wr = "act_write (CallUpdate (OwnedRoleBinding f)) (op_Update (c_RoleBindings C) f)"
    from True run obtain r s1 where wr: "?wr s = (Inr r, s1)"
      and after: "(case r of
         Inl err \<Rightarrow>
           if IsConflict err then act_return (Inl (requeue_after 1, None))
           else act_bind (updateWorkspaceStateThenError C (Some w) WorkspaceStateError
                  (''Failed to update RoleBinding '' @ om_Name (rb_Meta f) @ '': '' @ err_Error err) err)
                  (\<lambda>x. act_return (Inl x))
       | Inr found \<Rightarrow> owned_role_bindings_loop K C w items (AList.delete (rb_RoleRef found) m)) s1 = (Inr (Inr m'), s')"
      unfolding owned_role_bindings_loop.simps d option.case rep sum.case prod.case f Let_def
      by (simp only: if_True simp_thms) (erule act_bind_Inr)
    then obtain f' where f': "r = Inr f'"
      by (cases r) (auto simp: act_return_def elim!: act_bind_Inr split: if_splits)
    from act_write_run [OF wr] f' obtain x where "op_Update (c_RoleBindings C) f (run_world s) = (Inr f', x)"
      and calls: "run_calls s1 = run_calls s @ [CallUpdate (OwnedRoleBinding f)]"
      by auto
    with imm have "rb_RoleRef f' = rb_RoleRef found"
      unfolding roleRef_immutable_def ref by (metis ref)
    with that [of s1 "[CallUpdate (OwnedRoleBinding f)]"] calls after f' show thesis
      by simp
  qed
qed

lemma owned_role_bindings_loop_result:
  assumes imm: "roleRef_immutable C"
  shows "wf_map m \<Longrightarrow> owned_role_bindings_loop K C w items m s = (Inr (Inr m'), s') \<Longrightarrow>
    \<exists>new kept. run_calls s' = run_calls s @ new \<and> sorted_out items m new kept m'"
proof (induction items arbitrary: m s)
  case Nil
  then have "run_calls s' = run_calls s @ []" and "sorted_out [] m [] [] m'"
    using sorted_out_Nil by (auto simp: act_return_def)
  then show ?case by blast
next
  case (Cons found items)
  show ?case
  proof (cases "map_of m (rb_RoleRef found)")
    case None
    let ?del = "act_write (CallDeleteRoleBinding found) (c_DeleteRoleBinding C found)"
    from None Cons.prems(2) obtain r s1 where wr: "?del s = (Inr r, s1)"
      and run: "owned_role_bindings_loop K C w items m s1 = (Inr (Inr m'), s')"
      by (auto elim!: act_bind_Inr simp: act_return_def split: sum.splits if_splits)
    from act_write_run [OF wr] have "run_calls s1 = run_calls s @ [CallDeleteRoleBinding found]"
      by blast
    with Cons.IH [OF Cons.prems(1) run] show ?thesis
      by (auto dest!: sorted_out_deleted [of items m _ _ m' found])
  next
    case (Some d)
    from owned_role_bindings_step [OF imm this Cons.prems(2)] obtain s1 pre where
      pre: "run_calls s1 = run_calls s @ pre" "created_bindings pre = []" "deleted_bindings pre = []"
      and run: "owned_role_bindings_loop K C w items (AList.delete (rb_RoleRef found) m) s1 = (Inr (Inr m'), s')" .
    have wf: "wf_map (AList.delete (rb_RoleRef found) m)"
      using Cons.prems(1) by (simp add: distinct_delete)
    from Cons.IH [OF wf run] obtain new kept where new: "run_calls s' = run_calls s1 @ new"
      "sorted_out items (AList.delete (rb_RoleRef found) m) new kept m'"
      by blast
    have "rb_RoleRef found \<in> set (map fst m)"
      using Some by (force dest: map_of_SomeD)
    from sorted_out_kept [OF new(2) this pre(2,3)] new(1) pre(1) show ?thesis
      by auto
  qed
qed

lemma thenError_not_ok: "updateWorkspaceStateThenError C w st msg err s \<noteq> (Inr (Result_zero, None), s')"
  by (auto simp: updateWorkspaceStateThenError_def act_return_def Result_zero_def elim!: act_bind_Inr
      split: option.splits if_splits)

lemma create_role_bindings_loop_result:
  "create_role_bindings_loop C w m s = (Inr (Result_zero, None), s') \<Longrightarrow>
   run_calls s' = run_calls s @ map (\<lambda>(ref, rb). CallCreate (OwnedRoleBinding rb)) m"
proof (induction m arbitrary: s)
  case Nil
  then show ?case by (simp add: act_return_def)
next
  case (Cons x m)
  obtain ref rb where x: "x = (ref, rb)"
    by fastforce
  from Cons.prems obtain r s1 where
    wr: "act_write (CallCreate (OwnedRoleBinding rb)) (op_Create (c_RoleBindings C) rb) s = (Inr r, s1)"
    and run: "(case r of
          Inl err \<Rightarrow>
            updateWorkspaceStateThenError C (Some w) WorkspaceStateError
              (''Failed to create RoleBinding: '' @ err_Error err) err
        | Inr _ \<Rightarrow> create_role_bindings_loop C w m) s1 = (Inr (Result_zero, None), s')"
    unfolding x create_role_bindings_loop.simps by (erule act_bind_Inr)
  then have "create_role_bindings_loop C w m s1 = (Inr (Result_zero, None), s')"
    by (cases r) (simp_all add: thenError_not_ok)
  from Cons.IH [OF this] act_write_run [OF wr] x show ?case by auto
qed

lemma created_bindings_map: "created_bindings (map (\<lambda>(ref, rb). CallCreate (OwnedRoleBinding rb)) m) = map snd m"
  by (induction m) auto

lemma deleted_bindings_map: "deleted_bindings (map (\<lambda>(ref, rb). CallCreate (OwnedRoleBinding rb)) m) = []"
  by (induction m) auto

text \<open>An early return from the loop is an error or asks for a requeue.\<close>

lemma owned_early_not_ok:
  "owned_role_bindings_loop K C w items m s = (Inr r, s') \<Longrightarrow> r \<noteq> Inl (Result_zero, None)"
proof (induction items arbitrary: m s)
  case Nil
  then show ?case by (auto simp: act_return_def)
next
  case (Cons found items)
  have early: "act_bind (updateWorkspaceStateThenError C w' st msg err) (\<lambda>x. act_return (Inl x)) s1 \<noteq>
      (Inr (Inl (Result_zero, None)), s')" for w' st msg err s1
    by (auto simp: act_return_def thenError_not_ok elim!: act_bind_Inr)
  show ?case
  proof
    assume r: "r = Inl (Result_zero, None)"
    from Cons.prems Cons.IH [where m = m] Cons.IH [where m = "AList.delete _ m"] show False
      unfolding r
      by (auto simp: act_return_def requeue_after_def Result_zero_def Let_def early [unfolded Result_zero_def]
          elim!: act_bind_Inr split: option.splits sum.splits prod.splits if_splits)
  qed
qed

definition cluster_role_ref :: "string \<Rightarrow> RoleRef" where
  "cluster_role_ref role =
     \<lparr>rr_APIGroup = ''rbac.authorization.k8s.io'', rr_Kind = ''ClusterRole'', rr_Name = role\<rparr>"

lemma generateRoleBinding_ref: "rb_RoleRef (generateRoleBinding w sa role) = cluster_role_ref role"
  by (simp add: generateRoleBinding_def cluster_role_ref_def Let_def)

lemma desired_role_bindings_keys:
  "desired_role_bindings K w sa roles m = Inr m' \<Longrightarrow> wf_map m \<Longrightarrow> (\<forall>(ref, rb) \<in> set m. rb_RoleRef rb = ref) \<Longrightarrow>
   wf_map m' \<and> set (map fst m') = set (map fst m) \<union> cluster_role_ref ` set roles \<and>
   (\<forall>(ref, rb) \<in> set m'. rb_RoleRef rb = ref)"
proof (induction roles arbitrary: m)
  case (Cons role roles)
  let ?rb = "generateRoleBinding w sa role"
  from Cons.prems(1) obtain meta where
    rest: "desired_role_bindings K w sa roles (AList.update (rb_RoleRef ?rb) (?rb\<lparr>rb_Meta := meta\<rparr>) m) = Inr m'"
    by (auto simp: Let_def split: sum.splits)
  have "\<forall>(ref, rb) \<in> set (AList.update (rb_RoleRef ?rb) (?rb\<lparr>rb_Meta := meta\<rparr>) m). rb_RoleRef rb = ref"
    using Cons.prems(3) by (induction m) (auto split: if_splits)
  from Cons.IH [OF rest _ this] Cons.prems(2) show ?case
    by (auto simp: distinct_update dom_update generateRoleBinding_ref)
qed simp

section \<open>Properties\<close>

text \<open>
  C4. When \<open>reconcileRoleBindings\<close> succeeds, the RoleBindings of the Workspace have converged: of the
  listed ones it has deleted all but some, and the remaining together with the created ones are
  exactly one for each cluster role of the kind.
\<close>

theorem reconcileRoleBindings_converges:
  assumes "roleRef_immutable C"
    and "reconcileRoleBindings K C w wk sa s = (Inr (Result_zero, None), s')" and "run_calls s = []"
    and "fst (op_List (c_RoleBindings C) (w_Namespace w) (w_Name w) (run_world s)) = Inr items"
  shows "\<exists>kept. mset items = mset kept + mset (deleted_bindings (run_calls s')) \<and>
    distinct (map rb_RoleRef (kept @ created_bindings (run_calls s'))) \<and>
    set (map rb_RoleRef (kept @ created_bindings (run_calls s'))) = cluster_role_ref ` set (cluster_roles wk)"
proof -
  let ?list = "act_read (op_List (c_RoleBindings C) (w_Namespace w) (w_Name w))"
  obtain m where m: "desired_role_bindings K w sa (cluster_roles wk) [] = Inr m"
    using assms(2) by (cases "desired_role_bindings K w sa (cluster_roles wk) []")
      (auto simp: reconcileRoleBindings_def act_return_def)
  from desired_role_bindings_keys [OF m] have keys: "wf_map m"
    "set (map fst m) = cluster_role_ref ` set (cluster_roles wk)" "\<forall>(ref, rb) \<in> set m. rb_RoleRef rb = ref"
    by auto
  have list: "fst (?list s) = Inr (Inr items)" and calls1: "run_calls (snd (?list s)) = []"
    using assms(3,4) by (auto simp: act_read_def split: prod.splits)
  from assms(2) have "act_bind (owned_role_bindings_loop K C w items m)
      (\<lambda>r. case r of Inl x \<Rightarrow> act_return x | Inr m' \<Rightarrow> create_role_bindings_loop C w m') (snd (?list s)) =
      (Inr (Result_zero, None), s')"
    unfolding reconcileRoleBindings_def m sum.case
    by (subst (asm) act_bind_def) (use list in \<open>auto split: prod.splits\<close>)
  then obtain r s2 where loop: "owned_role_bindings_loop K C w items m (snd (?list s)) = (Inr r, s2)"
    and after: "(case r of Inl x \<Rightarrow> act_return x | Inr m' \<Rightarrow> create_role_bindings_loop C w m') s2 = (Inr (Result_zero, None), s')"
    by (rule act_bind_Inr)
  from after owned_early_not_ok [OF loop] obtain m' where r: "r = Inr m'"
    by (cases r) (auto simp: act_return_def)
  from owned_role_bindings_loop_result [OF assms(1) keys(1) loop [unfolded r]] calls1 obtain new kept where
    new: "run_calls s2 = new" and out: "sorted_out items m new kept m'"
    by auto
  from after r have "run_calls s' = new @ map (\<lambda>(ref, rb). CallCreate (OwnedRoleBinding rb)) m'"
    using create_role_bindings_loop_result [of C w m' s2 s'] new by simp
  then have c: "created_bindings (run_calls s') = map snd m'" "deleted_bindings (run_calls s') = deleted_bindings new"
    using out by (simp_all add: created_bindings_append deleted_bindings_append created_bindings_map deleted_bindings_map
        sorted_out_def)
  from out keys(3) have "\<forall>(ref, rb) \<in> set m'. rb_RoleRef rb = ref"
    unfolding sorted_out_def by blast
  then have refs: "map rb_RoleRef (map snd m') = map fst m'"
    by (induction m') auto
  from out have "mset items = mset kept + mset (deleted_bindings new)" "distinct (map rb_RoleRef kept)" "wf_map m'"
    "set (map rb_RoleRef kept) = set (map fst m) - set (map fst m')" "set m' \<subseteq> set m"
    by (simp_all add: sorted_out_def)
  moreover from this(5) have "set (map fst m') \<subseteq> set (map fst m)"
    by auto
  ultimately show ?thesis
    unfolding c keys(2) [symmetric]
    by (intro exI [of _ kept]) (simp only: map_append distinct_append set_append refs, blast)
qed

text \<open>An object that a Workspace has taken over is recognised as its own from then on.\<close>

lemma replace_current:
  assumes K: "GetControllerOf_spec K" "SetControllerReference_spec K" and one: "one_controller obj"
    and run: "ReplaceWorkspaceAsController K obj w = Inr (obj', b)"
    and "om_OwnerReferences m = om_OwnerReferences obj'"
  shows "ReplaceWorkspaceAsController K m w = Inr (m, False)"
proof -
  have set: "\<exists>ref. controller_refs (om_OwnerReferences o2) = [ref] \<and> or_UID ref = om_UID (w_Meta w) \<and> or_APIVersion ref = GroupVersion_String"
    if "controller_refs (om_OwnerReferences o1) = []" "SetControllerReference K (w_Meta w) o1 = Inr o2" for o1 o2
    using SetControllerReference_D [OF K(2) that] by (auto simp: GroupVersion_String_def GroupVersion_Group_def)
  have "\<exists>ref. controller_refs (om_OwnerReferences obj') = [ref] \<and> or_UID ref = om_UID (w_Meta w) \<and> or_APIVersion ref = GroupVersion_String"
  proof (cases "GetControllerOf K obj")
    case None
    with run have "SetControllerReference K (w_Meta w) obj = Inr obj'"
      by (simp add: ReplaceWorkspaceAsController_def Let_def split: sum.splits)
    with None GetControllerOf_cases(1) [OF K(1)] show ?thesis
      by (intro set) simp_all
  next
    case (Some r)
    then have r: "r \<in> set (controller_refs (om_OwnerReferences obj))"
      by (rule GetControllerOf_cases [OF K(1)])
    let ?obj = "obj\<lparr>om_OwnerReferences := filter (\<lambda>ref. \<not> (or_Controller ref = Some True \<and> or_UID ref = or_UID r))
      (om_OwnerReferences obj)\<rparr>"
    have none: "controller_refs (om_OwnerReferences ?obj) = []"
      using one_controller_removed [OF one r] by simp
    from run Some consider "obj' = obj" "or_UID r = om_UID (w_Meta w)" "or_APIVersion r = GroupVersion_String"
      | "SetControllerReference K (w_Meta w) ?obj = Inr obj'"
      by (simp add: ReplaceWorkspaceAsController_def Let_def split: sum.splits if_splits)
    then show ?thesis
    proof cases
      case 1
      from one r have "controller_refs (om_OwnerReferences obj) = [r]"
        by (cases "controller_refs (om_OwnerReferences obj)") (auto simp: one_controller_def)
      with 1 show ?thesis by simp
    next
      case 2
      from set [OF none this] show ?thesis .
    qed
  qed
  then obtain ref where "controller_refs (om_OwnerReferences m) = [ref]" "or_UID ref = om_UID (w_Meta w)"
    "or_APIVersion ref = GroupVersion_String"
    using assms(5) by auto
  with GetControllerOf_single [OF K(1), of m ref] show ?thesis
    by (simp add: ReplaceWorkspaceAsController_def)
qed

lemma only_status_thenResult:
  "act_spec (\<lambda>c. \<exists>w. c = CallUpdateStatus w) (\<lambda>_. True) (\<lambda>_. True) (updateWorkspaceStateThenResult C w st msg res)"
  unfolding updateWorkspaceStateThenResult_def updateWorkspaceState_def Let_def
  by (intro act_spec_bind) (auto intro!: spec_intros act_spec_bind split: option.splits sum.splits)

lemma only_status_thenError:
  "act_spec (\<lambda>c. \<exists>w. c = CallUpdateStatus w) (\<lambda>_. True) (\<lambda>_. True) (updateWorkspaceStateThenError C w st msg err)"
  unfolding updateWorkspaceStateThenError_def updateWorkspaceState_def Let_def
  by (intro act_spec_bind) (auto intro!: spec_intros act_spec_bind split: option.splits sum.splits)

lemma only_status_updateWorkspaceState:
  "act_spec (\<lambda>c. \<exists>w. c = CallUpdateStatus w) (\<lambda>_. True) (\<lambda>_. True) (updateWorkspaceState C w st msg)"
  unfolding updateWorkspaceState_def Let_def
  by (auto intro!: spec_intros act_spec_bind split: option.splits sum.splits)

text \<open>A step that ends the reconcile and writes nothing but the status.\<close>

abbreviation ends_quietly :: "('s, 'a) act \<Rightarrow> bool" where
  "ends_quietly m \<equiv> act_spec (\<lambda>c. \<exists>w. c = CallUpdateStatus w) (\<lambda>_. True) (\<lambda>_. False) m"

lemma quiet_intros:
  "ends_quietly (stop_error_state C w msg)" "ends_quietly (stop_error_state_then C w msg err)"
  "ends_quietly (act_bind (updateWorkspaceStateThenResult C w' st msg res) act_finish)" "ends_quietly (act_stop out)"
  "ends_quietly (stop_error err)"
  unfolding stop_error_state_def stop_error_state_then_def stop_error_def
  by (auto intro!: spec_intros act_spec_bind [OF only_status_updateWorkspaceState]
      act_spec_bind [OF only_status_thenError] act_spec_bind [OF only_status_thenResult])

lemma ends_quietlyD:
  assumes "ends_quietly m" and "m s = (r, s')"
  shows "\<exists>out new. r = Inl out \<and> run_calls s' = run_calls s @ new \<and> (\<forall>c \<in> set new. \<exists>w. c = CallUpdateStatus w)"
proof -
  from assms obtain new where "run_calls s' = run_calls s @ new" "list_all (\<lambda>c. \<exists>w. c = CallUpdateStatus w) new"
    "case r of Inl out \<Rightarrow> True | Inr x \<Rightarrow> False"
    by (rule act_specE)
  then show ?thesis by (cases r) (auto simp: list_all_iff)
qed

text \<open>A Pod of an older revision is deleted, and whatever comes of it, only the status is written after.\<close>

lemma reconcile_pod_found_delete:
  assumes "reconcile_pod_found K C w sts pod s = (r, s')" and "run_calls s = []"
    and "map_option or_UID (GetControllerOf K (pod_Meta pod)) = Some (om_UID (sts_Meta sts))"
    and "pending_revision sts pod" and "om_DeletionTimestamp (pod_Meta pod) = None"
  obtains out new where "r = Inl out" and "run_calls s' = CallDeletePod pod # new"
    and "\<forall>c \<in> set new. \<exists>w. c = CallUpdateStatus w"
proof -
  let ?wr = "act_write (CallDeletePod pod) (c_DeletePod C pod)"
  define cont :: "go_error + unit \<Rightarrow> ('a, Pod option) act" where
    "cont = (\<lambda>r. case r of
       Inl err \<Rightarrow>
         if IsNotFound err then act_stop (Returned (requeue_after (5 * time_Second)) None)
         else if IsConflict err then act_stop (Returned (requeue_after 1) None)
         else stop_error_state_then C w (''Failed to delete Pod '' @ om_Name (pod_Meta pod) @ '': '' @ err_Error err) err
     | Inr _ \<Rightarrow> act_bind (updateWorkspaceStateThenResult C (Some w) WorkspaceStateTerminating
         ''Workspace is terminating'' (requeue_after (5 * time_Second))) act_finish)"
  have run: "act_bind ?wr cont s = (r, s')"
    using assms(1,3-5) by (auto simp: reconcile_pod_found_def cont_def split: option.splits)
  have "ends_quietly (cont x)" for x
    unfolding cont_def by (cases x) (simp_all add: quiet_intros)
  moreover obtain x s1 where "?wr s = (Inr x, s1)" "run_calls s1 = [CallDeletePod pod]"
  proof -
    obtain x1 s1 where "?wr s = (x1, s1)"
      by fastforce
    with act_write_run [OF this] assms(2) that show thesis by auto
  qed
  moreover from run this(1) have "cont x s1 = (r, s')"
    by (simp add: act_bind_def)
  ultimately show thesis
    using ends_quietlyD [of "cont x" s1 r s'] that by auto
qed

text \<open>
  C5. Exactly when the reconcile deletes the Pod: the Pod belongs to the StatefulSet of the Workspace, the
  StatefulSet controller has seen the current generation and has a revision that the Pod does not
  run, and the Pod is not being deleted already. Exactly when the Pod belongs to the StatefulSet and
  runs its revision, the reconcile goes on, with that Pod and without a write.
\<close>

theorem reconcile_pod_rollout:
  assumes "reconcile_pod_found K C w sts pod s = (r, s')" and "run_calls s = []"
  shows "let owned = (map_option or_UID (GetControllerOf K (pod_Meta pod)) = Some (om_UID (sts_Meta sts)));
      outdated = (om_Generation (sts_Meta sts) = sts_ObservedGeneration sts \<and> sts_UpdateRevision sts \<noteq> [] \<and>
        map_get (om_Labels (pod_Meta pod)) ''controller-revision-hash'' \<noteq> sts_UpdateRevision sts)
    in (CallDeletePod p \<in> set (run_calls s') \<longleftrightarrow>
          p = pod \<and> owned \<and> outdated \<and> om_DeletionTimestamp (pod_Meta pod) = None) \<and>
       (owned \<and> \<not> outdated \<longleftrightarrow> r = Inr (Some pod) \<and> run_calls s' = [])"
proof -
  let ?owned = "map_option or_UID (GetControllerOf K (pod_Meta pod)) = Some (om_UID (sts_Meta sts))"
  have quiet: "CallDeletePod p \<notin> set (run_calls s') \<and> r \<noteq> Inr (Some pod)"
    if "ends_quietly m" "m s = (r, s')" for m :: "('a, Pod option) act"
    using ends_quietlyD [OF that] assms(2) by auto
  consider (foreign) "\<not> ?owned" | (current) "?owned" "\<not> pending_revision sts pod"
    | (deleting) "?owned" "pending_revision sts pod" "om_DeletionTimestamp (pod_Meta pod) \<noteq> None"
    | (delete) "?owned" "pending_revision sts pod" "om_DeletionTimestamp (pod_Meta pod) = None"
    by blast
  then have "(CallDeletePod p \<in> set (run_calls s') \<longleftrightarrow>
        p = pod \<and> ?owned \<and> pending_revision sts pod \<and> om_DeletionTimestamp (pod_Meta pod) = None) \<and>
      (?owned \<and> \<not> pending_revision sts pod \<longleftrightarrow> r = Inr (Some pod) \<and> run_calls s' = [])"
  proof cases
    case foreign
    then have "ends_quietly (reconcile_pod_found K C w sts pod)"
      by (auto simp: reconcile_pod_found_def intro: quiet_intros split: option.splits)
    from quiet [OF this assms(1)] foreign show ?thesis by blast
  next
    case current
    with assms show ?thesis
      by (auto simp: reconcile_pod_found_def act_return_def split: option.splits)
  next
    case deleting
    then have "ends_quietly (reconcile_pod_found K C w sts pod)"
      by (auto simp: reconcile_pod_found_def intro: quiet_intros split: option.splits)
    from quiet [OF this assms(1)] deleting show ?thesis by blast
  next
    case delete
    from reconcile_pod_found_delete [OF assms delete] obtain out new where "r = Inl out"
      "run_calls s' = CallDeletePod pod # new" "\<forall>c \<in> set new. \<exists>w. c = CallUpdateStatus w" .
    with delete show ?thesis by auto
  qed
  then show ?thesis
    unfolding Let_def pending_revision_def StatefulSetRevisionLabel_def .
qed

text \<open>
  A StatefulSet that a reconcile has just updated needs no further update: when the API server
  stores what it was sent, the next reconcile, with the same generated StatefulSet, finds its own
  controller reference and equal fields, and goes on without a write.
\<close>

theorem update_stateful_set_settles:
  assumes "GetControllerOf_spec K" and "SetControllerReference_spec K" and "one_controller (sts_Meta found)"
    and "ReplaceWorkspaceAsController K (sts_Meta found) w = Inr (meta, replaced)"
    and "sts_usable K desired (found\<lparr>sts_Meta := meta\<rparr>)"
    and "CopyStatefulSetFields K desired (found\<lparr>sts_Meta := meta\<rparr>) = Some (stored, updated)"
  shows "\<exists>x. update_owned C (c_StatefulSets C) OwnedStatefulSet sts_Meta (\<lambda>m x. x\<lparr>sts_Meta := m\<rparr>) K (sts_copier K)
      ''StatefulSet'' w desired stored s = (Inr (x, om_Name (sts_Meta stored)), s)"
proof -
  have "om_OwnerReferences (sts_Meta stored) = om_OwnerReferences meta"
    using CopyStatefulSetFields_meta [OF assms(6)] copyMetadata_keeps by simp
  with replace_current [OF assms(1-4)] have "ReplaceWorkspaceAsController K (sts_Meta stored) w = Inr (sts_Meta stored, False)"
    by simp
  moreover obtain t where "CopyStatefulSetFields K desired stored = Some (t, False)"
    using sts_copier.second_pass [OF assms(5,6)] by blast
  ultimately show ?thesis
    by (simp add: update_owned_def sts_copier_def act_return_def)
qed

text \<open>
  C6. The Workspace is patched only to carry out a pause that \<open>reconcileActivity\<close> decided in this very
  reconcile, on the status derived from the Pod in this reconcile; the patch is the last write, and
  it comes after the status update, if one was needed.
\<close>

theorem reconcile_status_pause:
  assumes "reconcile_status K ex C original w wk pc sts sa pod s = (r, s')" and "run_calls s = []"
    and "CallPatchWorkspace from to \<in> set (run_calls s')"
  shows "\<exists>rd status result res w1 cache.
    rd = fst (c_Readings C (run_world s)) \<and>
    generateWorkspaceStatus (rd_listEvents rd) (rd_statusNow0 rd) (rd_statusNow1 rd) w pod (Some sts) (Some sa) =
      (status, Inr result) \<and>
    reconcileActivity K (rd_nsGet rd) (rd_activityNow0 rd) (rd_activityNow1 rd) (rd_probe rd) ex
      (w\<lparr>w_Status := status\<rparr>) wk (Some pc) pod (run_cache s) = (Inr (res, True), w1, cache) \<and>
    ws_Paused (w_Spec to) \<and> from = original \<and>
    run_calls s' = (if eq_WorkspaceStatus K (w_Status original) (w_Status w1) then [] else [CallUpdateStatus w1]) @
      [CallPatchWorkspace original to]"
proof -
  obtain rd x where rd: "c_Readings C (run_world s) = (rd, x)"
    by fastforce
  obtain status g where g: "generateWorkspaceStatus (rd_listEvents rd) (rd_statusNow0 rd) (rd_statusNow1 rd) w pod
      (Some sts) (Some sa) = (status, g)"
    by fastforce
  let ?s1 = "s\<lparr>run_world := x\<rparr>"
  have no_patch: "False" if "ends_quietly m" "m ?s1 = (r, s')" for m :: "('a, unit) act"
    using ends_quietlyD [OF that] assms(2,3) by auto
  show ?thesis
  proof (cases g)
    case (Inl err)
    with assms(1) rd g have "stop_error_state_then C w
        (''Failed to generate Workspace status with error: '' @ err_Error err) err ?s1 = (r, s')"
      by (simp add: reconcile_status_def act_bind_def [of "act_readings C"] act_readings_def)
    from no_patch [OF quiet_intros(2) this] show ?thesis ..
  next
    case (Inr result)
    obtain a w1 cache where a: "reconcileActivity K (rd_nsGet rd) (rd_activityNow0 rd) (rd_activityNow1 rd) (rd_probe rd) ex
      (w\<lparr>w_Status := status\<rparr>) wk (Some pc) pod (run_cache s) = (a, w1, cache)"
      by (metis prod_cases3)
    have act: "act_activity K rd ex (w\<lparr>w_Status := status\<rparr>) wk pc pod ?s1 = (Inr (a, w1), ?s1\<lparr>run_cache := cache\<rparr>)"
      by (simp add: act_activity_def a)
    note run = assms(1) [unfolded reconcile_status_def act_bind_def [of "act_readings C"] act_readings_def rd]
    show ?thesis
    proof (cases a)
      case (Inl err)
      with run g Inr act assms(2) have "run_calls s' = []"
        by (auto simp: act_bind_def [of "act_activity _ _ _ _ _ _ _"] stop_error_def act_stop_def)
      with assms(3) show ?thesis by simp
    next
      case (Inr res)
      obtain ares paused where res: "res = (ares, paused)"
        by fastforce
      note run = run [unfolded prod.case sum.case g \<open>g = Inr result\<close> act_bind_def [of "act_activity _ _ _ _ _ _ _"]
        act Inr res Let_def]
      have "paused" and "from = original \<and> ws_Paused (w_Spec to) \<and> run_calls s' =
        (if eq_WorkspaceStatus K (w_Status original) (w_Status w1) then [] else [CallUpdateStatus w1]) @
        [CallPatchWorkspace original to]"
        using run assms(2,3)
        by (auto simp: act_bind_def act_write_def reconcile_pause_def act_stop_def stop_error_def Let_def
            split: if_splits prod.splits sum.splits)
      with rd g a \<open>g = Inr result\<close> Inr res show ?thesis
        by auto
    qed
  qed
qed

section \<open>Witnesses\<close>

definition sample_account :: ServiceAccount where
  "sample_account = \<lparr>sa_Meta = ObjectMeta_zero, sa_Rest = []\<rparr>"

text \<open>A kind that binds two cluster roles, and three bindings: two for the same role, one for another.\<close>

definition bound_kind :: WorkspaceKind where
  "bound_kind = sample_kind\<lparr>wk_Spec := (wk_Spec sample_kind)\<lparr>wks_PodTemplate := sample_pod_template
     \<lparr>kpt_ServiceAccount := Some \<lparr>ksa_ClusterRoles = [''view'', ''edit''], ksa_Metadata = None\<rparr>\<rparr>\<rparr>\<rparr>"

definition bound_client :: "unit client" where
  "bound_client = sample_client (map (generateRoleBinding sample_workspace sample_account) [''view'', ''admin'', ''view''])"

lemma bound_client_run:
  "fst (reconcileRoleBindings lib0 bound_client sample_workspace bound_kind sample_account sample_run) = Inr (Result_zero, None)"
  by code_simp

lemma bound_client_immutable: "roleRef_immutable bound_client"
  by (simp add: roleRef_immutable_def bound_client_def sample_client_def sample_ops_def)

theorem reconcileRoleBindings_converges_witness:
  "\<exists>kept. set (map rb_RoleRef (kept @ created_bindings (run_calls (snd (reconcileRoleBindings lib0 bound_client
       sample_workspace bound_kind sample_account sample_run))))) = {cluster_role_ref ''view'', cluster_role_ref ''edit''} \<and>
     distinct (map rb_RoleRef kept)"
proof -
  let ?run = "reconcileRoleBindings lib0 bound_client sample_workspace bound_kind sample_account sample_run"
  let ?created = "created_bindings (run_calls (snd ?run))"
  have run: "?run = (Inr (Result_zero, None), snd ?run)"
    using bound_client_run by (metis prod.collapse)
  have calls: "run_calls sample_run = []"
    by (simp add: sample_run_def)
  obtain items where items: "fst (op_List (c_RoleBindings bound_client) (w_Namespace sample_workspace) (w_Name sample_workspace)
      (run_world sample_run)) = Inr items"
    by (simp add: bound_client_def sample_client_def sample_ops_def)
  have roles: "cluster_role_ref ` set (cluster_roles bound_kind) = {cluster_role_ref ''view'', cluster_role_ref ''edit''}"
    by (simp add: cluster_roles_def bound_kind_def)
  from reconcileRoleBindings_converges [OF bound_client_immutable run calls items, unfolded roles] obtain kept where
    d: "distinct (map rb_RoleRef (kept @ ?created))"
    and e: "set (map rb_RoleRef (kept @ ?created)) = {cluster_role_ref ''view'', cluster_role_ref ''edit''}"
    by blast
  show ?thesis
    by (rule exI [of _ kept], rule conjI [OF e]) (use d in simp)
qed

text \<open>The Pod of a StatefulSet that has a newer revision.\<close>

definition stale_pod :: Pod where
  "stale_pod = sample_pod\<lparr>pod_Meta := (pod_Meta sample_pod)
     \<lparr>om_Labels := [(''controller-revision-hash'', ''rev0'')],
      om_OwnerReferences := [\<lparr>or_APIVersion = ''apps/v1'', or_Kind = ''StatefulSet'', or_Name = ''ws-notebook-abc'',
        or_UID = ''uid-sts'', or_Controller = Some True\<rparr>]\<rparr>\<rparr>"

definition seen_sts :: StatefulSet where
  "seen_sts = (sample_sts 1 [])\<lparr>sts_ObservedGeneration := 0, sts_Meta := (sts_Meta (sample_sts 1 []))\<lparr>om_UID := ''uid-sts''\<rparr>\<rparr>"

theorem reconcile_pod_rollout_witness:
  "CallDeletePod stale_pod \<in>
     set (run_calls (snd (reconcile_pod_found lib0 (sample_client []) sample_workspace seen_sts stale_pod sample_run)))"
proof -
  let ?run = "reconcile_pod_found lib0 (sample_client []) sample_workspace seen_sts stale_pod sample_run"
  have "map_option or_UID (GetControllerOf lib0 (pod_Meta stale_pod)) = Some (om_UID (sts_Meta seen_sts))"
    by (simp add: lib0_def GetControllerOf0_def controller_refs_def stale_pod_def seen_sts_def)
  moreover have "pending_revision seen_sts stale_pod"
    by (simp add: pending_revision_def seen_sts_def stale_pod_def sample_sts_def ObjectMeta_zero_def
        StatefulSetRevisionLabel_def map_get_def)
  moreover have "om_DeletionTimestamp (pod_Meta stale_pod) = None"
    by (simp add: stale_pod_def sample_pod_def ObjectMeta_zero_def)
  moreover have "?run = (fst ?run, snd ?run)" "run_calls sample_run = []"
    by (simp_all add: sample_run_def)
  ultimately show ?thesis
    using reconcile_pod_rollout [of lib0 "sample_client []" sample_workspace seen_sts stale_pod sample_run "fst ?run"
        "snd ?run" stale_pod, unfolded Let_def StatefulSetRevisionLabel_def [symmetric] pending_revision_def [symmetric]]
    by blast
qed

theorem update_stateful_set_settles_witness:
  "\<exists>stored x. CopyStatefulSetFields lib0 (sample_sts 0 [(''a'', ''b'')]) stored = Some (x, False) \<and>
     (\<exists>y. update_owned (sample_client []) (c_StatefulSets (sample_client [])) OwnedStatefulSet sts_Meta
        (\<lambda>m x. x\<lparr>sts_Meta := m\<rparr>) lib0 (sts_copier lib0) ''StatefulSet'' sample_workspace (sample_sts 0 [(''a'', ''b'')])
        stored sample_run = (Inr (y, om_Name (sts_Meta stored)), sample_run))"
proof -
  let ?d = "sample_sts 0 [(''a'', ''b'')]" and ?found = "sample_sts 1 []"
  have one: "one_controller (sts_Meta ?found)"
    by (simp add: one_controller_def controller_refs_def sample_sts_def ObjectMeta_zero_def)
  obtain meta where rep: "ReplaceWorkspaceAsController lib0 (sts_Meta ?found) sample_workspace = Inr (meta, True)"
    and lbl: "om_Labels meta = []" "om_Annotations meta = []"
    by (simp add: ReplaceWorkspaceAsController_def lib0_def GetControllerOf0_def controller_refs_def sample_sts_def
        ObjectMeta_zero_def SetControllerReference0_def)
  have use: "sts_usable lib0 ?d (?found\<lparr>sts_Meta := meta\<rparr>)"
    using lbl by (simp add: sts_usable_def lib0_def sample_sts_def wf_meta_def ObjectMeta_zero_def)
  then obtain stored u where cp: "CopyStatefulSetFields lib0 ?d (?found\<lparr>sts_Meta := meta\<rparr>) = Some (stored, u)"
    using sts_copier.copy_total by blast
  from sts_copier.second_pass [OF use cp]
    update_stateful_set_settles [OF lib0_GetControllerOf lib0_SetControllerReference one rep use cp] show ?thesis
    by blast
qed

text \<open>A Pod that runs and is ready, of an idle Workspace.\<close>

definition ready_pod :: Pod where
  "ready_pod = stale_pod\<lparr>pod_Conditions :=
     [\<lparr>pc_Type = ''PodScheduled'', pc_Status = ''True'', pc_Reason = [], pc_Message = []\<rparr>,
      \<lparr>pc_Type = ''Ready'', pc_Status = ''True'', pc_Reason = [], pc_Message = []\<rparr>],
     pod_Meta := (pod_Meta stale_pod)\<lparr>om_Labels := [(''controller-revision-hash'', ''rev1'')]\<rparr>\<rparr>"

lemma ready_status:
  "\<exists>status result. generateWorkspaceStatus (rd_listEvents sample_readings) (rd_statusNow0 sample_readings)
      (rd_statusNow1 sample_readings) sample_running (Some ready_pod) (Some seen_sts) (Some sample_account) =
      (status, Inr result) \<and>
    st_State status = WorkspaceStateRunning \<and> st_LastRunningTime status = 1000000 \<and> st_Activity status = WorkspaceActivity_zero"
  by (simp add: generateWorkspaceStatus_def generateWorkspaceState_def sample_running_def ready_pod_def stale_pod_def
      sample_pod_def seen_sts_def sample_sts_def sample_workspace_def sample_status_def ObjectMeta_zero_def map_get_def
      pod_conditions_def recordRunningTransition_def Let_def)

theorem reconcile_status_pause_witness:
  "\<exists>to. last (run_calls (snd (reconcile_status lib_keys (Some (sample_executor None)) (sample_client []) sample_running
       sample_running sample_kind (sample_pod_config ''tiny'' None) seen_sts sample_account (Some ready_pod) sample_run))) =
     CallPatchWorkspace sample_running to \<and> ws_Paused (w_Spec to)"
proof -
  let ?pc = "sample_pod_config ''tiny'' None"
  let ?run = "reconcile_status lib_keys (Some (sample_executor None)) (sample_client []) sample_running
       sample_running sample_kind ?pc seen_sts sample_account (Some ready_pod) sample_run"
  obtain status result where st: "generateWorkspaceStatus (rd_listEvents sample_readings) (rd_statusNow0 sample_readings)
      (rd_statusNow1 sample_readings) sample_running (Some ready_pod) (Some seen_sts) (Some sample_account) =
      (status, Inr result)" "st_State status = WorkspaceStateRunning" "st_LastRunningTime status = 1000000"
    "st_Activity status = WorkspaceActivity_zero"
    using ready_status by blast
  obtain res w1 where act: "reconcileActivity lib_keys (\<lambda>_. Inr []) 10000000000000 0 sample_env
      (Some (sample_executor None)) (sample_running\<lparr>w_Status := status\<rparr>) sample_kind (Some ?pc) (Some ready_pod) [] =
      (Inr (res, True), w1, [])"
    using idle_reconcileActivity [of "sample_running\<lparr>w_Status := status\<rparr>" "Some ?pc" ready_pod] st by auto
  have rd: "c_Readings (sample_client []) (run_world sample_run) = (sample_readings, ())"
    by (simp add: sample_client_def)
  have "\<exists>to. CallPatchWorkspace sample_running to \<in> set (run_calls (snd ?run))"
    using st(1) act
    by (simp add: reconcile_status_def act_bind_def act_readings_def rd act_activity_def sample_readings_def sample_run_def
        reconcile_pause_def Let_def act_write_def sample_client_def act_stop_def)
  then obtain to where to: "CallPatchWorkspace sample_running to \<in> set (run_calls (snd ?run))"
    by blast
  have "?run = (fst ?run, snd ?run)" "run_calls sample_run = []"
    by (simp_all add: sample_run_def)
  from reconcile_status_pause [OF this to] show ?thesis
    by auto
qed

end
