(* ===== verification/Filter_Rules.thy ===== *)
theory Filter_Rules
  imports Admission
begin

text \<open>
  \<open>internal/filterrules/engine.go\<close> of the backend: the first-match-wins evaluation of the filter rules of
  a WorkspaceKind. A label map that is \<open>nil\<close> (the context was not given) is \<open>None\<close>; an empty one is
  \<open>Some []\<close>. A \<open>DenyMessage\<close> is its text.
\<close>

section \<open>Data\<close>

record Restrictions =
  rs_Deny :: bool
  rs_DenyMessage :: "string option"

definition DefaultRestrictions :: Restrictions where
  "DefaultRestrictions = \<lparr>rs_Deny = False, rs_DenyMessage = None\<rparr>"

record EvalTarget =
  et_Scope :: FilterRuleScope
  et_Labels :: "OptionSpawnerLabel list"

record compiledMatch =
  cmt_match :: FilterRuleMatch
  cmt_selector :: selector

record compiledRule =
  cr_rule :: FilterRule
  cr_matches :: "compiledMatch list"

record EvalContext =
  ec_NamespaceLabels :: "str_map option"
  ec_ImageConfigLabels :: "str_map option"
  ec_PodConfigLabels :: "str_map option"
  ec_compiledRules :: "compiledRule list"

record EvalResult =
  er_UIHide :: bool
  er_APIHide :: bool
  er_Restrictions :: Restrictions

section \<open>Evaluation\<close>

definition spawnerLabelsToMap :: "OptionSpawnerLabel list \<Rightarrow> str_map" where
  "spawnerLabelsToMap spawnerLabels =
     fold (\<lambda>l result. AList.update (osl_Key l) (osl_Value l) result) spawnerLabels []"

definition matchSelector :: "selector \<Rightarrow> str_map option \<Rightarrow> bool" where
  "matchSelector sel targetLabels = (case targetLabels of None \<Rightarrow> False | Some labels \<Rightarrow> sel labels)"

definition imageConfigLabels :: "FilterRuleScope \<Rightarrow> str_map option \<Rightarrow> EvalContext \<Rightarrow> str_map option" where
  "imageConfigLabels targetScope targetLabels evalCtx =
     (if targetScope = FilterRuleScopeImageConfig then targetLabels else ec_ImageConfigLabels evalCtx)"

definition podConfigLabels :: "FilterRuleScope \<Rightarrow> str_map option \<Rightarrow> EvalContext \<Rightarrow> str_map option" where
  "podConfigLabels targetScope targetLabels evalCtx =
     (if targetScope = FilterRuleScopePodConfig then targetLabels else ec_PodConfigLabels evalCtx)"

definition conditionMatches :: "compiledMatch \<Rightarrow> FilterRuleScope \<Rightarrow> str_map option \<Rightarrow> EvalContext \<Rightarrow> bool" where
  "conditionMatches cm targetScope targetLabels evalCtx =
     (if frm_MatchNamespace (cmt_match cm) \<noteq> None
      then matchSelector (cmt_selector cm) (ec_NamespaceLabels evalCtx)
      else if frm_MatchImageConfig (cmt_match cm) \<noteq> None
      then matchSelector (cmt_selector cm) (imageConfigLabels targetScope targetLabels evalCtx)
      else if frm_MatchPodConfig (cmt_match cm) \<noteq> None
      then matchSelector (cmt_selector cm) (podConfigLabels targetScope targetLabels evalCtx)
      else False)"

fun allConditionsMatch ::
  "compiledMatch list \<Rightarrow> FilterRuleScope \<Rightarrow> str_map option \<Rightarrow> EvalContext \<Rightarrow> bool" where
  "allConditionsMatch [] targetScope targetLabels evalCtx = True"
| "allConditionsMatch (cm # matches) targetScope targetLabels evalCtx =
     (if \<not> conditionMatches cm targetScope targetLabels evalCtx then False
      else allConditionsMatch matches targetScope targetLabels evalCtx)"

definition resolveRestrictions :: "FilterRuleEffect \<Rightarrow> Restrictions" where
  "resolveRestrictions effect =
     (case fre_API effect of
       None \<Rightarrow> DefaultRestrictions
     | Some api \<Rightarrow>
         if fra_Deny api = Some True
         then \<lparr>rs_Deny = True, rs_DenyMessage = fra_DenyMessage api\<rparr>
         else DefaultRestrictions)"

definition resultFromEffect :: "FilterRuleEffect \<Rightarrow> EvalResult" where
  "resultFromEffect effect =
     \<lparr>er_UIHide = (case fre_UI effect of None \<Rightarrow> False | Some ui \<Rightarrow> fru_Hide ui),
      er_APIHide = (case fre_API effect of None \<Rightarrow> False | Some api \<Rightarrow> fra_Hide api = Some True),
      er_Restrictions = resolveRestrictions effect\<rparr>"

definition EvalResult_default :: EvalResult where
  "EvalResult_default = \<lparr>er_UIHide = False, er_APIHide = False, er_Restrictions = DefaultRestrictions\<rparr>"

fun Evaluate_loop :: "compiledRule list \<Rightarrow> EvalTarget \<Rightarrow> str_map option \<Rightarrow> EvalContext \<Rightarrow> EvalResult" where
  "Evaluate_loop [] target targetLabels evalCtx = EvalResult_default"
| "Evaluate_loop (cr # rules) target targetLabels evalCtx =
     (if fr_Scope (cr_rule cr) \<noteq> et_Scope target
      then Evaluate_loop rules target targetLabels evalCtx
      else if \<not> allConditionsMatch (cr_matches cr) (et_Scope target) targetLabels evalCtx
      then Evaluate_loop rules target targetLabels evalCtx
      else resultFromEffect (fr_Effect (cr_rule cr)))"

definition Evaluate :: "EvalTarget \<Rightarrow> EvalContext \<Rightarrow> EvalResult" where
  "Evaluate target evalCtx =
     (let targetLabels = Some (spawnerLabelsToMap (et_Labels target))
      in Evaluate_loop (ec_compiledRules evalCtx) target targetLabels evalCtx)"

section \<open>Compiling the rules\<close>

definition compileSelector :: "k8s_lib \<Rightarrow> FilterRuleMatch \<Rightarrow> selector option" where
  "compileSelector K match =
     (let labelSelector =
        (if frm_MatchNamespace match \<noteq> None then frm_MatchNamespace match
         else if frm_MatchImageConfig match \<noteq> None then frm_MatchImageConfig match
         else frm_MatchPodConfig match)
      in case labelSelector of
           None \<Rightarrow> None
         | Some s \<Rightarrow> (case LabelSelectorAsSelector K s of Inl err \<Rightarrow> None | Inr sel \<Rightarrow> Some sel))"

fun compile_matches :: "k8s_lib \<Rightarrow> FilterRuleMatch list \<Rightarrow> compiledMatch list" where
  "compile_matches K [] = []"
| "compile_matches K (match # matches) =
     (case compileSelector K match of
       None \<Rightarrow> compile_matches K matches
     | Some sel \<Rightarrow> \<lparr>cmt_match = match, cmt_selector = sel\<rparr> # compile_matches K matches)"

fun compileRules :: "k8s_lib \<Rightarrow> FilterRule list \<Rightarrow> compiledRule list" where
  "compileRules K [] = []"
| "compileRules K (rule # rules) =
     (let matches = compile_matches K (fr_Match rule)
      in if matches = [] then compileRules K rules
         else \<lparr>cr_rule = rule, cr_matches = matches\<rparr> # compileRules K rules)"

definition filterRulesByScope :: "FilterRule list \<Rightarrow> FilterRuleScope list \<Rightarrow> FilterRule list" where
  "filterRulesByScope rules scopes = filter (\<lambda>rule. fr_Scope rule \<in> set scopes) rules"

definition buildEvalContext ::
  "k8s_lib \<Rightarrow> WorkspaceKind \<Rightarrow> str_map option \<Rightarrow> FilterRuleScope list \<Rightarrow> string \<Rightarrow> string \<Rightarrow> EvalContext" where
  "buildEvalContext K wsk namespaceLabels scopes imageConfigID podConfigID =
     \<lparr>ec_NamespaceLabels = namespaceLabels,
      ec_ImageConfigLabels =
        (if imageConfigID \<noteq> []
         then map_option (\<lambda>value. spawnerLabelsToMap (osi_Labels (icv_Spawner value)))
                (find (\<lambda>value. icv_Id value = imageConfigID) (wk_ImageConfigValues wsk))
         else None),
      ec_PodConfigLabels =
        (if podConfigID \<noteq> []
         then map_option (\<lambda>value. spawnerLabelsToMap (osi_Labels (pcv_Spawner value)))
                (find (\<lambda>value. pcv_Id value = podConfigID) (wk_PodConfigValues wsk))
         else None),
      ec_compiledRules = compileRules K (filterRulesByScope (wks_FilterRules (wk_Spec wsk)) scopes)\<rparr>"

definition workspaceKindScopes :: "FilterRuleScope list" where
  "workspaceKindScopes = [FilterRuleScopeWorkspaceKind]"

definition imageAndPodConfigScopes :: "FilterRuleScope list" where
  "imageAndPodConfigScopes = [FilterRuleScopeImageConfig, FilterRuleScopePodConfig]"

definition EvaluateWorkspaceKindFilterScopeRule :: "k8s_lib \<Rightarrow> WorkspaceKind \<Rightarrow> str_map option \<Rightarrow> EvalResult" where
  "EvaluateWorkspaceKindFilterScopeRule K wsk namespaceLabels =
     (let evalCtx = buildEvalContext K wsk namespaceLabels workspaceKindScopes [] []
      in Evaluate \<lparr>et_Scope = FilterRuleScopeWorkspaceKind, et_Labels = []\<rparr> evalCtx)"

definition BuildEvalContextForImageAndPodCfg ::
  "k8s_lib \<Rightarrow> WorkspaceKind \<Rightarrow> str_map option \<Rightarrow> string \<Rightarrow> string \<Rightarrow> EvalContext" where
  "BuildEvalContextForImageAndPodCfg K wsk namespaceLabels imageConfigID podConfigID =
     buildEvalContext K wsk namespaceLabels imageAndPodConfigScopes imageConfigID podConfigID"

section \<open>The documented meaning\<close>

text \<open>
  What the API documentation says of a rule, without compilation: a rule applies if all its conditions
  hold; a condition holds if the labels it looks at are known and its selector matches them. The labels
  of the value itself stand for the option of its own scope, the labels of the selected values for the
  others.
\<close>

definition condition_labels ::
  "FilterRuleScope \<Rightarrow> str_map \<Rightarrow> EvalContext \<Rightarrow> FilterRuleMatch \<Rightarrow> (LabelSelector \<times> str_map) option" where
  "condition_labels scope own ctx m =
     (case (frm_MatchNamespace m, frm_MatchImageConfig m, frm_MatchPodConfig m) of
       (Some s, _, _) \<Rightarrow> map_option (Pair s) (ec_NamespaceLabels ctx)
     | (None, Some s, _) \<Rightarrow>
         map_option (Pair s) (if scope = FilterRuleScopeImageConfig then Some own else ec_ImageConfigLabels ctx)
     | (None, None, Some s) \<Rightarrow>
         map_option (Pair s) (if scope = FilterRuleScopePodConfig then Some own else ec_PodConfigLabels ctx)
     | (None, None, None) \<Rightarrow> None)"

definition condition_holds ::
  "k8s_lib \<Rightarrow> FilterRuleScope \<Rightarrow> str_map \<Rightarrow> EvalContext \<Rightarrow> FilterRuleMatch \<Rightarrow> bool" where
  "condition_holds K scope own ctx m \<longleftrightarrow>
     (case condition_labels scope own ctx m of
       None \<Rightarrow> False
     | Some (s, labels) \<Rightarrow> (case LabelSelectorAsSelector K s of Inl err \<Rightarrow> False | Inr sel \<Rightarrow> sel labels))"

definition first_rule_result ::
  "k8s_lib \<Rightarrow> FilterRule list \<Rightarrow> FilterRuleScope \<Rightarrow> str_map \<Rightarrow> EvalContext \<Rightarrow> EvalResult" where
  "first_rule_result K rules scope own ctx =
     (case find (\<lambda>r. fr_Scope r = scope \<and> list_all (condition_holds K scope own ctx) (fr_Match r)) rules of
       None \<Rightarrow> EvalResult_default
     | Some r \<Rightarrow> resultFromEffect (fr_Effect r))"

text \<open>The schema: a rule has conditions, and each names exactly one selector.\<close>

definition filter_rule_shape :: "FilterRule \<Rightarrow> bool" where
  "filter_rule_shape rule \<longleftrightarrow>
     fr_Match rule \<noteq> [] \<and>
     list_all (\<lambda>m. length (filter (\<lambda>s. s \<noteq> None)
       [frm_MatchNamespace m, frm_MatchImageConfig m, frm_MatchPodConfig m]) = 1) (fr_Match rule)"

section \<open>Lemmas\<close>

definition compiles :: "k8s_lib \<Rightarrow> FilterRuleMatch \<Rightarrow> bool" where
  "compiles K m \<longleftrightarrow> compileSelector K m \<noteq> None"

lemma conditionMatches_holds:
  assumes "compileSelector K m = Some sel"
  shows "conditionMatches \<lparr>cmt_match = m, cmt_selector = sel\<rparr> scope (Some own) ctx =
    condition_holds K scope own ctx m"
  using assms
  by (auto simp: compileSelector_def conditionMatches_def condition_holds_def condition_labels_def matchSelector_def
      imageConfigLabels_def podConfigLabels_def Let_def split: if_splits option.splits sum.splits)

lemma allConditionsMatch_compiled:
  "list_all (compiles K) ms \<Longrightarrow>
   allConditionsMatch (compile_matches K ms) scope (Some own) ctx = list_all (condition_holds K scope own ctx) ms"
  by (induction ms) (auto simp: compiles_def conditionMatches_holds split: if_splits)

lemma compile_matches_Nil: "list_all (compiles K) ms \<Longrightarrow> compile_matches K ms = [] \<longleftrightarrow> ms = []"
  by (cases ms) (auto simp: compiles_def)

lemma Evaluate_loop_first:
  assumes "list_all (\<lambda>r. fr_Match r \<noteq> [] \<and> list_all (compiles K) (fr_Match r)) rules" and "scope \<in> set scopes"
  shows "Evaluate_loop (compileRules K (filterRulesByScope rules scopes))
      \<lparr>et_Scope = scope, et_Labels = ls\<rparr> (Some own) ctx = first_rule_result K rules scope own ctx"
  using assms(1)
proof (induction rules)
  case (Cons r rules)
  then have "compile_matches K (fr_Match r) \<noteq> []"
    by (simp add: compile_matches_Nil)
  with Cons assms(2) show ?case
    by (auto simp: filterRulesByScope_def first_rule_result_def allConditionsMatch_compiled)
qed (simp add: filterRulesByScope_def first_rule_result_def)

lemma validate_filter_matches_compile:
  assumes "ValidateLabelSelector_sound K" and "validate_filter_matches K scope path j ms = []"
    and "list_all (\<lambda>m. length (filter (\<lambda>s. s \<noteq> None)
       [frm_MatchNamespace m, frm_MatchImageConfig m, frm_MatchPodConfig m]) = 1) ms"
  shows "list_all (compiles K) ms"
  using assms(2,3)
proof (induction ms arbitrary: j)
  case (Cons m ms)
  then have "list_all (compiles K) ms"
    by (auto simp: Let_def)
  moreover have "compiles K m"
    using Cons.prems assms(1)
    by (auto simp: compiles_def compileSelector_def ValidateLabelSelector_sound_def Let_def
        split: option.splits if_splits sum.splits)
  ultimately show ?case
    by simp
qed simp

lemma validate_filter_rules_compile:
  assumes "ValidateLabelSelector_sound K" and "validate_filter_rules_loop K i rules = []"
    and "list_all filter_rule_shape rules"
  shows "list_all (\<lambda>r. fr_Match r \<noteq> [] \<and> list_all (compiles K) (fr_Match r)) rules"
  using assms(2,3)
proof (induction rules arbitrary: i)
  case (Cons r rules)
  then show ?case
    using validate_filter_matches_compile [OF assms(1)] by (auto simp: filter_rule_shape_def Let_def)
qed simp

section \<open>Properties\<close>

text \<open>
  C16. On a WorkspaceKind whose filter rules the admission webhook accepts (and whose rules have the
  shape the schema asks for), the rule engine does what the API documents: the result for a value is
  the effect of the first rule of its scope all of whose conditions hold, and the non-restrictive
  default if there is none. In particular no condition is dropped by the compilation, and without the
  labels a condition looks at the rule does not apply.
\<close>

theorem Evaluate_first_match:
  assumes "ValidateLabelSelector_sound K" and "validateFilterRules K wsk = []"
    and "list_all filter_rule_shape (wks_FilterRules (wk_Spec wsk))"
    and "scope \<in> set scopes"
  shows "Evaluate \<lparr>et_Scope = scope, et_Labels = labels\<rparr> (buildEvalContext K wsk ns scopes imageId podId) =
    first_rule_result K (wks_FilterRules (wk_Spec wsk)) scope (spawnerLabelsToMap labels)
      (buildEvalContext K wsk ns scopes imageId podId)"
proof -
  from assms(1-3) have "list_all (\<lambda>r. fr_Match r \<noteq> [] \<and> list_all (compiles K) (fr_Match r)) (wks_FilterRules (wk_Spec wsk))"
    unfolding validateFilterRules_def by (rule validate_filter_rules_compile)
  then show ?thesis
    unfolding Evaluate_def Let_def buildEvalContext_def
    using Evaluate_loop_first [OF _ assms(4)] by simp
qed

text \<open>A kind that denies its pod configs with the label \<open>size: small\<close> in production namespaces.\<close>

definition prod_rule :: FilterRule where
  "prod_rule =
     \<lparr>fr_Scope = FilterRuleScopePodConfig,
      fr_Effect =
        \<lparr>fre_UI = None,
         fre_API = Some \<lparr>fra_Hide = None, fra_Deny = Some True, fra_DenyMessage = Some ''not in production''\<rparr>\<rparr>,
      fr_Match =
        [\<lparr>frm_MatchNamespace = Some \<lparr>ls_MatchLabels = [(''env'', ''prod'')], ls_MatchExpressions = []\<rparr>,
          frm_MatchImageConfig = None, frm_MatchPodConfig = None\<rparr>,
         \<lparr>frm_MatchNamespace = None, frm_MatchImageConfig = None,
          frm_MatchPodConfig = Some \<lparr>ls_MatchLabels = [(''size'', ''small'')], ls_MatchExpressions = []\<rparr>\<rparr>]\<rparr>"

definition prod_kind :: WorkspaceKind where
  "prod_kind = sample_kind\<lparr>wk_Spec := (wk_Spec sample_kind)\<lparr>wks_FilterRules := [prod_rule]\<rparr>\<rparr>"

definition lib_labels :: k8s_lib where
  "lib_labels = lib0\<lparr>ValidateLabelSelector :=
     (\<lambda>s path. if ls_MatchExpressions s = [] then [] else [FieldInvalid path [] ''expressions''])\<rparr>"

lemma lib_labels_sound: "ValidateLabelSelector_sound lib_labels"
  by (auto simp: ValidateLabelSelector_sound_def lib_labels_def lib0_def LabelSelectorAsSelector0_def)

lemma prod_kind_accepted:
  "validateFilterRules lib_labels prod_kind = []"
  "list_all filter_rule_shape (wks_FilterRules (wk_Spec prod_kind))"
  by (simp_all add: validateFilterRules_def prod_kind_def prod_rule_def filter_rule_has_effect_def lib_labels_def
      filter_rule_shape_def Let_def)

theorem Evaluate_first_match_witness:
  "rs_Deny (er_Restrictions (Evaluate
     \<lparr>et_Scope = FilterRuleScopePodConfig, et_Labels = [\<lparr>osl_Key = ''size'', osl_Value = ''small''\<rparr>]\<rparr>
     (buildEvalContext lib_labels prod_kind (Some [(''env'', ''prod'')]) imageAndPodConfigScopes [] []))) \<and>
   \<not> rs_Deny (er_Restrictions (Evaluate
     \<lparr>et_Scope = FilterRuleScopePodConfig, et_Labels = [\<lparr>osl_Key = ''size'', osl_Value = ''small''\<rparr>]\<rparr>
     (buildEvalContext lib_labels prod_kind None imageAndPodConfigScopes [] [])))"
proof -
  have "FilterRuleScopePodConfig \<in> set imageAndPodConfigScopes"
    by (simp add: imageAndPodConfigScopes_def)
  note eval = Evaluate_first_match [OF lib_labels_sound prod_kind_accepted this]
  show ?thesis
    unfolding eval
    by (simp add: first_rule_result_def prod_kind_def prod_rule_def condition_holds_def condition_labels_def
        buildEvalContext_def spawnerLabelsToMap_def lib_labels_def lib0_def LabelSelectorAsSelector0_def
        resultFromEffect_def resolveRestrictions_def EvalResult_default_def DefaultRestrictions_def)
qed

end
