(* ===== verification/Backend_Objects.thy ===== *)
theory Backend_Objects
  imports Filter_Rules Caches
begin

text \<open>
  The Kubernetes objects that only the backend uses (Secrets, volume claims, volumes, storage classes, the
  metrics of a Pod, the live status of its containers, the options of a log request), in the manner of
  \<open>K8s_Types\<close>: the fields the backend uses. A quantity is \<open>opaque\<close>, bytes are a string. And the models
  of \<open>internal/models/workspaces/podtemplate/resources\<close> and \<open>.../logs\<close>.
\<close>

section \<open>Objects\<close>

record Secret =
  sec_Meta :: ObjectMeta
  sec_Type :: string
  sec_Immutable :: "bool option"
  sec_Data :: "(string, string) go_map"

record PersistentVolumeClaim =
  pvc_Meta :: ObjectMeta
  pvc_AccessModes :: "string list"
  pvc_StorageClassName :: "string option"
  pvc_Requests :: "(string, opaque) go_map"
  pvc_VolumeName :: string
  pvc_VolumeMode :: "string option"

record PersistentVolume =
  pv_Meta :: ObjectMeta
  pv_ReclaimPolicy :: string
  pv_VolumeMode :: "string option"
  pv_AccessModes :: "string list"

text \<open>Of a storage class the backend uses the metadata only.\<close>

record StorageClass =
  sc_Meta :: ObjectMeta

record ContainerMetrics =
  cmx_Name :: string
  cmx_Usage :: "(string, opaque) go_map"

record PodMetrics =
  pmx_Timestamp :: go_time
  pmx_Containers :: "ContainerMetrics list"

text \<open>The parts of a live container status that decide whether there are logs.\<close>

record LiveContainerStatus =
  lcs_Name :: string
  lcs_Waiting :: bool
  lcs_LastTerminated :: bool

record LivePod =
  lp_ContainerStatuses :: "LiveContainerStatus list"
  lp_InitContainerStatuses :: "LiveContainerStatus list"

record PodLogOptions =
  plo_Container :: string
  plo_TailLines :: int
  plo_LimitBytes :: int
  plo_Previous :: bool
  plo_Follow :: bool
  plo_Timestamps :: bool
  plo_SinceTime :: "go_time option"

section \<open>Models\<close>

record ResourceValues =
  rv_CPU :: string
  rv_Memory :: string

record MetricsFromMetricsServer =
  mms_Timestamp :: string
  mms_Usage :: ResourceValues

record ContainerResourceUsage =
  cru_Metrics :: "MetricsFromMetricsServer option"
  cru_Resources :: opaque

record WorkspaceResourceUsage =
  wru_Containers :: "(string, ContainerResourceUsage) go_map"

record LogOptions =
  lgo_Container :: string
  lgo_TailLines :: int
  lgo_Previous :: bool
  lgo_SinceTime :: "go_time option"

end
