(* ===== verification/Backend_Base.thy ===== *)
theory Backend_Base
  imports Backend_Objects
begin

text \<open>
  The base of the backend (\<open>workspaces/backend\<close>): its errors, the monad its repositories run in, the
  validation helpers of \<open>internal/helper/validation.go\<close>, the common models (audit, revision) and the
  namespace lookup of \<open>internal/repositories/common\<close>.
\<close>

section \<open>Errors\<close>

text \<open>
  An error is what the code can ask of it: the reason and the causes of an API status
  (\<open>apierrors.IsNotFound\<close> and its kin, \<open>StatusCausesFromAPIStatus\<close>), a sentinel (\<open>errors.Is\<close>), one of the
  two error types of the backend (\<open>errors.As\<close>), or nothing. \<open>fmt.Errorf("prefix: %w", err)\<close> wraps.
\<close>

datatype api_reason =
    ReasonNotFound | ReasonAlreadyExists | ReasonConflict | ReasonInvalid | ReasonForbidden | ReasonOther

record StatusCause =
  stc_Type :: string
  stc_Message :: string
  stc_Field :: string

datatype sentinel =
    ErrWorkspaceNotFound
  | ErrWorkspacePodNotRunning
  | ErrWorkspaceAlreadyExists
  | ErrWorkspaceInvalidState
  | ErrWorkspaceRevisionConflict
  | ErrWorkspaceKindNotFound
  | ErrWorkspaceKindAlreadyExists
  | ErrWorkspaceKindRevisionConflict
  | ErrWorkspaceKindAssetConfigMapNotFound
  | ErrWorkspaceKindAssetConfigMapKeyMissing
  | ErrWorkspaceKindAssetNotConfigMap
  | ErrSecretNotFound
  | ErrSecretAlreadyExists
  | ErrSecretNotCanUpdate
  | ErrPVCNotFound
  | ErrPVCAlreadyExists
  | ErrPVCNotCanUpdate
  | ErrPreviousLogsNotFound
  | ErrContainerNotFound
  | ErrContainerNotRunning

definition LabelCanUpdate :: string where
  "LabelCanUpdate = ''workspaces.kubeflow.org/can-update''"

primrec sentinel_Error :: "sentinel \<Rightarrow> string" where
  "sentinel_Error ErrWorkspaceNotFound = ''workspace not found''"
| "sentinel_Error ErrWorkspacePodNotRunning = ''workspace pod is not running''"
| "sentinel_Error ErrWorkspaceAlreadyExists = ''workspace already exists''"
| "sentinel_Error ErrWorkspaceInvalidState = ''workspace is in an invalid state for this operation''"
| "sentinel_Error ErrWorkspaceRevisionConflict = ''current workspace revision does not match request''"
| "sentinel_Error ErrWorkspaceKindNotFound = ''workspace kind not found''"
| "sentinel_Error ErrWorkspaceKindAlreadyExists = ''workspacekind already exists''"
| "sentinel_Error ErrWorkspaceKindRevisionConflict = ''current workspace kind revision does not match request''"
| "sentinel_Error ErrWorkspaceKindAssetConfigMapNotFound =
     ''workspacekind asset configmap not found, or does not have workspaces.kubeflow.org/image-source=true label''"
| "sentinel_Error ErrWorkspaceKindAssetConfigMapKeyMissing = ''workspacekind asset configmap missing expected key''"
| "sentinel_Error ErrWorkspaceKindAssetNotConfigMap = ''workspacekind asset does not reference a configmap''"
| "sentinel_Error ErrSecretNotFound = ''secret not found''"
| "sentinel_Error ErrSecretAlreadyExists = ''secret already exists''"
| "sentinel_Error ErrSecretNotCanUpdate =
     ''secret cannot be modified because it is not labeled with '' @ LabelCanUpdate @ ''=true''"
| "sentinel_Error ErrPVCNotFound = ''PVC not found''"
| "sentinel_Error ErrPVCAlreadyExists = ''PVC already exists''"
| "sentinel_Error ErrPVCNotCanUpdate =
     ''PVC cannot be modified because it is not labeled with '' @ LabelCanUpdate @ ''=true''"
| "sentinel_Error ErrPreviousLogsNotFound = ''no logs found for the previous container instance''"
| "sentinel_Error ErrContainerNotFound = ''container not found in workspace pod''"
| "sentinel_Error ErrContainerNotRunning = ''container has not started yet''"

datatype wsMutationType = wsMutationTypeCreate | wsMutationTypeUpdate

record WorkspaceKindRestriction =
  wkr_Kind :: string
  wkr_mutation :: wsMutationType
  wkr_Hidden :: bool
  wkr_DenyMessage :: string

primrec mutation_text :: "wsMutationType \<Rightarrow> string" where
  "mutation_text wsMutationTypeCreate = ''create''"
| "mutation_text wsMutationTypeUpdate = ''update''"

definition WorkspaceKindRestrictedError_Error :: "WorkspaceKindRestriction \<Rightarrow> string" where
  "WorkspaceKindRestrictedError_Error e =
     (let suffix = (if wkr_Hidden e then ''is hidden'' else ''is restricted'');
          msg = ''workspace '' @ mutation_text (wkr_mutation e) @ '' not allowed: workspace kind '' @
                go_quote (wkr_Kind e) @ '' '' @ suffix
      in if \<not> wkr_Hidden e \<and> wkr_DenyMessage e \<noteq> [] then msg @ '': '' @ wkr_DenyMessage e else msg)"

datatype backend_error =
    ApiStatusError api_reason "StatusCause list" string
  | InternalValidationError "field_error list"
  | WorkspaceKindRestrictedError WorkspaceKindRestriction
  | SentinelError sentinel
  | WrappedError string backend_error
  | PlainError string

text \<open>\<open>errors.Is\<close> and \<open>errors.As\<close> look through the wrapping.\<close>

fun errors_Is :: "sentinel \<Rightarrow> backend_error \<Rightarrow> bool" where
  "errors_Is s (SentinelError s') \<longleftrightarrow> s' = s"
| "errors_Is s (WrappedError p e) \<longleftrightarrow> errors_Is s e"
| "errors_Is s _ \<longleftrightarrow> False"

fun reason_of :: "backend_error \<Rightarrow> api_reason option" where
  "reason_of (ApiStatusError r causes msg) = Some r"
| "reason_of (WrappedError p e) = reason_of e"
| "reason_of _ = None"

fun StatusCausesFromAPIStatus :: "backend_error \<Rightarrow> StatusCause list" where
  "StatusCausesFromAPIStatus (ApiStatusError r causes msg) = causes"
| "StatusCausesFromAPIStatus (WrappedError p e) = StatusCausesFromAPIStatus e"
| "StatusCausesFromAPIStatus _ = []"

fun FieldErrorsFromInternalValidationError :: "backend_error \<Rightarrow> field_error list option" where
  "FieldErrorsFromInternalValidationError (InternalValidationError errs) = Some errs"
| "FieldErrorsFromInternalValidationError (WrappedError p e) = FieldErrorsFromInternalValidationError e"
| "FieldErrorsFromInternalValidationError _ = None"

definition IsInternalValidationError :: "backend_error \<Rightarrow> bool" where
  "IsInternalValidationError e \<longleftrightarrow> FieldErrorsFromInternalValidationError e \<noteq> None"

fun as_restricted :: "backend_error \<Rightarrow> WorkspaceKindRestriction option" where
  "as_restricted (WorkspaceKindRestrictedError r) = Some r"
| "as_restricted (WrappedError p e) = as_restricted e"
| "as_restricted _ = None"

section \<open>Library functions of the backend\<close>

text \<open>
  Functions of other packages, and of the parts of the standard library that are taken as given:
  \<open>validation.IsDNS1123Subdomain\<close>, \<open>validation.IsConfigMapKey\<close>, \<open>base64.StdEncoding.DecodeString\<close>, \<open>time.Parse\<close>
  and \<open>Time.Format\<close> with \<open>time.RFC3339\<close>, \<open>ErrorList.ToAggregate\<close>, \<open>resource.ParseQuantity\<close>, and \<open>String\<close> of a
  quantity (\<open>None\<close> for the zero quantity that \<open>ResourceList.Storage\<close> returns if there is none).
\<close>

record backend_lib =
  bl_K8s :: k8s_lib
  bl_IsDNS1123Subdomain :: "string \<Rightarrow> string list"
  bl_IsConfigMapKey :: "string \<Rightarrow> string list"
  bl_base64_Decode :: "string \<Rightarrow> string + string"
  bl_ParseRFC3339 :: "string \<Rightarrow> go_time option"
  bl_FormatRFC3339 :: "go_time \<Rightarrow> string"
  bl_Aggregate :: "field_error list \<Rightarrow> string"
  bl_ParseQuantity :: "string \<Rightarrow> string + opaque"
  bl_QuantityString :: "opaque option \<Rightarrow> string"

fun be_Error :: "backend_lib \<Rightarrow> backend_error \<Rightarrow> string" where
  "be_Error B (ApiStatusError r causes msg) = msg"
| "be_Error B (InternalValidationError errs) = (if errs = [] then ''validation error'' else bl_Aggregate B errs)"
| "be_Error B (WorkspaceKindRestrictedError r) = WorkspaceKindRestrictedError_Error r"
| "be_Error B (SentinelError s) = sentinel_Error s"
| "be_Error B (WrappedError p e) = p @ be_Error B e"
| "be_Error B (PlainError s) = s"

section \<open>Requests\<close>

text \<open>
  A repository function takes the context and the Kubernetes client and returns a value or an error;
  it may also panic. The cluster is a world of an arbitrary type, the writes are recorded.
\<close>

datatype 'a bres = BOk 'a | BErr backend_error | BPanic

datatype patch_value = PatchBool bool | PatchString string

record WorkspacePatchOperation =
  pop_Op :: string
  pop_Path :: string
  pop_Value :: patch_value

datatype backend_call =
    BCreateWorkspace Workspace
  | BUpdateWorkspace Workspace
  | BDeleteWorkspace string string
  | BPatchWorkspace string string "WorkspacePatchOperation list"
  | BCreateWorkspaceKind WorkspaceKind
  | BUpdateWorkspaceKind WorkspaceKind
  | BDeleteWorkspaceKind string
  | BCreateSecret Secret
  | BUpdateSecret Secret
  | BDeleteSecret string string
  | BCreatePVC PersistentVolumeClaim
  | BDeletePVC string string
  | BCacheUsage string WorkspaceResourceUsage duration

type_synonym ('s, 'a) brequest = "'s \<Rightarrow> (backend_error + 'a) \<times> 's"

record 's backend =
  b_GetWorkspace :: "string \<Rightarrow> string \<Rightarrow> ('s, Workspace) brequest"
  b_ListWorkspaces :: "string option \<Rightarrow> ('s, Workspace list) brequest"
  b_CreateWorkspace :: "Workspace \<Rightarrow> ('s, Workspace) brequest"
  b_UpdateWorkspace :: "Workspace \<Rightarrow> ('s, Workspace) brequest"
  b_DeleteWorkspace :: "string \<Rightarrow> string \<Rightarrow> ('s, unit) brequest"
  b_PatchWorkspace :: "string \<Rightarrow> string \<Rightarrow> WorkspacePatchOperation list \<Rightarrow> ('s, Workspace) brequest"
  b_GetWorkspaceKind :: "string \<Rightarrow> ('s, WorkspaceKind) brequest"
  b_GetNamespace :: "string \<Rightarrow> ('s, ObjectMeta) brequest"
  b_GetPVC :: "string \<Rightarrow> string \<Rightarrow> ('s, PersistentVolumeClaim) brequest"
  b_GetSecret :: "string \<Rightarrow> string \<Rightarrow> ('s, Secret) brequest"
  b_GetStorageClass :: "string \<Rightarrow> ('s, StorageClass) brequest"
  b_ListWorkspaceKinds :: "('s, WorkspaceKind list) brequest"
  b_CreateWorkspaceKind :: "WorkspaceKind \<Rightarrow> ('s, WorkspaceKind) brequest"
  b_UpdateWorkspaceKind :: "WorkspaceKind \<Rightarrow> ('s, WorkspaceKind) brequest"
  b_DeleteWorkspaceKind :: "string \<Rightarrow> ('s, unit) brequest"
  b_GetImageSource :: "string \<Rightarrow> string \<Rightarrow> ('s, ConfigMap) brequest"
  b_ListNamespaces :: "('s, ObjectMeta list) brequest"
  b_ListStorageClasses :: "('s, StorageClass list) brequest"
  b_ListSecrets :: "string \<Rightarrow> ('s, ObjectMeta list) brequest"
  b_CreateSecret :: "Secret \<Rightarrow> ('s, Secret) brequest"
  b_UpdateSecret :: "Secret \<Rightarrow> ('s, Secret) brequest"
  b_DeleteSecret :: "string \<Rightarrow> string \<Rightarrow> ('s, unit) brequest"
  b_ListPVCs :: "string \<Rightarrow> ('s, PersistentVolumeClaim list) brequest"
  b_CreatePVC :: "PersistentVolumeClaim \<Rightarrow> ('s, PersistentVolumeClaim) brequest"
  b_DeletePVC :: "string \<Rightarrow> string \<Rightarrow> ('s, unit) brequest"
  b_GetPersistentVolume :: "string \<Rightarrow> ('s, PersistentVolume) brequest"
  b_ListPods :: "string \<Rightarrow> str_map \<Rightarrow> ('s, Pod list) brequest"
  b_GetLivePod :: "string \<Rightarrow> string \<Rightarrow> ('s, LivePod) brequest"
  b_StreamLogs :: "string \<Rightarrow> string \<Rightarrow> PodLogOptions \<Rightarrow> ('s, string) brequest"
  b_ProbeMetricsAPI :: "('s, unit) brequest"
  b_GetPodMetrics :: "string \<Rightarrow> string \<Rightarrow> ('s, PodMetrics) brequest"
  b_UsageCache_Get :: "string \<Rightarrow> 's \<Rightarrow> WorkspaceResourceUsage option \<times> 's"
  b_UsageCache_Add :: "string \<Rightarrow> WorkspaceResourceUsage \<Rightarrow> duration \<Rightarrow> ('s, unit) brequest"
  b_ContextErr :: "'s \<Rightarrow> backend_error option \<times> 's"
  b_Now :: "'s \<Rightarrow> go_time \<times> 's"

text \<open>
  The variables that the closure of \<open>memoize\<close> captures: they outlive a request. \<open>None\<close> is the zero time.
\<close>

record availability_memo =
  memo_val :: bool
  memo_checkedAt :: "go_time option"
  memo_ttl :: duration

record 's brun =
  br_memo :: availability_memo
  br_world :: 's
  br_calls :: "backend_call list"

type_synonym ('s, 'a) bact = "'s brun \<Rightarrow> 'a bres \<times> 's brun"

definition b_return :: "'a \<Rightarrow> ('s, 'a) bact" where
  "b_return x s = (BOk x, s)"

definition b_throw :: "backend_error \<Rightarrow> ('s, 'a) bact" where
  "b_throw e s = (BErr e, s)"

definition b_panic :: "('s, 'a) bact" where
  "b_panic s = (BPanic, s)"

definition b_bind :: "('s, 'a) bact \<Rightarrow> ('a \<Rightarrow> ('s, 'b) bact) \<Rightarrow> ('s, 'b) bact" where
  "b_bind m f s =
     (case m s of
       (BOk x, s) \<Rightarrow> f x s
     | (BErr e, s) \<Rightarrow> (BErr e, s)
     | (BPanic, s) \<Rightarrow> (BPanic, s))"

text \<open>\<open>if err != nil { return nil, h(err) }\<close>.\<close>

definition b_map_error :: "(backend_error \<Rightarrow> backend_error) \<Rightarrow> ('s, 'a) bact \<Rightarrow> ('s, 'a) bact" where
  "b_map_error h m s =
     (case m s of
       (BErr e, s) \<Rightarrow> (BErr (h e), s)
     | r \<Rightarrow> r)"

definition b_read :: "('s, 'a) brequest \<Rightarrow> ('s, 'a) bact" where
  "b_read f s =
     (case f (br_world s) of
       (Inl e, w) \<Rightarrow> (BErr e, s\<lparr>br_world := w\<rparr>)
     | (Inr x, w) \<Rightarrow> (BOk x, s\<lparr>br_world := w\<rparr>))"

text \<open>A read whose error the caller inspects.\<close>

definition b_try :: "('s, 'a) brequest \<Rightarrow> ('s, backend_error + 'a) bact" where
  "b_try f s = (case f (br_world s) of (r, w) \<Rightarrow> (BOk r, s\<lparr>br_world := w\<rparr>))"

definition b_write :: "backend_call \<Rightarrow> ('s, 'a) brequest \<Rightarrow> ('s, 'a) bact" where
  "b_write c f s =
     (case f (br_world s) of
       (Inl e, w) \<Rightarrow> (BErr e, s\<lparr>br_world := w, br_calls := br_calls s @ [c]\<rparr>)
     | (Inr x, w) \<Rightarrow> (BOk x, s\<lparr>br_world := w, br_calls := br_calls s @ [c]\<rparr>))"

definition b_time_Now :: "'s backend \<Rightarrow> ('s, go_time) bact" where
  "b_time_Now C s = (case b_Now C (br_world s) of (t, w) \<Rightarrow> (BOk t, s\<lparr>br_world := w\<rparr>))"

section \<open>Validation helpers\<close>

definition ValidateFieldIsNotEmpty :: "string \<Rightarrow> string \<Rightarrow> field_error list" where
  "ValidateFieldIsNotEmpty path val = (if val = [] then [FieldRequired path []] else [])"

definition ValidateFieldIsDNS1123Subdomain :: "backend_lib \<Rightarrow> string \<Rightarrow> string \<Rightarrow> field_error list" where
  "ValidateFieldIsDNS1123Subdomain B path val =
     (if val = [] then [FieldRequired path []]
      else
        (let failures = bl_IsDNS1123Subdomain B val
         in if 0 < length failures then [FieldInvalid path val (strings_Join failures ''; '')] else []))"

definition ValidateFieldIsDNS1123Label :: "backend_lib \<Rightarrow> string \<Rightarrow> string \<Rightarrow> field_error list" where
  "ValidateFieldIsDNS1123Label B path val =
     (if val = [] then [FieldRequired path []]
      else
        (let failures = IsDNS1123Label (bl_K8s B) val
         in if 0 < length failures then [FieldInvalid path val (strings_Join failures ''; '')] else []))"

definition ValidateWorkspaceKindGVK :: "string \<Rightarrow> string \<Rightarrow> field_error list" where
  "ValidateWorkspaceKindGVK apiVersion kind =
     (if apiVersion = [] then [FieldRequired ''apiVersion'' []]
      else if apiVersion \<noteq> GroupVersion_String
      then [FieldInvalid ''apiVersion'' apiVersion ''invalid apiVersion for a WorkspaceKind'']
      else []) @
     (if kind = [] then [FieldRequired ''kind'' []]
      else if kind \<noteq> ''WorkspaceKind''
      then [FieldInvalid ''kind'' kind ''invalid kind for a WorkspaceKind'']
      else [])"

definition LabelCanMount :: string where
  "LabelCanMount = ''workspaces.kubeflow.org/can-mount''"

definition LabelCanUse :: string where
  "LabelCanUse = ''workspaces.kubeflow.org/can-use''"

text \<open>
  The three checks that an object exists and carries a label are the same text over three types.
  A missing object leaves the zero value, whose UID is empty.
\<close>

definition validate_has_label ::
  "('s, 'o) brequest \<Rightarrow> ('o \<Rightarrow> ObjectMeta) \<Rightarrow> string \<Rightarrow> string \<Rightarrow> string \<Rightarrow> string \<Rightarrow> string
   \<Rightarrow> ('s, field_error list) bact" where
  "validate_has_label get metaOf path name notFound notLabelled label =
     b_bind (b_try get)
       (\<lambda>r. case r of
          Inl err \<Rightarrow>
            if reason_of err = Some ReasonNotFound then b_return [FieldInvalid path name notFound]
            else b_throw err
        | Inr obj \<Rightarrow>
            b_return
              (if om_UID (metaOf obj) \<noteq> [] \<and> map_get (om_Labels (metaOf obj)) label \<noteq> ''true''
               then [FieldForbidden path notLabelled] else []))"

definition ValidateKubernetesSecretIsMountable ::
  "'s backend \<Rightarrow> string \<Rightarrow> string \<Rightarrow> string \<Rightarrow> ('s, field_error list) bact" where
  "ValidateKubernetesSecretIsMountable C path namespace secretName =
     validate_has_label (b_GetSecret C namespace secretName) sec_Meta path secretName
       (''Secret '' @ go_quote secretName @ '' not found in namespace '' @ go_quote namespace)
       (''Secret '' @ go_quote secretName @ '' in namespace '' @ go_quote namespace @ '' is not labeled with '' @
        LabelCanMount @ ''=true'')
       LabelCanMount"

definition ValidateKubernetesPVCIsMountable ::
  "'s backend \<Rightarrow> string \<Rightarrow> string \<Rightarrow> string \<Rightarrow> ('s, field_error list) bact" where
  "ValidateKubernetesPVCIsMountable C path namespace pvcName =
     validate_has_label (b_GetPVC C namespace pvcName) pvc_Meta path pvcName
       (''PersistentVolumeClaim '' @ go_quote pvcName @ '' not found in namespace '' @ go_quote namespace)
       (''PersistentVolumeClaim '' @ go_quote pvcName @ '' in namespace '' @ go_quote namespace @
        '' is not labeled with '' @ LabelCanMount @ ''=true'')
       LabelCanMount"

definition ValidateKubernetesStorageClassIsUsable ::
  "'s backend \<Rightarrow> string \<Rightarrow> string \<Rightarrow> ('s, field_error list) bact" where
  "ValidateKubernetesStorageClassIsUsable C path storageClassName =
     validate_has_label (b_GetStorageClass C storageClassName) sc_Meta path storageClassName
       (''StorageClass '' @ go_quote storageClassName @ '' not found'')
       (''StorageClass '' @ go_quote storageClassName @ '' is not labeled with '' @ LabelCanUse @ ''=true'')
       LabelCanUse"

definition ValidateFieldIsConfigMapKey :: "backend_lib \<Rightarrow> string \<Rightarrow> string \<Rightarrow> field_error list" where
  "ValidateFieldIsConfigMapKey B path keyName =
     map (\<lambda>failureMsg. FieldInvalid path keyName (''invalid key name: '' @ failureMsg)) (bl_IsConfigMapKey B keyName)"

definition ValidateFieldIsSecretBase64Value :: "backend_lib \<Rightarrow> string \<Rightarrow> string \<Rightarrow> field_error list" where
  "ValidateFieldIsSecretBase64Value B path val =
     (case bl_base64_Decode B val of Inl err \<Rightarrow> [FieldInvalid path val err] | Inr _ \<Rightarrow> [])"

text \<open>\<open>strconv.ParseInt(s, 10, 64)\<close>: \<open>None\<close> is a syntax or a range error.\<close>

definition is_digit :: "char \<Rightarrow> bool" where
  "is_digit c \<longleftrightarrow> 48 \<le> (of_char c :: nat) \<and> (of_char c :: nat) \<le> 57"

definition digits_value :: "string \<Rightarrow> nat" where
  "digits_value ds = foldl (\<lambda>n c. 10 * n + (of_char c - 48)) 0 ds"

definition ParseInt64 :: "string \<Rightarrow> int option" where
  "ParseInt64 s =
     (let (neg, ds) =
        (case s of
           [] \<Rightarrow> (False, [])
         | c # cs \<Rightarrow> if c = CHR ''-'' then (True, cs) else if c = CHR ''+'' then (False, cs) else (False, s));
          v = (if neg then - int (digits_value ds) else int (digits_value ds))
      in if ds = [] \<or> \<not> list_all is_digit ds \<or> \<not> is_int64 v then None else Some v)"

definition ValidateFieldIsPositiveInt64 :: "string \<Rightarrow> string \<Rightarrow> int \<times> field_error list" where
  "ValidateFieldIsPositiveInt64 path val =
     (case ParseInt64 val of
       None \<Rightarrow> (0, [FieldInvalid path val ''must be a positive integer''])
     | Some parsed \<Rightarrow>
         if parsed \<le> 0 then (0, [FieldInvalid path val ''must be a positive integer'']) else (parsed, []))"

text \<open>\<open>strconv.ParseBool\<close>.\<close>

definition ParseBool :: "string \<Rightarrow> bool option" where
  "ParseBool s =
     (if s \<in> set [''1'', ''t'', ''T'', ''TRUE'', ''true'', ''True''] then Some True
      else if s \<in> set [''0'', ''f'', ''F'', ''FALSE'', ''false'', ''False''] then Some False
      else None)"

definition ValidateFieldIsBool :: "string \<Rightarrow> string \<Rightarrow> bool \<times> field_error list" where
  "ValidateFieldIsBool path val =
     (case ParseBool val of
       None \<Rightarrow> (False, [FieldInvalid path val ''must be a boolean''])
     | Some parsed \<Rightarrow> (parsed, []))"

text \<open>The time \<open>None\<close> is the zero value.\<close>

definition ValidateFieldIsRFC3339Time :: "backend_lib \<Rightarrow> string \<Rightarrow> string \<Rightarrow> go_time option \<times> field_error list" where
  "ValidateFieldIsRFC3339Time B path val =
     (case bl_ParseRFC3339 B val of
       None \<Rightarrow> (None, [FieldInvalid path val ''must be a valid RFC3339 timestamp''])
     | Some parsed \<Rightarrow> (Some parsed, []))"

section \<open>Audit and revision\<close>

definition AnnotationCreatedBy :: string where
  "AnnotationCreatedBy = ''workspaces.kubeflow.org/created-by''"

definition AnnotationUpdatedAt :: string where
  "AnnotationUpdatedAt = ''workspaces.kubeflow.org/updated-at''"

definition AnnotationUpdatedBy :: string where
  "AnnotationUpdatedBy = ''workspaces.kubeflow.org/updated-by''"

record Audit =
  aud_CreatedAt :: "go_time option"
  aud_CreatedBy :: "string option"
  aud_UpdatedAt :: "go_time option"
  aud_UpdatedBy :: "string option"
  aud_DeletedAt :: "go_time option"

definition NewAuditFromObjectMeta :: "backend_lib \<Rightarrow> ObjectMeta option \<Rightarrow> Audit" where
  "NewAuditFromObjectMeta B objectMeta =
     (case objectMeta of
       None \<Rightarrow> \<lparr>aud_CreatedAt = None, aud_CreatedBy = None, aud_UpdatedAt = None, aud_UpdatedBy = None,
                aud_DeletedAt = None\<rparr>
     | Some m \<Rightarrow>
         \<lparr>aud_CreatedAt = om_CreationTimestamp m,
          aud_CreatedBy = map_of (om_Annotations m) AnnotationCreatedBy,
          aud_UpdatedAt = Option.bind (map_of (om_Annotations m) AnnotationUpdatedAt) (bl_ParseRFC3339 B),
          aud_UpdatedBy = map_of (om_Annotations m) AnnotationUpdatedBy,
          aud_DeletedAt = om_DeletionTimestamp m\<rparr>)"

text \<open>The actor is the name of the user, \<open>None\<close> if there is none.\<close>

definition UpdateObjectMetaForCreate :: "ObjectMeta \<Rightarrow> string option \<Rightarrow> ObjectMeta" where
  "UpdateObjectMetaForCreate objectMeta actor =
     objectMeta\<lparr>om_Annotations :=
       (case actor of
          Some name \<Rightarrow>
            AList.update AnnotationUpdatedBy name
              (AList.update AnnotationCreatedBy name (om_Annotations objectMeta))
        | None \<Rightarrow>
            AList.delete AnnotationUpdatedAt
              (AList.delete AnnotationUpdatedBy
                (AList.delete AnnotationCreatedBy (om_Annotations objectMeta))))\<rparr>"

definition UpdateObjectMetaForUpdate :: "backend_lib \<Rightarrow> ObjectMeta \<Rightarrow> string option \<Rightarrow> go_time \<Rightarrow> ObjectMeta" where
  "UpdateObjectMetaForUpdate B objectMeta actor now =
     (let annotations = AList.update AnnotationUpdatedAt (bl_FormatRFC3339 B now) (om_Annotations objectMeta)
      in objectMeta\<lparr>om_Annotations :=
           (case actor of
              Some name \<Rightarrow> AList.update AnnotationUpdatedBy name annotations
            | None \<Rightarrow> AList.delete AnnotationUpdatedBy annotations)\<rparr>)"

definition revision_input :: "ObjectMeta \<Rightarrow> string" where
  "revision_input m = om_UID m @ '':'' @ om_Name m @ '':'' @ go_itoa (om_Generation m)"

definition CalculateRevision :: "ObjectMeta \<Rightarrow> string" where
  "CalculateRevision m = hex_EncodeToString (sha256_Sum256 (revision_input m))"

section \<open>Namespace labels\<close>

definition ResolveNamespaceLabels ::
  "'s backend \<Rightarrow> string \<Rightarrow> string \<Rightarrow> ('s, str_map option) bact" where
  "ResolveNamespaceLabels C namespaceName fieldPath =
     (if namespaceName = [] then b_return None
      else
        b_bind (b_try (b_GetNamespace C namespaceName))
          (\<lambda>r. case r of
             Inl err \<Rightarrow>
               if reason_of err = Some ReasonNotFound
               then b_throw (InternalValidationError
                      [FieldInvalid fieldPath namespaceName (''namespace '' @ go_quote namespaceName @ '' not found'')])
               else b_throw err
           | Inr ns \<Rightarrow> b_return (Some (maps_Copy [] (om_Labels ns)))))"

section \<open>Lemmas\<close>

lemma digits_value_snoc [simp]: "digits_value (ds @ [c]) = 10 * digits_value ds + (of_char c - 48)"
  by (simp add: digits_value_def)

lemma of_char_digit: "k < 10 \<Longrightarrow> (of_char (char_of (48 + k)) :: nat) = 48 + k"
  by (simp add: of_char_of)

lemma digits_value_nat_digits [simp]: "digits_value (nat_digits n) = n"
proof (induction n rule: nat_digits.induct)
  case (1 n)
  show ?case
  proof (cases "n < 10")
    case True
    then have "nat_digits n = [] @ [char_of (48 + n)]"
      by (subst nat_digits.simps) simp
    with True show ?thesis
      by (simp only: digits_value_snoc of_char_digit) (simp add: digits_value_def)
  next
    case False
    then have "nat_digits n = nat_digits (n div 10) @ [char_of (48 + n mod 10)]"
      by (subst nat_digits.simps) simp
    with 1 False show ?thesis
      by (simp only: digits_value_snoc of_char_digit mod_less_divisor) simp
  qed
qed

lemma is_digit_char_of [simp]: "(k::nat) < 10 \<Longrightarrow> is_digit (char_of (48 + k))"
  unfolding is_digit_def by (simp only: of_char_digit) simp

lemma nat_digits_digits [simp]: "list_all is_digit (nat_digits n)"
proof (induction n rule: nat_digits.induct)
  case (1 n)
  then show ?case
    by (subst nat_digits.simps) simp
qed

lemma is_digit_sign [simp]: "\<not> is_digit CHR ''-''" "\<not> is_digit CHR ''+''" "\<not> is_digit CHR '':''"
  by (simp_all add: is_digit_def)

lemma ParseInt64_itoa: "is_int64 v \<Longrightarrow> ParseInt64 (go_itoa v) = Some v"
proof (cases "v < 0")
  case True
  then show "is_int64 v \<Longrightarrow> ?thesis"
    by (simp add: go_itoa_def ParseInt64_def)
next
  case False
  obtain c cs where ds: "nat_digits (nat v) = c # cs"
    using nat_digits_nonempty by (cases "nat_digits (nat v)") auto
  then have "is_digit c"
    using nat_digits_digits [of "nat v"] by simp
  then have "c \<noteq> CHR ''-''" "c \<noteq> CHR ''+''"
    by auto
  moreover have "digits_value (c # cs) = nat v" "list_all is_digit (c # cs)"
    using digits_value_nat_digits [of "nat v"] nat_digits_digits [of "nat v"] by (simp_all only: ds)
  ultimately show "is_int64 v \<Longrightarrow> ?thesis"
    using False by (simp add: go_itoa_def ParseInt64_def ds)
qed

lemma go_itoa_inj: "is_int64 a \<Longrightarrow> is_int64 b \<Longrightarrow> go_itoa a = go_itoa b \<Longrightarrow> a = b"
  using ParseInt64_itoa by (metis option.inject)

lemma append_sep_inj:
  assumes "a @ c # x = b @ c # y" and "c \<notin> set a" and "c \<notin> set b"
  shows "a = b \<and> x = y"
  using assms
proof (induction a arbitrary: b)
  case Nil
  then show ?case by (cases b) auto
next
  case (Cons d a)
  then show ?case by (cases b) auto
qed

text \<open>The text a revision hashes determines UID, name and generation: neither UIDs nor names have a colon.\<close>

definition no_colon :: "ObjectMeta \<Rightarrow> bool" where
  "no_colon m \<longleftrightarrow> CHR '':'' \<notin> set (om_UID m) \<and> CHR '':'' \<notin> set (om_Name m) \<and> is_int64 (om_Generation m)"

lemma revision_input_inj:
  assumes "revision_input m = revision_input m'" and "no_colon m" and "no_colon m'"
  shows "om_UID m = om_UID m' \<and> om_Name m = om_Name m' \<and> om_Generation m = om_Generation m'"
  using assms unfolding revision_input_def no_colon_def
  by (auto dest!: append_sep_inj intro: go_itoa_inj)

lemma length_CalculateRevision [simp]: "length (CalculateRevision m) = 64"
  by (simp add: CalculateRevision_def)

lemma CalculateRevision_nonempty [simp]: "CalculateRevision m \<noteq> []"
  using length_CalculateRevision [of m] by (auto simp del: length_CalculateRevision)

lemma reason_of_simps [simp]:
  "reason_of (SentinelError s) = None" "reason_of (InternalValidationError errs) = None"
  by simp_all

end
