(* ===== verification/Options_Model.thy ===== *)
theory Options_Model
  imports Backend_Base
begin

text \<open>
  \<open>internal/models/workspacekinds/podtemplate/options\<close>: the request and the response of \<open>listvalues\<close>, the
  endpoint that offers the options of a WorkspaceKind for a new Workspace, filtered by its rules.
\<close>

section \<open>The request\<close>

text \<open>A context part is its id or name.\<close>

record ListValuesContext =
  lvc_Namespace :: "string option"
  lvc_PodConfig :: "string option"
  lvc_ImageConfig :: "string option"

record ListValuesRequest =
  lvr_Context :: ListValuesContext

definition ListValuesContext_Validate :: "backend_lib \<Rightarrow> string \<Rightarrow> ListValuesContext \<Rightarrow> field_error list" where
  "ListValuesContext_Validate B prefix c =
     (case lvc_Namespace c of None \<Rightarrow> []
      | Some name \<Rightarrow> ValidateFieldIsDNS1123Label B (path_Child (path_Child prefix ''namespace'') ''name'') name) @
     (case lvc_PodConfig c of None \<Rightarrow> []
      | Some i \<Rightarrow> ValidateFieldIsNotEmpty (path_Child (path_Child prefix ''podConfig'') ''id'') i) @
     (case lvc_ImageConfig c of None \<Rightarrow> []
      | Some i \<Rightarrow> ValidateFieldIsNotEmpty (path_Child (path_Child prefix ''imageConfig'') ''id'') i)"

definition ListValuesRequest_Validate :: "backend_lib \<Rightarrow> string \<Rightarrow> ListValuesRequest \<Rightarrow> field_error list" where
  "ListValuesRequest_Validate B prefix d =
     ListValuesContext_Validate B (path_Child prefix ''context'') (lvr_Context d)"

definition configIDs :: "ListValuesRequest \<Rightarrow> string \<times> string" where
  "configIDs d = (ptr_Deref (lvc_ImageConfig (lvr_Context d)) [], ptr_Deref (lvc_PodConfig (lvr_Context d)) [])"

section \<open>The response\<close>

text \<open>
  \<open>ListedOption\<close> holds the fields of the model's \<open>ImageConfigValue\<close>; its \<open>PodConfigValue\<close> has two more.
  The cluster metrics are the number of Workspaces.
\<close>

record MetadataModel =
  mm_Labels :: str_map
  mm_Annotations :: str_map

record ListedOption =
  lo_Id :: string
  lo_DisplayName :: string
  lo_Description :: string
  lo_Labels :: "(string \<times> string) list"
  lo_Hidden :: bool
  lo_Redirect :: "OptionRedirect option"
  lo_ClusterMetrics :: int
  lo_Restrictions :: Restrictions

record ListedPodConfigValue = ListedOption +
  lpv_PodMetadata :: MetadataModel
  lpv_StatefulSetMetadata :: MetadataModel

record PodTemplateOptionsModel =
  pto_ImageConfigDefault :: string
  pto_ImageConfigValues :: "ListedOption list"
  pto_PodConfigDefault :: string
  pto_PodConfigValues :: "ListedPodConfigValue list"

definition calculateOptionMetricsMap :: "OptionMetric list \<Rightarrow> (string, int) go_map" where
  "calculateOptionMetricsMap metrics =
     fold (\<lambda>metric resultMap. AList.update (omt_Id metric) (omt_Workspaces metric) resultMap) metrics []"

definition buildClusterOptionMetrics :: "string \<Rightarrow> (string, int) go_map \<Rightarrow> int" where
  "buildClusterOptionMetrics optionId optionMetricsMap =
     (case map_of optionMetricsMap optionId of None \<Rightarrow> 0 | Some workspacesCount \<Rightarrow> workspacesCount)"

definition buildOptionLabels :: "OptionSpawnerLabel list \<Rightarrow> (string \<times> string) list" where
  "buildOptionLabels labels = map (\<lambda>l. (osl_Key l, osl_Value l)) labels"

definition buildRedirectMessage :: "RedirectMessage option \<Rightarrow> RedirectMessage option" where
  "buildRedirectMessage msg =
     (case msg of
       None \<Rightarrow> None
     | Some m \<Rightarrow>
         Some \<lparr>rm_Level =
                 (case rm_Level m of
                   RedirectMessageLevelInfo \<Rightarrow> RedirectMessageLevelInfo
                 | RedirectMessageLevelWarning \<Rightarrow> RedirectMessageLevelWarning
                 | RedirectMessageLevelDanger \<Rightarrow> RedirectMessageLevelDanger),
               rm_Text = rm_Text m\<rparr>)"

definition buildOptionRedirect :: "OptionRedirect option \<Rightarrow> OptionRedirect option" where
  "buildOptionRedirect redirect =
     (case redirect of
       None \<Rightarrow> None
     | Some r \<Rightarrow> Some \<lparr>redir_To = redir_To r, redir_Message = buildRedirectMessage (redir_Message r)\<rparr>)"

definition buildPodConfigMetadata :: "WorkspaceKindMetadata option \<Rightarrow> MetadataModel" where
  "buildPodConfigMetadata metadata =
     (case metadata of
       None \<Rightarrow> \<lparr>mm_Labels = [], mm_Annotations = []\<rparr>
     | Some m \<Rightarrow> \<lparr>mm_Labels = maps_Copy [] (km_Labels m), mm_Annotations = maps_Copy [] (km_Annotations m)\<rparr>)"

text \<open>
  The loop of \<open>buildImageConfigValues\<close> and \<open>buildPodConfigValues\<close>: the result tells whether the value
  named in the context was found, and the values to return.
\<close>

fun build_values_loop ::
  "string \<Rightarrow> ('v \<Rightarrow> string) \<Rightarrow> ('v \<Rightarrow> EvalResult) \<Rightarrow> ('v \<Rightarrow> EvalResult \<Rightarrow> 'm) \<Rightarrow> 'v list \<Rightarrow> bool \<Rightarrow> 'm list
   \<Rightarrow> bool \<times> 'm list" where
  "build_values_loop contextId idOf evaluate build [] foundContextValue acc = (foundContextValue, acc)"
| "build_values_loop contextId idOf evaluate build (v # vs) foundContextValue acc =
     (if contextId \<noteq> [] \<and> idOf v \<noteq> contextId
      then build_values_loop contextId idOf evaluate build vs foundContextValue acc
      else
        (let foundContextValue = (if contextId \<noteq> [] then True else foundContextValue);
             result = evaluate v
         in if er_APIHide result
            then build_values_loop contextId idOf evaluate build vs foundContextValue acc
            else build_values_loop contextId idOf evaluate build vs foundContextValue (acc @ [build v result])))"

definition buildImageConfigValues ::
  "WorkspaceKind \<Rightarrow> ListValuesRequest \<Rightarrow> (string, int) go_map \<Rightarrow> EvalContext \<Rightarrow> ListedOption list \<times> field_error list" where
  "buildImageConfigValues wsk request optionMetricsMap evalCtx =
     (let requestContextImageConfigId = ptr_Deref (lvc_ImageConfig (lvr_Context request)) [];
          (foundContextValue, imageConfigValues) =
            build_values_loop requestContextImageConfigId icv_Id
              (\<lambda>v. Evaluate \<lparr>et_Scope = FilterRuleScopeImageConfig, et_Labels = osi_Labels (icv_Spawner v)\<rparr> evalCtx)
              (\<lambda>v result.
                 \<lparr>lo_Id = icv_Id v, lo_DisplayName = osi_DisplayName (icv_Spawner v),
                  lo_Description = ptr_Deref (osi_Description (icv_Spawner v)) [],
                  lo_Labels = buildOptionLabels (osi_Labels (icv_Spawner v)),
                  lo_Hidden = (ptr_Deref (osi_Hidden (icv_Spawner v)) False \<or> er_UIHide result),
                  lo_Redirect = buildOptionRedirect (icv_Redirect v),
                  lo_ClusterMetrics = buildClusterOptionMetrics (icv_Id v) optionMetricsMap,
                  lo_Restrictions = er_Restrictions result\<rparr>)
              (wk_ImageConfigValues wsk) False []
      in (imageConfigValues,
          if requestContextImageConfigId \<noteq> [] \<and> \<not> foundContextValue
          then [FieldInvalid ''context.imageConfig.id'' requestContextImageConfigId
                 (''provided image config id '' @ go_quote requestContextImageConfigId @ '' not found in workspace kind '' @
                  go_quote (wk_Name wsk))]
          else []))"

definition buildPodConfigValues ::
  "WorkspaceKind \<Rightarrow> ListValuesRequest \<Rightarrow> (string, int) go_map \<Rightarrow> EvalContext
   \<Rightarrow> ListedPodConfigValue list \<times> field_error list" where
  "buildPodConfigValues wsk request optionMetricsMap evalCtx =
     (let requestContextPodConfigId = ptr_Deref (lvc_PodConfig (lvr_Context request)) [];
          (foundContextValue, podConfigValues) =
            build_values_loop requestContextPodConfigId pcv_Id
              (\<lambda>v. Evaluate \<lparr>et_Scope = FilterRuleScopePodConfig, et_Labels = osi_Labels (pcv_Spawner v)\<rparr> evalCtx)
              (\<lambda>v result.
                 \<lparr>lo_Id = pcv_Id v, lo_DisplayName = osi_DisplayName (pcv_Spawner v),
                  lo_Description = ptr_Deref (osi_Description (pcv_Spawner v)) [],
                  lo_Labels = buildOptionLabels (osi_Labels (pcv_Spawner v)),
                  lo_Hidden = (ptr_Deref (osi_Hidden (pcv_Spawner v)) False \<or> er_UIHide result),
                  lo_Redirect = buildOptionRedirect (pcv_Redirect v),
                  lo_ClusterMetrics = buildClusterOptionMetrics (pcv_Id v) optionMetricsMap,
                  lo_Restrictions = er_Restrictions result,
                  lpv_PodMetadata = buildPodConfigMetadata (pcs_PodMetadata (pcv_Spec v)),
                  lpv_StatefulSetMetadata = buildPodConfigMetadata (pcs_StatefulSetMetadata (pcv_Spec v))\<rparr>)
              (wk_PodConfigValues wsk) False []
      in (podConfigValues,
          if requestContextPodConfigId \<noteq> [] \<and> \<not> foundContextValue
          then [FieldInvalid ''context.podConfig.id'' requestContextPodConfigId
                 (''provided pod config id '' @ go_quote requestContextPodConfigId @ '' not found in workspace kind '' @
                  go_quote (wk_Name wsk))]
          else []))"

definition NewPodTemplateOptionsModelFromWorkspaceKind ::
  "k8s_lib \<Rightarrow> WorkspaceKind \<Rightarrow> ListValuesRequest \<Rightarrow> str_map option \<Rightarrow> backend_error + PodTemplateOptionsModel" where
  "NewPodTemplateOptionsModelFromWorkspaceKind K wsk request namespaceLabels =
     (let (imageConfigID, podConfigID) = configIDs request;
          evalCtx = BuildEvalContextForImageAndPodCfg K wsk namespaceLabels imageConfigID podConfigID;
          metricsMapImageConfig = calculateOptionMetricsMap (ptm_ImageConfig (wkst_PodTemplateOptions (wk_Status wsk)));
          metricsMapPodConfig = calculateOptionMetricsMap (ptm_PodConfig (wkst_PodTemplateOptions (wk_Status wsk)));
          (imageConfigValues, imageErrs) = buildImageConfigValues wsk request metricsMapImageConfig evalCtx;
          (podConfigValues, podErrs) = buildPodConfigValues wsk request metricsMapPodConfig evalCtx;
          allValErrs = imageErrs @ podErrs
      in if 0 < length allValErrs then Inl (InternalValidationError allValErrs)
         else Inr \<lparr>pto_ImageConfigDefault = ic_Default (kpt_ImageConfig (wk_PodTemplate wsk)),
                   pto_ImageConfigValues = imageConfigValues,
                   pto_PodConfigDefault = pcf_Default (kpt_PodConfig (wk_PodTemplate wsk)),
                   pto_PodConfigValues = podConfigValues\<rparr>)"

section \<open>Lemmas\<close>

lemma build_values_loop_result:
  "build_values_loop cid idOf ev build vs found acc =
     (found \<or> (cid \<noteq> [] \<and> cid \<in> idOf ` set vs),
      acc @ map (\<lambda>v. build v (ev v)) (filter (\<lambda>v. (cid = [] \<or> idOf v = cid) \<and> \<not> er_APIHide (ev v)) vs))"
  by (induction vs arbitrary: found acc) (auto simp: Let_def)

lemma NewPodTemplateOptions_ok:
  assumes "NewPodTemplateOptionsModelFromWorkspaceKind K wsk request ns = Inr opts"
  defines "ctx \<equiv> BuildEvalContextForImageAndPodCfg K wsk ns (fst (configIDs request)) (snd (configIDs request))"
  shows "map lo_Id (pto_ImageConfigValues opts) = map icv_Id
      (filter (\<lambda>v. (fst (configIDs request) = [] \<or> icv_Id v = fst (configIDs request)) \<and>
         \<not> er_APIHide (Evaluate \<lparr>et_Scope = FilterRuleScopeImageConfig, et_Labels = osi_Labels (icv_Spawner v)\<rparr> ctx))
        (wk_ImageConfigValues wsk))"
    and "map lo_Id (pto_PodConfigValues opts) = map pcv_Id
      (filter (\<lambda>v. (snd (configIDs request) = [] \<or> pcv_Id v = snd (configIDs request)) \<and>
         \<not> er_APIHide (Evaluate \<lparr>et_Scope = FilterRuleScopePodConfig, et_Labels = osi_Labels (pcv_Spawner v)\<rparr> ctx))
        (wk_PodConfigValues wsk))"
  using assms(1) unfolding ctx_def
  by (auto simp: NewPodTemplateOptionsModelFromWorkspaceKind_def buildImageConfigValues_def buildPodConfigValues_def
      build_values_loop_result configIDs_def Let_def comp_def split: if_splits prod.splits)

end
