(* ===== verification/Assets_Model.thy ===== *)
theory Assets_Model
  imports Backend_Base
begin

text \<open>
  \<open>internal/models/common/assets\<close>: how the backend refers to the icon and the logo of a WorkspaceKind;
  with the two functions of Go's \<open>strings\<close> package it uses and the configuration of the backend.
\<close>

section \<open>Strings\<close>

text \<open>\<open>strings.Replace(s, old, new, 1)\<close> for a non-empty \<open>old\<close>.\<close>

fun strings_Replace1 :: "string \<Rightarrow> string \<Rightarrow> string \<Rightarrow> string" where
  "strings_Replace1 [] old new = []"
| "strings_Replace1 (c # cs) old new =
     (if starts_with (c # cs) old then new @ drop (length old) (c # cs)
      else c # strings_Replace1 cs old new)"

text \<open>\<open>strings.TrimRight(s, cutset)\<close> for a cutset of one character.\<close>

definition strings_TrimRight :: "string \<Rightarrow> char \<Rightarrow> string" where
  "strings_TrimRight s c = rev (dropWhile (\<lambda>d. d = c) (rev s))"

section \<open>Configuration\<close>

record BackendEnvConfig =
  bcfg_DebugMode :: bool
  bcfg_Port :: int
  bcfg_ClientQPS :: opaque
  bcfg_ClientBurst :: int
  bcfg_UserIdHeader :: string
  bcfg_UserIdPrefix :: string
  bcfg_GroupsHeader :: string
  bcfg_ProxyUrlPrefix :: string
  bcfg_SwaggerEnabled :: bool
  bcfg_SwaggerHost :: string
  bcfg_SwaggerBasePath :: string
  bcfg_SwaggerScheme :: string

section \<open>Paths\<close>

definition PathPrefix :: string where
  "PathPrefix = ''/api/v1''"

definition NamespacePathParam :: string where
  "NamespacePathParam = ''namespace''"

definition ResourceNamePathParam :: string where
  "ResourceNamePathParam = ''name''"

definition AllWorkspaceKindsPath :: string where
  "AllWorkspaceKindsPath = PathPrefix @ ''/workspacekinds''"

definition WorkspaceKindsByNamePath :: string where
  "WorkspaceKindsByNamePath = AllWorkspaceKindsPath @ ''/:'' @ ResourceNamePathParam"

definition WorkspaceKindsAssetsPath :: string where
  "WorkspaceKindsAssetsPath = WorkspaceKindsByNamePath @ ''/assets''"

definition WorkspaceKindIconPath :: string where
  "WorkspaceKindIconPath = WorkspaceKindsAssetsPath @ ''/icon''"

definition WorkspaceKindLogoPath :: string where
  "WorkspaceKindLogoPath = WorkspaceKindsAssetsPath @ ''/logo''"

section \<open>Image references\<close>

datatype wskAssetType = wskAssetTypeIcon | wskAssetTypeLogo

datatype ImageRefErrorCode =
    ImageRefErrorCodeConfigMapMissing
  | ImageRefErrorCodeConfigMapKeyMissing
  | ImageRefErrorCodeConfigMapOther
  | ImageRefErrorCodeConfigMapUnknown

record ImageRef =
  ir_URL :: string
  ir_Error :: "ImageRefErrorCode option"

definition configMapStatusToErrorCode :: "WorkspaceKindAssetConfigMapStatus option \<Rightarrow> ImageRefErrorCode option" where
  "configMapStatusToErrorCode status =
     (case Option.bind status cms_Error of
       None \<Rightarrow> None
     | Some e \<Rightarrow>
         Some (case e of
           ConfigMapErrorNotFound \<Rightarrow> ImageRefErrorCodeConfigMapMissing
         | ConfigMapErrorKeyNotFound \<Rightarrow> ImageRefErrorCodeConfigMapKeyMissing
         | ConfigMapErrorOther \<Rightarrow> ImageRefErrorCodeConfigMapOther))"

definition newImageRefFromWorkspaceKindAsset ::
  "BackendEnvConfig option \<Rightarrow> WorkspaceKindAsset \<Rightarrow> ImageAssetStatus \<Rightarrow> string \<Rightarrow> wskAssetType \<Rightarrow> ImageRef" where
  "newImageRefFromWorkspaceKindAsset cfg asset status workspaceKindName assetType =
     (case as_Url asset of
       Some url \<Rightarrow> \<lparr>ir_URL = url, ir_Error = None\<rparr>
     | None \<Rightarrow>
         if as_ConfigMap asset \<noteq> None
         then
           (let urlPrefix =
                  (case cfg of
                    None \<Rightarrow> []
                  | Some c \<Rightarrow>
                      if bcfg_ProxyUrlPrefix c \<noteq> [] then strings_TrimRight (bcfg_ProxyUrlPrefix c) (CHR ''/'') else []);
                urlPath =
                  (case assetType of
                    wskAssetTypeIcon \<Rightarrow>
                      strings_Replace1 WorkspaceKindIconPath ('':'' @ ResourceNamePathParam) workspaceKindName
                  | wskAssetTypeLogo \<Rightarrow>
                      strings_Replace1 WorkspaceKindLogoPath ('':'' @ ResourceNamePathParam) workspaceKindName);
                urlParams = (if ias_Sha256 status \<noteq> [] then ''?sha256='' @ ias_Sha256 status else [])
            in \<lparr>ir_URL = urlPrefix @ urlPath @ urlParams,
                ir_Error = configMapStatusToErrorCode (ias_ConfigMap status)\<rparr>)
         else \<lparr>ir_URL = [], ir_Error = None\<rparr>)"

definition NewImageRefFromWorkspaceKindAssetIcon ::
  "BackendEnvConfig option \<Rightarrow> WorkspaceKindAsset \<Rightarrow> ImageAssetStatus \<Rightarrow> string \<Rightarrow> ImageRef" where
  "NewImageRefFromWorkspaceKindAssetIcon cfg asset status workspaceKindName =
     newImageRefFromWorkspaceKindAsset cfg asset status workspaceKindName wskAssetTypeIcon"

definition NewImageRefFromWorkspaceKindAssetLogo ::
  "BackendEnvConfig option \<Rightarrow> WorkspaceKindAsset \<Rightarrow> ImageAssetStatus \<Rightarrow> string \<Rightarrow> ImageRef" where
  "NewImageRefFromWorkspaceKindAssetLogo cfg asset status workspaceKindName =
     newImageRefFromWorkspaceKindAsset cfg asset status workspaceKindName wskAssetTypeLogo"

section \<open>Lemmas\<close>

lemma icon_path: "strings_Replace1 WorkspaceKindIconPath ('':'' @ ResourceNamePathParam) name =
    ''/api/v1/workspacekinds/'' @ name @ ''/assets/icon''"
  by (simp add: WorkspaceKindIconPath_def WorkspaceKindsAssetsPath_def WorkspaceKindsByNamePath_def
      AllWorkspaceKindsPath_def PathPrefix_def ResourceNamePathParam_def starts_with_def)

lemma logo_path: "strings_Replace1 WorkspaceKindLogoPath ('':'' @ ResourceNamePathParam) name =
    ''/api/v1/workspacekinds/'' @ name @ ''/assets/logo''"
  by (simp add: WorkspaceKindLogoPath_def WorkspaceKindsAssetsPath_def WorkspaceKindsByNamePath_def
      AllWorkspaceKindsPath_def PathPrefix_def ResourceNamePathParam_def starts_with_def)

end
