(* ===== verification/Workspace_Models.thy ===== *)
theory Workspace_Models
  imports Options_Model Assets_Model
begin

text \<open>
  \<open>internal/models/workspaces\<close> of the backend: the models of a Workspace for create and update requests
  with their validation, their conversion to and from the custom resource, and the list item.
\<close>

section \<open>Requests: types_write.go\<close>

record PodVolumeMountMutate =
  vmm_PVCName :: string
  vmm_MountPath :: string
  vmm_ReadOnly :: bool

record PodSecretMountMutate =
  smm_SecretName :: string
  smm_MountPath :: string
  smm_DefaultMode :: "int option"

record PodVolumesMutate =
  pvs_Home :: "string option"
  pvs_Data :: "PodVolumeMountMutate list"
  pvs_Secrets :: "PodSecretMountMutate list"

record PodTemplateOptionsMutate =
  ptom_ImageConfig :: string
  ptom_PodConfig :: string

record PodTemplateMutate =
  ptm_PodMetadata :: MetadataModel
  ptm_Volumes :: PodVolumesMutate
  ptm_Options :: PodTemplateOptionsMutate

record WorkspaceCreate =
  wc_Name :: string
  wc_DisplayName :: string
  wc_Kind :: string
  wc_Paused :: bool
  wc_PodTemplate :: PodTemplateMutate

record WorkspaceUpdate =
  wu_Revision :: string
  wu_DisplayName :: string
  wu_Paused :: bool
  wu_PodTemplate :: PodTemplateMutate

definition PodMetadataMutate_Validate :: "backend_lib \<Rightarrow> string \<Rightarrow> MetadataModel \<Rightarrow> field_error list" where
  "PodMetadataMutate_Validate B prefix p =
     ValidateLabels (bl_K8s B) (mm_Labels p) (path_Child prefix ''labels'') @
     ValidateAnnotations (bl_K8s B) (mm_Annotations p) (path_Child prefix ''annotations'')"

definition PodVolumeMount_Validate :: "backend_lib \<Rightarrow> string \<Rightarrow> PodVolumeMountMutate \<Rightarrow> field_error list" where
  "PodVolumeMount_Validate B prefix p =
     ValidateFieldIsDNS1123Subdomain B (path_Child prefix ''pvcName'') (vmm_PVCName p) @
     ValidateFieldIsNotEmpty (path_Child prefix ''mountPath'') (vmm_MountPath p)"

definition PodSecretMount_Validate :: "backend_lib \<Rightarrow> string \<Rightarrow> PodSecretMountMutate \<Rightarrow> field_error list" where
  "PodSecretMount_Validate B prefix p =
     ValidateFieldIsDNS1123Subdomain B (path_Child prefix ''secretName'') (smm_SecretName p) @
     ValidateFieldIsNotEmpty (path_Child prefix ''mountPath'') (smm_MountPath p) @
     (case smm_DefaultMode p of
       None \<Rightarrow> []
     | Some mode \<Rightarrow>
         if mode < 0 \<or> 511 < mode
         then [FieldInvalid (path_Child prefix ''defaultMode'') (go_itoa mode) ''defaultMode must be between 0 and 511'']
         else [])"

fun validate_each :: "(string \<Rightarrow> 'a \<Rightarrow> field_error list) \<Rightarrow> string \<Rightarrow> nat \<Rightarrow> 'a list \<Rightarrow> field_error list" where
  "validate_each f path i [] = []"
| "validate_each f path i (x # xs) = f (path_Index path i) x @ validate_each f path (Suc i) xs"

definition PodVolumesMutate_Validate :: "backend_lib \<Rightarrow> string \<Rightarrow> PodVolumesMutate \<Rightarrow> field_error list" where
  "PodVolumesMutate_Validate B prefix p =
     (case pvs_Home p of
       None \<Rightarrow> []
     | Some home \<Rightarrow> ValidateFieldIsDNS1123Subdomain B (path_Child prefix ''home'') home) @
     validate_each (PodVolumeMount_Validate B) (path_Child prefix ''data'') 0 (pvs_Data p) @
     validate_each (PodSecretMount_Validate B) (path_Child prefix ''secrets'') 0 (pvs_Secrets p)"

definition PodTemplateOptionsMutate_Validate :: "string \<Rightarrow> PodTemplateOptionsMutate \<Rightarrow> field_error list" where
  "PodTemplateOptionsMutate_Validate prefix p =
     ValidateFieldIsNotEmpty (path_Child prefix ''imageConfig'') (ptom_ImageConfig p) @
     ValidateFieldIsNotEmpty (path_Child prefix ''podConfig'') (ptom_PodConfig p)"

definition PodTemplateMutate_Validate :: "backend_lib \<Rightarrow> string \<Rightarrow> PodTemplateMutate \<Rightarrow> field_error list" where
  "PodTemplateMutate_Validate B prefix p =
     PodMetadataMutate_Validate B (path_Child prefix ''podMetadata'') (ptm_PodMetadata p) @
     PodVolumesMutate_Validate B (path_Child prefix ''volumes'') (ptm_Volumes p) @
     PodTemplateOptionsMutate_Validate (path_Child prefix ''options'') (ptm_Options p)"

definition WorkspaceCreate_Validate :: "backend_lib \<Rightarrow> string \<Rightarrow> WorkspaceCreate \<Rightarrow> field_error list" where
  "WorkspaceCreate_Validate B prefix w =
     ValidateFieldIsDNS1123Label B (path_Child prefix ''name'') (wc_Name w) @
     ValidateFieldIsDNS1123Label B (path_Child prefix ''kind'') (wc_Kind w) @
     PodTemplateMutate_Validate B (path_Child prefix ''podTemplate'') (wc_PodTemplate w)"

definition WorkspaceUpdate_Validate :: "backend_lib \<Rightarrow> string \<Rightarrow> WorkspaceUpdate \<Rightarrow> field_error list" where
  "WorkspaceUpdate_Validate B prefix w =
     (if wu_Revision w = [] then [FieldRequired (path_Child prefix ''revision'') ''revision is required''] else []) @
     PodTemplateMutate_Validate B (path_Child prefix ''podTemplate'') (wu_PodTemplate w)"

section \<open>Conversions: funcs_write.go\<close>

definition WskExists :: "WorkspaceKind option \<Rightarrow> bool" where
  "WskExists wsk = (case wsk of None \<Rightarrow> False | Some k \<Rightarrow> om_UID (wk_Meta k) \<noteq> [])"

definition ExtractPodMetadata :: "Workspace \<Rightarrow> MetadataModel" where
  "ExtractPodMetadata ws =
     (case wpt_PodMetadata (ws_PodTemplate (w_Spec ws)) of
       None \<Rightarrow> \<lparr>mm_Labels = [], mm_Annotations = []\<rparr>
     | Some m \<Rightarrow> \<lparr>mm_Labels = maps_Copy [] (wpm_Labels m), mm_Annotations = maps_Copy [] (wpm_Annotations m)\<rparr>)"

definition extractDataVolumes :: "Workspace \<Rightarrow> PodVolumeMountMutate list" where
  "extractDataVolumes ws =
     map (\<lambda>v. \<lparr>vmm_PVCName = pvm_PVCName v, vmm_MountPath = pvm_MountPath v,
               vmm_ReadOnly = ptr_Deref (pvm_ReadOnly v) False\<rparr>)
       (wv_Data (wpt_Volumes (ws_PodTemplate (w_Spec ws))))"

definition extractSecretMounts :: "Workspace \<Rightarrow> PodSecretMountMutate list" where
  "extractSecretMounts ws =
     map (\<lambda>s. \<lparr>smm_SecretName = psm_SecretName s, smm_MountPath = psm_MountPath s,
               smm_DefaultMode = psm_DefaultMode s\<rparr>)
       (wv_Secrets (wpt_Volumes (ws_PodTemplate (w_Spec ws))))"

definition buildPodTemplateMutate :: "Workspace \<Rightarrow> PodTemplateMutate" where
  "buildPodTemplateMutate ws =
     \<lparr>ptm_PodMetadata = ExtractPodMetadata ws,
      ptm_Volumes =
        \<lparr>pvs_Home = wv_Home (wpt_Volumes (ws_PodTemplate (w_Spec ws))),
         pvs_Data = extractDataVolumes ws, pvs_Secrets = extractSecretMounts ws\<rparr>,
      ptm_Options =
        \<lparr>ptom_ImageConfig = wpo_ImageConfig (w_Options ws), ptom_PodConfig = wpo_PodConfig (w_Options ws)\<rparr>\<rparr>"

definition NewWorkspaceCreateModelFromWorkspace :: "Workspace \<Rightarrow> WorkspaceCreate" where
  "NewWorkspaceCreateModelFromWorkspace ws =
     \<lparr>wc_Name = w_Name ws, wc_DisplayName = ptr_Deref (ws_DisplayName (w_Spec ws)) [],
      wc_Kind = ws_Kind (w_Spec ws), wc_Paused = ws_Paused (w_Spec ws),
      wc_PodTemplate = buildPodTemplateMutate ws\<rparr>"

definition NewWorkspaceUpdateModelFromWorkspace :: "Workspace \<Rightarrow> WorkspaceUpdate" where
  "NewWorkspaceUpdateModelFromWorkspace ws =
     \<lparr>wu_Revision = CalculateRevision (w_Meta ws),
      wu_DisplayName = ptr_Deref (ws_DisplayName (w_Spec ws)) [],
      wu_Paused = ws_Paused (w_Spec ws), wu_PodTemplate = buildPodTemplateMutate ws\<rparr>"

text \<open>The loops over data volumes and secrets: the error list so far, and the converted mounts.\<close>

fun unpack_data_loop ::
  "'s backend \<Rightarrow> string \<Rightarrow> nat \<Rightarrow> PodVolumeMountMutate list \<Rightarrow> ('s, field_error list \<times> PodVolumeMount list) bact" where
  "unpack_data_loop C namespace i [] = b_return ([], [])"
| "unpack_data_loop C namespace i (v # vs) =
     b_bind (ValidateKubernetesPVCIsMountable C (path_Child (path_Index ''podTemplate.volumes.data'' i) ''pvcName'')
               namespace (vmm_PVCName v)) (\<lambda>valErrs.
     b_bind (unpack_data_loop C namespace (Suc i) vs) (\<lambda>(restErrs, rest).
     b_return (valErrs @ restErrs,
       \<lparr>pvm_PVCName = vmm_PVCName v, pvm_MountPath = vmm_MountPath v, pvm_ReadOnly = Some (vmm_ReadOnly v)\<rparr> # rest)))"

fun unpack_secrets_loop ::
  "'s backend \<Rightarrow> string \<Rightarrow> nat \<Rightarrow> PodSecretMountMutate list \<Rightarrow> ('s, field_error list \<times> PodSecretMount list) bact" where
  "unpack_secrets_loop C namespace i [] = b_return ([], [])"
| "unpack_secrets_loop C namespace i (x # xs) =
     b_bind (ValidateKubernetesSecretIsMountable C (path_Child (path_Index ''podTemplate.volumes.secrets'' i) ''secretName'')
               namespace (smm_SecretName x)) (\<lambda>valErrs.
     b_bind (unpack_secrets_loop C namespace (Suc i) xs) (\<lambda>(restErrs, rest).
     b_return (valErrs @ restErrs,
       \<lparr>psm_SecretName = smm_SecretName x, psm_MountPath = smm_MountPath x, psm_DefaultMode = smm_DefaultMode x\<rparr> # rest)))"

definition validateAndUnpackVolumes ::
  "'s backend \<Rightarrow> PodVolumesMutate \<Rightarrow> string
   \<Rightarrow> ('s, string option \<times> PodVolumeMount list \<times> PodSecretMount list) bact" where
  "validateAndUnpackVolumes C volumes namespace =
     b_bind
       (case pvs_Home volumes of
          None \<Rightarrow> b_return []
        | Some home \<Rightarrow> ValidateKubernetesPVCIsMountable C ''podTemplate.volumes.home'' namespace home) (\<lambda>homeErrs.
     b_bind (unpack_data_loop C namespace 0 (pvs_Data volumes)) (\<lambda>(dataErrs, dataVolumeMounts).
     b_bind (unpack_secrets_loop C namespace 0 (pvs_Secrets volumes)) (\<lambda>(secretErrs, secretMounts).
     let allValErrs = homeErrs @ dataErrs @ secretErrs
     in if 0 < length allValErrs then b_throw (InternalValidationError allValErrs)
        else b_return (pvs_Home volumes, dataVolumeMounts, secretMounts))))"

definition buildWorkspacePodTemplate ::
  "PodTemplateMutate \<Rightarrow> string option \<Rightarrow> PodVolumeMount list \<Rightarrow> PodSecretMount list \<Rightarrow> WorkspacePodTemplate" where
  "buildWorkspacePodTemplate podTemplate homeVolumeName dataVolumeMounts secretMounts =
     \<lparr>wpt_PodMetadata =
        Some \<lparr>wpm_Labels = mm_Labels (ptm_PodMetadata podTemplate),
              wpm_Annotations = mm_Annotations (ptm_PodMetadata podTemplate)\<rparr>,
      wpt_Volumes = \<lparr>wv_Home = homeVolumeName, wv_Data = dataVolumeMounts, wv_Secrets = secretMounts\<rparr>,
      wpt_Options =
        \<lparr>wpo_ImageConfig = ptom_ImageConfig (ptm_Options podTemplate),
         wpo_PodConfig = ptom_PodConfig (ptm_Options podTemplate)\<rparr>\<rparr>"

definition displayNamePtr :: "string \<Rightarrow> string option" where
  "displayNamePtr displayName = (if displayName = [] then None else Some displayName)"

text \<open>The status of an object that was never stored.\<close>

definition WorkspaceStatus_zero :: WorkspaceStatus where
  "WorkspaceStatus_zero =
     \<lparr>st_Activity = WorkspaceActivity_zero, st_LastRunningTime = 0, st_PauseTime = 0,
      st_PendingRestart = False,
      st_PodTemplateOptions =
        \<lparr>os_ImageConfig = \<lparr>oi_Desired = [], oi_RedirectChain = []\<rparr>,
         os_PodConfig = \<lparr>oi_Desired = [], oi_RedirectChain = []\<rparr>\<rparr>,
      st_PodTemplatePod = WorkspacePodStatus_zero,
      st_PodTemplateStatefulSet = WorkspaceStatefulSetStatus_zero,
      st_State = WorkspaceStateUnset, st_StateMessage = []\<rparr>"

definition NewWorkspaceFromWorkspaceCreateModel ::
  "'s backend \<Rightarrow> WorkspaceCreate \<Rightarrow> string \<Rightarrow> ('s, Workspace) bact" where
  "NewWorkspaceFromWorkspaceCreateModel C workspaceCreate namespace =
     b_bind (validateAndUnpackVolumes C (ptm_Volumes (wc_PodTemplate workspaceCreate)) namespace)
       (\<lambda>(homeVolumeName, dataVolumeMounts, secretMounts).
          b_return
            \<lparr>w_Meta = ObjectMeta_zero\<lparr>om_Name := wc_Name workspaceCreate, om_Namespace := namespace\<rparr>,
             w_Spec =
               \<lparr>ws_Paused = wc_Paused workspaceCreate,
                ws_DisplayName = displayNamePtr (wc_DisplayName workspaceCreate),
                ws_Kind = wc_Kind workspaceCreate,
                ws_PodTemplate =
                  buildWorkspacePodTemplate (wc_PodTemplate workspaceCreate) homeVolumeName dataVolumeMounts secretMounts\<rparr>,
             w_Status = WorkspaceStatus_zero\<rparr>)"

definition ApplyWorkspaceUpdateModelToWorkspace ::
  "'s backend \<Rightarrow> WorkspaceUpdate \<Rightarrow> Workspace \<Rightarrow> ('s, Workspace) bact" where
  "ApplyWorkspaceUpdateModelToWorkspace C workspaceUpdate workspace =
     b_bind (validateAndUnpackVolumes C (ptm_Volumes (wu_PodTemplate workspaceUpdate)) (w_Namespace workspace))
       (\<lambda>(_, dataVolumeMounts, secretMounts).
          b_return (workspace\<lparr>w_Spec := (w_Spec workspace)
            \<lparr>ws_Paused := wu_Paused workspaceUpdate,
             ws_DisplayName := displayNamePtr (wu_DisplayName workspaceUpdate),
             ws_PodTemplate :=
               buildWorkspacePodTemplate (wu_PodTemplate workspaceUpdate) (pvs_Home (ptm_Volumes (wu_PodTemplate workspaceUpdate)))
                 dataVolumeMounts secretMounts\<rparr>\<rparr>))"

section \<open>Lemmas\<close>

definition unpack_volume :: "PodVolumeMountMutate \<Rightarrow> PodVolumeMount" where
  "unpack_volume v =
     \<lparr>pvm_PVCName = vmm_PVCName v, pvm_MountPath = vmm_MountPath v, pvm_ReadOnly = Some (vmm_ReadOnly v)\<rparr>"

definition unpack_secret :: "PodSecretMountMutate \<Rightarrow> PodSecretMount" where
  "unpack_secret x =
     \<lparr>psm_SecretName = smm_SecretName x, psm_MountPath = smm_MountPath x, psm_DefaultMode = smm_DefaultMode x\<rparr>"

text \<open>A computation that only reads.\<close>

definition b_pure :: "('s, 'a) bact \<Rightarrow> bool" where
  "b_pure m \<longleftrightarrow> (\<forall>s r s'. m s = (r, s') \<longrightarrow> br_calls s' = br_calls s)"

lemma b_pureD: "b_pure m \<Longrightarrow> m s = (r, s') \<Longrightarrow> br_calls s' = br_calls s"
  unfolding b_pure_def by blast

named_theorems b_pure_intros

lemma b_pure_basic [b_pure_intros]:
  "b_pure (b_return x)" "b_pure (b_throw e)" "b_pure b_panic" "b_pure (b_read f)" "b_pure (b_try f)" "b_pure (b_time_Now C)"
  by (auto simp: b_pure_def b_return_def b_throw_def b_panic_def b_read_def b_try_def b_time_Now_def
      split: prod.splits sum.splits)

lemma b_pure_bind [b_pure_intros]: "b_pure m \<Longrightarrow> (\<And>x. b_pure (f x)) \<Longrightarrow> b_pure (b_bind m f)"
  unfolding b_pure_def b_bind_def by (fastforce split: prod.splits bres.splits)

lemma b_pure_map_error [b_pure_intros]: "b_pure m \<Longrightarrow> b_pure (b_map_error h m)"
  unfolding b_pure_def b_map_error_def by (fastforce split: prod.splits bres.splits)

lemma b_pure_if [b_pure_intros]: "(c \<Longrightarrow> b_pure m) \<Longrightarrow> (\<not> c \<Longrightarrow> b_pure n) \<Longrightarrow> b_pure (if c then m else n)"
  by simp

lemma b_pure_validate_has_label [b_pure_intros]: "b_pure (validate_has_label get metaOf path name a b label)"
  unfolding validate_has_label_def by (intro b_pure_intros) (auto split: sum.split intro: b_pure_intros)

lemma b_pure_mountable [b_pure_intros]:
  "b_pure (ValidateKubernetesPVCIsMountable C path ns n)" "b_pure (ValidateKubernetesSecretIsMountable C path ns n)"
  unfolding ValidateKubernetesPVCIsMountable_def ValidateKubernetesSecretIsMountable_def by (rule b_pure_intros)+

lemma b_pure_unpack_data [b_pure_intros]: "b_pure (unpack_data_loop C ns i vs)"
  by (induction vs arbitrary: i) (auto split: prod.split intro!: b_pure_intros)

lemma b_pure_unpack_secrets [b_pure_intros]: "b_pure (unpack_secrets_loop C ns i xs)"
  by (induction xs arbitrary: i) (auto split: prod.split intro!: b_pure_intros)

lemma b_pure_validateAndUnpackVolumes [b_pure_intros]: "b_pure (validateAndUnpackVolumes C v ns)"
  unfolding validateAndUnpackVolumes_def Let_def
  by (auto split: prod.split option.split intro!: b_pure_intros)

lemma b_bind_ok:
  assumes "b_bind m f s = (BOk y, s')"
  obtains x s1 where "m s = (BOk x, s1)" and "f x s1 = (BOk y, s')"
  using assms by (auto simp: b_bind_def split: prod.splits bres.splits)

lemma unpack_data_loop_ok:
  "unpack_data_loop C ns i vs s = (BOk (errs, mounts), s') \<Longrightarrow> mounts = map unpack_volume vs"
  by (induction vs arbitrary: i s s' errs mounts)
    (auto simp: b_return_def unpack_volume_def elim!: b_bind_ok split: prod.splits)

lemma unpack_secrets_loop_ok:
  "unpack_secrets_loop C ns i xs s = (BOk (errs, mounts), s') \<Longrightarrow> mounts = map unpack_secret xs"
  by (induction xs arbitrary: i s s' errs mounts)
    (auto simp: b_return_def unpack_secret_def elim!: b_bind_ok split: prod.splits)

lemma validateAndUnpackVolumes_ok:
  assumes "validateAndUnpackVolumes C v ns s = (BOk (home, dataMounts, secretMounts), s')"
  shows "home = pvs_Home v" and "dataMounts = map unpack_volume (pvs_Data v)"
    and "secretMounts = map unpack_secret (pvs_Secrets v)"
  using assms unpack_data_loop_ok unpack_secrets_loop_ok
  by (auto simp: validateAndUnpackVolumes_def Let_def b_return_def b_throw_def elim!: b_bind_ok split: prod.splits if_splits)

lemma AList_update_append: "k \<notin> fst ` set m \<Longrightarrow> AList.update k v m = m @ [(k, v)]"
  by (induction m) auto

lemma maps_Copy_append: "wf_map (dst @ src) \<Longrightarrow> maps_Copy dst src = dst @ src"
  by (induction dst src rule: maps_Copy.induct) (auto simp: AList_update_append)

lemma maps_Copy_Nil [simp]: "wf_map src \<Longrightarrow> maps_Copy [] src = src"
  using maps_Copy_append [of "[]" src] by simp

lemma pack_unpack [simp]:
  "map (\<lambda>v. \<lparr>vmm_PVCName = pvm_PVCName v, vmm_MountPath = pvm_MountPath v, vmm_ReadOnly = ptr_Deref (pvm_ReadOnly v) False\<rparr>)
     (map unpack_volume vs) = vs"
  "map (\<lambda>s. \<lparr>smm_SecretName = psm_SecretName s, smm_MountPath = psm_MountPath s, smm_DefaultMode = psm_DefaultMode s\<rparr>)
     (map unpack_secret xs) = xs"
proof -
  have v: "\<lparr>vmm_PVCName = vmm_PVCName v, vmm_MountPath = vmm_MountPath v, vmm_ReadOnly = vmm_ReadOnly v\<rparr> = v" for v
    by (cases v) simp
  have x: "\<lparr>smm_SecretName = smm_SecretName x, smm_MountPath = smm_MountPath x, smm_DefaultMode = smm_DefaultMode x\<rparr> = x" for x
    by (cases x) simp
  show
    "map (\<lambda>v. \<lparr>vmm_PVCName = pvm_PVCName v, vmm_MountPath = pvm_MountPath v, vmm_ReadOnly = ptr_Deref (pvm_ReadOnly v) False\<rparr>)
       (map unpack_volume vs) = vs"
    "map (\<lambda>s. \<lparr>smm_SecretName = psm_SecretName s, smm_MountPath = psm_MountPath s, smm_DefaultMode = psm_DefaultMode s\<rparr>)
       (map unpack_secret xs) = xs"
    by (simp_all add: unpack_volume_def unpack_secret_def comp_def v x)
qed

lemma displayNamePtr_Deref [simp]: "ptr_Deref (displayNamePtr n) [] = n"
  by (simp add: displayNamePtr_def)

section \<open>Properties\<close>

text \<open>
  The models of the write requests and the Workspaces they stand for: when a create request is
  accepted, the model of the resulting Workspace is the request itself; when an update request is
  accepted, the model of the updated Workspace is the request with the current revision, and nothing
  but the paused flag, the display name and the pod template of the Workspace has changed.
\<close>

theorem write_models_roundtrip:
  assumes "wf_map (mm_Labels (ptm_PodMetadata pt))" and "wf_map (mm_Annotations (ptm_PodMetadata pt))"
    and "wc_PodTemplate create = pt" and "wu_PodTemplate update = pt"
    and "NewWorkspaceFromWorkspaceCreateModel C create namespace s1 = (BOk created, s1')"
    and "ApplyWorkspaceUpdateModelToWorkspace C update ws s2 = (BOk updated, s2')"
  shows "NewWorkspaceCreateModelFromWorkspace created = create \<and> w_Namespace created = namespace \<and>
    NewWorkspaceUpdateModelFromWorkspace updated = update\<lparr>wu_Revision := CalculateRevision (w_Meta ws)\<rparr> \<and>
    w_Meta updated = w_Meta ws \<and> w_Status updated = w_Status ws \<and> ws_Kind (w_Spec updated) = ws_Kind (w_Spec ws)"
proof -
  obtain home data secrets where v: "validateAndUnpackVolumes C (ptm_Volumes pt) namespace s1 = (BOk (home, data, secrets), s1')"
    and created: "created =
      \<lparr>w_Meta = ObjectMeta_zero\<lparr>om_Name := wc_Name create, om_Namespace := namespace\<rparr>,
       w_Spec = \<lparr>ws_Paused = wc_Paused create, ws_DisplayName = displayNamePtr (wc_DisplayName create),
         ws_Kind = wc_Kind create, ws_PodTemplate = buildWorkspacePodTemplate pt home data secrets\<rparr>,
       w_Status = WorkspaceStatus_zero\<rparr>"
    using assms(3,5) by (auto simp: NewWorkspaceFromWorkspaceCreateModel_def b_return_def elim!: b_bind_ok)
  obtain home' data' secrets' where v': "validateAndUnpackVolumes C (ptm_Volumes pt) (w_Namespace ws) s2 =
      (BOk (home', data', secrets'), s2')"
    and updated: "updated = ws\<lparr>w_Spec := (w_Spec ws)
      \<lparr>ws_Paused := wu_Paused update, ws_DisplayName := displayNamePtr (wu_DisplayName update),
       ws_PodTemplate := buildWorkspacePodTemplate pt (pvs_Home (ptm_Volumes pt)) data' secrets'\<rparr>\<rparr>"
    using assms(4,6) by (auto simp: ApplyWorkspaceUpdateModelToWorkspace_def b_return_def elim!: b_bind_ok)
  have template: "buildPodTemplateMutate w = pt"
    if "ws_PodTemplate (w_Spec w) = buildWorkspacePodTemplate pt (pvs_Home (ptm_Volumes pt))
         (map unpack_volume (pvs_Data (ptm_Volumes pt))) (map unpack_secret (pvs_Secrets (ptm_Volumes pt)))" for w
    using that assms(1,2)
    by (simp add: buildPodTemplateMutate_def buildWorkspacePodTemplate_def ExtractPodMetadata_def extractDataVolumes_def
        extractSecretMounts_def del: map_map)
  show ?thesis
    using template [of created] template [of updated] created updated assms(3,4)
      validateAndUnpackVolumes_ok [OF v] validateAndUnpackVolumes_ok [OF v']
    by (simp add: NewWorkspaceCreateModelFromWorkspace_def NewWorkspaceUpdateModelFromWorkspace_def)
qed

text \<open>A cluster with one Workspace, one kind and mountable volumes, whose writes succeed.\<close>

definition mountable :: ObjectMeta where
  "mountable = ObjectMeta_zero\<lparr>om_UID := ''uid-v'', om_Labels := [(LabelCanMount, ''true'')]\<rparr>"

definition sample_pvc :: PersistentVolumeClaim where
  "sample_pvc =
     \<lparr>pvc_Meta = mountable, pvc_AccessModes = [], pvc_StorageClassName = None, pvc_Requests = [], pvc_VolumeName = [],
      pvc_VolumeMode = None\<rparr>"

definition sample_secret :: Secret where
  "sample_secret =
     \<lparr>sec_Meta = mountable, sec_Type = ''Opaque'', sec_Immutable = None, sec_Data = [(''token'', ''abc'')]\<rparr>"

definition sample_backend :: "Workspace \<Rightarrow> WorkspaceKind \<Rightarrow> str_map \<Rightarrow> unit backend" where
  "sample_backend ws wsk nsLabels =
     \<lparr>b_GetWorkspace = (\<lambda>_ _ _. (Inr ws, ())), b_ListWorkspaces = (\<lambda>_ _. (Inr [ws], ())),
      b_CreateWorkspace = (\<lambda>w _. (Inr w, ())), b_UpdateWorkspace = (\<lambda>w _. (Inr w, ())),
      b_DeleteWorkspace = (\<lambda>_ _ _. (Inr (), ())),
      b_PatchWorkspace = (\<lambda>_ _ _ _. (Inr ws, ())),
      b_GetWorkspaceKind = (\<lambda>_ _. (Inr wsk, ())),
      b_GetNamespace = (\<lambda>_ _. (Inr (ObjectMeta_zero\<lparr>om_Labels := nsLabels\<rparr>), ())),
      b_GetPVC = (\<lambda>_ _ _. (Inr sample_pvc, ())), b_GetSecret = (\<lambda>_ _ _. (Inr sample_secret, ())),
      b_GetStorageClass = (\<lambda>_ _. (Inr \<lparr>sc_Meta = mountable\<rparr>, ())),
      b_ListWorkspaceKinds = (\<lambda>_. (Inr [wsk], ())), b_CreateWorkspaceKind = (\<lambda>k _. (Inr k, ())),
      b_UpdateWorkspaceKind = (\<lambda>k _. (Inr k, ())), b_DeleteWorkspaceKind = (\<lambda>_ _. (Inr (), ())),
      b_GetImageSource = (\<lambda>_ _ _. (Inr \<lparr>cm_Meta = mountable, cm_Data = [], cm_BinaryData = []\<rparr>, ())),
      b_ListNamespaces = (\<lambda>_. (Inr [], ())), b_ListStorageClasses = (\<lambda>_. (Inr [\<lparr>sc_Meta = mountable\<rparr>], ())),
      b_ListSecrets = (\<lambda>_ _. (Inr [mountable], ())), b_CreateSecret = (\<lambda>x _. (Inr x, ())),
      b_UpdateSecret = (\<lambda>x _. (Inr x, ())), b_DeleteSecret = (\<lambda>_ _ _. (Inr (), ())),
      b_ListPVCs = (\<lambda>_ _. (Inr [sample_pvc], ())), b_CreatePVC = (\<lambda>x _. (Inr x, ())),
      b_DeletePVC = (\<lambda>_ _ _. (Inr (), ())),
      b_GetPersistentVolume = (\<lambda>_ _. (Inl (ApiStatusError ReasonNotFound [] []), ())),
      b_ListPods = (\<lambda>_ _ _. (Inr [], ())),
      b_GetLivePod = (\<lambda>_ _ _. (Inr \<lparr>lp_ContainerStatuses = [], lp_InitContainerStatuses = []\<rparr>, ())),
      b_StreamLogs = (\<lambda>_ _ _ _. (Inr ''line'', ())), b_ProbeMetricsAPI = (\<lambda>_. (Inr (), ())),
      b_GetPodMetrics = (\<lambda>_ _ _. (Inl (ApiStatusError ReasonNotFound [] []), ())),
      b_UsageCache_Get = (\<lambda>_ _. (None, ())), b_UsageCache_Add = (\<lambda>_ _ _ _. (Inr (), ())),
      b_ContextErr = (\<lambda>_. (None, ())), b_Now = (\<lambda>_. (0, ()))\<rparr>"

definition sample_brun :: "unit brun" where
  "sample_brun = \<lparr>br_memo = \<lparr>memo_val = False, memo_checkedAt = None, memo_ttl = 0\<rparr>, br_world = (), br_calls = []\<rparr>"

definition sample_template :: PodTemplateMutate where
  "sample_template =
     \<lparr>ptm_PodMetadata = \<lparr>mm_Labels = [], mm_Annotations = []\<rparr>,
      ptm_Volumes =
        \<lparr>pvs_Home = Some ''home-pvc'',
         pvs_Data = [\<lparr>vmm_PVCName = ''data'', vmm_MountPath = ''/data'', vmm_ReadOnly = True\<rparr>],
         pvs_Secrets = []\<rparr>,
      ptm_Options = \<lparr>ptom_ImageConfig = ''img1'', ptom_PodConfig = ''tiny''\<rparr>\<rparr>"

definition sample_create :: WorkspaceCreate where
  "sample_create =
     \<lparr>wc_Name = ''notebook'', wc_DisplayName = [], wc_Kind = ''jupyterlab'', wc_Paused = False,
      wc_PodTemplate = sample_template\<rparr>"

definition sample_update :: "string \<Rightarrow> WorkspaceUpdate" where
  "sample_update revision =
     \<lparr>wu_Revision = revision, wu_DisplayName = ''mine'', wu_Paused = True, wu_PodTemplate = sample_template\<rparr>"

lemmas sample_backend_defs =
  sample_backend_def sample_brun_def sample_template_def sample_create_def sample_update_def mountable_def sample_pvc_def sample_secret_def

text \<open>Evaluation of the monad.\<close>

lemmas b_run_defs =
  b_bind_def b_return_def b_throw_def b_panic_def b_read_def b_try_def b_write_def b_map_error_def b_time_Now_def

lemma sample_validateAndUnpackVolumes:
  "validateAndUnpackVolumes (sample_backend ws wsk labels) (ptm_Volumes sample_template) ns sample_brun =
     (BOk (Some ''home-pvc'',
        [\<lparr>pvm_PVCName = ''data'', pvm_MountPath = ''/data'', pvm_ReadOnly = Some True\<rparr>], []), sample_brun)"
  by (simp add: validateAndUnpackVolumes_def ValidateKubernetesPVCIsMountable_def validate_has_label_def
      sample_backend_defs b_run_defs ObjectMeta_zero_def Let_def)

theorem write_models_roundtrip_witness:
  "\<exists>created updated.
     NewWorkspaceFromWorkspaceCreateModel (sample_backend sample_workspace sample_kind []) sample_create ''team'' sample_brun =
       (BOk created, sample_brun) \<and>
     ApplyWorkspaceUpdateModelToWorkspace (sample_backend sample_workspace sample_kind []) (sample_update ''r'')
       sample_workspace sample_brun = (BOk updated, sample_brun) \<and>
     NewWorkspaceCreateModelFromWorkspace created = sample_create \<and>
     wu_DisplayName (NewWorkspaceUpdateModelFromWorkspace updated) = ''mine''"
proof -
  let ?C = "sample_backend sample_workspace sample_kind []"
  have t: "wc_PodTemplate sample_create = sample_template" "wu_PodTemplate (sample_update ''r'') = sample_template"
    "wu_DisplayName (sample_update ''r'') = ''mine''"
    by (simp_all add: sample_create_def sample_update_def)
  obtain created where c: "NewWorkspaceFromWorkspaceCreateModel ?C sample_create ''team'' sample_brun = (BOk created, sample_brun)"
    by (simp add: NewWorkspaceFromWorkspaceCreateModel_def t b_bind_def b_return_def sample_validateAndUnpackVolumes)
  obtain updated where u: "ApplyWorkspaceUpdateModelToWorkspace ?C (sample_update ''r'') sample_workspace sample_brun =
      (BOk updated, sample_brun)"
    by (simp add: ApplyWorkspaceUpdateModelToWorkspace_def t b_bind_def b_return_def sample_validateAndUnpackVolumes)
  have wf: "wf_map (mm_Labels (ptm_PodMetadata sample_template))" "wf_map (mm_Annotations (ptm_PodMetadata sample_template))"
    by (simp_all add: sample_template_def)
  from write_models_roundtrip [OF wf t(1,2) c u] c u t(3) show ?thesis
    by auto
qed

end
