(* ===== verification/Workspace_List.thy ===== *)
theory Workspace_List
  imports Workspace_Models
begin

text \<open>
  The list view and the details view of a Workspace: \<open>internal/models/workspaces/funcs.go\<close> with its
  \<open>types.go\<close>, and \<open>internal/models/workspaces/podtemplate/details\<close>. \<open>None\<close> as a result is a panic. A
  WorkspaceKind that does not exist is \<open>None\<close>: the repository then passes a pointer to the zero value,
  which \<open>WskExists\<close> treats like \<open>nil\<close>.
\<close>

section \<open>Models\<close>

record OptionInfoModel =
  oim_Id :: string
  oim_DisplayName :: string
  oim_Description :: string
  oim_Labels :: "(string \<times> string) list"

record RedirectStepModel =
  rsm_Source :: OptionInfoModel
  rsm_Target :: OptionInfoModel
  rsm_Message :: "RedirectMessage option"

text \<open>\<open>ImageConfig\<close> and \<open>PodConfig\<close> of the model have the same two fields.\<close>

record OptionConfigModel =
  ocm_Current :: OptionInfoModel
  ocm_RedirectChain :: "RedirectStepModel list"

datatype ProbeResultModel = ProbeResultSuccess | ProbeResultFailure | ProbeResultTimeout

record LastProbeInfo =
  lpi_StartTime :: int
  lpi_EndTime :: int
  lpi_Result :: ProbeResultModel
  lpi_Message :: string

text \<open>\<open>ActivityRules\<close> holds one pause rule, which is never \<open>nil\<close> when the rules are there.\<close>

record ActivityModel =
  acm_LastActivity :: int
  acm_LastUpdate :: int
  acm_LastProbe :: "LastProbeInfo option"
  acm_PauseEligibleAfter :: "int option"

record HttpService =
  hs_DisplayName :: string
  hs_HttpPath :: string

record WorkspaceKindInfo =
  wki_Name :: string
  wki_Missing :: bool
  wki_Icon :: ImageRef
  wki_Logo :: ImageRef

record WorkspaceListItem =
  wli_Name :: string
  wli_DisplayName :: string
  wli_Namespace :: string
  wli_WorkspaceKind :: WorkspaceKindInfo
  wli_Paused :: bool
  wli_PausedTime :: int
  wli_LastRunningTime :: int
  wli_State :: WorkspaceState
  wli_StateMessage :: string
  wli_ImageConfig :: OptionConfigModel
  wli_PodConfig :: OptionConfigModel
  wli_Activity :: ActivityModel
  wli_Services :: "HttpService option list"
  wli_Audit :: Audit

section \<open>Options\<close>

definition UnknownImageConfig :: string where
  "UnknownImageConfig = ''__UNKNOWN_IMAGE_CONFIG__''"

definition UnknownPodConfig :: string where
  "UnknownPodConfig = ''__UNKNOWN_POD_CONFIG__''"

definition UnknownIconURL :: string where
  "UnknownIconURL = ''__UNKNOWN_ICON_URL__''"

definition UnknownLogoURL :: string where
  "UnknownLogoURL = ''__UNKNOWN_LOGO_URL__''"

definition item_buildOptionLabels :: "OptionSpawnerLabel list \<Rightarrow> (string \<times> string) list" where
  "item_buildOptionLabels labels = map (\<lambda>l. (osl_Key l, osl_Value l)) labels"

definition item_buildRedirectMessage :: "RedirectMessage option \<Rightarrow> RedirectMessage option" where
  "item_buildRedirectMessage msg =
     (case msg of
       None \<Rightarrow> None
     | Some m \<Rightarrow>
         Some \<lparr>rm_Level =
                 (case rm_Level m of
                   RedirectMessageLevelInfo \<Rightarrow> RedirectMessageLevelInfo
                 | RedirectMessageLevelWarning \<Rightarrow> RedirectMessageLevelWarning
                 | RedirectMessageLevelDanger \<Rightarrow> RedirectMessageLevelDanger),
               rm_Text = rm_Text m\<rparr>)"

definition buildOptionInfo :: "string \<Rightarrow> string \<Rightarrow> OptionSpawnerInfo option \<Rightarrow> OptionInfoModel" where
  "buildOptionInfo i unknownFallback spawnerInfo =
     (case spawnerInfo of
       Some info \<Rightarrow>
         \<lparr>oim_Id = i, oim_DisplayName = osi_DisplayName info,
          oim_Description = ptr_Deref (osi_Description info) [],
          oim_Labels = item_buildOptionLabels (osi_Labels info)\<rparr>
     | None \<Rightarrow>
         \<lparr>oim_Id = i, oim_DisplayName = unknownFallback, oim_Description = unknownFallback, oim_Labels = []\<rparr>)"

text \<open>One step of the redirect chain; the message is dropped if the option now redirects elsewhere.\<close>

definition build_redirect_step ::
  "('v \<Rightarrow> OptionSpawnerInfo) \<Rightarrow> ('v \<Rightarrow> OptionRedirect option) \<Rightarrow> string \<Rightarrow> (string, 'v) go_map
   \<Rightarrow> WorkspacePodOptionRedirectStep \<Rightarrow> RedirectStepModel" where
  "build_redirect_step spawnerOf redirectOf unknown configMap step =
     \<lparr>rsm_Source = buildOptionInfo (rs_Source step) unknown (map_option spawnerOf (map_of configMap (rs_Source step))),
      rsm_Target = buildOptionInfo (rs_Target step) unknown (map_option spawnerOf (map_of configMap (rs_Target step))),
      rsm_Message =
        (case map_of configMap (rs_Source step) of
          None \<Rightarrow> None
        | Some cfg \<Rightarrow>
            (case redirectOf cfg of
              None \<Rightarrow> None
            | Some r \<Rightarrow>
                if redir_To r = rs_Target step then item_buildRedirectMessage (redir_Message r) else None))\<rparr>"

definition buildImageConfig ::
  "Workspace \<Rightarrow> WorkspaceKind option \<Rightarrow> OptionConfigModel \<times> ImageConfigValue option" where
  "buildImageConfig ws wsk =
     (let imageConfigMap =
            (if WskExists wsk then index_by icv_Id (wk_ImageConfigValues (the wsk)) [] else []);
          currentImageConfigId = wpo_ImageConfig (w_Options ws);
          currentImageConfigValue = map_of imageConfigMap currentImageConfigId
      in (\<lparr>ocm_Current =
             buildOptionInfo currentImageConfigId UnknownImageConfig (map_option icv_Spawner currentImageConfigValue),
           ocm_RedirectChain =
             map (build_redirect_step icv_Spawner icv_Redirect UnknownImageConfig imageConfigMap)
               (oi_RedirectChain (os_ImageConfig (st_PodTemplateOptions (w_Status ws))))\<rparr>,
          currentImageConfigValue))"

definition buildPodConfig ::
  "Workspace \<Rightarrow> WorkspaceKind option \<Rightarrow> OptionConfigModel \<times> PodConfigValue option" where
  "buildPodConfig ws wsk =
     (let podConfigMap =
            (if WskExists wsk then index_by pcv_Id (wk_PodConfigValues (the wsk)) [] else []);
          currentPodConfigId = wpo_PodConfig (w_Options ws);
          currentPodConfigValue = map_of podConfigMap currentPodConfigId
      in (\<lparr>ocm_Current =
             buildOptionInfo currentPodConfigId UnknownPodConfig (map_option pcv_Spawner currentPodConfigValue),
           ocm_RedirectChain =
             map (build_redirect_step pcv_Spawner pcv_Redirect UnknownPodConfig podConfigMap)
               (oi_RedirectChain (os_PodConfig (st_PodTemplateOptions (w_Status ws))))\<rparr>,
          currentPodConfigValue))"

section \<open>Services, assets, activity\<close>

text \<open>A service is \<open>None\<close> if the protocol of its port is none that is listed.\<close>

fun buildServices_loop ::
  "Workspace \<Rightarrow> (string, WorkspaceKindPort) go_map \<Rightarrow> ImagePort list \<Rightarrow> HttpService option list option" where
  "buildServices_loop ws wskPodTemplatePorts [] = Some []"
| "buildServices_loop ws wskPodTemplatePorts (port # ports) =
     (case map_of wskPodTemplatePorts (ip_Id port) of
       None \<Rightarrow> None
     | Some wskPort \<Rightarrow>
         map_option
           (\<lambda>services.
              (case kp_Protocol wskPort of
                 ImagePortProtocolHTTP \<Rightarrow>
                   Some \<lparr>hs_DisplayName = ptr_Deref (ip_DisplayName port) (kp_DefaultDisplayName wskPort),
                         hs_HttpPath =
                           ''/workspace/connect/'' @ w_Namespace ws @ ''/'' @ w_Name ws @ ''/'' @ ip_Id port @ ''/''\<rparr>
               | ImagePortProtocolOther s \<Rightarrow> None) # services)
           (buildServices_loop ws wskPodTemplatePorts ports))"

definition buildServices ::
  "Workspace \<Rightarrow> (string, WorkspaceKindPort) go_map \<Rightarrow> ImageConfigValue option \<Rightarrow> HttpService option list option" where
  "buildServices ws wskPodTemplatePorts imageConfigValue =
     (case imageConfigValue of
       None \<Rightarrow> Some []
     | Some v \<Rightarrow> buildServices_loop ws wskPodTemplatePorts (ics_Ports (icv_Spec v)))"

definition buildIconImageRef :: "BackendEnvConfig option \<Rightarrow> Workspace \<Rightarrow> WorkspaceKind option \<Rightarrow> ImageRef" where
  "buildIconImageRef cfg ws wsk =
     (if \<not> WskExists wsk then \<lparr>ir_URL = UnknownIconURL, ir_Error = None\<rparr>
      else NewImageRefFromWorkspaceKindAssetIcon cfg (sw_Icon (wks_Spawner (wk_Spec (the wsk))))
             (wkst_SpawnerIcon (wk_Status (the wsk))) (ws_Kind (w_Spec ws)))"

definition buildLogoImageRef :: "BackendEnvConfig option \<Rightarrow> Workspace \<Rightarrow> WorkspaceKind option \<Rightarrow> ImageRef" where
  "buildLogoImageRef cfg ws wsk =
     (if \<not> WskExists wsk then \<lparr>ir_URL = UnknownLogoURL, ir_Error = None\<rparr>
      else NewImageRefFromWorkspaceKindAssetLogo cfg (sw_Logo (wks_Spawner (wk_Spec (the wsk))))
             (wkst_SpawnerLogo (wk_Status (the wsk))) (ws_Kind (w_Spec ws)))"

definition buildLastProbeInfo :: "WorkspaceActivityLastProbe option \<Rightarrow> LastProbeInfo option" where
  "buildLastProbeInfo probe =
     (case probe of
       None \<Rightarrow> None
     | Some p \<Rightarrow>
         Some \<lparr>lpi_StartTime = lp_StartTime p, lpi_EndTime = lp_EndTime p,
               lpi_Result =
                 (case lp_Result p of
                   ProbeSuccess \<Rightarrow> ProbeResultSuccess
                 | ProbeFailure \<Rightarrow> ProbeResultFailure
                 | ProbeTimeout \<Rightarrow> ProbeResultTimeout),
               lpi_Message = lp_Message p\<rparr>)"

definition item_buildActivityRules :: "WorkspaceActivity \<Rightarrow> int option" where
  "item_buildActivityRules activity =
     (case wa_Rules activity of
       None \<Rightarrow> None
     | Some rules \<Rightarrow>
         (case war_PauseWorkspace rules of None \<Rightarrow> None | Some pauseRule \<Rightarrow> Some (pr_EligibleAfter pauseRule)))"

section \<open>The list item\<close>

text \<open>Whether \<open>EnsureWskMatchesWorkspace\<close> returns.\<close>

definition EnsureWskMatchesWorkspace :: "Workspace \<Rightarrow> WorkspaceKind option \<Rightarrow> bool" where
  "EnsureWskMatchesWorkspace ws wsk \<longleftrightarrow> \<not> (WskExists wsk \<and> ws_Kind (w_Spec ws) \<noteq> wk_Name (the wsk))"

definition NewWorkspaceListItemFromWorkspace ::
  "backend_lib \<Rightarrow> BackendEnvConfig option \<Rightarrow> Workspace \<Rightarrow> WorkspaceKind option \<Rightarrow> WorkspaceListItem option" where
  "NewWorkspaceListItemFromWorkspace B cfg ws wsk =
     (if \<not> EnsureWskMatchesWorkspace ws wsk then None
      else
        (let (imageConfigModel, imageConfigValue) = buildImageConfig ws wsk;
             (podConfigModel, _) = buildPodConfig ws wsk;
             wskPodTemplatePorts =
               (if WskExists wsk then index_by kp_Id (kpt_Ports (wk_PodTemplate (the wsk))) [] else [])
         in case buildServices ws wskPodTemplatePorts imageConfigValue of
              None \<Rightarrow> None
            | Some services \<Rightarrow>
                Some \<lparr>wli_Name = w_Name ws, wli_DisplayName = ptr_Deref (ws_DisplayName (w_Spec ws)) [],
                      wli_Namespace = w_Namespace ws,
                      wli_WorkspaceKind =
                        \<lparr>wki_Name = ws_Kind (w_Spec ws), wki_Missing = (\<not> WskExists wsk),
                         wki_Icon = buildIconImageRef cfg ws wsk, wki_Logo = buildLogoImageRef cfg ws wsk\<rparr>,
                      wli_Paused = ws_Paused (w_Spec ws), wli_PausedTime = st_PauseTime (w_Status ws),
                      wli_LastRunningTime = st_LastRunningTime (w_Status ws), wli_State = st_State (w_Status ws),
                      wli_StateMessage = st_StateMessage (w_Status ws),
                      wli_ImageConfig = imageConfigModel, wli_PodConfig = podConfigModel,
                      wli_Activity =
                        \<lparr>acm_LastActivity = wa_LastActivity (st_Activity (w_Status ws)),
                         acm_LastUpdate = wa_LastUpdate (st_Activity (w_Status ws)),
                         acm_LastProbe = buildLastProbeInfo (wa_LastProbe (st_Activity (w_Status ws))),
                         acm_PauseEligibleAfter = item_buildActivityRules (st_Activity (w_Status ws))\<rparr>,
                      wli_Services = services, wli_Audit = NewAuditFromObjectMeta B (Some (w_Meta ws))\<rparr>))"


section \<open>The details view\<close>

definition UnknownHomeMountPath :: string where
  "UnknownHomeMountPath = ''__UNKNOWN_HOME_MOUNT_PATH__''"

record PodVolumeInfo =
  pvi_PVCName :: string
  pvi_MountPath :: string
  pvi_ReadOnly :: bool

record PodSecretInfo =
  psi_SecretName :: string
  psi_MountPath :: string
  psi_DefaultMode :: "int option"

text \<open>A container is its name.\<close>

record WorkspaceDetailPod =
  wdp_Name :: string
  wdp_NodeName :: string
  wdp_Containers :: "string list"
  wdp_InitContainers :: "string list"

record WorkspaceDetails =
  wd_PodMetadata :: MetadataModel
  wd_Home :: "PodVolumeInfo option"
  wd_Data :: "PodVolumeInfo list"
  wd_Secrets :: "PodSecretInfo list"
  wd_Pod :: "WorkspaceDetailPod option"

definition buildHomeVolume :: "Workspace \<Rightarrow> WorkspaceKind option \<Rightarrow> PodVolumeInfo option" where
  "buildHomeVolume ws wsk =
     (case wv_Home (wpt_Volumes (ws_PodTemplate (w_Spec ws))) of
       None \<Rightarrow> None
     | Some home \<Rightarrow>
         Some \<lparr>pvi_PVCName = home,
               pvi_MountPath =
                 (if WskExists wsk then kpt_HomeMountPath (wk_PodTemplate (the wsk)) else UnknownHomeMountPath),
               pvi_ReadOnly = False\<rparr>)"

definition buildDataVolumes :: "Workspace \<Rightarrow> PodVolumeInfo list" where
  "buildDataVolumes ws =
     map (\<lambda>v. \<lparr>pvi_PVCName = pvm_PVCName v, pvi_MountPath = pvm_MountPath v,
               pvi_ReadOnly = ptr_Deref (pvm_ReadOnly v) False\<rparr>)
       (wv_Data (wpt_Volumes (ws_PodTemplate (w_Spec ws))))"

definition buildSecretVolumes :: "Workspace \<Rightarrow> PodSecretInfo list" where
  "buildSecretVolumes ws =
     map (\<lambda>s. \<lparr>psi_SecretName = psm_SecretName s, psi_MountPath = psm_MountPath s, psi_DefaultMode = psm_DefaultMode s\<rparr>)
       (wv_Secrets (wpt_Volumes (ws_PodTemplate (w_Spec ws))))"

definition NewWorkspaceDetailsFromWorkspace :: "Workspace \<Rightarrow> WorkspaceKind option \<Rightarrow> WorkspaceDetails option" where
  "NewWorkspaceDetailsFromWorkspace ws wsk =
     (if \<not> EnsureWskMatchesWorkspace ws wsk then None
      else
        (let status = st_PodTemplatePod (w_Status ws);
             pod =
               (if wps_Name status \<noteq> []
                then Some \<lparr>wdp_Name = wps_Name status, wdp_NodeName = wps_NodeName status,
                           wdp_Containers = wps_Containers status, wdp_InitContainers = wps_InitContainers status\<rparr>
                else None)
         in Some \<lparr>wd_PodMetadata = ExtractPodMetadata ws, wd_Home = buildHomeVolume ws wsk,
                  wd_Data = buildDataVolumes ws, wd_Secrets = buildSecretVolumes ws, wd_Pod = pod\<rparr>))"

section \<open>Lemmas\<close>

definition http_services :: "HttpService option list \<Rightarrow> HttpService list" where
  "http_services services = map the (filter (\<lambda>s. s \<noteq> None) services)"

lemma item_buildRedirectMessage_id [simp]: "item_buildRedirectMessage m = m"
proof (cases m)
  case (Some r)
  then show ?thesis
    by (cases r, cases "rm_Level r") (auto simp: item_buildRedirectMessage_def)
qed (simp add: item_buildRedirectMessage_def)

lemma buildServices_loop_ok:
  assumes "\<forall>p \<in> set ports. map_of m (ip_Id p) \<noteq> None"
  shows "\<exists>services. buildServices_loop ws m ports = Some services \<and>
    map hs_HttpPath (http_services services) =
      map (\<lambda>p. getWorkspaceConnectPath (w_Namespace ws) (w_Name ws) (ip_Id p)) (filter (http_port m) ports)"
  using assms
proof (induction ports)
  case (Cons p ports)
  then obtain services kp where "buildServices_loop ws m ports = Some services" and kp: "map_of m (ip_Id p) = Some kp"
    and "map hs_HttpPath (http_services services) =
      map (\<lambda>p. getWorkspaceConnectPath (w_Namespace ws) (w_Name ws) (ip_Id p)) (filter (http_port m) ports)"
    by auto
  moreover have "http_port m p \<longleftrightarrow> kp_Protocol kp = ImagePortProtocolHTTP"
    by (simp add: http_port_def kp)
  ultimately show ?case
    by (cases "kp_Protocol kp") (simp_all add: http_services_def getWorkspaceConnectPath_def [of _ _ "ip_Id p"])
qed (simp add: http_services_def)

lemma case_sum_InrE:
  assumes "case x of Inl e \<Rightarrow> False | Inr v \<Rightarrow> P v"
  obtains v where "x = Inr v" and "P v"
  using assms by (cases x) auto

text \<open>Every step of a resolved chain is the redirect of its source, and the last leads to the desired option.\<close>

lemma resolves_steps:
  assumes "resolves f r m v d steps" and "keyed f m" and "map_of m (f v) = Some v" and "s \<in> set steps"
  shows "\<exists>u t rd. map_of m (rs_Source s) = Some u \<and> map_of m (rs_Target s) = Some t \<and> r u = Some rd \<and> redir_To rd = rs_Target s"
  using assms
proof (induction rule: resolves.induct)
  case (resolves_step v rd v' d steps)
  have id: "f v' = redir_To rd"
    using resolves_step.prems(1) resolves_step.hyps(2) unfolding keyed_def by blast
  show ?case
  proof (cases "s \<in> set steps")
    case True
    with resolves_step.IH resolves_step.prems(1) resolves_step.hyps(2) id show ?thesis
      by simp
  next
    case False
    with resolves_step.prems(3) have "s = \<lparr>rs_Source = f v, rs_Target = f v'\<rparr>"
      by simp
    with resolves_step.prems(2) resolves_step.hyps(1,2) id show ?thesis
      by simp
  qed
qed simp

lemma resolves_last:
  assumes "resolves f r m v d steps" and "keyed f m" and "steps \<noteq> []"
  shows "rs_Target (last steps) = f d \<and> map_of m (f d) = Some d"
  using assms
proof (induction rule: resolves.induct)
  case (resolves_step v rd v' d steps)
  have id: "f v' = redir_To rd"
    using resolves_step.prems(1) resolves_step.hyps(2) unfolding keyed_def by blast
  show ?case
  proof (cases "steps = []")
    case True
    with resolves_step.hyps(3) have "d = v'"
      by (auto elim: resolves_NilE)
    with True id resolves_step.hyps(2) show ?thesis
      by simp
  qed (use resolves_step in simp)
qed simp

section \<open>What is shown of an option\<close>

text \<open>
  The text of an option of the kind; what is shown for an id; what is shown for a selected option and a chain of
  redirects, whatever they are; and what is shown for an option that resolves.
\<close>

definition info_of :: "('v \<Rightarrow> string) \<Rightarrow> ('v \<Rightarrow> OptionSpawnerInfo) \<Rightarrow> 'v \<Rightarrow> OptionInfoModel" where
  "info_of idOf spawnerOf v =
     \<lparr>oim_Id = idOf v, oim_DisplayName = osi_DisplayName (spawnerOf v),
      oim_Description = (case osi_Description (spawnerOf v) of None \<Rightarrow> [] | Some txt \<Rightarrow> txt),
      oim_Labels = map (\<lambda>l. (osl_Key l, osl_Value l)) (osi_Labels (spawnerOf v))\<rparr>"

definition info_shown ::
  "('v \<Rightarrow> string) \<Rightarrow> ('v \<Rightarrow> OptionSpawnerInfo) \<Rightarrow> string \<Rightarrow> 'v list \<Rightarrow> string \<Rightarrow> OptionInfoModel \<Rightarrow> bool" where
  "info_shown idOf spawnerOf unknown vs i shown \<longleftrightarrow>
     (if i \<in> idOf ` set vs then \<exists>v \<in> set vs. idOf v = i \<and> shown = info_of idOf spawnerOf v
      else shown = \<lparr>oim_Id = i, oim_DisplayName = unknown, oim_Description = unknown, oim_Labels = []\<rparr>)"

definition option_shown ::
  "('v \<Rightarrow> string) \<Rightarrow> ('v \<Rightarrow> OptionSpawnerInfo) \<Rightarrow> ('v \<Rightarrow> OptionRedirect option) \<Rightarrow> string \<Rightarrow> 'v list
   \<Rightarrow> string \<Rightarrow> redirect_chain \<Rightarrow> OptionConfigModel \<Rightarrow> bool" where
  "option_shown idOf spawnerOf redirectOf unknown vs i steps model \<longleftrightarrow>
     info_shown idOf spawnerOf unknown vs i (ocm_Current model) \<and>
     list_all2 (\<lambda>step shown.
         info_shown idOf spawnerOf unknown vs (rs_Source step) (rsm_Source shown) \<and>
         info_shown idOf spawnerOf unknown vs (rs_Target step) (rsm_Target shown) \<and>
         (\<forall>msg. rsm_Message shown = Some msg \<longrightarrow>
            (\<exists>v \<in> set vs. \<exists>r. idOf v = rs_Source step \<and> redirectOf v = Some r \<and> redir_To r = rs_Target step \<and>
               redir_Message r = Some msg)))
       steps (ocm_RedirectChain model)"

definition resolution_shown ::
  "('v \<Rightarrow> string) \<Rightarrow> ('v \<Rightarrow> OptionSpawnerInfo) \<Rightarrow> ('v \<Rightarrow> OptionRedirect option) \<Rightarrow> 'v list
   \<Rightarrow> 'v \<Rightarrow> 'v option \<Rightarrow> redirect_chain \<Rightarrow> OptionConfigModel \<Rightarrow> bool" where
  "resolution_shown idOf spawnerOf redirectOf vs current desired steps model \<longleftrightarrow>
     ocm_Current model = info_of idOf spawnerOf current \<and>
     list_all2 (\<lambda>step shown. \<exists>src \<in> set vs. \<exists>tgt \<in> set vs. \<exists>r.
         idOf src = rs_Source step \<and> idOf tgt = rs_Target step \<and> redirectOf src = Some r \<and> redir_To r = idOf tgt \<and>
         shown = \<lparr>rsm_Source = info_of idOf spawnerOf src, rsm_Target = info_of idOf spawnerOf tgt,
                  rsm_Message = redir_Message r\<rparr>)
       steps (ocm_RedirectChain model) \<and>
     (case desired of
        None \<Rightarrow> ocm_RedirectChain model = []
      | Some d \<Rightarrow> ocm_RedirectChain model \<noteq> [] \<and> rsm_Target (last (ocm_RedirectChain model)) = info_of idOf spawnerOf d)"

abbreviation option_model ::
  "('v \<Rightarrow> OptionSpawnerInfo) \<Rightarrow> ('v \<Rightarrow> OptionRedirect option) \<Rightarrow> string \<Rightarrow> (string, 'v) go_map
   \<Rightarrow> string \<Rightarrow> redirect_chain \<Rightarrow> OptionConfigModel" where
  "option_model spawnerOf redirectOf unknown m i steps \<equiv>
     \<lparr>ocm_Current = buildOptionInfo i unknown (map_option spawnerOf (map_of m i)),
      ocm_RedirectChain = map (build_redirect_step spawnerOf redirectOf unknown m) steps\<rparr>"

lemma buildOptionInfo_known: "buildOptionInfo (idOf v) unknown (Some (spawnerOf v)) = info_of idOf spawnerOf v"
  by (simp add: buildOptionInfo_def info_of_def item_buildOptionLabels_def ptr_Deref_def)

lemma buildOptionInfo_shown:
  "info_shown idOf spawnerOf unknown vs i
     (buildOptionInfo i unknown (map_option spawnerOf (map_of (index_by idOf vs []) i)))"
proof (cases "map_of (index_by idOf vs []) i")
  case None
  then have "i \<notin> idOf ` set vs"
    unfolding index_by_None .
  then show ?thesis
    by (simp add: None info_shown_def buildOptionInfo_def)
next
  case (Some v)
  then have "v \<in> set vs" and "idOf v = i"
    by (rule index_by_Some)+
  then have "buildOptionInfo i unknown (map_option spawnerOf (map_of (index_by idOf vs []) i)) = info_of idOf spawnerOf v"
    using Some buildOptionInfo_known [of idOf v unknown spawnerOf] by simp
  with \<open>v \<in> set vs\<close> \<open>idOf v = i\<close> show ?thesis
    by (auto simp: info_shown_def)
qed

lemma option_model_shown:
  "option_shown idOf spawnerOf redirectOf unknown vs i steps
     (option_model spawnerOf redirectOf unknown (index_by idOf vs []) i steps)"
proof -
  let ?m = "index_by idOf vs []"
  have "\<exists>v \<in> set vs. \<exists>r. idOf v = rs_Source step \<and> redirectOf v = Some r \<and> redir_To r = rs_Target step \<and>
      redir_Message r = Some msg"
    if "rsm_Message (build_redirect_step spawnerOf redirectOf unknown ?m step) = Some msg" for step msg
    using that by (auto simp: build_redirect_step_def dest: index_by_Some split: option.splits if_splits)
  then show ?thesis
    unfolding option_shown_def
    by (auto simp: buildOptionInfo_shown list.rel_map build_redirect_step_def intro!: list.rel_refl_strong)
qed

lemma option_model_resolution:
  assumes "option_result idOf redirectOf vs i (current, desired, steps)"
  shows "resolution_shown idOf spawnerOf redirectOf vs current desired steps
     (option_model spawnerOf redirectOf unknown (index_by idOf vs []) i steps)"
proof -
  let ?m = "index_by idOf vs []"
  let ?step = "build_redirect_step spawnerOf redirectOf unknown ?m"
  have k: "keyed idOf ?m"
    by (rule keyed_index_by)
  from assms obtain d where cur: "map_of ?m i = Some current" and
    cases: "desired = None \<and> steps = [] \<or> idOf current \<noteq> idOf d \<and> desired = Some d \<and> resolves idOf redirectOf ?m current d steps"
    unfolding option_result_def by (auto split: if_splits)
  have i: "i = idOf current"
    using index_by_Some(2) [OF cur] by simp
  have steps: "\<exists>src \<in> set vs. \<exists>tgt \<in> set vs. \<exists>r.
      idOf src = rs_Source step \<and> idOf tgt = rs_Target step \<and> redirectOf src = Some r \<and> redir_To r = idOf tgt \<and>
      ?step step = \<lparr>rsm_Source = info_of idOf spawnerOf src, rsm_Target = info_of idOf spawnerOf tgt,
        rsm_Message = redir_Message r\<rparr>" if "step \<in> set steps" for step
  proof -
    from that cases have "resolves idOf redirectOf ?m current d steps"
      by auto
    from resolves_steps [OF this k _ that] cur i obtain u t rd where
      u: "map_of ?m (rs_Source step) = Some u" "map_of ?m (rs_Target step) = Some t" "redirectOf u = Some rd" "redir_To rd = rs_Target step"
      by blast
    note at = index_by_Some [OF u(1)] index_by_Some [OF u(2)]
    have "?step step = \<lparr>rsm_Source = info_of idOf spawnerOf u, rsm_Target = info_of idOf spawnerOf t,
        rsm_Message = redir_Message rd\<rparr>"
      using u at buildOptionInfo_known [of idOf u unknown spawnerOf] buildOptionInfo_known [of idOf t unknown spawnerOf]
      by (simp add: build_redirect_step_def)
    with u at show ?thesis
      by (intro bexI [of _ u] bexI [of _ t] exI [of _ rd]) auto
  qed
  have "steps \<noteq> [] \<and> rsm_Target (?step (last steps)) = info_of idOf spawnerOf d" if "desired = Some d"
    and r: "resolves idOf redirectOf ?m current d steps" and "idOf current \<noteq> idOf d"
  proof -
    from r \<open>idOf current \<noteq> idOf d\<close> have ne: "steps \<noteq> []"
      by (auto elim: resolves_NilE)
    from resolves_last [OF r k ne] show ?thesis
      using ne by (simp add: build_redirect_step_def buildOptionInfo_known)
  qed
  with cases have "case desired of None \<Rightarrow> map ?step steps = []
      | Some d \<Rightarrow> map ?step steps \<noteq> [] \<and> rsm_Target (last (map ?step steps)) = info_of idOf spawnerOf d"
    by (auto simp: last_map)
  moreover have "buildOptionInfo i unknown (map_option spawnerOf (map_of ?m i)) = info_of idOf spawnerOf current"
    using cur i buildOptionInfo_known [of idOf current unknown spawnerOf] by simp
  ultimately show ?thesis
    unfolding resolution_shown_def OptionConfigModel.simps list.rel_map
    using steps by (intro conjI list.rel_refl_strong) simp_all
qed

section \<open>The item that is built\<close>

lemmas list_item_defs = NewWorkspaceListItemFromWorkspace_def EnsureWskMatchesWorkspace_def buildImageConfig_def
  buildPodConfig_def WskExists_def Let_def

lemma admitted_ports:
  assumes "Semantic_DeepEqual_sound K" and "admitted K wk" and "map_of (index_by icv_Id (wk_ImageConfigValues wk) []) i = Some v"
  shows "\<forall>p \<in> set (ics_Ports (icv_Spec v)). map_of (index_by kp_Id (kpt_Ports (wk_PodTemplate wk)) []) (ip_Id p) \<noteq> None"
  using admitted_kind_ok [OF assms(1,2)] index_by_Some(1) [OF assms(3)] by (simp add: kind_ok_def ports_ok_def)

lemma list_item_fields:
  assumes "Semantic_DeepEqual_sound K" and "admitted K wk" and "om_UID (wk_Meta wk) \<noteq> []"
    and "ws_Kind (w_Spec ws) = wk_Name wk"
  obtains item where "NewWorkspaceListItemFromWorkspace B cfg ws (Some wk) = Some item"
    and "\<not> wki_Missing (wli_WorkspaceKind item)" and "wli_State item = st_State (w_Status ws)"
    and "wli_Paused item = ws_Paused (w_Spec ws)"
    and "wli_ImageConfig item = option_model icv_Spawner icv_Redirect UnknownImageConfig (index_by icv_Id (wk_ImageConfigValues wk) [])
      (wpo_ImageConfig (w_Options ws)) (oi_RedirectChain (os_ImageConfig (st_PodTemplateOptions (w_Status ws))))"
    and "wli_PodConfig item = option_model pcv_Spawner pcv_Redirect UnknownPodConfig (index_by pcv_Id (wk_PodConfigValues wk) [])
      (wpo_PodConfig (w_Options ws)) (oi_RedirectChain (os_PodConfig (st_PodTemplateOptions (w_Status ws))))"
    and "buildServices ws (index_by kp_Id (kpt_Ports (wk_PodTemplate wk)) [])
      (map_of (index_by icv_Id (wk_ImageConfigValues wk) []) (wpo_ImageConfig (w_Options ws))) = Some (wli_Services item)"
proof -
  let ?p = "index_by kp_Id (kpt_Ports (wk_PodTemplate wk)) []"
  let ?v = "map_of (index_by icv_Id (wk_ImageConfigValues wk) []) (wpo_ImageConfig (w_Options ws))"
  obtain services where "buildServices ws ?p ?v = Some services"
    using buildServices_loop_ok [OF admitted_ports [OF assms(1,2)], of "wpo_ImageConfig (w_Options ws)"]
    by (cases ?v) (auto simp: buildServices_def)
  with assms(3,4) obtain item where item: "NewWorkspaceListItemFromWorkspace B cfg ws (Some wk) = Some item"
    by (simp add: list_item_defs)
  then show thesis
    by (rule that) (use item assms(3,4) in \<open>auto simp: list_item_defs split: option.splits\<close>)
qed

text \<open>The services of a resolved image config are the routes of its VirtualService.\<close>

lemma services_routed:
  assumes "Semantic_DeepEqual_sound K" and "admitted K wk" and "getImageConfig ws wk = Some (Inr (v, desired, steps))"
    and "generateVirtualService K env ws wk svc (icv_Spec v) = Inr vs"
    and "buildServices ws (index_by kp_Id (kpt_Ports (wk_PodTemplate wk)) [])
      (map_of (index_by icv_Id (wk_ImageConfigValues wk) []) (wpo_ImageConfig (w_Options ws))) = Some services"
  shows "map hs_HttpPath (http_services services) = map hr_MatchUriPrefix (vss_Http (vs_Spec vs))"
proof -
  have cur: "map_of (index_by icv_Id (wk_ImageConfigValues wk) []) (wpo_ImageConfig (w_Options ws)) = Some v"
    using assms(3) by (auto simp: getImageConfig_def image_resolver.resolve_iff option_result_def split: if_splits)
  from buildServices_loop_ok [OF admitted_ports [OF assms(1,2) cur], of ws] assms(5) cur
  have "map hs_HttpPath (http_services services) =
      map (\<lambda>p. getWorkspaceConnectPath (w_Namespace ws) (w_Name ws) (ip_Id p))
        (filter (http_port (kind_ports wk)) (ics_Ports (icv_Spec v)))"
    by (auto simp: buildServices_def)
  with assms(4) show ?thesis
    by (auto simp: generateVirtualService_def Let_def split: sum.splits dest!: http_routes_loop_Inr)
qed

section \<open>Properties\<close>

text \<open>
  C32. The list view agrees with the controller. For a kind of the cluster that was admitted and any Workspace of it,
  whatever options it names and whatever its status holds, the list item is built without a panic. It shows the state and
  the options of the Workspace, image and pod alike: the option that is selected, with the text of the kind if the
  kind has it, and every step of the recorded redirect chain, with a message only if the kind still has this very
  redirect. If moreover the controller resolves the option and the chain is the one it recorded, then the current option
  is the one of the controller, each step shows source, target and message of a redirect of the kind, and the chain
  ends at the desired option. The HTTP services it links to are exactly the paths that the generated VirtualService
  routes, in order, and none if the image config is unknown.
  Without the kind the item is built too, marked as missing and without services.
\<close>

theorem list_item_agrees:
  assumes "Semantic_DeepEqual_sound K" and "admitted K wk" and "om_UID (wk_Meta wk) \<noteq> []"
    and "ws_Kind (w_Spec ws) = wk_Name wk"
  shows "(\<exists>item. NewWorkspaceListItemFromWorkspace B cfg ws (Some wk) = Some item \<and>
      \<not> wki_Missing (wli_WorkspaceKind item) \<and>
      wli_State item = st_State (w_Status ws) \<and> wli_Paused item = ws_Paused (w_Spec ws) \<and>
      option_shown icv_Id icv_Spawner icv_Redirect UnknownImageConfig (wk_ImageConfigValues wk) (wpo_ImageConfig (w_Options ws))
        (oi_RedirectChain (os_ImageConfig (st_PodTemplateOptions (w_Status ws)))) (wli_ImageConfig item) \<and>
      option_shown pcv_Id pcv_Spawner pcv_Redirect UnknownPodConfig (wk_PodConfigValues wk) (wpo_PodConfig (w_Options ws))
        (oi_RedirectChain (os_PodConfig (st_PodTemplateOptions (w_Status ws)))) (wli_PodConfig item) \<and>
      (\<forall>v desired steps. getImageConfig ws wk = Some (Inr (v, desired, steps)) \<longrightarrow>
        (oi_RedirectChain (os_ImageConfig (st_PodTemplateOptions (w_Status ws))) = steps \<longrightarrow>
          resolution_shown icv_Id icv_Spawner icv_Redirect (wk_ImageConfigValues wk) v desired steps (wli_ImageConfig item)) \<and>
        (\<forall>vs. generateVirtualService K env ws wk svc (icv_Spec v) = Inr vs \<longrightarrow>
          map hs_HttpPath (http_services (wli_Services item)) = map hr_MatchUriPrefix (vss_Http (vs_Spec vs)))) \<and>
      (\<forall>v desired steps. getPodConfig ws wk = Some (Inr (v, desired, steps)) \<longrightarrow>
        oi_RedirectChain (os_PodConfig (st_PodTemplateOptions (w_Status ws))) = steps \<longrightarrow>
          resolution_shown pcv_Id pcv_Spawner pcv_Redirect (wk_PodConfigValues wk) v desired steps (wli_PodConfig item)) \<and>
      (wpo_ImageConfig (w_Options ws) \<notin> icv_Id ` set (wk_ImageConfigValues wk) \<longrightarrow> wli_Services item = [])) \<and>
    (\<exists>item. NewWorkspaceListItemFromWorkspace B cfg ws None = Some item \<and>
      wki_Missing (wli_WorkspaceKind item) \<and> wli_Services item = [])"
proof -
  obtain item where item: "NewWorkspaceListItemFromWorkspace B cfg ws (Some wk) = Some item"
    "\<not> wki_Missing (wli_WorkspaceKind item)" "wli_State item = st_State (w_Status ws)" "wli_Paused item = ws_Paused (w_Spec ws)"
    "wli_ImageConfig item = option_model icv_Spawner icv_Redirect UnknownImageConfig (index_by icv_Id (wk_ImageConfigValues wk) [])
      (wpo_ImageConfig (w_Options ws)) (oi_RedirectChain (os_ImageConfig (st_PodTemplateOptions (w_Status ws))))"
    "wli_PodConfig item = option_model pcv_Spawner pcv_Redirect UnknownPodConfig (index_by pcv_Id (wk_PodConfigValues wk) [])
      (wpo_PodConfig (w_Options ws)) (oi_RedirectChain (os_PodConfig (st_PodTemplateOptions (w_Status ws))))"
    "buildServices ws (index_by kp_Id (kpt_Ports (wk_PodTemplate wk)) [])
      (map_of (index_by icv_Id (wk_ImageConfigValues wk) []) (wpo_ImageConfig (w_Options ws))) = Some (wli_Services item)"
    by (rule list_item_fields [OF assms])
  have routes: "map hs_HttpPath (http_services (wli_Services item)) = map hr_MatchUriPrefix (vss_Http (vs_Spec vs))"
    if "getImageConfig ws wk = Some (Inr (v, desired, steps))" "generateVirtualService K env ws wk svc (icv_Spec v) = Inr vs"
    for v desired steps vs
    using services_routed [OF assms(1,2) that item(7)] .
  have unknown: "wli_Services item = []" if "wpo_ImageConfig (w_Options ws) \<notin> icv_Id ` set (wk_ImageConfigValues wk)"
    using item(7) that unfolding index_by_None [symmetric] by (simp add: buildServices_def)
  have image: "option_result icv_Id icv_Redirect (wk_ImageConfigValues wk) (wpo_ImageConfig (w_Options ws)) x"
    if "getImageConfig ws wk = Some (Inr x)" for x
    using that by (simp add: getImageConfig_def image_resolver.resolve_iff)
  have pod: "option_result pcv_Id pcv_Redirect (wk_PodConfigValues wk) (wpo_PodConfig (w_Options ws)) x"
    if "getPodConfig ws wk = Some (Inr x)" for x
    using that by (simp add: getPodConfig_def pod_resolver.resolve_iff)
  have absent: "\<exists>item. NewWorkspaceListItemFromWorkspace B cfg ws None = Some item \<and>
      wki_Missing (wli_WorkspaceKind item) \<and> wli_Services item = []"
    by (simp add: list_item_defs buildServices_def)
  show ?thesis
  proof (rule conjI, rule exI [of _ item], intro conjI allI impI item(1-4))
    show "option_shown icv_Id icv_Spawner icv_Redirect UnknownImageConfig (wk_ImageConfigValues wk) (wpo_ImageConfig (w_Options ws))
        (oi_RedirectChain (os_ImageConfig (st_PodTemplateOptions (w_Status ws)))) (wli_ImageConfig item)"
      unfolding item(5) by (rule option_model_shown)
    show "option_shown pcv_Id pcv_Spawner pcv_Redirect UnknownPodConfig (wk_PodConfigValues wk) (wpo_PodConfig (w_Options ws))
        (oi_RedirectChain (os_PodConfig (st_PodTemplateOptions (w_Status ws)))) (wli_PodConfig item)"
      unfolding item(6) by (rule option_model_shown)
    show "resolution_shown icv_Id icv_Spawner icv_Redirect (wk_ImageConfigValues wk) v desired steps (wli_ImageConfig item)"
      if "getImageConfig ws wk = Some (Inr (v, desired, steps))"
        "oi_RedirectChain (os_ImageConfig (st_PodTemplateOptions (w_Status ws))) = steps" for v desired steps
      unfolding item(5) that(2) by (rule option_model_resolution [OF image [OF that(1)]])
    show "resolution_shown pcv_Id pcv_Spawner pcv_Redirect (wk_PodConfigValues wk) v desired steps (wli_PodConfig item)"
      if "getPodConfig ws wk = Some (Inr (v, desired, steps))"
        "oi_RedirectChain (os_PodConfig (st_PodTemplateOptions (w_Status ws))) = steps" for v desired steps
      unfolding item(6) that(2) by (rule option_model_resolution [OF pod [OF that(1)]])
  qed (use routes unknown absent in blast)+
qed

text \<open>A kind of the cluster (it has a UID), and a Workspace whose status holds the redirect of its image.\<close>

definition live_kind :: WorkspaceKind where
  "live_kind = first_kind\<lparr>wk_Meta := ObjectMeta_zero\<lparr>om_Name := ''jupyterlab'', om_UID := ''uid-k''\<rparr>\<rparr>"

lemma live_kind_created: "WorkspaceKind_ValidateCreate lib0 live_kind = Some ([], [])"
  by (code_simp, simp add: DetectGraphCycle_loop.simps, code_simp, simp add: DetectGraphCycle_loop.simps,
    code_simp)

lemma live_kind_admitted: "admitted lib0 live_kind"
  by (rule admitted_create [OF _ live_kind_created]) (simp add: unique_ids_def live_kind_def first_kind_def sample_defs)

definition redirected_workspace :: Workspace where
  "redirected_workspace = sample_workspace\<lparr>w_Status := sample_status\<lparr>st_PodTemplateOptions :=
     \<lparr>os_ImageConfig = \<lparr>oi_Desired = ''img2'', oi_RedirectChain = [\<lparr>rs_Source = ''img1'', rs_Target = ''img2''\<rparr>]\<rparr>,
      os_PodConfig = \<lparr>oi_Desired = [], oi_RedirectChain = []\<rparr>\<rparr>\<rparr>\<rparr>"

definition sample_lib :: backend_lib where
  "sample_lib =
     \<lparr>bl_K8s = lib0, bl_IsDNS1123Subdomain = (\<lambda>_. []), bl_IsConfigMapKey = (\<lambda>_. []), bl_base64_Decode = Inr,
      bl_ParseRFC3339 = ParseInt64, bl_FormatRFC3339 = go_itoa, bl_Aggregate = (\<lambda>_. ''invalid''),
      bl_ParseQuantity = Inr, bl_QuantityString = (\<lambda>q. ptr_Deref q ''0'')\<rparr>"

theorem list_item_agrees_witness:
  "\<exists>item. NewWorkspaceListItemFromWorkspace sample_lib None redirected_workspace (Some live_kind) = Some item \<and>
     resolution_shown icv_Id icv_Spawner icv_Redirect (wk_ImageConfigValues live_kind) (sample_image ''img1'' (Some ''img2''))
       (Some (sample_image ''img2'' None)) [\<lparr>rs_Source = ''img1'', rs_Target = ''img2''\<rparr>] (wli_ImageConfig item) \<and>
     map hs_HttpPath (http_services (wli_Services item)) = [''/workspace/connect/team/notebook/jupyterlab/'']"
proof -
  let ?cfg = "\<lparr>cfg_IstioGateway = ''gw'', cfg_IstioHosts = ''*'', cfg_ClusterDomain = ''cluster.local'',
    cfg_UseIstio = True, cfg_WatchWarningEvents = False, cfg_ClientQPS = [], cfg_ClientBurst = 0\<rparr>"
  let ?svc = "\<lparr>svc_Meta = ObjectMeta_zero, svc_Ports = [], svc_Selector = [], svc_Type = [], svc_SpecRest = []\<rparr>"
  have live: "om_UID (wk_Meta live_kind) \<noteq> []" "ws_Kind (w_Spec redirected_workspace) = wk_Name live_kind"
    by (simp_all add: live_kind_def redirected_workspace_def sample_defs)
  have conf: "getImageConfig redirected_workspace live_kind = Some (Inr (sample_image ''img1'' (Some ''img2''),
      Some (sample_image ''img2'' None), [\<lparr>rs_Source = ''img1'', rs_Target = ''img2''\<rparr>]))"
    by (simp add: getImageConfig_def getOptionConfig_def followRedirects.simps live_kind_def first_kind_def
        redirected_workspace_def sample_defs)
  have chain: "oi_RedirectChain (os_ImageConfig (st_PodTemplateOptions (w_Status redirected_workspace))) =
      [\<lparr>rs_Source = ''img1'', rs_Target = ''img2''\<rparr>]"
    by (simp add: redirected_workspace_def)
  have run: "case generateVirtualService lib0 ?cfg redirected_workspace live_kind ?svc
      (icv_Spec (sample_image ''img1'' (Some ''img2''))) of
      Inl err \<Rightarrow> False
    | Inr vs \<Rightarrow> map hr_MatchUriPrefix (vss_Http (vs_Spec vs)) = [''/workspace/connect/team/notebook/jupyterlab/'']"
    by code_simp
  from run obtain vs where vs: "generateVirtualService lib0 ?cfg redirected_workspace live_kind ?svc
      (icv_Spec (sample_image ''img1'' (Some ''img2''))) = Inr vs"
    and routes: "map hr_MatchUriPrefix (vss_Http (vs_Spec vs)) = [''/workspace/connect/team/notebook/jupyterlab/'']"
    by (rule case_sum_InrE)
  from list_item_agrees [OF lib0_DeepEqual live_kind_admitted live, of sample_lib None ?cfg ?svc] obtain item where
    item: "NewWorkspaceListItemFromWorkspace sample_lib None redirected_workspace (Some live_kind) = Some item"
    and shown: "\<forall>v desired steps. getImageConfig redirected_workspace live_kind = Some (Inr (v, desired, steps)) \<longrightarrow>
      (oi_RedirectChain (os_ImageConfig (st_PodTemplateOptions (w_Status redirected_workspace))) = steps \<longrightarrow>
        resolution_shown icv_Id icv_Spawner icv_Redirect (wk_ImageConfigValues live_kind) v desired steps (wli_ImageConfig item)) \<and>
      (\<forall>vs. generateVirtualService lib0 ?cfg redirected_workspace live_kind ?svc (icv_Spec v) = Inr vs \<longrightarrow>
        map hs_HttpPath (http_services (wli_Services item)) = map hr_MatchUriPrefix (vss_Http (vs_Spec vs)))"
    by blast
  from item shown [rule_format, OF conf] chain vs routes show ?thesis
    by (intro exI [of _ item] conjI) simp_all
qed

end
