(* ===== verification/Backend_Spec.thy ===== *)
theory Backend_Spec
  imports Workspace_Models
begin

text \<open>
  What a computation of the backend writes. \<open>b_spec n P Q m\<close>: whatever the cluster answers, \<open>m\<close> issues at
  most \<open>n\<close> writes, each of which satisfies \<open>P\<close>; and if it succeeds, its value satisfies \<open>Q\<close>.
\<close>

definition b_spec :: "nat \<Rightarrow> (backend_call \<Rightarrow> bool) \<Rightarrow> ('a \<Rightarrow> bool) \<Rightarrow> ('s, 'a) bact \<Rightarrow> bool" where
  "b_spec n P Q m \<longleftrightarrow>
     (\<forall>s r s'. m s = (r, s') \<longrightarrow>
        (\<exists>new. br_calls s' = br_calls s @ new \<and> length new \<le> n \<and> list_all P new) \<and>
        (\<forall>x. r = BOk x \<longrightarrow> Q x))"

named_theorems b_spec_intros

lemma b_specE:
  assumes "b_spec n P Q m" and "m s = (r, s')"
  obtains new where "br_calls s' = br_calls s @ new" and "length new \<le> n" and "list_all P new"
    and "\<And>x. r = BOk x \<Longrightarrow> Q x"
proof -
  have "(\<exists>new. br_calls s' = br_calls s @ new \<and> length new \<le> n \<and> list_all P new) \<and> (\<forall>x. r = BOk x \<longrightarrow> Q x)"
    by (rule assms(1) [unfolded b_spec_def, rule_format, OF assms(2)])
  then show thesis
    using that by auto
qed

lemma b_spec_return [b_spec_intros]: "Q x \<Longrightarrow> b_spec n P Q (b_return x)"
  by (simp add: b_spec_def b_return_def)

lemma b_spec_throw [b_spec_intros]: "b_spec n P Q (b_throw e)"
  by (simp add: b_spec_def b_throw_def)

lemma b_spec_panic [b_spec_intros]: "b_spec n P Q b_panic"
  by (simp add: b_spec_def b_panic_def)

lemma b_spec_pure: "b_pure m \<Longrightarrow> (\<And>s x s'. m s = (BOk x, s') \<Longrightarrow> Q x) \<Longrightarrow> b_spec n P Q m"
  unfolding b_spec_def using b_pureD by fastforce

lemma b_spec_bind:
  assumes "b_spec k P R m" and "\<And>x. R x \<Longrightarrow> b_spec n P Q (f x)"
  shows "b_spec (k + n) P Q (b_bind m f)"
  unfolding b_spec_def
proof (intro allI impI)
  fix s r s'
  assume run: "b_bind m f s = (r, s')"
  obtain r1 s1 where m: "m s = (r1, s1)"
    by fastforce
  from b_specE [OF assms(1) m] obtain new1 where n1: "br_calls s1 = br_calls s @ new1" "length new1 \<le> k" "list_all P new1"
    and R: "\<And>x. r1 = BOk x \<Longrightarrow> R x"
    by metis
  show "(\<exists>new. br_calls s' = br_calls s @ new \<and> length new \<le> k + n \<and> list_all P new) \<and> (\<forall>x. r = BOk x \<longrightarrow> Q x)"
  proof (cases r1)
    case (BOk x)
    with run m have "f x s1 = (r, s')"
      by (simp add: b_bind_def)
    from b_specE [OF assms(2) [OF R [OF BOk]] this] obtain new2 where
      "br_calls s' = br_calls s1 @ new2" "length new2 \<le> n" "list_all P new2" "\<And>x. r = BOk x \<Longrightarrow> Q x"
      by metis
    with n1 show ?thesis
      by (intro conjI exI [of _ "new1 @ new2"]) auto
  next
    case (BErr e)
    with run m n1 show ?thesis
      by (auto simp: b_bind_def intro!: exI [of _ new1])
  next
    case BPanic
    with run m n1 show ?thesis
      by (auto simp: b_bind_def intro!: exI [of _ new1])
  qed
qed

lemma b_spec_if: "(c \<Longrightarrow> b_spec n P Q m) \<Longrightarrow> (\<not> c \<Longrightarrow> b_spec n P Q m') \<Longrightarrow> b_spec n P Q (if c then m else m')"
  by simp

lemma b_spec_option:
  "(x = None \<Longrightarrow> b_spec n P Q m) \<Longrightarrow> (\<And>y. x = Some y \<Longrightarrow> b_spec n P Q (f y)) \<Longrightarrow>
   b_spec n P Q (case x of None \<Rightarrow> m | Some y \<Rightarrow> f y)"
  by (cases x) simp_all

text \<open>A step that only reads, before the rest.\<close>

lemmas b_spec_read_bind = b_spec_bind [where k = 0, simplified]

lemma b_spec_write_bind:
  assumes "b_spec 1 P R m" and "\<And>x. R x \<Longrightarrow> b_spec 0 P Q (f x)"
  shows "b_spec 1 P Q (b_bind m f)"
  using b_spec_bind [OF assms] by simp

lemma b_spec_map_error [b_spec_intros]: "b_spec n P Q m \<Longrightarrow> b_spec n P Q (b_map_error h m)"
  unfolding b_spec_def b_map_error_def by (fastforce split: prod.splits bres.splits)

text \<open>What a read returned, the cluster answered at some time.\<close>

definition answered :: "('s, 'a) brequest \<Rightarrow> 'a \<Rightarrow> bool" where
  "answered f x \<longleftrightarrow> (\<exists>w w'. f w = (Inr x, w'))"

lemma b_spec_read [b_spec_intros]: "b_spec 0 P (answered f) (b_read f)"
  by (auto simp: b_spec_def b_read_def answered_def split: prod.splits sum.splits)

lemma b_spec_try [b_spec_intros]: "b_spec 0 P (\<lambda>r. \<forall>x. r = Inr x \<longrightarrow> answered f x) (b_try f)"
  by (auto simp: b_spec_def b_try_def answered_def split: prod.splits sum.splits)

lemma b_spec_now [b_spec_intros]: "b_spec 0 P (\<lambda>t. True) (b_time_Now C)"
  by (auto simp: b_spec_def b_time_Now_def split: prod.splits)

lemma b_spec_write [b_spec_intros]: "P c \<Longrightarrow> b_spec 1 P (answered f) (b_write c f)"
  by (auto simp: b_spec_def b_write_def answered_def split: prod.splits sum.splits)

lemma b_spec_mono: "b_spec n P R m \<Longrightarrow> (\<And>x. R x \<Longrightarrow> Q x) \<Longrightarrow> n \<le> k \<Longrightarrow> b_spec k P Q m"
  unfolding b_spec_def by fastforce

lemma b_spec_weaken:
  assumes "b_spec n P R m" and "\<And>c. P c \<Longrightarrow> P' c" and "\<And>x. R x \<Longrightarrow> Q x"
  shows "b_spec n P' Q m"
  unfolding b_spec_def
proof (intro allI impI)
  fix s r s'
  assume run: "m s = (r, s')"
  from b_specE [OF assms(1) run] obtain new where "br_calls s' = br_calls s @ new" "length new \<le> n" "list_all P new"
    and "\<And>x. r = BOk x \<Longrightarrow> R x"
    by metis
  with assms(2,3) show "(\<exists>new. br_calls s' = br_calls s @ new \<and> length new \<le> n \<and> list_all P' new) \<and>
      (\<forall>x. r = BOk x \<longrightarrow> Q x)"
    by (auto simp: list_all_iff)
qed

text \<open>The labels the rules of a namespace are evaluated with.\<close>

definition labels_of_namespace :: "'s backend \<Rightarrow> string \<Rightarrow> str_map option \<Rightarrow> bool" where
  "labels_of_namespace C ns labels \<longleftrightarrow>
     (if ns = [] then labels = None
      else \<exists>m. answered (b_GetNamespace C ns) m \<and> labels = Some (maps_Copy [] (om_Labels m)))"

lemma b_spec_ResolveNamespaceLabels [b_spec_intros]:
  "b_spec 0 P (labels_of_namespace C ns) (ResolveNamespaceLabels C ns path)"
proof (cases "ns = []")
  case True
  then show ?thesis
    by (simp add: ResolveNamespaceLabels_def labels_of_namespace_def b_spec_return)
next
  case False
  then show ?thesis
    unfolding ResolveNamespaceLabels_def
    by (auto simp: labels_of_namespace_def split: sum.split intro!: b_spec_read_bind [OF b_spec_try] b_spec_intros)
      blast
qed

lemma b_pure_ResolveNamespaceLabels [b_pure_intros]: "b_pure (ResolveNamespaceLabels C ns path)"
  unfolding ResolveNamespaceLabels_def by (auto split: sum.split intro!: b_pure_intros)

end
