(* ===== verification/Workspace_Repo.thy ===== *)
theory Workspace_Repo
  imports Workspace_List Backend_Spec
begin

text \<open>
  \<open>internal/repositories/workspaces/repo.go\<close>: the repository of Workspaces, which checks the revision and
  the filter rules before it writes; with the errors of \<open>internal/repositories/common/errors.go\<close> and the
  models of \<open>internal/models/workspaces/actions\<close>.
\<close>

section \<open>Reads\<close>

text \<open>\<open>if apierrors.IsNotFound(err) { return nil, s }; return nil, err\<close>.\<close>

definition not_found_as :: "sentinel \<Rightarrow> backend_error \<Rightarrow> backend_error" where
  "not_found_as s err = (if reason_of err = Some ReasonNotFound then SentinelError s else err)"

definition b_option :: "'a option \<Rightarrow> ('s, 'a) bact" where
  "b_option r = (case r of None \<Rightarrow> b_panic | Some x \<Rightarrow> b_return x)"

text \<open>The kind of a Workspace, \<open>None\<close> if it does not exist.\<close>

definition get_kind_if_exists :: "'s backend \<Rightarrow> string \<Rightarrow> ('s, WorkspaceKind option) bact" where
  "get_kind_if_exists C name =
     b_bind (b_try (b_GetWorkspaceKind C name))
       (\<lambda>r. case r of
          Inl err \<Rightarrow> if reason_of err \<noteq> Some ReasonNotFound then b_throw err else b_return None
        | Inr wsk \<Rightarrow> b_return (Some wsk))"

definition GetWorkspace :: "'s backend \<Rightarrow> string \<Rightarrow> string \<Rightarrow> ('s, WorkspaceUpdate) bact" where
  "GetWorkspace C namespace workspaceName =
     b_bind (b_map_error (not_found_as ErrWorkspaceNotFound) (b_read (b_GetWorkspace C namespace workspaceName)))
       (\<lambda>workspace. b_return (NewWorkspaceUpdateModelFromWorkspace workspace))"

definition GetWorkspaceDetails :: "'s backend \<Rightarrow> string \<Rightarrow> string \<Rightarrow> ('s, WorkspaceDetails) bact" where
  "GetWorkspaceDetails C namespace workspaceName =
     b_bind (b_map_error (not_found_as ErrWorkspaceNotFound) (b_read (b_GetWorkspace C namespace workspaceName)))
       (\<lambda>workspace.
     b_bind (get_kind_if_exists C (ws_Kind (w_Spec workspace)))
       (\<lambda>workspaceKind. b_option (NewWorkspaceDetailsFromWorkspace workspace workspaceKind)))"

fun workspace_models_loop ::
  "backend_lib \<Rightarrow> BackendEnvConfig option \<Rightarrow> 's backend \<Rightarrow> Workspace list \<Rightarrow> ('s, WorkspaceListItem list) bact" where
  "workspace_models_loop B cfg C [] = b_return []"
| "workspace_models_loop B cfg C (workspace # workspaces) =
     b_bind (get_kind_if_exists C (ws_Kind (w_Spec workspace))) (\<lambda>workspaceKind.
     b_bind (b_option (NewWorkspaceListItemFromWorkspace B cfg workspace workspaceKind)) (\<lambda>model.
     b_bind (workspace_models_loop B cfg C workspaces) (\<lambda>models. b_return (model # models))))"

text \<open>The list option is the namespace, \<open>None\<close> for all namespaces.\<close>

definition getWorkspaceModels ::
  "backend_lib \<Rightarrow> BackendEnvConfig option \<Rightarrow> 's backend \<Rightarrow> string option \<Rightarrow> ('s, WorkspaceListItem list) bact" where
  "getWorkspaceModels B cfg C listOptions =
     b_bind (b_read (b_ListWorkspaces C listOptions)) (workspace_models_loop B cfg C)"

definition GetWorkspaces ::
  "backend_lib \<Rightarrow> BackendEnvConfig option \<Rightarrow> 's backend \<Rightarrow> string \<Rightarrow> ('s, WorkspaceListItem list) bact" where
  "GetWorkspaces B cfg C namespace = getWorkspaceModels B cfg C (Some namespace)"

definition GetAllWorkspaces ::
  "backend_lib \<Rightarrow> BackendEnvConfig option \<Rightarrow> 's backend \<Rightarrow> ('s, WorkspaceListItem list) bact" where
  "GetAllWorkspaces B cfg C = getWorkspaceModels B cfg C None"

section \<open>Filter rules\<close>

definition enforceWorkspaceKindFilterRules ::
  "k8s_lib \<Rightarrow> WorkspaceKind \<Rightarrow> str_map option \<Rightarrow> wsMutationType \<Rightarrow> backend_error option" where
  "enforceWorkspaceKindFilterRules K workspaceKind namespaceLabels mutation =
     (let result = EvaluateWorkspaceKindFilterScopeRule K workspaceKind namespaceLabels
      in if er_APIHide result
         then Some (WorkspaceKindRestrictedError
                \<lparr>wkr_Kind = wk_Name workspaceKind, wkr_mutation = mutation, wkr_Hidden = True, wkr_DenyMessage = []\<rparr>)
         else if rs_Deny (er_Restrictions result)
         then Some (WorkspaceKindRestrictedError
                \<lparr>wkr_Kind = wk_Name workspaceKind, wkr_mutation = mutation, wkr_Hidden = False,
                 wkr_DenyMessage = ptr_Deref (rs_DenyMessage (er_Restrictions result)) []\<rparr>)
         else None)"

definition findImageConfigValue :: "WorkspaceKind \<Rightarrow> string \<Rightarrow> ImageConfigValue option" where
  "findImageConfigValue wsk i = find (\<lambda>v. icv_Id v = i) (wk_ImageConfigValues wsk)"

definition findPodConfigValue :: "WorkspaceKind \<Rightarrow> string \<Rightarrow> PodConfigValue option" where
  "findPodConfigValue wsk i = find (\<lambda>v. pcv_Id v = i) (wk_PodConfigValues wsk)"

text \<open>The errors of a hidden or denied option: the two functions below share this text.\<close>

definition option_rule_errors :: "string \<Rightarrow> string \<Rightarrow> EvalResult \<Rightarrow> field_error list" where
  "option_rule_errors path what result =
     (if er_APIHide result then [FieldForbidden path (''not allowed: '' @ what @ '' is hidden'')] else []) @
     (if rs_Deny (er_Restrictions result)
      then
        (let msg = ''not allowed: '' @ what @ '' is restricted''
         in [FieldForbidden path
               (case rs_DenyMessage (er_Restrictions result) of
                  None \<Rightarrow> msg
                | Some txt \<Rightarrow> if txt \<noteq> [] then msg @ '': '' @ txt else msg)])
      else [])"

definition enforceImageConfigFilterRule :: "WorkspaceKind \<Rightarrow> EvalContext \<Rightarrow> string \<Rightarrow> field_error list" where
  "enforceImageConfigFilterRule workspaceKind evalCtx imageConfigID =
     (case findImageConfigValue workspaceKind imageConfigID of
       None \<Rightarrow> []
     | Some v \<Rightarrow>
         option_rule_errors ''spec.podTemplate.options.imageConfig''
           (''image config option '' @ go_quote imageConfigID)
           (Evaluate \<lparr>et_Scope = FilterRuleScopeImageConfig, et_Labels = osi_Labels (icv_Spawner v)\<rparr> evalCtx))"

definition enforcePodConfigFilterRule :: "WorkspaceKind \<Rightarrow> EvalContext \<Rightarrow> string \<Rightarrow> field_error list" where
  "enforcePodConfigFilterRule workspaceKind evalCtx podConfigID =
     (case findPodConfigValue workspaceKind podConfigID of
       None \<Rightarrow> []
     | Some v \<Rightarrow>
         option_rule_errors ''spec.podTemplate.options.podConfig''
           (''pod config option '' @ go_quote podConfigID)
           (Evaluate \<lparr>et_Scope = FilterRuleScopePodConfig, et_Labels = osi_Labels (pcv_Spawner v)\<rparr> evalCtx))"

section \<open>Create and update\<close>

text \<open>The end of \<open>CreateWorkspace\<close> and of \<open>UpdateWorkspace\<close>, once the checks have passed.\<close>

definition create_and_store ::
  "'s backend \<Rightarrow> string option \<Rightarrow> WorkspaceCreate \<Rightarrow> string \<Rightarrow> ('s, WorkspaceCreate) bact" where
  "create_and_store C actor workspaceCreate namespace =
     b_bind (NewWorkspaceFromWorkspaceCreateModel C workspaceCreate namespace) (\<lambda>workspace.
     let workspace = workspace\<lparr>w_Meta := UpdateObjectMetaForCreate (w_Meta workspace) actor\<rparr>
     in b_bind (b_map_error
          (\<lambda>err. if reason_of err = Some ReasonAlreadyExists then SentinelError ErrWorkspaceAlreadyExists else err)
          (b_write (BCreateWorkspace workspace) (b_CreateWorkspace C workspace))) (\<lambda>workspace.
        b_return (NewWorkspaceCreateModelFromWorkspace workspace)))"

definition update_and_store ::
  "backend_lib \<Rightarrow> 's backend \<Rightarrow> string option \<Rightarrow> WorkspaceUpdate \<Rightarrow> Workspace \<Rightarrow> go_time
   \<Rightarrow> ('s, WorkspaceUpdate) bact" where
  "update_and_store B C actor workspaceUpdate workspace now =
     b_bind (ApplyWorkspaceUpdateModelToWorkspace C workspaceUpdate workspace) (\<lambda>workspace.
     let workspace = workspace\<lparr>w_Meta := UpdateObjectMetaForUpdate B (w_Meta workspace) actor now\<rparr>
     in b_bind (b_map_error (not_found_as ErrWorkspaceNotFound)
          (b_write (BUpdateWorkspace workspace) (b_UpdateWorkspace C workspace))) (\<lambda>workspace.
        b_return (NewWorkspaceUpdateModelFromWorkspace workspace)))"

definition CreateWorkspace ::
  "backend_lib \<Rightarrow> 's backend \<Rightarrow> string option \<Rightarrow> WorkspaceCreate \<Rightarrow> string \<Rightarrow> ('s, WorkspaceCreate) bact" where
  "CreateWorkspace B C actor workspaceCreate namespace =
     b_bind (b_map_error
         (\<lambda>err. if reason_of err = Some ReasonNotFound
           then InternalValidationError
             [FieldInvalid ''spec.kind'' (wc_Kind workspaceCreate)
               (''workspace kind '' @ go_quote (wc_Kind workspaceCreate) @ '' not found'')]
           else err)
         (b_read (b_GetWorkspaceKind C (wc_Kind workspaceCreate)))) (\<lambda>workspaceKind.
     b_bind (ResolveNamespaceLabels C namespace NamespacePathParam) (\<lambda>namespaceLabels.
     case enforceWorkspaceKindFilterRules (bl_K8s B) workspaceKind namespaceLabels wsMutationTypeCreate of
       Some err \<Rightarrow> b_throw err
     | None \<Rightarrow>
         (let newOptions = ptm_Options (wc_PodTemplate workspaceCreate);
              evalCtx = BuildEvalContextForImageAndPodCfg (bl_K8s B) workspaceKind namespaceLabels
                          (ptom_ImageConfig newOptions) (ptom_PodConfig newOptions);
              filterErrs = enforceImageConfigFilterRule workspaceKind evalCtx (ptom_ImageConfig newOptions) @
                           enforcePodConfigFilterRule workspaceKind evalCtx (ptom_PodConfig newOptions)
          in if 0 < length filterErrs then b_throw (InternalValidationError filterErrs)
             else create_and_store C actor workspaceCreate namespace)))"

definition UpdateWorkspace ::
  "backend_lib \<Rightarrow> 's backend \<Rightarrow> string option \<Rightarrow> WorkspaceUpdate \<Rightarrow> string \<Rightarrow> string
   \<Rightarrow> ('s, WorkspaceUpdate) bact" where
  "UpdateWorkspace B C actor workspaceUpdate namespace workspaceName =
     b_bind (b_time_Now C) (\<lambda>now.
     b_bind (b_map_error (not_found_as ErrWorkspaceNotFound) (b_read (b_GetWorkspace C namespace workspaceName)))
       (\<lambda>workspace.
     let clusterRevision = CalculateRevision (w_Meta workspace);
         callerRevision = wu_Revision workspaceUpdate
     in if clusterRevision \<noteq> callerRevision then b_throw (SentinelError ErrWorkspaceRevisionConflict)
        else
          b_bind (b_read (b_GetWorkspaceKind C (ws_Kind (w_Spec workspace)))) (\<lambda>workspaceKind.
          b_bind (ResolveNamespaceLabels C namespace NamespacePathParam) (\<lambda>namespaceLabels.
          case enforceWorkspaceKindFilterRules (bl_K8s B) workspaceKind namespaceLabels wsMutationTypeUpdate of
            Some err \<Rightarrow> b_throw err
          | None \<Rightarrow>
              (let newOptions = ptm_Options (wu_PodTemplate workspaceUpdate);
                   currentOptions = w_Options workspace;
                   evalCtx = BuildEvalContextForImageAndPodCfg (bl_K8s B) workspaceKind namespaceLabels
                               (ptom_ImageConfig newOptions) (ptom_PodConfig newOptions);
                   filterErrs =
                     (if ptom_ImageConfig newOptions \<noteq> wpo_ImageConfig currentOptions
                      then enforceImageConfigFilterRule workspaceKind evalCtx (ptom_ImageConfig newOptions) else []) @
                     (if ptom_PodConfig newOptions \<noteq> wpo_PodConfig currentOptions
                      then enforcePodConfigFilterRule workspaceKind evalCtx (ptom_PodConfig newOptions) else [])
               in if 0 < length filterErrs then b_throw (InternalValidationError filterErrs)
                  else update_and_store B C actor workspaceUpdate workspace now)))))"

section \<open>Delete and pause\<close>

definition DeleteWorkspace :: "'s backend \<Rightarrow> string \<Rightarrow> string \<Rightarrow> ('s, unit) bact" where
  "DeleteWorkspace C namespace workspaceName =
     b_map_error (not_found_as ErrWorkspaceNotFound)
       (b_write (BDeleteWorkspace namespace workspaceName) (b_DeleteWorkspace C namespace workspaceName))"

record WorkspaceActionPause =
  wap_Paused :: bool

definition NewWorkspaceActionPauseFromWorkspace :: "Workspace \<Rightarrow> WorkspaceActionPause" where
  "NewWorkspaceActionPauseFromWorkspace ws = \<lparr>wap_Paused = ws_Paused (w_Spec ws)\<rparr>"

definition pause_patch :: "bool \<Rightarrow> WorkspacePatchOperation list" where
  "pause_patch targetPauseState =
     [\<lparr>pop_Op = ''test'', pop_Path = ''/spec/paused'', pop_Value = PatchBool (\<not> targetPauseState)\<rparr>] @
     (if \<not> targetPauseState
      then [\<lparr>pop_Op = ''test'', pop_Path = ''/status/state'', pop_Value = PatchString ''Paused''\<rparr>] else []) @
     [\<lparr>pop_Op = ''replace'', pop_Path = ''/spec/paused'', pop_Value = PatchBool targetPauseState\<rparr>]"

definition HandlePauseAction ::
  "'s backend \<Rightarrow> string \<Rightarrow> string \<Rightarrow> WorkspaceActionPause \<Rightarrow> ('s, WorkspaceActionPause) bact" where
  "HandlePauseAction C namespace workspaceName workspaceActionPause =
     (let patch = pause_patch (wap_Paused workspaceActionPause)
      in b_bind (b_map_error
           (\<lambda>err. if reason_of err = Some ReasonNotFound then SentinelError ErrWorkspaceNotFound
             else if reason_of err = Some ReasonInvalid then SentinelError ErrWorkspaceInvalidState
             else WrappedError ''failed to patch workspace: '' err)
           (b_write (BPatchWorkspace namespace workspaceName patch)
             (b_PatchWorkspace C namespace workspaceName patch))) (\<lambda>workspace.
         b_return (NewWorkspaceActionPauseFromWorkspace workspace)))"

section \<open>What the filter rules allow\<close>

definition allowed :: "EvalResult \<Rightarrow> bool" where
  "allowed result \<longleftrightarrow> \<not> er_APIHide result \<and> \<not> rs_Deny (er_Restrictions result)"

definition kind_allowed :: "k8s_lib \<Rightarrow> WorkspaceKind \<Rightarrow> str_map option \<Rightarrow> bool" where
  "kind_allowed K wk labels \<longleftrightarrow> allowed (EvaluateWorkspaceKindFilterScopeRule K wk labels)"

definition image_allowed :: "k8s_lib \<Rightarrow> WorkspaceKind \<Rightarrow> str_map option \<Rightarrow> PodTemplateOptionsMutate \<Rightarrow> bool" where
  "image_allowed K wk labels opts \<longleftrightarrow>
     (\<forall>v. findImageConfigValue wk (ptom_ImageConfig opts) = Some v \<longrightarrow>
        allowed (Evaluate \<lparr>et_Scope = FilterRuleScopeImageConfig, et_Labels = osi_Labels (icv_Spawner v)\<rparr>
          (BuildEvalContextForImageAndPodCfg K wk labels (ptom_ImageConfig opts) (ptom_PodConfig opts))))"

definition pod_allowed :: "k8s_lib \<Rightarrow> WorkspaceKind \<Rightarrow> str_map option \<Rightarrow> PodTemplateOptionsMutate \<Rightarrow> bool" where
  "pod_allowed K wk labels opts \<longleftrightarrow>
     (\<forall>v. findPodConfigValue wk (ptom_PodConfig opts) = Some v \<longrightarrow>
        allowed (Evaluate \<lparr>et_Scope = FilterRuleScopePodConfig, et_Labels = osi_Labels (pcv_Spawner v)\<rparr>
          (BuildEvalContextForImageAndPodCfg K wk labels (ptom_ImageConfig opts) (ptom_PodConfig opts))))"

lemma option_rule_errors_Nil [simp]: "option_rule_errors path what result = [] \<longleftrightarrow> allowed result"
  by (auto simp: option_rule_errors_def allowed_def Let_def)

lemma enforceWorkspaceKindFilterRules_None:
  "enforceWorkspaceKindFilterRules K wk labels mutation = None \<longleftrightarrow> kind_allowed K wk labels"
  by (auto simp: enforceWorkspaceKindFilterRules_def kind_allowed_def allowed_def Let_def)

lemma enforceImageConfigFilterRule_Nil:
  "enforceImageConfigFilterRule wk (BuildEvalContextForImageAndPodCfg K wk labels (ptom_ImageConfig opts) (ptom_PodConfig opts))
     (ptom_ImageConfig opts) = [] \<longleftrightarrow> image_allowed K wk labels opts"
  by (auto simp: enforceImageConfigFilterRule_def image_allowed_def split: option.split)

lemma enforcePodConfigFilterRule_Nil:
  "enforcePodConfigFilterRule wk (BuildEvalContextForImageAndPodCfg K wk labels (ptom_ImageConfig opts) (ptom_PodConfig opts))
     (ptom_PodConfig opts) = [] \<longleftrightarrow> pod_allowed K wk labels opts"
  by (auto simp: enforcePodConfigFilterRule_def pod_allowed_def split: option.split)

lemmas enforce_Nil =
  enforceWorkspaceKindFilterRules_None enforceImageConfigFilterRule_Nil enforcePodConfigFilterRule_Nil

lemma update_errs_Nil:
  assumes "\<not> 0 < length
    ((if ptom_ImageConfig opts \<noteq> i
      then enforceImageConfigFilterRule wk
        (BuildEvalContextForImageAndPodCfg K wk labels (ptom_ImageConfig opts) (ptom_PodConfig opts)) (ptom_ImageConfig opts)
      else []) @
     (if ptom_PodConfig opts \<noteq> p
      then enforcePodConfigFilterRule wk
        (BuildEvalContextForImageAndPodCfg K wk labels (ptom_ImageConfig opts) (ptom_PodConfig opts)) (ptom_PodConfig opts)
      else []))"
  shows "ptom_ImageConfig opts \<noteq> i \<longrightarrow> image_allowed K wk labels opts"
    and "ptom_PodConfig opts \<noteq> p \<longrightarrow> pod_allowed K wk labels opts"
  using assms by (auto simp: enforce_Nil split: if_splits)

section \<open>What create and update write\<close>

definition creates ::
  "backend_lib \<Rightarrow> 's backend \<Rightarrow> string option \<Rightarrow> WorkspaceCreate \<Rightarrow> string \<Rightarrow> Workspace \<Rightarrow> bool" where
  "creates B C actor create ns written \<longleftrightarrow>
     (\<exists>wk labels.
        answered (b_GetWorkspaceKind C (wc_Kind create)) wk \<and> labels_of_namespace C ns labels \<and>
        kind_allowed (bl_K8s B) wk labels \<and>
        image_allowed (bl_K8s B) wk labels (ptm_Options (wc_PodTemplate create)) \<and>
        pod_allowed (bl_K8s B) wk labels (ptm_Options (wc_PodTemplate create))) \<and>
     w_Name written = wc_Name create \<and> w_Namespace written = ns \<and>
     ws_Kind (w_Spec written) = wc_Kind create \<and>
     w_Options written = \<lparr>wpo_ImageConfig = ptom_ImageConfig (ptm_Options (wc_PodTemplate create)),
       wpo_PodConfig = ptom_PodConfig (ptm_Options (wc_PodTemplate create))\<rparr> \<and>
     map_of (om_Annotations (w_Meta written)) AnnotationCreatedBy = actor \<and>
     map_of (om_Annotations (w_Meta written)) AnnotationUpdatedBy = actor"

definition updates ::
  "backend_lib \<Rightarrow> 's backend \<Rightarrow> string option \<Rightarrow> WorkspaceUpdate \<Rightarrow> string \<Rightarrow> string \<Rightarrow> Workspace \<Rightarrow> bool" where
  "updates B C actor update ns name written \<longleftrightarrow>
     (\<exists>ws wk labels now.
        answered (b_GetWorkspace C ns name) ws \<and> CalculateRevision (w_Meta ws) = wu_Revision update \<and>
        answered (b_GetWorkspaceKind C (ws_Kind (w_Spec ws))) wk \<and> labels_of_namespace C ns labels \<and>
        kind_allowed (bl_K8s B) wk labels \<and>
        (ptom_ImageConfig (ptm_Options (wu_PodTemplate update)) \<noteq> wpo_ImageConfig (w_Options ws) \<longrightarrow>
           image_allowed (bl_K8s B) wk labels (ptm_Options (wu_PodTemplate update))) \<and>
        (ptom_PodConfig (ptm_Options (wu_PodTemplate update)) \<noteq> wpo_PodConfig (w_Options ws) \<longrightarrow>
           pod_allowed (bl_K8s B) wk labels (ptm_Options (wu_PodTemplate update))) \<and>
        w_Meta written = UpdateObjectMetaForUpdate B (w_Meta ws) actor now \<and> w_Status written = w_Status ws \<and>
        ws_Kind (w_Spec written) = ws_Kind (w_Spec ws) \<and> ws_Paused (w_Spec written) = wu_Paused update) \<and>
     w_Options written = \<lparr>wpo_ImageConfig = ptom_ImageConfig (ptm_Options (wu_PodTemplate update)),
       wpo_PodConfig = ptom_PodConfig (ptm_Options (wu_PodTemplate update))\<rparr>"

text \<open>A write of an object that satisfies \<open>G\<close>, and a result that is the model of what it stored.\<close>

definition writes_as :: "('o \<Rightarrow> backend_call) \<Rightarrow> ('o \<Rightarrow> bool) \<Rightarrow> backend_call \<Rightarrow> bool" where
  "writes_as call G c \<longleftrightarrow> (\<exists>w. c = call w \<and> G w)"

definition stored_as ::
  "('o \<Rightarrow> bool) \<Rightarrow> ('o \<Rightarrow> ('s, 'o) brequest) \<Rightarrow> ('o \<Rightarrow> 'm) \<Rightarrow> 'm \<Rightarrow> bool" where
  "stored_as G f model m \<longleftrightarrow> (\<exists>w stored. G w \<and> answered (f w) stored \<and> m = model stored)"

lemma writes_asI: "G w \<Longrightarrow> writes_as call G (call w)"
  by (auto simp: writes_as_def)

lemma stored_asI: "answered (f w) stored \<Longrightarrow> G w \<Longrightarrow> stored_as G f model (model stored)"
  by (auto simp: stored_as_def)

lemma b_pure_NewWorkspace [b_pure_intros]: "b_pure (NewWorkspaceFromWorkspaceCreateModel C create ns)"
  unfolding NewWorkspaceFromWorkspaceCreateModel_def by (auto split: prod.split intro!: b_pure_intros)

lemma b_pure_ApplyUpdate [b_pure_intros]: "b_pure (ApplyWorkspaceUpdateModelToWorkspace C update ws)"
  unfolding ApplyWorkspaceUpdateModelToWorkspace_def by (auto split: prod.split intro!: b_pure_intros)

lemma b_spec_NewWorkspace:
  "b_spec 0 P (\<lambda>w. w_Meta w = ObjectMeta_zero\<lparr>om_Name := wc_Name create, om_Namespace := ns\<rparr> \<and>
     ws_Kind (w_Spec w) = wc_Kind create \<and>
     w_Options w = \<lparr>wpo_ImageConfig = ptom_ImageConfig (ptm_Options (wc_PodTemplate create)),
       wpo_PodConfig = ptom_PodConfig (ptm_Options (wc_PodTemplate create))\<rparr>)
     (NewWorkspaceFromWorkspaceCreateModel C create ns)"
  by (rule b_spec_pure [OF b_pure_NewWorkspace])
    (auto simp: NewWorkspaceFromWorkspaceCreateModel_def b_return_def buildWorkspacePodTemplate_def elim!: b_bind_ok)

lemma b_spec_ApplyUpdate:
  "b_spec 0 P (\<lambda>w. w_Meta w = w_Meta ws \<and> w_Status w = w_Status ws \<and> ws_Kind (w_Spec w) = ws_Kind (w_Spec ws) \<and>
     ws_Paused (w_Spec w) = wu_Paused update \<and>
     w_Options w = \<lparr>wpo_ImageConfig = ptom_ImageConfig (ptm_Options (wu_PodTemplate update)),
       wpo_PodConfig = ptom_PodConfig (ptm_Options (wu_PodTemplate update))\<rparr>)
     (ApplyWorkspaceUpdateModelToWorkspace C update ws)"
  by (rule b_spec_pure [OF b_pure_ApplyUpdate])
    (auto simp: ApplyWorkspaceUpdateModelToWorkspace_def b_return_def buildWorkspacePodTemplate_def elim!: b_bind_ok)

lemma created_annotations:
  "map_of (om_Annotations (UpdateObjectMetaForCreate m actor)) AnnotationCreatedBy = actor"
  "map_of (om_Annotations (UpdateObjectMetaForCreate m actor)) AnnotationUpdatedBy = actor"
  by (cases actor; simp add: UpdateObjectMetaForCreate_def update_conv delete_conv AnnotationCreatedBy_def
      AnnotationUpdatedBy_def AnnotationUpdatedAt_def)+

lemma created_name [simp]:
  "om_Name (UpdateObjectMetaForCreate m actor) = om_Name m"
  "om_Namespace (UpdateObjectMetaForCreate m actor) = om_Namespace m"
  by (simp_all add: UpdateObjectMetaForCreate_def)

lemma b_spec_create_and_store:
  assumes "\<And>w. w_Meta w = UpdateObjectMetaForCreate (ObjectMeta_zero\<lparr>om_Name := wc_Name create, om_Namespace := ns\<rparr>) actor \<Longrightarrow>
      ws_Kind (w_Spec w) = wc_Kind create \<Longrightarrow>
      w_Options w = \<lparr>wpo_ImageConfig = ptom_ImageConfig (ptm_Options (wc_PodTemplate create)),
        wpo_PodConfig = ptom_PodConfig (ptm_Options (wc_PodTemplate create))\<rparr> \<Longrightarrow> G w"
  shows "b_spec 1 (writes_as BCreateWorkspace G) (stored_as G (b_CreateWorkspace C) NewWorkspaceCreateModelFromWorkspace)
    (create_and_store C actor create ns)"
  unfolding create_and_store_def Let_def
  by (rule b_spec_read_bind [OF b_spec_NewWorkspace],
      rule b_spec_write_bind [OF b_spec_map_error [OF b_spec_write]],
      rule writes_asI, rule assms, simp_all, rule b_spec_return, erule stored_asI, rule assms, simp_all)

lemma b_spec_update_and_store:
  assumes "\<And>w. w_Meta w = UpdateObjectMetaForUpdate B (w_Meta ws) actor now \<Longrightarrow> w_Status w = w_Status ws \<Longrightarrow>
      ws_Kind (w_Spec w) = ws_Kind (w_Spec ws) \<Longrightarrow> ws_Paused (w_Spec w) = wu_Paused update \<Longrightarrow>
      w_Options w = \<lparr>wpo_ImageConfig = ptom_ImageConfig (ptm_Options (wu_PodTemplate update)),
        wpo_PodConfig = ptom_PodConfig (ptm_Options (wu_PodTemplate update))\<rparr> \<Longrightarrow> G w"
  shows "b_spec 1 (writes_as BUpdateWorkspace G) (stored_as G (b_UpdateWorkspace C) NewWorkspaceUpdateModelFromWorkspace)
    (update_and_store B C actor update ws now)"
  unfolding update_and_store_def Let_def
  by (rule b_spec_read_bind [OF b_spec_ApplyUpdate],
      rule b_spec_write_bind [OF b_spec_map_error [OF b_spec_write]],
      rule writes_asI, rule assms, simp_all, rule b_spec_return, erule stored_asI, rule assms, simp_all)

lemma b_spec_CreateWorkspace:
  "b_spec 1 (writes_as BCreateWorkspace (creates B C actor create ns))
     (stored_as (creates B C actor create ns) (b_CreateWorkspace C) NewWorkspaceCreateModelFromWorkspace)
     (CreateWorkspace B C actor create ns)"
  unfolding CreateWorkspace_def Let_def
proof (rule b_spec_read_bind [OF b_spec_map_error [OF b_spec_read]],
    rule b_spec_read_bind [OF b_spec_ResolveNamespaceLabels], goal_cases)
  case (1 wk labels)
  have store: "b_spec 1 (writes_as BCreateWorkspace (creates B C actor create ns))
     (stored_as (creates B C actor create ns) (b_CreateWorkspace C) NewWorkspaceCreateModelFromWorkspace)
     (create_and_store C actor create ns)"
    if "kind_allowed (bl_K8s B) wk labels" "image_allowed (bl_K8s B) wk labels (ptm_Options (wc_PodTemplate create))"
      "pod_allowed (bl_K8s B) wk labels (ptm_Options (wc_PodTemplate create))"
    using 1 that by (intro b_spec_create_and_store) (auto simp: creates_def created_annotations)
  show ?case
    by (auto simp: enforce_Nil simp del: One_nat_def split: option.split intro!: b_spec_throw intro: store)
qed

lemma b_spec_UpdateWorkspace:
  "b_spec 1 (writes_as BUpdateWorkspace (updates B C actor update ns name))
     (stored_as (updates B C actor update ns name) (b_UpdateWorkspace C) NewWorkspaceUpdateModelFromWorkspace)
     (UpdateWorkspace B C actor update ns name)"
  unfolding UpdateWorkspace_def Let_def
proof (rule b_spec_read_bind [OF b_spec_now], rule b_spec_read_bind [OF b_spec_map_error [OF b_spec_read]],
    goal_cases)
  case (1 now ws)
  have store: "b_spec 1 (writes_as BUpdateWorkspace (updates B C actor update ns name))
     (stored_as (updates B C actor update ns name) (b_UpdateWorkspace C) NewWorkspaceUpdateModelFromWorkspace)
     (update_and_store B C actor update ws now)"
    if "CalculateRevision (w_Meta ws) = wu_Revision update" "answered (b_GetWorkspaceKind C (ws_Kind (w_Spec ws))) wk"
      "labels_of_namespace C ns labels" "kind_allowed (bl_K8s B) wk labels"
      "ptom_ImageConfig (ptm_Options (wu_PodTemplate update)) \<noteq> wpo_ImageConfig (w_Options ws) \<longrightarrow>
         image_allowed (bl_K8s B) wk labels (ptm_Options (wu_PodTemplate update))"
      "ptom_PodConfig (ptm_Options (wu_PodTemplate update)) \<noteq> wpo_PodConfig (w_Options ws) \<longrightarrow>
         pod_allowed (bl_K8s B) wk labels (ptm_Options (wu_PodTemplate update))" for wk labels
    using 1 that unfolding updates_def by (intro b_spec_update_and_store) blast
  show ?case
    by (rule b_spec_if, rule b_spec_throw, rule b_spec_read_bind [OF b_spec_read],
        rule b_spec_read_bind [OF b_spec_ResolveNamespaceLabels], rule b_spec_option, rule b_spec_if,
        rule b_spec_throw, rule store, simp, assumption, assumption, simp add: enforce_Nil,
        erule update_errs_Nil, erule update_errs_Nil, rule b_spec_throw)
qed

section \<open>What the lists offer\<close>

lemma find_Some_in: "find P vs = Some u \<Longrightarrow> u \<in> set vs \<and> P u"
  by (induction vs) (auto split: if_splits)

lemma find_unique:
  assumes "v \<in> set vs" and "P v" and "\<And>u. u \<in> set vs \<Longrightarrow> P u \<Longrightarrow> u = v"
  shows "find P vs = Some v"
proof (cases "find P vs")
  case None
  with assms(1,2) show ?thesis
    by (simp add: find_None_iff)
next
  case (Some u)
  with find_Some_in [OF Some] assms(3) show ?thesis
    by simp
qed

text \<open>
  Both kinds of options are listed and enforced by the same rules. The contract of a list and its
  enforcement: an option passes exactly if its rules allow it, and the list shows, of the options that
  the request asks for, those that no rule hides, each with its restriction.
\<close>

locale filtered_options =
  fixes scope :: FilterRuleScope
    and valuesOf :: "WorkspaceKind \<Rightarrow> 'v list"
    and idOf :: "'v \<Rightarrow> string"
    and labelsOf :: "'v \<Rightarrow> OptionSpawnerLabel list"
    and requested :: "ListValuesRequest \<Rightarrow> string"
    and enforce :: "WorkspaceKind \<Rightarrow> EvalContext \<Rightarrow> string \<Rightarrow> field_error list"
    and listed :: "WorkspaceKind \<Rightarrow> ListValuesRequest \<Rightarrow> (string, int) go_map \<Rightarrow> EvalContext \<Rightarrow> 'm list \<times> field_error list"
    and modelId :: "'m \<Rightarrow> string"
    and denied :: "'m \<Rightarrow> bool"
  assumes enforce_law: "enforce wk ctx i = [] \<longleftrightarrow>
      (\<forall>v. find (\<lambda>v. idOf v = i) (valuesOf wk) = Some v \<longrightarrow>
         allowed (Evaluate \<lparr>et_Scope = scope, et_Labels = labelsOf v\<rparr> ctx))"
    and list_law: "(\<lambda>m. (modelId m, denied m)) ` set (fst (listed wk req metrics ctx)) =
      (\<lambda>v. (idOf v, rs_Deny (er_Restrictions (Evaluate \<lparr>et_Scope = scope, et_Labels = labelsOf v\<rparr> ctx)))) `
        {v \<in> set (valuesOf wk). (requested req = [] \<or> idOf v = requested req) \<and>
           \<not> er_APIHide (Evaluate \<lparr>et_Scope = scope, et_Labels = labelsOf v\<rparr> ctx)}"
    and errors_law: "snd (listed wk req metrics ctx) = [] \<longleftrightarrow>
      requested req = [] \<or> requested req \<in> idOf ` set (valuesOf wk)"
begin

lemma listed_iff:
  "(\<exists>m \<in> set (fst (listed wk req metrics ctx)). modelId m = i \<and> \<not> denied m) \<longleftrightarrow>
     (\<exists>v \<in> set (valuesOf wk). (requested req = [] \<or> idOf v = requested req) \<and> idOf v = i \<and>
        allowed (Evaluate \<lparr>et_Scope = scope, et_Labels = labelsOf v\<rparr> ctx))"
proof -
  have "(\<exists>m \<in> set (fst (listed wk req metrics ctx)). modelId m = i \<and> \<not> denied m) \<longleftrightarrow>
      (i, False) \<in> (\<lambda>m. (modelId m, denied m)) ` set (fst (listed wk req metrics ctx))"
    unfolding image_iff by (rule bex_cong [OF refl]) auto
  also have "\<dots> \<longleftrightarrow> (\<exists>v \<in> {v \<in> set (valuesOf wk). (requested req = [] \<or> idOf v = requested req) \<and>
      \<not> er_APIHide (Evaluate \<lparr>et_Scope = scope, et_Labels = labelsOf v\<rparr> ctx)}.
      idOf v = i \<and> \<not> rs_Deny (er_Restrictions (Evaluate \<lparr>et_Scope = scope, et_Labels = labelsOf v\<rparr> ctx)))"
    unfolding list_law unfolding image_iff by (rule bex_cong [OF refl]) auto
  finally show ?thesis
    unfolding allowed_def by blast
qed

lemma enforced_iff_listed:
  assumes "distinct (map idOf (valuesOf wk))" and "requested req = i" and "i \<noteq> []"
    and "snd (listed wk req metrics ctx) = []"
  shows "enforce wk ctx i = [] \<longleftrightarrow> (\<exists>m \<in> set (fst (listed wk req metrics ctx)). modelId m = i \<and> \<not> denied m)"
proof -
  from assms(4) have "requested req = [] \<or> requested req \<in> idOf ` set (valuesOf wk)"
    by (rule iffD1 [OF errors_law])
  with assms(2,3) have "i \<in> idOf ` set (valuesOf wk)"
    by simp
  then obtain v where v: "v \<in> set (valuesOf wk)" "idOf v = i"
    by (elim imageE) simp
  have unique: "u = v" if "u \<in> set (valuesOf wk)" "idOf u = i" for u
    using assms(1) v that by (auto simp: distinct_map dest: inj_onD)
  have "find (\<lambda>v. idOf v = i) (valuesOf wk) = Some v"
    using v by (rule find_unique) (rule unique)
  then show ?thesis
    unfolding enforce_law listed_iff using v assms(2) by (auto dest: unique)
qed

end

interpretation image_options: filtered_options FilterRuleScopeImageConfig wk_ImageConfigValues icv_Id
  "\<lambda>v. osi_Labels (icv_Spawner v)" "\<lambda>req. ptr_Deref (lvc_ImageConfig (lvr_Context req)) []"
  enforceImageConfigFilterRule buildImageConfigValues lo_Id "\<lambda>m. rs_Deny (lo_Restrictions m)"
proof
  show "enforceImageConfigFilterRule wk ctx i = [] \<longleftrightarrow>
      (\<forall>v. find (\<lambda>v. icv_Id v = i) (wk_ImageConfigValues wk) = Some v \<longrightarrow>
         allowed (Evaluate \<lparr>et_Scope = FilterRuleScopeImageConfig, et_Labels = osi_Labels (icv_Spawner v)\<rparr> ctx))"
    for wk ctx i
    by (auto simp: enforceImageConfigFilterRule_def findImageConfigValue_def split: option.split)
qed (auto simp: buildImageConfigValues_def build_values_loop_result image_image Let_def split: if_splits)

interpretation pod_options: filtered_options FilterRuleScopePodConfig wk_PodConfigValues pcv_Id
  "\<lambda>v. osi_Labels (pcv_Spawner v)" "\<lambda>req. ptr_Deref (lvc_PodConfig (lvr_Context req)) []"
  enforcePodConfigFilterRule buildPodConfigValues lo_Id "\<lambda>m. rs_Deny (lo_Restrictions m)"
proof
  show "enforcePodConfigFilterRule wk ctx i = [] \<longleftrightarrow>
      (\<forall>v. find (\<lambda>v. pcv_Id v = i) (wk_PodConfigValues wk) = Some v \<longrightarrow>
         allowed (Evaluate \<lparr>et_Scope = FilterRuleScopePodConfig, et_Labels = osi_Labels (pcv_Spawner v)\<rparr> ctx))"
    for wk ctx i
    by (auto simp: enforcePodConfigFilterRule_def findPodConfigValue_def split: option.split)
qed (auto simp: buildPodConfigValues_def build_values_loop_result image_image Let_def split: if_splits)

section \<open>JSON Patch\<close>

text \<open>The operations of RFC 6902 that a pause request uses, on the two paths that it names.\<close>

primrec WorkspaceState_text :: "WorkspaceState \<Rightarrow> string" where
  "WorkspaceState_text WorkspaceStateUnset = []"
| "WorkspaceState_text WorkspaceStateRunning = ''Running''"
| "WorkspaceState_text WorkspaceStateTerminating = ''Terminating''"
| "WorkspaceState_text WorkspaceStatePaused = ''Paused''"
| "WorkspaceState_text WorkspaceStatePending = ''Pending''"
| "WorkspaceState_text WorkspaceStateError = ''Error''"
| "WorkspaceState_text WorkspaceStateUnknown = ''Unknown''"

definition json_patch_op :: "WorkspacePatchOperation \<Rightarrow> Workspace \<Rightarrow> Workspace option" where
  "json_patch_op p ws =
     (if pop_Op p = ''test'' \<and> pop_Path p = ''/spec/paused''
      then if pop_Value p = PatchBool (ws_Paused (w_Spec ws)) then Some ws else None
      else if pop_Op p = ''test'' \<and> pop_Path p = ''/status/state''
      then if pop_Value p = PatchString (WorkspaceState_text (st_State (w_Status ws))) then Some ws else None
      else if pop_Op p = ''replace'' \<and> pop_Path p = ''/spec/paused''
      then (case pop_Value p of
              PatchBool b \<Rightarrow> Some (ws\<lparr>w_Spec := (w_Spec ws)\<lparr>ws_Paused := b\<rparr>\<rparr>)
            | PatchString s \<Rightarrow> None)
      else None)"

fun json_patch :: "WorkspacePatchOperation list \<Rightarrow> Workspace \<Rightarrow> Workspace option" where
  "json_patch [] ws = Some ws"
| "json_patch (p # ps) ws = (case json_patch_op p ws of None \<Rightarrow> None | Some ws' \<Rightarrow> json_patch ps ws')"

lemma WorkspaceState_text_Paused [simp]:
  "''Paused'' = WorkspaceState_text st \<longleftrightarrow> st = WorkspaceStatePaused"
  by (cases st) simp_all

lemma json_patch_pause:
  "json_patch (pause_patch target) ws =
     (if target \<noteq> ws_Paused (w_Spec ws) \<and> (target \<or> st_State (w_Status ws) = WorkspaceStatePaused)
      then Some (ws\<lparr>w_Spec := (w_Spec ws)\<lparr>ws_Paused := target\<rparr>\<rparr>) else None)"
  by (cases target) (auto simp: pause_patch_def json_patch_op_def)

section \<open>A sample cluster\<close>

lemma sample_backend_answers:
  "b_GetWorkspace (sample_backend ws wsk labels) ns n u = (Inr ws, ())"
  "b_GetWorkspaceKind (sample_backend ws wsk labels) k u = (Inr wsk, ())"
  "b_GetNamespace (sample_backend ws wsk labels) ns u = (Inr (ObjectMeta_zero\<lparr>om_Labels := labels\<rparr>), ())"
  "b_CreateWorkspace (sample_backend ws wsk labels) w u = (Inr w, ())"
  "b_UpdateWorkspace (sample_backend ws wsk labels) w u = (Inr w, ())"
  "b_Now (sample_backend ws wsk labels) u = (0, ())"
  "sample_brun\<lparr>br_world := u\<rparr> = sample_brun"
  by (simp_all add: sample_backend_def sample_brun_def)

lemma sample_options:
  "ptom_ImageConfig (ptm_Options sample_template) = ''img1''" "ptom_PodConfig (ptm_Options sample_template) = ''tiny''"
  "wpo_ImageConfig (w_Options sample_workspace) = ''img1''" "wpo_PodConfig (w_Options sample_workspace) = ''tiny''"
  by (simp_all add: sample_template_def sample_workspace_def)

lemma sample_kind_compiled: "compileRules K (filterRulesByScope (wks_FilterRules (wk_Spec sample_kind)) scopes) = []"
  by (simp add: sample_kind_def filterRulesByScope_def)

lemma sample_kind_unrestricted:
  "enforceWorkspaceKindFilterRules K sample_kind labels mutation = None"
  "enforceImageConfigFilterRule sample_kind (BuildEvalContextForImageAndPodCfg K sample_kind labels i p) i = []"
  "enforcePodConfigFilterRule sample_kind (BuildEvalContextForImageAndPodCfg K sample_kind labels i p) p = []"
  by (auto simp: enforceWorkspaceKindFilterRules_def EvaluateWorkspaceKindFilterScopeRule_def Evaluate_def
      enforceImageConfigFilterRule_def enforcePodConfigFilterRule_def BuildEvalContextForImageAndPodCfg_def
      buildEvalContext_def sample_kind_compiled EvalResult_default_def DefaultRestrictions_def option_rule_errors_def
      split: option.split)

lemmas sample_run_defs =
  b_bind_def b_return_def b_throw_def b_read_def b_try_def b_write_def b_map_error_def b_time_Now_def
  ResolveNamespaceLabels_def create_and_store_def update_and_store_def NewWorkspaceFromWorkspaceCreateModel_def
  ApplyWorkspaceUpdateModelToWorkspace_def sample_backend_answers sample_kind_unrestricted sample_options
  sample_validateAndUnpackVolumes Let_def

text \<open>
  The comments on \<open>enforceImageConfigFilterRule\<close> leave it to \<open>NewWorkspaceFromWorkspaceCreateModel\<close> to check that an
  option exists. It does not: a Workspace with an unknown option is sent to the API server, where the
  webhook of the controller rejects it.
\<close>

definition unknown_option_create :: WorkspaceCreate where
  "unknown_option_create = sample_create\<lparr>wc_PodTemplate := sample_template\<lparr>ptm_Options :=
     \<lparr>ptom_ImageConfig = ''no-such-image'', ptom_PodConfig = ''tiny''\<rparr>\<rparr>\<rparr>"

lemma CreateWorkspace_unknown_option:
  "findImageConfigValue sample_kind ''no-such-image'' = None"
  "\<exists>m. fst (CreateWorkspace sample_lib (sample_backend sample_workspace sample_kind []) (Some ''ann'')
     unknown_option_create ''team'' sample_brun) = BOk m"
proof -
  show "findImageConfigValue sample_kind ''no-such-image'' = None"
    by (simp add: findImageConfigValue_def sample_defs)
  have c: "wc_PodTemplate unknown_option_create =
      sample_template\<lparr>ptm_Options := \<lparr>ptom_ImageConfig = ''no-such-image'', ptom_PodConfig = ''tiny''\<rparr>\<rparr>"
    by (simp add: unknown_option_create_def)
  show "\<exists>m. fst (CreateWorkspace sample_lib (sample_backend sample_workspace sample_kind []) (Some ''ann'')
     unknown_option_create ''team'' sample_brun) = BOk m"
    by (simp add: CreateWorkspace_def c sample_run_defs)
qed

section \<open>Properties\<close>

text \<open>
  C11. An update of a Workspace, whatever the cluster answers: at most one write is issued, and it is
  the update of the Workspace that was read, at the revision the caller named, after the rules of its
  kind allowed the namespace and every option that changes; the metadata gets the audit annotations,
  and the status and the kind stay. A request that succeeds returns the model of what was stored.
\<close>

theorem UpdateWorkspace_guarded:
  assumes "UpdateWorkspace B C actor update ns name s = (r, s')"
  shows "(\<exists>new. br_calls s' = br_calls s @ new \<and> length new \<le> 1 \<and>
      list_all (writes_as BUpdateWorkspace (updates B C actor update ns name)) new) \<and>
    (\<forall>m. r = BOk m \<longrightarrow>
      stored_as (updates B C actor update ns name) (b_UpdateWorkspace C) NewWorkspaceUpdateModelFromWorkspace m)"
  using b_spec_UpdateWorkspace [of B C actor update ns name] assms unfolding b_spec_def by blast

theorem UpdateWorkspace_guarded_witness:
  "\<exists>m written. fst (UpdateWorkspace sample_lib (sample_backend sample_workspace sample_kind []) (Some ''ann'')
        (sample_update (CalculateRevision (w_Meta sample_workspace))) ''team'' ''notebook'' sample_brun) = BOk m \<and>
     wu_DisplayName m = ''mine'' \<and>
     updates sample_lib (sample_backend sample_workspace sample_kind []) (Some ''ann'')
       (sample_update (CalculateRevision (w_Meta sample_workspace))) ''team'' ''notebook'' written"
proof -
  let ?C = "sample_backend sample_workspace sample_kind []"
  let ?u = "sample_update (CalculateRevision (w_Meta sample_workspace))"
  have u: "wu_Revision ?u = CalculateRevision (w_Meta sample_workspace)" "wu_PodTemplate ?u = sample_template"
    "wu_DisplayName ?u = ''mine''"
    by (simp_all add: sample_update_def)
  obtain m s' where run: "UpdateWorkspace sample_lib ?C (Some ''ann'') ?u ''team'' ''notebook'' sample_brun = (BOk m, s')"
    and m: "wu_DisplayName m = ''mine''"
    by (simp add: UpdateWorkspace_def u sample_run_defs NewWorkspaceUpdateModelFromWorkspace_def)
  from conjunct2 [OF UpdateWorkspace_guarded [OF run]] obtain written where
    "updates sample_lib ?C (Some ''ann'') ?u ''team'' ''notebook'' written"
    by (auto simp: stored_as_def)
  then show ?thesis
    using run m by (intro exI conjI) (simp_all only: fst_conv)
qed

text \<open>
  A creation, whatever the cluster answers: at most one write is issued, the creation of a Workspace
  with the requested name, namespace, kind and options, after the rules of the kind allowed the
  namespace and both options; the creator is recorded in both audit annotations, and without an actor
  there are none.
\<close>

theorem CreateWorkspace_guarded:
  assumes "CreateWorkspace B C actor create ns s = (r, s')"
  shows "(\<exists>new. br_calls s' = br_calls s @ new \<and> length new \<le> 1 \<and>
      list_all (writes_as BCreateWorkspace (creates B C actor create ns)) new) \<and>
    (\<forall>m. r = BOk m \<longrightarrow>
      stored_as (creates B C actor create ns) (b_CreateWorkspace C) NewWorkspaceCreateModelFromWorkspace m)"
  using b_spec_CreateWorkspace [of B C actor create ns] assms unfolding b_spec_def by blast

theorem CreateWorkspace_guarded_witness:
  "\<exists>m written. fst (CreateWorkspace sample_lib (sample_backend sample_workspace sample_kind []) (Some ''ann'')
        sample_create ''team'' sample_brun) = BOk m \<and>
     creates sample_lib (sample_backend sample_workspace sample_kind []) (Some ''ann'') sample_create ''team'' written"
proof -
  let ?C = "sample_backend sample_workspace sample_kind []"
  have c: "wc_PodTemplate sample_create = sample_template"
    by (simp add: sample_create_def)
  obtain m s' where run: "CreateWorkspace sample_lib ?C (Some ''ann'') sample_create ''team'' sample_brun = (BOk m, s')"
    by (simp add: CreateWorkspace_def c sample_run_defs)
  from conjunct2 [OF CreateWorkspace_guarded [OF run]] obtain written where
    "creates sample_lib ?C (Some ''ann'') sample_create ''team'' written"
    by (auto simp: stored_as_def)
  then show ?thesis
    by (intro exI conjI) (simp_all only: run fst_conv)
qed

text \<open>
  C15. What \<open>listvalues\<close> says of a pair of options is what create does with it. For a valid request whose
  context names both an image config and a pod config: it is refused exactly if the kind lacks one of the two,
  and otherwise the filter rules let a Workspace with exactly these two options be created in the namespace if and
  only if both are in the answer and neither is marked as denied. Nothing is claimed for a request that leaves one of
  the two open, where rules on the combination cannot be applied yet, and for an unknown option, which create leaves to
  the webhook.
\<close>

theorem listvalues_pair_agrees_with_create:
  assumes "unique_ids wk"
    and "lvc_ImageConfig (lvr_Context req) = Some i" and "lvc_PodConfig (lvr_Context req) = Some p"
    and "ListValuesRequest_Validate B path req = []"
  shows "case NewPodTemplateOptionsModelFromWorkspaceKind K wk req labels of
      Inl err \<Rightarrow> i \<notin> icv_Id ` set (wk_ImageConfigValues wk) \<or> p \<notin> pcv_Id ` set (wk_PodConfigValues wk)
    | Inr opts \<Rightarrow> i \<in> icv_Id ` set (wk_ImageConfigValues wk) \<and> p \<in> pcv_Id ` set (wk_PodConfigValues wk) \<and>
        (enforceImageConfigFilterRule wk (BuildEvalContextForImageAndPodCfg K wk labels i p) i = [] \<and>
         enforcePodConfigFilterRule wk (BuildEvalContextForImageAndPodCfg K wk labels i p) p = [] \<longleftrightarrow>
         (\<exists>m \<in> set (pto_ImageConfigValues opts). lo_Id m = i \<and> \<not> rs_Deny (lo_Restrictions m)) \<and>
         (\<exists>m \<in> set (pto_PodConfigValues opts). lo_Id m = p \<and> \<not> rs_Deny (lo_Restrictions m)))"
proof -
  let ?ctx = "BuildEvalContextForImageAndPodCfg K wk labels i p"
  let ?images = "buildImageConfigValues wk req (calculateOptionMetricsMap (ptm_ImageConfig (wkst_PodTemplateOptions (wk_Status wk)))) ?ctx"
  let ?pods = "buildPodConfigValues wk req (calculateOptionMetricsMap (ptm_PodConfig (wkst_PodTemplateOptions (wk_Status wk)))) ?ctx"
  let ?result = "NewPodTemplateOptionsModelFromWorkspaceKind K wk req labels"
  have ids: "i \<noteq> []" "p \<noteq> []"
    using assms(2-4)
    by (auto simp: ListValuesRequest_Validate_def ListValuesContext_Validate_def ValidateFieldIsNotEmpty_def split: if_splits)
  have known: "snd ?images = [] \<longleftrightarrow> i \<in> icv_Id ` set (wk_ImageConfigValues wk)"
      "snd ?pods = [] \<longleftrightarrow> p \<in> pcv_Id ` set (wk_PodConfigValues wk)"
    using image_options.errors_law pod_options.errors_law ids assms(2,3) by simp_all
  show ?thesis
  proof (cases ?result)
    case (Inl err)
    then have "snd ?images \<noteq> [] \<or> snd ?pods \<noteq> []"
      using assms(2,3)
      by (auto simp: NewPodTemplateOptionsModelFromWorkspaceKind_def configIDs_def Let_def split: prod.splits if_splits)
    with Inl known show ?thesis
      by simp
  next
    case (Inr opts)
    then have answer: "snd ?images = []" "snd ?pods = []"
      "pto_ImageConfigValues opts = fst ?images" "pto_PodConfigValues opts = fst ?pods"
      using assms(2,3)
      by (auto simp: NewPodTemplateOptionsModelFromWorkspaceKind_def configIDs_def Let_def split: prod.splits if_splits)
    have "distinct (map icv_Id (wk_ImageConfigValues wk))" "distinct (map pcv_Id (wk_PodConfigValues wk))"
      using assms(1) by (auto simp: unique_ids_def)
    with Inr answer known ids assms(2,3) show ?thesis
      using image_options.enforced_iff_listed [of wk req i _ ?ctx, OF _ _ _ answer(1)]
        pod_options.enforced_iff_listed [of wk req p _ ?ctx, OF _ _ _ answer(2)]
      by simp
  qed
qed

text \<open>A request for two options of the sample kind.\<close>

definition sample_request :: ListValuesRequest where
  "sample_request = \<lparr>lvr_Context = \<lparr>lvc_Namespace = None, lvc_PodConfig = Some ''tiny'', lvc_ImageConfig = Some ''img1''\<rparr>\<rparr>"

theorem listvalues_pair_agrees_with_create_witness:
  "\<exists>opts. NewPodTemplateOptionsModelFromWorkspaceKind lib0 sample_kind sample_request None = Inr opts \<and>
     (\<exists>m. m \<in> set (pto_ImageConfigValues opts) \<and> lo_Id m = ''img1'' \<and> \<not> rs_Deny (lo_Restrictions m))"
proof -
  have req: "lvc_ImageConfig (lvr_Context sample_request) = Some ''img1''" "lvc_PodConfig (lvr_Context sample_request) = Some ''tiny''"
    "ListValuesRequest_Validate sample_lib ''data'' sample_request = []"
    by (simp_all add: sample_request_def ListValuesRequest_Validate_def ListValuesContext_Validate_def
        ValidateFieldIsNotEmpty_def)
  have ids: "unique_ids sample_kind"
    by (simp add: unique_ids_def sample_defs)
  have "case NewPodTemplateOptionsModelFromWorkspaceKind lib0 sample_kind sample_request None of
      Inl err \<Rightarrow> False | Inr opts \<Rightarrow> True"
    by code_simp
  then obtain opts where opts: "NewPodTemplateOptionsModelFromWorkspaceKind lib0 sample_kind sample_request None = Inr opts"
    by (rule case_sum_InrE)
  from listvalues_pair_agrees_with_create [OF ids req, of lib0 None] show ?thesis
    unfolding sample_kind_unrestricted opts sum.case using opts by blast
qed

text \<open>
  C31. Pause and start, on a server that applies a JSON patch to the stored Workspace or else answers
  \<open>Invalid\<close>: a pause succeeds exactly if the Workspace is not yet paused, a start exactly if it is paused
  and has come to the state \<open>Paused\<close>; otherwise the request fails as an invalid state. The patch changes
  nothing but the paused flag, and it is the only write.
\<close>

theorem HandlePauseAction_exact:
  assumes "fst (b_PatchWorkspace C ns name (pause_patch (wap_Paused action)) (br_world s)) =
    (case json_patch (pause_patch (wap_Paused action)) ws of
      None \<Rightarrow> Inl (ApiStatusError ReasonInvalid causes msg)
    | Some ws' \<Rightarrow> Inr ws')"
  shows "fst (HandlePauseAction C ns name action s) =
      (if wap_Paused action \<noteq> ws_Paused (w_Spec ws) \<and>
          (wap_Paused action \<or> st_State (w_Status ws) = WorkspaceStatePaused)
       then BOk action else BErr (SentinelError ErrWorkspaceInvalidState)) \<and>
    br_calls (snd (HandlePauseAction C ns name action s)) =
      br_calls s @ [BPatchWorkspace ns name (pause_patch (wap_Paused action))] \<and>
    (\<forall>ws'. json_patch (pause_patch (wap_Paused action)) ws = Some ws' \<longrightarrow>
      ws' = ws\<lparr>w_Spec := (w_Spec ws)\<lparr>ws_Paused := wap_Paused action\<rparr>\<rparr>)"
proof -
  have eta: "\<lparr>wap_Paused = wap_Paused action\<rparr> = action"
    by (cases action) simp
  obtain res w where call: "b_PatchWorkspace C ns name (pause_patch (wap_Paused action)) (br_world s) = (res, w)"
    by fastforce
  with assms have "res = (case json_patch (pause_patch (wap_Paused action)) ws of
      None \<Rightarrow> Inl (ApiStatusError ReasonInvalid causes msg) | Some ws' \<Rightarrow> Inr ws')"
    by simp
  then show ?thesis
    using call
    by (auto simp: HandlePauseAction_def b_bind_def b_write_def b_map_error_def b_return_def
        NewWorkspaceActionPauseFromWorkspace_def eta json_patch_pause Let_def)
qed

theorem HandlePauseAction_exact_witness:
  "fst (HandlePauseAction (sample_backend (sample_workspace\<lparr>w_Spec := (w_Spec sample_workspace)\<lparr>ws_Paused := True\<rparr>\<rparr>)
     sample_kind []) ''team'' ''notebook'' \<lparr>wap_Paused = True\<rparr> sample_brun) = BOk \<lparr>wap_Paused = True\<rparr>"
proof -
  let ?a = "\<lparr>wap_Paused = True\<rparr>"
  let ?w = "sample_workspace\<lparr>w_Spec := (w_Spec sample_workspace)\<lparr>ws_Paused := True\<rparr>\<rparr>"
  have running: "\<not> ws_Paused (w_Spec sample_workspace)"
    by (simp add: sample_workspace_def)
  have "fst (b_PatchWorkspace (sample_backend ?w sample_kind []) ''team'' ''notebook'' (pause_patch (wap_Paused ?a))
      (br_world sample_brun)) =
    (case json_patch (pause_patch (wap_Paused ?a)) sample_workspace of
      None \<Rightarrow> Inl (ApiStatusError ReasonInvalid [] []) | Some ws' \<Rightarrow> Inr ws')"
    by (simp add: sample_backend_def json_patch_pause running)
  from HandlePauseAction_exact [OF this] running show ?thesis
    by simp
qed

end
