(* ===== verification/Backend_Http.thy ===== *)
theory Backend_Http
  imports Workspace_Repo
begin

text \<open>
  The HTTP layer of the backend: authentication and authorization (\<open>internal/auth\<close>, \<open>api/auth.go\<close>), the
  error responses (\<open>api/response_errors.go\<close>), the request helpers (\<open>api/helpers.go\<close>) and the recovery
  from panics (\<open>api/middleware.go\<close>). A handler is a computation of the backend whose value is the response
  it writes; what is sent for it is in \<open>Responses\<close>. Log lines are not modelled, so a message that is only logged is not computed.
\<close>

section \<open>Users and policies\<close>

record user_info =
  ui_Name :: string
  ui_Groups :: "string list"
  ui_Extra :: opaque

definition strings_TrimPrefix :: "string \<Rightarrow> string \<Rightarrow> string" where
  "strings_TrimPrefix s prefix = (if starts_with s prefix then drop (length prefix) s else s)"

text \<open>
  The upstream authenticator reads the user from the request headers: an error, no user, or a user.
\<close>

type_synonym authenticator = "str_map \<Rightarrow> string + user_info option"

definition NewRequestAuthenticator :: "authenticator \<Rightarrow> string \<Rightarrow> authenticator" where
  "NewRequestAuthenticator requestHeaderAuthenticator useridPrefix =
     (if useridPrefix = [] then requestHeaderAuthenticator
      else
        (\<lambda>req. case requestHeaderAuthenticator req of
           Inl err \<Rightarrow> Inl err
         | Inr None \<Rightarrow> Inr None
         | Inr (Some u) \<Rightarrow>
             Inr (Some \<lparr>ui_Name = strings_TrimPrefix (ui_Name u) useridPrefix, ui_Groups = ui_Groups u,
                        ui_Extra = ui_Extra u\<rparr>)))"

datatype ResourcePolicyVerb = VerbCreate | VerbDelete | VerbGet | VerbList | VerbPatch | VerbUpdate

datatype ResourcePolicyResource =
    Namespaces | PersistentVolumeClaims | Secrets | StorageClasses | WorkspaceKinds | Workspaces

primrec verb_text :: "ResourcePolicyVerb \<Rightarrow> string" where
  "verb_text VerbCreate = ''create''"
| "verb_text VerbDelete = ''delete''"
| "verb_text VerbGet = ''get''"
| "verb_text VerbList = ''list''"
| "verb_text VerbPatch = ''patch''"
| "verb_text VerbUpdate = ''update''"

record GroupVersionResource =
  gvr_Group :: string
  gvr_Version :: string
  gvr_Resource :: string

primrec resourceGVRMap :: "ResourcePolicyResource \<Rightarrow> GroupVersionResource" where
  "resourceGVRMap Namespaces = \<lparr>gvr_Group = [], gvr_Version = ''v1'', gvr_Resource = ''namespaces''\<rparr>"
| "resourceGVRMap PersistentVolumeClaims =
     \<lparr>gvr_Group = [], gvr_Version = ''v1'', gvr_Resource = ''persistentvolumeclaims''\<rparr>"
| "resourceGVRMap Secrets = \<lparr>gvr_Group = [], gvr_Version = ''v1'', gvr_Resource = ''secrets''\<rparr>"
| "resourceGVRMap StorageClasses =
     \<lparr>gvr_Group = ''storage.k8s.io'', gvr_Version = ''v1'', gvr_Resource = ''storageclasses''\<rparr>"
| "resourceGVRMap WorkspaceKinds =
     \<lparr>gvr_Group = ''kubeflow.org'', gvr_Version = ''v1beta1'', gvr_Resource = ''workspacekinds''\<rparr>"
| "resourceGVRMap Workspaces =
     \<lparr>gvr_Group = ''kubeflow.org'', gvr_Version = ''v1beta1'', gvr_Resource = ''workspaces''\<rparr>"

text \<open>\<open>ResourcePolicyResourceMeta\<close> is a namespace and a name, either of which may be empty.\<close>

record ResourcePolicy =
  rp_Verb :: ResourcePolicyVerb
  rp_GVR :: GroupVersionResource
  rp_Namespace :: string
  rp_Name :: string

definition NewResourcePolicy ::
  "ResourcePolicyVerb \<Rightarrow> ResourcePolicyResource \<Rightarrow> string \<Rightarrow> string \<Rightarrow> ResourcePolicy" where
  "NewResourcePolicy verb resource namespace name =
     \<lparr>rp_Verb = verb, rp_GVR = resourceGVRMap resource, rp_Namespace = namespace, rp_Name = name\<rparr>"

record AttributesRecord =
  at_User :: user_info
  at_Verb :: string
  at_Namespace :: string
  at_APIGroup :: string
  at_APIVersion :: string
  at_Resource :: string
  at_Subresource :: string
  at_Name :: string
  at_ResourceRequest :: bool

definition AttributesFor :: "ResourcePolicy \<Rightarrow> user_info \<Rightarrow> AttributesRecord" where
  "AttributesFor p u =
     \<lparr>at_User = u, at_Verb = verb_text (rp_Verb p), at_Namespace = rp_Namespace p,
      at_APIGroup = gvr_Group (rp_GVR p), at_APIVersion = gvr_Version (rp_GVR p),
      at_Resource = gvr_Resource (rp_GVR p), at_Subresource = [], at_Name = rp_Name p, at_ResourceRequest = True\<rparr>"

datatype authz_decision = DecisionDeny | DecisionAllow | DecisionNoOpinion

section \<open>The application\<close>

text \<open>
  Functions of other packages: \<open>mime.ParseMediaType\<close> (an error or the media type), the type and the body
  of a \<open>field.Error\<close>.
\<close>

record http_lib =
  hl_ParseMediaType :: "string \<Rightarrow> string + string"
  hl_ErrorType :: "field_error \<Rightarrow> string"
  hl_ErrorBody :: "field_error \<Rightarrow> string"

record 's app =
  app_Lib :: backend_lib
  app_Http :: http_lib
  app_Config :: BackendEnvConfig
  app_Client :: "'s backend"
  app_AuthN :: authenticator
  app_AuthZ :: "AttributesRecord \<Rightarrow> ('s, authz_decision) brequest"

text \<open>
  A request: path parameters (empty if the route has none), query parameters, headers and the body as the
  JSON decoder finds it. The decoder runs with \<open>DisallowUnknownFields\<close>; \<open>JsonValue None\<close> is a body
  without data.
\<close>

datatype 'b json_result =
    JsonMaxBytes string
  | JsonEOF string
  | JsonError string
  | JsonValue "'b option"

record 'b http_request =
  hq_Namespace :: string
  hq_Name :: string
  hq_Query :: str_map
  hq_Headers :: str_map
  hq_Body :: "'b json_result"

section \<open>Responses\<close>

datatype ErrorCauseOrigin = OriginInternal | OriginKubernetes

record ConflictError =
  cfe_Origin :: ErrorCauseOrigin
  cfe_Message :: string

record ValidationError =
  vde_Origin :: ErrorCauseOrigin
  vde_Type :: string
  vde_Field :: string
  vde_Message :: string

record ErrorCause =
  ec_ConflictCauses :: "ConflictError list"
  ec_ValidationErrors :: "ValidationError list"

record HTTPError =
  he_StatusCode :: int
  he_Code :: string
  he_Message :: string
  he_Cause :: "ErrorCause option"

text \<open>In a \<open>LibraryResponse\<close> the status is that of a library, to which the handler has left the writer.\<close>

datatype 'd http_response =
    DataResponse 'd
  | LibraryResponse int 'd
  | CreatedResponse 'd string
  | DeletedResponse
  | ErrorResponse HTTPError

primrec status_code :: "'d http_response \<Rightarrow> int" where
  "status_code (DataResponse d) = 200"
| "status_code (LibraryResponse status d) = status"
| "status_code (CreatedResponse d location) = 201"
| "status_code DeletedResponse = 204"
| "status_code (ErrorResponse e) = he_StatusCode e"

definition errMsgNotFound :: string where "errMsgNotFound = ''the requested resource could not be found''"
definition errMsgUnauthorized :: string where
  "errMsgUnauthorized = ''authentication is required to access this resource''"
definition errMsgForbidden :: string where "errMsgForbidden = ''you are not authorized to access this resource''"
definition errMsgPathParamsInvalid :: string where "errMsgPathParamsInvalid = ''path parameters were invalid''"
definition errMsgQueryParamsInvalid :: string where "errMsgQueryParamsInvalid = ''query parameters were invalid''"
definition errMsgRequestBodyInvalid :: string where "errMsgRequestBodyInvalid = ''request body was invalid''"
definition errMsgInternalValidation :: string where
  "errMsgInternalValidation = ''validation error (see .cause.validation_errors[] for details)''"
definition errMsgKubernetesValidation :: string where
  "errMsgKubernetesValidation = ''kubernetes validation error (see .cause.validation_errors[] for details) (note: .cause.validation_errors[].field values correspond to the internal k8s object, NOT the request body)''"
definition errMsgKubernetesConflict :: string where
  "errMsgKubernetesConflict = ''kubernetes conflict error (see .cause.conflict_cause[] for details)''"

definition simple_error :: "int \<Rightarrow> string \<Rightarrow> HTTPError" where
  "simple_error code msg = \<lparr>he_StatusCode = code, he_Code = go_itoa code, he_Message = msg, he_Cause = None\<rparr>"

definition serverErrorResponse :: HTTPError where
  "serverErrorResponse = simple_error 500 ''the server encountered a problem and could not process your request''"

definition badRequestResponse :: "string \<Rightarrow> HTTPError" where
  "badRequestResponse err = simple_error 400 err"

definition unauthorizedResponse :: HTTPError where
  "unauthorizedResponse = simple_error 401 errMsgUnauthorized"

definition sendForbidden :: "string \<Rightarrow> HTTPError" where
  "sendForbidden clientMsg = simple_error 403 clientMsg"

definition forbiddenResponse :: HTTPError where
  "forbiddenResponse = sendForbidden errMsgForbidden"

definition policyDeniedResponse :: "string \<Rightarrow> HTTPError" where
  "policyDeniedResponse reason = sendForbidden reason"

definition notFoundResponse :: HTTPError where
  "notFoundResponse = simple_error 404 errMsgNotFound"

definition conflictResponse :: "backend_lib \<Rightarrow> backend_error \<Rightarrow> StatusCause list \<Rightarrow> HTTPError" where
  "conflictResponse B err k8sCauses =
     (let conflictErrs = map (\<lambda>cause. \<lparr>cfe_Origin = OriginKubernetes, cfe_Message = stc_Message cause\<rparr>) k8sCauses;
          msg = (if 0 < length conflictErrs then errMsgKubernetesConflict else be_Error B err)
      in \<lparr>he_StatusCode = 409, he_Code = go_itoa 409, he_Message = msg,
          he_Cause = Some \<lparr>ec_ConflictCauses = conflictErrs, ec_ValidationErrors = []\<rparr>\<rparr>)"

definition internalConflictResponse :: "backend_lib \<Rightarrow> backend_error \<Rightarrow> HTTPError" where
  "internalConflictResponse B err =
     \<lparr>he_StatusCode = 409, he_Code = go_itoa 409, he_Message = be_Error B err,
      he_Cause = Some
        \<lparr>ec_ConflictCauses = [\<lparr>cfe_Origin = OriginInternal, cfe_Message = be_Error B err\<rparr>], ec_ValidationErrors = []\<rparr>\<rparr>"

definition requestEntityTooLargeResponse :: "string \<Rightarrow> HTTPError" where
  "requestEntityTooLargeResponse err = simple_error 413 err"

definition unsupportedMediaTypeResponse :: "string \<Rightarrow> HTTPError" where
  "unsupportedMediaTypeResponse err = simple_error 415 err"

definition failedValidationResponse :: "http_lib \<Rightarrow> string \<Rightarrow> field_error list \<Rightarrow> StatusCause list \<Rightarrow> HTTPError" where
  "failedValidationResponse H msg errs k8sCauses =
     (let valErrs =
        map (\<lambda>err. \<lparr>vde_Origin = OriginInternal, vde_Type = hl_ErrorType H err, vde_Field = fe_Path err,
                    vde_Message = hl_ErrorBody H err\<rparr>) errs @
        map (\<lambda>cause. \<lparr>vde_Origin = OriginKubernetes, vde_Type = stc_Type cause, vde_Field = stc_Field cause,
                      vde_Message = stc_Message cause\<rparr>) k8sCauses
      in \<lparr>he_StatusCode = 422, he_Code = go_itoa 422, he_Message = msg,
          he_Cause = Some \<lparr>ec_ConflictCauses = [], ec_ValidationErrors = valErrs\<rparr>\<rparr>)"

section \<open>Handlers\<close>

text \<open>\<open>x, err := f(); if err != nil\<close>: the caller inspects the error.\<close>

definition b_attempt :: "('s, 'a) bact \<Rightarrow> ('s, backend_error + 'a) bact" where
  "b_attempt m s =
     (case m s of
       (BOk x, s) \<Rightarrow> (BOk (Inr x), s)
     | (BErr e, s) \<Rightarrow> (BOk (Inl e), s)
     | (BPanic, s) \<Rightarrow> (BPanic, s))"

fun authorize_loop :: "'s app \<Rightarrow> user_info \<Rightarrow> ResourcePolicy list \<Rightarrow> ('s, HTTPError option) bact" where
  "authorize_loop app u [] = b_return None"
| "authorize_loop app u (policy # policies) =
     b_bind (b_try (app_AuthZ app (AttributesFor policy u)))
       (\<lambda>r. case r of
          Inl err \<Rightarrow> b_return (Some serverErrorResponse)
        | Inr authorized \<Rightarrow>
            if authorized \<noteq> DecisionAllow then b_return (Some forbiddenResponse)
            else authorize_loop app u policies)"

text \<open>The response that was written, or the user.\<close>

definition requireAuth :: "'s app \<Rightarrow> 'b http_request \<Rightarrow> ResourcePolicy list \<Rightarrow> ('s, HTTPError + user_info) bact" where
  "requireAuth app r policies =
     (case app_AuthN app (hq_Headers r) of
       Inl err \<Rightarrow> b_return (Inl serverErrorResponse)
     | Inr None \<Rightarrow> b_return (Inl unauthorizedResponse)
     | Inr (Some u) \<Rightarrow>
         b_bind (authorize_loop app u policies)
           (\<lambda>resp. case resp of Some e \<Rightarrow> b_return (Inl e) | None \<Rightarrow> b_return (Inr u)))"

text \<open>\<open>None\<close> if the request may go on.\<close>

definition ValidateContentType :: "http_lib \<Rightarrow> 'b http_request \<Rightarrow> string \<Rightarrow> HTTPError option" where
  "ValidateContentType H r expectedMediaType =
     (let contentType = map_get (hq_Headers r) ''Content-Type''
      in if contentType = [] then Some (unsupportedMediaTypeResponse ''Content-Type header is missing'')
         else
           (case hl_ParseMediaType H contentType of
             Inl err \<Rightarrow> Some (badRequestResponse (''error parsing Content-Type header: '' @ err))
           | Inr mediaType \<Rightarrow>
               if mediaType \<noteq> expectedMediaType
               then Some (unsupportedMediaTypeResponse
                      (''unsupported media type: '' @ mediaType @ '', expected: '' @ expectedMediaType))
               else None))"

definition MediaTypeJson :: string where
  "MediaTypeJson = ''application/json''"

datatype decode_error = MaxBytesError string | DecodeError string

definition DecodeJSON :: "'b http_request \<Rightarrow> decode_error + 'b option" where
  "DecodeJSON r =
     (case hq_Body r of
       JsonMaxBytes err \<Rightarrow> Inl (MaxBytesError err)
     | JsonEOF err \<Rightarrow> Inl (DecodeError (''request body was empty: '' @ err))
     | JsonError err \<Rightarrow> Inl (DecodeError (''error decoding JSON: '' @ err))
     | JsonValue v \<Rightarrow> Inr v)"

text \<open>
  The block in which each handler with a JSON body checks the header, decodes the body and validates it:
  the response, or the data of the body.
\<close>

definition decode_body ::
  "'s app \<Rightarrow> 'b http_request \<Rightarrow> (string \<Rightarrow> 'b \<Rightarrow> field_error list) \<Rightarrow> HTTPError + 'b" where
  "decode_body app r validate =
     (case ValidateContentType (app_Http app) r MediaTypeJson of
       Some resp \<Rightarrow> Inl resp
     | None \<Rightarrow>
         (case DecodeJSON r of
           Inl (MaxBytesError err) \<Rightarrow> Inl (requestEntityTooLargeResponse err)
         | Inl (DecodeError err) \<Rightarrow> Inl (badRequestResponse (''error decoding request body: '' @ err))
         | Inr None \<Rightarrow>
             Inl (failedValidationResponse (app_Http app) errMsgRequestBodyInvalid
                    [FieldRequired ''data'' ''data is required''] [])
         | Inr (Some d) \<Rightarrow>
             (let valErrs = validate ''data'' d
              in if 0 < length valErrs
                 then Inl (failedValidationResponse (app_Http app) errMsgRequestBodyInvalid valErrs [])
                 else Inr d)))"

definition recoverPanic :: "('s, 'd http_response) bact \<Rightarrow> ('s, 'd http_response) bact" where
  "recoverPanic h s =
     (case h s of
       (BPanic, s) \<Rightarrow> (BOk (ErrorResponse serverErrorResponse), s)
     | r \<Rightarrow> r)"

definition AllWorkspacesPath :: string where
  "AllWorkspacesPath = PathPrefix @ ''/workspaces''"

definition WorkspacesByNamePath :: string where
  "WorkspacesByNamePath = AllWorkspacesPath @ ''/:'' @ NamespacePathParam @ ''/:'' @ ResourceNamePathParam"

definition LocationGetWorkspace :: "string \<Rightarrow> string \<Rightarrow> string" where
  "LocationGetWorkspace namespace name =
     strings_Replace1 (strings_Replace1 WorkspacesByNamePath ('':'' @ NamespacePathParam) namespace)
       ('':'' @ ResourceNamePathParam) name"

definition LocationGetWorkspaceKind :: "string \<Rightarrow> string" where
  "LocationGetWorkspaceKind name = strings_Replace1 WorkspaceKindsByNamePath ('':'' @ ResourceNamePathParam) name"

section \<open>Steps of the handlers\<close>

abbreviation respond_error :: "HTTPError \<Rightarrow> ('s, 'd http_response) bact" where
  "respond_error e \<equiv> b_return (ErrorResponse e)"

definition ValidateWorkspaceName :: "backend_lib \<Rightarrow> string \<Rightarrow> string \<Rightarrow> field_error list" where
  "ValidateWorkspaceName = ValidateFieldIsDNS1123Label"

definition ValidateKubernetesNamespaceName :: "backend_lib \<Rightarrow> string \<Rightarrow> string \<Rightarrow> field_error list" where
  "ValidateKubernetesNamespaceName = ValidateFieldIsDNS1123Label"

text \<open>\<open>if len(valErrs) > 0 { a.failedValidationResponse(...); return }\<close>.\<close>

definition when_valid ::
  "'s app \<Rightarrow> string \<Rightarrow> field_error list \<Rightarrow> ('s, 'd http_response) bact \<Rightarrow> ('s, 'd http_response) bact" where
  "when_valid app msg valErrs k =
     (if 0 < length valErrs then respond_error (failedValidationResponse (app_Http app) msg valErrs []) else k)"

text \<open>\<open>if actor, ok := a.requireAuth(w, r, policies); !ok { return }\<close>.\<close>

definition with_auth ::
  "'s app \<Rightarrow> 'b http_request \<Rightarrow> ResourcePolicy list \<Rightarrow> (user_info \<Rightarrow> ('s, 'd http_response) bact)
   \<Rightarrow> ('s, 'd http_response) bact" where
  "with_auth app r policies k =
     b_bind (requireAuth app r policies)
       (\<lambda>res. case res of Inl e \<Rightarrow> respond_error e | Inr actor \<Rightarrow> k actor)"

definition with_body ::
  "'s app \<Rightarrow> 'b http_request \<Rightarrow> (string \<Rightarrow> 'b \<Rightarrow> field_error list) \<Rightarrow> ('b \<Rightarrow> ('s, 'd http_response) bact)
   \<Rightarrow> ('s, 'd http_response) bact" where
  "with_body app r validate k =
     (case decode_body app r validate of Inl e \<Rightarrow> respond_error e | Inr d \<Rightarrow> k d)"

text \<open>\<open>x, err := repository(...); if err != nil { ...; return }\<close>: the error decides on the response.\<close>

definition with_result ::
  "('s, 'a) bact \<Rightarrow> (backend_error \<Rightarrow> HTTPError) \<Rightarrow> ('a \<Rightarrow> 'd http_response) \<Rightarrow> ('s, 'd http_response) bact" where
  "with_result m on_error on_result =
     b_bind (b_attempt m)
       (\<lambda>res. case res of Inl err \<Rightarrow> respond_error (on_error err) | Inr x \<Rightarrow> b_return (on_result x))"

section \<open>Lemmas\<close>

lemma simple_error_status [simp]: "he_StatusCode (simple_error code msg) = code"
  by (simp add: simple_error_def)

lemma response_statuses [simp]:
  "he_StatusCode serverErrorResponse = 500" "he_StatusCode (badRequestResponse e) = 400"
  "he_StatusCode unauthorizedResponse = 401" "he_StatusCode forbiddenResponse = 403"
  "he_StatusCode (policyDeniedResponse reason) = 403" "he_StatusCode notFoundResponse = 404"
  "he_StatusCode (conflictResponse B err causes) = 409" "he_StatusCode (internalConflictResponse B err) = 409"
  "he_StatusCode (requestEntityTooLargeResponse e) = 413" "he_StatusCode (unsupportedMediaTypeResponse e) = 415"
  "he_StatusCode (failedValidationResponse H msg errs causes) = 422"
  by (simp_all add: serverErrorResponse_def badRequestResponse_def unauthorizedResponse_def forbiddenResponse_def
      policyDeniedResponse_def sendForbidden_def notFoundResponse_def conflictResponse_def internalConflictResponse_def
      requestEntityTooLargeResponse_def unsupportedMediaTypeResponse_def failedValidationResponse_def Let_def)

text \<open>Every run of the handler ends in a response with a status in \<open>S\<close>, or in a panic.\<close>

definition statuses_in :: "int set \<Rightarrow> ('s, 'd http_response) bact \<Rightarrow> bool" where
  "statuses_in S h \<longleftrightarrow>
     (\<forall>s. case fst (h s) of BOk resp \<Rightarrow> status_code resp \<in> S | BErr err \<Rightarrow> False | BPanic \<Rightarrow> True)"

named_theorems status_intros

lemma statuses_in_return [status_intros]: "status_code resp \<in> S \<Longrightarrow> statuses_in S (b_return resp)"
  by (simp add: statuses_in_def b_return_def)

lemma statuses_in_when_valid [status_intros]:
  "422 \<in> S \<or> valErrs = [] \<Longrightarrow> statuses_in S k \<Longrightarrow> statuses_in S (when_valid app msg valErrs k)"
  by (auto simp: when_valid_def intro!: statuses_in_return)

lemma authorize_loop_ok:
  "\<exists>resp s'. authorize_loop app u policies s = (BOk resp, s') \<and>
     (\<forall>e. resp = Some e \<longrightarrow> he_StatusCode e \<in> {403, 500}) \<and> br_calls s' = br_calls s \<and>
     (resp = None \<longrightarrow> (\<forall>p \<in> set policies. answered (app_AuthZ app (AttributesFor p u)) DecisionAllow))"
proof (induction policies arbitrary: s)
  case (Cons p policies)
  obtain res w where z: "app_AuthZ app (AttributesFor p u) (br_world s) = (res, w)"
    by fastforce
  then have "answered (app_AuthZ app (AttributesFor p u)) d" if "res = Inr d" for d
    using that unfolding answered_def by blast
  with z Cons.IH [of "s\<lparr>br_world := w\<rparr>"] show ?case
    by (cases res) (auto simp: b_bind_def b_try_def b_return_def)
qed (simp add: b_return_def)

lemma requireAuth_ok:
  obtains resp s' where "requireAuth app r policies s = (BOk resp, s')" and "br_calls s' = br_calls s"
    and "\<And>e. resp = Inl e \<Longrightarrow> he_StatusCode e \<in> {401, 403, 500}"
    and "\<And>u. resp = Inr u \<Longrightarrow> app_AuthN app (hq_Headers r) = Inr (Some u) \<and>
      (\<forall>p \<in> set policies. answered (app_AuthZ app (AttributesFor p u)) DecisionAllow)"
proof (cases "app_AuthN app (hq_Headers r)")
  case (Inl err)
  with that show thesis
    by (simp add: requireAuth_def b_return_def)
next
  case (Inr user)
  show thesis
  proof (cases user)
    case None
    with Inr that show thesis
      by (simp add: requireAuth_def b_return_def)
  next
    case (Some u)
    obtain resp s' where "authorize_loop app u policies s = (BOk resp, s')" "br_calls s' = br_calls s"
      "\<forall>e. resp = Some e \<longrightarrow> he_StatusCode e \<in> {403, 500}"
      "resp = None \<longrightarrow> (\<forall>p \<in> set policies. answered (app_AuthZ app (AttributesFor p u)) DecisionAllow)"
      using authorize_loop_ok by blast
    with Inr Some that show thesis
      by (cases resp) (auto simp: requireAuth_def b_bind_def b_return_def)
  qed
qed

lemma statuses_in_with_auth [status_intros]:
  assumes "{401, 403, 500} \<subseteq> S" and "\<And>u. statuses_in S (k u)"
  shows "statuses_in S (with_auth app r policies k)"
  unfolding statuses_in_def
proof
  fix s
  obtain resp s' where "requireAuth app r policies s = (BOk resp, s')"
    and "\<And>e. resp = Inl e \<Longrightarrow> he_StatusCode e \<in> {401, 403, 500}"
    using requireAuth_ok [of app r policies s] by metis
  with assms show "case fst (with_auth app r policies k s) of
      BOk resp \<Rightarrow> status_code resp \<in> S | BErr err \<Rightarrow> False | BPanic \<Rightarrow> True"
    by (cases resp) (auto simp: with_auth_def b_bind_def b_return_def statuses_in_def)
qed

lemma decode_body_status:
  "decode_body app r validate = Inl e \<Longrightarrow> he_StatusCode e \<in> {400, 413, 415, 422}"
  by (auto simp: decode_body_def ValidateContentType_def Let_def
      split: option.splits sum.splits decode_error.splits if_splits)

lemma statuses_in_with_body [status_intros]:
  "{400, 413, 415, 422} \<subseteq> S \<Longrightarrow> (\<And>d. statuses_in S (k d)) \<Longrightarrow> statuses_in S (with_body app r validate k)"
  by (auto simp: with_body_def split: sum.split intro!: statuses_in_return dest: decode_body_status)

lemma statuses_in_with_result [status_intros]:
  "(\<And>err. he_StatusCode (on_error err) \<in> S) \<Longrightarrow> (\<And>x. status_code (on_result x) \<in> S) \<Longrightarrow>
   statuses_in S (with_result m on_error on_result)"
  by (auto simp: statuses_in_def with_result_def b_bind_def b_attempt_def b_return_def split: prod.split bres.split)

text \<open>With the recovery from panics, every run ends in a response.\<close>

lemma statuses_in_recover:
  assumes "statuses_in S h" and "500 \<in> S"
  shows "\<exists>resp s'. recoverPanic h s = (BOk resp, s') \<and> status_code resp \<in> S"
proof -
  obtain res s' where run: "h s = (res, s')"
    by fastforce
  from assms(1) have "case fst (h s) of BOk resp \<Rightarrow> status_code resp \<in> S | BErr err \<Rightarrow> False | BPanic \<Rightarrow> True"
    unfolding statuses_in_def by blast
  with run assms(2) show ?thesis
    by (cases res) (auto simp: recoverPanic_def)
qed

text \<open>Who may do something: an authenticated user whom the authorizer allowed it.\<close>

definition authorized ::
  "'s app \<Rightarrow> 'b http_request \<Rightarrow> ResourcePolicyVerb \<Rightarrow> ResourcePolicyResource \<Rightarrow> string \<Rightarrow> string \<Rightarrow> user_info \<Rightarrow> bool" where
  "authorized app r verb resource ns name u \<longleftrightarrow>
     app_AuthN app (hq_Headers r) = Inr (Some u) \<and>
     answered (app_AuthZ app (AttributesFor (NewResourcePolicy verb resource ns name) u)) DecisionAllow"

text \<open>No response of an error status tells anything about \<open>Q\<close>.\<close>

definition on_success :: "bool \<Rightarrow> 'd http_response \<Rightarrow> bool" where
  "on_success G resp \<longleftrightarrow> (\<forall>e. resp \<noteq> ErrorResponse e) \<longrightarrow> G"

lemma on_success_error [simp]: "on_success G (ErrorResponse e)"
  by (simp add: on_success_def)

lemma on_successI: "G \<Longrightarrow> on_success G resp"
  by (simp add: on_success_def)

named_theorems handler_intros

lemma b_spec_when_valid [handler_intros]:
  "b_spec n P (on_success G) k \<Longrightarrow> b_spec n P (on_success G) (when_valid app msg valErrs k)"
  by (auto simp: when_valid_def intro!: b_spec_return)

lemma b_spec_requireAuth:
  "b_spec 0 P (\<lambda>res. \<forall>u. res = Inr u \<longrightarrow> app_AuthN app (hq_Headers r) = Inr (Some u) \<and>
     (\<forall>p \<in> set policies. answered (app_AuthZ app (AttributesFor p u)) DecisionAllow)) (requireAuth app r policies)"
  unfolding b_spec_def
proof (intro allI impI)
  fix s res s'
  assume run: "requireAuth app r policies s = (res, s')"
  obtain resp s1 where "requireAuth app r policies s = (BOk resp, s1)" and "br_calls s1 = br_calls s"
    and "\<And>u. resp = Inr u \<Longrightarrow> app_AuthN app (hq_Headers r) = Inr (Some u) \<and>
      (\<forall>p \<in> set policies. answered (app_AuthZ app (AttributesFor p u)) DecisionAllow)"
    using requireAuth_ok [of app r policies s] by metis
  with run show "(\<exists>new. br_calls s' = br_calls s @ new \<and> length new \<le> 0 \<and> list_all P new) \<and>
      (\<forall>x. res = BOk x \<longrightarrow> (\<forall>u. x = Inr u \<longrightarrow> app_AuthN app (hq_Headers r) = Inr (Some u) \<and>
         (\<forall>p \<in> set policies. answered (app_AuthZ app (AttributesFor p u)) DecisionAllow)))"
    by auto
qed

lemma b_spec_with_auth [handler_intros]:
  assumes "\<And>u. authorized app r verb resource ns name u \<Longrightarrow> b_spec n P (on_success G) (k u)"
  shows "b_spec n P (on_success G) (with_auth app r [NewResourcePolicy verb resource ns name] k)"
  unfolding with_auth_def
  by (rule b_spec_read_bind [OF b_spec_requireAuth])
    (auto simp: authorized_def split: sum.split intro!: b_spec_return assms)

lemma decode_body_Inr:
  "decode_body app r validate = Inr d \<Longrightarrow> hq_Body r = JsonValue (Some d) \<and> validate ''data'' d = []"
  by (auto simp: decode_body_def DecodeJSON_def Let_def
      split: option.splits sum.splits decode_error.splits json_result.splits if_splits)

lemma b_spec_with_body [handler_intros]:
  "(\<And>d. hq_Body r = JsonValue (Some d) \<Longrightarrow> validate ''data'' d = [] \<Longrightarrow> b_spec n P (on_success G) (k d)) \<Longrightarrow>
   b_spec n P (on_success G) (with_body app r validate k)"
  by (auto simp: with_body_def split: sum.split intro!: b_spec_return dest!: decode_body_Inr)

lemma b_spec_attempt: "b_spec n P R m \<Longrightarrow> b_spec n P (\<lambda>res. \<forall>x. res = Inr x \<longrightarrow> R x) (b_attempt m)"
  unfolding b_spec_def b_attempt_def by (fastforce split: prod.splits bres.splits)

lemma b_spec_with_result [handler_intros]:
  assumes "b_spec n P R m" and "\<And>x. R x \<Longrightarrow> G"
  shows "b_spec n P (on_success G) (with_result m on_error on_result)"
proof -
  have "b_spec (n + 0) P (on_success G) (with_result m on_error on_result)"
    unfolding with_result_def
  proof (rule b_spec_bind [OF b_spec_attempt [OF assms(1)]])
    fix res :: "backend_error + 'a"
    assume "\<forall>x. res = Inr x \<longrightarrow> R x"
    then show "b_spec 0 P (on_success G)
        (case res of Inl err \<Rightarrow> respond_error (on_error err) | Inr x \<Rightarrow> b_return (on_result x))"
      using assms(2) by (cases res) (simp_all add: b_spec_return on_successI)
  qed
  then show ?thesis
    by simp
qed

end
