(* ===== verification/Workspace_Handlers.thy ===== *)
theory Workspace_Handlers
  imports Backend_Http
begin

text \<open>
  The handlers of Workspaces: \<open>api/workspaces_handler.go\<close>, \<open>api/workspace_actions_handler.go\<close> and
  \<open>api/workspace_podtemplate_details_handler.go\<close>. Each takes the application and the request and ends in
  a response.
\<close>

section \<open>Reading\<close>

definition get_workspace_error :: "backend_error \<Rightarrow> HTTPError" where
  "get_workspace_error err = (if errors_Is ErrWorkspaceNotFound err then notFoundResponse else serverErrorResponse)"

definition GetWorkspaceHandler :: "'s app \<Rightarrow> 'b http_request \<Rightarrow> ('s, WorkspaceUpdate http_response) bact" where
  "GetWorkspaceHandler app r =
     (let namespace = hq_Namespace r; workspaceName = hq_Name r
      in when_valid app errMsgPathParamsInvalid
           (ValidateKubernetesNamespaceName (app_Lib app) NamespacePathParam namespace @
            ValidateWorkspaceName (app_Lib app) ResourceNamePathParam workspaceName)
           (with_auth app r [NewResourcePolicy VerbGet Workspaces namespace workspaceName] (\<lambda>_.
              with_result (GetWorkspace (app_Client app) namespace workspaceName) get_workspace_error DataResponse)))"

definition getWorkspacesHandler :: "'s app \<Rightarrow> 'b http_request \<Rightarrow> ('s, WorkspaceListItem list http_response) bact" where
  "getWorkspacesHandler app r =
     (let namespace = hq_Namespace r
      in when_valid app errMsgPathParamsInvalid
           (if namespace \<noteq> [] then ValidateKubernetesNamespaceName (app_Lib app) NamespacePathParam namespace else [])
           (with_auth app r [NewResourcePolicy VerbList Workspaces namespace []] (\<lambda>_.
              with_result
                (if namespace = [] then GetAllWorkspaces (app_Lib app) (Some (app_Config app)) (app_Client app)
                 else GetWorkspaces (app_Lib app) (Some (app_Config app)) (app_Client app) namespace)
                (\<lambda>err. serverErrorResponse) DataResponse)))"

definition GetAllWorkspacesHandler ::
  "'s app \<Rightarrow> 'b http_request \<Rightarrow> ('s, WorkspaceListItem list http_response) bact" where
  "GetAllWorkspacesHandler app r = getWorkspacesHandler app r"

definition GetWorkspacesByNamespaceHandler ::
  "'s app \<Rightarrow> 'b http_request \<Rightarrow> ('s, WorkspaceListItem list http_response) bact" where
  "GetWorkspacesByNamespaceHandler app r = getWorkspacesHandler app r"

definition GetWorkspacePodTemplateDetailsHandler ::
  "'s app \<Rightarrow> 'b http_request \<Rightarrow> ('s, WorkspaceDetails http_response) bact" where
  "GetWorkspacePodTemplateDetailsHandler app r =
     (let namespace = hq_Namespace r; workspaceName = hq_Name r
      in when_valid app errMsgPathParamsInvalid
           (ValidateKubernetesNamespaceName (app_Lib app) NamespacePathParam namespace @
            ValidateWorkspaceName (app_Lib app) ResourceNamePathParam workspaceName)
           (with_auth app r [NewResourcePolicy VerbGet Workspaces namespace workspaceName] (\<lambda>_.
              with_result (GetWorkspaceDetails (app_Client app) namespace workspaceName) get_workspace_error
                DataResponse)))"

section \<open>Writing\<close>

definition create_workspace_error :: "'s app \<Rightarrow> backend_error \<Rightarrow> HTTPError" where
  "create_workspace_error app err =
     (case as_restricted err of
       Some restricted \<Rightarrow> policyDeniedResponse (WorkspaceKindRestrictedError_Error restricted)
     | None \<Rightarrow>
         (case FieldErrorsFromInternalValidationError err of
           Some fieldErrs \<Rightarrow> failedValidationResponse (app_Http app) errMsgInternalValidation fieldErrs []
         | None \<Rightarrow>
             if errors_Is ErrWorkspaceAlreadyExists err
             then conflictResponse (app_Lib app) err (StatusCausesFromAPIStatus err)
             else if reason_of err = Some ReasonInvalid
             then failedValidationResponse (app_Http app) errMsgKubernetesValidation [] (StatusCausesFromAPIStatus err)
             else serverErrorResponse))"

definition CreateWorkspaceHandler ::
  "'s app \<Rightarrow> WorkspaceCreate http_request \<Rightarrow> ('s, WorkspaceCreate http_response) bact" where
  "CreateWorkspaceHandler app r =
     (let namespace = hq_Namespace r
      in when_valid app errMsgPathParamsInvalid
           (ValidateKubernetesNamespaceName (app_Lib app) NamespacePathParam namespace)
           (with_body app r (WorkspaceCreate_Validate (app_Lib app)) (\<lambda>workspaceCreate.
            with_auth app r [NewResourcePolicy VerbCreate Workspaces namespace (wc_Name workspaceCreate)] (\<lambda>actor.
            with_result
              (CreateWorkspace (app_Lib app) (app_Client app) (Some (ui_Name actor)) workspaceCreate namespace)
              (create_workspace_error app)
              (\<lambda>createdWorkspace.
                 CreatedResponse createdWorkspace (LocationGetWorkspace namespace (wc_Name createdWorkspace)))))))"

definition update_workspace_error :: "'s app \<Rightarrow> backend_error \<Rightarrow> HTTPError" where
  "update_workspace_error app err =
     (case as_restricted err of
       Some restricted \<Rightarrow> policyDeniedResponse (WorkspaceKindRestrictedError_Error restricted)
     | None \<Rightarrow>
         if errors_Is ErrWorkspaceNotFound err then notFoundResponse
         else
           (case FieldErrorsFromInternalValidationError err of
             Some fieldErrs \<Rightarrow> failedValidationResponse (app_Http app) errMsgInternalValidation fieldErrs []
           | None \<Rightarrow>
               if errors_Is ErrWorkspaceRevisionConflict err then internalConflictResponse (app_Lib app) err
               else if reason_of err = Some ReasonInvalid
               then failedValidationResponse (app_Http app) errMsgKubernetesValidation [] (StatusCausesFromAPIStatus err)
               else serverErrorResponse))"

definition UpdateWorkspaceHandler ::
  "'s app \<Rightarrow> WorkspaceUpdate http_request \<Rightarrow> ('s, WorkspaceUpdate http_response) bact" where
  "UpdateWorkspaceHandler app r =
     (let namespace = hq_Namespace r; workspaceName = hq_Name r
      in when_valid app errMsgPathParamsInvalid
           (ValidateKubernetesNamespaceName (app_Lib app) NamespacePathParam namespace @
            ValidateWorkspaceName (app_Lib app) ResourceNamePathParam workspaceName)
           (with_auth app r [NewResourcePolicy VerbUpdate Workspaces namespace workspaceName] (\<lambda>actor.
            with_body app r (WorkspaceUpdate_Validate (app_Lib app)) (\<lambda>workspaceUpdate.
            with_result
              (UpdateWorkspace (app_Lib app) (app_Client app) (Some (ui_Name actor)) workspaceUpdate namespace workspaceName)
              (update_workspace_error app) DataResponse))))"

definition delete_workspace_error :: "'s app \<Rightarrow> backend_error \<Rightarrow> HTTPError" where
  "delete_workspace_error app err =
     (if errors_Is ErrWorkspaceNotFound err then notFoundResponse
      else if reason_of err = Some ReasonConflict
      then conflictResponse (app_Lib app) err (StatusCausesFromAPIStatus err)
      else serverErrorResponse)"

definition DeleteWorkspaceHandler :: "'s app \<Rightarrow> 'b http_request \<Rightarrow> ('s, unit http_response) bact" where
  "DeleteWorkspaceHandler app r =
     (let namespace = hq_Namespace r; workspaceName = hq_Name r
      in when_valid app errMsgPathParamsInvalid
           (ValidateKubernetesNamespaceName (app_Lib app) NamespacePathParam namespace @
            ValidateWorkspaceName (app_Lib app) ResourceNamePathParam workspaceName)
           (with_auth app r [NewResourcePolicy VerbDelete Workspaces namespace workspaceName] (\<lambda>_.
              with_result (DeleteWorkspace (app_Client app) namespace workspaceName) (delete_workspace_error app)
                (\<lambda>_. DeletedResponse))))"

definition pause_workspace_error :: "'s app \<Rightarrow> backend_error \<Rightarrow> HTTPError" where
  "pause_workspace_error app err =
     (if errors_Is ErrWorkspaceNotFound err then notFoundResponse
      else if errors_Is ErrWorkspaceInvalidState err
      then conflictResponse (app_Lib app) err
             (\<lparr>stc_Type = [], stc_Message = be_Error (app_Lib app) err, stc_Field = []\<rparr> # StatusCausesFromAPIStatus err)
      else serverErrorResponse)"

definition PauseActionWorkspaceHandler ::
  "'s app \<Rightarrow> WorkspaceActionPause http_request \<Rightarrow> ('s, WorkspaceActionPause http_response) bact" where
  "PauseActionWorkspaceHandler app r =
     (let namespace = hq_Namespace r; workspaceName = hq_Name r
      in when_valid app errMsgPathParamsInvalid
           (ValidateKubernetesNamespaceName (app_Lib app) NamespacePathParam namespace @
            ValidateWorkspaceName (app_Lib app) ResourceNamePathParam workspaceName)
           (with_body app r (\<lambda>path d. []) (\<lambda>workspaceActionPause.
            with_auth app r [NewResourcePolicy VerbUpdate Workspaces namespace workspaceName] (\<lambda>_.
            with_result (HandlePauseAction (app_Client app) namespace workspaceName workspaceActionPause)
              (pause_workspace_error app) DataResponse))))"

section \<open>Lemmas\<close>

lemma handler_error_statuses:
  "he_StatusCode (get_workspace_error err) \<in> {404, 500}"
  "he_StatusCode (create_workspace_error app err) \<in> {403, 409, 422, 500}"
  "he_StatusCode (update_workspace_error app err) \<in> {403, 404, 409, 422, 500}"
  "he_StatusCode (delete_workspace_error app err) \<in> {404, 409, 500}"
  "he_StatusCode (pause_workspace_error app err) \<in> {404, 409, 500}"
  by (simp_all add: get_workspace_error_def create_workspace_error_def update_workspace_error_def
      delete_workspace_error_def pause_workspace_error_def split: option.split)

lemma handler_statuses:
  "statuses_in {200, 401, 403, 404, 422, 500} (GetWorkspaceHandler app r)"
  "statuses_in {200, 401, 403, 404, 422, 500} (GetWorkspacePodTemplateDetailsHandler app r)"
  "statuses_in {200, 401, 403, 422, 500} (getWorkspacesHandler app r)"
  "hq_Namespace r = [] \<Longrightarrow> statuses_in {200, 401, 403, 500} (getWorkspacesHandler app r)"
  "statuses_in {201, 400, 401, 403, 409, 413, 415, 422, 500} (CreateWorkspaceHandler app rc)"
  "statuses_in {200, 400, 401, 403, 404, 409, 413, 415, 422, 500} (UpdateWorkspaceHandler app ru)"
  "statuses_in {204, 401, 403, 404, 409, 422, 500} (DeleteWorkspaceHandler app r)"
  "statuses_in {200, 400, 401, 403, 404, 409, 413, 415, 422, 500} (PauseActionWorkspaceHandler app rp)"
  unfolding GetWorkspaceHandler_def GetWorkspacePodTemplateDetailsHandler_def getWorkspacesHandler_def
    CreateWorkspaceHandler_def UpdateWorkspaceHandler_def DeleteWorkspaceHandler_def PauseActionWorkspaceHandler_def Let_def
  using handler_error_statuses by (intro status_intros; fastforce)+

lemma b_spec_read_only: "b_pure m \<Longrightarrow> b_spec 0 P (\<lambda>x. True) m"
  by (rule b_spec_pure) simp_all

lemma b_pure_option [b_pure_intros]: "b_pure (b_option x)"
  by (cases x) (simp_all add: b_option_def b_pure_basic)

lemma b_pure_get_kind [b_pure_intros]: "b_pure (get_kind_if_exists C name)"
  unfolding get_kind_if_exists_def by (auto split: sum.split intro!: b_pure_intros)

lemma b_pure_models_loop [b_pure_intros]: "b_pure (workspace_models_loop B cfg C ws)"
  by (induction ws) (auto intro!: b_pure_intros)

lemma b_pure_reads [b_pure_intros]:
  "b_pure (GetWorkspace C ns name)" "b_pure (GetWorkspaceDetails C ns name)"
  "b_pure (GetAllWorkspaces B cfg C)" "b_pure (GetWorkspaces B cfg C ns)"
  unfolding GetWorkspace_def GetWorkspaceDetails_def GetAllWorkspaces_def GetWorkspaces_def getWorkspaceModels_def
  by (intro b_pure_intros)+

lemma b_spec_DeleteWorkspace: "P (BDeleteWorkspace ns name) \<Longrightarrow> b_spec 1 P (\<lambda>x. True) (DeleteWorkspace C ns name)"
  unfolding DeleteWorkspace_def
  by (rule b_spec_map_error, rule b_spec_mono [OF b_spec_write]) simp_all

lemma b_spec_HandlePauseAction:
  "P (BPatchWorkspace ns name (pause_patch (wap_Paused action))) \<Longrightarrow>
   b_spec 1 P (\<lambda>x. True) (HandlePauseAction C ns name action)"
  unfolding HandlePauseAction_def Let_def
  by (rule b_spec_write_bind [OF b_spec_map_error [OF b_spec_write]]) (simp_all add: b_spec_return)

section \<open>Properties\<close>

text \<open>
  Every request for Workspaces is answered, whatever the cluster, the authenticator and the
  authorizer do (a panic becomes a server error), and the status of the answer is one of those the
  API documents for the operation.
\<close>

theorem workspace_handlers_answer:
  "(\<exists>resp s'. recoverPanic (GetWorkspaceHandler app r) s = (BOk resp, s') \<and>
      status_code resp \<in> {200, 401, 403, 404, 422, 500}) \<and>
   (\<exists>resp s'. recoverPanic (GetWorkspacePodTemplateDetailsHandler app r) s = (BOk resp, s') \<and>
      status_code resp \<in> {200, 401, 403, 404, 422, 500}) \<and>
   (\<exists>resp s'. recoverPanic (GetWorkspacesByNamespaceHandler app r) s = (BOk resp, s') \<and>
      status_code resp \<in> {200, 401, 403, 422, 500}) \<and>
   (\<exists>resp s'. recoverPanic (GetAllWorkspacesHandler app (r\<lparr>hq_Namespace := []\<rparr>)) s = (BOk resp, s') \<and>
      status_code resp \<in> {200, 401, 403, 500}) \<and>
   (\<exists>resp s'. recoverPanic (CreateWorkspaceHandler app rc) s = (BOk resp, s') \<and>
      status_code resp \<in> {201, 400, 401, 403, 409, 413, 415, 422, 500}) \<and>
   (\<exists>resp s'. recoverPanic (UpdateWorkspaceHandler app ru) s = (BOk resp, s') \<and>
      status_code resp \<in> {200, 400, 401, 403, 404, 409, 413, 415, 422, 500}) \<and>
   (\<exists>resp s'. recoverPanic (DeleteWorkspaceHandler app r) s = (BOk resp, s') \<and>
      status_code resp \<in> {204, 401, 403, 404, 409, 422, 500}) \<and>
   (\<exists>resp s'. recoverPanic (PauseActionWorkspaceHandler app rp) s = (BOk resp, s') \<and>
      status_code resp \<in> {200, 400, 401, 403, 404, 409, 413, 415, 422, 500})"
  unfolding GetWorkspacesByNamespaceHandler_def GetAllWorkspacesHandler_def
  by (intro conjI; rule statuses_in_recover, rule handler_statuses; simp)

lemma GetWorkspaceHandler_authorized:
  "b_spec 0 P (on_success (\<exists>u. authorized app r VerbGet Workspaces (hq_Namespace r) (hq_Name r) u))
      (GetWorkspaceHandler app r)"
  unfolding GetWorkspaceHandler_def Let_def
  by (intro handler_intros, rule b_spec_read_only, rule b_pure_reads) blast

lemma GetWorkspacePodTemplateDetailsHandler_authorized:
  "b_spec 0 P (on_success (\<exists>u. authorized app r VerbGet Workspaces (hq_Namespace r) (hq_Name r) u))
      (GetWorkspacePodTemplateDetailsHandler app r)"
  unfolding GetWorkspacePodTemplateDetailsHandler_def Let_def
  by (intro handler_intros, rule b_spec_read_only, rule b_pure_reads) blast

lemma getWorkspacesHandler_authorized:
  "b_spec 0 P (on_success (\<exists>u. authorized app r VerbList Workspaces (hq_Namespace r) [] u)) (getWorkspacesHandler app r)"
  unfolding getWorkspacesHandler_def Let_def
  by (intro handler_intros, rule b_spec_read_only, intro b_pure_if b_pure_reads) blast

lemma CreateWorkspaceHandler_authorized:
  "b_spec 1 (\<lambda>c. \<exists>create u. hq_Body rc = JsonValue (Some create) \<and>
       authorized app rc VerbCreate Workspaces (hq_Namespace rc) (wc_Name create) u \<and>
       writes_as BCreateWorkspace (creates (app_Lib app) (app_Client app) (Some (ui_Name u)) create (hq_Namespace rc)) c)
     (on_success (\<exists>create u. hq_Body rc = JsonValue (Some create) \<and>
       authorized app rc VerbCreate Workspaces (hq_Namespace rc) (wc_Name create) u))
     (CreateWorkspaceHandler app rc)"
  unfolding CreateWorkspaceHandler_def Let_def
  by (intro handler_intros, rule b_spec_weaken [OF b_spec_CreateWorkspace]) blast+

lemma UpdateWorkspaceHandler_authorized:
  "b_spec 1 (\<lambda>c. \<exists>update u. hq_Body ru = JsonValue (Some update) \<and>
       authorized app ru VerbUpdate Workspaces (hq_Namespace ru) (hq_Name ru) u \<and>
       writes_as BUpdateWorkspace
         (updates (app_Lib app) (app_Client app) (Some (ui_Name u)) update (hq_Namespace ru) (hq_Name ru)) c)
     (on_success (\<exists>u. authorized app ru VerbUpdate Workspaces (hq_Namespace ru) (hq_Name ru) u))
     (UpdateWorkspaceHandler app ru)"
  unfolding UpdateWorkspaceHandler_def Let_def
  by (intro handler_intros, rule b_spec_weaken [OF b_spec_UpdateWorkspace]) blast+

lemma DeleteWorkspaceHandler_authorized:
  "b_spec 1 (\<lambda>c. c = BDeleteWorkspace (hq_Namespace r) (hq_Name r) \<and>
       (\<exists>u. authorized app r VerbDelete Workspaces (hq_Namespace r) (hq_Name r) u))
     (on_success (\<exists>u. authorized app r VerbDelete Workspaces (hq_Namespace r) (hq_Name r) u))
     (DeleteWorkspaceHandler app r)"
  unfolding DeleteWorkspaceHandler_def Let_def
  by (intro handler_intros, rule b_spec_DeleteWorkspace) blast+

lemma PauseActionWorkspaceHandler_authorized:
  "b_spec 1 (\<lambda>c. \<exists>action u. hq_Body rp = JsonValue (Some action) \<and>
       c = BPatchWorkspace (hq_Namespace rp) (hq_Name rp) (pause_patch (wap_Paused action)) \<and>
       authorized app rp VerbUpdate Workspaces (hq_Namespace rp) (hq_Name rp) u)
     (on_success (\<exists>u. authorized app rp VerbUpdate Workspaces (hq_Namespace rp) (hq_Name rp) u))
     (PauseActionWorkspaceHandler app rp)"
  unfolding PauseActionWorkspaceHandler_def Let_def
  by (intro handler_intros, rule b_spec_HandlePauseAction) blast+

text \<open>
  Who is permitted something when the world is in a given state: an authenticated user, if the authorizer, asked
  there, allows it. A handler is \<open>barred\<close> in a state if it ends with an error response that does not depend on the
  cluster: with any client in the place of the real one, the response and everything else are the same, so that the
  cluster is not even read.
\<close>

definition permitted_at ::
  "'s app \<Rightarrow> 'b http_request \<Rightarrow> ResourcePolicyVerb \<Rightarrow> ResourcePolicyResource \<Rightarrow> string \<Rightarrow> string \<Rightarrow> user_info \<Rightarrow> 's \<Rightarrow> bool" where
  "permitted_at app r verb resource ns name u w \<longleftrightarrow>
     app_AuthN app (hq_Headers r) = Inr (Some u) \<and>
     fst (app_AuthZ app (AttributesFor (NewResourcePolicy verb resource ns name) u) w) = Inr DecisionAllow"

definition barred :: "('s app \<Rightarrow> ('s, 'd http_response) bact) \<Rightarrow> 's app \<Rightarrow> 's brun \<Rightarrow> bool" where
  "barred h app s \<longleftrightarrow>
     (\<exists>e s'. br_calls s' = br_calls s \<and> (\<forall>C. h (app\<lparr>app_Client := C\<rparr>) s = (BOk (ErrorResponse e), s')))"

definition needs_permission :: "('s app \<Rightarrow> ('s, 'd http_response) bact) \<Rightarrow> 's app \<Rightarrow> (user_info \<Rightarrow> 's \<Rightarrow> bool) \<Rightarrow> bool" where
  "needs_permission h app Q \<longleftrightarrow> (\<forall>s. (\<exists>u. Q u (br_world s)) \<or> barred h app s)"

lemma barred_error: "(\<And>C. h (app\<lparr>app_Client := C\<rparr>) s = (BOk (ErrorResponse e), s)) \<Longrightarrow> barred h app s"
  by (auto simp: barred_def)

lemma with_auth_barred:
  assumes "\<nexists>u. permitted_at app r verb resource ns name u (br_world s)"
  shows "barred (\<lambda>app. with_auth app r [NewResourcePolicy verb resource ns name] (k app)) app s"
proof (cases "app_AuthN app (hq_Headers r)")
  case (Inr auth)
  show ?thesis
  proof (cases auth)
    case (Some u)
    obtain res w where ask: "app_AuthZ app (AttributesFor (NewResourcePolicy verb resource ns name) u) (br_world s) = (res, w)"
      by fastforce
    with assms Inr Some have "res \<noteq> Inr DecisionAllow"
      by (auto simp: permitted_at_def)
    with Inr Some ask show ?thesis
      unfolding barred_def
      by (cases res) (auto simp: with_auth_def requireAuth_def b_bind_def b_try_def b_return_def)
  qed (use Inr in \<open>auto intro!: barred_error simp: with_auth_def requireAuth_def b_bind_def b_return_def\<close>)
qed (auto intro!: barred_error simp: with_auth_def requireAuth_def b_bind_def b_return_def)

text \<open>The validation of the path before and the decoding of the body do not read the cluster either.\<close>

lemma when_valid_barred:
  assumes "\<And>C. valErrs (app\<lparr>app_Client := C\<rparr>) = valErrs app" and "valErrs app = [] \<Longrightarrow> barred k app s"
  shows "barred (\<lambda>app. when_valid app msg (valErrs app) (k app)) app s"
proof (cases "valErrs app = []")
  case True
  with assms show ?thesis
    by (simp add: barred_def when_valid_def)
qed (use assms(1) in \<open>auto intro!: barred_error simp: when_valid_def b_return_def\<close>)

lemma app_client_http: "app_Http (app\<lparr>app_Client := C\<rparr>) = app_Http app"
  by simp

lemma decode_body_client [simp]: "decode_body (app\<lparr>app_Client := C\<rparr>) r validate = decode_body app r validate"
  unfolding decode_body_def app_client_http ..

lemma with_body_barred:
  assumes "\<And>d. hq_Body r = JsonValue (Some d) \<Longrightarrow> barred (\<lambda>app. k app d) app s"
    and "\<And>C. validate (app\<lparr>app_Client := C\<rparr>) = validate app"
  shows "barred (\<lambda>app. with_body app r (validate app) (k app)) app s"
proof (cases "decode_body app r (validate app)")
  case (Inr d)
  with assms decode_body_Inr [OF Inr] show ?thesis
    by (simp add: barred_def with_body_def)
qed (use assms(2) in \<open>auto intro!: barred_error simp: with_body_def b_return_def\<close>)

lemma needs_permissionI: "(\<And>s. \<nexists>u. Q u (br_world s) \<Longrightarrow> barred h app s) \<Longrightarrow> needs_permission h app Q"
  by (auto simp: needs_permission_def)

lemma handlers_need_permission:
  "needs_permission (\<lambda>app. GetWorkspaceHandler app r) app (permitted_at app r VerbGet Workspaces (hq_Namespace r) (hq_Name r))"
  "needs_permission (\<lambda>app. GetWorkspacePodTemplateDetailsHandler app r) app
     (permitted_at app r VerbGet Workspaces (hq_Namespace r) (hq_Name r))"
  "needs_permission (\<lambda>app. getWorkspacesHandler app r) app (permitted_at app r VerbList Workspaces (hq_Namespace r) [])"
  "needs_permission (\<lambda>app. UpdateWorkspaceHandler app ru) app
     (permitted_at app ru VerbUpdate Workspaces (hq_Namespace ru) (hq_Name ru))"
  "needs_permission (\<lambda>app. DeleteWorkspaceHandler app r) app
     (permitted_at app r VerbDelete Workspaces (hq_Namespace r) (hq_Name r))"
  unfolding GetWorkspaceHandler_def GetWorkspacePodTemplateDetailsHandler_def getWorkspacesHandler_def
    UpdateWorkspaceHandler_def DeleteWorkspaceHandler_def Let_def
  by (rule needs_permissionI, rule when_valid_barred, simp, erule with_auth_barred)+

lemma PauseActionWorkspaceHandler_needs_permission:
  "needs_permission (\<lambda>app. PauseActionWorkspaceHandler app rp) app
     (permitted_at app rp VerbUpdate Workspaces (hq_Namespace rp) (hq_Name rp))"
  unfolding PauseActionWorkspaceHandler_def Let_def
  by (rule needs_permissionI, rule when_valid_barred, simp, rule with_body_barred, erule with_auth_barred) simp

lemma CreateWorkspaceHandler_needs_permission:
  "needs_permission (\<lambda>app. CreateWorkspaceHandler app rc) app
     (\<lambda>u w. \<exists>create. hq_Body rc = JsonValue (Some create) \<and>
        permitted_at app rc VerbCreate Workspaces (hq_Namespace rc) (wc_Name create) u w)"
  unfolding CreateWorkspaceHandler_def Let_def
  by (rule needs_permissionI, rule when_valid_barred, simp, rule with_body_barred, rule with_auth_barred) auto

text \<open>
  C19. Nobody reads or writes a Workspace without permission. First, whoever sends the request and in whatever state the
  world is: unless the request comes from an authenticated user whom the authorizer, asked in that state, allows
  exactly the verb of the operation on exactly its object (for a creation, the name in the body), the answer is an error that
  does not depend on the cluster, which is neither read nor written. Second, the read operations write nothing
  and answer with data only to a user whom the authorizer allowed to get or list Workspaces there; a write
  operation issues at most one write, on behalf of an authenticated user whom the authorizer allowed
  that verb on that Workspace, and it is the write the request asks for (for create and update, under
  the guards of the repository and with that user in the audit annotations).
\<close>

theorem workspace_handlers_authorized:
  "needs_permission (\<lambda>app. GetWorkspaceHandler app r) app (permitted_at app r VerbGet Workspaces (hq_Namespace r) (hq_Name r)) \<and>
   needs_permission (\<lambda>app. GetWorkspacePodTemplateDetailsHandler app r) app
     (permitted_at app r VerbGet Workspaces (hq_Namespace r) (hq_Name r)) \<and>
   needs_permission (\<lambda>app. getWorkspacesHandler app r) app (permitted_at app r VerbList Workspaces (hq_Namespace r) []) \<and>
   needs_permission (\<lambda>app. CreateWorkspaceHandler app rc) app
     (\<lambda>u w. \<exists>create. hq_Body rc = JsonValue (Some create) \<and>
        permitted_at app rc VerbCreate Workspaces (hq_Namespace rc) (wc_Name create) u w) \<and>
   needs_permission (\<lambda>app. UpdateWorkspaceHandler app ru) app
     (permitted_at app ru VerbUpdate Workspaces (hq_Namespace ru) (hq_Name ru)) \<and>
   needs_permission (\<lambda>app. DeleteWorkspaceHandler app r) app
     (permitted_at app r VerbDelete Workspaces (hq_Namespace r) (hq_Name r)) \<and>
   needs_permission (\<lambda>app. PauseActionWorkspaceHandler app rp) app
     (permitted_at app rp VerbUpdate Workspaces (hq_Namespace rp) (hq_Name rp)) \<and>
   b_spec 0 P (on_success (\<exists>u. authorized app r VerbGet Workspaces (hq_Namespace r) (hq_Name r) u))
     (GetWorkspaceHandler app r) \<and>
   b_spec 0 P (on_success (\<exists>u. authorized app r VerbGet Workspaces (hq_Namespace r) (hq_Name r) u))
     (GetWorkspacePodTemplateDetailsHandler app r) \<and>
   b_spec 0 P (on_success (\<exists>u. authorized app r VerbList Workspaces (hq_Namespace r) [] u)) (getWorkspacesHandler app r) \<and>
   b_spec 1 (\<lambda>c. \<exists>create u. hq_Body rc = JsonValue (Some create) \<and>
       authorized app rc VerbCreate Workspaces (hq_Namespace rc) (wc_Name create) u \<and>
       writes_as BCreateWorkspace (creates (app_Lib app) (app_Client app) (Some (ui_Name u)) create (hq_Namespace rc)) c)
     (on_success (\<exists>create u. hq_Body rc = JsonValue (Some create) \<and> authorized app rc VerbCreate Workspaces (hq_Namespace rc) (wc_Name create) u))
     (CreateWorkspaceHandler app rc) \<and>
   b_spec 1 (\<lambda>c. \<exists>update u. hq_Body ru = JsonValue (Some update) \<and>
       authorized app ru VerbUpdate Workspaces (hq_Namespace ru) (hq_Name ru) u \<and>
       writes_as BUpdateWorkspace
         (updates (app_Lib app) (app_Client app) (Some (ui_Name u)) update (hq_Namespace ru) (hq_Name ru)) c)
     (on_success (\<exists>u. authorized app ru VerbUpdate Workspaces (hq_Namespace ru) (hq_Name ru) u))
     (UpdateWorkspaceHandler app ru) \<and>
   b_spec 1 (\<lambda>c. c = BDeleteWorkspace (hq_Namespace r) (hq_Name r) \<and>
       (\<exists>u. authorized app r VerbDelete Workspaces (hq_Namespace r) (hq_Name r) u))
     (on_success (\<exists>u. authorized app r VerbDelete Workspaces (hq_Namespace r) (hq_Name r) u))
     (DeleteWorkspaceHandler app r) \<and>
   b_spec 1 (\<lambda>c. \<exists>action u. hq_Body rp = JsonValue (Some action) \<and>
       c = BPatchWorkspace (hq_Namespace rp) (hq_Name rp) (pause_patch (wap_Paused action)) \<and>
       authorized app rp VerbUpdate Workspaces (hq_Namespace rp) (hq_Name rp) u)
     (on_success (\<exists>u. authorized app rp VerbUpdate Workspaces (hq_Namespace rp) (hq_Name rp) u))
     (PauseActionWorkspaceHandler app rp)"
  by (intro conjI handlers_need_permission CreateWorkspaceHandler_needs_permission
      PauseActionWorkspaceHandler_needs_permission GetWorkspaceHandler_authorized GetWorkspacePodTemplateDetailsHandler_authorized
      getWorkspacesHandler_authorized CreateWorkspaceHandler_authorized UpdateWorkspaceHandler_authorized
      DeleteWorkspaceHandler_authorized PauseActionWorkspaceHandler_authorized)

text \<open>
  The errors of the API client: answers of the API server with a reason and causes, or failures of the connection,
  but none of the errors that the repository itself makes.
\<close>

definition api_error :: "backend_error \<Rightarrow> bool" where
  "api_error err \<longleftrightarrow> as_restricted err = None \<and> FieldErrorsFromInternalValidationError err = None \<and>
     (\<forall>x. \<not> errors_Is x err)"

definition update_client_errors :: "'s backend \<Rightarrow> bool" where
  "update_client_errors C \<longleftrightarrow>
     (\<forall>ns name w err w'. b_GetWorkspace C ns name w = (Inl err, w') \<longrightarrow> api_error err) \<and>
     (\<forall>name w err w'. b_GetWorkspaceKind C name w = (Inl err, w') \<longrightarrow> api_error err) \<and>
     (\<forall>name w err w'. b_GetNamespace C name w = (Inl err, w') \<longrightarrow> api_error err) \<and>
     (\<forall>x w err w'. b_UpdateWorkspace C x w = (Inl err, w') \<longrightarrow> api_error err)"

lemma update_client_errorsD:
  "update_client_errors C \<Longrightarrow> b_GetWorkspace C ns name w = (Inl err, w') \<Longrightarrow> api_error err"
  "update_client_errors C \<Longrightarrow> b_GetWorkspaceKind C kind w = (Inl err, w') \<Longrightarrow> api_error err"
  "update_client_errors C \<Longrightarrow> b_GetNamespace C ns w = (Inl err, w') \<Longrightarrow> api_error err"
  "update_client_errors C \<Longrightarrow> b_UpdateWorkspace C x w = (Inl err, w') \<Longrightarrow> api_error err"
  unfolding update_client_errors_def by blast+

text \<open>
  The table of responses: to an error of the API server (\<open>missing\<close> tells whether it was asked for the Workspace
  itself), to a kind that is hidden or restricted, and to invalid values.
\<close>

definition api_rejection :: "'s app \<Rightarrow> bool \<Rightarrow> backend_error \<Rightarrow> HTTPError" where
  "api_rejection app missing err =
     (if missing \<and> reason_of err = Some ReasonNotFound then simple_error 404 errMsgNotFound
      else if reason_of err = Some ReasonInvalid
      then failedValidationResponse (app_Http app) errMsgKubernetesValidation [] (StatusCausesFromAPIStatus err)
      else simple_error 500 ''the server encountered a problem and could not process your request'')"

definition kind_rejection :: "WorkspaceKind \<Rightarrow> EvalResult \<Rightarrow> HTTPError" where
  "kind_rejection wk verdict =
     simple_error 403 (''workspace update not allowed: workspace kind '' @ go_quote (wk_Name wk) @
       (if er_APIHide verdict then '' is hidden''
        else '' is restricted'' @
          (case rs_DenyMessage (er_Restrictions verdict) of
             None \<Rightarrow> [] | Some msg \<Rightarrow> if msg = [] then [] else '': '' @ msg)))"

definition invalid_values :: "'s app \<Rightarrow> field_error list \<Rightarrow> HTTPError" where
  "invalid_values app errs = failedValidationResponse (app_Http app) errMsgInternalValidation errs []"

lemma rejection_statuses:
  "he_StatusCode (api_rejection app missing err) =
     (if missing \<and> reason_of err = Some ReasonNotFound then 404 else if reason_of err = Some ReasonInvalid then 422 else 500)"
  "he_StatusCode (kind_rejection wk verdict) = 403" "he_StatusCode (invalid_values app errs) = 422"
  by (simp_all add: api_rejection_def kind_rejection_def invalid_values_def)

lemma update_workspace_error_api:
  assumes "api_error err"
  shows "update_workspace_error app err = api_rejection app False err"
    "update_workspace_error app (not_found_as ErrWorkspaceNotFound err) = api_rejection app True err"
  using assms by (auto simp: update_workspace_error_def api_error_def api_rejection_def not_found_as_def
      serverErrorResponse_def notFoundResponse_def)

lemma update_workspace_error_rules:
  "enforceWorkspaceKindFilterRules K wk labels wsMutationTypeUpdate = Some err \<Longrightarrow>
   update_workspace_error app err = kind_rejection wk (EvaluateWorkspaceKindFilterScopeRule K wk labels)"
  by (auto simp: enforceWorkspaceKindFilterRules_def update_workspace_error_def policyDeniedResponse_def sendForbidden_def
      kind_rejection_def WorkspaceKindRestrictedError_Error_def Let_def split: if_splits option.split)

lemma enforce_rules_None:
  "enforceWorkspaceKindFilterRules K wk labels m = None \<longleftrightarrow>
   \<not> er_APIHide (EvaluateWorkspaceKindFilterScopeRule K wk labels) \<and>
   \<not> rs_Deny (er_Restrictions (EvaluateWorkspaceKindFilterScopeRule K wk labels))"
  by (simp add: enforceWorkspaceKindFilterRules_def Let_def)

lemma update_workspace_error_values: "update_workspace_error app (InternalValidationError errs) = invalid_values app errs"
  by (simp add: update_workspace_error_def invalid_values_def)

lemma update_workspace_error_stale:
  "update_workspace_error app (SentinelError ErrWorkspaceRevisionConflict) =
   internalConflictResponse (app_Lib app) (SentinelError ErrWorkspaceRevisionConflict)"
  by (simp add: update_workspace_error_def)

lemma with_result_run:
  "m s = (BErr err, s') \<Longrightarrow> with_result m f g s = (BOk (ErrorResponse (f err)), s')"
  "m s = (BOk x, s') \<Longrightarrow> with_result m f g s = (BOk (g x), s')"
  by (simp_all add: with_result_def b_bind_def b_attempt_def b_return_def)

lemma with_result_cong: "m s = m' s' \<Longrightarrow> with_result m f g s = with_result m' f g s'"
  by (simp add: with_result_def b_bind_def b_attempt_def)

text \<open>The run of the handler once the request is accepted.\<close>

lemma UpdateWorkspaceHandler_run:
  assumes "ValidateKubernetesNamespaceName (app_Lib app) NamespacePathParam (hq_Namespace r) = []"
    and "ValidateWorkspaceName (app_Lib app) ResourceNamePathParam (hq_Name r) = []"
    and "requireAuth app r [NewResourcePolicy VerbUpdate Workspaces (hq_Namespace r) (hq_Name r)] s = (BOk (Inr u), s1)"
    and "decode_body app r (WorkspaceUpdate_Validate (app_Lib app)) = Inr update"
  shows "UpdateWorkspaceHandler app r s =
    with_result (UpdateWorkspace (app_Lib app) (app_Client app) (Some (ui_Name u)) update (hq_Namespace r) (hq_Name r))
      (update_workspace_error app) DataResponse s1"
  using assms by (simp add: UpdateWorkspaceHandler_def when_valid_def with_auth_def with_body_def b_bind_def Let_def)

text \<open>The option rules that an update has to satisfy: those of the options that it changes.\<close>

definition changed_option_errors :: "k8s_lib \<Rightarrow> WorkspaceKind \<Rightarrow> str_map option \<Rightarrow> Workspace \<Rightarrow> WorkspaceUpdate \<Rightarrow> field_error list" where
  "changed_option_errors K wk labels ws update =
     (let new = ptm_Options (wu_PodTemplate update);
          ctx = BuildEvalContextForImageAndPodCfg K wk labels (ptom_ImageConfig new) (ptom_PodConfig new)
      in (if ptom_ImageConfig new = wpo_ImageConfig (w_Options ws) then []
          else enforceImageConfigFilterRule wk ctx (ptom_ImageConfig new)) @
         (if ptom_PodConfig new = wpo_PodConfig (w_Options ws) then []
          else enforcePodConfigFilterRule wk ctx (ptom_PodConfig new)))"


text \<open>
  The stages of an update in the repository, in their order: how each of them ends it, and what is left to do after
  the last.
\<close>

lemmas update_steps = b_bind_def b_return_def b_throw_def b_read_def b_map_error_def b_try_def b_time_Now_def
  UpdateWorkspace_def ResolveNamespaceLabels_def Let_def

lemma UpdateWorkspace_unread:
  "b_GetWorkspace C ns name (snd (b_Now C (br_world s))) = (Inl err, w) \<Longrightarrow>
   UpdateWorkspace B C actor update ns name s = (BErr (not_found_as ErrWorkspaceNotFound err), s\<lparr>br_world := w\<rparr>)"
  by (cases "b_Now C (br_world s)") (simp add: update_steps)

lemma UpdateWorkspace_stale:
  "b_GetWorkspace C ns name (snd (b_Now C (br_world s))) = (Inr ws, w) \<Longrightarrow>
   CalculateRevision (w_Meta ws) \<noteq> wu_Revision update \<Longrightarrow>
   UpdateWorkspace B C actor update ns name s = (BErr (SentinelError ErrWorkspaceRevisionConflict), s\<lparr>br_world := w\<rparr>)"
  by (cases "b_Now C (br_world s)") (simp add: update_steps)

lemma UpdateWorkspace_kind_unread:
  "b_GetWorkspace C ns name (snd (b_Now C (br_world s))) = (Inr ws, w) \<Longrightarrow>
   CalculateRevision (w_Meta ws) = wu_Revision update \<Longrightarrow>
   b_GetWorkspaceKind C (ws_Kind (w_Spec ws)) w = (Inl err, w2) \<Longrightarrow>
   UpdateWorkspace B C actor update ns name s = (BErr err, s\<lparr>br_world := w2\<rparr>)"
  by (cases "b_Now C (br_world s)") (simp add: update_steps)

lemma UpdateWorkspace_namespace_unread:
  "b_GetWorkspace C ns name (snd (b_Now C (br_world s))) = (Inr ws, w) \<Longrightarrow>
   CalculateRevision (w_Meta ws) = wu_Revision update \<Longrightarrow>
   b_GetWorkspaceKind C (ws_Kind (w_Spec ws)) w = (Inr wk, w2) \<Longrightarrow>
   b_GetNamespace C ns w2 = (Inl err, w3) \<Longrightarrow> ns \<noteq> [] \<Longrightarrow>
   UpdateWorkspace B C actor update ns name s =
     (BErr (if reason_of err = Some ReasonNotFound
        then InternalValidationError
          [FieldInvalid NamespacePathParam ns (''namespace '' @ go_quote ns @ '' not found'')]
        else err), s\<lparr>br_world := w3\<rparr>)"
  by (cases "b_Now C (br_world s)") (simp add: update_steps)

lemma UpdateWorkspace_ruled:
  assumes "b_GetWorkspace C ns name (snd (b_Now C (br_world s))) = (Inr ws, w)"
    and "CalculateRevision (w_Meta ws) = wu_Revision update"
    and "b_GetWorkspaceKind C (ws_Kind (w_Spec ws)) w = (Inr wk, w2)"
    and "b_GetNamespace C ns w2 = (Inr n, w3)" and "ns \<noteq> []"
  defines "labels \<equiv> Some (maps_Copy [] (om_Labels n))"
  shows "UpdateWorkspace B C actor update ns name s =
    (case enforceWorkspaceKindFilterRules (bl_K8s B) wk labels wsMutationTypeUpdate of
       Some err \<Rightarrow> (BErr err, s\<lparr>br_world := w3\<rparr>)
     | None \<Rightarrow>
         if changed_option_errors (bl_K8s B) wk labels ws update \<noteq> []
         then (BErr (InternalValidationError (changed_option_errors (bl_K8s B) wk labels ws update)), s\<lparr>br_world := w3\<rparr>)
         else update_and_store B C actor update ws (fst (b_Now C (br_world s))) (s\<lparr>br_world := w3\<rparr>))"
  using assms(1-5) unfolding labels_def
  by (cases "b_Now C (br_world s)") (simp add: update_steps changed_option_errors_def split: option.split)

text \<open>
  The last stage: the volumes and Secrets to mount are checked, and the object is sent to the API server.
\<close>

definition stored_answer ::
  "'s app \<Rightarrow> user_info \<Rightarrow> WorkspaceUpdate \<Rightarrow> Workspace \<Rightarrow> go_time \<Rightarrow> 's brun
   \<Rightarrow> WorkspaceUpdate http_response bres \<times> 's brun \<Rightarrow> bool" where
  "stored_answer app u update ws now s out \<longleftrightarrow>
     (case ApplyWorkspaceUpdateModelToWorkspace (app_Client app) update ws s of
       (BErr err, s') \<Rightarrow> br_calls s' = br_calls s \<and>
         (\<forall>errs. err = InternalValidationError errs \<longrightarrow> out = (BOk (ErrorResponse (invalid_values app errs)), s')) \<and>
         (api_error err \<longrightarrow> out = (BOk (ErrorResponse (api_rejection app False err)), s'))
     | (BPanic, s') \<Rightarrow> br_calls s' = br_calls s \<and> out = (BPanic, s')
     | (BOk obj, s') \<Rightarrow>
         let obj = obj\<lparr>w_Meta := UpdateObjectMetaForUpdate (app_Lib app) (w_Meta obj) (Some (ui_Name u)) now\<rparr>;
             (stored, w) = b_UpdateWorkspace (app_Client app) obj (br_world s')
         in out = (BOk (case stored of
                     Inl err \<Rightarrow> ErrorResponse (api_rejection app True err)
                   | Inr ws \<Rightarrow> DataResponse (NewWorkspaceUpdateModelFromWorkspace ws)),
                   s'\<lparr>br_world := w, br_calls := br_calls s @ [BUpdateWorkspace obj]\<rparr>))"

lemma stored_answer:
  assumes "update_client_errors (app_Client app)"
  shows "stored_answer app u update ws now s
    (with_result (update_and_store (app_Lib app) (app_Client app) (Some (ui_Name u)) update ws now)
      (update_workspace_error app) DataResponse s)"
proof -
  obtain r s' where run: "ApplyWorkspaceUpdateModelToWorkspace (app_Client app) update ws s = (r, s')"
    by fastforce
  have calls: "br_calls s' = br_calls s"
    by (rule b_pureD [OF b_pure_ApplyUpdate run])
  show ?thesis
  proof (cases r)
    case (BOk obj)
    let ?obj = "obj\<lparr>w_Meta := UpdateObjectMetaForUpdate (app_Lib app) (w_Meta obj) (Some (ui_Name u)) now\<rparr>"
    obtain stored w where wr: "b_UpdateWorkspace (app_Client app) ?obj (br_world s') = (stored, w)"
      by fastforce
    show ?thesis
      using update_client_errorsD(4) [OF assms, of ?obj "br_world s'" _ w] run calls wr unfolding BOk
      by (cases stored)
        (simp_all add: stored_answer_def update_and_store_def with_result_def b_bind_def b_attempt_def b_write_def
          b_map_error_def b_return_def Let_def update_workspace_error_api)
  qed (use run calls in \<open>simp_all add: stored_answer_def update_and_store_def with_result_def b_bind_def b_attempt_def
      b_return_def update_workspace_error_api update_workspace_error_values\<close>)
qed

text \<open>What the rules of the kind and of the changed options answer.\<close>

lemma ruled_answer:
  assumes "update_client_errors (app_Client app)"
    and m: "m s =
      (case enforceWorkspaceKindFilterRules K wk labels wsMutationTypeUpdate of
         Some err \<Rightarrow> (BErr err, s')
       | None \<Rightarrow>
           if changed_option_errors K wk labels ws update \<noteq> []
           then (BErr (InternalValidationError (changed_option_errors K wk labels ws update)), s')
           else update_and_store (app_Lib app) (app_Client app) (Some (ui_Name u)) update ws now s')"
  shows "let verdict = EvaluateWorkspaceKindFilterScopeRule K wk labels;
             errs = changed_option_errors K wk labels ws update;
             out = with_result m (update_workspace_error app) DataResponse s
         in if er_APIHide verdict \<or> rs_Deny (er_Restrictions verdict)
            then out = (BOk (ErrorResponse (kind_rejection wk verdict)), s')
            else if errs \<noteq> [] then out = (BOk (ErrorResponse (invalid_values app errs)), s')
            else stored_answer app u update ws now s' out"
proof (cases "enforceWorkspaceKindFilterRules K wk labels wsMutationTypeUpdate")
  case None
  note rules = enforce_rules_None [THEN iffD1, OF None]
  show ?thesis
  proof (cases "changed_option_errors K wk labels ws update = []")
    case True
    have "with_result m (update_workspace_error app) DataResponse s =
        with_result (update_and_store (app_Lib app) (app_Client app) (Some (ui_Name u)) update ws now)
          (update_workspace_error app) DataResponse s'"
      by (rule with_result_cong) (simp add: m None True)
    with rules True stored_answer [OF assms(1)] show ?thesis
      by simp
  qed (use rules in \<open>simp add: m None with_result_run update_workspace_error_values\<close>)
next
  case (Some err)
  then have "\<not> (\<not> er_APIHide (EvaluateWorkspaceKindFilterScopeRule K wk labels) \<and>
      \<not> rs_Deny (er_Restrictions (EvaluateWorkspaceKindFilterScopeRule K wk labels)))"
    unfolding enforce_rules_None [of _ _ _ wsMutationTypeUpdate, symmetric] by simp
  then show ?thesis
    by (simp add: m Some with_result_run update_workspace_error_rules [OF Some] Let_def)
qed

abbreviation update_rejected ::
  "'s app \<Rightarrow> WorkspaceUpdate http_request \<Rightarrow> 's brun \<Rightarrow> HTTPError \<Rightarrow> 's brun \<Rightarrow> bool" where
  "update_rejected app r s e s' \<equiv> UpdateWorkspaceHandler app r s = (BOk (ErrorResponse e), s')"

text \<open>
  C30. How an update that is allowed to try fails. On a request with valid path and body from an authorized user, in
  this order: the Workspace cannot be read (404 if it does not exist); the revision of the caller is not the current one
  (409 of internal origin); the kind cannot be read; the namespace cannot be read (422 if it does not exist);
  the rules hide the kind or restrict it (403, the message of the rule only in the second case); the rules of a changed
  option refuse it (422 with these errors); a volume or Secret to mount is refused (422); the API server refuses the update
  (404, or 422 with the causes of the server if it finds the object invalid). An error of the API server that is not
  listed is 500, except that it is a 422 with the causes whenever the reason is \<open>Invalid\<close>. Nothing is written in any
  of the cases, but the update itself in the last.
\<close>

theorem UpdateWorkspaceHandler_rejections:
  assumes "ValidateKubernetesNamespaceName (app_Lib app) NamespacePathParam (hq_Namespace r) = []"
    and "ValidateWorkspaceName (app_Lib app) ResourceNamePathParam (hq_Name r) = []"
    and "requireAuth app r [NewResourcePolicy VerbUpdate Workspaces (hq_Namespace r) (hq_Name r)] s = (BOk (Inr u), s1)"
    and "decode_body app r (WorkspaceUpdate_Validate (app_Lib app)) = Inr update"
    and "update_client_errors (app_Client app)"
  shows "br_calls s1 = br_calls s \<and>
    (case b_GetWorkspace (app_Client app) (hq_Namespace r) (hq_Name r) (snd (b_Now (app_Client app) (br_world s1))) of
      (Inl err, w) \<Rightarrow> update_rejected app r s (api_rejection app True err) (s1\<lparr>br_world := w\<rparr>)
    | (Inr ws, w) \<Rightarrow>
      if CalculateRevision (w_Meta ws) \<noteq> wu_Revision update
      then update_rejected app r s (internalConflictResponse (app_Lib app) (SentinelError ErrWorkspaceRevisionConflict)) (s1\<lparr>br_world := w\<rparr>)
      else case b_GetWorkspaceKind (app_Client app) (ws_Kind (w_Spec ws)) w of
        (Inl err, w) \<Rightarrow> update_rejected app r s (api_rejection app False err) (s1\<lparr>br_world := w\<rparr>)
      | (Inr wk, w) \<Rightarrow> case b_GetNamespace (app_Client app) (hq_Namespace r) w of
          (Inl err, w) \<Rightarrow> update_rejected app r s (if reason_of err = Some ReasonNotFound
               then invalid_values app [FieldInvalid NamespacePathParam (hq_Namespace r)
                 (''namespace '' @ go_quote (hq_Namespace r) @ '' not found'')]
               else api_rejection app False err) (s1\<lparr>br_world := w\<rparr>)
        | (Inr ns, w) \<Rightarrow>
          let labels = Some (maps_Copy [] (om_Labels ns));
              verdict = EvaluateWorkspaceKindFilterScopeRule (bl_K8s (app_Lib app)) wk labels;
              errs = changed_option_errors (bl_K8s (app_Lib app)) wk labels ws update
          in if er_APIHide verdict \<or> rs_Deny (er_Restrictions verdict)
             then update_rejected app r s (kind_rejection wk verdict) (s1\<lparr>br_world := w\<rparr>)
             else if errs \<noteq> []
             then update_rejected app r s (invalid_values app errs) (s1\<lparr>br_world := w\<rparr>)
             else stored_answer app u update ws (fst (b_Now (app_Client app) (br_world s1))) (s1\<lparr>br_world := w\<rparr>)
               (UpdateWorkspaceHandler app r s))"
proof -
  note run = UpdateWorkspaceHandler_run [OF assms(1-4)]
  note api = update_client_errorsD [OF assms(5)]
  note ends = with_result_run(1) update_workspace_error_api update_workspace_error_values update_workspace_error_stale
  have ns: "hq_Namespace r \<noteq> []"
    using assms(1) by (auto simp: ValidateKubernetesNamespaceName_def ValidateFieldIsDNS1123Label_def ValidateFieldIsNotEmpty_def)
  have calls: "br_calls s1 = br_calls s"
    using requireAuth_ok [of app r "[NewResourcePolicy VerbUpdate Workspaces (hq_Namespace r) (hq_Name r)]" s] assms(3) by auto
  obtain got w where got: "b_GetWorkspace (app_Client app) (hq_Namespace r) (hq_Name r)
      (snd (b_Now (app_Client app) (br_world s1))) = (got, w)"
    by fastforce
  show ?thesis
  proof (cases got)
    case (Inl err)
    with got calls api(1) show ?thesis by (simp add: run ends UpdateWorkspace_unread)
  next
    case read: (Inr ws)
    show ?thesis
    proof (cases "CalculateRevision (w_Meta ws) = wu_Revision update")
      case False
      with got read calls show ?thesis by (simp add: run ends UpdateWorkspace_stale)
    next
      case current: True
      obtain kind w2 where kind: "b_GetWorkspaceKind (app_Client app) (ws_Kind (w_Spec ws)) w = (kind, w2)"
        by fastforce
      show ?thesis
      proof (cases kind)
        case (Inl err)
        with got read current kind calls api(2) show ?thesis by (simp add: run ends UpdateWorkspace_kind_unread)
      next
        case (Inr wk)
        note kind = kind [unfolded Inr]
        obtain nspace w3 where nspace: "b_GetNamespace (app_Client app) (hq_Namespace r) w2 = (nspace, w3)"
          by fastforce
        show ?thesis
        proof (cases nspace)
          case (Inl err)
          with got read current kind nspace ns calls api(3) show ?thesis
            by (simp add: run ends UpdateWorkspace_namespace_unread)
        next
          case (Inr n)
          let ?m = "UpdateWorkspace (app_Lib app) (app_Client app) (Some (ui_Name u)) update (hq_Namespace r) (hq_Name r)"
          note ruled = ruled_answer [where m = ?m, OF assms(5)
              UpdateWorkspace_ruled [OF got [unfolded read] current kind nspace [unfolded Inr] ns]]
          with got read current kind nspace Inr calls show ?thesis
            by (simp add: run Let_def)
        qed
      qed
    qed
  qed
qed

text \<open>An application that lets everybody in, and a request with a stale revision.\<close>

definition sample_config :: BackendEnvConfig where
  "sample_config =
     \<lparr>bcfg_DebugMode = False, bcfg_Port = 4000, bcfg_ClientQPS = [], bcfg_ClientBurst = 0,
      bcfg_UserIdHeader = ''kubeflow-userid'', bcfg_UserIdPrefix = [], bcfg_GroupsHeader = ''kubeflow-groups'',
      bcfg_ProxyUrlPrefix = ''/workspaces/'', bcfg_SwaggerEnabled = False, bcfg_SwaggerHost = [],
      bcfg_SwaggerBasePath = [], bcfg_SwaggerScheme = []\<rparr>"

definition sample_app :: "unit app" where
  "sample_app =
     \<lparr>app_Lib = sample_lib,
      app_Http = \<lparr>hl_ParseMediaType = Inr, hl_ErrorType = (\<lambda>_. []), hl_ErrorBody = (\<lambda>_. [])\<rparr>,
      app_Config = sample_config, app_Client = sample_backend sample_workspace sample_kind [],
      app_AuthN = (\<lambda>_. Inr (Some \<lparr>ui_Name = ''ann'', ui_Groups = [], ui_Extra = []\<rparr>)),
      app_AuthZ = (\<lambda>_ w. (Inr DecisionAllow, w))\<rparr>"

definition sample_put :: "string \<Rightarrow> WorkspaceUpdate http_request" where
  "sample_put revision =
     \<lparr>hq_Namespace = ''team'', hq_Name = ''notebook'', hq_Query = [],
      hq_Headers = [(''Content-Type'', ''application/json'')], hq_Body = JsonValue (Some (sample_update revision))\<rparr>"

theorem UpdateWorkspaceHandler_rejections_witness:
  "UpdateWorkspaceHandler sample_app (sample_put ''stale'') sample_brun =
     (BOk (ErrorResponse (internalConflictResponse sample_lib (SentinelError ErrWorkspaceRevisionConflict))), sample_brun)"
proof -
  let ?r = "sample_put ''stale''"
  have valid: "ValidateKubernetesNamespaceName (app_Lib sample_app) NamespacePathParam (hq_Namespace ?r) = []"
    "ValidateWorkspaceName (app_Lib sample_app) ResourceNamePathParam (hq_Name ?r) = []"
    by code_simp+
  have auth: "requireAuth sample_app ?r [NewResourcePolicy VerbUpdate Workspaces (hq_Namespace ?r) (hq_Name ?r)] sample_brun =
      (BOk (Inr \<lparr>ui_Name = ''ann'', ui_Groups = [], ui_Extra = []\<rparr>), sample_brun)"
    by (simp add: requireAuth_def sample_app_def b_bind_def b_try_def b_return_def sample_brun_def)
  have "case decode_body sample_app ?r (WorkspaceUpdate_Validate (app_Lib sample_app)) of
      Inl e \<Rightarrow> False | Inr d \<Rightarrow> True"
    by code_simp
  then obtain update where body: "decode_body sample_app ?r (WorkspaceUpdate_Validate (app_Lib sample_app)) = Inr update"
    by (rule case_sum_InrE)
  then have "update = sample_update ''stale''"
    using decode_body_Inr by (fastforce simp: sample_put_def)
  moreover have "CalculateRevision (w_Meta sample_workspace) \<noteq> ''stale''"
    using length_CalculateRevision [of "w_Meta sample_workspace"] by (auto simp del: length_CalculateRevision)
  ultimately have stale: "CalculateRevision (w_Meta sample_workspace) \<noteq> wu_Revision update"
    by (simp add: sample_update_def)
  have now: "b_Now (app_Client sample_app) (br_world sample_brun) = (0, ())"
    and get: "b_GetWorkspace (app_Client sample_app) (hq_Namespace ?r) (hq_Name ?r) () = (Inr sample_workspace, ())"
    by (simp_all add: sample_app_def sample_backend_answers)
  have errors: "update_client_errors (app_Client sample_app)"
    by (simp add: update_client_errors_def sample_app_def sample_backend_def api_error_def)
  from UpdateWorkspaceHandler_rejections [OF valid auth body errors] stale now get show ?thesis
    by (simp add: sample_backend_answers) (simp add: sample_app_def)
qed

end
