(* ===== verification/Pod_Exec.thy ===== *)
theory Pod_Exec
  imports Probe
begin

text \<open>
  \<open>RemoteCommandExecutor\<close> of \<open>internal/helper/probe.go\<close>: the \<open>PodExecutor\<close> that the controller runs its probes with.
  The executors of \<open>client-go\<close> are parameters: a constructor may fail, a stream gives what \<open>Exec\<close> gives.
\<close>

section \<open>The request\<close>

text \<open>The options of the exec subresource; \<open>Stdin\<close> and its kin tell whether the caller gave a stream.\<close>

record PodExecOptions =
  peo_Container :: string
  peo_Command :: "string list"
  peo_Stdin :: bool
  peo_Stdout :: bool
  peo_Stderr :: bool
  peo_TTY :: bool

record exec_request =
  exr_Method :: string
  exr_Resource :: string
  exr_Namespace :: string
  exr_Name :: string
  exr_SubResource :: string
  exr_Options :: PodExecOptions

text \<open>
  \<open>NewWebSocketExecutor\<close>, \<open>NewSPDYExecutor\<close> and \<open>NewFallbackExecutor\<close> for a request, the stream of the fallback
  executor under the timeout of the context with the bytes of stdin, and whether the context has passed its deadline
  when a constructor fails.
\<close>

record 'x remote_lib =
  rml_NewWebSocketExecutor :: "string \<Rightarrow> exec_request \<Rightarrow> exec_error + 'x"
  rml_NewSPDYExecutor :: "string \<Rightarrow> exec_request \<Rightarrow> exec_error + 'x"
  rml_NewFallbackExecutor :: "'x \<Rightarrow> 'x \<Rightarrow> exec_error + 'x"
  rml_StreamWithContext :: "'x \<Rightarrow> duration option \<Rightarrow> string \<Rightarrow> exec_result"
  rml_CtxDeadline :: "duration option \<Rightarrow> bool"

text \<open>\<open>fmt.Errorf("prefix: %w", err)\<close> keeps what \<open>errors.Is\<close> and \<open>errors.As\<close> find in the error.\<close>

definition exec_errorf :: "string \<Rightarrow> exec_error \<Rightarrow> exec_error" where
  "exec_errorf prefix err = err\<lparr>ee_Text := prefix @ ee_Text err\<rparr>"

definition not_started :: "'x remote_lib \<Rightarrow> duration option \<Rightarrow> exec_error \<Rightarrow> exec_result" where
  "not_started L ctx err = \<lparr>ex_Stdout = [], ex_Err = Some err, ex_CtxDeadline = rml_CtxDeadline L ctx\<rparr>"

definition exec_request_for :: "string \<Rightarrow> string \<Rightarrow> string \<Rightarrow> string list \<Rightarrow> exec_request" where
  "exec_request_for namespace podName container command =
     \<lparr>exr_Method = ''POST'', exr_Resource = ''pods'', exr_Namespace = namespace, exr_Name = podName, exr_SubResource = ''exec'',
      exr_Options = \<lparr>peo_Container = container, peo_Command = command, peo_Stdin = True, peo_Stdout = True, peo_Stderr = True,
                     peo_TTY = False\<rparr>\<rparr>"

text \<open>\<open>RunPodExecProbe\<close>, the only caller, gives all three streams.\<close>

definition RemoteCommandExecutor_Exec :: "'x remote_lib \<Rightarrow> pod_executor" where
  "RemoteCommandExecutor_Exec L ctx namespace podName container command stdin =
     (let req = exec_request_for namespace podName container command
      in case rml_NewWebSocketExecutor L ''POST'' req of
        Inl err \<Rightarrow> not_started L ctx (exec_errorf ''failed to initialize websocket executor: '' err)
      | Inr websocketExec \<Rightarrow>
          (case rml_NewSPDYExecutor L ''POST'' req of
            Inl err \<Rightarrow> not_started L ctx (exec_errorf ''failed to initialize spdy executor: '' err)
          | Inr spdyExec \<Rightarrow>
              (case rml_NewFallbackExecutor L websocketExec spdyExec of
                Inl err \<Rightarrow> not_started L ctx (exec_errorf ''failed to initialize fallback executor: '' err)
              | Inr exec \<Rightarrow> rml_StreamWithContext L exec ctx stdin)))"

section \<open>Lemmas\<close>

text \<open>
  A probe through this executor succeeds only after a stream, of the fallback executor made for a request that
  names the Pod, its container and the probe command.
\<close>

lemma RemoteCommandExecutor_Exec_streams:
  assumes "ex_Err (RemoteCommandExecutor_Exec L ctx namespace podName container command stdin) = None"
  obtains ws spdy exec where
    "rml_NewWebSocketExecutor L ''POST'' (exec_request_for namespace podName container command) = Inr ws"
    "rml_NewSPDYExecutor L ''POST'' (exec_request_for namespace podName container command) = Inr spdy"
    "rml_NewFallbackExecutor L ws spdy = Inr exec"
    "RemoteCommandExecutor_Exec L ctx namespace podName container command stdin = rml_StreamWithContext L exec ctx stdin"
  using assms
  by (auto simp: RemoteCommandExecutor_Exec_def not_started_def Let_def split: sum.splits)

lemma probe_success_streams:
  assumes "Succeeded (RunPodExecProbe V (RemoteCommandExecutor_Exec L) namespace podName script timeout)"
  shows "\<exists>path ws spdy exec.
    rml_NewWebSocketExecutor L ''POST''
      (exec_request_for namespace podName ''main'' [''/bin/sh'', ''-c'', probe_shell_command (path @ ''.script'') path]) = Inr ws \<and>
    rml_NewFallbackExecutor L ws spdy = Inr exec \<and>
    ex_Err (rml_StreamWithContext L exec (if 0 < timeout then Some timeout else None) script) = None"
proof -
  obtain path where "randomOutputPath V = Inr path"
    and no_err: "ex_Err (RemoteCommandExecutor_Exec L (if 0 < timeout then Some timeout else None) namespace podName
      probeContainerName [''/bin/sh'', ''-c'', probe_shell_command (path @ ''.script'') path] script) = None"
    using assms by (auto simp: RunPodExecProbe_def Let_def split: sum.splits option.splits if_splits)
  from no_err obtain ws spdy exec where
    "rml_NewWebSocketExecutor L ''POST'' (exec_request_for namespace podName probeContainerName
       [''/bin/sh'', ''-c'', probe_shell_command (path @ ''.script'') path]) = Inr ws"
    "rml_NewFallbackExecutor L ws spdy = Inr exec"
    "ex_Err (rml_StreamWithContext L exec (if 0 < timeout then Some timeout else None) script) = None"
    by (metis RemoteCommandExecutor_Exec_streams)
  then show ?thesis
    unfolding probeContainerName_def by blast
qed

end
