(* ===== verification/Manager_Setup.thy ===== *)
theory Manager_Setup
  imports Kind_Controller Backend_Base Pod_Exec
begin

text \<open>
  \<open>cmd/main.go\<close> of the controller: how flags and the environment make the configuration, how the caches of the
  manager are set up, and what is registered with it, in order (with \<open>SetupWithManager\<close> of the two reconcilers).
  The calls into controller-runtime are recorded; each may fail, which ends the process.
\<close>

section \<open>Flags and environment\<close>

type_synonym environ = "string \<Rightarrow> string option"

definition getEnvAsStr :: "environ \<Rightarrow> string \<Rightarrow> string \<Rightarrow> string" where
  "getEnvAsStr env name defaultVal = (case env name of Some val \<Rightarrow> val | None \<Rightarrow> defaultVal)"

definition getEnvAsBool :: "environ \<Rightarrow> string \<Rightarrow> bool \<Rightarrow> bool" where
  "getEnvAsBool env name defaultVal =
     (case env name of
       Some val \<Rightarrow> (case ParseBool val of Some boolValue \<Rightarrow> boolValue | None \<Rightarrow> defaultVal)
     | None \<Rightarrow> defaultVal)"

text \<open>\<open>strconv.Atoi\<close> on a platform with 64 bit \<open>int\<close>.\<close>

definition getEnvAsInt :: "environ \<Rightarrow> string \<Rightarrow> int \<Rightarrow> int" where
  "getEnvAsInt env name defaultVal =
     (case env name of
       Some val \<Rightarrow> (case ParseInt64 val of Some intValue \<Rightarrow> intValue | None \<Rightarrow> defaultVal)
     | None \<Rightarrow> defaultVal)"

text \<open>A floating point number is \<open>opaque\<close>; \<open>parseFloat\<close> is \<open>strconv.ParseFloat\<close>.\<close>

definition getEnvAsFloat64 :: "(string \<Rightarrow> opaque option) \<Rightarrow> environ \<Rightarrow> string \<Rightarrow> opaque \<Rightarrow> opaque" where
  "getEnvAsFloat64 parseFloat env name defaultVal =
     (case env name of
       Some val \<Rightarrow> (case parseFloat val of Some floatValue \<Rightarrow> floatValue | None \<Rightarrow> defaultVal)
     | None \<Rightarrow> defaultVal)"

text \<open>What package \<open>flag\<close> found on the command line, by the type of the flag.\<close>

record command_line =
  cl_Bool :: "string \<Rightarrow> bool option"
  cl_Str :: "string \<Rightarrow> string option"
  cl_Int :: "string \<Rightarrow> int option"
  cl_Float :: "string \<Rightarrow> opaque option"

definition flag_or :: "'a option \<Rightarrow> 'a \<Rightarrow> 'a" where
  "flag_or parsed defaultVal = (case parsed of Some val \<Rightarrow> val | None \<Rightarrow> defaultVal)"

record controller_settings =
  cs_Config :: EnvConfig
  cs_MetricsAddr :: string
  cs_ProbeAddr :: string
  cs_LeaderElection :: bool
  cs_SecureMetrics :: bool
  cs_EnableHTTP2 :: bool
  cs_MaxConcurrentReconciles :: int
  cs_EnableWebhooks :: bool

definition parse_settings :: "(string \<Rightarrow> opaque option) \<Rightarrow> environ \<Rightarrow> command_line \<Rightarrow> controller_settings" where
  "parse_settings parseFloat env cl =
     \<lparr>cs_Config =
        \<lparr>cfg_IstioGateway = flag_or (cl_Str cl ''istio-gateway'') (getEnvAsStr env ''ISTIO_GATEWAY'' []),
         cfg_IstioHosts = flag_or (cl_Str cl ''istio-hosts'') (getEnvAsStr env ''ISTIO_HOSTS'' ''*''),
         cfg_ClusterDomain = flag_or (cl_Str cl ''cluster-domain'') (getEnvAsStr env ''CLUSTER_DOMAIN'' ''cluster.local''),
         cfg_UseIstio = flag_or (cl_Bool cl ''use-istio'') (getEnvAsBool env ''USE_ISTIO'' False),
         cfg_WatchWarningEvents =
           flag_or (cl_Bool cl ''watch-warning-events'') (getEnvAsBool env ''WATCH_WARNING_EVENTS'' True),
         cfg_ClientQPS = flag_or (cl_Float cl ''client-qps'') (getEnvAsFloat64 parseFloat env ''CLIENT_QPS'' ''50''),
         cfg_ClientBurst = flag_or (cl_Int cl ''client-burst'') (getEnvAsInt env ''CLIENT_BURST'' 100)\<rparr>,
      cs_MetricsAddr = flag_or (cl_Str cl ''metrics-bind-address'') '':8080'',
      cs_ProbeAddr = flag_or (cl_Str cl ''health-probe-bind-address'') '':8081'',
      cs_LeaderElection = flag_or (cl_Bool cl ''leader-elect'') False,
      cs_SecureMetrics = flag_or (cl_Bool cl ''metrics-secure'') False,
      cs_EnableHTTP2 = flag_or (cl_Bool cl ''enable-http2'') False,
      cs_MaxConcurrentReconciles =
        flag_or (cl_Int cl ''max-concurrent-reconciles'') (getEnvAsInt env ''MAX_CONCURRENT_RECONCILES'' 10),
      cs_EnableWebhooks = (ptr_Deref (env ''ENABLE_WEBHOOKS'') [] \<noteq> ''false'')\<rparr>"

section \<open>The manager\<close>

text \<open>How the cache of the manager treats one type: a field selector and a transform.\<close>

record by_object =
  bo_Object :: string
  bo_Field :: "string \<times> string"
  bo_Transform :: "cache_object \<Rightarrow> go_error + cache_object"

definition ControllerFieldOwner :: string where
  "ControllerFieldOwner = ''kubeflow-workspaces-controller''"

record manager_options =
  mo_DisableFor :: "string list"
  mo_FieldOwner :: string
  mo_ByObject :: "by_object list"
  mo_MetricsAddr :: string
  mo_SecureServing :: bool
  mo_DisableHTTP2 :: bool
  mo_ProbeAddr :: string
  mo_LeaderElection :: bool
  mo_LeaderElectionID :: string

definition manager_options_for :: "controller_settings \<Rightarrow> manager_options" where
  "manager_options_for st =
     (let disableFor = [''ConfigMap'', ''Secret''];
          (byObject, disableFor) =
            (if cfg_WatchWarningEvents (cs_Config st)
             then ([\<lparr>bo_Object = ''Event'', bo_Field = (''type'', ''Warning''), bo_Transform = StripEventForCache\<rparr>], disableFor)
             else ([], disableFor @ [''Event'']))
      in \<lparr>mo_DisableFor = disableFor, mo_FieldOwner = ControllerFieldOwner, mo_ByObject = byObject,
          mo_MetricsAddr = cs_MetricsAddr st, mo_SecureServing = cs_SecureMetrics st,
          mo_DisableHTTP2 = (\<not> cs_EnableHTTP2 st), mo_ProbeAddr = cs_ProbeAddr st,
          mo_LeaderElection = cs_LeaderElection st, mo_LeaderElectionID = ''kubeflow-workspaces-controller''\<rparr>)"

text \<open>
  What a controller watches through the cache of the manager (\<open>For\<close>, \<open>Owns\<close>, \<open>Watches\<close>) or through a cache of its
  own (\<open>WatchesRawSource\<close>).
\<close>

datatype watch = WatchFor string | WatchOwns string | WatchMapped string | WatchRaw string

definition WorkspaceReconciler_SetupWithManager :: "EnvConfig option \<Rightarrow> watch list" where
  "WorkspaceReconciler_SetupWithManager cfg =
     [WatchFor ''Workspace'', WatchOwns ''StatefulSet'', WatchOwns ''Service'', WatchOwns ''ServiceAccount'',
      WatchOwns ''RoleBinding''] @
     (case cfg of Some c \<Rightarrow> if cfg_UseIstio c then [WatchOwns ''VirtualService''] else [] | None \<Rightarrow> []) @
     [WatchMapped ''WorkspaceKind'', WatchMapped ''Pod''] @
     (case cfg of Some c \<Rightarrow> if cfg_WatchWarningEvents c then [WatchMapped ''Event''] else [] | None \<Rightarrow> [])"

definition WorkspaceKindReconciler_SetupWithManager :: "watch list" where
  "WorkspaceKindReconciler_SetupWithManager =
     [WatchFor ''WorkspaceKind'', WatchMapped ''Workspace'', WatchRaw ''ConfigMap'']"

text \<open>
  The queue of a controller retries an item after the longer of two delays (\<open>internal/helper/reconcile.go\<close>): one per
  item, which doubles with each failure, and one of a token bucket over all items.
\<close>

record rate_limiter =
  rl_FailureBaseDelay :: duration
  rl_FailureMaxDelay :: duration
  rl_TotalEventsPerSecond :: int
  rl_TotalMaxBurst :: int

definition BuildRateLimiter :: rate_limiter where
  "BuildRateLimiter =
     \<lparr>rl_FailureBaseDelay = 1 * time_Second, rl_FailureMaxDelay = 7 * time_Minute, rl_TotalEventsPerSecond = 10,
      rl_TotalMaxBurst = 100\<rparr>"

section \<open>The start of the process\<close>

datatype setup_call =
    GetConfigOrDie
  | NewClientset
  | NewManager manager_options
  | IndexField string string
  | CompleteController string "watch list" rate_limiter "int option"
  | BuildImageSourceCache
  | RegisterWebhook string
  | AddHealthzCheck string
  | AddReadyzCheck string
  | StartManager

text \<open>The calls so far, and whether the process is still running: a call that fails ends it with status 1.\<close>

type_synonym setup_state = "setup_call list \<times> bool"

definition setup_attempt :: "(setup_call \<Rightarrow> bool) \<Rightarrow> setup_call \<Rightarrow> setup_state \<Rightarrow> setup_state" where
  "setup_attempt ok c s = (case s of (calls, running) \<Rightarrow> if running then (calls @ [c], ok c) else s)"

definition setup_indexers :: "(setup_call \<Rightarrow> bool) \<Rightarrow> EnvConfig \<Rightarrow> setup_state \<Rightarrow> setup_state" where
  "setup_indexers ok cfg s =
     (case s of (calls, running) \<Rightarrow>
        if running
        then
          (case SetupManagerFieldIndexers
                  (\<lambda>(obj, field). if ok (IndexField obj field) then None else Some (ErrOther ''index'')) (Some cfg) of
            (done', err) \<Rightarrow> (calls @ map (\<lambda>(obj, field). IndexField obj field) done', err = None))
        else s)"

definition controller_main :: "(setup_call \<Rightarrow> bool) \<Rightarrow> controller_settings \<Rightarrow> setup_state" where
  "controller_main ok st =
     (let s = ([], True);
          s = setup_attempt ok GetConfigOrDie s;
          s = setup_attempt ok NewClientset s;
          s = setup_attempt ok (NewManager (manager_options_for st)) s;
          s = setup_indexers ok (cs_Config st) s;
          s = setup_attempt ok (CompleteController ''Workspace'' (WorkspaceReconciler_SetupWithManager (Some (cs_Config st)))
                BuildRateLimiter (Some (cs_MaxConcurrentReconciles st))) s;
          s = setup_attempt ok BuildImageSourceCache s;
          s = setup_attempt ok (CompleteController ''WorkspaceKind'' WorkspaceKindReconciler_SetupWithManager BuildRateLimiter None) s;
          s = (if cs_EnableWebhooks st then setup_attempt ok (RegisterWebhook ''Workspace'') s else s);
          s = (if cs_EnableWebhooks st then setup_attempt ok (RegisterWebhook ''WorkspaceKind'') s else s);
          s = setup_attempt ok (AddHealthzCheck ''healthz'') s;
          s = setup_attempt ok (AddReadyzCheck ''readyz'') s
      in setup_attempt ok StartManager s)"

section \<open>Lemmas\<close>

lemma setup_attempt_running:
  "setup_attempt ok c s = (calls, True) \<longleftrightarrow> (\<exists>calls'. s = (calls', True) \<and> ok c \<and> calls = calls' @ [c])"
  by (auto simp: setup_attempt_def split: prod.splits if_splits)

lemma register_all_success: "register_all f rs = (done', None) \<Longrightarrow> done' = rs"
  by (induction rs arbitrary: done') (auto split: option.splits prod.splits)

definition index_calls :: "EnvConfig \<Rightarrow> setup_call list" where
  "index_calls cfg = map (\<lambda>(obj, field). IndexField obj field) (fst (SetupManagerFieldIndexers (\<lambda>_. None) (Some cfg)))"

lemma register_all_none: "register_all (\<lambda>_. None) rs = (rs, None)"
  by (induction rs) auto

lemma setup_indexers_running:
  "setup_indexers ok cfg s = (calls, True) \<Longrightarrow> \<exists>calls'. s = (calls', True) \<and> calls = calls' @ index_calls cfg"
  by (auto simp: setup_indexers_def index_calls_def SetupManagerFieldIndexers_def register_all_none
      dest!: register_all_success split: prod.splits if_splits)

lemma controller_main_running:
  assumes "controller_main ok st = (calls, True)"
  shows "calls = [GetConfigOrDie, NewClientset, NewManager (manager_options_for st)] @ index_calls (cs_Config st) @
    [CompleteController ''Workspace'' (WorkspaceReconciler_SetupWithManager (Some (cs_Config st)))
       BuildRateLimiter (Some (cs_MaxConcurrentReconciles st)),
     BuildImageSourceCache, CompleteController ''WorkspaceKind'' WorkspaceKindReconciler_SetupWithManager BuildRateLimiter None] @
    (if cs_EnableWebhooks st then [RegisterWebhook ''Workspace'', RegisterWebhook ''WorkspaceKind''] else []) @
    [AddHealthzCheck ''healthz'', AddReadyzCheck ''readyz'', StartManager]"
  using assms unfolding controller_main_def Let_def
  by (auto simp: setup_attempt_running dest!: setup_indexers_running split: if_splits)

text \<open>Without Istio, a reconcile does not ask for VirtualServices.\<close>

lemma without_vs_accessors:
  "c_GetWorkspace (C\<lparr>c_VirtualServices := ops\<rparr>) = c_GetWorkspace C"
  "c_GetWorkspaceKind (C\<lparr>c_VirtualServices := ops\<rparr>) = c_GetWorkspaceKind C"
  "c_UpdateWorkspaceKind (C\<lparr>c_VirtualServices := ops\<rparr>) = c_UpdateWorkspaceKind C"
  "c_ServiceAccounts (C\<lparr>c_VirtualServices := ops\<rparr>) = c_ServiceAccounts C"
  "c_StatefulSets (C\<lparr>c_VirtualServices := ops\<rparr>) = c_StatefulSets C"
  "c_Services (C\<lparr>c_VirtualServices := ops\<rparr>) = c_Services C"
  "c_RoleBindings (C\<lparr>c_VirtualServices := ops\<rparr>) = c_RoleBindings C"
  "c_DeleteRoleBinding (C\<lparr>c_VirtualServices := ops\<rparr>) = c_DeleteRoleBinding C"
  "c_GetPod (C\<lparr>c_VirtualServices := ops\<rparr>) = c_GetPod C"
  "c_DeletePod (C\<lparr>c_VirtualServices := ops\<rparr>) = c_DeletePod C"
  "c_UpdateStatus (C\<lparr>c_VirtualServices := ops\<rparr>) = c_UpdateStatus C"
  "c_PatchWorkspace (C\<lparr>c_VirtualServices := ops\<rparr>) = c_PatchWorkspace C"
  "c_Readings (C\<lparr>c_VirtualServices := ops\<rparr>) = c_Readings C"
  by simp_all

lemma without_vs_state:
  "updateWorkspaceState (C\<lparr>c_VirtualServices := ops\<rparr>) = updateWorkspaceState C"
  "updateWorkspaceStateThenError (C\<lparr>c_VirtualServices := ops\<rparr>) = updateWorkspaceStateThenError C"
  "updateWorkspaceStateThenResult (C\<lparr>c_VirtualServices := ops\<rparr>) = updateWorkspaceStateThenResult C"
  "stop_error_state (C\<lparr>c_VirtualServices := ops\<rparr>) = stop_error_state C"
  "stop_error_state_then (C\<lparr>c_VirtualServices := ops\<rparr>) = stop_error_state_then C"
  by (intro ext; unfold updateWorkspaceState_def updateWorkspaceStateThenError_def updateWorkspaceStateThenResult_def
      stop_error_state_def stop_error_state_then_def without_vs_accessors; rule refl)+

lemma without_vs_owned:
  "reconcile_owned (C\<lparr>c_VirtualServices := ops\<rparr>) = reconcile_owned C"
  by (intro ext; unfold reconcile_owned_def create_owned_def update_owned_def without_vs_state; rule refl)

lemma without_vs_owned_loop:
  "owned_role_bindings_loop K (C\<lparr>c_VirtualServices := ops\<rparr>) workspace items = owned_role_bindings_loop K C workspace items"
proof (induction items)
  case (Cons found items)
  show ?case
    by (intro ext; unfold owned_role_bindings_loop.simps without_vs_accessors without_vs_state Cons.IH; rule refl)
qed (intro ext, simp)

lemma without_vs_create_loop:
  "create_role_bindings_loop (C\<lparr>c_VirtualServices := ops\<rparr>) workspace desired = create_role_bindings_loop C workspace desired"
proof (induction desired)
  case (Cons entry desired)
  obtain ref roleBinding where "entry = (ref, roleBinding)"
    by (cases entry)
  then show ?case
    by (simp only: create_role_bindings_loop.simps without_vs_accessors without_vs_state Cons.IH)
qed simp

lemmas without_vs_sections = reconcile_fetch_def reconcile_kind_def reconcile_image_config_def reconcile_pod_config_def
  reconcile_service_account_def reconcile_stateful_set_def reconcile_service_def reconcile_role_bindings_section_def
  reconcileRoleBindings_def reconcile_pod_def reconcile_pod_found_def act_readings_def act_activity_def
  reconcile_pause_def reconcile_status_def

lemma Reconcile_without_istio:
  assumes "\<not> cfg_UseIstio cfg"
  shows "Reconcile K cfg podExecutor (C\<lparr>c_VirtualServices := ops\<rparr>) namespace name s = Reconcile K cfg podExecutor C namespace name s"
proof -
  have loops: "owned_role_bindings_loop K (C\<lparr>c_VirtualServices := ops\<rparr>) = owned_role_bindings_loop K C"
    "create_role_bindings_loop (C\<lparr>c_VirtualServices := ops\<rparr>) = create_role_bindings_loop C"
    by (intro ext, simp only: without_vs_owned_loop without_vs_create_loop)+
  have vs: "reconcile_virtual_service K cfg (C\<lparr>c_VirtualServices := ops\<rparr>) = reconcile_virtual_service K cfg C"
    using assms by (intro ext) (simp add: reconcile_virtual_service_def)
  show ?thesis
    unfolding Reconcile_def Reconcile_steps_def reconcile_objects_def without_vs_sections without_vs_accessors
      without_vs_state without_vs_owned loops vs
    by (rule refl)
qed

section \<open>Property\<close>

text \<open>
  The reads of the reconcilers that name a field index, by object type: of the objects a Workspace owns (the
  VirtualServices only with Istio), of the Events of an object, and of the map functions of the watches.
\<close>

definition indexed_reads :: "EnvConfig \<Rightarrow> (string \<times> string) list" where
  "indexed_reads cfg =
     [(''StatefulSet'', ''.metadata.controller''), (''Service'', ''.metadata.controller''),
      (''ServiceAccount'', ''.metadata.controller''), (''RoleBinding'', ''.metadata.controller''),
      (''Event'', ''involvedObject.uid''), (''Workspace'', ''.spec.kind''), (''WorkspaceKind'', ''.spec.configMapImageSource'')] @
     (if cfg_UseIstio cfg then [(''VirtualService'', ''.metadata.controller'')] else []) @
     (if cfg_WatchWarningEvents cfg then [(''Workspace'', ''.status.ownedResourceUIDs'')] else [])"

text \<open>The objects for which a call makes the manager start an informer (and keep a cache).\<close>

fun watched_through_manager :: "watch \<Rightarrow> string set" where
  "watched_through_manager (WatchFor obj) = {obj}"
| "watched_through_manager (WatchOwns obj) = {obj}"
| "watched_through_manager (WatchMapped obj) = {obj}"
| "watched_through_manager (WatchRaw obj) = {}"

fun informers_of :: "setup_call \<Rightarrow> string set" where
  "informers_of (IndexField obj field) = {obj}"
| "informers_of (CompleteController name watches limiter workers) = \<Union> (set (map watched_through_manager watches))"
| "informers_of c = {}"

text \<open>
  C33. The caches fit the reads. When the controller has started, whatever flags and environment it has: each
  index that a reconciler reads by was registered before the reconciler was, or the objects are read directly
  and the name of the index is a field selector of the API server (Events without the watch); nothing that is
  read directly is cached as well, by an index or by a watch; Events are cached exactly with the flag, and
  VirtualServices exactly with Istio, without which a reconcile does not ask for them.
\<close>

theorem caches_set_up_consistently:
  assumes "controller_main ok st = (calls, True)"
  defines "cfg \<equiv> cs_Config st"
  shows "(\<exists>before after limiter workers.
      calls = before @ CompleteController ''Workspace'' (WorkspaceReconciler_SetupWithManager (Some cfg)) limiter workers # after \<and>
      (\<forall>(obj, field) \<in> set (indexed_reads cfg).
         if obj \<in> set (mo_DisableFor (manager_options_for st)) then (obj, field) = (''Event'', ''involvedObject.uid'')
         else IndexField obj field \<in> set before)) \<and>
    \<Union> (set (map informers_of calls)) \<inter> set (mo_DisableFor (manager_options_for st)) = {} \<and>
    (''Event'' \<in> \<Union> (set (map informers_of calls)) \<longleftrightarrow> cfg_WatchWarningEvents cfg) \<and>
    (''VirtualService'' \<in> \<Union> (set (map informers_of calls)) \<longleftrightarrow> cfg_UseIstio cfg) \<and>
    (cfg_UseIstio cfg \<or>
     Reconcile K cfg podExecutor (C\<lparr>c_VirtualServices := ops\<rparr>) namespace name s = Reconcile K cfg podExecutor C namespace name s)"
proof -
  note run = controller_main_running [OF assms(1)]
  note defs = index_calls_def SetupManagerFieldIndexers_def register_all_none manager_options_for_def
    WorkspaceReconciler_SetupWithManager_def WorkspaceKindReconciler_SetupWithManager_def indexed_reads_def Let_def
  have "\<exists>before after limiter workers.
      calls = before @ CompleteController ''Workspace'' (WorkspaceReconciler_SetupWithManager (Some cfg)) limiter workers # after \<and>
      (\<forall>(obj, field) \<in> set (indexed_reads cfg).
         if obj \<in> set (mo_DisableFor (manager_options_for st)) then (obj, field) = (''Event'', ''involvedObject.uid'')
         else IndexField obj field \<in> set before)"
    unfolding run cfg_def
    by (rule exI [of _ "[GetConfigOrDie, NewClientset, NewManager (manager_options_for st)] @ index_calls (cs_Config st)"], intro exI conjI)
      (simp, simp add: defs)
  moreover have "\<Union> (set (map informers_of calls)) \<inter> set (mo_DisableFor (manager_options_for st)) = {}"
    unfolding run cfg_def by (cases "cs_EnableWebhooks st") (simp_all add: defs)
  moreover have "''Event'' \<in> \<Union> (set (map informers_of calls)) \<longleftrightarrow> cfg_WatchWarningEvents cfg"
    unfolding run cfg_def by (cases "cs_EnableWebhooks st") (simp_all add: defs)
  moreover have "''VirtualService'' \<in> \<Union> (set (map informers_of calls)) \<longleftrightarrow> cfg_UseIstio cfg"
    unfolding run cfg_def by (cases "cs_EnableWebhooks st") (simp_all add: defs)
  ultimately show ?thesis
    using Reconcile_without_istio by blast
qed

text \<open>Without any flag or environment variable, and nothing failing.\<close>

definition default_settings :: controller_settings where
  "default_settings = parse_settings (\<lambda>_. None) (\<lambda>_. None)
     \<lparr>cl_Bool = (\<lambda>_. None), cl_Str = (\<lambda>_. None), cl_Int = (\<lambda>_. None), cl_Float = (\<lambda>_. None)\<rparr>"

lemma setup_all_ok:
  "setup_attempt (\<lambda>_. True) c (calls, True) = (calls @ [c], True)"
  "setup_indexers (\<lambda>_. True) cfg (calls, True) = (calls @ index_calls cfg, True)"
  by (simp_all add: setup_attempt_def setup_indexers_def index_calls_def SetupManagerFieldIndexers_def register_all_none
      case_prod_unfold)

theorem caches_set_up_consistently_witness:
  "\<exists>calls. controller_main (\<lambda>_. True) default_settings = (calls, True) \<and>
     ''Event'' \<in> \<Union> (set (map informers_of calls)) \<and> ''VirtualService'' \<notin> \<Union> (set (map informers_of calls))"
proof -
  have "snd (controller_main (\<lambda>_. True) default_settings)"
    by (cases "cs_EnableWebhooks default_settings") (simp_all add: controller_main_def setup_all_ok Let_def)
  then obtain calls where run: "controller_main (\<lambda>_. True) default_settings = (calls, True)"
    by (cases "controller_main (\<lambda>_. True) default_settings") simp
  have "cfg_WatchWarningEvents (cs_Config default_settings)" "\<not> cfg_UseIstio (cs_Config default_settings)"
    by (simp_all add: default_settings_def parse_settings_def flag_or_def getEnvAsBool_def)
  then show ?thesis
    using run caches_set_up_consistently [OF run, THEN conjunct2, THEN conjunct2, THEN conjunct1]
      caches_set_up_consistently [OF run, THEN conjunct2, THEN conjunct2, THEN conjunct2, THEN conjunct1]
    by blast
qed

end
