(* ===== verification/Kind_Models.thy ===== *)
theory Kind_Models
  imports Workspace_Repo
begin

text \<open>
  \<open>internal/models/workspacekinds\<close>: the list view of a WorkspaceKind (\<open>types.go\<close>, \<open>funcs.go\<close>) and the
  models of the admin endpoints (\<open>types_write.go\<close>, \<open>funcs_write.go\<close>).
\<close>

section \<open>The list view\<close>

text \<open>\<open>ActivityProbePodExec\<close> is its timeout, \<open>ActivityRuleConfig\<close> and \<open>ActivityRuleEffect\<close> are their fields.\<close>

record ActivityProbeModel =
  apm_MinProbeIntervalSeconds :: int
  apm_ProbeIntervalSeconds :: int
  apm_TimeoutSeconds :: int

record ActivityRuleModel =
  arl_SecondsSinceActive :: int
  arl_MinRunningSeconds :: int
  arl_Match :: "ActivityRuleMatch list"
  arl_PauseWorkspace :: bool

text \<open>\<open>PodMetadata\<close>, \<open>StatefulSetMetadata\<close> and \<open>ServiceAccountMetadata\<close> have the same two fields.\<close>

record KindPodTemplateModel =
  kpm_PodMetadata :: MetadataModel
  kpm_StatefulSetMetadata :: MetadataModel
  kpm_ServiceAccountMetadata :: MetadataModel
  kpm_HomeMountPath :: string
  kpm_ActivityProbe :: "ActivityProbeModel option"
  kpm_Options :: PodTemplateOptionsModel

record WorkspaceKindListItem =
  kli_Name :: string
  kli_DisplayName :: string
  kli_Description :: string
  kli_Deprecated :: bool
  kli_DeprecationMessage :: string
  kli_Hidden :: bool
  kli_Icon :: ImageRef
  kli_Logo :: ImageRef
  kli_Workspaces :: int
  kli_PodTemplate :: KindPodTemplateModel
  kli_ActivityRules :: "ActivityRuleModel list"
  kli_Restrictions :: Restrictions

definition buildActivityProbe :: "ActivityProbe option \<Rightarrow> ActivityProbeModel option" where
  "buildActivityProbe probe =
     (case probe of
       None \<Rightarrow> None
     | Some p \<Rightarrow>
         Some \<lparr>apm_MinProbeIntervalSeconds = ptr_Deref (ap_MinProbeIntervalSeconds p) DefaultMinProbeIntervalSeconds,
               apm_ProbeIntervalSeconds = ptr_Deref (ap_ProbeIntervalSeconds p) DefaultProbeIntervalSeconds,
               apm_TimeoutSeconds = ptr_Deref (pe_TimeoutSeconds (ap_PodExec p)) DefaultPodExecTimeoutSeconds\<rparr>)"

definition buildActivityRules :: "ActivityRule list \<Rightarrow> ActivityRuleModel list" where
  "buildActivityRules rules =
     map (\<lambda>rule.
       \<lparr>arl_SecondsSinceActive = arc_SecondsSinceActive (ar_Config rule),
        arl_MinRunningSeconds = ptr_Deref (arc_MinRunningSeconds (ar_Config rule)) 0,
        arl_Match =
          map (\<lambda>m. \<lparr>arm_MatchNamespace = arm_MatchNamespace m, arm_MatchPodConfig = arm_MatchPodConfig m\<rparr>)
            (ar_Match rule),
        arl_PauseWorkspace = ptr_Deref (are_PauseWorkspace (ar_Effect rule)) False\<rparr>) rules"

text \<open>The labels and annotations of an optional metadata, copied.\<close>

definition metadata_copy :: "WorkspaceKindMetadata option \<Rightarrow> MetadataModel" where
  "metadata_copy metadata =
     (case metadata of
       None \<Rightarrow> \<lparr>mm_Labels = [], mm_Annotations = []\<rparr>
     | Some m \<Rightarrow> \<lparr>mm_Labels = maps_Copy [] (km_Labels m), mm_Annotations = maps_Copy [] (km_Annotations m)\<rparr>)"

text \<open>
  The outer \<open>None\<close> is a panic, the inner one the result \<open>apiHide = true\<close>, which tells the caller to
  omit the kind.
\<close>

definition NewWorkspaceKindModelFromWorkspaceKind ::
  "k8s_lib \<Rightarrow> BackendEnvConfig option \<Rightarrow> WorkspaceKind \<Rightarrow> str_map option \<Rightarrow> WorkspaceKindListItem option option" where
  "NewWorkspaceKindModelFromWorkspaceKind K cfg wsk namespaceLabels =
     (let result = EvaluateWorkspaceKindFilterScopeRule K wsk namespaceLabels
      in if er_APIHide result then Some None
         else
           (let podMetadata = metadata_copy (kpt_PodMetadata (wk_PodTemplate wsk));
                stsMetadata = metadata_copy (kpt_StatefulSetMetadata (wk_PodTemplate wsk));
                saMetadata =
                  metadata_copy (case kpt_ServiceAccount (wk_PodTemplate wsk) of
                    None \<Rightarrow> None | Some sa \<Rightarrow> ksa_Metadata sa);
                listValuesRequest =
                  \<lparr>lvr_Context = \<lparr>lvc_Namespace = None, lvc_PodConfig = None, lvc_ImageConfig = None\<rparr>\<rparr>
            in case NewPodTemplateOptionsModelFromWorkspaceKind K wsk listValuesRequest None of
                 Inl err \<Rightarrow> None
               | Inr podTemplateOptions \<Rightarrow>
                   (let spawner = wks_Spawner (wk_Spec wsk); status = wk_Status wsk
                    in Some (Some
                      \<lparr>kli_Name = wk_Name wsk, kli_DisplayName = sw_DisplayName spawner,
                       kli_Description = sw_Description spawner,
                       kli_Deprecated = ptr_Deref (sw_Deprecated spawner) False,
                       kli_DeprecationMessage = ptr_Deref (sw_DeprecationMessage spawner) [],
                       kli_Hidden = (ptr_Deref (sw_Hidden spawner) False \<or> er_UIHide result),
                       kli_Icon =
                         NewImageRefFromWorkspaceKindAssetIcon cfg (sw_Icon spawner) (wkst_SpawnerIcon status) (wk_Name wsk),
                       kli_Logo =
                         NewImageRefFromWorkspaceKindAssetLogo cfg (sw_Logo spawner) (wkst_SpawnerLogo status) (wk_Name wsk),
                       kli_Workspaces = wkst_Workspaces status,
                       kli_PodTemplate =
                         \<lparr>kpm_PodMetadata = podMetadata, kpm_StatefulSetMetadata = stsMetadata,
                          kpm_ServiceAccountMetadata = saMetadata,
                          kpm_HomeMountPath = kpt_HomeMountPath (wk_PodTemplate wsk),
                          kpm_ActivityProbe = buildActivityProbe (kpt_ActivityProbe (wk_PodTemplate wsk)),
                          kpm_Options = podTemplateOptions\<rparr>,
                       kli_ActivityRules = buildActivityRules (wks_ActivityRules (wk_Spec wsk)),
                       kli_Restrictions = er_Restrictions result\<rparr>))))"

section \<open>The write models\<close>

record WorkspaceKindUpdate =
  wku_Revision :: string
  wku_Spawner :: WorkspaceKindSpawner
  wku_PodTemplate :: WorkspaceKindPodTemplate
  wku_ActivityRules :: "ActivityRule list"
  wku_FilterRules :: "FilterRule list"

record WorkspaceKindCreate =
  wkc_Name :: string
  wkc_Spawner :: WorkspaceKindSpawner
  wkc_PodTemplate :: WorkspaceKindPodTemplate
  wkc_ActivityRules :: "ActivityRule list"
  wkc_FilterRules :: "FilterRule list"

definition WorkspaceKindUpdate_Validate :: "string \<Rightarrow> WorkspaceKindUpdate \<Rightarrow> field_error list" where
  "WorkspaceKindUpdate_Validate prefix w =
     (if wku_Revision w = [] then [FieldRequired (path_Child prefix ''revision'') ''revision is required''] else [])"

definition NewWorkspaceKindCreateModelFromWorkspaceKind :: "WorkspaceKind \<Rightarrow> WorkspaceKindCreate" where
  "NewWorkspaceKindCreateModelFromWorkspaceKind wsk =
     \<lparr>wkc_Name = wk_Name wsk, wkc_Spawner = wks_Spawner (wk_Spec wsk), wkc_PodTemplate = wks_PodTemplate (wk_Spec wsk),
      wkc_ActivityRules = wks_ActivityRules (wk_Spec wsk), wkc_FilterRules = wks_FilterRules (wk_Spec wsk)\<rparr>"

definition NewWorkspaceKindUpdateModelFromWorkspaceKind :: "WorkspaceKind \<Rightarrow> WorkspaceKindUpdate" where
  "NewWorkspaceKindUpdateModelFromWorkspaceKind wsk =
     \<lparr>wku_Revision = CalculateRevision (wk_Meta wsk), wku_Spawner = wks_Spawner (wk_Spec wsk),
      wku_PodTemplate = wks_PodTemplate (wk_Spec wsk), wku_ActivityRules = wks_ActivityRules (wk_Spec wsk),
      wku_FilterRules = wks_FilterRules (wk_Spec wsk)\<rparr>"

definition ApplyWorkspaceKindUpdateModelToWorkspaceKind :: "WorkspaceKindUpdate \<Rightarrow> WorkspaceKind \<Rightarrow> WorkspaceKind" where
  "ApplyWorkspaceKindUpdateModelToWorkspaceKind update wsk =
     wsk\<lparr>wk_Spec := (wk_Spec wsk)
       \<lparr>wks_Spawner := wku_Spawner update, wks_PodTemplate := wku_PodTemplate update,
        wks_ActivityRules := wku_ActivityRules update, wks_FilterRules := wku_FilterRules update\<rparr>\<rparr>"

section \<open>Lemmas\<close>

text \<open>Without ids in the context the options of a kind can always be listed, so the list view never panics.\<close>

lemma listvalues_without_ids:
  assumes "lvc_ImageConfig (lvr_Context request) = None" and "lvc_PodConfig (lvr_Context request) = None"
  obtains opts where "NewPodTemplateOptionsModelFromWorkspaceKind K wsk request ns = Inr opts"
  using assms
  by (cases "configIDs request") (simp add: NewPodTemplateOptionsModelFromWorkspaceKind_def buildImageConfigValues_def
      buildPodConfigValues_def build_values_loop_result Let_def)

lemma NewWorkspaceKindModel_cases:
  obtains (hidden) "er_APIHide (EvaluateWorkspaceKindFilterScopeRule K wsk labels)"
      "NewWorkspaceKindModelFromWorkspaceKind K cfg wsk labels = Some None"
  | (shown) item where "\<not> er_APIHide (EvaluateWorkspaceKindFilterScopeRule K wsk labels)"
      "NewWorkspaceKindModelFromWorkspaceKind K cfg wsk labels = Some (Some item)"
      "kli_Name item = wk_Name wsk"
      "kli_Restrictions item = er_Restrictions (EvaluateWorkspaceKindFilterScopeRule K wsk labels)"
      "kli_Icon item = NewImageRefFromWorkspaceKindAssetIcon cfg (sw_Icon (wks_Spawner (wk_Spec wsk)))
         (wkst_SpawnerIcon (wk_Status wsk)) (wk_Name wsk)"
proof (cases "er_APIHide (EvaluateWorkspaceKindFilterScopeRule K wsk labels)")
  case True
  then show thesis
    by (intro hidden) (simp_all add: NewWorkspaceKindModelFromWorkspaceKind_def Let_def)
next
  case False
  obtain opts where "NewPodTemplateOptionsModelFromWorkspaceKind K wsk
      \<lparr>lvr_Context = \<lparr>lvc_Namespace = None, lvc_PodConfig = None, lvc_ImageConfig = None\<rparr>\<rparr> None = Inr opts"
    by (rule listvalues_without_ids [of "\<lparr>lvr_Context = \<lparr>lvc_Namespace = None, lvc_PodConfig = None, lvc_ImageConfig = None\<rparr>\<rparr>"])
      simp_all
  with False obtain item where "NewWorkspaceKindModelFromWorkspaceKind K cfg wsk labels = Some (Some item)"
      "kli_Name item = wk_Name wsk"
      "kli_Restrictions item = er_Restrictions (EvaluateWorkspaceKindFilterScopeRule K wsk labels)"
      "kli_Icon item = NewImageRefFromWorkspaceKindAssetIcon cfg (sw_Icon (wks_Spawner (wk_Spec wsk)))
         (wkst_SpawnerIcon (wk_Status wsk)) (wk_Name wsk)"
    by (simp add: NewWorkspaceKindModelFromWorkspaceKind_def Let_def)
  with False show thesis
    by (rule shown)
qed

lemma kind_update_model_roundtrip:
  "NewWorkspaceKindUpdateModelFromWorkspaceKind (ApplyWorkspaceKindUpdateModelToWorkspaceKind update wsk) =
     update\<lparr>wku_Revision := CalculateRevision (wk_Meta wsk)\<rparr>"
  by (simp add: NewWorkspaceKindUpdateModelFromWorkspaceKind_def ApplyWorkspaceKindUpdateModelToWorkspaceKind_def)

end
