(* ===== verification/Kind_Repo.thy ===== *)
theory Kind_Repo
  imports Kind_Models Kind_Controller
begin

text \<open>
  \<open>internal/repositories/workspacekinds/repo.go\<close>: the repository of WorkspaceKinds. The ConfigMaps of the
  assets are read through a client of their own (\<open>b_GetImageSource\<close>).
\<close>

section \<open>Operations\<close>

definition get_kind :: "'s backend \<Rightarrow> string \<Rightarrow> ('s, WorkspaceKind) bact" where
  "get_kind C name = b_map_error (not_found_as ErrWorkspaceKindNotFound) (b_read (b_GetWorkspaceKind C name))"

definition GetWorkspaceKind :: "'s backend \<Rightarrow> string \<Rightarrow> ('s, WorkspaceKindUpdate) bact" where
  "GetWorkspaceKind C name =
     b_bind (get_kind C name) (\<lambda>workspaceKind. b_return (NewWorkspaceKindUpdateModelFromWorkspaceKind workspaceKind))"

fun kind_models_loop ::
  "k8s_lib \<Rightarrow> BackendEnvConfig option \<Rightarrow> str_map option \<Rightarrow> WorkspaceKind list \<Rightarrow> ('s, WorkspaceKindListItem list) bact" where
  "kind_models_loop K cfg namespaceLabels [] = b_return []"
| "kind_models_loop K cfg namespaceLabels (wsk # wsks) =
     (case NewWorkspaceKindModelFromWorkspaceKind K cfg wsk namespaceLabels of
       None \<Rightarrow> b_panic
     | Some None \<Rightarrow> kind_models_loop K cfg namespaceLabels wsks
     | Some (Some model) \<Rightarrow>
         b_bind (kind_models_loop K cfg namespaceLabels wsks) (\<lambda>models. b_return (model # models)))"

definition NamespaceFilterQueryParam :: string where
  "NamespaceFilterQueryParam = ''namespaceFilter''"

definition GetWorkspaceKinds ::
  "backend_lib \<Rightarrow> BackendEnvConfig option \<Rightarrow> 's backend \<Rightarrow> string \<Rightarrow> ('s, WorkspaceKindListItem list) bact" where
  "GetWorkspaceKinds B cfg C namespaceFilter =
     b_bind (b_read (b_ListWorkspaceKinds C)) (\<lambda>workspaceKindList.
     b_bind (ResolveNamespaceLabels C namespaceFilter NamespaceFilterQueryParam) (\<lambda>namespaceLabels.
     kind_models_loop (bl_K8s B) cfg namespaceLabels workspaceKindList))"

definition CreateWorkspaceKind :: "'s backend \<Rightarrow> string option \<Rightarrow> WorkspaceKind \<Rightarrow> ('s, WorkspaceKindCreate) bact" where
  "CreateWorkspaceKind C actor workspaceKind =
     (let workspaceKind = workspaceKind\<lparr>wk_Meta := UpdateObjectMetaForCreate (wk_Meta workspaceKind) actor\<rparr>
      in b_bind (b_map_error
           (\<lambda>err. if reason_of err = Some ReasonAlreadyExists then SentinelError ErrWorkspaceKindAlreadyExists else err)
           (b_write (BCreateWorkspaceKind workspaceKind) (b_CreateWorkspaceKind C workspaceKind))) (\<lambda>workspaceKind.
         b_return (NewWorkspaceKindCreateModelFromWorkspaceKind workspaceKind)))"

definition UpdateWorkspaceKind ::
  "backend_lib \<Rightarrow> 's backend \<Rightarrow> string option \<Rightarrow> WorkspaceKindUpdate \<Rightarrow> string \<Rightarrow> ('s, WorkspaceKindUpdate) bact" where
  "UpdateWorkspaceKind B C actor workspaceKindUpdate name =
     b_bind (b_time_Now C) (\<lambda>now.
     b_bind (get_kind C name) (\<lambda>workspaceKind.
     let clusterRevision = CalculateRevision (wk_Meta workspaceKind);
         callerRevision = wku_Revision workspaceKindUpdate
     in if clusterRevision \<noteq> callerRevision then b_throw (SentinelError ErrWorkspaceKindRevisionConflict)
        else
          (let workspaceKind = ApplyWorkspaceKindUpdateModelToWorkspaceKind workspaceKindUpdate workspaceKind;
               workspaceKind = workspaceKind\<lparr>wk_Meta := UpdateObjectMetaForUpdate B (wk_Meta workspaceKind) actor now\<rparr>
           in b_bind (b_map_error (not_found_as ErrWorkspaceKindNotFound)
                (b_write (BUpdateWorkspaceKind workspaceKind) (b_UpdateWorkspaceKind C workspaceKind))) (\<lambda>workspaceKind.
              b_return (NewWorkspaceKindUpdateModelFromWorkspaceKind workspaceKind)))))"

definition DeleteWorkspaceKind :: "'s backend \<Rightarrow> string \<Rightarrow> ('s, unit) bact" where
  "DeleteWorkspaceKind C name =
     b_map_error (not_found_as ErrWorkspaceKindNotFound) (b_write (BDeleteWorkspaceKind name) (b_DeleteWorkspaceKind C name))"

definition ListPodTemplateOptionsValues ::
  "backend_lib \<Rightarrow> 's backend \<Rightarrow> string \<Rightarrow> ListValuesRequest \<Rightarrow> ('s, PodTemplateOptionsModel) bact" where
  "ListPodTemplateOptionsValues B C name listValuesRequest =
     b_bind (get_kind C name) (\<lambda>workspaceKind.
     let namespaceName = ptr_Deref (lvc_Namespace (lvr_Context listValuesRequest)) []
     in b_bind (ResolveNamespaceLabels C namespaceName ''context.namespace.name'') (\<lambda>namespaceLabels.
        case NewPodTemplateOptionsModelFromWorkspaceKind (bl_K8s B) workspaceKind listValuesRequest namespaceLabels of
          Inl err \<Rightarrow> b_throw err
        | Inr listValuesResponse \<Rightarrow> b_return listValuesResponse))"

definition getWorkspaceKindAssetBytes :: "'s backend \<Rightarrow> string \<Rightarrow> wskAssetType \<Rightarrow> ('s, string \<times> string) bact" where
  "getWorkspaceKindAssetBytes C name assetType =
     b_bind (get_kind C name) (\<lambda>workspaceKind.
     let assetConfigMap =
       (case assetType of
         wskAssetTypeIcon \<Rightarrow> as_ConfigMap (sw_Icon (wks_Spawner (wk_Spec workspaceKind)))
       | wskAssetTypeLogo \<Rightarrow> as_ConfigMap (sw_Logo (wks_Spawner (wk_Spec workspaceKind))))
     in case assetConfigMap of
          None \<Rightarrow> b_throw (SentinelError ErrWorkspaceKindAssetNotConfigMap)
        | Some ref \<Rightarrow>
            b_bind (b_map_error (not_found_as ErrWorkspaceKindAssetConfigMapNotFound)
                (b_read (b_GetImageSource C (acm_Namespace ref) (acm_Name ref)))) (\<lambda>configMap.
            case map_of (cm_Data configMap) (acm_Key ref) of
              Some stringData \<Rightarrow> b_return (stringData, acm_MediaType ref)
            | None \<Rightarrow>
                (case map_of (cm_BinaryData configMap) (acm_Key ref) of
                  Some bytesData \<Rightarrow> b_return (bytesData, acm_MediaType ref)
                | None \<Rightarrow> b_throw (SentinelError ErrWorkspaceKindAssetConfigMapKeyMissing))))"

definition GetWorkspaceKindAssetBytesIcon :: "'s backend \<Rightarrow> string \<Rightarrow> ('s, string \<times> string) bact" where
  "GetWorkspaceKindAssetBytesIcon C name = getWorkspaceKindAssetBytes C name wskAssetTypeIcon"

definition GetWorkspaceKindAssetBytesLogo :: "'s backend \<Rightarrow> string \<Rightarrow> ('s, string \<times> string) bact" where
  "GetWorkspaceKindAssetBytesLogo C name = getWorkspaceKindAssetBytes C name wskAssetTypeLogo"

section \<open>Lemmas\<close>

lemma b_spec_get_kind [b_spec_intros]: "b_spec 0 P (answered (b_GetWorkspaceKind C name)) (get_kind C name)"
  unfolding get_kind_def by (intro b_spec_intros)

text \<open>The kinds of a list that a caller may see, and those a Workspace may be created of.\<close>

definition visible_kinds :: "k8s_lib \<Rightarrow> str_map option \<Rightarrow> WorkspaceKind list \<Rightarrow> WorkspaceKind list" where
  "visible_kinds K labels wsks = filter (\<lambda>wsk. \<not> er_APIHide (EvaluateWorkspaceKindFilterScopeRule K wsk labels)) wsks"

lemma kind_models_loop_run:
  "\<exists>items. kind_models_loop K cfg labels wsks s = (BOk items, s) \<and>
     map kli_Name items = map wk_Name (visible_kinds K labels wsks) \<and>
     map kli_Name (filter (\<lambda>item. \<not> rs_Deny (kli_Restrictions item)) items) =
       map wk_Name (filter (\<lambda>wsk. kind_allowed K wsk labels) wsks)"
proof (induction wsks)
  case Nil
  then show ?case
    by (simp add: b_return_def visible_kinds_def)
next
  case (Cons wsk wsks)
  then obtain items where items: "kind_models_loop K cfg labels wsks s = (BOk items, s)"
    "map kli_Name items = map wk_Name (visible_kinds K labels wsks)"
    "map kli_Name (filter (\<lambda>item. \<not> rs_Deny (kli_Restrictions item)) items) =
       map wk_Name (filter (\<lambda>wsk. kind_allowed K wsk labels) wsks)"
    by blast
  show ?case
  proof (cases rule: NewWorkspaceKindModel_cases [of K wsk labels cfg])
    case hidden
    with items show ?thesis
      by (simp add: visible_kinds_def kind_allowed_def allowed_def)
  next
    case (shown item)
    with items show ?thesis
      by (simp add: b_bind_def b_return_def visible_kinds_def kind_allowed_def allowed_def)
  qed
qed

lemma kind_models_loop_no_panic: "kind_models_loop K cfg labels wsks s \<noteq> (BPanic, s')"
  using kind_models_loop_run [of K cfg labels wsks s] by auto

lemma b_spec_kind_models_loop:
  "b_spec 0 P
     (\<lambda>items. map kli_Name items = map wk_Name (visible_kinds K labels wsks) \<and>
        map kli_Name (filter (\<lambda>item. \<not> rs_Deny (kli_Restrictions item)) items) =
          map wk_Name (filter (\<lambda>wsk. kind_allowed K wsk labels) wsks))
     (kind_models_loop K cfg labels wsks)"
  unfolding b_spec_def
proof (intro allI impI)
  fix s :: "'a brun" and r s'
  assume run: "kind_models_loop K cfg labels wsks s = (r, s')"
  obtain items where "kind_models_loop K cfg labels wsks s = (BOk items, s)"
    "map kli_Name items = map wk_Name (visible_kinds K labels wsks)"
    "map kli_Name (filter (\<lambda>item. \<not> rs_Deny (kli_Restrictions item)) items) =
       map wk_Name (filter (\<lambda>wsk. kind_allowed K wsk labels) wsks)"
    using kind_models_loop_run [of K cfg labels wsks s] by blast
  with run show "(\<exists>new. br_calls s' = br_calls s @ new \<and> length new \<le> 0 \<and> list_all P new) \<and>
      (\<forall>x. r = BOk x \<longrightarrow> map kli_Name x = map wk_Name (visible_kinds K labels wsks) \<and>
        map kli_Name (filter (\<lambda>item. \<not> rs_Deny (kli_Restrictions item)) x) =
          map wk_Name (filter (\<lambda>wsk. kind_allowed K wsk labels) wsks))"
    by auto
qed

lemma b_spec_GetWorkspaceKinds:
  "b_spec 0 P
     (\<lambda>items. \<exists>wsks labels. answered (b_ListWorkspaceKinds C) wsks \<and> labels_of_namespace C ns labels \<and>
        map kli_Name items = map wk_Name (visible_kinds (bl_K8s B) labels wsks) \<and>
        map kli_Name (filter (\<lambda>item. \<not> rs_Deny (kli_Restrictions item)) items) =
          map wk_Name (filter (\<lambda>wsk. kind_allowed (bl_K8s B) wsk labels) wsks))
     (GetWorkspaceKinds B cfg C ns)"
  unfolding GetWorkspaceKinds_def
proof (rule b_spec_read_bind [OF b_spec_read], rule b_spec_read_bind [OF b_spec_ResolveNamespaceLabels])
  fix wsks labels
  assume "answered (b_ListWorkspaceKinds C) wsks" and "labels_of_namespace C ns labels"
  then show "b_spec 0 P
     (\<lambda>items. \<exists>wsks labels. answered (b_ListWorkspaceKinds C) wsks \<and> labels_of_namespace C ns labels \<and>
        map kli_Name items = map wk_Name (visible_kinds (bl_K8s B) labels wsks) \<and>
        map kli_Name (filter (\<lambda>item. \<not> rs_Deny (kli_Restrictions item)) items) =
          map wk_Name (filter (\<lambda>wsk. kind_allowed (bl_K8s B) wsk labels) wsks))
     (kind_models_loop (bl_K8s B) cfg labels wsks)"
    by (intro b_spec_weaken [OF b_spec_kind_models_loop]) auto
qed

text \<open>Without a namespace no rule on kinds applies, whatever its conditions are.\<close>

lemma kind_rules_without_namespace: "EvaluateWorkspaceKindFilterScopeRule K wsk None = EvalResult_default"
proof -
  let ?ctx = "buildEvalContext K wsk None workspaceKindScopes [] []"
  have none: "\<not> conditionMatches cm FilterRuleScopeWorkspaceKind labels ?ctx" for cm labels
    by (auto simp: conditionMatches_def matchSelector_def imageConfigLabels_def podConfigLabels_def buildEvalContext_def)
  have nonempty: "cr_matches cr \<noteq> []" if "cr \<in> set (compileRules K rules)" for cr rules
    using that by (induction K rules rule: compileRules.induct) (auto simp: Let_def split: if_splits)
  have "Evaluate_loop crs \<lparr>et_Scope = FilterRuleScopeWorkspaceKind, et_Labels = []\<rparr> labels ?ctx = EvalResult_default"
    if "\<forall>cr \<in> set crs. cr_matches cr \<noteq> []" for crs labels
    using that
  proof (induction crs)
    case (Cons cr crs)
    then obtain m ms where "cr_matches cr = m # ms"
      by (cases "cr_matches cr") auto
    with Cons none show ?case
      by simp
  qed simp
  moreover have "\<forall>cr \<in> set (ec_compiledRules ?ctx). cr_matches cr \<noteq> []"
    using nonempty by (auto simp: buildEvalContext_def)
  ultimately show ?thesis
    by (simp add: EvaluateWorkspaceKindFilterScopeRule_def Evaluate_def Let_def)
qed

lemma kind_model_without_namespace:
  obtains item where "NewWorkspaceKindModelFromWorkspaceKind K cfg wsk None = Some (Some item)"
    and "kli_Name item = wk_Name wsk" and "kli_Restrictions item = DefaultRestrictions"
    and "kli_Hidden item = ptr_Deref (sw_Hidden (wks_Spawner (wk_Spec wsk))) False"
proof (cases rule: NewWorkspaceKindModel_cases [of K wsk None cfg])
  case hidden
  then show thesis
    by (simp add: kind_rules_without_namespace EvalResult_default_def)
next
  case (shown item)
  then have "kli_Hidden item = ptr_Deref (sw_Hidden (wks_Spawner (wk_Spec wsk))) False"
    by (auto simp: NewWorkspaceKindModelFromWorkspaceKind_def kind_rules_without_namespace EvalResult_default_def Let_def
        split: if_splits sum.splits)
  with shown show thesis
    by (intro that) (simp_all add: kind_rules_without_namespace EvalResult_default_def)
qed

lemma kind_models_without_namespace:
  "\<exists>items. kind_models_loop K cfg None wsks s = (BOk items, s) \<and>
     map (\<lambda>item. (kli_Name item, kli_Hidden item, kli_Restrictions item)) items =
       map (\<lambda>wsk. (wk_Name wsk, ptr_Deref (sw_Hidden (wks_Spawner (wk_Spec wsk))) False, DefaultRestrictions)) wsks"
proof (induction wsks)
  case (Cons wsk wsks)
  then obtain items where items: "kind_models_loop K cfg None wsks s = (BOk items, s)"
    "map (\<lambda>item. (kli_Name item, kli_Hidden item, kli_Restrictions item)) items =
       map (\<lambda>wsk. (wk_Name wsk, ptr_Deref (sw_Hidden (wks_Spawner (wk_Spec wsk))) False, DefaultRestrictions)) wsks"
    by blast
  obtain item where "NewWorkspaceKindModelFromWorkspaceKind K cfg wsk None = Some (Some item)"
    "kli_Name item = wk_Name wsk" "kli_Restrictions item = DefaultRestrictions"
    "kli_Hidden item = ptr_Deref (sw_Hidden (wks_Spawner (wk_Spec wsk))) False"
    by (rule kind_model_without_namespace)
  with items show ?case
    by (intro exI [of _ "item # items"]) (simp add: b_bind_def b_return_def)
qed (simp add: b_return_def)

text \<open>What an update of a kind may write.\<close>

definition updates_kind ::
  "backend_lib \<Rightarrow> 's backend \<Rightarrow> string option \<Rightarrow> WorkspaceKindUpdate \<Rightarrow> string \<Rightarrow> WorkspaceKind \<Rightarrow> bool" where
  "updates_kind B C actor update name written \<longleftrightarrow>
     (\<exists>wk now. answered (b_GetWorkspaceKind C name) wk \<and> CalculateRevision (wk_Meta wk) = wku_Revision update \<and>
        wk_Meta written = UpdateObjectMetaForUpdate B (wk_Meta wk) actor now \<and> wk_Status written = wk_Status wk) \<and>
     wk_Spec written =
       \<lparr>wks_Spawner = wku_Spawner update, wks_PodTemplate = wku_PodTemplate update,
        wks_ActivityRules = wku_ActivityRules update, wks_FilterRules = wku_FilterRules update\<rparr>"

lemma b_spec_UpdateWorkspaceKind:
  "b_spec 1 (writes_as BUpdateWorkspaceKind (updates_kind B C actor update name))
     (stored_as (updates_kind B C actor update name) (b_UpdateWorkspaceKind C) NewWorkspaceKindUpdateModelFromWorkspaceKind)
     (UpdateWorkspaceKind B C actor update name)"
  unfolding UpdateWorkspaceKind_def Let_def
proof (rule b_spec_read_bind [OF b_spec_now], rule b_spec_read_bind [OF b_spec_get_kind],
    rule b_spec_if [OF b_spec_throw], goal_cases)
  case (1 now wk)
  have "wk_Spec (ApplyWorkspaceKindUpdateModelToWorkspaceKind update wk) =
       \<lparr>wks_Spawner = wku_Spawner update, wks_PodTemplate = wku_PodTemplate update,
        wks_ActivityRules = wku_ActivityRules update, wks_FilterRules = wku_FilterRules update\<rparr>"
    by (cases "wk_Spec wk") (simp add: ApplyWorkspaceKindUpdateModelToWorkspaceKind_def)
  with 1 have G: "updates_kind B C actor update name
      (ApplyWorkspaceKindUpdateModelToWorkspaceKind update wk
        \<lparr>wk_Meta := UpdateObjectMetaForUpdate B (wk_Meta (ApplyWorkspaceKindUpdateModelToWorkspaceKind update wk)) actor now\<rparr>)"
    by (auto simp: updates_kind_def ApplyWorkspaceKindUpdateModelToWorkspaceKind_def)
  show ?case
    by (rule b_spec_write_bind [OF b_spec_map_error [OF b_spec_write]], rule writes_asI, rule G,
        rule b_spec_return, erule stored_asI, rule G)
qed

section \<open>Properties\<close>

text \<open>
  C12. The kinds that are listed for a namespace are the kinds a Workspace may be created of: the listing
  never panics and writes nothing; it contains exactly the kinds that the rules do not hide in the
  namespace, in order; and those that it shows without a denial are exactly those for which creating a
  Workspace in that namespace passes the rules of the kind.
\<close>

theorem kind_listing_agrees_with_create:
  assumes "GetWorkspaceKinds B cfg C ns s = (r, s')"
  shows "r \<noteq> BPanic \<and> br_calls s' = br_calls s \<and>
    (\<forall>items. r = BOk items \<longrightarrow>
      (\<exists>wsks labels. answered (b_ListWorkspaceKinds C) wsks \<and> labels_of_namespace C ns labels \<and>
         map kli_Name items =
           map wk_Name (filter (\<lambda>wsk. \<not> er_APIHide (EvaluateWorkspaceKindFilterScopeRule (bl_K8s B) wsk labels)) wsks) \<and>
         map kli_Name (filter (\<lambda>item. \<not> rs_Deny (kli_Restrictions item)) items) =
           map wk_Name (filter
             (\<lambda>wsk. enforceWorkspaceKindFilterRules (bl_K8s B) wsk labels wsMutationTypeCreate = None) wsks)))"
proof -
  have "r \<noteq> BPanic"
    using assms
    by (auto simp: GetWorkspaceKinds_def ResolveNamespaceLabels_def b_bind_def b_read_def b_try_def b_return_def
        b_throw_def kind_models_loop_no_panic split: prod.splits sum.splits if_splits)
  moreover have "br_calls s' = br_calls s"
    using b_spec_GetWorkspaceKinds [of "\<lambda>c. False" C ns B cfg] assms by (auto simp: b_spec_def)
  ultimately show ?thesis
    using b_spec_GetWorkspaceKinds [of "\<lambda>c. False" C ns B cfg] assms
    unfolding b_spec_def enforceWorkspaceKindFilterRules_None visible_kinds_def by blast
qed

theorem kind_listing_agrees_with_create_witness:
  "\<exists>items. fst (GetWorkspaceKinds sample_lib None (sample_backend sample_workspace sample_kind []) [] sample_brun) = BOk items \<and>
     map kli_Name (filter (\<lambda>item. \<not> rs_Deny (kli_Restrictions item)) items) = [''jupyterlab'']"
proof -
  let ?C = "sample_backend sample_workspace sample_kind []"
  obtain items where "kind_models_loop (bl_K8s sample_lib) None None [sample_kind] sample_brun = (BOk items, sample_brun)"
    using kind_models_loop_run by blast
  then have items: "GetWorkspaceKinds sample_lib None ?C [] sample_brun = (BOk items, sample_brun)"
    by (simp add: GetWorkspaceKinds_def ResolveNamespaceLabels_def b_bind_def b_read_def b_return_def sample_backend_def
        sample_backend_answers(7) del: kind_models_loop.simps)
  obtain wsks labels where "answered (b_ListWorkspaceKinds ?C) wsks"
    "map kli_Name (filter (\<lambda>item. \<not> rs_Deny (kli_Restrictions item)) items) = map wk_Name (filter
       (\<lambda>wsk. enforceWorkspaceKindFilterRules (bl_K8s sample_lib) wsk labels wsMutationTypeCreate = None) wsks)"
    using kind_listing_agrees_with_create [OF items] by blast
  moreover from this(1) have "wsks = [sample_kind]"
    by (simp add: answered_def sample_backend_def)
  moreover have "wk_Name sample_kind = ''jupyterlab''"
    by (simp add: sample_kind_def)
  ultimately show ?thesis
    using items by (simp add: sample_kind_unrestricted)
qed

text \<open>
  The listing for administrators is complete, whatever rules a kind has (also ones the webhook would
  refuse): without a namespace, every kind the cluster listed is shown, in order, hidden only if its own
  field says so, and without a restriction. If the cluster answers the list, the request succeeds, and it
  asks nothing else.
\<close>

theorem admin_listing_complete:
  "case b_ListWorkspaceKinds C (br_world s) of
     (Inl err, w) \<Rightarrow> GetWorkspaceKinds B cfg C [] s = (BErr err, s\<lparr>br_world := w\<rparr>)
   | (Inr wsks, w) \<Rightarrow>
       \<exists>items. GetWorkspaceKinds B cfg C [] s = (BOk items, s\<lparr>br_world := w\<rparr>) \<and>
         map (\<lambda>item. (kli_Name item, kli_Hidden item, kli_Restrictions item)) items =
           map (\<lambda>wsk. (wk_Name wsk, ptr_Deref (sw_Hidden (wks_Spawner (wk_Spec wsk))) False,
             \<lparr>rs_Deny = False, rs_DenyMessage = None\<rparr>)) wsks"
proof (cases "b_ListWorkspaceKinds C (br_world s)")
  case (Pair res w)
  show ?thesis
  proof (cases res)
    case (Inl err)
    with Pair show ?thesis
      by (simp add: GetWorkspaceKinds_def b_bind_def b_read_def)
  next
    case (Inr wsks)
    obtain items where "kind_models_loop (bl_K8s B) cfg None wsks (s\<lparr>br_world := w\<rparr>) = (BOk items, s\<lparr>br_world := w\<rparr>)"
      "map (\<lambda>item. (kli_Name item, kli_Hidden item, kli_Restrictions item)) items =
         map (\<lambda>wsk. (wk_Name wsk, ptr_Deref (sw_Hidden (wks_Spawner (wk_Spec wsk))) False, DefaultRestrictions)) wsks"
      using kind_models_without_namespace by blast
    with Pair Inr show ?thesis
      by (simp add: GetWorkspaceKinds_def ResolveNamespaceLabels_def b_bind_def b_read_def b_return_def DefaultRestrictions_def)
  qed
qed

text \<open>
  C13. The image in the listing and the image that is served are the same: if the controller computed the
  status of the icon from a ConfigMap through its cache, and the ConfigMap that the backend reads has the
  same content (no key is in both of its maps, as Kubernetes demands), then the asset endpoint serves the
  bytes under the key with the media type of the reference, and the URL in the listing names the path of
  that endpoint and the SHA-256 of these bytes, without an error; and if there is no such key, then the
  endpoint reports that and the listing shows the same error.
\<close>

theorem served_icon_matches_listing:
  assumes "wf_map (cm_Data cm)" and "wf_map (cm_BinaryData cm)"
    and "map_of (om_Annotations (cm_Meta cm)) (SHA256AnnotationPrefix @ acm_Key ref) = None"
    and "map_of (cm_Data cm) (acm_Key ref) = None \<or> map_of (cm_BinaryData cm) (acm_Key ref) = None"
    and "as_Url (sw_Icon (wks_Spawner (wk_Spec wk))) = None" and "as_ConfigMap (sw_Icon (wks_Spawner (wk_Spec wk))) = Some ref"
    and "\<And>cm'. TransformConfigMapSHA256 (CacheConfigMap cm) = Inr (CacheConfigMap cm') \<Longrightarrow>
           kc_GetConfigMap KC (acm_Namespace ref) (acm_Name ref) (run_world ks) = (Inr cm', w')"
    and "fst (reconcileAssetStatus KC (sw_Icon (wks_Spawner (wk_Spec wk))) ks) = Inr (wkst_SpawnerIcon (wk_Status wk))"
    and "b_GetWorkspaceKind C (wk_Name wk) (br_world s) = (Inr wk, w1)"
    and "b_GetImageSource C (acm_Namespace ref) (acm_Name ref) w1 = (Inr served, w2)"
    and "cm_Data served = cm_Data cm" and "cm_BinaryData served = cm_BinaryData cm"
    and "NewWorkspaceKindModelFromWorkspaceKind K cfg wk labels = Some (Some item)"
  shows "case fst (GetWorkspaceKindAssetBytesIcon C (wk_Name wk) s) of
      BOk (bytes, mediaType) \<Rightarrow>
        mediaType = acm_MediaType ref \<and> ir_Error (kli_Icon item) = None \<and>
        (\<exists>prefix. ir_URL (kli_Icon item) = prefix @ ''/api/v1/workspacekinds/'' @ wk_Name wk @ ''/assets/icon?sha256='' @
           hex_EncodeToString (sha256_Sum256 bytes))
    | BErr err \<Rightarrow>
        err = SentinelError ErrWorkspaceKindAssetConfigMapKeyMissing \<and>
        ir_Error (kli_Icon item) = Some ImageRefErrorCodeConfigMapKeyMissing
    | BPanic \<Rightarrow> False"
proof -
  obtain st where st: "wkst_SpawnerIcon (wk_Status wk) = st"
    "(case (map_of (cm_BinaryData cm) (acm_Key ref), map_of (cm_Data cm) (acm_Key ref)) of
        (Some bytes, _) \<Rightarrow>
          st = \<lparr>ias_Sha256 = hex_EncodeToString (sha256_Sum256 bytes), ias_ConfigMap = None\<rparr> \<and> length (ias_Sha256 st) = 64
      | (None, Some bytes) \<Rightarrow>
          st = \<lparr>ias_Sha256 = hex_EncodeToString (sha256_Sum256 bytes), ias_ConfigMap = None\<rparr> \<and> length (ias_Sha256 st) = 64
      | (None, None) \<Rightarrow>
          ias_Sha256 st = [] \<and> map_option cms_Error (ias_ConfigMap st) = Some (Some ConfigMapErrorKeyNotFound))"
    using reconcileAssetStatus_cached [OF assms(1-3,5-7)] assms(8) by auto
  have icon: "kli_Icon item = NewImageRefFromWorkspaceKindAssetIcon cfg (sw_Icon (wks_Spawner (wk_Spec wk))) st (wk_Name wk)"
    using NewWorkspaceKindModel_cases [of K wk labels cfg] assms(13) st(1) by force
  have "fst (GetWorkspaceKindAssetBytesIcon C (wk_Name wk) s) =
      (case map_of (cm_Data cm) (acm_Key ref) of
        Some bytes \<Rightarrow> BOk (bytes, acm_MediaType ref)
      | None \<Rightarrow>
          (case map_of (cm_BinaryData cm) (acm_Key ref) of
            Some bytes \<Rightarrow> BOk (bytes, acm_MediaType ref)
          | None \<Rightarrow> BErr (SentinelError ErrWorkspaceKindAssetConfigMapKeyMissing)))"
    using assms(6,9-12)
    by (simp add: GetWorkspaceKindAssetBytesIcon_def getWorkspaceKindAssetBytes_def get_kind_def b_bind_def b_map_error_def
        b_read_def b_return_def b_throw_def Let_def split: option.split)
  with st(2) assms(4) show ?thesis
    unfolding icon NewImageRefFromWorkspaceKindAssetIcon_def newImageRefFromWorkspaceKindAsset_def Let_def icon_path
    by (auto simp: assms(5,6) configMapStatusToErrorCode_def split: option.splits)
qed

definition icon_kind :: WorkspaceKind where
  "icon_kind =
     sample_kind
       \<lparr>wk_Spec := (wk_Spec sample_kind)\<lparr>wks_Spawner := (wks_Spawner (wk_Spec sample_kind))
          \<lparr>sw_Icon := \<lparr>as_Url = None, as_ConfigMap = Some icon_ref\<rparr>\<rparr>\<rparr>,
        wk_Status := (wk_Status sample_kind)\<lparr>wkst_SpawnerIcon :=
          \<lparr>ias_Sha256 = hex_EncodeToString (sha256_Sum256 ''<svg/>''), ias_ConfigMap = None\<rparr>\<rparr>\<rparr>"

theorem served_icon_matches_listing_witness:
  "\<exists>item prefix. NewWorkspaceKindModelFromWorkspaceKind lib0 None icon_kind None = Some (Some item) \<and>
     ir_URL (kli_Icon item) = prefix @ ''/api/v1/workspacekinds/jupyterlab/assets/icon?sha256='' @
       hex_EncodeToString (sha256_Sum256 ''<svg/>'')"
proof -
  let ?C = "(sample_backend sample_workspace icon_kind [])\<lparr>b_GetImageSource := (\<lambda>_ _ _. (Inr icon_config_map, ()))\<rparr>"
  have maps: "wf_map (cm_Data icon_config_map)" "wf_map (cm_BinaryData icon_config_map)"
    "map_of (om_Annotations (cm_Meta icon_config_map)) (SHA256AnnotationPrefix @ acm_Key icon_ref) = None"
    "map_of (cm_Data icon_config_map) (acm_Key icon_ref) = None \<or> map_of (cm_BinaryData icon_config_map) (acm_Key icon_ref) = None"
    "map_of (cm_Data icon_config_map) (acm_Key icon_ref) = Some ''<svg/>''"
    by (simp_all add: icon_config_map_def icon_ref_def ObjectMeta_zero_def)
  have asset: "as_Url (sw_Icon (wks_Spawner (wk_Spec icon_kind))) = None"
    "as_ConfigMap (sw_Icon (wks_Spawner (wk_Spec icon_kind))) = Some icon_ref"
    by (simp_all add: icon_kind_def)
  have cached: "kc_GetConfigMap (kind_client0 []) (acm_Namespace icon_ref) (acm_Name icon_ref) (run_world kind_run0) = (Inr cm', ())"
    if "TransformConfigMapSHA256 (CacheConfigMap icon_config_map) = Inr (CacheConfigMap cm')" for cm'
    using that by (simp add: kind_client0_def icon_cached_def)
  have status: "fst (reconcileAssetStatus (kind_client0 []) (sw_Icon (wks_Spawner (wk_Spec icon_kind))) kind_run0) =
      Inr (wkst_SpawnerIcon (wk_Status icon_kind))"
    using reconcileAssetStatus_cached [OF maps(1-3) asset cached] maps(5)
    by (auto simp: icon_kind_def icon_config_map_def)
  have reads: "b_GetWorkspaceKind ?C (wk_Name icon_kind) (br_world sample_brun) = (Inr icon_kind, ())"
    "b_GetImageSource ?C (acm_Namespace icon_ref) (acm_Name icon_ref) () = (Inr icon_config_map, ())"
    by (simp_all add: sample_backend_def sample_brun_def)
  have visible: "\<not> er_APIHide (EvaluateWorkspaceKindFilterScopeRule lib0 icon_kind None)"
    by (simp add: EvaluateWorkspaceKindFilterScopeRule_def Evaluate_def buildEvalContext_def icon_kind_def sample_kind_def
        filterRulesByScope_def EvalResult_default_def)
  obtain item where item: "NewWorkspaceKindModelFromWorkspaceKind lib0 None icon_kind None = Some (Some item)"
    by (rule NewWorkspaceKindModel_cases [of lib0 icon_kind None None]) (use visible in auto)
  have "fst (GetWorkspaceKindAssetBytesIcon ?C (wk_Name icon_kind) sample_brun) = BOk (''<svg/>'', acm_MediaType icon_ref)"
    using reads maps(5) asset
    by (simp add: GetWorkspaceKindAssetBytesIcon_def getWorkspaceKindAssetBytes_def get_kind_def b_bind_def b_map_error_def
        b_read_def b_return_def Let_def)
  moreover have "wk_Name icon_kind = ''jupyterlab''"
    by (simp add: icon_kind_def sample_kind_def)
  ultimately show ?thesis
    using served_icon_matches_listing [OF maps(1-4) asset cached status reads refl refl item] item by auto
qed

text \<open>
  An update of a kind, whatever the cluster answers: at most one write is issued, and it is the
  update of the kind that was read, at the revision the caller named; its spec is the one of the request,
  the metadata gets the audit annotations and the status stays. A request that succeeds returns the model
  of what was stored.
\<close>

theorem UpdateWorkspaceKind_guarded:
  assumes "UpdateWorkspaceKind B C actor update name s = (r, s')"
  shows "(\<exists>new. br_calls s' = br_calls s @ new \<and> length new \<le> 1 \<and>
      list_all (writes_as BUpdateWorkspaceKind (updates_kind B C actor update name)) new) \<and>
    (\<forall>m. r = BOk m \<longrightarrow>
      stored_as (updates_kind B C actor update name) (b_UpdateWorkspaceKind C)
        NewWorkspaceKindUpdateModelFromWorkspaceKind m)"
  using b_spec_UpdateWorkspaceKind [of B C actor update name] assms unfolding b_spec_def by blast

definition sample_kind_update :: WorkspaceKindUpdate where
  "sample_kind_update =
     (NewWorkspaceKindUpdateModelFromWorkspaceKind sample_kind)\<lparr>wku_ActivityRules := []\<rparr>"

theorem UpdateWorkspaceKind_guarded_witness:
  "\<exists>m written. fst (UpdateWorkspaceKind sample_lib (sample_backend sample_workspace sample_kind []) (Some ''ann'')
        sample_kind_update ''jupyterlab'' sample_brun) = BOk m \<and>
     wku_ActivityRules m = [] \<and> wks_ActivityRules (wk_Spec written) = [] \<and>
     updates_kind sample_lib (sample_backend sample_workspace sample_kind []) (Some ''ann'') sample_kind_update
       ''jupyterlab'' written"
proof -
  let ?C = "sample_backend sample_workspace sample_kind []"
  have kind_answer: "b_UpdateWorkspaceKind ?C k u = (Inr k, ())" for k u
    by (simp add: sample_backend_def)
  have "CalculateRevision (wk_Meta sample_kind) = wku_Revision sample_kind_update" "wku_ActivityRules sample_kind_update = []"
    by (simp_all add: sample_kind_update_def NewWorkspaceKindUpdateModelFromWorkspaceKind_def)
  then obtain m s' where run: "UpdateWorkspaceKind sample_lib ?C (Some ''ann'') sample_kind_update ''jupyterlab'' sample_brun = (BOk m, s')"
    and m: "wku_ActivityRules m = []"
    by (simp add: UpdateWorkspaceKind_def get_kind_def sample_run_defs kind_answer
        NewWorkspaceKindUpdateModelFromWorkspaceKind_def ApplyWorkspaceKindUpdateModelToWorkspaceKind_def)
  from conjunct2 [OF UpdateWorkspaceKind_guarded [OF run]] obtain written where
    "updates_kind sample_lib ?C (Some ''ann'') sample_kind_update ''jupyterlab'' written"
    by (auto simp: stored_as_def)
  moreover from this have "wks_ActivityRules (wk_Spec written) = []"
    by (simp add: updates_kind_def sample_kind_update_def)
  ultimately show ?thesis
    using run m by (intro exI conjI) (simp_all only: fst_conv)
qed

end
