(* ===== verification/Kind_Handlers.thy ===== *)
theory Kind_Handlers
  imports Kind_Repo Workspace_Handlers
begin

text \<open>
  The handlers of WorkspaceKinds: \<open>api/workspacekinds_handler.go\<close>, \<open>api/workspacekind_assets_handler.go\<close> and
  \<open>api/workspacekind_podtemplate_options_handler.go\<close>. Where a caller names the namespace it wants to use the
  answer in, the policy is about that namespace.
\<close>

section \<open>Reading\<close>

definition NamespaceQueryParam :: string where
  "NamespaceQueryParam = ''namespace''"

definition ValidateWorkspaceKindName :: "backend_lib \<Rightarrow> string \<Rightarrow> string \<Rightarrow> field_error list" where
  "ValidateWorkspaceKindName = ValidateFieldIsDNS1123Label"

definition get_kind_error :: "backend_error \<Rightarrow> HTTPError" where
  "get_kind_error err = (if errors_Is ErrWorkspaceKindNotFound err then notFoundResponse else serverErrorResponse)"

definition GetWorkspaceKindHandler :: "'s app \<Rightarrow> 'b http_request \<Rightarrow> ('s, WorkspaceKindUpdate http_response) bact" where
  "GetWorkspaceKindHandler app r =
     (let name = hq_Name r
      in when_valid app errMsgPathParamsInvalid (ValidateWorkspaceKindName (app_Lib app) ResourceNamePathParam name)
           (with_auth app r [NewResourcePolicy VerbGet WorkspaceKinds [] name] (\<lambda>_.
              with_result (GetWorkspaceKind (app_Client app) name) get_kind_error DataResponse)))"

definition list_kinds_error :: "'s app \<Rightarrow> backend_error \<Rightarrow> HTTPError" where
  "list_kinds_error app err =
     (case FieldErrorsFromInternalValidationError err of
       Some fieldErrs \<Rightarrow> failedValidationResponse (app_Http app) errMsgInternalValidation fieldErrs []
     | None \<Rightarrow> serverErrorResponse)"

definition GetWorkspaceKindsHandler ::
  "'s app \<Rightarrow> 'b http_request \<Rightarrow> ('s, WorkspaceKindListItem list http_response) bact" where
  "GetWorkspaceKindsHandler app r =
     (let namespace = map_get (hq_Query r) NamespaceFilterQueryParam
      in when_valid app errMsgQueryParamsInvalid
           (if namespace \<noteq> [] then ValidateKubernetesNamespaceName (app_Lib app) NamespaceFilterQueryParam namespace else [])
           (with_auth app r
              (if namespace \<noteq> [] then [NewResourcePolicy VerbCreate Workspaces namespace []]
               else [NewResourcePolicy VerbList WorkspaceKinds [] []]) (\<lambda>_.
              with_result (GetWorkspaceKinds (app_Lib app) (Some (app_Config app)) (app_Client app) namespace)
                (list_kinds_error app) DataResponse)))"

definition list_values_error :: "'s app \<Rightarrow> backend_error \<Rightarrow> HTTPError" where
  "list_values_error app err =
     (if errors_Is ErrWorkspaceKindNotFound err then notFoundResponse else list_kinds_error app err)"

definition PodTemplateOptionsListValuesHandler ::
  "'s app \<Rightarrow> ListValuesRequest http_request \<Rightarrow> ('s, PodTemplateOptionsModel http_response) bact" where
  "PodTemplateOptionsListValuesHandler app r =
     (let name = hq_Name r
      in when_valid app errMsgPathParamsInvalid (ValidateWorkspaceKindName (app_Lib app) ResourceNamePathParam name)
           (with_body app r (ListValuesRequest_Validate (app_Lib app)) (\<lambda>listValuesRequest.
            let namespace = (case lvc_Namespace (lvr_Context listValuesRequest) of Some ns \<Rightarrow> ns | None \<Rightarrow> [])
            in with_auth app r
                 (if namespace \<noteq> [] then [NewResourcePolicy VerbCreate Workspaces namespace []]
                  else [NewResourcePolicy VerbGet WorkspaceKinds [] name]) (\<lambda>_.
                 with_result (ListPodTemplateOptionsValues (app_Lib app) (app_Client app) name listValuesRequest)
                   (list_values_error app) DataResponse))))"

section \<open>Assets\<close>

definition MediaTypeSVG :: string where
  "MediaTypeSVG = ''image/svg+xml''"

definition WorkspaceKindAssetMediaTypeSVG :: string where
  "WorkspaceKindAssetMediaTypeSVG = ''image/svg+xml''"

text \<open>A response with headers of its own; writing it cannot fail but for the connection.\<close>

record asset_response =
  asr_Headers :: str_map
  asr_Content :: string

definition WriteSVG :: "string \<Rightarrow> str_map \<Rightarrow> asset_response" where
  "WriteSVG content headers =
     (let h = maps_Copy [] headers;
          h = AList.update ''Content-Type'' MediaTypeSVG h;
          h = AList.update ''Content-Security-Policy''
                (''default-src '' @ [CHR 0x27] @ ''none'' @ [CHR 0x27] @ ''; script-src '' @ [CHR 0x27] @ ''none'' @ [CHR 0x27] @
                 ''; sandbox'') h;
          h = AList.update ''X-Content-Type-Options'' ''nosniff'' h;
          h = AList.update ''Content-Disposition''
                (''attachment; filename='' @ [CHR 0x22] @ ''workspacekind-asset.svg'' @ [CHR 0x22]) h
      in \<lparr>asr_Headers = h, asr_Content = content\<rparr>)"

definition wskAssetResponse :: "string \<Rightarrow> string \<Rightarrow> asset_response http_response" where
  "wskAssetResponse content mediaType =
     (if mediaType = WorkspaceKindAssetMediaTypeSVG then DataResponse (WriteSVG content [])
      else ErrorResponse serverErrorResponse)"

definition get_asset_error :: "backend_error \<Rightarrow> HTTPError" where
  "get_asset_error err =
     (if errors_Is ErrWorkspaceKindNotFound err \<or> errors_Is ErrWorkspaceKindAssetNotConfigMap err
      then notFoundResponse else serverErrorResponse)"

definition getWorkspaceKindAssetHandler ::
  "'s app \<Rightarrow> 'b http_request \<Rightarrow> wskAssetType \<Rightarrow> ('s, asset_response http_response) bact" where
  "getWorkspaceKindAssetHandler app r assetType =
     (let wskName = hq_Name r;
          namespace = map_get (hq_Query r) NamespaceQueryParam
      in when_valid app errMsgPathParamsInvalid (ValidateWorkspaceKindName (app_Lib app) ResourceNamePathParam wskName)
           (when_valid app errMsgQueryParamsInvalid
              (if namespace \<noteq> [] then ValidateKubernetesNamespaceName (app_Lib app) NamespaceQueryParam namespace else [])
              (with_auth app r
                 (if namespace \<noteq> [] then [NewResourcePolicy VerbList Workspaces namespace []]
                  else [NewResourcePolicy VerbGet WorkspaceKinds [] wskName]) (\<lambda>_.
                 with_result
                   (case assetType of
                      wskAssetTypeIcon \<Rightarrow> GetWorkspaceKindAssetBytesIcon (app_Client app) wskName
                    | wskAssetTypeLogo \<Rightarrow> GetWorkspaceKindAssetBytesLogo (app_Client app) wskName)
                   get_asset_error (\<lambda>(assetBytes, mediaType). wskAssetResponse assetBytes mediaType)))))"

definition GetWorkspaceKindIconHandler :: "'s app \<Rightarrow> 'b http_request \<Rightarrow> ('s, asset_response http_response) bact" where
  "GetWorkspaceKindIconHandler app r = getWorkspaceKindAssetHandler app r wskAssetTypeIcon"

definition GetWorkspaceKindLogoHandler :: "'s app \<Rightarrow> 'b http_request \<Rightarrow> ('s, asset_response http_response) bact" where
  "GetWorkspaceKindLogoHandler app r = getWorkspaceKindAssetHandler app r wskAssetTypeLogo"

section \<open>Writing\<close>

definition MediaTypeYaml :: string where
  "MediaTypeYaml = ''application/yaml''"

text \<open>
  What reading the body and the strict YAML decoder give: the reader fails (because the body is too large, or
  otherwise), the decoder finds unknown or duplicate fields (a list of errors, which may contain nil), or
  anything else, or an object with its API version and kind.
\<close>

datatype yaml_result =
    YamlMaxBytes string
  | YamlReadError
  | YamlStrictErrors "string option list"
  | YamlError string
  | YamlValue string string WorkspaceKind

definition decode_yaml_kind :: "'s app \<Rightarrow> 'b http_request \<Rightarrow> yaml_result \<Rightarrow> HTTPError + WorkspaceKind" where
  "decode_yaml_kind app r body =
     (case ValidateContentType (app_Http app) r MediaTypeYaml of
       Some resp \<Rightarrow> Inl resp
     | None \<Rightarrow>
         (case body of
           YamlMaxBytes err \<Rightarrow> Inl (requestEntityTooLargeResponse err)
         | YamlReadError \<Rightarrow> Inl serverErrorResponse
         | YamlStrictErrors errs \<Rightarrow>
             Inl (failedValidationResponse (app_Http app) errMsgRequestBodyInvalid
                    (map (\<lambda>e. FieldInvalid ''<nil>'' ''null'' e) (List.map_filter id errs)) [])
         | YamlError err \<Rightarrow> Inl (badRequestResponse (''error decoding request body: '' @ err))
         | YamlValue apiVersion kind workspaceKind \<Rightarrow>
             (let valErrs = ValidateWorkspaceKindGVK apiVersion kind @
                    ValidateWorkspaceKindName (app_Lib app) (path_Child ''metadata'' ''name'') (wk_Name workspaceKind)
              in if 0 < length valErrs
                 then Inl (failedValidationResponse (app_Http app) errMsgRequestBodyInvalid valErrs [])
                 else Inr workspaceKind)))"

definition create_kind_error :: "'s app \<Rightarrow> backend_error \<Rightarrow> HTTPError" where
  "create_kind_error app err =
     (if errors_Is ErrWorkspaceKindAlreadyExists err
      then conflictResponse (app_Lib app) err (StatusCausesFromAPIStatus err)
      else if reason_of err = Some ReasonInvalid
      then failedValidationResponse (app_Http app) errMsgKubernetesValidation [] (StatusCausesFromAPIStatus err)
      else serverErrorResponse)"

definition CreateWorkspaceKindHandler ::
  "'s app \<Rightarrow> 'b http_request \<Rightarrow> yaml_result \<Rightarrow> ('s, WorkspaceKindCreate http_response) bact" where
  "CreateWorkspaceKindHandler app r body =
     (case decode_yaml_kind app r body of
       Inl e \<Rightarrow> respond_error e
     | Inr workspaceKind \<Rightarrow>
         with_auth app r [NewResourcePolicy VerbCreate WorkspaceKinds [] (wk_Name workspaceKind)] (\<lambda>actor.
         with_result (CreateWorkspaceKind (app_Client app) (Some (ui_Name actor)) workspaceKind)
           (create_kind_error app)
           (\<lambda>createdWorkspaceKind.
              CreatedResponse createdWorkspaceKind (LocationGetWorkspaceKind (wkc_Name createdWorkspaceKind)))))"

definition update_kind_error :: "'s app \<Rightarrow> backend_error \<Rightarrow> HTTPError" where
  "update_kind_error app err =
     (if errors_Is ErrWorkspaceKindNotFound err then notFoundResponse
      else
        (case FieldErrorsFromInternalValidationError err of
          Some fieldErrs \<Rightarrow> failedValidationResponse (app_Http app) errMsgInternalValidation fieldErrs []
        | None \<Rightarrow>
            if errors_Is ErrWorkspaceKindRevisionConflict err then internalConflictResponse (app_Lib app) err
            else if reason_of err = Some ReasonInvalid
            then failedValidationResponse (app_Http app) errMsgKubernetesValidation [] (StatusCausesFromAPIStatus err)
            else serverErrorResponse))"

definition UpdateWorkspaceKindHandler ::
  "'s app \<Rightarrow> WorkspaceKindUpdate http_request \<Rightarrow> ('s, WorkspaceKindUpdate http_response) bact" where
  "UpdateWorkspaceKindHandler app r =
     (let name = hq_Name r
      in when_valid app errMsgPathParamsInvalid (ValidateWorkspaceKindName (app_Lib app) ResourceNamePathParam name)
           (with_auth app r [NewResourcePolicy VerbUpdate WorkspaceKinds [] name] (\<lambda>actor.
            with_body app r WorkspaceKindUpdate_Validate (\<lambda>workspaceKindUpdate.
            with_result
              (UpdateWorkspaceKind (app_Lib app) (app_Client app) (Some (ui_Name actor)) workspaceKindUpdate name)
              (update_kind_error app) DataResponse))))"

definition delete_kind_error :: "'s app \<Rightarrow> backend_error \<Rightarrow> HTTPError" where
  "delete_kind_error app err =
     (if errors_Is ErrWorkspaceKindNotFound err then notFoundResponse
      else if reason_of err = Some ReasonConflict
      then conflictResponse (app_Lib app) err (StatusCausesFromAPIStatus err)
      else serverErrorResponse)"

definition DeleteWorkspaceKindHandler :: "'s app \<Rightarrow> 'b http_request \<Rightarrow> ('s, unit http_response) bact" where
  "DeleteWorkspaceKindHandler app r =
     (let name = hq_Name r
      in when_valid app errMsgPathParamsInvalid (ValidateWorkspaceKindName (app_Lib app) ResourceNamePathParam name)
           (with_auth app r [NewResourcePolicy VerbDelete WorkspaceKinds [] name] (\<lambda>_.
              with_result (DeleteWorkspaceKind (app_Client app) name) (delete_kind_error app) (\<lambda>_. DeletedResponse))))"

section \<open>Lemmas\<close>

text \<open>The errors of an operation have statuses the handler may answer with.\<close>

lemma kind_error_statuses [status_intros]:
  "{404, 500} \<subseteq> S \<Longrightarrow> he_StatusCode (get_kind_error err) \<in> S"
  "{422, 500} \<subseteq> S \<Longrightarrow> he_StatusCode (list_kinds_error app err) \<in> S"
  "{404, 422, 500} \<subseteq> S \<Longrightarrow> he_StatusCode (list_values_error app err) \<in> S"
  "{404, 500} \<subseteq> S \<Longrightarrow> he_StatusCode (get_asset_error err) \<in> S"
  "{409, 422, 500} \<subseteq> S \<Longrightarrow> he_StatusCode (create_kind_error app err) \<in> S"
  "{404, 409, 422, 500} \<subseteq> S \<Longrightarrow> he_StatusCode (update_kind_error app err) \<in> S"
  "{404, 409, 500} \<subseteq> S \<Longrightarrow> he_StatusCode (delete_kind_error app err) \<in> S"
  by (simp_all add: get_kind_error_def list_kinds_error_def list_values_error_def get_asset_error_def create_kind_error_def
      update_kind_error_def delete_kind_error_def split: option.split)

lemma decode_yaml_status: "decode_yaml_kind app r body = Inl e \<Longrightarrow> he_StatusCode e \<in> {400, 413, 415, 422, 500}"
  by (auto simp: decode_yaml_kind_def ValidateContentType_def Let_def
      split: option.splits sum.splits yaml_result.splits if_splits)

lemma decode_yaml_Inr:
  "decode_yaml_kind app r body = Inr wk \<Longrightarrow> \<exists>apiVersion kind. body = YamlValue apiVersion kind wk"
  by (auto simp: decode_yaml_kind_def Let_def split: option.splits yaml_result.splits if_splits)

lemma kind_handler_statuses:
  "statuses_in {200, 401, 403, 404, 422, 500} (GetWorkspaceKindHandler app r)"
  "statuses_in {200, 401, 403, 422, 500} (GetWorkspaceKindsHandler app r)"
  "statuses_in {200, 400, 401, 403, 404, 413, 415, 422, 500} (PodTemplateOptionsListValuesHandler app rl)"
  "statuses_in {200, 400, 401, 403, 404, 409, 413, 415, 422, 500} (UpdateWorkspaceKindHandler app ru)"
  "statuses_in {204, 401, 403, 404, 409, 422, 500} (DeleteWorkspaceKindHandler app r)"
  unfolding GetWorkspaceKindHandler_def GetWorkspaceKindsHandler_def PodTemplateOptionsListValuesHandler_def
    UpdateWorkspaceKindHandler_def DeleteWorkspaceKindHandler_def Let_def
  by (intro status_intros; simp)+

lemma asset_handler_statuses:
  "statuses_in {200, 401, 403, 404, 422, 500} (getWorkspaceKindAssetHandler app r assetType)"
  unfolding getWorkspaceKindAssetHandler_def Let_def
  by (intro status_intros; simp add: wskAssetResponse_def split: prod.split)

lemma CreateWorkspaceKindHandler_statuses:
  "statuses_in {201, 400, 401, 403, 409, 413, 415, 422, 500} (CreateWorkspaceKindHandler app r body)"
proof (cases "decode_yaml_kind app r body")
  case (Inl e)
  then show ?thesis
    using decode_yaml_status [OF Inl] by (auto simp: CreateWorkspaceKindHandler_def intro!: statuses_in_return)
next
  case (Inr wk)
  then show ?thesis
    unfolding CreateWorkspaceKindHandler_def by simp (intro status_intros; simp)
qed

lemma b_spec_with_auth_if [handler_intros]:
  assumes "\<And>u. (if c then authorized app r verb resource ns name u else authorized app r verb' resource' ns' name' u) \<Longrightarrow>
      b_spec n P (on_success G) (k u)"
  shows "b_spec n P (on_success G)
    (with_auth app r (if c then [NewResourcePolicy verb resource ns name] else [NewResourcePolicy verb' resource' ns' name']) k)"
  using assms by (cases c) (auto intro!: b_spec_with_auth)

lemma b_pure_get_kind' [b_pure_intros]: "b_pure (Kind_Repo.get_kind C name)"
  unfolding Kind_Repo.get_kind_def by (intro b_pure_intros)

lemma b_pure_kind_models_loop [b_pure_intros]: "b_pure (kind_models_loop K cfg labels wsks)"
  by (induction wsks) (auto split: option.split intro!: b_pure_intros)

lemma b_pure_getWorkspaceKindAssetBytes [b_pure_intros]: "b_pure (getWorkspaceKindAssetBytes C name assetType)"
  unfolding getWorkspaceKindAssetBytes_def Let_def
  by (intro b_pure_intros) (auto split: option.split wskAssetType.split intro!: b_pure_intros)

lemma b_pure_kind_reads [b_pure_intros]:
  "b_pure (GetWorkspaceKind C name)" "b_pure (GetWorkspaceKinds B cfg C ns)"
  "b_pure (ListPodTemplateOptionsValues B C name req)"
  "b_pure (GetWorkspaceKindAssetBytesIcon C name)" "b_pure (GetWorkspaceKindAssetBytesLogo C name)"
  unfolding GetWorkspaceKind_def GetWorkspaceKinds_def ListPodTemplateOptionsValues_def Let_def
    GetWorkspaceKindAssetBytesIcon_def GetWorkspaceKindAssetBytesLogo_def
  by (auto split: sum.split intro!: b_pure_intros)

lemma b_pure_asset_reads:
  "b_pure (case assetType of
      wskAssetTypeIcon \<Rightarrow> GetWorkspaceKindAssetBytesIcon C name
    | wskAssetTypeLogo \<Rightarrow> GetWorkspaceKindAssetBytesLogo C name)"
  by (cases assetType) (simp_all add: b_pure_kind_reads)

lemma b_spec_CreateWorkspaceKind:
  "b_spec 1 (\<lambda>c. c = BCreateWorkspaceKind (wk\<lparr>wk_Meta := UpdateObjectMetaForCreate (wk_Meta wk) actor\<rparr>)) (\<lambda>_. True)
     (CreateWorkspaceKind C actor wk)"
  unfolding CreateWorkspaceKind_def Let_def
  by (rule b_spec_write_bind [OF b_spec_map_error [OF b_spec_write]]) (simp_all add: b_spec_return)

lemma b_spec_DeleteWorkspaceKind:
  "b_spec 1 (\<lambda>c. c = BDeleteWorkspaceKind name) (\<lambda>_. True) (DeleteWorkspaceKind C name)"
  unfolding DeleteWorkspaceKind_def by (rule b_spec_map_error, rule b_spec_mono [OF b_spec_write]) simp_all

end
