(* ===== verification/Mount_Maps.thy ===== *)
theory Mount_Maps
  imports Workspace_Repo
begin

text \<open>
  The maps from the name of a Secret or of a volume claim to the Workspaces or Pods that use it:
  \<open>buildSecretMountMap\<close> of the Secret repository and \<open>buildPodInfoMap\<close>, \<open>buildWorkspaceInfoMap\<close> of the
  repository of volume claims. All three walk over the objects, and per object over the names it uses,
  with a set of the names already seen.
\<close>

section \<open>The label that allows changes\<close>

text \<open>Secrets and volume claims are changed only if they carry it.\<close>

definition can_update :: "ObjectMeta \<Rightarrow> bool" where
  "can_update m \<longleftrightarrow> map_get (om_Labels m) LabelCanUpdate = ''true''"

section \<open>Definitions\<close>

record SecretMount =
  smt_Group :: string
  smt_Kind :: string
  smt_Name :: string

text \<open>A \<open>PodNode\<close> is its name.\<close>

record PodInfo =
  pdi_Name :: string
  pdi_Phase :: string
  pdi_Node :: "string option"

record PodTemplatePod =
  ptp_Name :: string
  ptp_Node :: "string option"

record WorkspaceInfo =
  wsi_Name :: string
  wsi_State :: WorkspaceState
  wsi_StateMessage :: string
  wsi_PodTemplatePod :: "PodTemplatePod option"

text \<open>A missing key of a Go map of slices reads as the empty slice.\<close>

definition slice_at :: "(string, 'm list) go_map \<Rightarrow> string \<Rightarrow> 'm list" where
  "slice_at m name = (case map_of m name of None \<Rightarrow> [] | Some ms \<Rightarrow> ms)"

text \<open>
  \<open>for _, name := range names { if !seen[name] { m[name] = append(m[name], mount); seen[name] = true } }\<close>,
  which returns the seen names and the map.
\<close>

fun append_unseen_loop ::
  "'m \<Rightarrow> string list \<Rightarrow> string list \<Rightarrow> (string, 'm list) go_map \<Rightarrow> string list \<times> (string, 'm list) go_map" where
  "append_unseen_loop mount [] seen m = (seen, m)"
| "append_unseen_loop mount (name # names) seen m =
     (if name \<notin> set seen
      then append_unseen_loop mount names (name # seen) (AList.update name (slice_at m name @ [mount]) m)
      else append_unseen_loop mount names seen m)"

fun secret_mounts_loop :: "Workspace list \<Rightarrow> (string, SecretMount list) go_map \<Rightarrow> (string, SecretMount list) go_map" where
  "secret_mounts_loop [] secretToMounts = secretToMounts"
| "secret_mounts_loop (ws # wss) secretToMounts =
     (let mount = \<lparr>smt_Group = GroupVersion_Group, smt_Kind = ''Workspace'', smt_Name = w_Name ws\<rparr>;
          (seenSecrets, secretToMounts) =
            append_unseen_loop mount (map psm_SecretName (wv_Secrets (wpt_Volumes (ws_PodTemplate (w_Spec ws))))) []
              secretToMounts
      in secret_mounts_loop wss secretToMounts)"

definition buildSecretMountMap :: "Workspace list \<Rightarrow> (string, SecretMount list) go_map" where
  "buildSecretMountMap workspaceList = secret_mounts_loop workspaceList []"

definition pod_info :: "Pod \<Rightarrow> PodInfo" where
  "pod_info pod =
     \<lparr>pdi_Name = om_Name (pod_Meta pod), pdi_Phase = pod_Phase pod,
      pdi_Node = (if ps_NodeName (pod_Spec pod) \<noteq> [] then Some (ps_NodeName (pod_Spec pod)) else None)\<rparr>"

text \<open>The claims that the volumes of a Pod name.\<close>

fun claim_names :: "Volume list \<Rightarrow> string list" where
  "claim_names [] = []"
| "claim_names (v # vs) =
     (case vol_Source v of
       PersistentVolumeClaimVolumeSource name ro \<Rightarrow> name # claim_names vs
     | SecretVolumeSource name mode \<Rightarrow> claim_names vs
     | OtherVolumeSource x \<Rightarrow> claim_names vs)"

fun pod_infos_loop :: "Pod list \<Rightarrow> (string, PodInfo list) go_map \<Rightarrow> (string, PodInfo list) go_map" where
  "pod_infos_loop [] pvcToPodInfo = pvcToPodInfo"
| "pod_infos_loop (pod # pods) pvcToPodInfo =
     (let (seenPVCs, pvcToPodInfo) =
        append_unseen_loop (pod_info pod) (claim_names (ps_Volumes (pod_Spec pod))) [] pvcToPodInfo
      in pod_infos_loop pods pvcToPodInfo)"

definition buildPodInfoMap :: "Pod list \<Rightarrow> (string, PodInfo list) go_map" where
  "buildPodInfoMap podList = pod_infos_loop podList []"

definition workspace_info :: "Workspace \<Rightarrow> WorkspaceInfo" where
  "workspace_info ws =
     (let pod = st_PodTemplatePod (w_Status ws)
      in \<lparr>wsi_Name = w_Name ws, wsi_State = st_State (w_Status ws), wsi_StateMessage = st_StateMessage (w_Status ws),
          wsi_PodTemplatePod =
            (if wps_Name pod \<noteq> []
             then Some \<lparr>ptp_Name = wps_Name pod,
                        ptp_Node = (if wps_NodeName pod \<noteq> [] then Some (wps_NodeName pod) else None)\<rparr>
             else None)\<rparr>)"

fun workspace_infos_loop ::
  "Workspace list \<Rightarrow> (string, WorkspaceInfo list) go_map \<Rightarrow> (string, WorkspaceInfo list) go_map" where
  "workspace_infos_loop [] pvcToWsInfo = pvcToWsInfo"
| "workspace_infos_loop (ws # wss) pvcToWsInfo =
     (let volumes = wpt_Volumes (ws_PodTemplate (w_Spec ws));
          (seenPVCs, pvcToWsInfo) =
            (case wv_Home volumes of
              None \<Rightarrow> ([], pvcToWsInfo)
            | Some pvcName \<Rightarrow> append_unseen_loop (workspace_info ws) [pvcName] [] pvcToWsInfo);
          (seenPVCs, pvcToWsInfo) =
            append_unseen_loop (workspace_info ws) (map pvm_PVCName (wv_Data volumes)) seenPVCs pvcToWsInfo
      in workspace_infos_loop wss pvcToWsInfo)"

definition buildWorkspaceInfoMap :: "Workspace list \<Rightarrow> (string, WorkspaceInfo list) go_map" where
  "buildWorkspaceInfoMap workspaceList = workspace_infos_loop workspaceList []"

section \<open>Lemmas\<close>

lemma slice_at_update [simp]: "slice_at (AList.update k v m) name = (if name = k then v else slice_at m name)"
  by (simp add: slice_at_def update_conv)

lemma slice_at_Nil [simp]: "slice_at [] name = []"
  by (simp add: slice_at_def)

lemma append_unseen_loop_seen: "set (fst (append_unseen_loop mount names seen m)) = set seen \<union> set names"
  by (induction mount names seen m rule: append_unseen_loop.induct) auto

lemma append_unseen_loop_slice:
  "slice_at (snd (append_unseen_loop mount names seen m)) name =
     slice_at m name @ (if name \<in> set names - set seen then [mount] else [])"
  by (induction mount names seen m rule: append_unseen_loop.induct) simp_all

lemma append_unseen_loop_result:
  assumes "append_unseen_loop mount names seen m = (seen', m')"
  shows "set seen' = set seen \<union> set names"
    and "slice_at m' name = slice_at m name @ (if name \<in> set names - set seen then [mount] else [])"
  using append_unseen_loop_seen [of mount names seen m] append_unseen_loop_slice [of mount names seen m name] assms
  by simp_all

text \<open>The claims that the volumes of a Workspace name.\<close>

definition workspace_claims :: "Workspace \<Rightarrow> string set" where
  "workspace_claims ws =
     (let volumes = wpt_Volumes (ws_PodTemplate (w_Spec ws))
      in set_option (wv_Home volumes) \<union> pvm_PVCName ` set (wv_Data volumes))"

definition workspace_secrets :: "Workspace \<Rightarrow> string set" where
  "workspace_secrets ws = psm_SecretName ` set (wv_Secrets (wpt_Volumes (ws_PodTemplate (w_Spec ws))))"

lemma secret_mounts_loop_result:
  "slice_at (secret_mounts_loop wss m) name = slice_at m name @
     map (\<lambda>ws. \<lparr>smt_Group = GroupVersion_Group, smt_Kind = ''Workspace'', smt_Name = w_Name ws\<rparr>)
       (filter (\<lambda>ws. name \<in> workspace_secrets ws) wss)"
proof (induction wss arbitrary: m)
  case (Cons ws wss)
  obtain seen m' where step: "append_unseen_loop \<lparr>smt_Group = GroupVersion_Group, smt_Kind = ''Workspace'', smt_Name = w_Name ws\<rparr>
      (map psm_SecretName (wv_Secrets (wpt_Volumes (ws_PodTemplate (w_Spec ws))))) [] m = (seen, m')"
    by fastforce
  then show ?case
    using append_unseen_loop_result(2) [OF step, of name] by (simp add: Cons.IH workspace_secrets_def)
qed simp

lemma pod_infos_loop_result:
  "slice_at (pod_infos_loop pods m) name = slice_at m name @
     map pod_info (filter (\<lambda>pod. name \<in> set (claim_names (ps_Volumes (pod_Spec pod)))) pods)"
proof (induction pods arbitrary: m)
  case (Cons pod pods)
  obtain seen m' where step: "append_unseen_loop (pod_info pod) (claim_names (ps_Volumes (pod_Spec pod))) [] m = (seen, m')"
    by fastforce
  then show ?case
    using append_unseen_loop_result(2) [OF step, of name] by (simp add: Cons.IH)
qed simp

lemma workspace_infos_loop_result:
  "slice_at (workspace_infos_loop wss m) name = slice_at m name @
     map workspace_info (filter (\<lambda>ws. name \<in> workspace_claims ws) wss)"
proof (induction wss arbitrary: m)
  case (Cons ws wss)
  let ?vs = "wpt_Volumes (ws_PodTemplate (w_Spec ws))"
  obtain seen1 m1 where home: "(case wv_Home ?vs of None \<Rightarrow> ([], m)
      | Some pvcName \<Rightarrow> append_unseen_loop (workspace_info ws) [pvcName] [] m) = (seen1, m1)"
    by fastforce
  then have h: "set seen1 = set_option (wv_Home ?vs)"
    "slice_at m1 name = slice_at m name @ (if name \<in> set_option (wv_Home ?vs) then [workspace_info ws] else [])"
    by (auto split: option.splits if_splits)
  obtain seen2 m2 where data:
    "append_unseen_loop (workspace_info ws) (map pvm_PVCName (wv_Data ?vs)) seen1 m1 = (seen2, m2)"
    by fastforce
  from home data have "workspace_infos_loop (ws # wss) m = workspace_infos_loop wss m2"
    by (simp add: Let_def)
  moreover have "slice_at m2 name = slice_at m name @ (if name \<in> workspace_claims ws then [workspace_info ws] else [])"
    using append_unseen_loop_result(2) [OF data, of name] h by (auto simp: workspace_claims_def Let_def)
  ultimately show ?case
    by (simp only: Cons.IH) simp
qed simp

section \<open>Properties\<close>

text \<open>
  C29. The lists of users of a Secret or of a volume claim are exact: under every name stand the Workspaces
  that mount the Secret, the Pods that mount the claim and the Workspaces that use the claim as home or
  data volume, each of them once, however often it names the volume, and in the order of the listing.
\<close>

theorem mount_maps_exact:
  "slice_at (buildSecretMountMap wss) name =
     map (\<lambda>ws. \<lparr>smt_Group = ''kubeflow.org'', smt_Kind = ''Workspace'', smt_Name = w_Name ws\<rparr>)
       (filter (\<lambda>ws. name \<in> psm_SecretName ` set (wv_Secrets (wpt_Volumes (ws_PodTemplate (w_Spec ws))))) wss) \<and>
   slice_at (buildPodInfoMap pods) name =
     map pod_info
       (filter (\<lambda>pod. \<exists>v ro. v \<in> set (ps_Volumes (pod_Spec pod)) \<and> vol_Source v = PersistentVolumeClaimVolumeSource name ro)
         pods) \<and>
   slice_at (buildWorkspaceInfoMap wss) name =
     map workspace_info
       (filter (\<lambda>ws. wv_Home (wpt_Volumes (ws_PodTemplate (w_Spec ws))) = Some name \<or>
          name \<in> pvm_PVCName ` set (wv_Data (wpt_Volumes (ws_PodTemplate (w_Spec ws))))) wss)"
proof -
  have claims: "name \<in> set (claim_names vs) \<longleftrightarrow>
      (\<exists>v ro. v \<in> set vs \<and> vol_Source v = PersistentVolumeClaimVolumeSource name ro)" for vs
    by (induction vs) (auto split: VolumeSource.split)
  show ?thesis
    by (auto simp: buildSecretMountMap_def buildPodInfoMap_def buildWorkspaceInfoMap_def secret_mounts_loop_result
        pod_infos_loop_result workspace_infos_loop_result workspace_secrets_def workspace_claims_def claims
        GroupVersion_Group_def Let_def intro!: arg_cong [where f = "map _"] filter_cong)
qed

end
