(* ===== verification/Secret_Repo.thy ===== *)
theory Secret_Repo
  imports Mount_Maps
begin

text \<open>
  Secrets: \<open>internal/models/secrets\<close> and \<open>internal/repositories/secrets/repo.go\<close>. A \<open>SecretValue\<close> is its
  one field, the optional base64 text; \<open>SecretData\<close> is a map whose iteration order is that of the list.
\<close>

section \<open>Models\<close>

type_synonym SecretData = "(string, string option) go_map"

record SecretListItem =
  sli_Name :: string
  sli_CanUpdate :: bool
  sli_CanMount :: bool
  sli_Mounts :: "SecretMount list"
  sli_Audit :: Audit

record SecretCreate =
  scr_Name :: string
  scr_Type :: string
  scr_Immutable :: bool
  scr_Contents :: SecretData

record SecretUpdate =
  sup_Type :: string
  sup_Immutable :: bool
  sup_Contents :: SecretData

definition SecretValue_Validate :: "backend_lib \<Rightarrow> string \<Rightarrow> string option \<Rightarrow> field_error list" where
  "SecretValue_Validate B prefix s =
     (case s of None \<Rightarrow> [] | Some base64 \<Rightarrow> ValidateFieldIsSecretBase64Value B (path_Child prefix ''base64'') base64)"

fun SecretData_Validate :: "backend_lib \<Rightarrow> string \<Rightarrow> SecretData \<Rightarrow> field_error list" where
  "SecretData_Validate B prefix [] = []"
| "SecretData_Validate B prefix ((key, val) # rest) =
     ValidateFieldIsConfigMapKey B prefix key @ SecretValue_Validate B (path_Key prefix key) val @
     SecretData_Validate B prefix rest"

definition ValidateKubernetesSecretName :: "backend_lib \<Rightarrow> string \<Rightarrow> string \<Rightarrow> field_error list" where
  "ValidateKubernetesSecretName = ValidateFieldIsDNS1123Subdomain"

definition SecretCreate_Validate :: "backend_lib \<Rightarrow> string \<Rightarrow> SecretCreate \<Rightarrow> field_error list" where
  "SecretCreate_Validate B prefix s =
     ValidateKubernetesSecretName B (path_Child prefix ''name'') (scr_Name s) @
     SecretData_Validate B (path_Child prefix ''contents'') (scr_Contents s)"

definition SecretUpdate_Validate :: "backend_lib \<Rightarrow> string \<Rightarrow> SecretUpdate \<Rightarrow> field_error list" where
  "SecretUpdate_Validate B prefix s = SecretData_Validate B (path_Child prefix ''contents'') (sup_Contents s)"

definition NewSecretListItemFromSecretMetadata ::
  "backend_lib \<Rightarrow> ObjectMeta \<Rightarrow> (string, SecretMount list) go_map \<Rightarrow> SecretListItem" where
  "NewSecretListItemFromSecretMetadata B secret secretToMountsList =
     \<lparr>sli_Name = om_Name secret,
      sli_CanUpdate = (map_get (om_Labels secret) LabelCanUpdate = ''true''),
      sli_CanMount = (map_get (om_Labels secret) LabelCanMount = ''true''),
      sli_Mounts = slice_at secretToMountsList (om_Name secret),
      sli_Audit = NewAuditFromObjectMeta B (Some secret)\<rparr>"

fun update_data_loop :: "backend_lib \<Rightarrow> str_map \<Rightarrow> SecretData \<Rightarrow> str_map \<Rightarrow> backend_error + str_map" where
  "update_data_loop B existing [] newData = Inr newData"
| "update_data_loop B existing ((key, val) # rest) newData =
     (case val of
       Some base64 \<Rightarrow>
         (case bl_base64_Decode B base64 of
           Inl err \<Rightarrow> Inl (PlainError err)
         | Inr decoded \<Rightarrow> update_data_loop B existing rest (AList.update key decoded newData))
     | None \<Rightarrow>
         (case map_of existing key of
           Some existingValue \<Rightarrow> update_data_loop B existing rest (AList.update key existingValue newData)
         | None \<Rightarrow> update_data_loop B existing rest newData))"

definition ApplySecretUpdateModelToSecret :: "backend_lib \<Rightarrow> SecretUpdate \<Rightarrow> Secret \<Rightarrow> backend_error + Secret" where
  "ApplySecretUpdateModelToSecret B secretUpdate secret =
     (case update_data_loop B (sec_Data secret) (sup_Contents secretUpdate) [] of
       Inl err \<Rightarrow> Inl err
     | Inr newData \<Rightarrow>
         Inr (secret\<lparr>sec_Data := newData, sec_Type := sup_Type secretUpdate,
                     sec_Immutable := Some (sup_Immutable secretUpdate)\<rparr>))"

fun create_data_loop :: "backend_lib \<Rightarrow> SecretData \<Rightarrow> str_map \<Rightarrow> backend_error + str_map" where
  "create_data_loop B [] data = Inr data"
| "create_data_loop B ((key, val) # rest) data =
     (case val of
       Some base64 \<Rightarrow>
         (case bl_base64_Decode B base64 of
           Inl err \<Rightarrow> Inl (PlainError err)
         | Inr decoded \<Rightarrow> create_data_loop B rest (AList.update key decoded data))
     | None \<Rightarrow> create_data_loop B rest data)"

definition NewSecretFromSecretCreateModel :: "backend_lib \<Rightarrow> SecretCreate \<Rightarrow> string \<Rightarrow> backend_error + Secret" where
  "NewSecretFromSecretCreateModel B secretCreate namespace =
     (case create_data_loop B (scr_Contents secretCreate) [] of
       Inl err \<Rightarrow> Inl err
     | Inr data \<Rightarrow>
         Inr \<lparr>sec_Meta = ObjectMeta_zero
                \<lparr>om_Name := scr_Name secretCreate, om_Namespace := namespace,
                 om_Labels := [(LabelCanMount, ''true''), (LabelCanUpdate, ''true'')]\<rparr>,
              sec_Type = scr_Type secretCreate, sec_Immutable = Some (scr_Immutable secretCreate), sec_Data = data\<rparr>)"

definition secretDataFromKubernetesSecret :: "str_map \<Rightarrow> SecretData" where
  "secretDataFromKubernetesSecret data = map (\<lambda>(key, _). (key, None)) data"

definition NewSecretCreateModelFromSecret :: "Secret \<Rightarrow> SecretCreate" where
  "NewSecretCreateModelFromSecret secret =
     \<lparr>scr_Name = om_Name (sec_Meta secret), scr_Type = sec_Type secret,
      scr_Immutable = ptr_Deref (sec_Immutable secret) False,
      scr_Contents = secretDataFromKubernetesSecret (sec_Data secret)\<rparr>"

definition NewSecretUpdateModelFromSecret :: "Secret \<Rightarrow> SecretUpdate" where
  "NewSecretUpdateModelFromSecret secret =
     \<lparr>sup_Type = sec_Type secret, sup_Immutable = ptr_Deref (sec_Immutable secret) False,
      sup_Contents = secretDataFromKubernetesSecret (sec_Data secret)\<rparr>"

section \<open>The repository\<close>

definition GetSecrets :: "backend_lib \<Rightarrow> 's backend \<Rightarrow> string \<Rightarrow> ('s, SecretListItem list) bact" where
  "GetSecrets B C namespace =
     b_bind (b_read (b_ListSecrets C namespace)) (\<lambda>secretMetaList.
     b_bind (b_read (b_ListWorkspaces C (Some namespace))) (\<lambda>workspaceList.
     let secretToMountsList = buildSecretMountMap workspaceList
     in b_return (map (\<lambda>secret. NewSecretListItemFromSecretMetadata B secret secretToMountsList) secretMetaList)))"

definition get_secret :: "'s backend \<Rightarrow> string \<Rightarrow> string \<Rightarrow> ('s, Secret) bact" where
  "get_secret C namespace secretName =
     b_map_error (not_found_as ErrSecretNotFound) (b_read (b_GetSecret C namespace secretName))"

definition GetSecret :: "'s backend \<Rightarrow> string \<Rightarrow> string \<Rightarrow> ('s, SecretUpdate) bact" where
  "GetSecret C namespace secretName =
     b_bind (get_secret C namespace secretName) (\<lambda>secret. b_return (NewSecretUpdateModelFromSecret secret))"

definition CreateSecret ::
  "backend_lib \<Rightarrow> 's backend \<Rightarrow> string option \<Rightarrow> SecretCreate \<Rightarrow> string \<Rightarrow> ('s, SecretCreate) bact" where
  "CreateSecret B C actor secretCreate namespace =
     (case NewSecretFromSecretCreateModel B secretCreate namespace of
       Inl err \<Rightarrow> b_throw err
     | Inr secret \<Rightarrow>
         (let secret = secret\<lparr>sec_Meta := UpdateObjectMetaForCreate (sec_Meta secret) actor\<rparr>
          in b_bind (b_map_error
               (\<lambda>err. if reason_of err = Some ReasonAlreadyExists then SentinelError ErrSecretAlreadyExists else err)
               (b_write (BCreateSecret secret) (b_CreateSecret C secret))) (\<lambda>secret.
             b_return (NewSecretCreateModelFromSecret secret))))"

definition UpdateSecret ::
  "backend_lib \<Rightarrow> 's backend \<Rightarrow> string option \<Rightarrow> SecretUpdate \<Rightarrow> string \<Rightarrow> string \<Rightarrow> ('s, SecretUpdate) bact" where
  "UpdateSecret B C actor secretUpdate namespace secretName =
     b_bind (b_time_Now C) (\<lambda>now.
     b_bind (get_secret C namespace secretName) (\<lambda>secret.
     if map_get (om_Labels (sec_Meta secret)) LabelCanUpdate \<noteq> ''true'' then b_throw (SentinelError ErrSecretNotCanUpdate)
     else
       (case ApplySecretUpdateModelToSecret B secretUpdate secret of
         Inl err \<Rightarrow> b_throw err
       | Inr secret \<Rightarrow>
           (let secret = secret\<lparr>sec_Meta := UpdateObjectMetaForUpdate B (sec_Meta secret) actor now\<rparr>
            in b_bind (b_map_error (not_found_as ErrSecretNotFound)
                 (b_write (BUpdateSecret secret) (b_UpdateSecret C secret))) (\<lambda>secret.
               b_return (NewSecretUpdateModelFromSecret secret))))))"

definition DeleteSecret :: "'s backend \<Rightarrow> string \<Rightarrow> string \<Rightarrow> ('s, unit) bact" where
  "DeleteSecret C namespace secretName =
     b_bind (get_secret C namespace secretName) (\<lambda>secret.
     if map_get (om_Labels (sec_Meta secret)) LabelCanUpdate \<noteq> ''true'' then b_throw (SentinelError ErrSecretNotCanUpdate)
     else
       b_map_error (not_found_as ErrSecretNotFound)
         (b_write (BDeleteSecret (om_Namespace (sec_Meta secret)) (om_Name (sec_Meta secret)))
           (b_DeleteSecret C (om_Namespace (sec_Meta secret)) (om_Name (sec_Meta secret)))))"

section \<open>Lemmas\<close>

lemma update_data_loop_lookup:
  "update_data_loop B existing contents newData = Inr data \<Longrightarrow> wf_map contents \<Longrightarrow>
   map_of data key =
     (case map_of contents key of
       None \<Rightarrow> map_of newData key
     | Some None \<Rightarrow> (case map_of existing key of None \<Rightarrow> map_of newData key | Some v \<Rightarrow> Some v)
     | Some (Some base64) \<Rightarrow> (case bl_base64_Decode B base64 of Inl err \<Rightarrow> None | Inr decoded \<Rightarrow> Some decoded))"
proof (induction B existing contents newData rule: update_data_loop.induct)
  case (2 B existing k val rest newData)
  have "map_of rest k = None"
    using 2(5) by (simp add: map_of_eq_None_iff)
  with 2 show ?case
    by (auto simp: update_conv split: option.splits sum.splits)
qed simp

lemma create_data_loop_lookup:
  "create_data_loop B contents data0 = Inr data \<Longrightarrow> wf_map contents \<Longrightarrow>
   map_of data key =
     (case map_of contents key of
       Some (Some base64) \<Rightarrow> (case bl_base64_Decode B base64 of Inl err \<Rightarrow> None | Inr decoded \<Rightarrow> Some decoded)
     | _ \<Rightarrow> map_of data0 key)"
proof (induction B contents data0 rule: create_data_loop.induct)
  case (2 B k val rest data0)
  have "map_of rest k = None"
    using 2(4) by (simp add: map_of_eq_None_iff)
  with 2 show ?case
    by (auto simp: update_conv split: option.splits sum.splits)
qed simp

text \<open>After the validation of the contents, their values decode, so no error is left.\<close>

lemma update_data_loop_valid:
  "SecretData_Validate B prefix contents = [] \<Longrightarrow> \<exists>data. update_data_loop B existing contents newData = Inr data"
  by (induction B existing contents newData rule: update_data_loop.induct)
    (auto simp: SecretValue_Validate_def ValidateFieldIsSecretBase64Value_def split: option.splits sum.splits)

lemma create_data_loop_valid:
  "SecretData_Validate B prefix contents = [] \<Longrightarrow> \<exists>data. create_data_loop B contents data0 = Inr data"
  by (induction B contents data0 rule: create_data_loop.induct)
    (auto simp: SecretValue_Validate_def ValidateFieldIsSecretBase64Value_def split: option.splits sum.splits)

lemma b_spec_get_secret [b_spec_intros]: "b_spec 0 P (answered (b_GetSecret C ns name)) (get_secret C ns name)"
  unfolding get_secret_def by (intro b_spec_intros)

lemma secretData_keys: "fst ` set (secretDataFromKubernetesSecret data) = fst ` set data"
  by (force simp: secretDataFromKubernetesSecret_def)

lemma secretData_hidden [dest!]: "(key, val) \<in> set (secretDataFromKubernetesSecret data) \<Longrightarrow> val = None"
  by (auto simp: secretDataFromKubernetesSecret_def)

text \<open>What an update of a Secret may write.\<close>

definition updates_secret ::
  "backend_lib \<Rightarrow> 's backend \<Rightarrow> string option \<Rightarrow> SecretUpdate \<Rightarrow> string \<Rightarrow> string \<Rightarrow> Secret \<Rightarrow> bool" where
  "updates_secret B C actor update ns name written \<longleftrightarrow>
     (\<exists>sec now. answered (b_GetSecret C ns name) sec \<and> can_update (sec_Meta sec) \<and>
        sec_Meta written = UpdateObjectMetaForUpdate B (sec_Meta sec) actor now \<and>
        (\<forall>key. map_of (sec_Data written) key =
           (case map_of (sup_Contents update) key of
             None \<Rightarrow> None
           | Some None \<Rightarrow> map_of (sec_Data sec) key
           | Some (Some base64) \<Rightarrow> (case bl_base64_Decode B base64 of Inl err \<Rightarrow> None | Inr decoded \<Rightarrow> Some decoded)))) \<and>
     sec_Type written = sup_Type update \<and> sec_Immutable written = Some (sup_Immutable update)"

lemma ApplySecretUpdate_lookup:
  assumes "ApplySecretUpdateModelToSecret B update sec = Inr written" and "wf_map (sup_Contents update)"
  shows "map_of (sec_Data written) key =
      (case map_of (sup_Contents update) key of
        None \<Rightarrow> None
      | Some None \<Rightarrow> map_of (sec_Data sec) key
      | Some (Some base64) \<Rightarrow> (case bl_base64_Decode B base64 of Inl err \<Rightarrow> None | Inr decoded \<Rightarrow> Some decoded))"
    and "sec_Meta written = sec_Meta sec" and "sec_Type written = sup_Type update"
    and "sec_Immutable written = Some (sup_Immutable update)"
proof -
  obtain data where data: "update_data_loop B (sec_Data sec) (sup_Contents update) [] = Inr data"
    and "written = sec\<lparr>sec_Data := data, sec_Type := sup_Type update, sec_Immutable := Some (sup_Immutable update)\<rparr>"
    using assms(1) by (auto simp: ApplySecretUpdateModelToSecret_def split: sum.splits)
  then show "map_of (sec_Data written) key =
      (case map_of (sup_Contents update) key of
        None \<Rightarrow> None
      | Some None \<Rightarrow> map_of (sec_Data sec) key
      | Some (Some base64) \<Rightarrow> (case bl_base64_Decode B base64 of Inl err \<Rightarrow> None | Inr decoded \<Rightarrow> Some decoded))"
    and "sec_Meta written = sec_Meta sec" and "sec_Type written = sup_Type update"
    and "sec_Immutable written = Some (sup_Immutable update)"
    by (simp_all add: update_data_loop_lookup [OF data assms(2)] split: option.split)
qed

lemma b_spec_UpdateSecret:
  assumes "wf_map (sup_Contents update)"
  shows "b_spec 1 (writes_as BUpdateSecret (updates_secret B C actor update ns name))
    (stored_as (updates_secret B C actor update ns name) (b_UpdateSecret C) NewSecretUpdateModelFromSecret)
    (UpdateSecret B C actor update ns name)"
  unfolding UpdateSecret_def Let_def
proof (rule b_spec_read_bind [OF b_spec_now], rule b_spec_read_bind [OF b_spec_get_secret],
    rule b_spec_if [OF b_spec_throw], goal_cases)
  case (1 now sec)
  show ?case
  proof (cases "ApplySecretUpdateModelToSecret B update sec")
    case (Inl err)
    then show ?thesis
      by (simp add: b_spec_throw)
  next
    case (Inr written)
    have G: "updates_secret B C actor update ns name
        (written\<lparr>sec_Meta := UpdateObjectMetaForUpdate B (sec_Meta written) actor now\<rparr>)"
      using 1 ApplySecretUpdate_lookup [OF Inr assms] by (auto simp: updates_secret_def can_update_def)
    show ?thesis
      unfolding Inr sum.case
      by (rule b_spec_write_bind [OF b_spec_map_error [OF b_spec_write]], rule writes_asI, rule G,
          rule b_spec_return, erule stored_asI, rule G)
  qed
qed

lemma b_spec_DeleteSecret:
  "b_spec 1 (\<lambda>c. \<exists>sec. answered (b_GetSecret C ns name) sec \<and> can_update (sec_Meta sec) \<and>
      c = BDeleteSecret (om_Namespace (sec_Meta sec)) (om_Name (sec_Meta sec))) (\<lambda>_. True) (DeleteSecret C ns name)"
  unfolding DeleteSecret_def
proof (rule b_spec_read_bind [OF b_spec_get_secret], rule b_spec_if [OF b_spec_throw], goal_cases)
  case (1 sec)
  then show ?case
    by (intro b_spec_map_error b_spec_mono [OF b_spec_write]) (auto simp: can_update_def)
qed

section \<open>Properties\<close>

text \<open>
  C23. A Secret changes only as its labels and the request say, whatever the cluster answers: an update or a
  deletion issues at most one write, on a Secret that was read with the label that allows updates; an
  update writes, key by key, the decoded value if the request has one, the stored value if the request
  names the key without a value, and nothing for a key the request leaves out, with the audit
  annotations; and a client that sends back what it read changes no data.
\<close>

theorem secret_writes_exact:
  assumes "wf_map (sup_Contents update)" and "wf_map (sec_Data sec)"
  shows "b_spec 1 (writes_as BUpdateSecret (updates_secret B C actor update ns name))
      (stored_as (updates_secret B C actor update ns name) (b_UpdateSecret C) NewSecretUpdateModelFromSecret)
      (UpdateSecret B C actor update ns name) \<and>
    b_spec 1 (\<lambda>c. \<exists>sec. answered (b_GetSecret C ns name) sec \<and> can_update (sec_Meta sec) \<and>
        c = BDeleteSecret (om_Namespace (sec_Meta sec)) (om_Name (sec_Meta sec))) (\<lambda>_. True) (DeleteSecret C ns name) \<and>
    (\<exists>sec'. ApplySecretUpdateModelToSecret B (NewSecretUpdateModelFromSecret sec) sec = Inr sec' \<and>
       map_of (sec_Data sec') = map_of (sec_Data sec) \<and> sec_Meta sec' = sec_Meta sec \<and> sec_Type sec' = sec_Type sec)"
proof (intro conjI)
  have contents: "sup_Contents (NewSecretUpdateModelFromSecret sec) = map (\<lambda>(key, _). (key, None)) (sec_Data sec)"
    by (simp add: NewSecretUpdateModelFromSecret_def secretDataFromKubernetesSecret_def)
  have keys: "map fst (map (\<lambda>(key, _). (key, None)) (sec_Data sec)) = map fst (sec_Data sec)"
    by auto
  have wf: "wf_map (sup_Contents (NewSecretUpdateModelFromSecret sec))"
    using assms(2) unfolding contents keys .
  have lookup: "map_of (map (\<lambda>(key, _). (key, None)) d) key = map_option (\<lambda>_. None) (map_of d key)"
    for d :: str_map and key
    by (induction d) auto
  have "\<exists>data. update_data_loop B existing (map (\<lambda>(key, _). (key, None)) d) newData = Inr data" for existing d newData
    by (induction d arbitrary: newData) (auto split: option.split)
  from this [of "sec_Data sec" "sec_Data sec" "[]"]
  obtain sec' where sec': "ApplySecretUpdateModelToSecret B (NewSecretUpdateModelFromSecret sec) sec = Inr sec'"
    by (auto simp: ApplySecretUpdateModelToSecret_def contents)
  have "map_of (sec_Data sec') = map_of (sec_Data sec)"
    unfolding fun_eq_iff ApplySecretUpdate_lookup(1) [OF sec' wf] contents lookup by (simp split: option.split)
  moreover have "sec_Type sec' = sec_Type sec"
    using ApplySecretUpdate_lookup(3) [OF sec' wf] by (simp add: NewSecretUpdateModelFromSecret_def)
  ultimately show "\<exists>sec'. ApplySecretUpdateModelToSecret B (NewSecretUpdateModelFromSecret sec) sec = Inr sec' \<and>
       map_of (sec_Data sec') = map_of (sec_Data sec) \<and> sec_Meta sec' = sec_Meta sec \<and> sec_Type sec' = sec_Type sec"
    using sec' ApplySecretUpdate_lookup(2) [OF sec' wf] by blast
qed (rule b_spec_UpdateSecret [OF assms(1)], rule b_spec_DeleteSecret)

theorem secret_writes_exact_witness:
  "\<exists>sec'. ApplySecretUpdateModelToSecret sample_lib (NewSecretUpdateModelFromSecret sample_secret) sample_secret = Inr sec' \<and>
     map_of (sec_Data sec') ''token'' = Some ''abc''"
proof -
  have "wf_map (sup_Contents \<lparr>sup_Type = ''Opaque'', sup_Immutable = False, sup_Contents = [(''token'', None)]\<rparr>)"
    "wf_map (sec_Data sample_secret)" "map_of (sec_Data sample_secret) ''token'' = Some ''abc''"
    by (simp_all add: sample_secret_def)
  with secret_writes_exact [OF this(1,2), of sample_lib "sample_backend sample_workspace sample_kind []" None "''team''" "''token''"]
  show ?thesis
    by auto
qed

text \<open>
  C24. No response contains the value of a Secret: what the repository returns of a Secret that was read,
  created or updated has an empty value for every key, and does not depend on the stored values; a list
  item is made of the metadata only.
\<close>

theorem secret_values_hidden:
  "b_spec 0 P (\<lambda>m. snd ` set (sup_Contents m) \<subseteq> {None} \<and>
      (\<exists>sec. answered (b_GetSecret C ns name) sec \<and> fst ` set (sup_Contents m) = fst ` set (sec_Data sec)))
     (GetSecret C ns name) \<and>
   b_spec 1 (\<lambda>c. \<exists>sec. c = BCreateSecret sec) (\<lambda>m. snd ` set (scr_Contents m) \<subseteq> {None}) (CreateSecret B C actor create ns) \<and>
   b_spec 1 (\<lambda>c. \<exists>sec. c = BUpdateSecret sec) (\<lambda>m. snd ` set (sup_Contents m) \<subseteq> {None})
     (UpdateSecret B C actor update ns name) \<and>
   NewSecretUpdateModelFromSecret (sec\<lparr>sec_Data := map (\<lambda>(key, v). (key, f key v)) (sec_Data sec)\<rparr>) =
     NewSecretUpdateModelFromSecret sec \<and>
   NewSecretCreateModelFromSecret (sec\<lparr>sec_Data := map (\<lambda>(key, v). (key, f key v)) (sec_Data sec)\<rparr>) =
     NewSecretCreateModelFromSecret sec"
proof (intro conjI)
  show "b_spec 0 P (\<lambda>m. snd ` set (sup_Contents m) \<subseteq> {None} \<and>
      (\<exists>sec. answered (b_GetSecret C ns name) sec \<and> fst ` set (sup_Contents m) = fst ` set (sec_Data sec)))
     (GetSecret C ns name)"
    unfolding GetSecret_def
    by (rule b_spec_read_bind [OF b_spec_get_secret], rule b_spec_return)
      (auto simp: NewSecretUpdateModelFromSecret_def secretData_keys)
  show "b_spec 1 (\<lambda>c. \<exists>sec. c = BCreateSecret sec) (\<lambda>m. snd ` set (scr_Contents m) \<subseteq> {None}) (CreateSecret B C actor create ns)"
    unfolding CreateSecret_def Let_def
    by (auto split: sum.split simp del: One_nat_def simp: NewSecretCreateModelFromSecret_def
        intro!: b_spec_throw b_spec_write_bind [OF b_spec_map_error [OF b_spec_write]] b_spec_return)
  show "b_spec 1 (\<lambda>c. \<exists>sec. c = BUpdateSecret sec) (\<lambda>m. snd ` set (sup_Contents m) \<subseteq> {None}) (UpdateSecret B C actor update ns name)"
    unfolding UpdateSecret_def Let_def
    by (rule b_spec_read_bind [OF b_spec_now], rule b_spec_read_bind [OF b_spec_get_secret], rule b_spec_if [OF b_spec_throw])
      (auto split: sum.split simp del: One_nat_def simp: NewSecretUpdateModelFromSecret_def
        intro!: b_spec_throw b_spec_write_bind [OF b_spec_map_error [OF b_spec_write]] b_spec_return)
  show "NewSecretUpdateModelFromSecret (sec\<lparr>sec_Data := map (\<lambda>(key, v). (key, f key v)) (sec_Data sec)\<rparr>) =
      NewSecretUpdateModelFromSecret sec"
    "NewSecretCreateModelFromSecret (sec\<lparr>sec_Data := map (\<lambda>(key, v). (key, f key v)) (sec_Data sec)\<rparr>) =
      NewSecretCreateModelFromSecret sec"
    by (simp_all add: NewSecretUpdateModelFromSecret_def NewSecretCreateModelFromSecret_def
        secretDataFromKubernetesSecret_def case_prod_unfold)
qed

end
