(* ===== verification/PVC_Repo.thy ===== *)
theory PVC_Repo
  imports Mount_Maps
begin

text \<open>
  Volume claims, storage classes and namespaces: \<open>internal/models/pvcs\<close>, \<open>internal/models/storageclasses\<close>,
  \<open>internal/models/namespaces\<close> and their repositories. A volume or a storage class that does not exist is
  \<open>None\<close>: the repository then passes a pointer to the zero value, which \<open>pvExists\<close> and \<open>scExists\<close> treat
  like \<open>nil\<close>.
\<close>

section \<open>Common models\<close>

definition AnnotationDisplayName :: string where
  "AnnotationDisplayName = ''workspaces.kubeflow.org/display-name''"

definition AnnotationDescription :: string where
  "AnnotationDescription = ''workspaces.kubeflow.org/description''"

definition GetDisplayNameFromObjectMeta :: "ObjectMeta \<Rightarrow> string" where
  "GetDisplayNameFromObjectMeta m = map_get (om_Annotations m) AnnotationDisplayName"

definition GetDescriptionFromObjectMeta :: "ObjectMeta \<Rightarrow> string" where
  "GetDescriptionFromObjectMeta m = map_get (om_Annotations m) AnnotationDescription"

section \<open>Models of volume claims\<close>

record PVCCreate =
  pcr_Name :: string
  pcr_AccessModes :: "string list"
  pcr_StorageClassName :: string
  pcr_Storage :: string

record StorageClassInfo =
  sci_Name :: string
  sci_DisplayName :: string
  sci_Description :: string

record PVInfo =
  pvi_Name :: string
  pvi_ReclaimPolicy :: string
  pvi_VolumeMode :: string
  pvi_AccessModes :: "string list"
  pvi_StorageClass :: "StorageClassInfo option"

record PVCListItem =
  pli_Name :: string
  pli_CanMount :: bool
  pli_CanUpdate :: bool
  pli_Pods :: "PodInfo list"
  pli_Workspaces :: "WorkspaceInfo list"
  pli_Audit :: Audit
  pli_Storage :: string
  pli_AccessModes :: "string list"
  pli_StorageClassName :: string
  pli_VolumeMode :: string
  pli_PV :: "PVInfo option"

definition ValidateKubernetesPVCName :: "backend_lib \<Rightarrow> string \<Rightarrow> string \<Rightarrow> field_error list" where
  "ValidateKubernetesPVCName = ValidateFieldIsDNS1123Subdomain"

definition ValidateKubernetesStorageClassName :: "backend_lib \<Rightarrow> string \<Rightarrow> string \<Rightarrow> field_error list" where
  "ValidateKubernetesStorageClassName = ValidateFieldIsDNS1123Subdomain"

definition StorageRequestsMutate_Validate :: "backend_lib \<Rightarrow> string \<Rightarrow> string \<Rightarrow> field_error list" where
  "StorageRequestsMutate_Validate B prefix storage =
     (case bl_ParseQuantity B storage of
       Inl err \<Rightarrow> [FieldInvalid (path_Child prefix ''storage'') storage err]
     | Inr q \<Rightarrow> [])"

definition PVCCreate_Validate :: "backend_lib \<Rightarrow> string \<Rightarrow> PVCCreate \<Rightarrow> field_error list" where
  "PVCCreate_Validate B prefix p =
     ValidateKubernetesPVCName B (path_Child prefix ''name'') (pcr_Name p) @
     (if pcr_AccessModes p = []
      then [FieldRequired (path_Child prefix ''accessModes'') ''at least one access mode is required''] else []) @
     ValidateKubernetesStorageClassName B (path_Child prefix ''storageClassName'') (pcr_StorageClassName p) @
     StorageRequestsMutate_Validate B (path_Child prefix ''requests'') (pcr_Storage p)"

text \<open>\<open>pvc.Spec.Resources.Requests.Storage().String()\<close>.\<close>

definition storage_text :: "backend_lib \<Rightarrow> PersistentVolumeClaim \<Rightarrow> string" where
  "storage_text B pvc = bl_QuantityString B (map_of (pvc_Requests pvc) ''storage'')"

definition NewPVCCreateModelFromPVC :: "backend_lib \<Rightarrow> PersistentVolumeClaim \<Rightarrow> PVCCreate" where
  "NewPVCCreateModelFromPVC B pvc =
     \<lparr>pcr_Name = om_Name (pvc_Meta pvc), pcr_AccessModes = pvc_AccessModes pvc,
      pcr_StorageClassName = ptr_Deref (pvc_StorageClassName pvc) [], pcr_Storage = storage_text B pvc\<rparr>"

definition pvExists :: "PersistentVolume option \<Rightarrow> bool" where
  "pvExists pv \<longleftrightarrow> (case pv of None \<Rightarrow> False | Some v \<Rightarrow> om_UID (pv_Meta v) \<noteq> [])"

definition scExists :: "StorageClass option \<Rightarrow> bool" where
  "scExists sc \<longleftrightarrow> (case sc of None \<Rightarrow> False | Some c \<Rightarrow> om_UID (sc_Meta c) \<noteq> [])"

definition PersistentVolumeFilesystem :: string where
  "PersistentVolumeFilesystem = ''Filesystem''"

definition NewPVCListItemFromPVC ::
  "backend_lib \<Rightarrow> PersistentVolumeClaim \<Rightarrow> PersistentVolume option \<Rightarrow> StorageClass option
   \<Rightarrow> (string, PodInfo list) go_map \<Rightarrow> (string, WorkspaceInfo list) go_map \<Rightarrow> PVCListItem" where
  "NewPVCListItemFromPVC B pvc pv sc pvcToPodInfoList pvcToWorkspaceInfoList =
     (let pvInfo =
        (if pvExists pv
         then Some
           \<lparr>pvi_Name = om_Name (pv_Meta (the pv)), pvi_ReclaimPolicy = pv_ReclaimPolicy (the pv),
            pvi_VolumeMode = ptr_Deref (pv_VolumeMode (the pv)) PersistentVolumeFilesystem,
            pvi_AccessModes = pv_AccessModes (the pv),
            pvi_StorageClass =
              (if scExists sc
               then Some
                 \<lparr>sci_Name = om_Name (sc_Meta (the sc)), sci_DisplayName = GetDisplayNameFromObjectMeta (sc_Meta (the sc)),
                  sci_Description = GetDescriptionFromObjectMeta (sc_Meta (the sc))\<rparr>
               else None)\<rparr>
         else None)
      in \<lparr>pli_Name = om_Name (pvc_Meta pvc),
          pli_CanMount = (map_get (om_Labels (pvc_Meta pvc)) LabelCanMount = ''true''),
          pli_CanUpdate = (map_get (om_Labels (pvc_Meta pvc)) LabelCanUpdate = ''true''),
          pli_Pods = slice_at pvcToPodInfoList (om_Name (pvc_Meta pvc)),
          pli_Workspaces = slice_at pvcToWorkspaceInfoList (om_Name (pvc_Meta pvc)),
          pli_Audit = NewAuditFromObjectMeta B (Some (pvc_Meta pvc)),
          pli_Storage = storage_text B pvc, pli_AccessModes = pvc_AccessModes pvc,
          pli_StorageClassName = ptr_Deref (pvc_StorageClassName pvc) [],
          pli_VolumeMode = ptr_Deref (pvc_VolumeMode pvc) PersistentVolumeFilesystem,
          pli_PV = pvInfo\<rparr>)"

section \<open>The repository of volume claims\<close>

text \<open>A \<open>Get\<close> whose missing object is ignored.\<close>

definition get_if_exists :: "('s, 'o) brequest \<Rightarrow> ('s, 'o option) bact" where
  "get_if_exists get =
     b_bind (b_try get)
       (\<lambda>r. case r of
          Inl err \<Rightarrow> if reason_of err \<noteq> Some ReasonNotFound then b_throw err else b_return None
        | Inr obj \<Rightarrow> b_return (Some obj))"

fun pvc_models_loop ::
  "backend_lib \<Rightarrow> 's backend \<Rightarrow> (string, PodInfo list) go_map \<Rightarrow> (string, WorkspaceInfo list) go_map
   \<Rightarrow> PersistentVolumeClaim list \<Rightarrow> ('s, PVCListItem list) bact" where
  "pvc_models_loop B C pvcToPodInfoList pvcToWorkspaceInfoList [] = b_return []"
| "pvc_models_loop B C pvcToPodInfoList pvcToWorkspaceInfoList (pvc # pvcs) =
     b_bind (if pvc_VolumeName pvc \<noteq> [] then get_if_exists (b_GetPersistentVolume C (pvc_VolumeName pvc))
             else b_return None) (\<lambda>pv.
     b_bind (case pvc_StorageClassName pvc of
               None \<Rightarrow> b_return None
             | Some scName \<Rightarrow> if scName \<noteq> [] then get_if_exists (b_GetStorageClass C scName) else b_return None) (\<lambda>sc.
     b_bind (pvc_models_loop B C pvcToPodInfoList pvcToWorkspaceInfoList pvcs) (\<lambda>models.
     b_return (NewPVCListItemFromPVC B pvc pv sc pvcToPodInfoList pvcToWorkspaceInfoList # models))))"

definition GetPVCs :: "backend_lib \<Rightarrow> 's backend \<Rightarrow> string \<Rightarrow> ('s, PVCListItem list) bact" where
  "GetPVCs B C namespace =
     b_bind (b_read (b_ListPVCs C namespace)) (\<lambda>pvcList.
     b_bind (b_read (b_ListPods C namespace [])) (\<lambda>podList.
     let pvcToPodInfoList = buildPodInfoMap podList
     in b_bind (b_read (b_ListWorkspaces C (Some namespace))) (\<lambda>workspaceList.
        let pvcToWorkspaceInfoList = buildWorkspaceInfoMap workspaceList
        in pvc_models_loop B C pvcToPodInfoList pvcToWorkspaceInfoList pvcList)))"

definition new_pvc :: "PVCCreate \<Rightarrow> string \<Rightarrow> opaque \<Rightarrow> PersistentVolumeClaim" where
  "new_pvc pvcCreate namespace storageRequestQuantity =
     \<lparr>pvc_Meta = ObjectMeta_zero
        \<lparr>om_Name := pcr_Name pvcCreate, om_Namespace := namespace,
         om_Labels := [(LabelCanMount, ''true''), (LabelCanUpdate, ''true'')]\<rparr>,
      pvc_AccessModes = pcr_AccessModes pvcCreate, pvc_StorageClassName = Some (pcr_StorageClassName pvcCreate),
      pvc_Requests = [(''storage'', storageRequestQuantity)], pvc_VolumeName = [], pvc_VolumeMode = None\<rparr>"

definition CreatePVC :: "backend_lib \<Rightarrow> 's backend \<Rightarrow> string option \<Rightarrow> PVCCreate \<Rightarrow> string \<Rightarrow> ('s, PVCCreate) bact" where
  "CreatePVC B C actor pvcCreate namespace =
     b_bind (ValidateKubernetesStorageClassIsUsable C ''storageClassName'' (pcr_StorageClassName pvcCreate)) (\<lambda>valErrs.
     case bl_ParseQuantity B (pcr_Storage pvcCreate) of
       Inl err \<Rightarrow>
         b_throw (InternalValidationError
           (valErrs @ [FieldInvalid (path_Child ''requests'' ''storage'') (pcr_Storage pvcCreate) err]))
     | Inr storageRequestQuantity \<Rightarrow>
         if 0 < length valErrs then b_throw (InternalValidationError valErrs)
         else
           (let pvc = new_pvc pvcCreate namespace storageRequestQuantity;
                pvc = pvc\<lparr>pvc_Meta := UpdateObjectMetaForCreate (pvc_Meta pvc) actor\<rparr>
            in b_bind (b_map_error
                 (\<lambda>err. if reason_of err = Some ReasonAlreadyExists then SentinelError ErrPVCAlreadyExists else err)
                 (b_write (BCreatePVC pvc) (b_CreatePVC C pvc))) (\<lambda>pvc.
               b_return (NewPVCCreateModelFromPVC B pvc))))"

definition DeletePVC :: "'s backend \<Rightarrow> string \<Rightarrow> string \<Rightarrow> ('s, unit) bact" where
  "DeletePVC C namespace pvcName =
     b_bind (b_map_error (not_found_as ErrPVCNotFound) (b_read (b_GetPVC C namespace pvcName))) (\<lambda>pvc.
     if map_get (om_Labels (pvc_Meta pvc)) LabelCanUpdate \<noteq> ''true'' then b_throw (SentinelError ErrPVCNotCanUpdate)
     else
       b_map_error (not_found_as ErrPVCNotFound)
         (b_write (BDeletePVC (om_Namespace (pvc_Meta pvc)) (om_Name (pvc_Meta pvc)))
           (b_DeletePVC C (om_Namespace (pvc_Meta pvc)) (om_Name (pvc_Meta pvc)))))"

section \<open>Storage classes and namespaces\<close>

record StorageClassListItem =
  scl_Name :: string
  scl_DisplayName :: string
  scl_Description :: string
  scl_CanUse :: bool

definition NewStorageClassListItemFromStorageClass :: "StorageClass \<Rightarrow> StorageClassListItem" where
  "NewStorageClassListItemFromStorageClass sc =
     \<lparr>scl_Name = om_Name (sc_Meta sc), scl_DisplayName = GetDisplayNameFromObjectMeta (sc_Meta sc),
      scl_Description = GetDescriptionFromObjectMeta (sc_Meta sc),
      scl_CanUse = (map_get (om_Labels (sc_Meta sc)) LabelCanUse = ''true'')\<rparr>"

definition GetStorageClasses :: "'s backend \<Rightarrow> ('s, StorageClassListItem list) bact" where
  "GetStorageClasses C =
     b_bind (b_read (b_ListStorageClasses C)) (\<lambda>storageClassList.
     b_return (map NewStorageClassListItemFromStorageClass storageClassList))"

record NamespaceModel =
  nsm_Name :: string

definition NewNamespaceModelFromNamespace :: "ObjectMeta \<Rightarrow> NamespaceModel" where
  "NewNamespaceModelFromNamespace ns = \<lparr>nsm_Name = om_Name ns\<rparr>"

definition GetNamespaces :: "'s backend \<Rightarrow> ('s, NamespaceModel list) bact" where
  "GetNamespaces C =
     b_bind (b_read (b_ListNamespaces C)) (\<lambda>namespaceList. b_return (map NewNamespaceModelFromNamespace namespaceList))"

section \<open>Lemmas\<close>

text \<open>A storage class that was read, and that carries the label if it is an object of the cluster.\<close>

definition usable_class :: "'s backend \<Rightarrow> string \<Rightarrow> bool" where
  "usable_class C name \<longleftrightarrow>
     (\<exists>sc. answered (b_GetStorageClass C name) sc \<and>
        (om_UID (sc_Meta sc) = [] \<or> map_get (om_Labels (sc_Meta sc)) LabelCanUse = ''true''))"

lemma b_spec_validate_has_label:
  "b_spec 0 P (\<lambda>errs. errs = [] \<longrightarrow>
     (\<exists>obj. answered get obj \<and> (om_UID (metaOf obj) = [] \<or> map_get (om_Labels (metaOf obj)) label = ''true'')))
     (validate_has_label get metaOf path name notFound notLabelled label)"
  unfolding validate_has_label_def
  by (rule b_spec_read_bind [OF b_spec_try])
    (auto split: sum.split intro!: b_spec_if b_spec_return b_spec_throw)

lemma b_spec_StorageClassIsUsable [b_spec_intros]:
  "b_spec 0 P (\<lambda>errs. errs = [] \<longrightarrow> usable_class C name) (ValidateKubernetesStorageClassIsUsable C path name)"
  unfolding ValidateKubernetesStorageClassIsUsable_def usable_class_def by (rule b_spec_validate_has_label)

text \<open>What a creation may write.\<close>

definition creates_pvc ::
  "backend_lib \<Rightarrow> 's backend \<Rightarrow> string option \<Rightarrow> PVCCreate \<Rightarrow> string \<Rightarrow> PersistentVolumeClaim \<Rightarrow> bool" where
  "creates_pvc B C actor create ns written \<longleftrightarrow>
     usable_class C (pcr_StorageClassName create) \<and>
     (\<exists>q. bl_ParseQuantity B (pcr_Storage create) = Inr q \<and> pvc_Requests written = [(''storage'', q)]) \<and>
     om_Name (pvc_Meta written) = pcr_Name create \<and> om_Namespace (pvc_Meta written) = ns \<and>
     om_Annotations (pvc_Meta written) = om_Annotations (UpdateObjectMetaForCreate ObjectMeta_zero actor) \<and>
     om_Labels (pvc_Meta written) = [(LabelCanMount, ''true''), (LabelCanUpdate, ''true'')] \<and>
     pvc_AccessModes written = pcr_AccessModes create \<and>
     pvc_StorageClassName written = Some (pcr_StorageClassName create)"

lemma b_spec_CreatePVC:
  "b_spec 1 (writes_as BCreatePVC (creates_pvc B C actor create ns))
     (stored_as (creates_pvc B C actor create ns) (b_CreatePVC C) (NewPVCCreateModelFromPVC B))
     (CreatePVC B C actor create ns)"
  unfolding CreatePVC_def Let_def
proof (rule b_spec_read_bind [OF b_spec_StorageClassIsUsable], goal_cases)
  case (1 valErrs)
  show ?case
  proof (cases "bl_ParseQuantity B (pcr_Storage create)")
    case (Inl err)
    then show ?thesis
      by (simp add: b_spec_throw)
  next
    case (Inr q)
    let ?pvc = "(new_pvc create ns q)\<lparr>pvc_Meta := UpdateObjectMetaForCreate (pvc_Meta (new_pvc create ns q)) actor\<rparr>"
    show ?thesis
      unfolding Inr sum.case
    proof (rule b_spec_if [OF b_spec_throw])
      assume "\<not> 0 < length valErrs"
      with 1 Inr have G: "creates_pvc B C actor create ns ?pvc"
        by (auto simp: creates_pvc_def new_pvc_def UpdateObjectMetaForCreate_def split: option.split)
      show "b_spec 1 (writes_as BCreatePVC (creates_pvc B C actor create ns))
          (stored_as (creates_pvc B C actor create ns) (b_CreatePVC C) (NewPVCCreateModelFromPVC B))
          (b_bind (b_map_error
             (\<lambda>err. if reason_of err = Some ReasonAlreadyExists then SentinelError ErrPVCAlreadyExists else err)
             (b_write (BCreatePVC ?pvc) (b_CreatePVC C ?pvc))) (\<lambda>pvc. b_return (NewPVCCreateModelFromPVC B pvc)))"
        by (rule b_spec_write_bind [OF b_spec_map_error [OF b_spec_write]], rule writes_asI, rule G,
            rule b_spec_return, erule stored_asI, rule G)
    qed
  qed
qed

lemma b_spec_DeletePVC:
  "b_spec 1 (\<lambda>c. \<exists>pvc. answered (b_GetPVC C ns name) pvc \<and> can_update (pvc_Meta pvc) \<and>
      c = BDeletePVC (om_Namespace (pvc_Meta pvc)) (om_Name (pvc_Meta pvc))) (\<lambda>_. True) (DeletePVC C ns name)"
  unfolding DeletePVC_def
proof (rule b_spec_read_bind [OF b_spec_map_error [OF b_spec_read]], rule b_spec_if [OF b_spec_throw], goal_cases)
  case (1 pvc)
  then show ?case
    by (intro b_spec_map_error b_spec_mono [OF b_spec_write]) (auto simp: can_update_def)
qed

lemma b_pure_get_if_exists [b_pure_intros]: "b_pure (get_if_exists get)"
  unfolding get_if_exists_def by (auto split: sum.split intro!: b_pure_intros)

lemma b_pure_pvc_models_loop [b_pure_intros]: "b_pure (pvc_models_loop B C pods workspaces pvcs)"
  by (induction pvcs) (auto split: option.split intro!: b_pure_intros)

lemma b_pure_GetPVCs [b_pure_intros]: "b_pure (GetPVCs B C ns)"
  unfolding GetPVCs_def Let_def by (intro b_pure_intros)

section \<open>Property\<close>

text \<open>
  C25. A volume claim is created and deleted only as labels allow, whatever the cluster answers: a creation
  issues at most one write, of the claim the request describes with its parsed quantity, and only if the
  storage class was read and carries the label that allows its use; a deletion issues at most one write,
  and only on a claim that was read with the label that allows changes; and a claim that was created can be
  mounted into a Workspace, is listed as such, and can be deleted again.
\<close>

theorem pvc_writes_guarded:
  "b_spec 1 (writes_as BCreatePVC (creates_pvc B C actor create ns))
      (stored_as (creates_pvc B C actor create ns) (b_CreatePVC C) (NewPVCCreateModelFromPVC B))
      (CreatePVC B C actor create ns) \<and>
   b_spec 1 (\<lambda>c. \<exists>pvc. answered (b_GetPVC C ns name) pvc \<and> can_update (pvc_Meta pvc) \<and>
      c = BDeletePVC (om_Namespace (pvc_Meta pvc)) (om_Name (pvc_Meta pvc))) (\<lambda>_. True) (DeletePVC C ns name) \<and>
   (\<forall>q uid. let pvc = (new_pvc create ns q)\<lparr>pvc_Meta := (UpdateObjectMetaForCreate (pvc_Meta (new_pvc create ns q)) actor)
                  \<lparr>om_UID := uid\<rparr>\<rparr>;
                C' = C\<lparr>b_GetPVC := \<lambda>ns name w. (Inr pvc, w)\<rparr>
            in fst (ValidateKubernetesPVCIsMountable C' path ns (pcr_Name create) s) = BOk [] \<and>
               pli_CanMount (NewPVCListItemFromPVC B pvc pv sc pods workspaces) \<and>
               pli_CanUpdate (NewPVCListItemFromPVC B pvc pv sc pods workspaces) \<and>
               br_calls (snd (DeletePVC C' ns (pcr_Name create) s)) = br_calls s @ [BDeletePVC ns (pcr_Name create)])"
proof (intro conjI allI)
  fix q uid
  have labels: "map_get [(LabelCanMount, ''true''), (LabelCanUpdate, ''true'')] LabelCanMount = ''true''"
    "map_get [(LabelCanMount, ''true''), (LabelCanUpdate, ''true'')] LabelCanUpdate = ''true''"
    by (simp_all add: LabelCanMount_def LabelCanUpdate_def)
  show "let pvc = (new_pvc create ns q)\<lparr>pvc_Meta := (UpdateObjectMetaForCreate (pvc_Meta (new_pvc create ns q)) actor)
                  \<lparr>om_UID := uid\<rparr>\<rparr>;
                C' = C\<lparr>b_GetPVC := \<lambda>ns name w. (Inr pvc, w)\<rparr>
            in fst (ValidateKubernetesPVCIsMountable C' path ns (pcr_Name create) s) = BOk [] \<and>
               pli_CanMount (NewPVCListItemFromPVC B pvc pv sc pods workspaces) \<and>
               pli_CanUpdate (NewPVCListItemFromPVC B pvc pv sc pods workspaces) \<and>
               br_calls (snd (DeletePVC C' ns (pcr_Name create) s)) = br_calls s @ [BDeletePVC ns (pcr_Name create)]"
    by (simp add: ValidateKubernetesPVCIsMountable_def validate_has_label_def NewPVCListItemFromPVC_def DeletePVC_def
        new_pvc_def UpdateObjectMetaForCreate_def labels b_bind_def b_try_def b_read_def b_write_def b_map_error_def
        b_return_def Let_def split: prod.split sum.split)
qed (rule b_spec_CreatePVC, rule b_spec_DeletePVC)

end
