(* ===== verification/Storage_Handlers.thy ===== *)
theory Storage_Handlers
  imports Kind_Handlers Secret_Repo PVC_Repo
begin

text \<open>
  The handlers of Secrets, volume claims, storage classes and namespaces: \<open>api/secrets_handler.go\<close>,
  \<open>api/pvcs_handler.go\<close>, \<open>api/storageclasses_handler.go\<close> and \<open>api/namespaces_handler.go\<close>.
\<close>

section \<open>Secrets\<close>

definition SecretsByNamePath :: string where
  "SecretsByNamePath = PathPrefix @ ''/secrets/:'' @ NamespacePathParam @ ''/:'' @ ResourceNamePathParam"

definition LocationGetSecret :: "string \<Rightarrow> string \<Rightarrow> string" where
  "LocationGetSecret namespace name =
     strings_Replace1 (strings_Replace1 SecretsByNamePath ('':'' @ NamespacePathParam) namespace)
       ('':'' @ ResourceNamePathParam) name"

definition GetSecretsByNamespaceHandler ::
  "'s app \<Rightarrow> 'b http_request \<Rightarrow> ('s, SecretListItem list http_response) bact" where
  "GetSecretsByNamespaceHandler app r =
     (let namespace = hq_Namespace r
      in when_valid app errMsgPathParamsInvalid
           (ValidateKubernetesNamespaceName (app_Lib app) NamespacePathParam namespace)
           (with_auth app r [NewResourcePolicy VerbList Secrets namespace []] (\<lambda>_.
              with_result (GetSecrets (app_Lib app) (app_Client app) namespace) (\<lambda>err. serverErrorResponse) DataResponse)))"

definition get_secret_error :: "backend_error \<Rightarrow> HTTPError" where
  "get_secret_error err = (if errors_Is ErrSecretNotFound err then notFoundResponse else serverErrorResponse)"

definition GetSecretHandler :: "'s app \<Rightarrow> 'b http_request \<Rightarrow> ('s, SecretUpdate http_response) bact" where
  "GetSecretHandler app r =
     (let namespace = hq_Namespace r; secretName = hq_Name r
      in when_valid app errMsgPathParamsInvalid
           (ValidateKubernetesNamespaceName (app_Lib app) NamespacePathParam namespace @
            ValidateKubernetesSecretName (app_Lib app) ResourceNamePathParam secretName)
           (with_auth app r [NewResourcePolicy VerbGet Secrets namespace secretName] (\<lambda>_.
              with_result (GetSecret (app_Client app) namespace secretName) get_secret_error DataResponse)))"

definition create_secret_error :: "'s app \<Rightarrow> backend_error \<Rightarrow> HTTPError" where
  "create_secret_error app err =
     (if errors_Is ErrSecretAlreadyExists err
      then conflictResponse (app_Lib app) err (StatusCausesFromAPIStatus err)
      else if reason_of err = Some ReasonInvalid
      then failedValidationResponse (app_Http app) errMsgKubernetesValidation [] (StatusCausesFromAPIStatus err)
      else serverErrorResponse)"

definition CreateSecretHandler :: "'s app \<Rightarrow> SecretCreate http_request \<Rightarrow> ('s, SecretCreate http_response) bact" where
  "CreateSecretHandler app r =
     (let namespace = hq_Namespace r
      in when_valid app errMsgPathParamsInvalid
           (ValidateKubernetesNamespaceName (app_Lib app) NamespacePathParam namespace)
           (with_body app r (SecretCreate_Validate (app_Lib app)) (\<lambda>secretCreate.
            with_auth app r [NewResourcePolicy VerbCreate Secrets namespace (scr_Name secretCreate)] (\<lambda>actor.
            with_result
              (CreateSecret (app_Lib app) (app_Client app) (Some (ui_Name actor)) secretCreate namespace)
              (create_secret_error app)
              (\<lambda>createdSecret. CreatedResponse createdSecret (LocationGetSecret namespace (scr_Name createdSecret)))))))"

definition update_secret_error :: "'s app \<Rightarrow> backend_error \<Rightarrow> HTTPError" where
  "update_secret_error app err =
     (if errors_Is ErrSecretNotFound err then notFoundResponse
      else if errors_Is ErrSecretNotCanUpdate err then forbiddenResponse
      else if reason_of err = Some ReasonInvalid
      then failedValidationResponse (app_Http app) errMsgKubernetesValidation [] (StatusCausesFromAPIStatus err)
      else serverErrorResponse)"

definition UpdateSecretHandler :: "'s app \<Rightarrow> SecretUpdate http_request \<Rightarrow> ('s, SecretUpdate http_response) bact" where
  "UpdateSecretHandler app r =
     (let namespace = hq_Namespace r; secretName = hq_Name r
      in when_valid app errMsgPathParamsInvalid
           (ValidateKubernetesNamespaceName (app_Lib app) NamespacePathParam namespace @
            ValidateKubernetesSecretName (app_Lib app) ResourceNamePathParam secretName)
           (with_auth app r [NewResourcePolicy VerbUpdate Secrets namespace secretName] (\<lambda>actor.
            with_body app r (SecretUpdate_Validate (app_Lib app)) (\<lambda>secretUpdate.
            with_result
              (UpdateSecret (app_Lib app) (app_Client app) (Some (ui_Name actor)) secretUpdate namespace secretName)
              (update_secret_error app) DataResponse))))"

definition delete_secret_error :: "'s app \<Rightarrow> backend_error \<Rightarrow> HTTPError" where
  "delete_secret_error app err =
     (if errors_Is ErrSecretNotFound err then notFoundResponse
      else if errors_Is ErrSecretNotCanUpdate err then forbiddenResponse
      else if reason_of err = Some ReasonConflict
      then conflictResponse (app_Lib app) err (StatusCausesFromAPIStatus err)
      else serverErrorResponse)"

definition DeleteSecretHandler :: "'s app \<Rightarrow> 'b http_request \<Rightarrow> ('s, unit http_response) bact" where
  "DeleteSecretHandler app r =
     (let namespace = hq_Namespace r; secretName = hq_Name r
      in when_valid app errMsgPathParamsInvalid
           (ValidateKubernetesNamespaceName (app_Lib app) NamespacePathParam namespace @
            ValidateKubernetesSecretName (app_Lib app) ResourceNamePathParam secretName)
           (with_auth app r [NewResourcePolicy VerbDelete Secrets namespace secretName] (\<lambda>_.
              with_result (DeleteSecret (app_Client app) namespace secretName) (delete_secret_error app)
                (\<lambda>_. DeletedResponse))))"

section \<open>Volume claims\<close>

definition GetPVCsByNamespaceHandler :: "'s app \<Rightarrow> 'b http_request \<Rightarrow> ('s, PVCListItem list http_response) bact" where
  "GetPVCsByNamespaceHandler app r =
     (let namespace = hq_Namespace r
      in when_valid app errMsgPathParamsInvalid
           (ValidateKubernetesNamespaceName (app_Lib app) NamespacePathParam namespace)
           (with_auth app r [NewResourcePolicy VerbList PersistentVolumeClaims namespace []] (\<lambda>_.
              with_result (GetPVCs (app_Lib app) (app_Client app) namespace) (\<lambda>err. serverErrorResponse) DataResponse)))"

definition create_pvc_error :: "'s app \<Rightarrow> backend_error \<Rightarrow> HTTPError" where
  "create_pvc_error app err =
     (case FieldErrorsFromInternalValidationError err of
       Some fieldErrs \<Rightarrow> failedValidationResponse (app_Http app) errMsgInternalValidation fieldErrs []
     | None \<Rightarrow>
         if errors_Is ErrPVCAlreadyExists err
         then conflictResponse (app_Lib app) err (StatusCausesFromAPIStatus err)
         else if reason_of err = Some ReasonInvalid
         then failedValidationResponse (app_Http app) errMsgKubernetesValidation [] (StatusCausesFromAPIStatus err)
         else serverErrorResponse)"

definition CreatePVCHandler :: "'s app \<Rightarrow> PVCCreate http_request \<Rightarrow> ('s, PVCCreate http_response) bact" where
  "CreatePVCHandler app r =
     (let namespace = hq_Namespace r
      in when_valid app errMsgPathParamsInvalid
           (ValidateKubernetesNamespaceName (app_Lib app) NamespacePathParam namespace)
           (with_body app r (PVCCreate_Validate (app_Lib app)) (\<lambda>pvcCreate.
            with_auth app r [NewResourcePolicy VerbCreate PersistentVolumeClaims namespace (pcr_Name pvcCreate)] (\<lambda>actor.
            with_result
              (CreatePVC (app_Lib app) (app_Client app) (Some (ui_Name actor)) pvcCreate namespace)
              (create_pvc_error app) (\<lambda>createdPVC. CreatedResponse createdPVC [])))))"

definition delete_pvc_error :: "'s app \<Rightarrow> backend_error \<Rightarrow> HTTPError" where
  "delete_pvc_error app err =
     (if errors_Is ErrPVCNotFound err then notFoundResponse
      else if errors_Is ErrPVCNotCanUpdate err then forbiddenResponse
      else if reason_of err = Some ReasonConflict
      then conflictResponse (app_Lib app) err (StatusCausesFromAPIStatus err)
      else serverErrorResponse)"

definition DeletePVCHandler :: "'s app \<Rightarrow> 'b http_request \<Rightarrow> ('s, unit http_response) bact" where
  "DeletePVCHandler app r =
     (let namespace = hq_Namespace r; pvcName = hq_Name r
      in when_valid app errMsgPathParamsInvalid
           (ValidateKubernetesNamespaceName (app_Lib app) NamespacePathParam namespace @
            ValidateKubernetesPVCName (app_Lib app) ResourceNamePathParam pvcName)
           (with_auth app r [NewResourcePolicy VerbDelete PersistentVolumeClaims namespace pvcName] (\<lambda>_.
              with_result (DeletePVC (app_Client app) namespace pvcName) (delete_pvc_error app) (\<lambda>_. DeletedResponse))))"

section \<open>Storage classes and namespaces\<close>

definition GetStorageClassesHandler ::
  "'s app \<Rightarrow> 'b http_request \<Rightarrow> ('s, StorageClassListItem list http_response) bact" where
  "GetStorageClassesHandler app r =
     (let namespace = map_get (hq_Query r) NamespaceQueryParam
      in when_valid app errMsgQueryParamsInvalid
           (if namespace \<noteq> [] then ValidateKubernetesNamespaceName (app_Lib app) NamespaceQueryParam namespace else [])
           (with_auth app r
              (if namespace \<noteq> [] then [NewResourcePolicy VerbCreate PersistentVolumeClaims namespace []]
               else [NewResourcePolicy VerbList StorageClasses [] []]) (\<lambda>_.
              with_result (GetStorageClasses (app_Client app)) (\<lambda>err. serverErrorResponse) DataResponse)))"

definition GetNamespacesHandler :: "'s app \<Rightarrow> 'b http_request \<Rightarrow> ('s, NamespaceModel list http_response) bact" where
  "GetNamespacesHandler app r =
     with_auth app r [NewResourcePolicy VerbList Namespaces [] []] (\<lambda>_.
       with_result (GetNamespaces (app_Client app)) (\<lambda>err. serverErrorResponse) DataResponse)"

section \<open>Lemmas\<close>

lemma storage_error_statuses [status_intros]:
  "{404, 500} \<subseteq> S \<Longrightarrow> he_StatusCode (get_secret_error err) \<in> S"
  "{409, 422, 500} \<subseteq> S \<Longrightarrow> he_StatusCode (create_secret_error app err) \<in> S"
  "{403, 404, 422, 500} \<subseteq> S \<Longrightarrow> he_StatusCode (update_secret_error app err) \<in> S"
  "{403, 404, 409, 500} \<subseteq> S \<Longrightarrow> he_StatusCode (delete_secret_error app err) \<in> S"
  "{409, 422, 500} \<subseteq> S \<Longrightarrow> he_StatusCode (create_pvc_error app err) \<in> S"
  "{403, 404, 409, 500} \<subseteq> S \<Longrightarrow> he_StatusCode (delete_pvc_error app err) \<in> S"
  by (simp_all add: get_secret_error_def create_secret_error_def update_secret_error_def delete_secret_error_def
      create_pvc_error_def delete_pvc_error_def split: option.split)

lemma storage_handler_statuses:
  "statuses_in {200, 401, 403, 422, 500} (GetSecretsByNamespaceHandler app r)"
  "statuses_in {200, 401, 403, 404, 422, 500} (GetSecretHandler app r)"
  "statuses_in {201, 400, 401, 403, 409, 413, 415, 422, 500} (CreateSecretHandler app rc)"
  "statuses_in {200, 400, 401, 403, 404, 413, 415, 422, 500} (UpdateSecretHandler app ru)"
  "statuses_in {204, 401, 403, 404, 409, 422, 500} (DeleteSecretHandler app r)"
  "statuses_in {200, 401, 403, 422, 500} (GetPVCsByNamespaceHandler app r)"
  "statuses_in {201, 400, 401, 403, 409, 413, 415, 422, 500} (CreatePVCHandler app rp)"
  "statuses_in {204, 401, 403, 404, 409, 422, 500} (DeletePVCHandler app r)"
  "statuses_in {200, 401, 403, 422, 500} (GetStorageClassesHandler app r)"
  "statuses_in {200, 401, 403, 500} (GetNamespacesHandler app r)"
  unfolding GetSecretsByNamespaceHandler_def GetSecretHandler_def CreateSecretHandler_def UpdateSecretHandler_def
    DeleteSecretHandler_def GetPVCsByNamespaceHandler_def CreatePVCHandler_def DeletePVCHandler_def
    GetStorageClassesHandler_def GetNamespacesHandler_def Let_def
  by (intro status_intros; simp)+

lemma b_pure_storage_reads [b_pure_intros]:
  "b_pure (GetSecrets B C ns)" "b_pure (GetSecret C ns name)" "b_pure (GetStorageClasses C)" "b_pure (GetNamespaces C)"
  unfolding GetSecrets_def GetSecret_def get_secret_def GetStorageClasses_def GetNamespaces_def Let_def
  by (intro b_pure_intros)+

text \<open>What a creation, and the metadata of what an update of a Secret may write.\<close>

definition creates_secret :: "string option \<Rightarrow> SecretCreate \<Rightarrow> string \<Rightarrow> Secret \<Rightarrow> bool" where
  "creates_secret actor create ns written \<longleftrightarrow>
     om_Name (sec_Meta written) = scr_Name create \<and> om_Namespace (sec_Meta written) = ns \<and>
     om_Annotations (sec_Meta written) = om_Annotations (UpdateObjectMetaForCreate ObjectMeta_zero actor)"

definition updates_secret_meta ::
  "backend_lib \<Rightarrow> 's backend \<Rightarrow> string option \<Rightarrow> string \<Rightarrow> string \<Rightarrow> Secret \<Rightarrow> bool" where
  "updates_secret_meta B C actor ns name written \<longleftrightarrow>
     (\<exists>sec now. answered (b_GetSecret C ns name) sec \<and> can_update (sec_Meta sec) \<and>
        sec_Meta written = UpdateObjectMetaForUpdate B (sec_Meta sec) actor now)"

lemma b_spec_CreateSecret:
  "b_spec 1 (writes_as BCreateSecret (creates_secret actor create ns)) (\<lambda>_. True) (CreateSecret B C actor create ns)"
proof (cases "NewSecretFromSecretCreateModel B create ns")
  case (Inl err)
  then show ?thesis
    by (simp add: CreateSecret_def b_spec_throw)
next
  case (Inr sec)
  then have "creates_secret actor create ns (sec\<lparr>sec_Meta := UpdateObjectMetaForCreate (sec_Meta sec) actor\<rparr>)"
    by (auto simp: NewSecretFromSecretCreateModel_def creates_secret_def UpdateObjectMetaForCreate_def
        split: sum.splits option.splits)
  with Inr show ?thesis
    by (auto simp: CreateSecret_def Let_def simp del: One_nat_def
        intro!: b_spec_write_bind [OF b_spec_map_error [OF b_spec_write]] b_spec_return writes_asI)
qed

lemma b_spec_UpdateSecret_meta:
  "b_spec 1 (writes_as BUpdateSecret (updates_secret_meta B C actor ns name)) (\<lambda>_. True)
     (UpdateSecret B C actor update ns name)"
  unfolding UpdateSecret_def Let_def
proof (rule b_spec_read_bind [OF b_spec_now], rule b_spec_read_bind [OF b_spec_get_secret],
    rule b_spec_if [OF b_spec_throw], goal_cases)
  case (1 now sec)
  show ?case
  proof (cases "ApplySecretUpdateModelToSecret B update sec")
    case (Inl err)
    then show ?thesis
      by (simp add: b_spec_throw)
  next
    case (Inr written)
    then have "sec_Meta written = sec_Meta sec"
      by (auto simp: ApplySecretUpdateModelToSecret_def split: sum.splits)
    with 1 have G: "updates_secret_meta B C actor ns name
        (written\<lparr>sec_Meta := UpdateObjectMetaForUpdate B (sec_Meta written) actor now\<rparr>)"
      by (auto simp: updates_secret_meta_def can_update_def)
    show ?thesis
      unfolding Inr sum.case
      by (rule b_spec_write_bind [OF b_spec_map_error [OF b_spec_write]], rule writes_asI, rule G, rule b_spec_return) simp
  qed
qed

end
