(* ===== verification/Pod_Logs.thy ===== *)
theory Pod_Logs
  imports Workspace_Repo
begin

text \<open>
  The logs of a Workspace: \<open>internal/repositories/podlogs/repo.go\<close>, and the query parameters of
  \<open>api/workspace_podtemplate_logs_handler.go\<close>. A log stream is the text that the API server sends.
\<close>

section \<open>The repository\<close>

text \<open>Its type is that of an \<open>int64\<close>.\<close>

definition safeLimitBytes :: int where
  "safeLimitBytes = 100 * 1024 * 1024"

definition defaultTailLines :: int where
  "defaultTailLines = 1000"

definition primaryContainerName :: string where
  "primaryContainerName = ''main''"

definition fmtOpenLogStreamFailed :: "string \<Rightarrow> string \<Rightarrow> backend_error \<Rightarrow> backend_error" where
  "fmtOpenLogStreamFailed podName containerName =
     WrappedError (''failed to open log stream for pod '' @ podName @ '', container '' @ containerName @ '': '')"

definition fmtGetPodFailed :: "string \<Rightarrow> backend_error \<Rightarrow> backend_error" where
  "fmtGetPodFailed podName = WrappedError (''failed to get pod '' @ podName @ '': '')"

definition containerExists :: "string \<Rightarrow> string list \<Rightarrow> string list \<Rightarrow> bool" where
  "containerExists name containers initContainers \<longleftrightarrow>
     list_ex (\<lambda>c. c = name) containers \<or> list_ex (\<lambda>c. c = name) initContainers"

definition checkStatus :: "bool \<Rightarrow> LiveContainerStatus \<Rightarrow> ('s, unit) bact" where
  "checkStatus previous cs =
     (if previous
      then if \<not> lcs_LastTerminated cs then b_throw (SentinelError ErrPreviousLogsNotFound) else b_return ()
      else if lcs_Waiting cs then b_throw (SentinelError ErrContainerNotRunning)
      else b_return ())"

text \<open>Each of the two loops over the statuses stops at the first status of the container.\<close>

definition ensureLogsAvailable :: "'s backend \<Rightarrow> string \<Rightarrow> string \<Rightarrow> string \<Rightarrow> bool \<Rightarrow> ('s, unit) bact" where
  "ensureLogsAvailable C namespace podName containerName previous =
     b_bind (b_map_error
       (\<lambda>err. if reason_of err = Some ReasonNotFound then SentinelError ErrWorkspacePodNotRunning
              else fmtGetPodFailed podName err)
       (b_read (b_GetLivePod C namespace podName))) (\<lambda>pod.
     case find (\<lambda>cs. lcs_Name cs = containerName) (lp_ContainerStatuses pod) of
       Some cs \<Rightarrow> checkStatus previous cs
     | None \<Rightarrow>
         (case find (\<lambda>cs. lcs_Name cs = containerName) (lp_InitContainerStatuses pod) of
           Some cs \<Rightarrow> checkStatus previous cs
         | None \<Rightarrow> b_throw (SentinelError ErrContainerNotRunning)))"

definition resolvePodAndContainer ::
  "'s backend \<Rightarrow> string \<Rightarrow> string \<Rightarrow> LogOptions \<Rightarrow> ('s, string \<times> string) bact" where
  "resolvePodAndContainer C namespace workspaceName opts =
     b_bind (b_map_error (not_found_as ErrWorkspaceNotFound) (b_read (b_GetWorkspace C namespace workspaceName)))
       (\<lambda>workspace.
     let podStatus = st_PodTemplatePod (w_Status workspace);
         podName = wps_Name podStatus
     in if podName = [] then b_throw (SentinelError ErrWorkspacePodNotRunning)
        else
          b_bind
            (if lgo_Container opts \<noteq> []
             then
               if \<not> containerExists (lgo_Container opts) (wps_Containers podStatus) (wps_InitContainers podStatus)
               then b_throw (SentinelError ErrContainerNotFound)
               else b_return (lgo_Container opts)
             else if length (wps_Containers podStatus) = 0 then b_throw (SentinelError ErrContainerNotRunning)
             else if \<not> containerExists primaryContainerName (wps_Containers podStatus) []
             then b_throw (SentinelError ErrContainerNotFound)
             else b_return primaryContainerName) (\<lambda>containerName.
          b_bind (ensureLogsAvailable C namespace podName containerName (lgo_Previous opts)) (\<lambda>_.
          b_return (podName, containerName))))"

definition OpenLogStream :: "'s backend \<Rightarrow> string \<Rightarrow> string \<Rightarrow> LogOptions \<Rightarrow> ('s, string) bact" where
  "OpenLogStream C namespace workspaceName opts =
     b_bind (resolvePodAndContainer C namespace workspaceName opts) (\<lambda>(podName, containerName).
     let tailLines = (if lgo_TailLines opts \<le> 0 then defaultTailLines else lgo_TailLines opts);
         req = \<lparr>plo_Container = containerName, plo_TailLines = tailLines, plo_LimitBytes = safeLimitBytes,
                plo_Previous = lgo_Previous opts, plo_Follow = False, plo_Timestamps = True,
                plo_SinceTime = lgo_SinceTime opts\<rparr>
     in b_map_error (fmtOpenLogStreamFailed podName containerName) (b_read (b_StreamLogs C namespace podName req)))"

section \<open>Query parameters\<close>

definition ContainerQueryParam :: string where "ContainerQueryParam = ''container''"
definition TailLinesQueryParam :: string where "TailLinesQueryParam = ''tailLines''"
definition PreviousQueryParam :: string where "PreviousQueryParam = ''previous''"
definition SinceTimeQueryParam :: string where "SinceTimeQueryParam = ''sinceTime''"

definition ValidateKubernetesContainersName :: "backend_lib \<Rightarrow> string \<Rightarrow> string \<Rightarrow> field_error list" where
  "ValidateKubernetesContainersName = ValidateFieldIsDNS1123Label"

definition parseLogOptions :: "backend_lib \<Rightarrow> str_map \<Rightarrow> LogOptions \<times> field_error list" where
  "parseLogOptions B query =
     (let valErrs = [];
          opts = \<lparr>lgo_Container = [], lgo_TailLines = 0, lgo_Previous = False, lgo_SinceTime = None\<rparr>;
          raw = map_get query ContainerQueryParam;
          (opts, valErrs) =
            (if raw \<noteq> []
             then (let errs = ValidateKubernetesContainersName B ContainerQueryParam raw
                   in if 0 < length errs then (opts, valErrs @ errs) else (opts\<lparr>lgo_Container := raw\<rparr>, valErrs))
             else (opts, valErrs));
          raw = map_get query TailLinesQueryParam;
          (opts, valErrs) =
            (if raw \<noteq> []
             then (let (tail, errs) = ValidateFieldIsPositiveInt64 TailLinesQueryParam raw
                   in if 0 < length errs then (opts, valErrs @ errs) else (opts\<lparr>lgo_TailLines := tail\<rparr>, valErrs))
             else (opts, valErrs));
          raw = map_get query PreviousQueryParam;
          (opts, valErrs) =
            (if raw \<noteq> []
             then (let (previous, errs) = ValidateFieldIsBool PreviousQueryParam raw
                   in if 0 < length errs then (opts, valErrs @ errs) else (opts\<lparr>lgo_Previous := previous\<rparr>, valErrs))
             else (opts, valErrs));
          raw = map_get query SinceTimeQueryParam
      in if raw \<noteq> []
         then (let (sinceTime, errs) = ValidateFieldIsRFC3339Time B SinceTimeQueryParam raw
               in if 0 < length errs then (opts, valErrs @ errs) else (opts\<lparr>lgo_SinceTime := sinceTime\<rparr>, valErrs))
         else (opts, valErrs))"

section \<open>Lemmas\<close>

text \<open>A container of a live Pod has logs: of its previous instance, or of the current one.\<close>

definition has_logs :: "LivePod \<Rightarrow> string \<Rightarrow> bool \<Rightarrow> bool" where
  "has_logs pod name previous \<longleftrightarrow>
     (\<exists>cs \<in> set (lp_ContainerStatuses pod @ lp_InitContainerStatuses pod).
        lcs_Name cs = name \<and> (if previous then lcs_LastTerminated cs else \<not> lcs_Waiting cs))"

lemma b_spec_checkStatus:
  "b_spec 0 P (\<lambda>_. if previous then lcs_LastTerminated cs else \<not> lcs_Waiting cs) (checkStatus previous cs)"
  unfolding checkStatus_def by (auto intro!: b_spec_return b_spec_throw)

lemma b_spec_ensureLogsAvailable:
  "b_spec 0 P (\<lambda>_. \<exists>pod. answered (b_GetLivePod C ns podName) pod \<and> has_logs pod name previous)
     (ensureLogsAvailable C ns podName name previous)"
  unfolding ensureLogsAvailable_def
proof (rule b_spec_read_bind [OF b_spec_map_error [OF b_spec_read]])
  fix pod
  assume pod: "answered (b_GetLivePod C ns podName) pod"
  let ?Q = "\<lambda>_. \<exists>pod. answered (b_GetLivePod C ns podName) pod \<and> has_logs pod name previous"
  have found: "b_spec 0 P ?Q (checkStatus previous cs)"
    if "find (\<lambda>cs. lcs_Name cs = name) css = Some cs" "set css \<subseteq> set (lp_ContainerStatuses pod @ lp_InitContainerStatuses pod)"
    for cs css
  proof (rule b_spec_mono [OF b_spec_checkStatus])
    have "cs \<in> set css" "lcs_Name cs = name"
      using that(1) by (auto simp: find_Some_iff)
    then show "if previous then lcs_LastTerminated cs else \<not> lcs_Waiting cs \<Longrightarrow>
        \<exists>pod. answered (b_GetLivePod C ns podName) pod \<and> has_logs pod name previous"
      using that(2) pod unfolding has_logs_def by blast
  qed simp
  show "b_spec 0 P ?Q
      (case find (\<lambda>cs. lcs_Name cs = name) (lp_ContainerStatuses pod) of
         Some cs \<Rightarrow> checkStatus previous cs
       | None \<Rightarrow>
           (case find (\<lambda>cs. lcs_Name cs = name) (lp_InitContainerStatuses pod) of
             Some cs \<Rightarrow> checkStatus previous cs
           | None \<Rightarrow> b_throw (SentinelError ErrContainerNotRunning)))"
    by (intro b_spec_option b_spec_throw) (erule found, simp)+
qed

text \<open>What a log request that is sent to the API server rests on.\<close>

definition log_request :: "'s backend \<Rightarrow> string \<Rightarrow> string \<Rightarrow> LogOptions \<Rightarrow> string \<Rightarrow> PodLogOptions \<Rightarrow> bool" where
  "log_request C ns name opts podName req \<longleftrightarrow>
     (\<exists>ws pod. answered (b_GetWorkspace C ns name) ws \<and> podName = wps_Name (st_PodTemplatePod (w_Status ws)) \<and>
        podName \<noteq> [] \<and>
        (if lgo_Container opts = [] then plo_Container req = ''main'' \<and>
           ''main'' \<in> set (wps_Containers (st_PodTemplatePod (w_Status ws)))
         else plo_Container req = lgo_Container opts \<and>
           lgo_Container opts \<in> set (wps_Containers (st_PodTemplatePod (w_Status ws)) @
             wps_InitContainers (st_PodTemplatePod (w_Status ws)))) \<and>
        answered (b_GetLivePod C ns podName) pod \<and> has_logs pod (plo_Container req) (lgo_Previous opts)) \<and>
     plo_TailLines req = (if lgo_TailLines opts \<le> 0 then 1000 else lgo_TailLines opts) \<and>
     plo_LimitBytes req = 104857600 \<and> \<not> plo_Follow req \<and> plo_Timestamps req \<and>
     plo_Previous req = lgo_Previous opts \<and> plo_SinceTime req = lgo_SinceTime opts"

definition streams_logs :: "'s backend \<Rightarrow> string \<Rightarrow> string \<Rightarrow> LogOptions \<Rightarrow> string \<Rightarrow> bool" where
  "streams_logs C ns name opts stream \<longleftrightarrow>
     (\<exists>podName req. log_request C ns name opts podName req \<and> answered (b_StreamLogs C ns podName req) stream)"

lemma containerExists_iff: "containerExists name cs ics \<longleftrightarrow> name \<in> set (cs @ ics)"
  by (auto simp: containerExists_def list_ex_iff)

lemma b_spec_resolvePodAndContainer:
  "b_spec 0 P
     (\<lambda>(podName, container). log_request C ns name opts podName
        \<lparr>plo_Container = container, plo_TailLines = (if lgo_TailLines opts \<le> 0 then defaultTailLines else lgo_TailLines opts),
         plo_LimitBytes = safeLimitBytes, plo_Previous = lgo_Previous opts, plo_Follow = False, plo_Timestamps = True,
         plo_SinceTime = lgo_SinceTime opts\<rparr>)
     (resolvePodAndContainer C ns name opts)"
  unfolding resolvePodAndContainer_def Let_def
proof (rule b_spec_read_bind [OF b_spec_map_error [OF b_spec_read]], rule b_spec_if [OF b_spec_throw], goal_cases)
  case (1 ws)
  let ?st = "st_PodTemplatePod (w_Status ws)"
  have container: "b_spec 0 P (\<lambda>c. if lgo_Container opts = [] then c = ''main'' \<and> ''main'' \<in> set (wps_Containers ?st)
       else c = lgo_Container opts \<and> lgo_Container opts \<in> set (wps_Containers ?st @ wps_InitContainers ?st))
      (if lgo_Container opts \<noteq> []
       then
         if \<not> containerExists (lgo_Container opts) (wps_Containers ?st) (wps_InitContainers ?st)
         then b_throw (SentinelError ErrContainerNotFound)
         else b_return (lgo_Container opts)
       else if length (wps_Containers ?st) = 0 then b_throw (SentinelError ErrContainerNotRunning)
       else if \<not> containerExists primaryContainerName (wps_Containers ?st) []
       then b_throw (SentinelError ErrContainerNotFound)
       else b_return primaryContainerName)"
    by (auto simp: containerExists_iff primaryContainerName_def intro!: b_spec_return b_spec_throw)
  show ?case
  proof (rule b_spec_read_bind [OF container], rule b_spec_read_bind [OF b_spec_ensureLogsAvailable], rule b_spec_return, goal_cases)
    case (1 container u)
    with \<open>answered _ ws\<close> \<open>wps_Name ?st \<noteq> []\<close> show ?case
      unfolding log_request_def by (auto simp: defaultTailLines_def safeLimitBytes_def)
  qed
qed

lemma b_spec_OpenLogStream: "b_spec 0 P (streams_logs C ns name opts) (OpenLogStream C ns name opts)"
  unfolding OpenLogStream_def Let_def
  by (rule b_spec_read_bind [OF b_spec_resolvePodAndContainer])
    (auto simp: streams_logs_def split: prod.split intro!: b_spec_map_error b_spec_mono [OF b_spec_read]; blast)

lemma parseLogOptions_valid:
  assumes "parseLogOptions B query = (opts, [])"
  shows "lgo_Container opts = map_get query ContainerQueryParam"
    and "0 \<le> lgo_TailLines opts" and "is_int64 (lgo_TailLines opts)"
    and "map_get query TailLinesQueryParam \<noteq> [] \<Longrightarrow> ParseInt64 (map_get query TailLinesQueryParam) = Some (lgo_TailLines opts)"
  using assms
  by (auto simp: parseLogOptions_def Let_def ValidateFieldIsPositiveInt64_def ValidateFieldIsBool_def
      ValidateFieldIsRFC3339Time_def ParseInt64_def is_int64_def split: if_splits option.splits prod.splits)

lemma parseLogOptions_tail:
  assumes "parseLogOptions B query = (opts, [])"
  shows "(map_get query TailLinesQueryParam = [] \<longrightarrow> lgo_TailLines opts = 0) \<and>
    (map_get query TailLinesQueryParam \<noteq> [] \<longrightarrow> 0 < lgo_TailLines opts)"
  using assms
  by (auto simp: parseLogOptions_def Let_def ValidateFieldIsPositiveInt64_def ValidateFieldIsBool_def
      ValidateFieldIsRFC3339Time_def split: if_splits option.splits prod.splits)

end
