(* ===== verification/Metrics.thy ===== *)
theory Metrics
  imports Workspace_Repo
begin

text \<open>
  The resource usage of a Workspace: \<open>internal/repositories/metrics/repo.go\<close> and
  \<open>internal/models/workspaces/podtemplate/resources/funcs.go\<close>. The two caches are state: the variables that
  the closure of \<open>memoize\<close> captures are the \<open>availability_memo\<close> of a run, and the LRU cache of usages
  belongs to the world, its writes being recorded. The mutex of \<open>memoize\<close> makes a call of the closure
  one step.
\<close>

section \<open>Models\<close>

definition resourceValues :: "backend_lib \<Rightarrow> (string, opaque) go_map \<Rightarrow> ResourceValues" where
  "resourceValues B rl =
     (let rv = \<lparr>rv_CPU = [], rv_Memory = []\<rparr>;
          rv = (case map_of rl ''cpu'' of Some cpu \<Rightarrow> rv\<lparr>rv_CPU := bl_QuantityString B (Some cpu)\<rparr> | None \<Rightarrow> rv)
      in case map_of rl ''memory'' of Some mem \<Rightarrow> rv\<lparr>rv_Memory := bl_QuantityString B (Some mem)\<rparr> | None \<Rightarrow> rv)"

fun usage_loop ::
  "backend_lib \<Rightarrow> string \<Rightarrow> ContainerMetrics list \<Rightarrow> (string, MetricsFromMetricsServer) go_map
   \<Rightarrow> (string, MetricsFromMetricsServer) go_map" where
  "usage_loop B timestamp [] byContainer = byContainer"
| "usage_loop B timestamp (c # cs) byContainer =
     usage_loop B timestamp cs
       (AList.update (cmx_Name c) \<lparr>mms_Timestamp = timestamp, mms_Usage = resourceValues B (cmx_Usage c)\<rparr> byContainer)"

text \<open>A nil map and an empty map are the same for the reader.\<close>

definition UsageForPod :: "backend_lib \<Rightarrow> PodMetrics option \<Rightarrow> (string, MetricsFromMetricsServer) go_map" where
  "UsageForPod B pm =
     (case pm of
       None \<Rightarrow> []
     | Some pm \<Rightarrow> usage_loop B (bl_FormatRFC3339 B (pmx_Timestamp pm)) (pmx_Containers pm) [])"

fun container_usage_loop ::
  "(string, MetricsFromMetricsServer) go_map \<Rightarrow> Container list \<Rightarrow> (string, ContainerResourceUsage) go_map
   \<Rightarrow> (string, ContainerResourceUsage) go_map" where
  "container_usage_loop usageByContainer [] containers = containers"
| "container_usage_loop usageByContainer (c # cs) containers =
     container_usage_loop usageByContainer cs
       (AList.update (ct_Name c)
          \<lparr>cru_Metrics = map_of usageByContainer (ct_Name c), cru_Resources = ct_Resources c\<rparr> containers)"

definition NewWorkspaceResourceUsage ::
  "Pod option \<Rightarrow> (string, MetricsFromMetricsServer) go_map \<Rightarrow> WorkspaceResourceUsage option" where
  "NewWorkspaceResourceUsage pod usageByContainer =
     (case pod of
       None \<Rightarrow> None
     | Some pod \<Rightarrow>
         Some \<lparr>wru_Containers = container_usage_loop usageByContainer (ps_Containers (pod_Spec pod)) []\<rparr>)"

section \<open>Availability of the metrics API\<close>

definition apiAvailabilityTTL :: duration where "apiAvailabilityTTL = 60 * time_Second"
definition apiAvailabilityTransientTTL :: duration where "apiAvailabilityTransientTTL = 10 * time_Second"
definition defaultResourceUsageCacheTTL :: duration where "defaultResourceUsageCacheTTL = 30 * time_Second"
definition defaultResourceUsageNegativeCacheTTL :: duration where
  "defaultResourceUsageNegativeCacheTTL = 5 * time_Second"

definition metricsAPIServed :: "'s backend \<Rightarrow> ('s, bool \<times> backend_error option) bact" where
  "metricsAPIServed C =
     b_bind (b_try (b_ProbeMetricsAPI C)) (\<lambda>r.
     case r of Inl err \<Rightarrow> b_return (False, Some err) | Inr _ \<Rightarrow> b_return (True, None))"

definition availabilityTTL :: "backend_error option \<Rightarrow> duration" where
  "availabilityTTL err =
     (case err of
       None \<Rightarrow> apiAvailabilityTTL
     | Some err \<Rightarrow>
         if reason_of err = Some ReasonNotFound then apiAvailabilityTTL else apiAvailabilityTransientTTL)"

definition b_memo :: "('s, availability_memo) bact" where
  "b_memo s = (BOk (br_memo s), s)"

definition b_set_memo :: "availability_memo \<Rightarrow> ('s, unit) bact" where
  "b_set_memo m s = (BOk (), s\<lparr>br_memo := m\<rparr>)"

text \<open>\<open>time.Since\<close> reads the clock; it is called only if there was a check.\<close>

definition memoize ::
  "'s backend \<Rightarrow> ('s, bool \<times> backend_error option) bact \<Rightarrow> (backend_error option \<Rightarrow> duration) \<Rightarrow> ('s, bool) bact" where
  "memoize C probe ttlFunc =
     b_bind b_memo (\<lambda>m.
     b_bind (case memo_checkedAt m of
               None \<Rightarrow> b_return True
             | Some checkedAt \<Rightarrow> b_bind (b_time_Now C) (\<lambda>now. b_return (memo_ttl m \<le> now - checkedAt))) (\<lambda>expired.
     if expired
     then
       b_bind probe (\<lambda>(val, err).
       b_bind (b_time_Now C) (\<lambda>now.
       b_bind (b_set_memo \<lparr>memo_val = val, memo_checkedAt = Some now, memo_ttl = ttlFunc err\<rparr>) (\<lambda>_.
       b_return val)))
     else b_return (memo_val m)))"

definition apiAvailable :: "'s backend \<Rightarrow> ('s, bool) bact" where
  "apiAvailable C = memoize C (metricsAPIServed C) availabilityTTL"

section \<open>Resource usage\<close>

definition LabelWorkspaceName :: string where
  "LabelWorkspaceName = ''workspaces.kubeflow.org/workspace-name''"

text \<open>A question to the world that has no error.\<close>

definition b_ask :: "('s \<Rightarrow> 'a \<times> 's) \<Rightarrow> ('s, 'a) bact" where
  "b_ask f s = (case f (br_world s) of (x, w) \<Rightarrow> (BOk x, s\<lparr>br_world := w\<rparr>))"

definition usage_cache_key :: "string \<Rightarrow> string \<Rightarrow> Pod \<Rightarrow> string" where
  "usage_cache_key ns workspace pod = ns @ ''/'' @ workspace @ ''/'' @ om_UID (pod_Meta pod)"

text \<open>\<open>usageCache.Add\<close> has no result. The usage of a Pod that exists is never nil.\<close>

definition cache_usage :: "'s backend \<Rightarrow> string \<Rightarrow> WorkspaceResourceUsage option \<Rightarrow> duration \<Rightarrow> ('s, unit) bact" where
  "cache_usage C key usage ttl =
     (case usage of
       None \<Rightarrow> b_panic
     | Some u \<Rightarrow> b_write (BCacheUsage key u ttl) (\<lambda>w. (Inr (), snd (b_UsageCache_Add C key u ttl w))))"

definition GetWorkspaceResourceUsage ::
  "backend_lib \<Rightarrow> 's backend \<Rightarrow> string \<Rightarrow> string \<Rightarrow> ('s, WorkspaceResourceUsage option) bact" where
  "GetWorkspaceResourceUsage B C ns workspace =
     b_bind (b_map_error (not_found_as ErrWorkspaceNotFound) (b_read (b_GetWorkspace C ns workspace))) (\<lambda>ws.
     b_bind (b_read (b_ListPods C ns [(LabelWorkspaceName, workspace)])) (\<lambda>podList.
     case podList of
       [] \<Rightarrow> b_throw (SentinelError ErrWorkspacePodNotRunning)
     | pod # rest \<Rightarrow>
         (let cacheKey = usage_cache_key ns workspace pod
          in b_bind (b_ask (b_UsageCache_Get C cacheKey)) (\<lambda>cached.
             case cached of
               Some cachedUsage \<Rightarrow> b_return (Some cachedUsage)
             | None \<Rightarrow>
                 b_bind (apiAvailable C) (\<lambda>available.
                 if \<not> available then b_return (NewWorkspaceResourceUsage (Some pod) [])
                 else
                   b_bind (b_try (b_GetPodMetrics C ns (om_Name (pod_Meta pod)))) (\<lambda>r.
                   case r of
                     Inl err \<Rightarrow>
                       b_bind (b_ask (b_ContextErr C)) (\<lambda>ctxErr.
                       case ctxErr of
                         Some _ \<Rightarrow>
                           b_bind (b_ask (b_ContextErr C)) (\<lambda>ctxErr.
                           case ctxErr of Some err \<Rightarrow> b_throw err | None \<Rightarrow> b_return None)
                       | None \<Rightarrow>
                           (let usage = NewWorkspaceResourceUsage (Some pod) []
                            in b_bind (cache_usage C cacheKey usage defaultResourceUsageNegativeCacheTTL) (\<lambda>_.
                               b_return usage)))
                   | Inr podMetrics \<Rightarrow>
                       if length (pmx_Containers podMetrics) = 0
                       then
                         (let usage = NewWorkspaceResourceUsage (Some pod) []
                          in b_bind (cache_usage C cacheKey usage defaultResourceUsageNegativeCacheTTL) (\<lambda>_.
                             b_return usage))
                       else
                         (let usage = NewWorkspaceResourceUsage (Some pod) (UsageForPod B (Some podMetrics))
                          in b_bind (cache_usage C cacheKey usage defaultResourceUsageCacheTTL) (\<lambda>_.
                             b_return usage))))))))"

section \<open>Lemmas\<close>

lemma b_spec_memo [b_spec_intros]: "b_spec 0 P (\<lambda>m. True) b_memo"
  by (simp add: b_spec_def b_memo_def)

lemma b_spec_set_memo [b_spec_intros]: "b_spec 0 P (\<lambda>u. True) (b_set_memo m)"
  by (simp add: b_spec_def b_set_memo_def)

lemma b_spec_ask [b_spec_intros]: "b_spec 0 P (\<lambda>x. \<exists>w w'. f w = (x, w')) (b_ask f)"
  by (auto simp: b_spec_def b_ask_def split: prod.splits)

lemma b_spec_apiAvailable: "b_spec 0 P (\<lambda>x. True) (apiAvailable C)"
  unfolding apiAvailable_def memoize_def metricsAPIServed_def
  by (rule b_spec_read_bind [OF b_spec_memo],
      rule b_spec_read_bind [where R = "\<lambda>_. True", OF b_spec_mono [where R = "\<lambda>_. True"]])
    (auto split: option.split sum.split prod.split
      intro!: b_spec_if b_spec_return b_spec_read_bind [OF b_spec_now] b_spec_read_bind [OF b_spec_set_memo]
        b_spec_read_bind [where R = "\<lambda>_. True"] b_spec_mono [OF b_spec_try])

text \<open>The container of a name is the last one in the list, as in a Go map that the loop fills.\<close>

lemma find_append: "find P (xs @ ys) = (case find P xs of None \<Rightarrow> find P ys | Some x \<Rightarrow> Some x)"
  by (induction xs) auto

lemma container_usage_loop_lookup:
  "map_of (container_usage_loop m cs acc) name =
     (case find (\<lambda>c. ct_Name c = name) (rev cs) of
       Some c \<Rightarrow> Some \<lparr>cru_Metrics = map_of m name, cru_Resources = ct_Resources c\<rparr>
     | None \<Rightarrow> map_of acc name)"
proof (induction cs arbitrary: acc)
  case (Cons c cs)
  show ?case
  proof (cases "find (\<lambda>c. ct_Name c = name) (rev cs)")
    case None
    then show ?thesis
      by (auto simp: Cons find_append update_conv')
  next
    case (Some d)
    then show ?thesis
      by (auto simp: Cons find_append)
  qed
qed simp

lemma usage_loop_lookup:
  "map_of (usage_loop B ts cs acc) name =
     (case find (\<lambda>c. cmx_Name c = name) (rev cs) of
       Some c \<Rightarrow> Some \<lparr>mms_Timestamp = ts, mms_Usage = resourceValues B (cmx_Usage c)\<rparr>
     | None \<Rightarrow> map_of acc name)"
proof (induction cs arbitrary: acc)
  case (Cons c cs)
  show ?case
  proof (cases "find (\<lambda>c. cmx_Name c = name) (rev cs)")
    case None
    then show ?thesis
      by (auto simp: Cons find_append update_conv')
  next
    case (Some d)
    then show ?thesis
      by (auto simp: Cons find_append)
  qed
qed simp

text \<open>
  The usage that a Pod has: its containers, each with its resources and with what a sample has on it.
\<close>

definition usage_of :: "backend_lib \<Rightarrow> Pod \<Rightarrow> PodMetrics option \<Rightarrow> WorkspaceResourceUsage \<Rightarrow> bool" where
  "usage_of B pod sample u \<longleftrightarrow>
     (\<forall>name. map_of (wru_Containers u) name =
        map_option (\<lambda>c. \<lparr>cru_Metrics =
            Option.bind sample (\<lambda>pm. map_option
              (\<lambda>m. \<lparr>mms_Timestamp = bl_FormatRFC3339 B (pmx_Timestamp pm), mms_Usage = resourceValues B (cmx_Usage m)\<rparr>)
              (find (\<lambda>m. cmx_Name m = name) (rev (pmx_Containers pm)))),
           cru_Resources = ct_Resources c\<rparr>)
          (find (\<lambda>c. ct_Name c = name) (rev (ps_Containers (pod_Spec pod)))))"

lemma usage_of_New: "\<exists>u. NewWorkspaceResourceUsage (Some pod) (UsageForPod B sample) = Some u \<and> usage_of B pod sample u"
  by (cases sample)
    (auto simp: NewWorkspaceResourceUsage_def UsageForPod_def usage_of_def container_usage_loop_lookup usage_loop_lookup
      split: option.split)

lemma usage_of_New_none: "\<exists>u. NewWorkspaceResourceUsage (Some pod) [] = Some u \<and> usage_of B pod None u"
  using usage_of_New [of pod B None] by (simp add: UsageForPod_def)

text \<open>What may be put into the cache, for a Pod that the cluster listed.\<close>

definition listed_pod :: "'s backend \<Rightarrow> string \<Rightarrow> string \<Rightarrow> Pod \<Rightarrow> bool" where
  "listed_pod C ns workspace pod \<longleftrightarrow>
     (\<exists>rest. answered (b_ListPods C ns [(LabelWorkspaceName, workspace)]) (pod # rest))"

definition caches :: "backend_lib \<Rightarrow> 's backend \<Rightarrow> string \<Rightarrow> string \<Rightarrow> backend_call \<Rightarrow> bool" where
  "caches B C ns workspace c \<longleftrightarrow>
     (\<exists>pod u ttl. c = BCacheUsage (usage_cache_key ns workspace pod) u ttl \<and> listed_pod C ns workspace pod \<and>
        (usage_of B pod None u \<and> ttl = 5 * time_Second \<or>
         (\<exists>pm. answered (b_GetPodMetrics C ns (om_Name (pod_Meta pod))) pm \<and> pmx_Containers pm \<noteq> [] \<and>
            usage_of B pod (Some pm) u \<and> ttl = 30 * time_Second)))"

text \<open>What a request may answer: a cached usage, or the one of a Pod that the cluster listed.\<close>

definition served :: "backend_lib \<Rightarrow> 's backend \<Rightarrow> string \<Rightarrow> string \<Rightarrow> WorkspaceResourceUsage option \<Rightarrow> bool" where
  "served B C ns workspace r \<longleftrightarrow>
     (\<exists>pod. listed_pod C ns workspace pod \<and>
       ((\<exists>w w'. b_UsageCache_Get C (usage_cache_key ns workspace pod) w = (r, w')) \<or>
        (\<exists>u. r = Some u \<and> usage_of B pod None u) \<or>
        (\<exists>u pm. r = Some u \<and> answered (b_GetPodMetrics C ns (om_Name (pod_Meta pod))) pm \<and> usage_of B pod (Some pm) u))) \<or>
     r = None \<and> (\<exists>w w'. b_ContextErr C w = (None, w'))"

lemma b_spec_cache_usage:
  "caches B C ns workspace (BCacheUsage key u ttl) \<Longrightarrow>
   b_spec 1 (caches B C ns workspace) (\<lambda>x. True) (cache_usage C key (Some u) ttl)"
  by (simp add: cache_usage_def b_spec_mono [OF b_spec_write] del: One_nat_def)

lemma b_spec_GetWorkspaceResourceUsage:
  "b_spec 1 (caches B C ns workspace) (served B C ns workspace) (GetWorkspaceResourceUsage B C ns workspace)"
  unfolding GetWorkspaceResourceUsage_def Let_def
proof (rule b_spec_read_bind [OF b_spec_map_error [OF b_spec_read]], rule b_spec_read_bind [OF b_spec_read], goal_cases)
  case (1 ws podList)
  note list = 1(2)
  show ?case
  proof (cases podList)
    case Nil
    then show ?thesis
      by (simp add: b_spec_throw)
  next
    case (Cons pod rest)
    with list have pod: "listed_pod C ns workspace pod"
      unfolding listed_pod_def by blast
    obtain u0 where u0: "NewWorkspaceResourceUsage (Some pod) [] = Some u0" "usage_of B pod None u0"
      using usage_of_New_none by blast
    have none: "served B C ns workspace (Some u0)"
      unfolding served_def using pod u0(2) by blast
    have unavailable: "b_spec 1 (caches B C ns workspace) (served B C ns workspace) (b_return (Some u0))"
      by (rule b_spec_return) (rule none)
    have negative: "b_spec 1 (caches B C ns workspace) (served B C ns workspace)
        (b_bind (cache_usage C (usage_cache_key ns workspace pod) (Some u0) defaultResourceUsageNegativeCacheTTL)
          (\<lambda>_. b_return (Some u0)))"
      by (rule b_spec_write_bind [OF b_spec_cache_usage b_spec_return])
        (use pod u0(2) none in \<open>auto simp: caches_def defaultResourceUsageNegativeCacheTTL_def\<close>)
    show ?thesis
      unfolding Cons list.case u0(1)
    proof (rule b_spec_read_bind [OF b_spec_ask], rule b_spec_option, goal_cases)
      case (1 cached)
      show ?case
      proof (rule b_spec_read_bind [OF b_spec_apiAvailable], rule b_spec_if [OF unavailable],
          rule b_spec_read_bind [OF b_spec_try], goal_cases)
        case (1 available r)
        show ?case
        proof (cases r)
          case (Inl err)
          have None: "b_spec 1 (caches B C ns workspace) (served B C ns workspace) (b_return None)"
            if "\<exists>w w'. b_ContextErr C w = (None, w')"
            using that by (intro b_spec_return) (auto simp: served_def)
          show ?thesis
            unfolding Inl sum.case
            by (rule b_spec_read_bind [OF b_spec_ask], rule b_spec_option [OF negative],
                rule b_spec_read_bind [OF b_spec_ask], rule b_spec_option [OF None b_spec_throw]) simp
        next
          case (Inr pm)
          with 1 have pm: "answered (b_GetPodMetrics C ns (om_Name (pod_Meta pod))) pm"
            by simp
          obtain u where u: "NewWorkspaceResourceUsage (Some pod) (UsageForPod B (Some pm)) = Some u"
            "usage_of B pod (Some pm) u"
            using usage_of_New by blast
          show ?thesis
            unfolding Inr sum.case u(1)
          proof (rule b_spec_if [OF negative])
            assume "length (pmx_Containers pm) \<noteq> 0"
            with pod pm u(2) have "caches B C ns workspace
                (BCacheUsage (usage_cache_key ns workspace pod) u defaultResourceUsageCacheTTL)"
              by (auto simp: caches_def defaultResourceUsageCacheTTL_def)
            moreover have "served B C ns workspace (Some u)"
              unfolding served_def using pod pm u(2) by blast
            ultimately show "b_spec 1 (caches B C ns workspace) (served B C ns workspace)
                (b_bind (cache_usage C (usage_cache_key ns workspace pod) (Some u) defaultResourceUsageCacheTTL)
                  (\<lambda>_. b_return (Some u)))"
              by (intro b_spec_write_bind [OF b_spec_cache_usage b_spec_return])
          qed
        qed
      qed
    next
      case (2 cached cachedUsage)
      then show ?case
        using pod by (intro b_spec_return) (auto simp: served_def)
    qed
  qed
qed

text \<open>The key of a cache entry tells whose usage it is: names of objects have no slash.\<close>

lemma usage_cache_key_inj:
  assumes "usage_cache_key ns workspace pod = usage_cache_key ns' workspace' pod'"
    and "CHR ''/'' \<notin> set ns" and "CHR ''/'' \<notin> set ns'" and "CHR ''/'' \<notin> set workspace" and "CHR ''/'' \<notin> set workspace'"
  shows "ns = ns' \<and> workspace = workspace' \<and> om_UID (pod_Meta pod) = om_UID (pod_Meta pod')"
proof -
  have "ns = ns' \<and> workspace @ CHR ''/'' # om_UID (pod_Meta pod) = workspace' @ CHR ''/'' # om_UID (pod_Meta pod')"
    using append_sep_inj [OF _ assms(2,3)] assms(1) by (simp add: usage_cache_key_def)
  then show ?thesis
    using append_sep_inj [OF _ assms(4,5)] by blast
qed

section \<open>The rate of probes\<close>

abbreviation isr :: "'a + 'b \<Rightarrow> bool" where
  "isr r \<equiv> \<not> isl r"

lemmas available_run_defs =
  apiAvailable_def memoize_def metricsAPIServed_def b_bind_def b_memo_def b_set_memo_def b_return_def b_time_Now_def b_try_def

lemma apiAvailable_cases:
  obtains (fresh) t now w where "memo_checkedAt (br_memo s) = Some t" and "b_Now C (br_world s) = (now, w)"
      and "now - t < memo_ttl (br_memo s)"
      and "apiAvailable C s = (BOk (memo_val (br_memo s)), s\<lparr>br_world := w\<rparr>)"
  | (probed) w1 res w2 now w3 where
      "memo_checkedAt (br_memo s) = None \<and> w1 = br_world s \<or>
       (\<exists>t now0. memo_checkedAt (br_memo s) = Some t \<and> b_Now C (br_world s) = (now0, w1) \<and>
          memo_ttl (br_memo s) \<le> now0 - t)"
      and "b_ProbeMetricsAPI C w1 = (res, w2)" and "b_Now C w2 = (now, w3)"
      and "apiAvailable C s = (BOk (isr res), s\<lparr>br_world := w3, br_memo :=
         \<lparr>memo_val = isr res, memo_checkedAt = Some now,
          memo_ttl = availabilityTTL (case res of Inl err \<Rightarrow> Some err | Inr _ \<Rightarrow> None)\<rparr>\<rparr>)"
proof (cases "memo_checkedAt (br_memo s)")
  case None
  obtain res w2 where p: "b_ProbeMetricsAPI C (br_world s) = (res, w2)"
    by fastforce
  obtain now w3 where n: "b_Now C w2 = (now, w3)"
    by fastforce
  from None p n have "apiAvailable C s = (BOk (isr res), s\<lparr>br_world := w3, br_memo :=
         \<lparr>memo_val = isr res, memo_checkedAt = Some now,
          memo_ttl = availabilityTTL (case res of Inl err \<Rightarrow> Some err | Inr _ \<Rightarrow> None)\<rparr>\<rparr>)"
    by (cases res) (simp_all add: available_run_defs)
  with None p n show thesis
    by (intro probed) auto
next
  case (Some t)
  obtain now0 w1 where n0: "b_Now C (br_world s) = (now0, w1)"
    by fastforce
  show thesis
  proof (cases "memo_ttl (br_memo s) \<le> now0 - t")
    case False
    with Some n0 have "apiAvailable C s = (BOk (memo_val (br_memo s)), s\<lparr>br_world := w1\<rparr>)"
      by (simp add: available_run_defs)
    with False Some n0 show thesis
      by (intro fresh) auto
  next
    case True
    obtain res w2 where p: "b_ProbeMetricsAPI C w1 = (res, w2)"
      by fastforce
    obtain now w3 where n: "b_Now C w2 = (now, w3)"
      by fastforce
    from True Some n0 p n have "apiAvailable C s = (BOk (isr res), s\<lparr>br_world := w3, br_memo :=
           \<lparr>memo_val = isr res, memo_checkedAt = Some now,
            memo_ttl = availabilityTTL (case res of Inl err \<Rightarrow> Some err | Inr _ \<Rightarrow> None)\<rparr>\<rparr>)"
      by (cases res) (simp_all add: available_run_defs)
    with True Some n0 p n show thesis
      by (intro probed) auto
  qed
qed

text \<open>
  What a run shows to the metrics API and the clock: every probe with its result (is the API served?), and every
  reading of the clock. The world keeps these events as a ghost log.
\<close>

datatype metrics_event = ClockRead go_time | Probed bool

definition probe_count :: "metrics_event list \<Rightarrow> nat" where
  "probe_count es = length (filter (\<lambda>e. case e of Probed ok \<Rightarrow> True | ClockRead t \<Rightarrow> False) es)"

lemma probe_count_simps [simp]:
  "probe_count [] = 0" "probe_count (Probed ok # es) = Suc (probe_count es)" "probe_count (ClockRead t # es) = probe_count es"
  "probe_count (es @ fs) = probe_count es + probe_count fs" "probe_count (map ClockRead ts) = 0"
  by (simp_all add: probe_count_def)

text \<open>
  A history of the backend as the metrics API sees it: requests ask for the availability, and in between
  the world goes on (time does not run backwards, and nothing else probes the API, though it may read the clock).
\<close>

inductive availability_trace ::
  "'s backend \<Rightarrow> ('s \<Rightarrow> go_time) \<Rightarrow> ('s \<Rightarrow> metrics_event list) \<Rightarrow> 's brun \<Rightarrow> 's brun \<Rightarrow> bool"
  for C :: "'s backend" and clock :: "'s \<Rightarrow> go_time" and events :: "'s \<Rightarrow> metrics_event list" and s0 :: "'s brun" where
  start: "availability_trace C clock events s0 s0"
| request: "availability_trace C clock events s0 s \<Longrightarrow> apiAvailable C s = (r, s') \<Longrightarrow>
    availability_trace C clock events s0 s'"
| elsewhere: "availability_trace C clock events s0 s \<Longrightarrow> clock (br_world s) \<le> clock w \<Longrightarrow>
    events w = events (br_world s) @ map ClockRead ts \<Longrightarrow> availability_trace C clock events s0 (s\<lparr>br_world := w, br_calls := calls\<rparr>)"

text \<open>A world with a clock and the log of its events.\<close>

definition clocked :: "'s backend \<Rightarrow> ('s \<Rightarrow> go_time) \<Rightarrow> ('s \<Rightarrow> metrics_event list) \<Rightarrow> bool" where
  "clocked C clock events \<longleftrightarrow>
     (\<forall>w now w'. b_Now C w = (now, w') \<longrightarrow>
        clock w \<le> now \<and> now \<le> clock w' \<and> events w' = events w @ [ClockRead now]) \<and>
     (\<forall>w res w'. b_ProbeMetricsAPI C w = (res, w') \<longrightarrow>
        clock w \<le> clock w' \<and> events w' = events w @ [Probed (isr res)])"

text \<open>The latest probe of the log had the given result, and the clock showed the given time right after it.\<close>

definition latest_probe :: "metrics_event list \<Rightarrow> bool \<Rightarrow> go_time \<Rightarrow> bool" where
  "latest_probe events ok t \<longleftrightarrow> (\<exists>es ts. events = es @ Probed ok # ClockRead t # map ClockRead ts)"

lemma latest_probe_now: "latest_probe (es @ [Probed ok] @ [ClockRead t]) ok t"
  unfolding latest_probe_def by (intro exI [of _ es] exI [of _ "[]"]) simp

lemma latest_probe_later: "latest_probe es ok t \<Longrightarrow> latest_probe (es @ map ClockRead ts) ok t"
  unfolding latest_probe_def by (elim exE) (rename_tac fs us, rule_tac x = fs in exI, rule_tac x = "us @ ts" in exI, simp)

lemma availabilityTTL_bounds: "10 * time_Second \<le> availabilityTTL err" "availabilityTTL err \<le> 60 * time_Second"
  by (simp_all add: availabilityTTL_def apiAvailabilityTTL_def apiAvailabilityTransientTTL_def time_Second_def
      split: option.split)

text \<open>Between two probes lies at least the shorter of the two lifetimes, and the memo holds the latest result.\<close>

definition paced :: "('s \<Rightarrow> go_time) \<Rightarrow> ('s \<Rightarrow> metrics_event list) \<Rightarrow> 's \<Rightarrow> 's brun \<Rightarrow> bool" where
  "paced clock events w0 s \<longleftrightarrow> clock w0 \<le> clock (br_world s) \<and>
     (case memo_checkedAt (br_memo s) of
       None \<Rightarrow> probe_count (events (br_world s)) = probe_count (events w0)
     | Some t \<Rightarrow>
         t \<le> clock (br_world s) \<and> 10 * time_Second \<le> memo_ttl (br_memo s) \<and> memo_ttl (br_memo s) \<le> 60 * time_Second \<and>
         latest_probe (events (br_world s)) (memo_val (br_memo s)) t \<and>
         (int (probe_count (events (br_world s))) - int (probe_count (events w0)) - 1) * (10 * time_Second) \<le> t - clock w0)"

lemma paced_request:
  assumes clocked: "clocked C clock events" and paced: "paced clock events w0 s" and run: "apiAvailable C s = (r, s')"
  shows "paced clock events w0 s' \<and>
    (\<exists>t. r = BOk (memo_val (br_memo s')) \<and> latest_probe (events (br_world s')) (memo_val (br_memo s')) t \<and>
       clock (br_world s) - t < 60 * time_Second)"
proof (cases C s rule: apiAvailable_cases)
  case (fresh t now w)
  have w: "clock (br_world s) \<le> now \<and> now \<le> clock w \<and> events w = events (br_world s) @ map ClockRead [now]"
    using clocked fresh(2) unfolding clocked_def list.map by blast
  from fresh(1) paced have latest: "latest_probe (events w) (memo_val (br_memo s)) t"
    unfolding w [THEN conjunct2, THEN conjunct2] by (intro latest_probe_later) (simp add: paced_def)
  from w have counts: "clock (br_world s) \<le> now" "now \<le> clock w" "probe_count (events w) = probe_count (events (br_world s))"
    by simp_all
  have s': "s' = s\<lparr>br_world := w\<rparr>" "r = BOk (memo_val (br_memo s))"
    using run fresh(4) by simp_all
  have "paced clock events w0 s'"
    using paced fresh(1) counts latest by (simp add: paced_def s')
  moreover have "clock (br_world s) - t < 60 * time_Second"
    using paced fresh(1,3) counts by (simp add: paced_def)
  ultimately show ?thesis
    using latest by (intro conjI exI [of _ t]) (simp_all add: s')
next
  case (probed w1 res w2 now w3)
  have w1: "clock (br_world s) \<le> clock w1 \<and> probe_count (events w1) = probe_count (events (br_world s))"
    using probed(1)
  proof (elim disjE exE conjE)
    fix t now0
    assume "b_Now C (br_world s) = (now0, w1)"
    then have "clock (br_world s) \<le> now0 \<and> now0 \<le> clock w1 \<and> events w1 = events (br_world s) @ [ClockRead now0]"
      using clocked unfolding clocked_def by blast
    then show ?thesis
      by simp
  qed simp
  have w2: "clock w1 \<le> clock w2 \<and> events w2 = events w1 @ [Probed (isr res)]"
    using clocked probed(2) unfolding clocked_def by blast
  have w3: "clock w2 \<le> now \<and> now \<le> clock w3 \<and> events w3 = events w2 @ [ClockRead now]"
    using clocked probed(3) unfolding clocked_def by blast
  have s': "s' = s\<lparr>br_world := w3, br_memo :=
      \<lparr>memo_val = isr res, memo_checkedAt = Some now,
       memo_ttl = availabilityTTL (case res of Inl err \<Rightarrow> Some err | Inr _ \<Rightarrow> None)\<rparr>\<rparr>" "r = BOk (isr res)"
    using run probed(4) by simp_all
  have latest: "latest_probe (events w3) (isr res) now"
    using w2 w3 latest_probe_now [of "events w1"] by simp
  have count: "(int (probe_count (events (br_world s))) - int (probe_count (events w0))) * (10 * time_Second) \<le> now - clock w0"
  proof (cases "memo_checkedAt (br_memo s)")
    case None
    with paced w1 w2 w3 show ?thesis
      by (simp add: paced_def)
  next
    case (Some t)
    with probed(1) obtain now0 where now0: "b_Now C (br_world s) = (now0, w1)" "memo_ttl (br_memo s) \<le> now0 - t"
      by auto
    have "now0 \<le> clock w1"
      using clocked now0(1) unfolding clocked_def by blast
    with Some paced now0(2) w2 w3 show ?thesis
      by (simp add: paced_def left_diff_distrib)
  qed
  have "clock (br_world s) - now < 60 * time_Second"
    using w1 w2 w3 by (simp add: time_Second_def)
  moreover have "paced clock events w0 s'"
    using count w1 w2 w3 paced availabilityTTL_bounds latest by (simp add: paced_def s')
  ultimately show ?thesis
    using latest by (intro conjI exI [of _ now]) (simp_all add: s')
qed

lemma paced_trace:
  assumes "availability_trace C clock events s0 s" and "clocked C clock events" and "memo_checkedAt (br_memo s0) = None"
  shows "paced clock events (br_world s0) s"
  using assms(1)
proof induction
  case start
  then show ?case
    using assms(3) by (simp add: paced_def)
next
  case (request s r s')
  then show ?case
    using paced_request [OF assms(2)] by blast
next
  case (elsewhere s w ts calls)
  then show ?case
    by (auto simp: paced_def latest_probe_later split: option.splits)
qed

lemma le_div_of_mult: "k * c \<le> d \<Longrightarrow> 0 < c \<Longrightarrow> k \<le> d div c" for k c d :: int
  using zdiv_mono1 [of "k * c" d c] by simp

section \<open>Properties\<close>

text \<open>
  C26. Requests do not flood the cluster with probes of the metrics API, however many there are and however
  the world moves between them: from the start of the backend, there is at most one probe per ten
  seconds (rounded up); and every request is answered with the result that the latest probe really had, where the clock
  read right after that probe shows that it ended less than sixty seconds before the request.
\<close>

theorem probe_rate_bounded:
  assumes "clocked C clock events" and "memo_checkedAt (br_memo s0) = None"
    and "availability_trace C clock events s0 s" and "apiAvailable C s = (answer, s')"
  shows "int (probe_count (events (br_world s))) \<le>
      int (probe_count (events (br_world s0))) + 1 + (clock (br_world s) - clock (br_world s0)) div (10 * time_Second) \<and>
    (\<exists>ok t es ts. answer = BOk ok \<and> events (br_world s') = es @ Probed ok # ClockRead t # map ClockRead ts \<and>
       clock (br_world s) - t < 60 * time_Second)"
proof
  have paced: "paced clock events (br_world s0) s"
    by (rule paced_trace [OF assms(3,1,2)])
  have "(int (probe_count (events (br_world s))) - int (probe_count (events (br_world s0))) - 1) * (10 * time_Second) \<le>
      clock (br_world s) - clock (br_world s0)"
    using paced by (auto simp: paced_def time_Second_def split: option.splits)
  then have "int (probe_count (events (br_world s))) - int (probe_count (events (br_world s0))) - 1 \<le>
      (clock (br_world s) - clock (br_world s0)) div (10 * time_Second)"
    by (rule le_div_of_mult) (simp add: time_Second_def)
  then show "int (probe_count (events (br_world s))) \<le>
      int (probe_count (events (br_world s0))) + 1 + (clock (br_world s) - clock (br_world s0)) div (10 * time_Second)"
    by simp
  from paced_request [OF assms(1) paced assms(4)] show "\<exists>ok t es ts. answer = BOk ok \<and>
      events (br_world s') = es @ Probed ok # ClockRead t # map ClockRead ts \<and> clock (br_world s) - t < 60 * time_Second"
    unfolding latest_probe_def by blast
qed

text \<open>A clock that ticks with every reading, and the log of the events.\<close>

definition ticking_backend :: "(go_time \<times> metrics_event list) backend" where
  "ticking_backend = undefined
     \<lparr>b_Now := \<lambda>(t, es). (t, (t + time_Second, es @ [ClockRead t])),
      b_ProbeMetricsAPI := \<lambda>(t, es). (Inr (), (t + time_Second, es @ [Probed True]))\<rparr>"

definition ticking_start :: "(go_time \<times> metrics_event list) brun" where
  "ticking_start =
     \<lparr>br_memo = \<lparr>memo_val = False, memo_checkedAt = None, memo_ttl = 0\<rparr>, br_world = (0, []), br_calls = []\<rparr>"

theorem probe_rate_bounded_witness:
  "\<exists>s s' t. snd (apiAvailable ticking_backend ticking_start) = s \<and>
     br_world s = (2 * time_Second, [Probed True, ClockRead time_Second]) \<and>
     apiAvailable ticking_backend s = (BOk True, s') \<and>
     (\<exists>es ts. snd (br_world s') = es @ Probed True # ClockRead t # map ClockRead ts) \<and> fst (br_world s) - t < 60 * time_Second \<and>
     int (probe_count (snd (br_world s))) \<le>
       int (probe_count (snd (br_world ticking_start))) + 1 + (fst (br_world s) - fst (br_world ticking_start)) div (10 * time_Second)"
proof -
  let ?s = "snd (apiAvailable ticking_backend ticking_start)"
  have clocked: "clocked ticking_backend fst snd"
    by (auto simp: clocked_def ticking_backend_def time_Second_def)
  have trace: "availability_trace ticking_backend fst snd ticking_start ?s"
    by (rule request [OF start], rule prod.collapse [symmetric])
  have fresh: "memo_checkedAt (br_memo ticking_start) = None"
    by (simp add: ticking_start_def)
  obtain s' where run: "apiAvailable ticking_backend ?s = (BOk True, s')"
    by (simp add: available_run_defs ticking_backend_def ticking_start_def availabilityTTL_def apiAvailabilityTTL_def
        time_Second_def)
  moreover have "br_world ?s = (2 * time_Second, [Probed True, ClockRead time_Second])"
    by (simp add: available_run_defs ticking_backend_def ticking_start_def)
  ultimately show ?thesis
    using probe_rate_bounded [OF clocked fresh trace run] by blast
qed

text \<open>
  C27. What the usage cache holds is true: a request issues at most one write to it, under the key of the
  Pod that the cluster listed first for the Workspace, and the entry is either the usage of that Pod by a
  sample of its metrics that has containers, for thirty seconds, or its resources without metrics, for
  five; the answer is such a usage or what the cache held under that key; and keys of different
  Workspaces or Pods differ, so that no Workspace is shown the usage of another.
\<close>

theorem usage_cache_exact:
  assumes "\<forall>n \<in> {ns, ns', workspace, workspace'}. CHR ''/'' \<notin> set n"
  shows "b_spec 1 (caches B C ns workspace) (served B C ns workspace) (GetWorkspaceResourceUsage B C ns workspace) \<and>
    (usage_cache_key ns workspace pod = usage_cache_key ns' workspace' pod' \<longleftrightarrow>
       ns = ns' \<and> workspace = workspace' \<and> om_UID (pod_Meta pod) = om_UID (pod_Meta pod'))"
proof (rule conjI [OF b_spec_GetWorkspaceResourceUsage])
  show "usage_cache_key ns workspace pod = usage_cache_key ns' workspace' pod' \<longleftrightarrow>
      ns = ns' \<and> workspace = workspace' \<and> om_UID (pod_Meta pod) = om_UID (pod_Meta pod')"
    using usage_cache_key_inj [of ns workspace pod ns' workspace' pod'] assms by (auto simp: usage_cache_key_def)
qed

theorem usage_cache_exact_witness:
  "b_spec 1 (caches sample_lib (sample_backend sample_workspace sample_kind []) ''team'' ''notebook'')
     (served sample_lib (sample_backend sample_workspace sample_kind []) ''team'' ''notebook'')
     (GetWorkspaceResourceUsage sample_lib (sample_backend sample_workspace sample_kind []) ''team'' ''notebook'') \<and>
   (\<forall>pod. usage_cache_key ''team'' ''notebook'' pod \<noteq> usage_cache_key ''team'' ''other'' pod)"
proof -
  have "\<forall>n \<in> {''team'', ''team'', ''notebook'', ''other''}. CHR ''/'' \<notin> set n"
    by simp
  from usage_cache_exact [OF this, of sample_lib "sample_backend sample_workspace sample_kind []"] show ?thesis
    by simp
qed

end
