(* ===== verification/Pod_Handlers.thy ===== *)
theory Pod_Handlers
  imports Storage_Handlers Pod_Logs Metrics Generate Workspace_State
begin

text \<open>
  The handlers of the Pod of a Workspace, \<open>api/workspace_podtemplate_logs_handler.go\<close> and
  \<open>api/workspace_podtemplate_resources_handler.go\<close>; and what the handlers of all resources share: every
  request is answered, nothing is done without permission, and the Pod that the backend looks for is the
  Pod that the controller makes.
\<close>

section \<open>Handlers\<close>

text \<open>A log response is the text of the stream; a stream that breaks off is only logged.\<close>

definition open_log_error :: "'s app \<Rightarrow> backend_error \<Rightarrow> HTTPError" where
  "open_log_error app err =
     (if errors_Is ErrWorkspaceNotFound err then notFoundResponse
      else if errors_Is ErrPreviousLogsNotFound err then badRequestResponse (be_Error (app_Lib app) err)
      else if errors_Is ErrWorkspacePodNotRunning err then badRequestResponse (be_Error (app_Lib app) err)
      else if errors_Is ErrContainerNotFound err then badRequestResponse (be_Error (app_Lib app) err)
      else if errors_Is ErrContainerNotRunning err then badRequestResponse (be_Error (app_Lib app) err)
      else serverErrorResponse)"

definition GetWorkspacePodTemplateLogsHandler :: "'s app \<Rightarrow> 'b http_request \<Rightarrow> ('s, string http_response) bact" where
  "GetWorkspacePodTemplateLogsHandler app r =
     (let namespace = hq_Namespace r; workspaceName = hq_Name r
      in when_valid app errMsgPathParamsInvalid
           (ValidateKubernetesNamespaceName (app_Lib app) NamespacePathParam namespace @
            ValidateWorkspaceName (app_Lib app) ResourceNamePathParam workspaceName)
           (let (opts, valErrs) = parseLogOptions (app_Lib app) (hq_Query r)
            in when_valid app errMsgQueryParamsInvalid valErrs
                 (with_auth app r [NewResourcePolicy VerbGet Workspaces namespace workspaceName] (\<lambda>_.
                    with_result (OpenLogStream (app_Client app) namespace workspaceName opts) (open_log_error app)
                      DataResponse))))"

definition resource_usage_error :: "'s app \<Rightarrow> backend_error \<Rightarrow> HTTPError" where
  "resource_usage_error app err =
     (if errors_Is ErrWorkspaceNotFound err then notFoundResponse
      else if errors_Is ErrWorkspacePodNotRunning err then badRequestResponse (be_Error (app_Lib app) err)
      else serverErrorResponse)"

definition GetWorkspacePodTemplateResourcesHandler ::
  "'s app \<Rightarrow> 'b http_request \<Rightarrow> ('s, WorkspaceResourceUsage option http_response) bact" where
  "GetWorkspacePodTemplateResourcesHandler app r =
     (let namespace = hq_Namespace r; workspaceName = hq_Name r
      in when_valid app errMsgPathParamsInvalid
           (ValidateKubernetesNamespaceName (app_Lib app) NamespacePathParam namespace @
            ValidateWorkspaceName (app_Lib app) ResourceNamePathParam workspaceName)
           (with_auth app r [NewResourcePolicy VerbGet Workspaces namespace workspaceName] (\<lambda>_.
              with_result (GetWorkspaceResourceUsage (app_Lib app) (app_Client app) namespace workspaceName)
                (resource_usage_error app) DataResponse)))"

section \<open>Lemmas\<close>

lemma pod_error_statuses [status_intros]:
  "{400, 404, 500} \<subseteq> S \<Longrightarrow> he_StatusCode (open_log_error app err) \<in> S"
  "{400, 404, 500} \<subseteq> S \<Longrightarrow> he_StatusCode (resource_usage_error app err) \<in> S"
  by (simp_all add: open_log_error_def resource_usage_error_def)

lemma pod_handler_statuses:
  "statuses_in {200, 400, 401, 403, 404, 422, 500} (GetWorkspacePodTemplateLogsHandler app r)"
  "statuses_in {200, 400, 401, 403, 404, 422, 500} (GetWorkspacePodTemplateResourcesHandler app r)"
  unfolding GetWorkspacePodTemplateLogsHandler_def GetWorkspacePodTemplateResourcesHandler_def Let_def case_prod_unfold
  by (intro status_intros; simp)+

section \<open>Properties\<close>

text \<open>
  Every request for a kind, an asset, the options of a kind, a Secret, a volume claim, a storage class,
  a namespace, the logs or the resources of a Workspace is answered, whatever the cluster, the
  authenticator and the authorizer do; and the status is one of those the API documents for the operation.
  (An update of a Secret documents 409 as well, but never answers it.)
\<close>

theorem resource_handlers_answer:
  "(\<exists>resp s'. recoverPanic (GetWorkspaceKindHandler app r) s = (BOk resp, s') \<and>
      status_code resp \<in> {200, 401, 403, 404, 422, 500}) \<and>
   (\<exists>resp s'. recoverPanic (GetWorkspaceKindsHandler app r) s = (BOk resp, s') \<and>
      status_code resp \<in> {200, 401, 403, 422, 500}) \<and>
   (\<exists>resp s'. recoverPanic (PodTemplateOptionsListValuesHandler app rl) s = (BOk resp, s') \<and>
      status_code resp \<in> {200, 400, 401, 403, 404, 413, 415, 422, 500}) \<and>
   (\<exists>resp s'. recoverPanic (GetWorkspaceKindIconHandler app r) s = (BOk resp, s') \<and>
      status_code resp \<in> {200, 401, 403, 404, 422, 500}) \<and>
   (\<exists>resp s'. recoverPanic (GetWorkspaceKindLogoHandler app r) s = (BOk resp, s') \<and>
      status_code resp \<in> {200, 401, 403, 404, 422, 500}) \<and>
   (\<exists>resp s'. recoverPanic (CreateWorkspaceKindHandler app r yaml) s = (BOk resp, s') \<and>
      status_code resp \<in> {201, 400, 401, 403, 409, 413, 415, 422, 500}) \<and>
   (\<exists>resp s'. recoverPanic (UpdateWorkspaceKindHandler app rk) s = (BOk resp, s') \<and>
      status_code resp \<in> {200, 400, 401, 403, 404, 409, 413, 415, 422, 500}) \<and>
   (\<exists>resp s'. recoverPanic (DeleteWorkspaceKindHandler app r) s = (BOk resp, s') \<and>
      status_code resp \<in> {204, 401, 403, 404, 409, 422, 500}) \<and>
   (\<exists>resp s'. recoverPanic (GetSecretsByNamespaceHandler app r) s = (BOk resp, s') \<and>
      status_code resp \<in> {200, 401, 403, 422, 500}) \<and>
   (\<exists>resp s'. recoverPanic (GetSecretHandler app r) s = (BOk resp, s') \<and>
      status_code resp \<in> {200, 401, 403, 404, 422, 500}) \<and>
   (\<exists>resp s'. recoverPanic (CreateSecretHandler app rc) s = (BOk resp, s') \<and>
      status_code resp \<in> {201, 400, 401, 403, 409, 413, 415, 422, 500}) \<and>
   (\<exists>resp s'. recoverPanic (UpdateSecretHandler app ru) s = (BOk resp, s') \<and>
      status_code resp \<in> {200, 400, 401, 403, 404, 413, 415, 422, 500}) \<and>
   (\<exists>resp s'. recoverPanic (DeleteSecretHandler app r) s = (BOk resp, s') \<and>
      status_code resp \<in> {204, 401, 403, 404, 409, 422, 500}) \<and>
   (\<exists>resp s'. recoverPanic (GetPVCsByNamespaceHandler app r) s = (BOk resp, s') \<and>
      status_code resp \<in> {200, 401, 403, 422, 500}) \<and>
   (\<exists>resp s'. recoverPanic (CreatePVCHandler app rp) s = (BOk resp, s') \<and>
      status_code resp \<in> {201, 400, 401, 403, 409, 413, 415, 422, 500}) \<and>
   (\<exists>resp s'. recoverPanic (DeletePVCHandler app r) s = (BOk resp, s') \<and>
      status_code resp \<in> {204, 401, 403, 404, 409, 422, 500}) \<and>
   (\<exists>resp s'. recoverPanic (GetStorageClassesHandler app r) s = (BOk resp, s') \<and>
      status_code resp \<in> {200, 401, 403, 422, 500}) \<and>
   (\<exists>resp s'. recoverPanic (GetNamespacesHandler app r) s = (BOk resp, s') \<and>
      status_code resp \<in> {200, 401, 403, 500}) \<and>
   (\<exists>resp s'. recoverPanic (GetWorkspacePodTemplateLogsHandler app r) s = (BOk resp, s') \<and>
      status_code resp \<in> {200, 400, 401, 403, 404, 422, 500}) \<and>
   (\<exists>resp s'. recoverPanic (GetWorkspacePodTemplateResourcesHandler app r) s = (BOk resp, s') \<and>
      status_code resp \<in> {200, 400, 401, 403, 404, 422, 500})"
  unfolding GetWorkspaceKindIconHandler_def GetWorkspaceKindLogoHandler_def
  by (intro conjI; rule statuses_in_recover,
      rule kind_handler_statuses asset_handler_statuses CreateWorkspaceKindHandler_statuses storage_handler_statuses
        pod_handler_statuses; simp)

lemma GetWorkspaceKindHandler_authorized:
  "b_spec 0 P (on_success (\<exists>u. authorized app r VerbGet WorkspaceKinds [] (hq_Name r) u)) (GetWorkspaceKindHandler app r)"
  unfolding GetWorkspaceKindHandler_def Let_def
  by (intro handler_intros, rule b_spec_read_only, rule b_pure_kind_reads) blast

lemma GetWorkspaceKindsHandler_authorized:
  "b_spec 0 P (on_success (\<exists>u. if map_get (hq_Query r) ''namespaceFilter'' \<noteq> []
         then authorized app r VerbCreate Workspaces (map_get (hq_Query r) ''namespaceFilter'') [] u
         else authorized app r VerbList WorkspaceKinds [] [] u))
     (GetWorkspaceKindsHandler app r)"
  unfolding GetWorkspaceKindsHandler_def Let_def NamespaceFilterQueryParam_def
  by (intro handler_intros, rule b_spec_read_only, rule b_pure_kind_reads) blast

lemma PodTemplateOptionsListValuesHandler_authorized:
  "b_spec 0 P (on_success (\<exists>req u. hq_Body rl = JsonValue (Some req) \<and>
         (case lvc_Namespace (lvr_Context req) of
            Some ns \<Rightarrow> if ns \<noteq> [] then authorized app rl VerbCreate Workspaces ns [] u
              else authorized app rl VerbGet WorkspaceKinds [] (hq_Name rl) u
          | None \<Rightarrow> authorized app rl VerbGet WorkspaceKinds [] (hq_Name rl) u)))
     (PodTemplateOptionsListValuesHandler app rl)"
  unfolding PodTemplateOptionsListValuesHandler_def Let_def
  by (intro handler_intros, rule b_spec_read_only, rule b_pure_kind_reads)
      (intro exI conjI, assumption, auto split: option.splits if_splits)

lemma getWorkspaceKindAssetHandler_authorized:
  "b_spec 0 P
     (on_success (\<exists>u. if map_get (hq_Query r) ''namespace'' \<noteq> []
          then authorized app r VerbList Workspaces (map_get (hq_Query r) ''namespace'') [] u
          else authorized app r VerbGet WorkspaceKinds [] (hq_Name r) u))
     (getWorkspaceKindAssetHandler app r assetType)"
  unfolding getWorkspaceKindAssetHandler_def Let_def NamespaceQueryParam_def
  by (intro handler_intros, rule b_spec_read_only, rule b_pure_asset_reads) blast

lemma CreateWorkspaceKindHandler_authorized:
  "b_spec 1 (\<lambda>c. \<exists>apiVersion kind wk u. yaml = YamlValue apiVersion kind wk \<and>
       authorized app r VerbCreate WorkspaceKinds [] (wk_Name wk) u \<and>
       c = BCreateWorkspaceKind (wk\<lparr>wk_Meta := UpdateObjectMetaForCreate (wk_Meta wk) (Some (ui_Name u))\<rparr>))
     (on_success (\<exists>apiVersion kind wk u. yaml = YamlValue apiVersion kind wk \<and>
        authorized app r VerbCreate WorkspaceKinds [] (wk_Name wk) u))
     (CreateWorkspaceKindHandler app r yaml)"
  proof (cases "decode_yaml_kind app r yaml")
    case (Inl e)
    then show ?thesis
      by (simp add: CreateWorkspaceKindHandler_def b_spec_return)
  next
    case (Inr wk)
    with decode_yaml_Inr [OF Inr] show ?thesis
      unfolding CreateWorkspaceKindHandler_def Inr sum.case
      by (intro handler_intros, intro b_spec_weaken [OF b_spec_CreateWorkspaceKind]) blast+
  qed

lemma UpdateWorkspaceKindHandler_authorized:
  "b_spec 1 (\<lambda>c. \<exists>update u. hq_Body rk = JsonValue (Some update) \<and>
       authorized app rk VerbUpdate WorkspaceKinds [] (hq_Name rk) u \<and>
       writes_as BUpdateWorkspaceKind
         (updates_kind (app_Lib app) (app_Client app) (Some (ui_Name u)) update (hq_Name rk)) c)
     (on_success (\<exists>u. authorized app rk VerbUpdate WorkspaceKinds [] (hq_Name rk) u))
     (UpdateWorkspaceKindHandler app rk)"
  unfolding UpdateWorkspaceKindHandler_def Let_def
  by (intro handler_intros, rule b_spec_weaken [OF b_spec_UpdateWorkspaceKind]) blast+

lemma DeleteWorkspaceKindHandler_authorized:
  "b_spec 1 (\<lambda>c. c = BDeleteWorkspaceKind (hq_Name r) \<and>
       (\<exists>u. authorized app r VerbDelete WorkspaceKinds [] (hq_Name r) u))
     (on_success (\<exists>u. authorized app r VerbDelete WorkspaceKinds [] (hq_Name r) u))
     (DeleteWorkspaceKindHandler app r)"
  unfolding DeleteWorkspaceKindHandler_def Let_def
  by (intro handler_intros, rule b_spec_weaken [OF b_spec_DeleteWorkspaceKind]) blast+

lemma wskAssetResponse_protected:
  "case wskAssetResponse content mediaType of
      DataResponse a \<Rightarrow> mediaType = ''image/svg+xml'' \<and> asr_Content a = content \<and>
        map_of (asr_Headers a) ''Content-Type'' = Some ''image/svg+xml'' \<and>
        map_of (asr_Headers a) ''X-Content-Type-Options'' = Some ''nosniff'' \<and>
        (\<exists>policy. map_of (asr_Headers a) ''Content-Security-Policy'' = Some policy \<and>
           (\<exists>prefix. policy = prefix @ ''; sandbox'')) \<and>
        (\<exists>name. map_of (asr_Headers a) ''Content-Disposition'' = Some (''attachment; '' @ name))
    | resp \<Rightarrow> resp = ErrorResponse serverErrorResponse"
  by (simp add: wskAssetResponse_def WriteSVG_def WorkspaceKindAssetMediaTypeSVG_def MediaTypeSVG_def Let_def)

text \<open>
  C20. Nobody reads or changes a kind or an asset without permission: a read writes nothing and answers with
  data only to an authenticated user whom the authorizer allowed it (to get or list kinds, or to create or
  list Workspaces in the namespace that the request names); a write operation issues at most one write, for
  a user whom the authorizer allowed that verb on that kind, and it is the write the request asks for, with
  that user in the audit annotations. And an asset is served with headers that keep a browser from running
  scripts in it.
\<close>

theorem kind_handlers_authorized:
  "b_spec 0 P (on_success (\<exists>u. authorized app r VerbGet WorkspaceKinds [] (hq_Name r) u)) (GetWorkspaceKindHandler app r) \<and>
   b_spec 0 P (on_success (\<exists>u. if map_get (hq_Query r) ''namespaceFilter'' \<noteq> []
         then authorized app r VerbCreate Workspaces (map_get (hq_Query r) ''namespaceFilter'') [] u
         else authorized app r VerbList WorkspaceKinds [] [] u))
     (GetWorkspaceKindsHandler app r) \<and>
   b_spec 0 P (on_success (\<exists>req u. hq_Body rl = JsonValue (Some req) \<and>
         (case lvc_Namespace (lvr_Context req) of
            Some ns \<Rightarrow> if ns \<noteq> [] then authorized app rl VerbCreate Workspaces ns [] u
              else authorized app rl VerbGet WorkspaceKinds [] (hq_Name rl) u
          | None \<Rightarrow> authorized app rl VerbGet WorkspaceKinds [] (hq_Name rl) u)))
     (PodTemplateOptionsListValuesHandler app rl) \<and>
   b_spec 0 P
     (on_success (\<exists>u. if map_get (hq_Query r) ''namespace'' \<noteq> []
          then authorized app r VerbList Workspaces (map_get (hq_Query r) ''namespace'') [] u
          else authorized app r VerbGet WorkspaceKinds [] (hq_Name r) u))
     (getWorkspaceKindAssetHandler app r assetType) \<and>
   b_spec 1 (\<lambda>c. \<exists>apiVersion kind wk u. yaml = YamlValue apiVersion kind wk \<and>
       authorized app r VerbCreate WorkspaceKinds [] (wk_Name wk) u \<and>
       c = BCreateWorkspaceKind (wk\<lparr>wk_Meta := UpdateObjectMetaForCreate (wk_Meta wk) (Some (ui_Name u))\<rparr>))
     (on_success (\<exists>apiVersion kind wk u. yaml = YamlValue apiVersion kind wk \<and>
        authorized app r VerbCreate WorkspaceKinds [] (wk_Name wk) u))
     (CreateWorkspaceKindHandler app r yaml) \<and>
   b_spec 1 (\<lambda>c. \<exists>update u. hq_Body rk = JsonValue (Some update) \<and>
       authorized app rk VerbUpdate WorkspaceKinds [] (hq_Name rk) u \<and>
       writes_as BUpdateWorkspaceKind
         (updates_kind (app_Lib app) (app_Client app) (Some (ui_Name u)) update (hq_Name rk)) c)
     (on_success (\<exists>u. authorized app rk VerbUpdate WorkspaceKinds [] (hq_Name rk) u))
     (UpdateWorkspaceKindHandler app rk) \<and>
   b_spec 1 (\<lambda>c. c = BDeleteWorkspaceKind (hq_Name r) \<and>
       (\<exists>u. authorized app r VerbDelete WorkspaceKinds [] (hq_Name r) u))
     (on_success (\<exists>u. authorized app r VerbDelete WorkspaceKinds [] (hq_Name r) u))
     (DeleteWorkspaceKindHandler app r) \<and>
   (case wskAssetResponse content mediaType of
      DataResponse a \<Rightarrow> mediaType = ''image/svg+xml'' \<and> asr_Content a = content \<and>
        map_of (asr_Headers a) ''Content-Type'' = Some ''image/svg+xml'' \<and>
        map_of (asr_Headers a) ''X-Content-Type-Options'' = Some ''nosniff'' \<and>
        (\<exists>policy. map_of (asr_Headers a) ''Content-Security-Policy'' = Some policy \<and>
           (\<exists>prefix. policy = prefix @ ''; sandbox'')) \<and>
        (\<exists>name. map_of (asr_Headers a) ''Content-Disposition'' = Some (''attachment; '' @ name))
    | resp \<Rightarrow> resp = ErrorResponse serverErrorResponse)"
  by (intro conjI GetWorkspaceKindHandler_authorized GetWorkspaceKindsHandler_authorized
      PodTemplateOptionsListValuesHandler_authorized getWorkspaceKindAssetHandler_authorized
      CreateWorkspaceKindHandler_authorized UpdateWorkspaceKindHandler_authorized
      DeleteWorkspaceKindHandler_authorized wskAssetResponse_protected)

lemma GetSecretsByNamespaceHandler_authorized:
  "b_spec 0 P (on_success (\<exists>u. authorized app r VerbList Secrets (hq_Namespace r) [] u)) (GetSecretsByNamespaceHandler app r)"
  unfolding GetSecretsByNamespaceHandler_def Let_def
  by (intro handler_intros, rule b_spec_read_only, rule b_pure_storage_reads) blast

lemma GetSecretHandler_authorized:
  "b_spec 0 P (on_success (\<exists>u. authorized app r VerbGet Secrets (hq_Namespace r) (hq_Name r) u)) (GetSecretHandler app r)"
  unfolding GetSecretHandler_def Let_def
  by (intro handler_intros, rule b_spec_read_only, rule b_pure_storage_reads) blast

lemma CreateSecretHandler_authorized:
  "b_spec 1 (\<lambda>c. \<exists>create u. hq_Body rc = JsonValue (Some create) \<and>
       authorized app rc VerbCreate Secrets (hq_Namespace rc) (scr_Name create) u \<and>
       writes_as BCreateSecret (creates_secret (Some (ui_Name u)) create (hq_Namespace rc)) c)
     (on_success (\<exists>create u. hq_Body rc = JsonValue (Some create) \<and>
        authorized app rc VerbCreate Secrets (hq_Namespace rc) (scr_Name create) u))
     (CreateSecretHandler app rc)"
  unfolding CreateSecretHandler_def Let_def
  by (intro handler_intros, rule b_spec_weaken [OF b_spec_CreateSecret]) blast+

lemma UpdateSecretHandler_authorized:
  "b_spec 1 (\<lambda>c. \<exists>u. authorized app ru VerbUpdate Secrets (hq_Namespace ru) (hq_Name ru) u \<and>
       writes_as BUpdateSecret
         (updates_secret_meta (app_Lib app) (app_Client app) (Some (ui_Name u)) (hq_Namespace ru) (hq_Name ru)) c)
     (on_success (\<exists>u. authorized app ru VerbUpdate Secrets (hq_Namespace ru) (hq_Name ru) u))
     (UpdateSecretHandler app ru)"
  unfolding UpdateSecretHandler_def Let_def
  by (intro handler_intros, rule b_spec_weaken [OF b_spec_UpdateSecret_meta]) blast+

lemma DeleteSecretHandler_authorized:
  "b_spec 1 (\<lambda>c. \<exists>sec u. answered (b_GetSecret (app_Client app) (hq_Namespace r) (hq_Name r)) sec \<and> can_update (sec_Meta sec) \<and>
       c = BDeleteSecret (om_Namespace (sec_Meta sec)) (om_Name (sec_Meta sec)) \<and>
       authorized app r VerbDelete Secrets (hq_Namespace r) (hq_Name r) u)
     (on_success (\<exists>u. authorized app r VerbDelete Secrets (hq_Namespace r) (hq_Name r) u))
     (DeleteSecretHandler app r)"
  unfolding DeleteSecretHandler_def Let_def
  by (intro handler_intros, rule b_spec_weaken [OF b_spec_DeleteSecret]) blast+

lemma GetPVCsByNamespaceHandler_authorized:
  "b_spec 0 P (on_success (\<exists>u. authorized app r VerbList PersistentVolumeClaims (hq_Namespace r) [] u))
     (GetPVCsByNamespaceHandler app r)"
  unfolding GetPVCsByNamespaceHandler_def Let_def
  by (intro handler_intros, rule b_spec_read_only, rule b_pure_GetPVCs) blast

lemma CreatePVCHandler_authorized:
  "b_spec 1 (\<lambda>c. \<exists>create u. hq_Body rp = JsonValue (Some create) \<and>
       authorized app rp VerbCreate PersistentVolumeClaims (hq_Namespace rp) (pcr_Name create) u \<and>
       writes_as BCreatePVC (creates_pvc (app_Lib app) (app_Client app) (Some (ui_Name u)) create (hq_Namespace rp)) c)
     (on_success (\<exists>create u. hq_Body rp = JsonValue (Some create) \<and>
        authorized app rp VerbCreate PersistentVolumeClaims (hq_Namespace rp) (pcr_Name create) u))
     (CreatePVCHandler app rp)"
  unfolding CreatePVCHandler_def Let_def
  by (intro handler_intros, rule b_spec_weaken [OF b_spec_CreatePVC]) blast+

lemma DeletePVCHandler_authorized:
  "b_spec 1 (\<lambda>c. \<exists>pvc u. answered (b_GetPVC (app_Client app) (hq_Namespace r) (hq_Name r)) pvc \<and> can_update (pvc_Meta pvc) \<and>
       c = BDeletePVC (om_Namespace (pvc_Meta pvc)) (om_Name (pvc_Meta pvc)) \<and>
       authorized app r VerbDelete PersistentVolumeClaims (hq_Namespace r) (hq_Name r) u)
     (on_success (\<exists>u. authorized app r VerbDelete PersistentVolumeClaims (hq_Namespace r) (hq_Name r) u))
     (DeletePVCHandler app r)"
  unfolding DeletePVCHandler_def Let_def
  by (intro handler_intros, rule b_spec_weaken [OF b_spec_DeletePVC]) blast+

lemma GetStorageClassesHandler_authorized:
  "b_spec 0 P (on_success (\<exists>u. if map_get (hq_Query r) ''namespace'' \<noteq> []
         then authorized app r VerbCreate PersistentVolumeClaims (map_get (hq_Query r) ''namespace'') [] u
         else authorized app r VerbList StorageClasses [] [] u))
     (GetStorageClassesHandler app r)"
  unfolding GetStorageClassesHandler_def Let_def NamespaceQueryParam_def
  by (intro handler_intros, rule b_spec_read_only, rule b_pure_storage_reads) blast

lemma GetNamespacesHandler_authorized:
  "b_spec 0 P (on_success (\<exists>u. authorized app r VerbList Namespaces [] [] u)) (GetNamespacesHandler app r)"
  unfolding GetNamespacesHandler_def Let_def
  by (intro handler_intros, rule b_spec_read_only, rule b_pure_storage_reads) blast

lemma GetWorkspacePodTemplateLogsHandler_authorized:
  "b_spec 0 P (on_success (\<exists>u. authorized app r VerbGet Workspaces (hq_Namespace r) (hq_Name r) u))
     (GetWorkspacePodTemplateLogsHandler app r)"
  unfolding GetWorkspacePodTemplateLogsHandler_def Let_def case_prod_unfold
  by (intro handler_intros, rule b_spec_OpenLogStream) blast

lemma GetWorkspacePodTemplateResourcesHandler_authorized:
  "b_spec 1 (\<lambda>c. caches (app_Lib app) (app_Client app) (hq_Namespace r) (hq_Name r) c \<and>
       (\<exists>u. authorized app r VerbGet Workspaces (hq_Namespace r) (hq_Name r) u))
     (on_success (\<exists>u. authorized app r VerbGet Workspaces (hq_Namespace r) (hq_Name r) u))
     (GetWorkspacePodTemplateResourcesHandler app r)"
  unfolding GetWorkspacePodTemplateResourcesHandler_def Let_def
  by (intro handler_intros, rule b_spec_weaken [OF b_spec_GetWorkspaceResourceUsage]) blast+

text \<open>
  C21. Nobody reads or changes a Secret, a volume claim, a storage class, a namespace, or the logs and the
  usage of a Workspace without permission: answers with data go to an authenticated user whom the
  authorizer allowed it; each write operation issues at most one write, for a user whom the authorizer
  allowed that verb on that object, under the guards of the repository (the label that allows changes, the
  label of the storage class); and the two reads of the Pod write nothing to the cluster but entries of
  the usage cache.
\<close>

theorem storage_handlers_authorized:
  "b_spec 0 P (on_success (\<exists>u. authorized app r VerbList Secrets (hq_Namespace r) [] u)) (GetSecretsByNamespaceHandler app r) \<and>
   b_spec 0 P (on_success (\<exists>u. authorized app r VerbGet Secrets (hq_Namespace r) (hq_Name r) u)) (GetSecretHandler app r) \<and>
   b_spec 1 (\<lambda>c. \<exists>create u. hq_Body rc = JsonValue (Some create) \<and>
       authorized app rc VerbCreate Secrets (hq_Namespace rc) (scr_Name create) u \<and>
       writes_as BCreateSecret (creates_secret (Some (ui_Name u)) create (hq_Namespace rc)) c)
     (on_success (\<exists>create u. hq_Body rc = JsonValue (Some create) \<and>
        authorized app rc VerbCreate Secrets (hq_Namespace rc) (scr_Name create) u))
     (CreateSecretHandler app rc) \<and>
   b_spec 1 (\<lambda>c. \<exists>u. authorized app ru VerbUpdate Secrets (hq_Namespace ru) (hq_Name ru) u \<and>
       writes_as BUpdateSecret
         (updates_secret_meta (app_Lib app) (app_Client app) (Some (ui_Name u)) (hq_Namespace ru) (hq_Name ru)) c)
     (on_success (\<exists>u. authorized app ru VerbUpdate Secrets (hq_Namespace ru) (hq_Name ru) u))
     (UpdateSecretHandler app ru) \<and>
   b_spec 1 (\<lambda>c. \<exists>sec u. answered (b_GetSecret (app_Client app) (hq_Namespace r) (hq_Name r)) sec \<and> can_update (sec_Meta sec) \<and>
       c = BDeleteSecret (om_Namespace (sec_Meta sec)) (om_Name (sec_Meta sec)) \<and>
       authorized app r VerbDelete Secrets (hq_Namespace r) (hq_Name r) u)
     (on_success (\<exists>u. authorized app r VerbDelete Secrets (hq_Namespace r) (hq_Name r) u))
     (DeleteSecretHandler app r) \<and>
   b_spec 0 P (on_success (\<exists>u. authorized app r VerbList PersistentVolumeClaims (hq_Namespace r) [] u))
     (GetPVCsByNamespaceHandler app r) \<and>
   b_spec 1 (\<lambda>c. \<exists>create u. hq_Body rp = JsonValue (Some create) \<and>
       authorized app rp VerbCreate PersistentVolumeClaims (hq_Namespace rp) (pcr_Name create) u \<and>
       writes_as BCreatePVC (creates_pvc (app_Lib app) (app_Client app) (Some (ui_Name u)) create (hq_Namespace rp)) c)
     (on_success (\<exists>create u. hq_Body rp = JsonValue (Some create) \<and>
        authorized app rp VerbCreate PersistentVolumeClaims (hq_Namespace rp) (pcr_Name create) u))
     (CreatePVCHandler app rp) \<and>
   b_spec 1 (\<lambda>c. \<exists>pvc u. answered (b_GetPVC (app_Client app) (hq_Namespace r) (hq_Name r)) pvc \<and> can_update (pvc_Meta pvc) \<and>
       c = BDeletePVC (om_Namespace (pvc_Meta pvc)) (om_Name (pvc_Meta pvc)) \<and>
       authorized app r VerbDelete PersistentVolumeClaims (hq_Namespace r) (hq_Name r) u)
     (on_success (\<exists>u. authorized app r VerbDelete PersistentVolumeClaims (hq_Namespace r) (hq_Name r) u))
     (DeletePVCHandler app r) \<and>
   b_spec 0 P (on_success (\<exists>u. if map_get (hq_Query r) ''namespace'' \<noteq> []
         then authorized app r VerbCreate PersistentVolumeClaims (map_get (hq_Query r) ''namespace'') [] u
         else authorized app r VerbList StorageClasses [] [] u))
     (GetStorageClassesHandler app r) \<and>
   b_spec 0 P (on_success (\<exists>u. authorized app r VerbList Namespaces [] [] u)) (GetNamespacesHandler app r) \<and>
   b_spec 0 P (on_success (\<exists>u. authorized app r VerbGet Workspaces (hq_Namespace r) (hq_Name r) u))
     (GetWorkspacePodTemplateLogsHandler app r) \<and>
   b_spec 1 (\<lambda>c. caches (app_Lib app) (app_Client app) (hq_Namespace r) (hq_Name r) c \<and>
       (\<exists>u. authorized app r VerbGet Workspaces (hq_Namespace r) (hq_Name r) u))
     (on_success (\<exists>u. authorized app r VerbGet Workspaces (hq_Namespace r) (hq_Name r) u))
     (GetWorkspacePodTemplateResourcesHandler app r)"
  by (intro conjI GetSecretsByNamespaceHandler_authorized GetSecretHandler_authorized CreateSecretHandler_authorized
      UpdateSecretHandler_authorized DeleteSecretHandler_authorized GetPVCsByNamespaceHandler_authorized
      CreatePVCHandler_authorized DeletePVCHandler_authorized GetStorageClassesHandler_authorized
      GetNamespacesHandler_authorized GetWorkspacePodTemplateLogsHandler_authorized
      GetWorkspacePodTemplateResourcesHandler_authorized)

text \<open>
  C28. The logs that are served are those that were asked for, within bounds: if the query parameters are
  valid, whatever the cluster answers, a stream is opened only for a container that the status of the
  Workspace names (the one of the query, or else the primary one), of a live Pod that has logs of it (of
  the instance asked for); it is not followed, and bounded by a positive number of lines that fits an
  \<open>int64\<close> (the one of the query, or else 1000) and by 100 MiB.
\<close>

theorem log_request_safe:
  assumes "parseLogOptions B query = (opts, [])"
  shows "b_spec 0 P
    (\<lambda>stream. \<exists>podName req. log_request C ns name opts podName req \<and> answered (b_StreamLogs C ns podName req) stream \<and>
       plo_Container req = (if map_get query ''container'' = [] then ''main'' else map_get query ''container'') \<and>
       0 < plo_TailLines req \<and> is_int64 (plo_TailLines req) \<and>
       (if map_get query ''tailLines'' = [] then plo_TailLines req = 1000
        else ParseInt64 (map_get query ''tailLines'') = Some (plo_TailLines req)) \<and>
       plo_LimitBytes req \<le> 100 * 1024 * 1024)
    (OpenLogStream C ns name opts)"
proof (rule b_spec_mono [OF b_spec_OpenLogStream])
  fix stream
  assume "streams_logs C ns name opts stream"
  then obtain podName req where req: "log_request C ns name opts podName req" "answered (b_StreamLogs C ns podName req) stream"
    by (auto simp: streams_logs_def)
  note valid = parseLogOptions_valid [OF assms]
  have "map_get query ''tailLines'' \<noteq> [] \<Longrightarrow> lgo_TailLines opts > 0" and
    "map_get query ''tailLines'' = [] \<Longrightarrow> lgo_TailLines opts = 0"
    using assms by (auto simp: parseLogOptions_tail TailLinesQueryParam_def)
  moreover have "is_int64 1000"
    by (simp add: is_int64_def)
  ultimately show "\<exists>podName req. log_request C ns name opts podName req \<and> answered (b_StreamLogs C ns podName req) stream \<and>
       plo_Container req = (if map_get query ''container'' = [] then ''main'' else map_get query ''container'') \<and>
       0 < plo_TailLines req \<and> is_int64 (plo_TailLines req) \<and>
       (if map_get query ''tailLines'' = [] then plo_TailLines req = 1000
        else ParseInt64 (map_get query ''tailLines'') = Some (plo_TailLines req)) \<and>
       plo_LimitBytes req \<le> 100 * 1024 * 1024"
    using req valid unfolding ContainerQueryParam_def TailLinesQueryParam_def
    by (intro exI [of _ podName] exI [of _ req]) (auto simp: log_request_def split: if_splits)
qed simp

theorem log_request_safe_witness:
  "\<exists>opts. parseLogOptions sample_lib [(''tailLines'', ''20'')] = (opts, []) \<and> lgo_TailLines opts = 20 \<and>
     b_spec 0 (\<lambda>_. False)
       (\<lambda>stream. \<exists>podName req. answered (b_StreamLogs (sample_backend sample_workspace sample_kind []) ''team'' podName req) stream \<and>
          plo_Container req = ''main'' \<and> plo_TailLines req = 20)
       (OpenLogStream (sample_backend sample_workspace sample_kind []) ''team'' ''notebook'' opts)"
proof -
  let ?q = "[(''tailLines'', ''20'')]"
  have twenty: "ParseInt64 ''20'' = Some 20"
    by code_simp
  obtain opts where opts: "parseLogOptions sample_lib ?q = (opts, [])" "lgo_TailLines opts = 20"
    by (simp add: parseLogOptions_def ContainerQueryParam_def TailLinesQueryParam_def PreviousQueryParam_def
        SinceTimeQueryParam_def map_get_def ValidateFieldIsPositiveInt64_def twenty Let_def)
  have q: "map_get ?q ''container'' = []" "map_get ?q ''tailLines'' = ''20''"
    by (simp_all add: map_get_def)
  have "b_spec 0 (\<lambda>_. False)
       (\<lambda>stream. \<exists>podName req. answered (b_StreamLogs (sample_backend sample_workspace sample_kind []) ''team'' podName req) stream \<and>
          plo_Container req = ''main'' \<and> plo_TailLines req = 20)
       (OpenLogStream (sample_backend sample_workspace sample_kind []) ''team'' ''notebook'' opts)"
    by (rule b_spec_mono [OF log_request_safe [OF opts(1)]]) (auto simp: q twenty)
  with opts show ?thesis
    by blast
qed

section \<open>The Pods of the controller\<close>

lemma generateWorkspaceStatus_pod:
  "wps_Name (st_PodTemplatePod (fst (generateWorkspaceStatus listEvents now0 now1 w (Some pod) sts sa))) =
     om_Name (pod_Meta pod)"
  "wps_Containers (st_PodTemplatePod (fst (generateWorkspaceStatus listEvents now0 now1 w (Some pod) sts sa))) =
     map ct_Name (ps_Containers (pod_Spec pod))"
  by (simp_all add: generateWorkspaceStatus_def generateWorkspacePodStatus_def recordRunningTransition_def Let_def
      split: option.split sum.split prod.split)

lemma generateStatefulSet_pod:
  assumes "labels_Merge_spec K" and "generateStatefulSet K w wk ic pc sa = Some (Inr sts)"
  shows "map_of (pts_Labels (sts_Template (sts_Spec sts))) LabelWorkspaceName = Some (w_Name w)"
    and "\<exists>c. ps_Containers (pts_Spec (sts_Template (sts_Spec sts))) = [c] \<and> ct_Name c = primaryContainerName \<and>
      ct_Resources c = ptr_Deref (pcs_Resources pc) []"
proof -
  have "wf_map [(workspaceNameLabel, w_Name w), (workspaceSelectorLabel, w_Name w)]"
    by (simp add: workspaceNameLabel_def workspaceSelectorLabel_def)
  moreover have "wf_map (snd (copy_pod_metadata (wpt_PodMetadata (ws_PodTemplate (w_Spec w)))
    (copy_metadata (pcs_PodMetadata pc) (copy_metadata (kpt_PodMetadata (wk_PodTemplate wk)) ([], [])))))"
    by (intro wf_copy_metadata) simp
  ultimately show "map_of (pts_Labels (sts_Template (sts_Spec sts))) LabelWorkspaceName = Some (w_Name w)"
    using assms unfolding labels_Merge_spec_def
    by (auto simp: generateStatefulSet_def Let_def case_prod_beta LabelWorkspaceName_def workspaceNameLabel_def
        split: sum.splits option.splits)
  show "\<exists>c. ps_Containers (pts_Spec (sts_Template (sts_Spec sts))) = [c] \<and> ct_Name c = primaryContainerName \<and>
      ct_Resources c = ptr_Deref (pcs_Resources pc) []"
    using assms(2)
    by (auto simp: generateStatefulSet_def Let_def case_prod_beta primaryContainerName_def
        workspacePodTemplateContainerName_def split: sum.splits option.splits)
qed

text \<open>
  C14. The backend finds the Pod that the controller makes: a Pod of the StatefulSet that
  \<open>generateStatefulSet\<close> returns (with whatever labels and other containers were added to it) carries the
  label by which the backend lists the Pods of the Workspace; once the controller has written the status,
  a request for logs that names no container resolves to that Pod and its main container; and its usage
  shows the main container with the resources of the Pod configuration.
\<close>

theorem generated_pod_found:
  assumes "labels_Merge_spec K" and "generateStatefulSet K w wk ic pc sa = Some (Inr sts)"
    and labels: "\<And>k v. map_of (pts_Labels (sts_Template (sts_Spec sts))) k = Some v \<Longrightarrow> map_of (om_Labels (pod_Meta pod)) k = Some v"
    and containers: "ps_Containers (pod_Spec pod) = ps_Containers (pts_Spec (sts_Template (sts_Spec sts))) @ injected"
    and "''main'' \<notin> ct_Name ` set injected" and "om_Name (pod_Meta pod) \<noteq> []"
    and ws: "b_GetWorkspace C ns name (br_world s) = (Inr ws, w1)"
    and status: "w_Status ws = fst (generateWorkspaceStatus listEvents now0 now1 w0 (Some pod) sts' sa')"
    and live: "b_GetLivePod C ns (om_Name (pod_Meta pod)) w1 = (Inr livePod, w2)"
    and started: "find (\<lambda>cs. lcs_Name cs = ''main'') (lp_ContainerStatuses livePod) = Some cs" "\<not> lcs_Waiting cs"
    and opts: "lgo_Container opts = []" "\<not> lgo_Previous opts"
  shows "map_of (om_Labels (pod_Meta pod)) LabelWorkspaceName = Some (w_Name w) \<and>
    fst (resolvePodAndContainer C ns name opts s) = BOk (om_Name (pod_Meta pod), ''main'') \<and>
    (\<exists>u usage. NewWorkspaceResourceUsage (Some pod) (UsageForPod B sample) = Some u \<and>
       map_of (wru_Containers u) ''main'' = Some usage \<and> cru_Resources usage = ptr_Deref (pcs_Resources pc) [])"
proof (intro conjI)
  show "map_of (om_Labels (pod_Meta pod)) LabelWorkspaceName = Some (w_Name w)"
    by (rule labels, rule generateStatefulSet_pod [OF assms(1,2)])
  obtain c where c: "ps_Containers (pod_Spec pod) = c # injected" "ct_Name c = primaryContainerName"
    "ct_Resources c = ptr_Deref (pcs_Resources pc) []"
    using generateStatefulSet_pod(2) [OF assms(1,2)] containers by auto
  show "fst (resolvePodAndContainer C ns name opts s) = BOk (om_Name (pod_Meta pod), ''main'')"
    using ws live started opts assms(6) c(1,2)
    by (simp add: resolvePodAndContainer_def ensureLogsAvailable_def checkStatus_def status generateWorkspaceStatus_pod
        containerExists_def primaryContainerName_def b_bind_def b_map_error_def b_read_def b_return_def Let_def)
  obtain u where u: "NewWorkspaceResourceUsage (Some pod) (UsageForPod B sample) = Some u" "usage_of B pod sample u"
    using usage_of_New by blast
  have "find (\<lambda>c. ct_Name c = ''main'') (rev injected) = None"
    using assms(5) by (auto simp: find_None_iff image_iff)
  then have "find (\<lambda>c. ct_Name c = ''main'') (rev (ps_Containers (pod_Spec pod))) = Some c"
    using c(1,2) by (simp add: find_append primaryContainerName_def)
  with u c(3) show "\<exists>u usage. NewWorkspaceResourceUsage (Some pod) (UsageForPod B sample) = Some u \<and>
       map_of (wru_Containers u) ''main'' = Some usage \<and> cru_Resources usage = ptr_Deref (pcs_Resources pc) []"
    by (auto simp: usage_of_def)
qed

definition running_pod :: LivePod where
  "running_pod =
     \<lparr>lp_ContainerStatuses = [\<lparr>lcs_Name = ''main'', lcs_Waiting = False, lcs_LastTerminated = False\<rparr>],
      lp_InitContainerStatuses = []\<rparr>"

theorem generated_pod_found_witness:
  "\<exists>sts (pod :: Pod) ws. generateStatefulSet lib0 sample_workspace sample_kind sample_image_spec sample_pod_spec
       \<lparr>sa_Meta = ObjectMeta_zero, sa_Rest = []\<rparr> = Some (Inr sts) \<and>
     map_of (om_Labels (pod_Meta pod)) LabelWorkspaceName = Some (w_Name sample_workspace) \<and>
     fst (resolvePodAndContainer
        ((sample_backend ws sample_kind [])\<lparr>b_GetLivePod := (\<lambda>_ _ _. (Inr running_pod, ()))\<rparr>) ''team'' ''notebook''
        \<lparr>lgo_Container = [], lgo_TailLines = 0, lgo_Previous = False, lgo_SinceTime = None\<rparr> sample_brun) =
       BOk (''ws-notebook-0'', ''main'')"
proof -
  have "\<exists>sts. generateStatefulSet lib0 sample_workspace sample_kind sample_image_spec sample_pod_spec
      \<lparr>sa_Meta = ObjectMeta_zero, sa_Rest = []\<rparr> = Some (Inr sts)"
    by (simp add: generateStatefulSet_def generate_volumes_def generateContainerEnv_def sample_defs Let_def
        case_prod_beta)
  then obtain sts where sts: "generateStatefulSet lib0 sample_workspace sample_kind sample_image_spec sample_pod_spec
      \<lparr>sa_Meta = ObjectMeta_zero, sa_Rest = []\<rparr> = Some (Inr sts)"
    by blast
  define pod where "pod =
    \<lparr>pod_Meta = ObjectMeta_zero\<lparr>om_Name := ''ws-notebook-0'', om_Labels := pts_Labels (sts_Template (sts_Spec sts))\<rparr>,
     pod_Spec = pts_Spec (sts_Template (sts_Spec sts)), pod_Phase = ''Running'', pod_Conditions = [], pod_ContainerStatuses = []\<rparr>"
  define ws where "ws = sample_workspace
    \<lparr>w_Status := fst (generateWorkspaceStatus (\<lambda>_ _. Inr []) 0 0 sample_workspace (Some pod) None None)\<rparr>"
  let ?C = "(sample_backend ws sample_kind [])\<lparr>b_GetLivePod := (\<lambda>_ _ _. (Inr running_pod, ()))\<rparr>"
  let ?opts = "\<lparr>lgo_Container = [], lgo_TailLines = 0, lgo_Previous = False, lgo_SinceTime = None\<rparr>"
  have pod: "map_of (om_Labels (pod_Meta pod)) k = Some v" if "map_of (pts_Labels (sts_Template (sts_Spec sts))) k = Some v" for k v
    using that by (simp add: pod_def)
  have facts: "ps_Containers (pod_Spec pod) = ps_Containers (pts_Spec (sts_Template (sts_Spec sts))) @ []"
    "''main'' \<notin> ct_Name ` set []" "om_Name (pod_Meta pod) \<noteq> []"
    "b_GetWorkspace ?C ''team'' ''notebook'' (br_world sample_brun) = (Inr ws, ())"
    "w_Status ws = fst (generateWorkspaceStatus (\<lambda>_ _. Inr []) 0 0 sample_workspace (Some pod) None None)"
    "b_GetLivePod ?C ''team'' (om_Name (pod_Meta pod)) () = (Inr running_pod, ())"
    "find (\<lambda>cs. lcs_Name cs = ''main'') (lp_ContainerStatuses running_pod) =
       Some \<lparr>lcs_Name = ''main'', lcs_Waiting = False, lcs_LastTerminated = False\<rparr>"
    "\<not> lcs_Waiting \<lparr>lcs_Name = ''main'', lcs_Waiting = False, lcs_LastTerminated = False\<rparr>"
    "lgo_Container ?opts = []" "\<not> lgo_Previous ?opts"
    by (simp_all add: pod_def ws_def running_pod_def sample_backend_def)
  have name: "om_Name (pod_Meta pod) = ''ws-notebook-0''"
    by (simp add: pod_def)
  have "map_of (om_Labels (pod_Meta pod)) LabelWorkspaceName = Some (w_Name sample_workspace) \<and>
    fst (resolvePodAndContainer ?C ''team'' ''notebook'' ?opts sample_brun) = BOk (om_Name (pod_Meta pod), ''main'') \<and>
    (\<exists>u usage. NewWorkspaceResourceUsage (Some pod) (UsageForPod sample_lib None) = Some u \<and>
       map_of (wru_Containers u) ''main'' = Some usage \<and> cru_Resources usage = ptr_Deref (pcs_Resources sample_pod_spec) [])"
    by (rule generated_pod_found [OF lib0_labels_Merge sts _ facts]) (rule pod)
  then show ?thesis
    using sts unfolding name
    by blast
qed

end
