(* ===== verification/Swagger.thy ===== *)
theory Swagger
  imports Backend_Http
begin

text \<open>
  \<open>api/swagger_handler.go\<close>: the Swagger UI. The handler serves the OpenAPI definition itself, with the security
  scheme for the configured user id header put into it, and leaves every other path to the library, which answers with
  a status of its own (a page, a redirect to the index, not found). The generated
  definition, \<open>encoding/json\<close> and the pages of the library are parameters.
\<close>

section \<open>Documents\<close>

text \<open>What \<open>json.Unmarshal\<close> makes of a document in a value of type \<open>any\<close>; an object is a Go map.\<close>

datatype json =
    JNull
  | JBool bool
  | JNumber opaque
  | JString string
  | JArray "json list"
  | JObject "(string \<times> json) list"

record swagger_config =
  swc_URL :: string
  swc_DeepLinking :: bool
  swc_DocExpansion :: string
  swc_DomID :: string
  swc_PersistAuthorization :: bool
  swc_UIConfig :: str_map

text \<open>
  \<open>swag.ReadDoc\<close>, \<open>json.Unmarshal\<close> into a \<open>map[string]any\<close> (the document \<open>null\<close> leaves the map nil), \<open>json.Marshal\<close>,
  the status and the page with which \<open>http-swagger\<close> answers by configuration, path and request, and \<open>openapi.SwaggerInfo.BasePath\<close>.
\<close>

record swagger_lib =
  swl_ReadDoc :: "string + string"
  swl_Unmarshal :: "string \<Rightarrow> string + (string \<times> json) list option"
  swl_Marshal :: "json \<Rightarrow> string + string"
  swl_Page :: "swagger_config \<Rightarrow> string \<Rightarrow> unit http_request \<Rightarrow> int \<times> string"
  swl_BasePath :: string

definition swaggerDocPath :: string where
  "swaggerDocPath = PathPrefix @ ''/swagger/doc.json''"

definition userIdSecurityScheme :: string where
  "userIdSecurityScheme = ''UserIdHeader''"

definition defaultSwaggerUserId :: string where
  "defaultSwaggerUserId = ''admin''"

section \<open>The handler\<close>

datatype swagger_answer = SwaggerPage string | SwaggerDoc string

definition swagger_description :: "string \<Rightarrow> string" where
  "swagger_description useridHeader =
     ''The '' @ go_quote useridHeader @ '' header, which identifies the user making the request. '' @
     ''In production, this header is typically set by an authenticating proxy (e.g. oauth2-proxy). <br><br>'' @
     ''<b>Note:</b> The Swagger UI is pre-authorized as '' @ go_quote defaultSwaggerUserId @
     '' by default, click '' @ [CHR 0x22] @ ''Logout'' @ [CHR 0x22] @
     '' and enter another value to send the requests as a different user.''"

text \<open>The two assignments to the map of the document.\<close>

definition secured_spec :: "string \<Rightarrow> (string \<times> json) list \<Rightarrow> (string \<times> json) list" where
  "secured_spec useridHeader spec =
     (let spec = AList.update ''securityDefinitions''
            (JObject [(userIdSecurityScheme,
               JObject [(''type'', JString ''apiKey''), (''in'', JString ''header''), (''name'', JString useridHeader),
                        (''description'', JString (swagger_description useridHeader))])]) spec
      in AList.update ''security'' (JArray [JObject [(userIdSecurityScheme, JArray [])]]) spec)"

text \<open>Assigning to a nil map panics.\<close>

definition serveSwaggerDoc :: "'s app \<Rightarrow> swagger_lib \<Rightarrow> ('s, swagger_answer http_response) bact" where
  "serveSwaggerDoc app S =
     (case swl_ReadDoc S of
       Inl err \<Rightarrow> respond_error serverErrorResponse
     | Inr doc \<Rightarrow>
         (case swl_Unmarshal S doc of
           Inl err \<Rightarrow> respond_error serverErrorResponse
         | Inr None \<Rightarrow> b_panic
         | Inr (Some spec) \<Rightarrow>
             (case swl_Marshal S (JObject (secured_spec (bcfg_UserIdHeader (app_Config app)) spec)) of
               Inl err \<Rightarrow> respond_error serverErrorResponse
             | Inr out \<Rightarrow> b_return (DataResponse (SwaggerDoc out)))))"

definition swagger_ui :: "swagger_lib \<Rightarrow> swagger_config" where
  "swagger_ui S =
     \<lparr>swc_URL = swl_BasePath S @ ''/swagger/doc.json'', swc_DeepLinking = True, swc_DocExpansion = ''list'',
      swc_DomID = ''swagger-ui'', swc_PersistAuthorization = True,
      swc_UIConfig = [(''onComplete'',
        ''() => { window.ui.preauthorizeApiKey('' @ go_quote userIdSecurityScheme @ '', '' @ go_quote defaultSwaggerUserId @
        '') }'')]\<rparr>"

definition GetSwaggerHandler ::
  "'s app \<Rightarrow> swagger_lib \<Rightarrow> unit http_request \<Rightarrow> string \<Rightarrow> ('s, swagger_answer http_response) bact" where
  "GetSwaggerHandler app S r path =
     (if path = swaggerDocPath then serveSwaggerDoc app S
      else b_return (case swl_Page S (swagger_ui S) path r of (status, page) \<Rightarrow> LibraryResponse status (SwaggerPage page)))"

section \<open>Lemmas\<close>

text \<open>Only the two entries of the security of the document change.\<close>

lemma secured_spec_entries:
  "map_of (secured_spec hdr spec) key =
     (if key = ''security'' then Some (JArray [JObject [(''UserIdHeader'', JArray [])]])
      else if key = ''securityDefinitions''
      then Some (JObject [(''UserIdHeader'', JObject [(''type'', JString ''apiKey''), (''in'', JString ''header''),
        (''name'', JString hdr), (''description'', JString (swagger_description hdr))])])
      else map_of spec key)"
  by (simp add: secured_spec_def Let_def update_conv' userIdSecurityScheme_def)

lemma serveSwaggerDoc_cases:
  "serveSwaggerDoc app S s = (BOk (ErrorResponse serverErrorResponse), s) \<or> serveSwaggerDoc app S s = (BPanic, s) \<or>
   (\<exists>out. serveSwaggerDoc app S s = (BOk (DataResponse (SwaggerDoc out)), s))"
  by (auto simp: serveSwaggerDoc_def b_return_def b_panic_def split: sum.split option.split)

text \<open>The definition is answered with 200 or 500, or the handler panics; only the library answers with other statuses.\<close>

lemma GetSwaggerHandler_cases:
  obtains (fails) "path = swaggerDocPath" "GetSwaggerHandler app S r path s = (BOk (ErrorResponse serverErrorResponse), s)"
  | (panics) "path = swaggerDocPath" "GetSwaggerHandler app S r path s = (BPanic, s)"
  | (doc) out where "path = swaggerDocPath" "GetSwaggerHandler app S r path s = (BOk (DataResponse (SwaggerDoc out)), s)"
  | (page) status page where "path \<noteq> swaggerDocPath"
      "GetSwaggerHandler app S r path s = (BOk (LibraryResponse status (SwaggerPage page)), s)"
proof (cases "path = swaggerDocPath")
  case True
  then have "GetSwaggerHandler app S r path s = serveSwaggerDoc app S s"
    by (simp add: GetSwaggerHandler_def)
  with True serveSwaggerDoc_cases [of app S s] show thesis
    using fails panics doc by metis
next
  case False
  with page show thesis
    by (cases "swl_Page S (swagger_ui S) path r") (simp add: GetSwaggerHandler_def b_return_def)
qed

lemma GetSwaggerHandler_writes_nothing: "snd (GetSwaggerHandler app S r path s) = s"
  by (rule GetSwaggerHandler_cases [of path app S r s]) simp_all

end
