(* ===== verification/Routes.thy ===== *)
theory Routes
  imports Pod_Handlers Swagger
begin

text \<open>
  The HTTP application as a whole: the route table of \<open>Routes\<close> (\<open>api/app.go\<close>, with the paths of
  \<open>api/constants/paths.go\<close>), the health check, and what a request runs: the router picks a route, the handler
  of the route answers, and a panic becomes a server error. The router (a third-party package), the decoding of
  the bodies and the library of the Swagger UI are parameters.
\<close>

section \<open>Paths\<close>

definition HealthCheckPath :: string where
  "HealthCheckPath = PathPrefix @ ''/healthcheck''"

definition WorkspacesByNamespacePath :: string where
  "WorkspacesByNamespacePath = AllWorkspacesPath @ ''/:'' @ NamespacePathParam"

definition WorkspaceActionsPath :: string where
  "WorkspaceActionsPath = WorkspacesByNamePath @ ''/actions''"

definition PauseWorkspacePath :: string where
  "PauseWorkspacePath = WorkspaceActionsPath @ ''/pause''"

definition WorkspacePodTemplateDetailsPath :: string where
  "WorkspacePodTemplateDetailsPath = WorkspacesByNamePath @ ''/podtemplate/details''"

definition WorkspacePodTemplatePodLogsBatchPath :: string where
  "WorkspacePodTemplatePodLogsBatchPath = WorkspacesByNamePath @ ''/podtemplate/logs/batch''"

definition WorkspacePodTemplateResourcesPath :: string where
  "WorkspacePodTemplateResourcesPath = WorkspacesByNamePath @ ''/podtemplate/resources''"

definition PodTemplateOptionsListValuesPath :: string where
  "PodTemplateOptionsListValuesPath = WorkspaceKindsByNamePath @ ''/podtemplate/options/listvalues''"

definition AllNamespacesPath :: string where
  "AllNamespacesPath = PathPrefix @ ''/namespaces''"

definition SecretsByNamespacePath :: string where
  "SecretsByNamespacePath = PathPrefix @ ''/secrets/:'' @ NamespacePathParam"

definition AllStorageClassesPath :: string where
  "AllStorageClassesPath = PathPrefix @ ''/storageclasses''"

definition PVCsByNamespacePath :: string where
  "PVCsByNamespacePath = PathPrefix @ ''/persistentvolumeclaims/:'' @ NamespacePathParam"

definition PVCsByNamePath :: string where
  "PVCsByNamePath = PVCsByNamespacePath @ ''/:'' @ ResourceNamePathParam"

definition SwaggerPath :: string where
  "SwaggerPath = PathPrefix @ ''/swagger/*any''"

section \<open>The table\<close>

text \<open>A route is named by the method and path it is registered for; its handler is given by \<open>handle\<close> below.\<close>

datatype http_method = MethodGet | MethodPost | MethodPut | MethodDelete | MethodOther string

datatype route =
    RHealthcheck | RNamespaces
  | RSecrets | RCreateSecret | RSecret | RUpdateSecret | RDeleteSecret
  | RAllWorkspaces | RWorkspaces | RWorkspace | RCreateWorkspace | RUpdateWorkspace | RDeleteWorkspace
  | RPauseWorkspace | RDetails | RLogs | RResources
  | RKinds | RKind | RCreateKind | RDeleteKind | RUpdateKind | RListValues | RIcon | RLogo
  | RStorageClasses | RPVCs | RCreatePVC | RDeletePVC | RSwagger

definition Routes :: "BackendEnvConfig \<Rightarrow> (http_method \<times> string \<times> route) list" where
  "Routes cfg =
     [(MethodGet, HealthCheckPath, RHealthcheck),
      (MethodGet, AllNamespacesPath, RNamespaces),
      (MethodGet, SecretsByNamespacePath, RSecrets),
      (MethodPost, SecretsByNamespacePath, RCreateSecret),
      (MethodGet, SecretsByNamePath, RSecret),
      (MethodPut, SecretsByNamePath, RUpdateSecret),
      (MethodDelete, SecretsByNamePath, RDeleteSecret),
      (MethodGet, AllWorkspacesPath, RAllWorkspaces),
      (MethodGet, WorkspacesByNamespacePath, RWorkspaces),
      (MethodGet, WorkspacesByNamePath, RWorkspace),
      (MethodPost, WorkspacesByNamespacePath, RCreateWorkspace),
      (MethodPut, WorkspacesByNamePath, RUpdateWorkspace),
      (MethodDelete, WorkspacesByNamePath, RDeleteWorkspace),
      (MethodPost, PauseWorkspacePath, RPauseWorkspace),
      (MethodGet, WorkspacePodTemplateDetailsPath, RDetails),
      (MethodGet, WorkspacePodTemplatePodLogsBatchPath, RLogs),
      (MethodGet, WorkspacePodTemplateResourcesPath, RResources),
      (MethodGet, AllWorkspaceKindsPath, RKinds),
      (MethodGet, WorkspaceKindsByNamePath, RKind),
      (MethodPost, AllWorkspaceKindsPath, RCreateKind),
      (MethodDelete, WorkspaceKindsByNamePath, RDeleteKind),
      (MethodPut, WorkspaceKindsByNamePath, RUpdateKind),
      (MethodPost, PodTemplateOptionsListValuesPath, RListValues),
      (MethodGet, WorkspaceKindIconPath, RIcon),
      (MethodGet, WorkspaceKindLogoPath, RLogo),
      (MethodGet, AllStorageClassesPath, RStorageClasses),
      (MethodGet, PVCsByNamespacePath, RPVCs),
      (MethodPost, PVCsByNamespacePath, RCreatePVC),
      (MethodDelete, PVCsByNamePath, RDeletePVC)] @
     (if bcfg_SwaggerEnabled cfg then [(MethodGet, SwaggerPath, RSwagger)] else [])"

section \<open>Requests and answers\<close>

datatype ServiceStatus = ServiceStatusHealthy | ServiceStatusUnhealthy

record HealthCheckModel =
  hc_Status :: ServiceStatus
  hc_Version :: string

definition HealthCheck :: "string \<Rightarrow> HealthCheckModel" where
  "HealthCheck version = \<lparr>hc_Status = ServiceStatusHealthy, hc_Version = version\<rparr>"

definition Version :: string where
  "Version = ''1.0.0''"

text \<open>The data of an answer, by the handler that gives it.\<close>

datatype api_data =
    DHealthCheck HealthCheckModel
  | DNamespaces "NamespaceModel list"
  | DSecrets "SecretListItem list"
  | DSecretCreate SecretCreate
  | DSecretUpdate SecretUpdate
  | DWorkspaces "WorkspaceListItem list"
  | DWorkspaceCreate WorkspaceCreate
  | DWorkspaceUpdate WorkspaceUpdate
  | DActionPause WorkspaceActionPause
  | DDetails WorkspaceDetails
  | DLogs string
  | DResources "WorkspaceResourceUsage option"
  | DKinds "WorkspaceKindListItem list"
  | DKindCreate WorkspaceKindCreate
  | DKindUpdate WorkspaceKindUpdate
  | DOptions PodTemplateOptionsModel
  | DAsset asset_response
  | DStorageClasses "StorageClassListItem list"
  | DPVCs "PVCListItem list"
  | DPVCCreate PVCCreate
  | DSwagger swagger_answer
  | DNothing

record raw_request =
  rr_Method :: http_method
  rr_Path :: string
  rr_Query :: str_map
  rr_Headers :: str_map
  rr_Body :: string

text \<open>What \<open>encoding/json\<close> and the strict YAML serializer make of a body, for each type a handler decodes into.\<close>

record body_decoders =
  bd_WorkspaceCreate :: "string \<Rightarrow> WorkspaceCreate json_result"
  bd_WorkspaceUpdate :: "string \<Rightarrow> WorkspaceUpdate json_result"
  bd_ActionPause :: "string \<Rightarrow> WorkspaceActionPause json_result"
  bd_SecretCreate :: "string \<Rightarrow> SecretCreate json_result"
  bd_SecretUpdate :: "string \<Rightarrow> SecretUpdate json_result"
  bd_PVCCreate :: "string \<Rightarrow> PVCCreate json_result"
  bd_KindUpdate :: "string \<Rightarrow> WorkspaceKindUpdate json_result"
  bd_ListValues :: "string \<Rightarrow> ListValuesRequest json_result"
  bd_Kind :: "string \<Rightarrow> yaml_result"

text \<open>
  What the router decides for a method and a path: a route with the values of its path parameters, no route, a
  path without this method, or an answer of its own (a redirect to the cleaned path, the allowed methods).
\<close>

datatype router_answer = RouteFound route str_map | RouteNotFound | RouteMethodNotAllowed | RouterAnswers

type_synonym router = "(http_method \<times> string \<times> route) list \<Rightarrow> http_method \<Rightarrow> string \<Rightarrow> router_answer"

primrec method_text :: "http_method \<Rightarrow> string" where
  "method_text MethodGet = ''GET''"
| "method_text MethodPost = ''POST''"
| "method_text MethodPut = ''PUT''"
| "method_text MethodDelete = ''DELETE''"
| "method_text (MethodOther m) = m"

definition methodNotAllowedResponse :: "http_method \<Rightarrow> HTTPError" where
  "methodNotAllowedResponse m =
     simple_error 405 (''the '' @ method_text m @ '' method is not supported for this resource'')"

definition GetHealthcheckHandler :: "('s, HealthCheckModel http_response) bact" where
  "GetHealthcheckHandler = b_return (DataResponse (HealthCheck Version))"

text \<open>The request as the handler of the route sees it, with its body decoded.\<close>

definition request_with :: "raw_request \<Rightarrow> str_map \<Rightarrow> (string \<Rightarrow> 'b json_result) \<Rightarrow> 'b http_request" where
  "request_with q params decode =
     \<lparr>hq_Namespace = map_get params NamespacePathParam, hq_Name = map_get params ResourceNamePathParam,
      hq_Query = rr_Query q, hq_Headers = rr_Headers q, hq_Body = decode (rr_Body q)\<rparr>"

definition no_body :: "string \<Rightarrow> unit json_result" where
  "no_body _ = JsonValue None"

definition answer_with ::
  "('d \<Rightarrow> api_data) \<Rightarrow> ('s, 'd http_response) bact \<Rightarrow> ('s, api_data http_response) bact" where
  "answer_with D h = b_bind h (\<lambda>resp. b_return (map_http_response D resp))"

definition handle ::
  "'s app \<Rightarrow> body_decoders \<Rightarrow> swagger_lib \<Rightarrow> raw_request \<Rightarrow> str_map \<Rightarrow> route
   \<Rightarrow> ('s, api_data http_response) bact" where
  "handle app bd swagger q params rt =
     (let r = request_with q params no_body
      in case rt of
        RHealthcheck \<Rightarrow> answer_with DHealthCheck GetHealthcheckHandler
      | RNamespaces \<Rightarrow> answer_with DNamespaces (GetNamespacesHandler app r)
      | RSecrets \<Rightarrow> answer_with DSecrets (GetSecretsByNamespaceHandler app r)
      | RCreateSecret \<Rightarrow> answer_with DSecretCreate (CreateSecretHandler app (request_with q params (bd_SecretCreate bd)))
      | RSecret \<Rightarrow> answer_with DSecretUpdate (GetSecretHandler app r)
      | RUpdateSecret \<Rightarrow> answer_with DSecretUpdate (UpdateSecretHandler app (request_with q params (bd_SecretUpdate bd)))
      | RDeleteSecret \<Rightarrow> answer_with (\<lambda>_. DNothing) (DeleteSecretHandler app r)
      | RAllWorkspaces \<Rightarrow> answer_with DWorkspaces (GetAllWorkspacesHandler app r)
      | RWorkspaces \<Rightarrow> answer_with DWorkspaces (GetWorkspacesByNamespaceHandler app r)
      | RWorkspace \<Rightarrow> answer_with DWorkspaceUpdate (GetWorkspaceHandler app r)
      | RCreateWorkspace \<Rightarrow>
          answer_with DWorkspaceCreate (CreateWorkspaceHandler app (request_with q params (bd_WorkspaceCreate bd)))
      | RUpdateWorkspace \<Rightarrow>
          answer_with DWorkspaceUpdate (UpdateWorkspaceHandler app (request_with q params (bd_WorkspaceUpdate bd)))
      | RDeleteWorkspace \<Rightarrow> answer_with (\<lambda>_. DNothing) (DeleteWorkspaceHandler app r)
      | RPauseWorkspace \<Rightarrow>
          answer_with DActionPause (PauseActionWorkspaceHandler app (request_with q params (bd_ActionPause bd)))
      | RDetails \<Rightarrow> answer_with DDetails (GetWorkspacePodTemplateDetailsHandler app r)
      | RLogs \<Rightarrow> answer_with DLogs (GetWorkspacePodTemplateLogsHandler app r)
      | RResources \<Rightarrow> answer_with DResources (GetWorkspacePodTemplateResourcesHandler app r)
      | RKinds \<Rightarrow> answer_with DKinds (GetWorkspaceKindsHandler app r)
      | RKind \<Rightarrow> answer_with DKindUpdate (GetWorkspaceKindHandler app r)
      | RCreateKind \<Rightarrow> answer_with DKindCreate (CreateWorkspaceKindHandler app r (bd_Kind bd (rr_Body q)))
      | RDeleteKind \<Rightarrow> answer_with (\<lambda>_. DNothing) (DeleteWorkspaceKindHandler app r)
      | RUpdateKind \<Rightarrow> answer_with DKindUpdate (UpdateWorkspaceKindHandler app (request_with q params (bd_KindUpdate bd)))
      | RListValues \<Rightarrow>
          answer_with DOptions (PodTemplateOptionsListValuesHandler app (request_with q params (bd_ListValues bd)))
      | RIcon \<Rightarrow> answer_with DAsset (GetWorkspaceKindIconHandler app r)
      | RLogo \<Rightarrow> answer_with DAsset (GetWorkspaceKindLogoHandler app r)
      | RStorageClasses \<Rightarrow> answer_with DStorageClasses (GetStorageClassesHandler app r)
      | RPVCs \<Rightarrow> answer_with DPVCs (GetPVCsByNamespaceHandler app r)
      | RCreatePVC \<Rightarrow> answer_with DPVCCreate (CreatePVCHandler app (request_with q params (bd_PVCCreate bd)))
      | RDeletePVC \<Rightarrow> answer_with (\<lambda>_. DNothing) (DeletePVCHandler app r)
      | RSwagger \<Rightarrow> answer_with DSwagger (GetSwaggerHandler app swagger r (rr_Path q)))"

text \<open>\<open>None\<close>: the router answered itself.\<close>

definition serve ::
  "'s app \<Rightarrow> router \<Rightarrow> body_decoders \<Rightarrow> swagger_lib \<Rightarrow> raw_request
   \<Rightarrow> ('s, api_data http_response) bact option" where
  "serve app router bd swagger q =
     (case router (Routes (app_Config app)) (rr_Method q) (rr_Path q) of
       RouteFound rt params \<Rightarrow> Some (recoverPanic (handle app bd swagger q params rt))
     | RouteNotFound \<Rightarrow> Some (recoverPanic (b_return (ErrorResponse notFoundResponse)))
     | RouteMethodNotAllowed \<Rightarrow> Some (recoverPanic (b_return (ErrorResponse (methodNotAllowedResponse (rr_Method q)))))
     | RouterAnswers \<Rightarrow> None)"

section \<open>What a write needs\<close>

text \<open>The permission that a write must have, by the object it writes; entries of the usage cache need none.\<close>

fun policy_of :: "backend_call \<Rightarrow> ResourcePolicy option" where
  "policy_of (BCreateWorkspace w) = Some (NewResourcePolicy VerbCreate Workspaces (w_Namespace w) (w_Name w))"
| "policy_of (BUpdateWorkspace w) = Some (NewResourcePolicy VerbUpdate Workspaces (w_Namespace w) (w_Name w))"
| "policy_of (BDeleteWorkspace ns name) = Some (NewResourcePolicy VerbDelete Workspaces ns name)"
| "policy_of (BPatchWorkspace ns name patch) = Some (NewResourcePolicy VerbUpdate Workspaces ns name)"
| "policy_of (BCreateWorkspaceKind k) = Some (NewResourcePolicy VerbCreate WorkspaceKinds [] (wk_Name k))"
| "policy_of (BUpdateWorkspaceKind k) = Some (NewResourcePolicy VerbUpdate WorkspaceKinds [] (wk_Name k))"
| "policy_of (BDeleteWorkspaceKind name) = Some (NewResourcePolicy VerbDelete WorkspaceKinds [] name)"
| "policy_of (BCreateSecret x) = Some (NewResourcePolicy VerbCreate Secrets (om_Namespace (sec_Meta x)) (om_Name (sec_Meta x)))"
| "policy_of (BUpdateSecret x) = Some (NewResourcePolicy VerbUpdate Secrets (om_Namespace (sec_Meta x)) (om_Name (sec_Meta x)))"
| "policy_of (BDeleteSecret ns name) = Some (NewResourcePolicy VerbDelete Secrets ns name)"
| "policy_of (BCreatePVC x) =
     Some (NewResourcePolicy VerbCreate PersistentVolumeClaims (om_Namespace (pvc_Meta x)) (om_Name (pvc_Meta x)))"
| "policy_of (BDeletePVC ns name) = Some (NewResourcePolicy VerbDelete PersistentVolumeClaims ns name)"
| "policy_of (BCacheUsage key u ttl) = None"

definition allowed_user :: "'s app \<Rightarrow> str_map \<Rightarrow> ResourcePolicy \<Rightarrow> user_info \<Rightarrow> bool" where
  "allowed_user app headers p u \<longleftrightarrow>
     app_AuthN app headers = Inr (Some u) \<and> answered (app_AuthZ app (AttributesFor p u)) DecisionAllow"

text \<open>The metadata of the object that a creation or an update sends; the audit annotations are in it.\<close>

fun written_meta :: "backend_call \<Rightarrow> ObjectMeta option" where
  "written_meta (BCreateWorkspace w) = Some (w_Meta w)"
| "written_meta (BUpdateWorkspace w) = Some (w_Meta w)"
| "written_meta (BCreateWorkspaceKind k) = Some (wk_Meta k)"
| "written_meta (BUpdateWorkspaceKind k) = Some (wk_Meta k)"
| "written_meta (BCreateSecret x) = Some (sec_Meta x)"
| "written_meta (BUpdateSecret x) = Some (sec_Meta x)"
| "written_meta (BCreatePVC x) = Some (pvc_Meta x)"
| "written_meta c = None"

definition attributed_to :: "user_info \<Rightarrow> backend_call \<Rightarrow> bool" where
  "attributed_to u c \<longleftrightarrow>
     (case written_meta c of
       None \<Rightarrow> True
     | Some m \<Rightarrow> map_of (om_Annotations m) AnnotationUpdatedBy = Some (ui_Name u))"

definition permitted :: "'s app \<Rightarrow> str_map \<Rightarrow> backend_call \<Rightarrow> bool" where
  "permitted app headers c \<longleftrightarrow>
     (case policy_of c of None \<Rightarrow> True | Some p \<Rightarrow> \<exists>u. allowed_user app headers p u \<and> attributed_to u c)"

text \<open>
  The permission that the data of an answer need, by the route, its path parameters, the query and the body: to
  read, list or change exactly the object or the kind of objects that the route is about. Without a body that can be
  decoded nobody gets data from a route that needs one; the health check and the Swagger UI need no permission.
\<close>

definition body_policy :: "'b json_result \<Rightarrow> ('b \<Rightarrow> ResourcePolicy) \<Rightarrow> ResourcePolicy option" where
  "body_policy body policy = (case body of JsonValue (Some d) \<Rightarrow> Some (policy d) | _ \<Rightarrow> None)"

definition data_policy :: "body_decoders \<Rightarrow> raw_request \<Rightarrow> str_map \<Rightarrow> route \<Rightarrow> ResourcePolicy option" where
  "data_policy bd q params rt =
     (let ns = map_get params NamespacePathParam; name = map_get params ResourceNamePathParam;
          kinds_in = (\<lambda>verb ns. if ns \<noteq> [] then NewResourcePolicy verb Workspaces ns []
            else NewResourcePolicy VerbGet WorkspaceKinds [] name)
      in case rt of
        RHealthcheck \<Rightarrow> None
      | RNamespaces \<Rightarrow> Some (NewResourcePolicy VerbList Namespaces [] [])
      | RSecrets \<Rightarrow> Some (NewResourcePolicy VerbList Secrets ns [])
      | RCreateSecret \<Rightarrow>
          body_policy (bd_SecretCreate bd (rr_Body q)) (\<lambda>d. NewResourcePolicy VerbCreate Secrets ns (scr_Name d))
      | RSecret \<Rightarrow> Some (NewResourcePolicy VerbGet Secrets ns name)
      | RUpdateSecret \<Rightarrow> Some (NewResourcePolicy VerbUpdate Secrets ns name)
      | RDeleteSecret \<Rightarrow> Some (NewResourcePolicy VerbDelete Secrets ns name)
      | RAllWorkspaces \<Rightarrow> Some (NewResourcePolicy VerbList Workspaces ns [])
      | RWorkspaces \<Rightarrow> Some (NewResourcePolicy VerbList Workspaces ns [])
      | RWorkspace \<Rightarrow> Some (NewResourcePolicy VerbGet Workspaces ns name)
      | RCreateWorkspace \<Rightarrow>
          body_policy (bd_WorkspaceCreate bd (rr_Body q)) (\<lambda>d. NewResourcePolicy VerbCreate Workspaces ns (wc_Name d))
      | RUpdateWorkspace \<Rightarrow> Some (NewResourcePolicy VerbUpdate Workspaces ns name)
      | RDeleteWorkspace \<Rightarrow> Some (NewResourcePolicy VerbDelete Workspaces ns name)
      | RPauseWorkspace \<Rightarrow> Some (NewResourcePolicy VerbUpdate Workspaces ns name)
      | RDetails \<Rightarrow> Some (NewResourcePolicy VerbGet Workspaces ns name)
      | RLogs \<Rightarrow> Some (NewResourcePolicy VerbGet Workspaces ns name)
      | RResources \<Rightarrow> Some (NewResourcePolicy VerbGet Workspaces ns name)
      | RKinds \<Rightarrow>
          Some (if map_get (rr_Query q) ''namespaceFilter'' \<noteq> []
                then NewResourcePolicy VerbCreate Workspaces (map_get (rr_Query q) ''namespaceFilter'') []
                else NewResourcePolicy VerbList WorkspaceKinds [] [])
      | RKind \<Rightarrow> Some (NewResourcePolicy VerbGet WorkspaceKinds [] name)
      | RCreateKind \<Rightarrow>
          (case bd_Kind bd (rr_Body q) of
             YamlValue apiVersion kind wk \<Rightarrow> Some (NewResourcePolicy VerbCreate WorkspaceKinds [] (wk_Name wk))
           | _ \<Rightarrow> None)
      | RDeleteKind \<Rightarrow> Some (NewResourcePolicy VerbDelete WorkspaceKinds [] name)
      | RUpdateKind \<Rightarrow> Some (NewResourcePolicy VerbUpdate WorkspaceKinds [] name)
      | RListValues \<Rightarrow>
          body_policy (bd_ListValues bd (rr_Body q))
            (\<lambda>d. kinds_in VerbCreate (case lvc_Namespace (lvr_Context d) of Some ns \<Rightarrow> ns | None \<Rightarrow> []))
      | RIcon \<Rightarrow> Some (kinds_in VerbList (map_get (rr_Query q) ''namespace''))
      | RLogo \<Rightarrow> Some (kinds_in VerbList (map_get (rr_Query q) ''namespace''))
      | RStorageClasses \<Rightarrow>
          Some (if map_get (rr_Query q) ''namespace'' \<noteq> []
                then NewResourcePolicy VerbCreate PersistentVolumeClaims (map_get (rr_Query q) ''namespace'') []
                else NewResourcePolicy VerbList StorageClasses [] [])
      | RPVCs \<Rightarrow> Some (NewResourcePolicy VerbList PersistentVolumeClaims ns [])
      | RCreatePVC \<Rightarrow>
          body_policy (bd_PVCCreate bd (rr_Body q))
            (\<lambda>d. NewResourcePolicy VerbCreate PersistentVolumeClaims ns (pcr_Name d))
      | RDeletePVC \<Rightarrow> Some (NewResourcePolicy VerbDelete PersistentVolumeClaims ns name)
      | RSwagger \<Rightarrow> None)"

text \<open>
  Who may get an answer that is not an error: a user with the permission that the data of the route need; anybody the
  answer of the health check and, if it is enabled, the Swagger UI: the definition of the API or a page of the library.
\<close>

definition library_page :: "'s app \<Rightarrow> api_data http_response \<Rightarrow> bool" where
  "library_page app resp \<longleftrightarrow>
     bcfg_SwaggerEnabled (app_Config app) \<and> (\<exists>status page. resp = LibraryResponse status (DSwagger (SwaggerPage page)))"

definition entitled ::
  "'s app \<Rightarrow> body_decoders \<Rightarrow> raw_request \<Rightarrow> str_map \<Rightarrow> route \<Rightarrow> api_data http_response \<Rightarrow> bool" where
  "entitled app bd q params rt resp \<longleftrightarrow>
     (\<exists>p u. data_policy bd q params rt = Some p \<and> allowed_user app (rr_Headers q) p u) \<or>
     (rt = RHealthcheck \<and> resp = DataResponse (DHealthCheck \<lparr>hc_Status = ServiceStatusHealthy, hc_Version = ''1.0.0''\<rparr>)) \<or>
     (rt = RSwagger \<and> bcfg_SwaggerEnabled (app_Config app) \<and> (\<exists>out. resp = DataResponse (DSwagger (SwaggerDoc out)))) \<or>
     (rt = RSwagger \<and> library_page app resp)"

text \<open>The API server answers a read with the object that was asked for.\<close>

definition gets_named :: "'s backend \<Rightarrow> bool" where
  "gets_named C \<longleftrightarrow>
     (\<forall>ns name ws. answered (b_GetWorkspace C ns name) ws \<longrightarrow> w_Namespace ws = ns \<and> w_Name ws = name) \<and>
     (\<forall>name wk. answered (b_GetWorkspaceKind C name) wk \<longrightarrow> wk_Name wk = name) \<and>
     (\<forall>ns name x. answered (b_GetSecret C ns name) x \<longrightarrow> om_Namespace (sec_Meta x) = ns \<and> om_Name (sec_Meta x) = name) \<and>
     (\<forall>ns name x. answered (b_GetPVC C ns name) x \<longrightarrow> om_Namespace (pvc_Meta x) = ns \<and> om_Name (pvc_Meta x) = name)"

section \<open>Lemmas\<close>

lemma UpdateObjectMetaForUpdate_names [simp]:
  "om_Name (UpdateObjectMetaForUpdate B m actor now) = om_Name m"
  "om_Namespace (UpdateObjectMetaForUpdate B m actor now) = om_Namespace m"
  by (simp_all add: UpdateObjectMetaForUpdate_def Let_def split: option.split)

lemma UpdateObjectMetaForCreate_names [simp]:
  "om_Name (UpdateObjectMetaForCreate m actor) = om_Name m"
  by (simp add: UpdateObjectMetaForCreate_def split: option.split)

lemma audit_annotations [simp]:
  "map_of (om_Annotations (UpdateObjectMetaForUpdate B m (Some name) now)) AnnotationUpdatedBy = Some name"
  "map_of (om_Annotations (UpdateObjectMetaForCreate m (Some name))) AnnotationUpdatedBy = Some name"
  by (simp_all add: UpdateObjectMetaForUpdate_def UpdateObjectMetaForCreate_def Let_def update_conv')

lemmas written_defs = writes_as_def permitted_def attributed_to_def creates_def updates_def updates_kind_def creates_secret_def
  updates_secret_meta_def creates_pvc_def gets_named_def

text \<open>What each operation writes needs just the permission of its handler.\<close>

lemma written_permitted:
  "gets_named C \<Longrightarrow> writes_as BCreateWorkspace (creates B C (Some (ui_Name u)) wcr ns) c \<Longrightarrow>
   allowed_user app headers (NewResourcePolicy VerbCreate Workspaces ns (wc_Name wcr)) u \<Longrightarrow> permitted app headers c"
  "gets_named C \<Longrightarrow> writes_as BUpdateWorkspace (updates B C (Some (ui_Name u)) wup ns name) c \<Longrightarrow>
   allowed_user app headers (NewResourcePolicy VerbUpdate Workspaces ns name) u \<Longrightarrow> permitted app headers c"
  "gets_named C \<Longrightarrow> writes_as BUpdateWorkspaceKind (updates_kind B C (Some (ui_Name u)) kup name) c \<Longrightarrow>
   allowed_user app headers (NewResourcePolicy VerbUpdate WorkspaceKinds [] name) u \<Longrightarrow> permitted app headers c"
  "gets_named C \<Longrightarrow> writes_as BCreateSecret (creates_secret (Some (ui_Name u)) scr ns) c \<Longrightarrow>
   allowed_user app headers (NewResourcePolicy VerbCreate Secrets ns (scr_Name scr)) u \<Longrightarrow> permitted app headers c"
  "gets_named C \<Longrightarrow> writes_as BUpdateSecret (updates_secret_meta B C (Some (ui_Name u)) ns name) c \<Longrightarrow>
   allowed_user app headers (NewResourcePolicy VerbUpdate Secrets ns name) u \<Longrightarrow> permitted app headers c"
  "gets_named C \<Longrightarrow> writes_as BCreatePVC (creates_pvc B C (Some (ui_Name u)) pcr ns) c \<Longrightarrow>
   allowed_user app headers (NewResourcePolicy VerbCreate PersistentVolumeClaims ns (pcr_Name pcr)) u \<Longrightarrow>
   permitted app headers c"
  by (auto simp: written_defs)

lemma caches_permitted: "caches B C ns name c \<Longrightarrow> permitted app headers c"
  by (auto simp: caches_def permitted_def)

lemma permittedI: "allowed_user app headers p u \<Longrightarrow> policy_of c = Some p \<Longrightarrow> attributed_to u c \<Longrightarrow> permitted app headers c"
  by (auto simp: permitted_def)

text \<open>A handler that writes at most once, and only what its caller is permitted to write.\<close>

abbreviation guarded :: "'s app \<Rightarrow> str_map \<Rightarrow> ('s, 'd http_response) bact \<Rightarrow> bool" where
  "guarded app headers h \<equiv> b_spec 1 (permitted app headers) (on_success True) h"

lemma guarded_auth:
  assumes "\<And>u. (\<And>p. p \<in> set policies \<Longrightarrow> allowed_user app (hq_Headers r) p u) \<Longrightarrow> guarded app (hq_Headers r) (k u)"
  shows "guarded app (hq_Headers r) (with_auth app r policies k)"
  unfolding with_auth_def
  by (rule b_spec_read_bind [OF b_spec_requireAuth])
    (auto simp: allowed_user_def simp del: One_nat_def split: sum.split intro!: b_spec_return assms)

lemma guarded_auth_read:
  "b_pure m \<Longrightarrow> guarded app (hq_Headers r) (with_auth app r policies (\<lambda>_. with_result m on_error on_result))"
  by (rule guarded_auth, rule b_spec_mono [OF b_spec_with_result [OF b_spec_read_only]]) simp_all

lemma guarded_write:
  assumes "allowed_user app headers p u" and "b_spec 1 W R m"
    and "\<And>c. W c \<Longrightarrow> allowed_user app headers p u \<Longrightarrow> permitted app headers c"
  shows "guarded app headers (with_result m on_error on_result)"
  using assms by (intro b_spec_with_result [OF b_spec_weaken [OF assms(2)], where R = "\<lambda>_. True"]) simp_all

lemmas guarded_intros = b_spec_when_valid b_spec_with_body guarded_auth_read

lemma guarded_auth1:
  assumes "\<And>u. allowed_user app (hq_Headers r) p u \<Longrightarrow> guarded app (hq_Headers r) (k u)"
  shows "guarded app (hq_Headers r) (with_auth app r [p] k)"
  using assms by (intro guarded_auth) simp

lemma guarded_reads:
  "guarded app (hq_Headers r) (GetWorkspaceHandler app r)"
  "guarded app (hq_Headers r) (GetWorkspacePodTemplateDetailsHandler app r)"
  "guarded app (hq_Headers r) (getWorkspacesHandler app r)"
  "guarded app (hq_Headers r) (GetWorkspaceKindHandler app r)"
  "guarded app (hq_Headers r) (GetWorkspaceKindsHandler app r)"
  "guarded app (hq_Headers rl) (PodTemplateOptionsListValuesHandler app rl)"
  "guarded app (hq_Headers r) (getWorkspaceKindAssetHandler app r assetType)"
  "guarded app (hq_Headers r) (GetSecretsByNamespaceHandler app r)"
  "guarded app (hq_Headers r) (GetSecretHandler app r)"
  "guarded app (hq_Headers r) (GetPVCsByNamespaceHandler app r)"
  "guarded app (hq_Headers r) (GetStorageClassesHandler app r)"
  "guarded app (hq_Headers r) (GetNamespacesHandler app r)"
  unfolding GetWorkspaceHandler_def GetWorkspacePodTemplateDetailsHandler_def getWorkspacesHandler_def
    GetWorkspaceKindHandler_def GetWorkspaceKindsHandler_def PodTemplateOptionsListValuesHandler_def
    getWorkspaceKindAssetHandler_def GetSecretsByNamespaceHandler_def GetSecretHandler_def GetPVCsByNamespaceHandler_def
    GetStorageClassesHandler_def GetNamespacesHandler_def Let_def
  by (intro guarded_intros b_pure_if b_pure_reads b_pure_kind_reads b_pure_asset_reads b_pure_storage_reads b_pure_GetPVCs;
      simp)+

text \<open>The handlers that write.\<close>

lemma guarded_CreateWorkspaceHandler:
  "gets_named (app_Client app) \<Longrightarrow> guarded app (hq_Headers r) (CreateWorkspaceHandler app r)"
  unfolding CreateWorkspaceHandler_def Let_def
  by (intro b_spec_when_valid b_spec_with_body guarded_auth1, erule guarded_write, rule b_spec_CreateWorkspace)
    (erule (2) written_permitted(1))

lemma guarded_UpdateWorkspaceHandler:
  "gets_named (app_Client app) \<Longrightarrow> guarded app (hq_Headers r) (UpdateWorkspaceHandler app r)"
  unfolding UpdateWorkspaceHandler_def Let_def
  by (intro b_spec_when_valid b_spec_with_body guarded_auth1, erule guarded_write, rule b_spec_UpdateWorkspace)
    (erule (2) written_permitted(2))

lemma guarded_UpdateWorkspaceKindHandler:
  "gets_named (app_Client app) \<Longrightarrow> guarded app (hq_Headers r) (UpdateWorkspaceKindHandler app r)"
  unfolding UpdateWorkspaceKindHandler_def Let_def
  by (intro b_spec_when_valid b_spec_with_body guarded_auth1, erule guarded_write, rule b_spec_UpdateWorkspaceKind)
    (erule (2) written_permitted(3))

lemma guarded_CreateSecretHandler:
  "gets_named (app_Client app) \<Longrightarrow> guarded app (hq_Headers r) (CreateSecretHandler app r)"
  unfolding CreateSecretHandler_def Let_def
  by (intro b_spec_when_valid b_spec_with_body guarded_auth1, erule guarded_write, rule b_spec_CreateSecret)
    (erule (2) written_permitted(4))

lemma guarded_UpdateSecretHandler:
  "gets_named (app_Client app) \<Longrightarrow> guarded app (hq_Headers r) (UpdateSecretHandler app r)"
  unfolding UpdateSecretHandler_def Let_def
  by (intro b_spec_when_valid b_spec_with_body guarded_auth1, erule guarded_write, rule b_spec_UpdateSecret_meta)
    (erule (2) written_permitted(5))

lemma guarded_CreatePVCHandler:
  "gets_named (app_Client app) \<Longrightarrow> guarded app (hq_Headers r) (CreatePVCHandler app r)"
  unfolding CreatePVCHandler_def Let_def
  by (intro b_spec_when_valid b_spec_with_body guarded_auth1, erule guarded_write, rule b_spec_CreatePVC)
    (erule (2) written_permitted(6))

lemma guarded_DeleteWorkspaceHandler: "guarded app (hq_Headers r) (DeleteWorkspaceHandler app r)"
  unfolding DeleteWorkspaceHandler_def Let_def
  by (intro b_spec_when_valid guarded_auth1, erule guarded_write,
      rule b_spec_DeleteWorkspace [where P = "\<lambda>c. c = BDeleteWorkspace (hq_Namespace r) (hq_Name r)"], rule refl)
    (auto simp: attributed_to_def intro: permittedI)

lemma guarded_PauseActionWorkspaceHandler: "guarded app (hq_Headers r) (PauseActionWorkspaceHandler app r)"
  unfolding PauseActionWorkspaceHandler_def Let_def
  by (intro b_spec_when_valid b_spec_with_body guarded_auth1, erule guarded_write,
      rule b_spec_HandlePauseAction [where P = "\<lambda>c. \<exists>patch. c = BPatchWorkspace (hq_Namespace r) (hq_Name r) patch"], blast)
    (auto simp: attributed_to_def intro: permittedI)

lemma guarded_DeleteWorkspaceKindHandler:
  "gets_named (app_Client app) \<Longrightarrow> guarded app (hq_Headers r) (DeleteWorkspaceKindHandler app r)"
  unfolding DeleteWorkspaceKindHandler_def Let_def
  by (intro b_spec_when_valid b_spec_with_body guarded_auth1, erule guarded_write, rule b_spec_DeleteWorkspaceKind)
    (auto simp: gets_named_def attributed_to_def intro: permittedI)

lemma guarded_DeleteSecretHandler:
  "gets_named (app_Client app) \<Longrightarrow> guarded app (hq_Headers r) (DeleteSecretHandler app r)"
  unfolding DeleteSecretHandler_def Let_def
  by (intro b_spec_when_valid b_spec_with_body guarded_auth1, erule guarded_write, rule b_spec_DeleteSecret)
    (auto simp: gets_named_def attributed_to_def intro: permittedI)

lemma guarded_DeletePVCHandler:
  "gets_named (app_Client app) \<Longrightarrow> guarded app (hq_Headers r) (DeletePVCHandler app r)"
  unfolding DeletePVCHandler_def Let_def
  by (intro b_spec_when_valid b_spec_with_body guarded_auth1, erule guarded_write, rule b_spec_DeletePVC)
    (auto simp: gets_named_def attributed_to_def intro: permittedI)

lemma guarded_CreateWorkspaceKindHandler: "guarded app (hq_Headers r) (CreateWorkspaceKindHandler app r body)"
  unfolding CreateWorkspaceKindHandler_def
  by (auto split: sum.split intro!: b_spec_return simp del: One_nat_def)
    (intro guarded_auth1, erule guarded_write, rule b_spec_CreateWorkspaceKind, auto simp: attributed_to_def intro: permittedI)

lemma guarded_GetWorkspacePodTemplateLogsHandler: "guarded app (hq_Headers r) (GetWorkspacePodTemplateLogsHandler app r)"
  unfolding GetWorkspacePodTemplateLogsHandler_def Let_def case_prod_unfold
  by (intro b_spec_when_valid guarded_auth1, erule guarded_write, rule b_spec_mono [OF b_spec_OpenLogStream]) auto

lemma guarded_GetWorkspacePodTemplateResourcesHandler:
  "guarded app (hq_Headers r) (GetWorkspacePodTemplateResourcesHandler app r)"
  unfolding GetWorkspacePodTemplateResourcesHandler_def Let_def
  by (intro b_spec_when_valid guarded_auth1, erule guarded_write, rule b_spec_GetWorkspaceResourceUsage)
    (rule caches_permitted)

text \<open>From the handlers to the application.\<close>

lemma status_map_response [simp]: "status_code (map_http_response D resp) = status_code resp"
  by (cases resp) simp_all

lemma map_response_error: "map_http_response D resp = ErrorResponse e \<longleftrightarrow> resp = ErrorResponse e"
  by (cases resp) simp_all

lemma guarded_answer_with: "guarded app headers h \<Longrightarrow> guarded app headers (answer_with D h)"
  unfolding answer_with_def
  by (rule b_spec_write_bind, assumption, rule b_spec_return)
    (simp add: on_success_def map_response_error)

lemma statuses_in_answer_with: "statuses_in S h \<Longrightarrow> S \<subseteq> S' \<Longrightarrow> statuses_in S' (answer_with D h)"
  unfolding statuses_in_def answer_with_def b_bind_def b_return_def
  by (auto split: prod.split bres.splits) (metis bres.simps fst_conv subsetD)+

lemma b_spec_recover:
  "b_spec n P Q h \<Longrightarrow> Q (ErrorResponse serverErrorResponse) \<Longrightarrow> b_spec n P Q (recoverPanic h)"
  unfolding b_spec_def recoverPanic_def by (fastforce split: prod.splits bres.splits)

lemma request_with_simps [simp]:
  "hq_Headers (request_with q params decode) = rr_Headers q" "hq_Query (request_with q params decode) = rr_Query q"
  "hq_Namespace (request_with q params decode) = map_get params NamespacePathParam"
  "hq_Name (request_with q params decode) = map_get params ResourceNamePathParam"
  "hq_Body (request_with q params decode) = decode (rr_Body q)"
  by (simp_all add: request_with_def)

lemma guarded_route:
  assumes "guarded app (hq_Headers (request_with q params decode)) h"
  shows "guarded app (rr_Headers q) (answer_with D h)"
  using assms by (intro guarded_answer_with) simp

lemma guarded_handle:
  assumes "gets_named (app_Client app)" and "rt \<noteq> RHealthcheck" and "rt \<noteq> RSwagger"
  shows "guarded app (rr_Headers q) (handle app bd swagger q params rt)"
proof (cases rt)
qed (use assms in \<open>simp_all only: handle_def Let_def route.case GetAllWorkspacesHandler_def
    GetWorkspacesByNamespaceHandler_def GetWorkspaceKindIconHandler_def GetWorkspaceKindLogoHandler_def\<close>,
  (rule guarded_route, (rule guarded_reads guarded_GetWorkspacePodTemplateLogsHandler
      guarded_GetWorkspacePodTemplateResourcesHandler guarded_DeleteWorkspaceHandler guarded_PauseActionWorkspaceHandler
      guarded_CreateWorkspaceKindHandler |
    erule guarded_CreateWorkspaceHandler guarded_UpdateWorkspaceHandler guarded_UpdateWorkspaceKindHandler
      guarded_CreateSecretHandler guarded_UpdateSecretHandler guarded_CreatePVCHandler guarded_DeleteWorkspaceKindHandler
      guarded_DeleteSecretHandler guarded_DeletePVCHandler))+)

definition api_statuses :: "int set" where
  "api_statuses = {200, 201, 204, 400, 401, 403, 404, 405, 409, 413, 415, 422, 500}"

lemma GetHealthcheckHandler_statuses: "statuses_in {200} GetHealthcheckHandler"
  unfolding GetHealthcheckHandler_def by (intro statuses_in_return) simp

lemma statuses_in_route: "statuses_in S h \<Longrightarrow> S \<subseteq> api_statuses \<Longrightarrow> statuses_in api_statuses (answer_with D h)"
  by (rule statuses_in_answer_with)

lemma statuses_in_handle:
  assumes "rt \<noteq> RSwagger"
  shows "statuses_in api_statuses (handle app bd swagger q params rt)"
proof (cases rt)
qed (use assms in \<open>simp_all only: handle_def Let_def route.case GetAllWorkspacesHandler_def
    GetWorkspacesByNamespaceHandler_def GetWorkspaceKindIconHandler_def GetWorkspaceKindLogoHandler_def\<close>,
  (rule statuses_in_route, rule GetHealthcheckHandler_statuses handler_statuses(1-3,5-8)
     kind_handler_statuses asset_handler_statuses CreateWorkspaceKindHandler_statuses storage_handler_statuses
     pod_handler_statuses, simp add: api_statuses_def)+)

text \<open>What a handler answers with, if it answers.\<close>

definition gives :: "('d http_response \<Rightarrow> bool) \<Rightarrow> ('s, 'd http_response) bact \<Rightarrow> bool" where
  "gives Q h \<longleftrightarrow> (\<forall>s resp s'. h s = (BOk resp, s') \<longrightarrow> Q resp)"

lemma gives_spec: "b_spec n P Q h \<Longrightarrow> gives Q h"
  unfolding gives_def b_spec_def by blast

lemma b_spec_gives: "b_spec n P Q h \<Longrightarrow> gives R h \<Longrightarrow> b_spec n P R h"
  unfolding gives_def b_spec_def by blast

lemma gives_route:
  assumes "b_spec n P (on_success G) h" and "G \<Longrightarrow> G'"
  shows "gives (on_success G') (answer_with D h)"
  unfolding gives_def
proof (intro allI impI)
  fix s resp s'
  assume "answer_with D h s = (BOk resp, s')"
  then obtain resp' where "h s = (BOk resp', s')" and "resp = map_http_response D resp'"
    by (auto simp: answer_with_def b_bind_def b_return_def split: prod.splits bres.splits)
  with gives_spec [OF assms(1)] assms(2) show "on_success G' resp"
    by (auto simp: gives_def on_success_def map_response_error)
qed

text \<open>Each route but the public ones gives data only to those with the permission of the route.\<close>

lemma authorized_allowed:
  "authorized app (request_with q params decode) verb resource ns name u =
     allowed_user app (rr_Headers q) (NewResourcePolicy verb resource ns name) u"
  by (simp add: authorized_def allowed_user_def)

lemmas route_policies = GetNamespacesHandler_authorized GetSecretsByNamespaceHandler_authorized CreateSecretHandler_authorized
  GetSecretHandler_authorized UpdateSecretHandler_authorized DeleteSecretHandler_authorized getWorkspacesHandler_authorized
  GetWorkspaceHandler_authorized CreateWorkspaceHandler_authorized UpdateWorkspaceHandler_authorized
  DeleteWorkspaceHandler_authorized PauseActionWorkspaceHandler_authorized GetWorkspacePodTemplateDetailsHandler_authorized
  GetWorkspacePodTemplateLogsHandler_authorized GetWorkspacePodTemplateResourcesHandler_authorized
  GetWorkspaceKindsHandler_authorized GetWorkspaceKindHandler_authorized CreateWorkspaceKindHandler_authorized
  DeleteWorkspaceKindHandler_authorized UpdateWorkspaceKindHandler_authorized PodTemplateOptionsListValuesHandler_authorized
  getWorkspaceKindAssetHandler_authorized GetStorageClassesHandler_authorized GetPVCsByNamespaceHandler_authorized
  CreatePVCHandler_authorized DeletePVCHandler_authorized

lemma handle_policy:
  assumes "rt \<noteq> RHealthcheck" and "rt \<noteq> RSwagger"
  shows "gives (on_success (\<exists>p u. data_policy bd q params rt = Some p \<and> allowed_user app (rr_Headers q) p u))
    (handle app bd swagger q params rt)"
proof (cases rt)
qed (use assms in \<open>simp_all only: handle_def Let_def route.case GetAllWorkspacesHandler_def
    GetWorkspacesByNamespaceHandler_def GetWorkspaceKindIconHandler_def GetWorkspaceKindLogoHandler_def\<close>,
  (rule gives_route, rule route_policies,
   force simp: data_policy_def body_policy_def authorized_allowed split: if_splits option.splits)+)

section \<open>The router\<close>

text \<open>The segments of a path, and the values that a path gives to the named parameters of a pattern.\<close>

fun path_segments :: "string \<Rightarrow> string list" where
  "path_segments [] = [[]]"
| "path_segments (c # cs) =
     (if c = CHR 0x2F then [] # path_segments cs
      else (case path_segments cs of [] \<Rightarrow> [[c]] | s # ss \<Rightarrow> (c # s) # ss))"

fun match_segments :: "string list \<Rightarrow> string list \<Rightarrow> str_map option" where
  "match_segments [] [] = Some []"
| "match_segments (p # ps) (s # ss) =
     (if starts_with p '':'' then if s = [] then None else map_option (\<lambda>m. (tl p, s) # m) (match_segments ps ss)
      else if p = s then match_segments ps ss else None)"
| "match_segments ps ss = None"

definition match_path :: "string \<Rightarrow> string \<Rightarrow> str_map option" where
  "match_path pattern path = match_segments (path_segments pattern) (path_segments path)"

text \<open>
  What the application relies on: the router picks only routes that are registered for the method, and it does
  pick the route whose named parameters the path fits (catch-all patterns aside).
\<close>

definition router_law :: "router \<Rightarrow> (http_method \<times> string \<times> route) list \<Rightarrow> bool" where
  "router_law router table \<longleftrightarrow>
     (\<forall>m path rt params. router table m path = RouteFound rt params \<longrightarrow> (\<exists>pattern. (m, pattern, rt) \<in> set table)) \<and>
     (\<forall>m path pattern rt params. (m, pattern, rt) \<in> set table \<longrightarrow> CHR 0x2A \<notin> set pattern \<longrightarrow>
        match_path pattern path = Some params \<longrightarrow> router table m path = RouteFound rt params)"

lemma path_segments_single: "CHR 0x2F \<notin> set s \<Longrightarrow> path_segments s = [s]"
  by (induction s) auto

lemma path_segments_append: "CHR 0x2F \<notin> set s \<Longrightarrow> path_segments (s @ CHR 0x2F # t) = s # path_segments t"
  by (induction s) auto

lemma strings_Replace1_skip:
  "c \<notin> set xs \<Longrightarrow> strings_Replace1 (xs @ ys) (c # old) new = xs @ strings_Replace1 ys (c # old) new"
  by (induction xs) (auto simp: starts_with_def)

text \<open>Names of objects: a path segment.\<close>

definition path_label :: "string \<Rightarrow> bool" where
  "path_label s \<longleftrightarrow> s \<noteq> [] \<and> CHR 0x2F \<notin> set s \<and> CHR 0x3A \<notin> set s"

lemmas path_defs = HealthCheckPath_def WorkspacesByNamespacePath_def WorkspaceActionsPath_def PauseWorkspacePath_def
  WorkspacePodTemplateDetailsPath_def WorkspacePodTemplatePodLogsBatchPath_def WorkspacePodTemplateResourcesPath_def
  PodTemplateOptionsListValuesPath_def AllNamespacesPath_def SecretsByNamespacePath_def AllStorageClassesPath_def
  PVCsByNamespacePath_def PVCsByNamePath_def SwaggerPath_def AllWorkspacesPath_def WorkspacesByNamePath_def
  SecretsByNamePath_def AllWorkspaceKindsPath_def WorkspaceKindsByNamePath_def WorkspaceKindsAssetsPath_def
  WorkspaceKindIconPath_def WorkspaceKindLogoPath_def PathPrefix_def NamespacePathParam_def ResourceNamePathParam_def

lemma locations:
  assumes "path_label ns"
  shows "LocationGetWorkspace ns name = ''/api/v1/workspaces/'' @ ns @ ''/'' @ name"
    and "LocationGetSecret ns name = ''/api/v1/secrets/'' @ ns @ ''/'' @ name"
    and "LocationGetWorkspaceKind name = ''/api/v1/workspacekinds/'' @ name"
  using assms
  by (simp_all add: LocationGetWorkspace_def LocationGetSecret_def LocationGetWorkspaceKind_def path_defs starts_with_def
      path_label_def strings_Replace1_skip)

lemma match_locations:
  assumes "path_label ns" and "path_label name"
  shows "match_path WorkspacesByNamePath (LocationGetWorkspace ns name) = Some [(''namespace'', ns), (''name'', name)]"
    and "match_path SecretsByNamePath (LocationGetSecret ns name) = Some [(''namespace'', ns), (''name'', name)]"
    and "match_path WorkspaceKindsByNamePath (LocationGetWorkspaceKind name) = Some [(''name'', name)]"
    and "match_path WorkspaceKindIconPath (strings_Replace1 WorkspaceKindIconPath ('':'' @ ResourceNamePathParam) name) =
      Some [(''name'', name)]"
    and "match_path WorkspaceKindLogoPath (strings_Replace1 WorkspaceKindLogoPath ('':'' @ ResourceNamePathParam) name) =
      Some [(''name'', name)]"
  using assms unfolding icon_path logo_path
  by (simp_all add: locations match_path_def path_defs path_label_def path_segments_append path_segments_single
      starts_with_def)

section \<open>The table is unambiguous\<close>

text \<open>Two patterns that some path fits.\<close>

fun clash :: "string list \<Rightarrow> string list \<Rightarrow> bool" where
  "clash [] [] = True"
| "clash (p # ps) (p' # ps') = ((starts_with p '':'' \<or> starts_with p' '':'' \<or> p = p') \<and> clash ps ps')"
| "clash ps ps' = False"

fun unambiguous :: "(http_method \<times> string \<times> route) list \<Rightarrow> bool" where
  "unambiguous [] = True"
| "unambiguous ((m, pattern, rt) # table) =
     (list_all (\<lambda>(m', pattern', rt'). m \<noteq> m' \<or> \<not> clash (path_segments pattern) (path_segments pattern')) table \<and>
      unambiguous table)"

lemma match_clash: "match_segments ps ss = Some m \<Longrightarrow> match_segments ps' ss = Some m' \<Longrightarrow> clash ps ps'"
  by (induction ps ss arbitrary: ps' m m' rule: match_segments.induct) (case_tac ps'; auto split: if_splits)+

lemma Routes_unambiguous: "unambiguous (Routes cfg)"
  by (cases "bcfg_SwaggerEnabled cfg") (simp_all add: Routes_def path_defs starts_with_def)

text \<open>A router that takes the first route that fits satisfies the law on an unambiguous table.\<close>

definition first_match_router :: router where
  "first_match_router table m path =
     (case List.find (\<lambda>(m', pattern, rt). m' = m \<and> match_path pattern path \<noteq> None) table of
        None \<Rightarrow> RouteNotFound
      | Some (m', pattern, rt) \<Rightarrow> RouteFound rt (case match_path pattern path of Some params \<Rightarrow> params | None \<Rightarrow> []))"

lemma first_match_find:
  assumes "unambiguous table" and "(m, pattern, rt) \<in> set table" and "match_path pattern path = Some params"
  shows "List.find (\<lambda>(m', pattern, rt). m' = m \<and> match_path pattern path \<noteq> None) table = Some (m, pattern, rt)"
  using assms
proof (induction table)
  case (Cons e table)
  obtain m' pattern' rt' where e: "e = (m', pattern', rt')"
    by (cases e)
  show ?case
  proof (cases "e = (m, pattern, rt)")
    case False
    with Cons.prems e have "m' \<noteq> m \<or> \<not> clash (path_segments pattern') (path_segments pattern)"
      by (auto simp: list_all_iff)
    with Cons.prems(3) have "m' \<noteq> m \<or> match_path pattern' path = None"
      unfolding match_path_def using match_clash by (metis not_None_eq)
    with Cons e False show ?thesis
      by auto
  qed (use Cons.prems(3) in simp)
qed simp

lemma first_match_router_law: "unambiguous table \<Longrightarrow> router_law first_match_router table"
  unfolding router_law_def
proof (intro conjI allI impI)
  fix m path rt params
  assume "first_match_router table m path = RouteFound rt params"
  then obtain m' pattern where
    found: "List.find (\<lambda>(m', pattern, rt). m' = m \<and> match_path pattern path \<noteq> None) table = Some (m', pattern, rt)"
    unfolding first_match_router_def by (force split: option.splits prod.splits)
  then have "(m', pattern, rt) \<in> set table" and "m' = m"
    unfolding find_Some_iff by (metis nth_mem, auto)
  then show "\<exists>pattern. (m, pattern, rt) \<in> set table"
    by blast
next
  fix m path pattern rt params
  assume "unambiguous table" and "(m, pattern, rt) \<in> set table" and "match_path pattern path = Some params"
  then show "first_match_router table m path = RouteFound rt params"
    unfolding first_match_router_def by (simp only: first_match_find option.case prod.case)
qed

lemma handle_healthcheck:
  "handle app bd swagger q params RHealthcheck =
     b_return (DataResponse (DHealthCheck \<lparr>hc_Status = ServiceStatusHealthy, hc_Version = ''1.0.0''\<rparr>))"
  unfolding handle_def Let_def route.case
  by (simp add: answer_with_def GetHealthcheckHandler_def HealthCheck_def Version_def b_bind_def b_return_def fun_eq_iff)

lemma handle_swagger:
  obtains (fails) "handle app bd swagger q params RSwagger s = (BOk (ErrorResponse serverErrorResponse), s)"
  | (panics) "handle app bd swagger q params RSwagger s = (BPanic, s)"
  | (doc) out where "handle app bd swagger q params RSwagger s = (BOk (DataResponse (DSwagger (SwaggerDoc out))), s)"
  | (page) status page where
      "handle app bd swagger q params RSwagger s = (BOk (LibraryResponse status (DSwagger (SwaggerPage page))), s)"
  by (rule GetSwaggerHandler_cases [of "rr_Path q" app swagger "request_with q params no_body" s])
    (simp_all add: handle_def answer_with_def b_bind_def b_return_def)

text \<open>An answer with a status of the API, or a page of the library.\<close>

definition api_answer :: "'s app \<Rightarrow> api_data http_response \<Rightarrow> bool" where
  "api_answer app resp \<longleftrightarrow> status_code resp \<in> api_statuses \<or> library_page app resp"

definition ends_well :: "'s app \<Rightarrow> ('s, api_data http_response) bact \<Rightarrow> bool" where
  "ends_well app h \<longleftrightarrow> (\<forall>s. case fst (h s) of BOk resp \<Rightarrow> api_answer app resp | BErr err \<Rightarrow> False | BPanic \<Rightarrow> True)"

lemma ends_well_statuses: "statuses_in api_statuses h \<Longrightarrow> ends_well app h"
  unfolding ends_well_def statuses_in_def api_answer_def by (auto split: bres.splits)

lemma ends_well_recover:
  assumes "ends_well app h"
  shows "\<exists>resp s'. recoverPanic h s = (BOk resp, s') \<and> api_answer app resp"
proof -
  obtain res s' where run: "h s = (res, s')"
    by fastforce
  from assms have "case fst (h s) of BOk resp \<Rightarrow> api_answer app resp | BErr err \<Rightarrow> False | BPanic \<Rightarrow> True"
    unfolding ends_well_def by blast
  with run show ?thesis
    by (cases res) (auto simp: recoverPanic_def api_answer_def api_statuses_def)
qed

lemma handle_ends_well:
  assumes "rt = RSwagger \<Longrightarrow> bcfg_SwaggerEnabled (app_Config app)"
  shows "ends_well app (handle app bd swagger q params rt)"
proof (cases "rt = RSwagger")
  case True
  have "case fst (handle app bd swagger q params rt s) of BOk resp \<Rightarrow> api_answer app resp | BErr err \<Rightarrow> False | BPanic \<Rightarrow> True"
    for s
    unfolding True
    by (rule handle_swagger [of app bd swagger q params s])
      (use assms True in \<open>simp_all add: api_answer_def library_page_def api_statuses_def\<close>)
  then show ?thesis
    unfolding ends_well_def by blast
qed (intro ends_well_statuses statuses_in_handle)

text \<open>A run of the handler of a route: what it writes, and who gets its answer.\<close>

lemma handle_swagger_spec:
  assumes "bcfg_SwaggerEnabled (app_Config app)"
  shows "b_spec 1 P (\<lambda>resp. (\<exists>e. resp = ErrorResponse e) \<or> entitled app bd q params RSwagger resp)
    (handle app bd swagger q params RSwagger)"
  unfolding b_spec_def
proof (intro allI impI)
  fix s res s'
  assume run: "handle app bd swagger q params RSwagger s = (res, s')"
  have "s' = s \<and> (\<forall>resp. res = BOk resp \<longrightarrow> (\<exists>e. resp = ErrorResponse e) \<or> entitled app bd q params RSwagger resp)"
    by (rule handle_swagger [of app bd swagger q params s]) (use assms run in \<open>auto simp: entitled_def library_page_def\<close>)
  then show "(\<exists>new. br_calls s' = br_calls s @ new \<and> length new \<le> 1 \<and> list_all P new) \<and>
      (\<forall>resp. res = BOk resp \<longrightarrow> (\<exists>e. resp = ErrorResponse e) \<or> entitled app bd q params RSwagger resp)"
    by simp
qed

lemma handle_entitled:
  assumes "gets_named (app_Client app)" and "rt = RSwagger \<Longrightarrow> bcfg_SwaggerEnabled (app_Config app)"
  shows "b_spec 1 (permitted app (rr_Headers q)) (\<lambda>resp. (\<exists>e. resp = ErrorResponse e) \<or> entitled app bd q params rt resp)
    (handle app bd swagger q params rt)"
proof -
  consider "rt = RHealthcheck" | "rt = RSwagger" | "rt \<noteq> RHealthcheck" "rt \<noteq> RSwagger"
    by blast
  then show ?thesis
  proof cases
    case 1
    then show ?thesis
      by (simp only: handle_healthcheck) (rule b_spec_return, simp add: entitled_def)
  next
    case 2
    with assms(2) show ?thesis
      by (simp only: handle_swagger_spec)
  next
    case 3
    have "gives (\<lambda>resp. (\<exists>e. resp = ErrorResponse e) \<or> entitled app bd q params rt resp) (handle app bd swagger q params rt)"
      using handle_policy [OF 3, of bd q params app swagger] unfolding gives_def on_success_def entitled_def by blast
    with guarded_handle [OF assms(1) 3] show ?thesis
      by (rule b_spec_gives)
  qed
qed

text \<open>The same for the application, without the recovery from panics.\<close>

abbreviation legitimate ::
  "'s app \<Rightarrow> router \<Rightarrow> body_decoders \<Rightarrow> raw_request \<Rightarrow> api_data http_response \<Rightarrow> bool" where
  "legitimate app router bd q resp \<equiv>
     (\<exists>e. resp = ErrorResponse e) \<or>
     (\<exists>rt params. router (Routes (app_Config app)) (rr_Method q) (rr_Path q) = RouteFound rt params \<and>
        entitled app bd q params rt resp)"

lemma error_legitimate:
  assumes "he_StatusCode e \<in> api_statuses"
  shows "ends_well app (respond_error e)" and "b_spec 1 P (legitimate app router bd q) (respond_error e)"
proof -
  show "ends_well app (respond_error e)"
    by (intro ends_well_statuses statuses_in_return) (simp add: assms)
  show "b_spec 1 P (legitimate app router bd q) (respond_error e)"
    by (rule b_spec_return) blast
qed

lemma serve_unrecovered:
  assumes "gets_named (app_Client app)" and "router_law router (Routes (app_Config app))"
    and "serve app router bd swagger q = Some h"
  obtains h' where "h = recoverPanic h'" and "ends_well app h'"
    and "b_spec 1 (permitted app (rr_Headers q)) (legitimate app router bd q) h'"
proof (cases "router (Routes (app_Config app)) (rr_Method q) (rr_Path q)")
  case (RouteFound rt params)
  with assms(3) have h: "h = recoverPanic (handle app bd swagger q params rt)"
    by (simp add: serve_def)
  have swagger: "rt = RSwagger \<Longrightarrow> bcfg_SwaggerEnabled (app_Config app)"
    using assms(2) RouteFound unfolding router_law_def by (fastforce simp: Routes_def split: if_splits)
  have "b_spec 1 (permitted app (rr_Headers q)) (legitimate app router bd q) (handle app bd swagger q params rt)"
    by (rule b_spec_mono [OF handle_entitled [OF assms(1) swagger]]) (use RouteFound in blast)+
  from that [OF h handle_ends_well [OF swagger] this] show thesis .
next
  case RouteNotFound
  with assms(3) have h: "h = recoverPanic (respond_error notFoundResponse)"
    by (simp add: serve_def)
  have "he_StatusCode notFoundResponse \<in> api_statuses"
    by (simp add: api_statuses_def)
  then show thesis
    by (intro that [OF h] error_legitimate)
next
  case RouteMethodNotAllowed
  with assms(3) have h: "h = recoverPanic (respond_error (methodNotAllowedResponse (rr_Method q)))"
    by (simp add: serve_def)
  have "he_StatusCode (methodNotAllowedResponse (rr_Method q)) \<in> api_statuses"
    by (simp add: api_statuses_def methodNotAllowedResponse_def)
  then show thesis
    by (intro that [OF h] error_legitimate)
next
  case RouterAnswers
  with assms(3) show thesis
    by (simp add: serve_def)
qed

section \<open>Properties\<close>

text \<open>
  C17. The application as a whole: whatever the request, the router, the authenticator, the authorizer and the
  cluster do, every request that the router leaves to the application gets a response, with one of the
  statuses of the API unless it is a page of the Swagger UI (whose status is that of its library). A run issues at most one
  write; every write to the cluster is one that the authorizer allowed to the authenticated user of the request for
  exactly the verb, the kind, the namespace and the name of the object that is written, and a created or
  updated object names this user in its audit annotation. And an answer that is not an error goes to an
  authenticated user whom the authorizer allowed exactly the permission of the route that answers (the verb, the kind, the
  namespace and the name that path, query and body of this request give), the health check and the Swagger UI, if
  that is enabled, aside.
\<close>

theorem requests_served_safely:
  assumes "gets_named (app_Client app)" and "router_law router (Routes (app_Config app))"
    and "serve app router bd swagger q = Some h"
  shows "(\<exists>resp s'. h s = (BOk resp, s') \<and> (status_code resp \<in> api_statuses \<or> library_page app resp)) \<and>
    b_spec 1 (permitted app (rr_Headers q))
      (\<lambda>resp. (\<exists>e. resp = ErrorResponse e) \<or>
         (\<exists>rt params. router (Routes (app_Config app)) (rr_Method q) (rr_Path q) = RouteFound rt params \<and>
            entitled app bd q params rt resp))
      h"
proof -
  obtain h' where h: "h = recoverPanic h'" "ends_well app h'"
    "b_spec 1 (permitted app (rr_Headers q)) (legitimate app router bd q) h'"
    using serve_unrecovered [OF assms] .
  have "\<exists>resp s'. recoverPanic h' s = (BOk resp, s') \<and> (status_code resp \<in> api_statuses \<or> library_page app resp)"
    using ends_well_recover [OF h(2)] by (simp add: api_answer_def)
  moreover have "b_spec 1 (permitted app (rr_Headers q)) (legitimate app router bd q) (recoverPanic h')"
    using h(3) by (intro b_spec_recover) blast+
  ultimately show ?thesis
    unfolding h(1) by (rule conjI)
qed

text \<open>
  C18. What the backend says is where it says: the Location of a created Workspace, Secret or kind, requested
  with GET, is answered by the handler that reads that object, and the URLs of the icon and the logo that the
  listing of kinds gives out by the handlers of these assets; whatever else the table holds.
\<close>

theorem locations_served:
  assumes "router_law router (Routes (app_Config app))" and "path_label ns" and "path_label name"
  shows "serve app router bd swagger (q\<lparr>rr_Method := MethodGet, rr_Path := LocationGetWorkspace ns name\<rparr>) =
      Some (recoverPanic (answer_with DWorkspaceUpdate (GetWorkspaceHandler app
        \<lparr>hq_Namespace = ns, hq_Name = name, hq_Query = rr_Query q, hq_Headers = rr_Headers q,
         hq_Body = (JsonValue None :: unit json_result)\<rparr>))) \<and>
    serve app router bd swagger (q\<lparr>rr_Method := MethodGet, rr_Path := LocationGetSecret ns name\<rparr>) =
      Some (recoverPanic (answer_with DSecretUpdate (GetSecretHandler app
        \<lparr>hq_Namespace = ns, hq_Name = name, hq_Query = rr_Query q, hq_Headers = rr_Headers q,
         hq_Body = (JsonValue None :: unit json_result)\<rparr>))) \<and>
    serve app router bd swagger (q\<lparr>rr_Method := MethodGet, rr_Path := LocationGetWorkspaceKind name\<rparr>) =
      Some (recoverPanic (answer_with DKindUpdate (GetWorkspaceKindHandler app
        \<lparr>hq_Namespace = [], hq_Name = name, hq_Query = rr_Query q, hq_Headers = rr_Headers q,
         hq_Body = (JsonValue None :: unit json_result)\<rparr>))) \<and>
    serve app router bd swagger
        (q\<lparr>rr_Method := MethodGet, rr_Path := strings_Replace1 WorkspaceKindIconPath ('':'' @ ResourceNamePathParam) name\<rparr>) =
      Some (recoverPanic (answer_with DAsset (GetWorkspaceKindIconHandler app
        \<lparr>hq_Namespace = [], hq_Name = name, hq_Query = rr_Query q, hq_Headers = rr_Headers q,
         hq_Body = (JsonValue None :: unit json_result)\<rparr>))) \<and>
    serve app router bd swagger
        (q\<lparr>rr_Method := MethodGet, rr_Path := strings_Replace1 WorkspaceKindLogoPath ('':'' @ ResourceNamePathParam) name\<rparr>) =
      Some (recoverPanic (answer_with DAsset (GetWorkspaceKindLogoHandler app
        \<lparr>hq_Namespace = [], hq_Name = name, hq_Query = rr_Query q, hq_Headers = rr_Headers q,
         hq_Body = (JsonValue None :: unit json_result)\<rparr>)))"
proof -
  have route: "router (Routes (app_Config app)) MethodGet path = RouteFound rt params"
    if "match_path pattern path = Some params" and "(MethodGet, pattern, rt) \<in> set (Routes (app_Config app))"
      and "CHR 0x2A \<notin> set pattern" for path pattern rt params
    using that assms(1) unfolding router_law_def by blast
  have star: "CHR 0x2A \<notin> set WorkspacesByNamePath" "CHR 0x2A \<notin> set SecretsByNamePath"
    "CHR 0x2A \<notin> set WorkspaceKindsByNamePath" "CHR 0x2A \<notin> set WorkspaceKindIconPath"
    "CHR 0x2A \<notin> set WorkspaceKindLogoPath"
    by (simp_all add: path_defs)
  have rows: "(MethodGet, WorkspacesByNamePath, RWorkspace) \<in> set (Routes (app_Config app))"
    "(MethodGet, SecretsByNamePath, RSecret) \<in> set (Routes (app_Config app))"
    "(MethodGet, WorkspaceKindsByNamePath, RKind) \<in> set (Routes (app_Config app))"
    "(MethodGet, WorkspaceKindIconPath, RIcon) \<in> set (Routes (app_Config app))"
    "(MethodGet, WorkspaceKindLogoPath, RLogo) \<in> set (Routes (app_Config app))"
    by (simp_all add: Routes_def)
  note found = route [OF match_locations(1) [OF assms(2,3)] rows(1) star(1)]
    route [OF match_locations(2) [OF assms(2,3)] rows(2) star(2)]
    route [OF match_locations(3) [OF assms(2,3)] rows(3) star(3)]
    route [OF match_locations(4) [OF assms(2,3)] rows(4) star(4)]
    route [OF match_locations(5) [OF assms(2,3)] rows(5) star(5)]
  show ?thesis
    by (simp add: serve_def found [unfolded NamespacePathParam_def ResourceNamePathParam_def, simplified] handle_def
        request_with_def no_body_def NamespacePathParam_def ResourceNamePathParam_def map_get_def)
qed

section \<open>Witnesses\<close>

text \<open>A client that knows one Workspace, and a request to delete it.\<close>

definition named_client :: "unit backend" where
  "named_client = (sample_backend sample_workspace sample_kind [])
     \<lparr>b_GetWorkspace := (\<lambda>ns name w.
        (if ns = ''team'' \<and> name = ''notebook'' then Inr sample_workspace else Inl (ApiStatusError ReasonNotFound [] []), w)),
      b_GetWorkspaceKind := (\<lambda>name w.
        (if name = ''jupyterlab'' then Inr sample_kind else Inl (ApiStatusError ReasonNotFound [] []), w)),
      b_GetSecret := (\<lambda>_ _ w. (Inl (ApiStatusError ReasonNotFound [] []), w)),
      b_GetPVC := (\<lambda>_ _ w. (Inl (ApiStatusError ReasonNotFound [] []), w))\<rparr>"

definition named_app :: "unit app" where
  "named_app = sample_app\<lparr>app_Client := named_client\<rparr>"

definition sample_delete :: raw_request where
  "sample_delete =
     \<lparr>rr_Method = MethodDelete, rr_Path = ''/api/v1/workspaces/team/notebook'', rr_Query = [], rr_Headers = [], rr_Body = []\<rparr>"

definition sample_decoders :: body_decoders where
  "sample_decoders =
     \<lparr>bd_WorkspaceCreate = (\<lambda>_. JsonValue None), bd_WorkspaceUpdate = (\<lambda>_. JsonValue None),
      bd_ActionPause = (\<lambda>_. JsonValue None), bd_SecretCreate = (\<lambda>_. JsonValue None),
      bd_SecretUpdate = (\<lambda>_. JsonValue None), bd_PVCCreate = (\<lambda>_. JsonValue None),
      bd_KindUpdate = (\<lambda>_. JsonValue None), bd_ListValues = (\<lambda>_. JsonValue None), bd_Kind = (\<lambda>_. YamlReadError)\<rparr>"

definition sample_swagger :: swagger_lib where
  "sample_swagger =
     \<lparr>swl_ReadDoc = Inr [], swl_Unmarshal = (\<lambda>_. Inr (Some [])), swl_Marshal = (\<lambda>_. Inr []), swl_Page = (\<lambda>_ _ _. (200, [])),
      swl_BasePath = ''/api/v1''\<rparr>"

lemma named_client_gets: "gets_named named_client"
  unfolding gets_named_def answered_def
  by (auto simp: named_client_def sample_workspace_def sample_kind_def split: if_splits)

lemma sample_label: "path_label ''team''" "path_label ''notebook''"
  by (simp_all add: path_label_def)

lemma sample_delete_found:
  "first_match_router (Routes (app_Config named_app)) MethodDelete ''/api/v1/workspaces/team/notebook'' =
     RouteFound RDeleteWorkspace [(''namespace'', ''team''), (''name'', ''notebook'')]"
proof -
  have "match_path WorkspacesByNamePath ''/api/v1/workspaces/team/notebook'' =
      Some [(''namespace'', ''team''), (''name'', ''notebook'')]"
    using match_locations(1) [OF sample_label] by (simp add: locations sample_label)
  moreover have "(MethodDelete, WorkspacesByNamePath, RDeleteWorkspace) \<in> set (Routes (app_Config named_app))"
    by (simp add: Routes_def)
  ultimately show ?thesis
    using first_match_router_law [OF Routes_unambiguous] unfolding router_law_def
    by (fastforce simp: path_defs)
qed

theorem requests_served_safely_witness:
  "\<exists>h. serve named_app first_match_router sample_decoders sample_swagger sample_delete = Some h \<and>
     b_spec 1 (permitted named_app []) (\<lambda>_. True) h \<and>
     br_calls (snd (h sample_brun)) = [BDeleteWorkspace ''team'' ''notebook'']"
proof -
  obtain h where h: "serve named_app first_match_router sample_decoders sample_swagger sample_delete = Some h"
    "h = recoverPanic (handle named_app sample_decoders sample_swagger sample_delete [(''namespace'', ''team''), (''name'', ''notebook'')] RDeleteWorkspace)"
    by (simp add: serve_def sample_delete_found sample_delete_def)
  have client: "gets_named (app_Client named_app)"
    by (simp add: named_app_def named_client_gets)
  have "b_spec 1 (permitted named_app (rr_Headers sample_delete)) (\<lambda>_. True) h"
    by (rule b_spec_mono [OF conjunct2
          [OF requests_served_safely [OF client first_match_router_law [OF Routes_unambiguous] h(1)]]]) simp_all
  then have "b_spec 1 (permitted named_app []) (\<lambda>_. True) h"
    by (simp add: sample_delete_def del: One_nat_def)
  moreover have "br_calls (snd (h sample_brun)) = [BDeleteWorkspace ''team'' ''notebook'']"
    unfolding h(2) by code_simp
  ultimately show ?thesis
    using h(1) by blast
qed

theorem locations_served_witness:
  "\<exists>h. serve named_app first_match_router sample_decoders sample_swagger
       \<lparr>rr_Method = MethodGet, rr_Path = LocationGetWorkspace ''team'' ''notebook'', rr_Query = [], rr_Headers = [], rr_Body = []\<rparr> =
     Some h \<and> (\<exists>m s. h sample_brun = (BOk (DataResponse (DWorkspaceUpdate m)), s))"
proof -
  let ?q = "\<lparr>rr_Method = MethodGet, rr_Path = LocationGetWorkspace ''team'' ''notebook'', rr_Query = [], rr_Headers = [], rr_Body = []\<rparr>"
  let ?r = "\<lparr>hq_Namespace = ''team'', hq_Name = ''notebook'', hq_Query = [], hq_Headers = [],
         hq_Body = (JsonValue None :: unit json_result)\<rparr>"
  have "serve named_app first_match_router sample_decoders sample_swagger ?q =
      Some (recoverPanic (answer_with DWorkspaceUpdate (GetWorkspaceHandler named_app ?r)))"
    using locations_served [of first_match_router named_app "''team''" "''notebook''" sample_decoders sample_swagger ?q]
      first_match_router_law [OF Routes_unambiguous] sample_label
    by simp
  moreover have "\<exists>m s. recoverPanic (answer_with DWorkspaceUpdate (GetWorkspaceHandler named_app ?r)) sample_brun =
      (BOk (DataResponse (DWorkspaceUpdate m)), s)"
  proof -
    have valid: "ValidateKubernetesNamespaceName (app_Lib named_app) NamespacePathParam ''team'' = []"
      "ValidateWorkspaceName (app_Lib named_app) ResourceNamePathParam ''notebook'' = []"
      by code_simp+
    have auth: "requireAuth named_app ?r [NewResourcePolicy VerbGet Workspaces ''team'' ''notebook''] sample_brun =
        (BOk (Inr \<lparr>ui_Name = ''ann'', ui_Groups = [], ui_Extra = []\<rparr>), sample_brun)"
      by (simp add: requireAuth_def named_app_def sample_app_def b_bind_def b_try_def b_return_def sample_brun_def)
    have get: "b_GetWorkspace (app_Client named_app) ''team'' ''notebook'' w = (Inr sample_workspace, w)" for w
      by (simp add: named_app_def named_client_def)
    show ?thesis
      by (simp add: recoverPanic_def answer_with_def GetWorkspaceHandler_def when_valid_def with_auth_def with_result_def
          valid auth get GetWorkspace_def b_bind_def b_attempt_def b_read_def b_map_error_def b_return_def Let_def)
  qed
  ultimately show ?thesis
    by blast
qed

end
