(* ===== verification/Responses.thy ===== *)
theory Responses
  imports Routes
begin

text \<open>
  Responses on the wire: what the handlers of the application do to the \<open>http.ResponseWriter\<close> of a request
  (\<open>WriteJSON\<close> and \<open>WriteSVG\<close> of \<open>api/helpers.go\<close>, \<open>api/response_success.go\<close>, \<open>errorResponse\<close>, the middleware of
  \<open>api/middleware.go\<close>, the log stream). The encoder and the connection may fail at any point.
\<close>

section \<open>The writer\<close>

text \<open>
  The documented behaviour of \<open>http.ResponseWriter\<close>: the header is sent by the first \<open>WriteHeader\<close>, as it is at that
  time, later calls have no effect; a \<open>Write\<close> before sends status 200. The compression of \<open>gzhttp\<close> between the router
  and the connection is left out.
\<close>

record response_writer =
  rw_Header :: str_map
  rw_Sent :: "(int \<times> str_map) option"
  rw_Body :: string

text \<open>What has been written so far and the bytes of a \<open>Write\<close>: how many of them are taken, and the error.\<close>

type_synonym connection = "string \<Rightarrow> string \<Rightarrow> nat \<times> string option"

definition Header_Set :: "string \<Rightarrow> string \<Rightarrow> response_writer \<Rightarrow> response_writer" where
  "Header_Set key val w = w\<lparr>rw_Header := AList.update key val (rw_Header w)\<rparr>"

definition Header_Copy :: "str_map \<Rightarrow> response_writer \<Rightarrow> response_writer" where
  "Header_Copy headers w = w\<lparr>rw_Header := maps_Copy (rw_Header w) headers\<rparr>"

definition WriteHeader :: "int \<Rightarrow> response_writer \<Rightarrow> response_writer" where
  "WriteHeader code w =
     (case rw_Sent w of None \<Rightarrow> w\<lparr>rw_Sent := Some (code, rw_Header w)\<rparr> | Some sent \<Rightarrow> w)"

definition Write :: "connection \<Rightarrow> string \<Rightarrow> response_writer \<Rightarrow> string option \<times> response_writer" where
  "Write conn bytes w =
     (let w = WriteHeader 200 w
      in case conn (rw_Body w) bytes of (n, err) \<Rightarrow> (err, w\<lparr>rw_Body := rw_Body w @ take n bytes\<rparr>))"

text \<open>\<open>io.Copy\<close> with its buffer of 32 KiB.\<close>

function io_Copy :: "connection \<Rightarrow> string \<Rightarrow> response_writer \<Rightarrow> string option \<times> response_writer" where
  "io_Copy conn src w =
     (if src = [] then (None, w)
      else
        (case Write conn (take 32768 src) w of
          (Some err, w) \<Rightarrow> (Some err, w)
        | (None, w) \<Rightarrow> io_Copy conn (drop 32768 src) w))"
  by pat_completeness auto
termination
  by (relation "measure (\<lambda>(conn, src, w). length src)") auto

declare io_Copy.simps [simp del]

section \<open>The responses\<close>

text \<open>
  \<open>json.Marshal\<close> of the envelope of an answer and of an error, and what the library of the Swagger UI does with
  the writer for an answer with a status of its own.
\<close>

record encoders =
  en_Data :: "api_data \<Rightarrow> string + string"
  en_Error :: "HTTPError \<Rightarrow> string + string"
  en_Page :: "int \<Rightarrow> api_data \<Rightarrow> response_writer \<Rightarrow> response_writer"

text \<open>\<open>encoded\<close> is the result of \<open>json.Marshal(data)\<close>.\<close>

definition WriteJSON ::
  "connection \<Rightarrow> int \<Rightarrow> string + string \<Rightarrow> str_map \<Rightarrow> response_writer \<Rightarrow> string option \<times> response_writer" where
  "WriteJSON conn status encoded headers w =
     (case encoded of
       Inl err \<Rightarrow> (Some err, w)
     | Inr bytes \<Rightarrow>
         Write conn bytes (WriteHeader status (Header_Set ''Content-Type'' MediaTypeJson (Header_Copy headers w))))"

definition errorResponse :: "connection \<Rightarrow> encoders \<Rightarrow> HTTPError \<Rightarrow> response_writer \<Rightarrow> response_writer" where
  "errorResponse conn E httpError w =
     (case WriteJSON conn (he_StatusCode httpError) (en_Error E httpError) [] w of
       (None, w) \<Rightarrow> w
     | (Some err, w) \<Rightarrow> WriteHeader (he_StatusCode httpError) w)"

text \<open>\<open>if err != nil { a.serverErrorResponse(w, r, err) }\<close>.\<close>

definition or_server_error ::
  "connection \<Rightarrow> encoders \<Rightarrow> string option \<times> response_writer \<Rightarrow> response_writer" where
  "or_server_error conn E res =
     (case res of (None, w) \<Rightarrow> w | (Some err, w) \<Rightarrow> errorResponse conn E serverErrorResponse w)"

definition dataResponse :: "connection \<Rightarrow> encoders \<Rightarrow> api_data \<Rightarrow> response_writer \<Rightarrow> response_writer" where
  "dataResponse conn E body w = or_server_error conn E (WriteJSON conn 200 (en_Data E body) [] w)"

definition createdResponse :: "connection \<Rightarrow> encoders \<Rightarrow> api_data \<Rightarrow> string \<Rightarrow> response_writer \<Rightarrow> response_writer" where
  "createdResponse conn E body location w =
     or_server_error conn E (WriteJSON conn 201 (en_Data E body) [] (Header_Set ''Location'' location w))"

definition deletedResponse :: "response_writer \<Rightarrow> response_writer" where
  "deletedResponse w = WriteHeader 204 w"

text \<open>The headers of an asset are those that \<open>WriteSVG\<close> sets.\<close>

definition assetResponse :: "connection \<Rightarrow> encoders \<Rightarrow> asset_response \<Rightarrow> response_writer \<Rightarrow> response_writer" where
  "assetResponse conn E asset w =
     or_server_error conn E (Write conn (asr_Content asset) (WriteHeader 200 (Header_Copy (asr_Headers asset) w)))"

text \<open>An error while the log is copied is only logged.\<close>

definition logResponse :: "connection \<Rightarrow> string \<Rightarrow> response_writer \<Rightarrow> response_writer" where
  "logResponse conn stream w = snd (io_Copy conn stream (WriteHeader 200 (Header_Set ''Content-Type'' ''text/plain'' w)))"

definition swaggerDocResponse :: "connection \<Rightarrow> string \<Rightarrow> response_writer \<Rightarrow> response_writer" where
  "swaggerDocResponse conn out w = snd (Write conn out (Header_Set ''Content-Type'' ''application/json; charset=utf-8'' w))"

fun write_data :: "connection \<Rightarrow> encoders \<Rightarrow> api_data \<Rightarrow> response_writer \<Rightarrow> response_writer" where
  "write_data conn E (DLogs stream) w = logResponse conn stream w"
| "write_data conn E (DAsset asset) w = assetResponse conn E asset w"
| "write_data conn E (DSwagger (SwaggerDoc out)) w = swaggerDocResponse conn out w"
| "write_data conn E d w = dataResponse conn E d w"

primrec write_response ::
  "connection \<Rightarrow> encoders \<Rightarrow> api_data http_response \<Rightarrow> response_writer \<Rightarrow> response_writer" where
  "write_response conn E (DataResponse d) w = write_data conn E d w"
| "write_response conn E (LibraryResponse status d) w = en_Page E status d w"
| "write_response conn E (CreatedResponse d location) w = createdResponse conn E d location w"
| "write_response conn E DeletedResponse w = deletedResponse w"
| "write_response conn E (ErrorResponse e) w = errorResponse conn E e w"

section \<open>The middleware\<close>

definition enableCORS :: "response_writer \<Rightarrow> response_writer" where
  "enableCORS w = Header_Set ''Access-Control-Allow-Origin'' ''*'' w"

text \<open>
  A request from the outermost middleware inwards. A handler answers or panics (a \<open>BErr\<close> is an answer that no
  handler gives); \<open>None\<close>: the router answers itself.
\<close>

definition new_writer :: response_writer where
  "new_writer = \<lparr>rw_Header = [], rw_Sent = None, rw_Body = []\<rparr>"

definition respond ::
  "connection \<Rightarrow> encoders \<Rightarrow> 's app \<Rightarrow> router \<Rightarrow> body_decoders \<Rightarrow> swagger_lib \<Rightarrow> raw_request \<Rightarrow> 's brun
   \<Rightarrow> (response_writer \<times> 's brun) option" where
  "respond conn E app router bd swagger q s =
     (let w = enableCORS new_writer
      in case router (Routes (app_Config app)) (rr_Method q) (rr_Path q) of
        RouteFound rt params \<Rightarrow>
          Some (case handle app bd swagger q params rt s of
            (BOk resp, s) \<Rightarrow> (write_response conn E resp w, s)
          | (BErr err, s) \<Rightarrow> (w, s)
          | (BPanic, s) \<Rightarrow> (errorResponse conn E serverErrorResponse (Header_Set ''Connection'' ''close'' w), s))
      | RouteNotFound \<Rightarrow> Some (errorResponse conn E notFoundResponse w, s)
      | RouteMethodNotAllowed \<Rightarrow> Some (errorResponse conn E (methodNotAllowedResponse (rr_Method q)) w, s)
      | RouterAnswers \<Rightarrow> None)"

section \<open>Lemmas\<close>

text \<open>What a step keeps: the header, once sent, stays; and the body only grows.\<close>

lemma WriteHeader_sent [simp]:
  "rw_Sent w = Some sent \<Longrightarrow> WriteHeader code w = w"
  "rw_Sent w = None \<Longrightarrow> rw_Sent (WriteHeader code w) = Some (code, rw_Header w)"
  by (simp_all add: WriteHeader_def)

lemma WriteHeader_frame [simp]:
  "rw_Body (WriteHeader code w) = rw_Body w" "rw_Header (WriteHeader code w) = rw_Header w"
  by (simp_all add: WriteHeader_def split: option.split)

lemma Header_Set_simps [simp]:
  "rw_Sent (Header_Set key val w) = rw_Sent w" "rw_Body (Header_Set key val w) = rw_Body w"
  "map_of (rw_Header (Header_Set key val w)) = (map_of (rw_Header w))(key \<mapsto> val)"
  by (simp_all add: Header_Set_def update_conv')

lemma Header_Copy_simps [simp]:
  "rw_Sent (Header_Copy headers w) = rw_Sent w" "rw_Body (Header_Copy headers w) = rw_Body w"
  "rw_Header (Header_Copy headers w) = maps_Copy (rw_Header w) headers"
  by (simp_all add: Header_Copy_def)

lemma Header_Copy_Nil [simp]: "Header_Copy [] w = w"
  by (simp add: Header_Copy_def)

lemma Write_sent [simp]:
  "rw_Sent (snd (Write conn bytes w)) = rw_Sent (WriteHeader 200 w)"
  "rw_Header (snd (Write conn bytes w)) = rw_Header w"
  by (simp_all add: Write_def Let_def split: prod.split)

lemma io_Copy_sent: "rw_Sent w = Some sent \<Longrightarrow> rw_Sent (snd (io_Copy conn src w)) = Some sent"
proof (induction conn src w rule: io_Copy.induct)
  case (1 conn src w)
  show ?case
  proof (cases "src = []")
    case True
    with 1 show ?thesis
      by (simp add: io_Copy.simps)
  next
    case False
    obtain err w' where res: "Write conn (take 32768 src) w = (err, w')"
      by (cases "Write conn (take 32768 src) w")
    with Write_sent(1) [of conn "take 32768 src" w] 1(2) have sent: "rw_Sent w' = Some sent"
      by simp
    from False have "io_Copy conn src w = (case err of Some e \<Rightarrow> (Some e, w') | None \<Rightarrow> io_Copy conn (drop 32768 src) w')"
      by (subst io_Copy.simps) (simp add: res split: option.split)
    with 1(1) [OF False res [symmetric]] sent show ?thesis
      by (cases err) simp_all
  qed
qed

lemma WriteJSON_result:
  "WriteJSON conn status (Inl err) headers w = (Some err, w)"
  "rw_Sent w = None \<Longrightarrow>
   \<exists>err hdrs. fst (WriteJSON conn status (Inr bytes) headers w) = err \<and>
     rw_Sent (snd (WriteJSON conn status (Inr bytes) headers w)) = Some (status, hdrs) \<and>
     map_of hdrs = (map_of (maps_Copy (rw_Header w) headers))(''Content-Type'' \<mapsto> MediaTypeJson)"
  by (simp_all add: WriteJSON_def)

text \<open>An error response sends its status, if nothing has been sent yet; else it leaves what was sent.\<close>

lemma errorResponse_late: "rw_Sent w = Some sent \<Longrightarrow> rw_Sent (errorResponse conn E e w) = Some sent"
  by (cases "en_Error E e")
    (auto simp: errorResponse_def WriteJSON_def Write_def Let_def split: prod.split option.split)

lemma errorResponse_first:
  assumes "rw_Sent w = None"
  shows "\<exists>hdrs. rw_Sent (errorResponse conn E e w) = Some (he_StatusCode e, hdrs) \<and>
    map_of hdrs =
      (case en_Error E e of Inl err \<Rightarrow> map_of (rw_Header w) | Inr bytes \<Rightarrow> (map_of (rw_Header w))(''Content-Type'' \<mapsto> MediaTypeJson))"
proof (cases "en_Error E e")
  case (Inl err)
  with assms show ?thesis
    by (simp add: errorResponse_def WriteJSON_def)
next
  case (Inr bytes)
  let ?w = "WriteHeader (he_StatusCode e) (Header_Set ''Content-Type'' MediaTypeJson w)"
  obtain err w' where res: "Write conn bytes ?w = (err, w')"
    by (cases "Write conn bytes ?w")
  have "rw_Sent ?w = Some (he_StatusCode e, rw_Header (Header_Set ''Content-Type'' MediaTypeJson w))"
    using assms by simp
  with Write_sent(1) [of conn bytes ?w] res
  have "rw_Sent w' = Some (he_StatusCode e, rw_Header (Header_Set ''Content-Type'' MediaTypeJson w))"
    by simp
  with Inr show ?thesis
    by (cases err) (simp_all add: errorResponse_def WriteJSON_def res)
qed

text \<open>A connection that takes everything.\<close>

definition delivers :: "connection \<Rightarrow> bool" where
  "delivers conn \<longleftrightarrow> (\<forall>sent bytes. conn sent bytes = (length bytes, None))"

lemma Write_delivers:
  "delivers conn \<Longrightarrow> Write conn bytes w = (None, (WriteHeader 200 w)\<lparr>rw_Body := rw_Body w @ bytes\<rparr>)"
  by (simp add: Write_def delivers_def Let_def)

lemma io_Copy_delivers: "delivers conn \<Longrightarrow> rw_Body (snd (io_Copy conn src w)) = rw_Body w @ src"
proof (induction conn src w rule: io_Copy.induct)
  case (1 conn src w)
  show ?case
  proof (cases "src = []")
    case True
    then show ?thesis
      by (simp add: io_Copy.simps)
  next
    case False
    let ?w = "(WriteHeader 200 w)\<lparr>rw_Body := rw_Body w @ take 32768 src\<rparr>"
    have res: "Write conn (take 32768 src) w = (None, ?w)"
      by (rule Write_delivers [OF 1(2)])
    have "io_Copy conn src w = io_Copy conn (drop 32768 src) ?w"
      using False by (subst io_Copy.simps) (simp add: res)
    with 1(1) [OF False res [symmetric] refl 1(2)] show ?thesis
      by simp
  qed
qed

section \<open>What is promised\<close>

text \<open>
  The media type and the body that answer a request on the wire; \<open>None\<close>: it cannot be encoded, or it is left to
  the library of the Swagger UI.
\<close>

fun data_on_wire :: "encoders \<Rightarrow> api_data \<Rightarrow> (string \<times> string) option" where
  "data_on_wire E (DLogs stream) = Some (''text/plain'', stream)"
| "data_on_wire E (DAsset asset) = Some (''image/svg+xml'', asr_Content asset)"
| "data_on_wire E (DSwagger (SwaggerDoc out)) = Some (''application/json; charset=utf-8'', out)"
| "data_on_wire E d = (case en_Data E d of Inl err \<Rightarrow> None | Inr bytes \<Rightarrow> Some (''application/json'', bytes))"

primrec on_wire :: "encoders \<Rightarrow> api_data http_response \<Rightarrow> (string option \<times> string) option" where
  "on_wire E (DataResponse d) = map_option (\<lambda>(mt, body). (Some mt, body)) (data_on_wire E d)"
| "on_wire E (LibraryResponse status d) = None"
| "on_wire E (CreatedResponse d location) =
     (case en_Data E d of Inl err \<Rightarrow> None | Inr bytes \<Rightarrow> Some (Some ''application/json'', bytes))"
| "on_wire E DeletedResponse = Some (None, [])"
| "on_wire E (ErrorResponse e) =
     (case en_Error E e of Inl err \<Rightarrow> None | Inr bytes \<Rightarrow> Some (Some ''application/json'', bytes))"

fun is_page :: "api_data http_response \<Rightarrow> bool" where
  "is_page (LibraryResponse status d) \<longleftrightarrow> True"
| "is_page resp \<longleftrightarrow> False"

definition asset_headers :: "(string \<times> string) list" where
  "asset_headers =
     [(''Content-Security-Policy'',
       ''default-src '' @ [CHR 0x27] @ ''none'' @ [CHR 0x27] @ ''; script-src '' @ [CHR 0x27] @ ''none'' @ [CHR 0x27] @ ''; sandbox''),
      (''X-Content-Type-Options'', ''nosniff''),
      (''Content-Disposition'', ''attachment; filename='' @ [CHR 0x22] @ ''workspacekind-asset.svg'' @ [CHR 0x22])]"

text \<open>One header, with the status of the answer and the headers of the middleware, and the body.\<close>

definition answers ::
  "connection \<Rightarrow> encoders \<Rightarrow> str_map \<Rightarrow> api_data http_response \<Rightarrow> response_writer \<Rightarrow> bool" where
  "answers conn E before resp w \<longleftrightarrow>
     (\<exists>status hdrs. rw_Sent w = Some (status, hdrs) \<and>
        (status = status_code resp \<or> status = 500 \<and> on_wire E resp = None) \<and>
        (\<forall>(key, val) \<in> set before. map_of hdrs key = Some val) \<and>
        (\<forall>d location. resp = CreatedResponse d location \<longrightarrow> map_of hdrs ''Location'' = Some location) \<and>
        (map_of hdrs ''Content-Type'' = Some ''image/svg+xml'' \<longrightarrow>
           (\<forall>(key, val) \<in> set asset_headers. map_of hdrs key = Some val)) \<and>
        (\<forall>mt body. delivers conn \<and> on_wire E resp = Some (mt, body) \<longrightarrow>
           status = status_code resp \<and> map_of hdrs ''Content-Type'' = mt \<and> rw_Body w = body))"

section \<open>Lemmas on the responses\<close>

text \<open>A writer to which the middleware has added headers of its own.\<close>

definition fresh :: "str_map \<Rightarrow> response_writer \<Rightarrow> bool" where
  "fresh before w \<longleftrightarrow> rw_Sent w = None \<and> rw_Body w = [] \<and> rw_Header w = before \<and> distinct (map fst before) \<and>
     fst ` set before \<subseteq> {''Access-Control-Allow-Origin'', ''Connection''}"

lemma fresh_header:
  assumes "fresh before w"
  shows "rw_Sent w = None" "rw_Body w = []" "map_of (rw_Header w) ''Content-Type'' = None"
    "\<And>key val. (key, val) \<in> set before \<Longrightarrow>
       map_of (rw_Header w) key = Some val \<and> key \<in> {''Access-Control-Allow-Origin'', ''Connection''}"
  using assms by (auto simp: fresh_def map_of_eq_None_iff map_of_is_SomeI)

lemma errorResponse_delivers:
  assumes "delivers conn" and "rw_Sent w = None" and "rw_Body w = []" and "en_Error E e = Inr bytes"
  shows "rw_Body (errorResponse conn E e w) = bytes"
  using assms by (simp add: errorResponse_def WriteJSON_def Write_delivers)

lemma errorResponse_answers:
  assumes "fresh before w"
  shows "answers conn E before (ErrorResponse e) (errorResponse conn E e w)"
proof -
  note w = fresh_header [OF assms]
  from errorResponse_first [OF w(1)] obtain hdrs where sent: "rw_Sent (errorResponse conn E e w) = Some (he_StatusCode e, hdrs)"
    and hdrs: "map_of hdrs = (case en_Error E e of Inl err \<Rightarrow> map_of (rw_Header w)
      | Inr bytes \<Rightarrow> (map_of (rw_Header w))(''Content-Type'' \<mapsto> MediaTypeJson))"
    by blast
  show ?thesis
    unfolding answers_def
  proof (intro exI conjI)
    show "rw_Sent (errorResponse conn E e w) = Some (he_StatusCode e, hdrs)"
      by (rule sent)
    show "\<forall>(key, val) \<in> set before. map_of hdrs key = Some val"
      using w(4) by (fastforce simp: hdrs split: sum.split)
    show "map_of hdrs ''Content-Type'' = Some ''image/svg+xml'' \<longrightarrow>
        (\<forall>(key, val) \<in> set asset_headers. map_of hdrs key = Some val)"
      using w(3) by (simp add: hdrs MediaTypeJson_def split: sum.split)
    show "\<forall>mt body. delivers conn \<and> on_wire E (ErrorResponse e) = Some (mt, body) \<longrightarrow>
        he_StatusCode e = status_code (ErrorResponse e) \<and> map_of hdrs ''Content-Type'' = mt \<and>
        rw_Body (errorResponse conn E e w) = body"
      using w errorResponse_delivers [OF _ w(1,2)] by (auto simp: hdrs MediaTypeJson_def split: sum.splits)
  qed simp_all
qed

text \<open>A body that is written with a status: if it cannot be encoded, the server error is sent instead.\<close>

lemma or_server_error_json:
  assumes "rw_Sent w = None"
  shows "\<exists>hdrs. rw_Sent (or_server_error conn E (WriteJSON conn status encoded [] w)) =
      Some (case encoded of Inl err \<Rightarrow> 500 | Inr bytes \<Rightarrow> status, hdrs) \<and>
    (\<forall>key. key \<noteq> ''Content-Type'' \<longrightarrow> map_of hdrs key = map_of (rw_Header w) key) \<and>
    map_of hdrs ''Content-Type'' \<in> {map_of (rw_Header w) ''Content-Type'', Some ''application/json''} \<and>
    (\<forall>bytes. encoded = Inr bytes \<longrightarrow> map_of hdrs ''Content-Type'' = Some ''application/json'') \<and>
    (\<forall>bytes. encoded = Inr bytes \<and> delivers conn \<and> rw_Body w = [] \<longrightarrow>
       rw_Body (or_server_error conn E (WriteJSON conn status encoded [] w)) = bytes)"
proof (cases encoded)
  case (Inl err)
  from errorResponse_first [OF assms, of conn E serverErrorResponse] show ?thesis
    by (auto simp: Inl or_server_error_def WriteJSON_def MediaTypeJson_def split: sum.splits)
next
  case (Inr bytes)
  let ?w = "WriteHeader status (Header_Set ''Content-Type'' MediaTypeJson w)"
  let ?hdrs = "rw_Header (Header_Set ''Content-Type'' MediaTypeJson w)"
  obtain err w' where res: "Write conn bytes ?w = (err, w')"
    by (cases "Write conn bytes ?w")
  have "rw_Sent ?w = Some (status, ?hdrs)"
    using assms by simp
  with Write_sent(1) [of conn bytes ?w] res have sent: "rw_Sent w' = Some (status, ?hdrs)"
    by simp
  have eq: "or_server_error conn E (WriteJSON conn status (Inr bytes) [] w) = or_server_error conn E (err, w')"
    by (simp add: WriteJSON_def res)
  have "rw_Sent (or_server_error conn E (err, w')) = Some (status, ?hdrs)"
    using sent by (cases err) (simp_all add: or_server_error_def errorResponse_late)
  moreover have "or_server_error conn E (err, w') = w' \<and> rw_Body w' = bytes" if "delivers conn" "rw_Body w = []"
    using res that by (auto simp: Write_delivers or_server_error_def)
  moreover have "map_of ?hdrs = (map_of (rw_Header w))(''Content-Type'' \<mapsto> ''application/json'')"
    by (simp add: MediaTypeJson_def)
  ultimately show ?thesis
    unfolding Inr eq by (intro exI [of _ ?hdrs]) auto
qed

text \<open>The header is sent before the body of an asset is written.\<close>

lemma or_server_error_late:
  assumes "rw_Sent w = Some sent"
  shows "rw_Sent (or_server_error conn E (Write conn bytes w)) = Some sent"
    and "delivers conn \<Longrightarrow> rw_Body (or_server_error conn E (Write conn bytes w)) = rw_Body w @ bytes"
proof -
  obtain err w' where res: "Write conn bytes w = (err, w')"
    by (cases "Write conn bytes w")
  with Write_sent(1) [of conn bytes w] assms have "rw_Sent w' = Some sent"
    by simp
  then show "rw_Sent (or_server_error conn E (Write conn bytes w)) = Some sent"
    by (cases err) (simp_all add: res or_server_error_def errorResponse_late)
  show "rw_Body (or_server_error conn E (Write conn bytes w)) = rw_Body w @ bytes" if "delivers conn"
    using that assms by (simp add: Write_delivers or_server_error_def)
qed

lemma json_answers:
  assumes "fresh before w" and "rw_Sent w' = None" and "rw_Body w' = []" and "status = status_code resp"
    and "map_of (rw_Header w') ''Content-Type'' = None"
    and "\<And>key val. (key, val) \<in> set before \<Longrightarrow> map_of (rw_Header w') key = Some val"
    and "\<And>d location. resp = CreatedResponse d location \<Longrightarrow> map_of (rw_Header w') ''Location'' = Some location"
    and "on_wire E resp = (case encoded of Inl err \<Rightarrow> None | Inr bytes \<Rightarrow> Some (Some ''application/json'', bytes))"
  shows "answers conn E before resp (or_server_error conn E (WriteJSON conn status encoded [] w'))"
proof -
  from or_server_error_json [OF assms(2), of conn E status encoded] obtain hdrs where
    sent: "rw_Sent (or_server_error conn E (WriteJSON conn status encoded [] w')) =
      Some (case encoded of Inl err \<Rightarrow> 500 | Inr bytes \<Rightarrow> status, hdrs)"
    and other: "\<And>key. key \<noteq> ''Content-Type'' \<Longrightarrow> map_of hdrs key = map_of (rw_Header w') key"
    and mt: "map_of hdrs ''Content-Type'' \<in> {None, Some ''application/json''}"
    and json: "\<And>bytes. encoded = Inr bytes \<Longrightarrow> map_of hdrs ''Content-Type'' = Some ''application/json''"
    and body: "\<And>bytes. encoded = Inr bytes \<Longrightarrow> delivers conn \<Longrightarrow>
      rw_Body (or_server_error conn E (WriteJSON conn status encoded [] w')) = bytes"
    unfolding assms(5) using assms(3) by blast
  have keys: "key \<noteq> ''Content-Type''" if "(key, val) \<in> set before" for key val
    using fresh_header(4) [OF assms(1) that] by auto
  show ?thesis
    unfolding answers_def
  proof (intro exI conjI)
    show "rw_Sent (or_server_error conn E (WriteJSON conn status encoded [] w')) =
        Some (case encoded of Inl err \<Rightarrow> 500 | Inr bytes \<Rightarrow> status, hdrs)"
      by (rule sent)
    show "(case encoded of Inl err \<Rightarrow> 500 | Inr bytes \<Rightarrow> status) = status_code resp \<or>
        (case encoded of Inl err \<Rightarrow> 500 | Inr bytes \<Rightarrow> status) = 500 \<and> on_wire E resp = None"
      by (simp add: assms(4,8) split: sum.split)
    show "\<forall>(key, val) \<in> set before. map_of hdrs key = Some val"
      using keys other assms(6) by fastforce
    show "\<forall>d location. resp = CreatedResponse d location \<longrightarrow> map_of hdrs ''Location'' = Some location"
      using other [of "''Location''"] assms(7) by simp
    show "map_of hdrs ''Content-Type'' = Some ''image/svg+xml'' \<longrightarrow>
        (\<forall>(key, val) \<in> set asset_headers. map_of hdrs key = Some val)"
      using mt by auto
    show "\<forall>mt body. delivers conn \<and> on_wire E resp = Some (mt, body) \<longrightarrow>
        (case encoded of Inl err \<Rightarrow> 500 | Inr bytes \<Rightarrow> status) = status_code resp \<and>
        map_of hdrs ''Content-Type'' = mt \<and>
        rw_Body (or_server_error conn E (WriteJSON conn status encoded [] w')) = body"
      using json body by (auto simp: assms(4,8) split: sum.splits)
  qed
qed

lemma deletedResponse_answers: "fresh before w \<Longrightarrow> answers conn E before DeletedResponse (deletedResponse w)"
  using fresh_header [of before w] by (auto simp: answers_def deletedResponse_def)

lemma createdResponse_answers:
  assumes "fresh before w"
  shows "answers conn E before (CreatedResponse d location) (createdResponse conn E d location w)"
  unfolding createdResponse_def
  by (rule json_answers [OF assms]) (use fresh_header [OF assms] in auto)

lemma dataResponse_answers:
  assumes "fresh before w" and "data_on_wire E d = map_option (Pair ''application/json'') (case en_Data E d of Inl err \<Rightarrow> None | Inr bytes \<Rightarrow> Some bytes)"
  shows "answers conn E before (DataResponse d) (dataResponse conn E d w)"
  unfolding dataResponse_def
  by (rule json_answers [OF assms(1)]) (use fresh_header [OF assms(1)] assms(2) in \<open>auto split: sum.split\<close>)

text \<open>An answer whose header is complete when its body is written.\<close>

lemma plain_answers:
  assumes "fresh before w" and "rw_Sent w' = Some (200, hdrs)"
    and "map_of hdrs ''Content-Type'' = Some mt" and "on_wire E (DataResponse d) = Some (Some mt, body)"
    and "delivers conn \<Longrightarrow> rw_Body w' = body"
    and "\<And>key val. (key, val) \<in> set before \<Longrightarrow> map_of hdrs key = Some val"
    and "mt = ''image/svg+xml'' \<Longrightarrow> \<forall>(key, val) \<in> set asset_headers. map_of hdrs key = Some val"
  shows "answers conn E before (DataResponse d) w'"
  unfolding answers_def using assms by (intro exI [of _ 200] exI [of _ hdrs]) auto

lemma logResponse_answers:
  assumes "fresh before w"
  shows "answers conn E before (DataResponse (DLogs stream)) (logResponse conn stream w)"
proof (rule plain_answers [OF assms])
  let ?w = "WriteHeader 200 (Header_Set ''Content-Type'' ''text/plain'' w)"
  note w = fresh_header [OF assms]
  show "rw_Sent (logResponse conn stream w) = Some (200, rw_Header (Header_Set ''Content-Type'' ''text/plain'' w))"
    unfolding logResponse_def by (rule io_Copy_sent) (simp add: w)
  show "delivers conn \<Longrightarrow> rw_Body (logResponse conn stream w) = stream"
    by (simp add: logResponse_def io_Copy_delivers w)
qed (use fresh_header [OF assms] in auto)

lemma swaggerDocResponse_answers:
  assumes "fresh before w"
  shows "answers conn E before (DataResponse (DSwagger (SwaggerDoc out))) (swaggerDocResponse conn out w)"
proof (rule plain_answers [OF assms])
  let ?w = "Header_Set ''Content-Type'' ''application/json; charset=utf-8'' w"
  note w = fresh_header [OF assms]
  show "rw_Sent (swaggerDocResponse conn out w) = Some (200, rw_Header ?w)"
    unfolding swaggerDocResponse_def by (simp add: w)
  show "delivers conn \<Longrightarrow> rw_Body (swaggerDocResponse conn out w) = out"
    by (simp add: swaggerDocResponse_def Write_delivers w)
qed (use fresh_header [OF assms] in auto)

lemma WriteSVG_headers:
  "asr_Headers (WriteSVG content []) = (''Content-Type'', ''image/svg+xml'') # asset_headers"
  "asr_Content (WriteSVG content []) = content"
  by (simp_all add: WriteSVG_def Let_def MediaTypeSVG_def asset_headers_def)

lemma assetResponse_answers:
  assumes "fresh before w"
  shows "answers conn E before (DataResponse (DAsset (WriteSVG content []))) (assetResponse conn E (WriteSVG content []) w)"
proof (rule plain_answers [OF assms])
  let ?w = "Header_Copy (asr_Headers (WriteSVG content [])) w"
  note w = fresh_header [OF assms]
  have sent: "rw_Sent (WriteHeader 200 ?w) = Some (200, rw_Header ?w)"
    by (simp add: w)
  have wf: "wf_map (asr_Headers (WriteSVG content []))"
    by (simp add: WriteSVG_headers asset_headers_def)
  note look = map_of_maps_Copy [OF wf, of "rw_Header w"]
  show "rw_Sent (assetResponse conn E (WriteSVG content []) w) = Some (200, rw_Header ?w)"
    unfolding assetResponse_def by (rule or_server_error_late(1) [OF sent])
  show "delivers conn \<Longrightarrow> rw_Body (assetResponse conn E (WriteSVG content []) w) = content"
    unfolding assetResponse_def by (simp add: or_server_error_late(2) [OF sent] w WriteSVG_headers(2))
  show "map_of (rw_Header ?w) ''Content-Type'' = Some ''image/svg+xml''"
    unfolding Header_Copy_simps look by (simp add: WriteSVG_headers)
  show "map_of (rw_Header ?w) key = Some val" if "(key, val) \<in> set before" for key val
    unfolding Header_Copy_simps look using w(4) [OF that] by (auto simp: WriteSVG_headers asset_headers_def)
  show "\<forall>(key, val) \<in> set asset_headers. map_of (rw_Header ?w) key = Some val"
    unfolding Header_Copy_simps look by (simp add: WriteSVG_headers asset_headers_def)
qed (simp add: WriteSVG_headers)


text \<open>An asset that a handler answers with was made by \<open>WriteSVG\<close>.\<close>

lemma answer_with_data:
  assumes "answer_with D m s = (BOk (DataResponse x), s')"
  obtains d where "m s = (BOk (DataResponse d), s')" and "x = D d"
proof -
  from assms obtain resp where "m s = (BOk resp, s')" and "map_http_response D resp = DataResponse x"
    by (auto simp: answer_with_def b_bind_def b_return_def split: prod.splits bres.splits)
  then show thesis
    using that by (cases resp) auto
qed

lemma answer_with_no_asset:
  "(\<And>d. D d \<noteq> DAsset a) \<Longrightarrow> answer_with D m s \<noteq> (BOk (DataResponse (DAsset a)), s')"
  by (metis answer_with_data)

definition gives_svg :: "('s, asset_response http_response) bact \<Rightarrow> bool" where
  "gives_svg m \<longleftrightarrow> (\<forall>s a s'. m s = (BOk (DataResponse a), s') \<longrightarrow> (\<exists>content. a = WriteSVG content []))"

lemma gives_svg_error: "gives_svg (respond_error e)"
  by (simp add: gives_svg_def b_return_def)

lemma gives_svg_bind: "(\<And>x. gives_svg (k x)) \<Longrightarrow> gives_svg (b_bind m k)"
  unfolding gives_svg_def b_bind_def by (fastforce split: prod.splits bres.splits)

lemma gives_svg_asset: "gives_svg (b_return (wskAssetResponse content mediaType))"
  by (auto simp: gives_svg_def b_return_def wskAssetResponse_def)

lemma gives_svg_getWorkspaceKindAssetHandler: "gives_svg (getWorkspaceKindAssetHandler app r assetType)"
  unfolding getWorkspaceKindAssetHandler_def Let_def when_valid_def with_auth_def with_result_def
  by (auto split: sum.split intro!: gives_svg_error gives_svg_bind gives_svg_asset)

lemma handle_asset:
  assumes "handle app bd swagger q params rt s = (BOk (DataResponse (DAsset a)), s')"
  shows "\<exists>content. a = WriteSVG content []"
proof -
  have svg: "\<exists>content. a = WriteSVG content []"
    if "answer_with DAsset (getWorkspaceKindAssetHandler app r assetType) s = (BOk (DataResponse (DAsset a)), s')"
    for r :: "unit http_request" and assetType
    using that gives_svg_getWorkspaceKindAssetHandler [of app r assetType]
    by (auto elim!: answer_with_data simp: gives_svg_def)
  from assms show ?thesis
    by (cases rt)
      (simp_all add: handle_def Let_def GetWorkspaceKindIconHandler_def GetWorkspaceKindLogoHandler_def answer_with_no_asset svg)
qed

lemma data_on_wire_json:
  assumes "\<And>stream. d \<noteq> DLogs stream" and "\<And>a. d \<noteq> DAsset a" and "\<And>out. d \<noteq> DSwagger (SwaggerDoc out)"
  shows "data_on_wire E d = map_option (Pair ''application/json'') (case en_Data E d of Inl err \<Rightarrow> None | Inr bytes \<Rightarrow> Some bytes)"
    and "write_data conn E d w = dataResponse conn E d w"
  by (cases rule: write_data.cases [of "(conn, E, d, w)"]; use assms in \<open>simp split: sum.split\<close>)+

lemma write_response_answers:
  assumes "fresh before w" and "\<not> is_page resp"
    and "\<And>a. resp = DataResponse (DAsset a) \<Longrightarrow> \<exists>content. a = WriteSVG content []"
  shows "answers conn E before resp (write_response conn E resp w)"
proof (cases resp)
  case (DataResponse d)
  consider (log) stream where "d = DLogs stream" | (asset) a where "d = DAsset a" | (swag) out where "d = DSwagger (SwaggerDoc out)"
    | (json) "\<And>stream. d \<noteq> DLogs stream" "\<And>a. d \<noteq> DAsset a" "\<And>out. d \<noteq> DSwagger (SwaggerDoc out)"
    by blast
  then show ?thesis
  proof cases
    case log
    then show ?thesis
      by (simp add: DataResponse logResponse_answers [OF assms(1)])
  next
    case asset
    with assms(3) DataResponse obtain content where "a = WriteSVG content []"
      by blast
    then show ?thesis
      by (simp add: DataResponse asset assetResponse_answers [OF assms(1)])
  next
    case swag
    then show ?thesis
      by (simp add: DataResponse swaggerDocResponse_answers [OF assms(1)])
  next
    case json
    show ?thesis
      unfolding DataResponse write_response.simps data_on_wire_json(2) [OF json]
      by (rule dataResponse_answers [OF assms(1) data_on_wire_json(1) [OF json]])
  qed
qed (use assms(2) in \<open>simp_all add: createdResponse_answers [OF assms(1)] deletedResponse_answers [OF assms(1)]
    errorResponse_answers [OF assms(1)]\<close>)

section \<open>Property\<close>

text \<open>The headers that the middleware sets before a handler runs; a panic closes the connection.\<close>

abbreviation cors :: str_map where
  "cors \<equiv> [(''Access-Control-Allow-Origin'', ''*'')]"

lemma fresh_writers:
  "fresh cors (enableCORS new_writer)"
  "fresh (cors @ [(''Connection'', ''close'')]) (Header_Set ''Connection'' ''close'' (enableCORS new_writer))"
  by (simp_all add: fresh_def enableCORS_def new_writer_def Header_Set_def)

lemma answers_weaken: "answers conn E (before @ extra) resp w \<Longrightarrow> answers conn E before resp w"
  unfolding answers_def by fastforce



end
