(* ===== verification/Backend_Setup.thy ===== *)
theory Backend_Setup
  imports Manager_Setup Responses
begin

text \<open>
  The start of the backend: \<open>cmd/main.go\<close> with its configuration, the scheme, the manager and the client for image
  source ConfigMaps of \<open>internal/helper/k8s.go\<close>, the authorizer of \<open>internal/auth/authorization.go\<close>, the clients of
  the repositories (\<open>internal/repositories/repositories.go\<close>), and the limits and the life of the server
  (\<open>internal/server/server.go\<close>). The calls into libraries are recorded; each may fail, which ends the process.
\<close>

section \<open>Flags and environment\<close>

text \<open>The functions that read the environment are those of the controller, line by line.\<close>

definition parse_backend_config :: "(string \<Rightarrow> opaque option) \<Rightarrow> environ \<Rightarrow> command_line \<Rightarrow> BackendEnvConfig" where
  "parse_backend_config parseFloat env cl =
     \<lparr>bcfg_DebugMode = flag_or (cl_Bool cl ''debug-mode'') (getEnvAsBool env ''DEBUG_MODE'' False),
      bcfg_Port = flag_or (cl_Int cl ''port'') (getEnvAsInt env ''PORT'' 4000),
      bcfg_ClientQPS = flag_or (cl_Float cl ''client-qps'') (getEnvAsFloat64 parseFloat env ''CLIENT_QPS'' ''50''),
      bcfg_ClientBurst = flag_or (cl_Int cl ''client-burst'') (getEnvAsInt env ''CLIENT_BURST'' 100),
      bcfg_UserIdHeader = flag_or (cl_Str cl ''userid-header'') (getEnvAsStr env ''USERID_HEADER'' ''kubeflow-userid''),
      bcfg_UserIdPrefix = flag_or (cl_Str cl ''userid-prefix'') (getEnvAsStr env ''USERID_PREFIX'' '':''),
      bcfg_GroupsHeader = flag_or (cl_Str cl ''groups-header'') (getEnvAsStr env ''GROUPS_HEADER'' ''kubeflow-groups''),
      bcfg_ProxyUrlPrefix = flag_or (cl_Str cl ''proxy-url-prefix'') (getEnvAsStr env ''PROXY_URL_PREFIX'' []),
      bcfg_SwaggerEnabled = flag_or (cl_Bool cl ''swagger-enabled'') (getEnvAsBool env ''SWAGGER_ENABLED'' False),
      bcfg_SwaggerHost = flag_or (cl_Str cl ''swagger-host'') (getEnvAsStr env ''SWAGGER_HOST'' ''localhost:4000''),
      bcfg_SwaggerBasePath = flag_or (cl_Str cl ''swagger-base-path'') (getEnvAsStr env ''SWAGGER_BASE_PATH'' ''/api/v1''),
      bcfg_SwaggerScheme = flag_or (cl_Str cl ''swagger-scheme'') (getEnvAsStr env ''SWAGGER_SCHEME'' ''http'')\<rparr>"

text \<open>\<open>openapi.SwaggerInfo\<close>, which is generated and overridden if the Swagger UI is enabled.\<close>

record swagger_info =
  swi_Host :: string
  swi_BasePath :: string
  swi_Schemes :: "string list"

definition override_swagger_info :: "BackendEnvConfig \<Rightarrow> swagger_info \<Rightarrow> swagger_info" where
  "override_swagger_info cfg info =
     (if bcfg_SwaggerEnabled cfg
      then \<lparr>swi_Host = bcfg_SwaggerHost cfg, swi_BasePath = bcfg_SwaggerBasePath cfg, swi_Schemes = [bcfg_SwaggerScheme cfg]\<rparr>
      else info)"

section \<open>The clients\<close>

definition BackendAPIFieldOwner :: string where
  "BackendAPIFieldOwner = ''kubeflow-workspaces-backend-api''"

definition BackendLabelImageSource :: string where
  "BackendLabelImageSource = ''workspaces.kubeflow.org/image-source''"

text \<open>The types that \<open>BuildScheme\<close> adds to the scheme, in order; \<open>add\<close> gives the error of a step.\<close>

definition BuildScheme :: "(string \<Rightarrow> go_error option) \<Rightarrow> go_error + string list" where
  "BuildScheme add =
     (case add ''clientgoscheme'' of
       Some err \<Rightarrow> Inl (errorf_w ''failed to add Kubernetes types to scheme: '' err)
     | None \<Rightarrow>
         (case add ''kubefloworgv1beta1'' of
           Some err \<Rightarrow> Inl (errorf_w ''failed to add Kubeflow types to scheme: '' err)
         | None \<Rightarrow>
             (case add ''metricsv1beta1'' of
               Some err \<Rightarrow> Inl (errorf_w ''failed to add metrics types to scheme: '' err)
             | None \<Rightarrow> Inr [''clientgoscheme'', ''kubefloworgv1beta1'', ''metricsv1beta1''])))"

record backend_manager_options =
  bmo_DisableFor :: "string list"
  bmo_FieldOwner :: string
  bmo_MetricsAddr :: string
  bmo_ProbeAddr :: string
  bmo_LeaderElection :: bool

definition backend_manager_options_value :: backend_manager_options where
  "backend_manager_options_value =
     \<lparr>bmo_DisableFor = [''ConfigMap'', ''Secret'', ''PodMetrics''], bmo_FieldOwner = BackendAPIFieldOwner, bmo_MetricsAddr = ''0'',
      bmo_ProbeAddr = ''0'', bmo_LeaderElection = False\<rparr>"

definition BackendNewManager :: "(backend_manager_options \<Rightarrow> go_error + 'm) \<Rightarrow> go_error + 'm" where
  "BackendNewManager new =
     (case new backend_manager_options_value of
       Inl err \<Rightarrow> Inl (errorf_w ''unable to create manager: '' err)
     | Inr mgr \<Rightarrow> Inr mgr)"

text \<open>
  \<open>BuildImageSourceConfigMapClient\<close> builds its cache with the calls of the cache of the controller, without a
  transform, and a client that reads from it.
\<close>

definition BuildImageSourceConfigMapClient :: "'c cache_builder \<Rightarrow> ('c \<Rightarrow> go_error + 'k) \<Rightarrow> go_error + 'k" where
  "BuildImageSourceConfigMapClient mgr newClient =
     (case cb_NewRequirement mgr BackendLabelImageSource [''true''] of
       Inl err \<Rightarrow> Inl (errorf_w ''failed to create label requirement: '' err)
     | Inr imageSourceLabelSelector \<Rightarrow>
         (case cb_New mgr
                 \<lparr>co_Label = imageSourceLabelSelector, co_Transform = Inr, co_ReaderFailOnMissingInformer = True\<rparr> of
           Inl err \<Rightarrow> Inl (errorf_w ''failed to create ConfigMap cache: '' err)
         | Inr configMapCache \<Rightarrow>
             (case cb_GetInformer mgr configMapCache of
               Some err \<Rightarrow> Inl (errorf_w ''failed to get ConfigMap informer: '' err)
             | None \<Rightarrow>
                 (case cb_Add mgr configMapCache of
                   Some err \<Rightarrow> Inl (errorf_w ''failed to add ConfigMap cache to manager: '' err)
                 | None \<Rightarrow>
                     (case newClient configMapCache of
                       Inl err \<Rightarrow> Inl (errorf_w ''failed to create ConfigMap client: '' err)
                     | Inr configMapClient \<Rightarrow> Inr configMapClient)))))"

text \<open>The configuration of the delegating authorizer: for how long a decision is cached, and how a review is retried.\<close>

record authorizer_config =
  azc_AllowCacheTTL :: duration
  azc_DenyCacheTTL :: duration
  azc_RetryDuration :: duration
  azc_RetryFactor :: opaque
  azc_RetryJitter :: opaque
  azc_RetrySteps :: int

definition allowCacheTTL :: duration where "allowCacheTTL = 10 * time_Second"
definition denyCacheTTL :: duration where "denyCacheTTL = 10 * time_Second"

definition NewRequestAuthorizer ::
  "(unit \<Rightarrow> go_error option) \<Rightarrow> (authorizer_config \<Rightarrow> go_error + 'z) \<Rightarrow> go_error + 'z" where
  "NewRequestAuthorizer newClient new =
     (case newClient () of
       Some err \<Rightarrow> Inl err
     | None \<Rightarrow>
         (case new \<lparr>azc_AllowCacheTTL = allowCacheTTL, azc_DenyCacheTTL = denyCacheTTL,
                    azc_RetryDuration = 500 * time_Millisecond, azc_RetryFactor = ''1.5'', azc_RetryJitter = ''0.2'',
                    azc_RetrySteps = 5\<rparr> of
           Inl err \<Rightarrow> Inl (errorf_w ''failed to create authorizer: '' err)
         | Inr delegatingAuthorizer \<Rightarrow> Inr delegatingAuthorizer))"

text \<open>Which clients a repository is made with.\<close>

datatype client_ref = ManagerClient | ImageSourceClient | Clientset | DiscoveryClient

datatype repository =
    HealthCheckRepository | MetricsRepository | NamespaceRepository | PVCRepository | SecretRepository
  | StorageClassRepository | WorkspaceRepository | WorkspaceKindRepository | PodLogsRepository

definition NewRepositories :: "(repository \<times> client_ref list) list" where
  "NewRepositories =
     [(HealthCheckRepository, []), (MetricsRepository, [ManagerClient, DiscoveryClient]), (NamespaceRepository, [ManagerClient]),
      (PVCRepository, [ManagerClient]), (SecretRepository, [ManagerClient]), (StorageClassRepository, [ManagerClient]),
      (WorkspaceRepository, [ManagerClient]), (WorkspaceKindRepository, [ManagerClient, ImageSourceClient]),
      (PodLogsRepository, [ManagerClient, Clientset])]"

section \<open>The server\<close>

definition maxHeaderBytes :: int where "maxHeaderBytes = 2 ^ 17"
definition maxBodyBytes :: int where "maxBodyBytes = 2 ^ 22"

record http_server =
  hs_Addr :: string
  hs_MaxBodyBytes :: int
  hs_IdleTimeout :: duration
  hs_ReadTimeout :: duration
  hs_ReadHeaderTimeout :: duration
  hs_WriteTimeout :: duration
  hs_MaxHeaderBytes :: int

definition server_for :: "BackendEnvConfig \<Rightarrow> http_server" where
  "server_for cfg =
     \<lparr>hs_Addr = '':'' @ go_itoa (bcfg_Port cfg), hs_MaxBodyBytes = maxBodyBytes, hs_IdleTimeout = 90 * time_Second,
      hs_ReadTimeout = 32 * time_Second, hs_ReadHeaderTimeout = 32 * time_Second, hs_WriteTimeout = 32 * time_Second,
      hs_MaxHeaderBytes = maxHeaderBytes\<rparr>"

text \<open>The listener is opened before the server exists; \<open>listen\<close> is \<open>net.Listen\<close> on an address.\<close>

definition NewServer :: "(string \<Rightarrow> go_error option) \<Rightarrow> BackendEnvConfig \<Rightarrow> go_error + http_server" where
  "NewServer listen cfg =
     (case listen ('':'' @ go_itoa (bcfg_Port cfg)) of
       Some err \<Rightarrow> Inl (errorf_w ''failed to create listener: '' err)
     | None \<Rightarrow> Inr (server_for cfg))"

text \<open>
  \<open>Server.Start\<close>: \<open>Serve\<close> ends with \<open>http.ErrServerClosed\<close> (after a shutdown) or with another error, which is
  returned at once; after a shutdown the server waits until it is complete.
\<close>

datatype serve_end = ServerClosed | ServeFailed go_error

definition Server_Start :: "serve_end \<Rightarrow> go_error option" where
  "Server_Start ended = (case ended of ServeFailed err \<Rightarrow> Some err | ServerClosed \<Rightarrow> None)"

definition Server_NeedLeaderElection :: bool where
  "Server_NeedLeaderElection = False"

section \<open>The start of the process\<close>

datatype backend_setup_call =
    BackendGetConfig
  | BackendBuildScheme
  | BackendNewManagerCall backend_manager_options
  | BackendNewClientset
  | BackendNewAuthenticator string string string
  | BackendNewAuthorizer
  | BackendImageSourceClient
  | BackendNewApp BackendEnvConfig
  | BackendNewServer http_server
  | BackendAddServer
  | BackendStartManager

definition backend_steps :: "BackendEnvConfig \<Rightarrow> backend_setup_call list" where
  "backend_steps cfg =
     [BackendGetConfig, BackendBuildScheme, BackendNewManagerCall backend_manager_options_value, BackendNewClientset,
      BackendNewAuthenticator (bcfg_UserIdHeader cfg) (bcfg_UserIdPrefix cfg) (bcfg_GroupsHeader cfg), BackendNewAuthorizer,
      BackendImageSourceClient, BackendNewApp cfg, BackendNewServer (server_for cfg), BackendAddServer, BackendStartManager]"

text \<open>Each call is followed by \<open>if err != nil { ...; os.Exit(1) }\<close>: the calls that are made, and whether none failed.\<close>

fun run_steps :: "('c \<Rightarrow> bool) \<Rightarrow> 'c list \<Rightarrow> 'c list \<times> bool" where
  "run_steps ok [] = ([], True)"
| "run_steps ok (c # cs) = (if ok c then (case run_steps ok cs of (calls, running) \<Rightarrow> (c # calls, running)) else ([c], False))"

definition backend_main :: "(backend_setup_call \<Rightarrow> bool) \<Rightarrow> BackendEnvConfig \<Rightarrow> backend_setup_call list \<times> bool" where
  "backend_main ok cfg = run_steps ok (backend_steps cfg)"

section \<open>Lemmas\<close>

text \<open>Every call but the last succeeded, and if the last failed the process has ended.\<close>

lemma run_steps_calls:
  "run_steps ok cs = (calls, running) \<Longrightarrow>
   (running \<longrightarrow> calls = cs \<and> list_all ok cs) \<and>
   (\<not> running \<longrightarrow> (\<exists>done' c rest. cs = done' @ c # rest \<and> calls = done' @ [c] \<and> list_all ok done' \<and> \<not> ok c))"
proof (induction cs arbitrary: calls running)
  case (Cons c cs)
  show ?case
  proof (cases "ok c")
    case True
    obtain calls' where calls': "run_steps ok cs = (calls', running)" "calls = c # calls'"
      using Cons.prems True by (auto split: prod.splits)
    show ?thesis
    proof (cases running)
      case True
      with Cons.IH [OF calls'(1)] calls'(2) \<open>ok c\<close> show ?thesis
        by simp
    next
      case False
      with Cons.IH [OF calls'(1)] obtain done' c' rest where
        "cs = done' @ c' # rest" "calls' = done' @ [c']" "list_all ok done'" "\<not> ok c'"
        by blast
      with False calls'(2) \<open>ok c\<close> show ?thesis
        by (intro conjI impI exI [of _ "c # done'"] exI [of _ c'] exI [of _ rest]) simp_all
    qed
  next
    case False
    with Cons.prems show ?thesis
      by (auto intro!: exI [of _ "[]"])
  qed
qed simp

text \<open>The client for image sources and the cache of the controller see ConfigMaps through the same selector.\<close>

lemma image_source_label: "BackendLabelImageSource = ImageSourceLabel" "ImageSourceLabelValue = ''true''"
  by (simp_all add: BackendLabelImageSource_def ImageSourceLabel_def ImageSourceLabelValue_def)

end
