(* ===== verification/Spec2Isabelle.thy ===== *)
theory Spec2Isabelle
  imports Kind_Controller Graph Redirects Copy_Fields Owner_Index Workspace_State Generate Admission
    Reconcile_Convergence Workspace_Handlers Backend_Setup
begin

text \<open>
  Kubeflow Notebooks v2: a model of the controller (\<open>workspaces/controller\<close>) and of the backend
  (\<open>workspaces/backend\<close>), and what is proved of them. Paths below are relative to these two directories.

  \<^bold>\<open>The program.\<close> A \<open>WorkspaceKind\<close> is a cluster-wide template: images and pod configurations to choose from
  (with redirects from an old option to a newer one), activity rules, filter rules. A \<open>Workspace\<close> is a
  notebook of such a kind in a namespace. The controller watches both: its webhooks refuse objects that
  cannot be worked with, its two reconcilers turn a Workspace into a ServiceAccount, RoleBindings, a
  StatefulSet, a Service and a VirtualService, write the status, probe running Pods for activity and pause
  idle ones, and count which options are in use. The backend serves the web UI: it authorizes each request
  against the permissions of its user, validates it, evaluates the filter rules of the kind, and reads and
  writes the custom resources, Secrets and volume claims. The two programs interact only through objects of
  the cluster: the backend writes a Workspace, the webhooks judge it, the controller acts on it, the backend
  reads the status and the Pod.

  \<^bold>\<open>Conventions.\<close>
  \<^item> A Go struct is a record with the field names of the code behind a prefix, an enumeration a datatype, a Go
    map an association list (\<open>Go_Base\<close>: iteration order is the order of the list, and theorems that depend on
    keys being distinct say so), a pointer an \<open>option\<close>, a string a list of characters. Integers are \<open>int\<close>; where
    the code can overflow, the wrap-around is written out (durations and times are 64 bit, usage counts 32 bit,
    SHA-256 uses 32 bit words).
  \<^item> An error is a value of a sum type, a panic a result of its own; every early return is a branch.
  \<^item> The cluster, its caches, other clients and the clock are a world of an arbitrary type. A request takes the
    world and gives its answer with a new world, so between two requests anything may change. The record
    \<open>client\<close> (\<open>Client\<close>, for the controller) and the record \<open>backend\<close> (\<open>Backend_Base\<close>) hold the requests. The run
    records the writes; a theorem about writes is about that record, for every world and every answer.
  \<^item> Functions of other packages (apimachinery, structured merge, templates, JSON and YAML codecs, quantities,
    the router, the authenticator and the authorizer, the Swagger UI) are fields of records of parameters (\<open>K8s_Lib\<close>,
    \<open>backend_lib\<close>, \<open>http_lib\<close>, \<open>body_decoders\<close>, \<open>swagger_lib\<close>, \<open>encoders\<close>). Where a theorem needs a law of such a function, the law is a
    named hypothesis and the witness of the theorem has a function that satisfies it.
  \<^item> Loops of the code that need an argument to end are \<open>partial_function (option)\<close>: \<open>DetectGraphCycle_loop\<close> and
    \<open>followRedirects\<close>. There is no fuel. That they return is proved, in
    \<open>Graph\<close> for every graph and in \<open>Redirects\<close> for every list of options, circular redirects included. The chunked
    copy of a log (\<open>io_Copy\<close>) ends by the length of what is left. All other definitions are total.

  \<^bold>\<open>Prelude.\<close> \<open>Go_Base\<close> (maps, slices, integers, strings, durations of Go, and shared lemmas), \<open>Sha256\<close>,
  \<open>K8s_Types\<close> (objects of Kubernetes and Istio), \<open>Api_Types\<close> (\<open>api/v1beta1\<close>), \<open>K8s_Lib\<close> (library parameters),
  \<open>Samples\<close> (objects for the witnesses).

  \<^bold>\<open>Controller.\<close>
  \<^item> \<open>Graph\<close> (\<open>internal/helper/graph.go\<close>): cycle detection on redirects; it ends and finds a cycle exactly if one
    is reachable. \<open>Redirects\<close> (\<open>getImageConfig\<close>, \<open>getPodConfig\<close>): refinement of a relational specification of the
    redirect chain; the locale \<open>option_resolver\<close> holds what both share.
  \<^item> \<open>Copy_Fields\<close> (\<open>helper.go\<close>): the copiers of managed fields meet one contract (locale \<open>field_copier\<close>): after a
    copy the managed fields agree (labels and annotations as the code reads them, where a missing key and an empty value
    are the same; exactly, if no value is empty), nothing else changes, and an update is reported exactly if they did not
    agree. \<open>Owner_Index\<close> (\<open>index.go\<close> and the ownership part of \<open>helper.go\<close>).
  \<^item> \<open>Activity\<close> (\<open>activity.go\<close>), \<open>Probe\<close> and \<open>Pod_Exec\<close> (\<open>probe.go\<close>), \<open>Activity_Reconcile\<close>
    (\<open>workspace_activity.go\<close>): first matching rule, a probe with bounded output whose success comes from a stream
    of the exec subresource, and no pause without a successful probe in the same call.
  \<^item> \<open>Generate\<close>: the objects of a Workspace. \<open>Workspace_State\<close>: its status; each of
    the six states has a meaning in terms of StatefulSet, Pod and events (\<open>state_means\<close>), and is reported exactly if it holds.
  \<^item> \<open>Kind_Webhook\<close>, \<open>Workspace_Webhook\<close> (\<open>internal/webhook\<close>), \<open>Kind_Validity\<close>, \<open>Admission\<close>: what accepted objects
    promise, along every sequence of accepted creations and updates.
  \<^item> \<open>Client\<close>, \<open>Reconcile\<close>, \<open>Reconcile_Safety\<close>, \<open>Reconcile_Convergence\<close> (\<open>workspace_controller.go\<close>): one definition
    per section of \<open>Reconcile\<close>. The reconciler writes only objects of its Workspace whatever the API server
    answers (\<open>call_allowed\<close>; the Pod it deletes is controlled by the StatefulSet of the Workspace; locale \<open>owned_kind\<close> for the kinds it owns); it converges, rolls out Pods and pauses only as decided.
  \<^item> \<open>Caches\<close> (\<open>configmap_cache.go\<close>, \<open>event_cache.go\<close>), \<open>Kind_Controller\<close> (\<open>workspacekind_controller.go\<close>): the
    finalizer, the counts (exact below \<open>2 ^ 31\<close> Workspaces, which is a hypothesis) and the status of assets.
  \<^item> \<open>Manager_Setup\<close> (\<open>cmd/main.go\<close>, \<open>SetupWithManager\<close>, \<open>internal/helper/reconcile.go\<close>): the configuration from flags
    and environment, which objects are cached, indexed, watched or read directly, and the order of the set-up; whatever
    the configuration, every indexed read of the reconcilers has its index or goes to the API server.

  \<^bold>\<open>Backend.\<close>
  \<^item> \<open>Filter_Rules\<close> (\<open>internal/filterrules/engine.go\<close>): the engine evaluates like the first matching rule.
  \<^item> \<open>Backend_Objects\<close>, \<open>Backend_Base\<close> (errors, validation, revisions, the monad), \<open>Backend_Spec\<close> (the judgement
    \<open>b_spec n P Q m\<close>: at most \<open>n\<close> writes, each with \<open>P\<close>, and a result with \<open>Q\<close>, with one rule for each way to
    compose computations).
  \<^item> \<open>Options_Model\<close>, \<open>Assets_Model\<close>, \<open>Workspace_Models\<close>, \<open>Workspace_List\<close>, \<open>Kind_Models\<close>, \<open>Mount_Maps\<close>
    (\<open>internal/models\<close>): views of objects and conversions from requests.
  \<^item> \<open>Workspace_Repo\<close>, \<open>Kind_Repo\<close>, \<open>Secret_Repo\<close>, \<open>PVC_Repo\<close>, \<open>Pod_Logs\<close>, \<open>Metrics\<close> (\<open>internal/repositories\<close>):
    guards of each write (revision, rules, labels), agreement of what a listing shows with what a creation
    accepts, values of Secrets that never leave, bounds of logs, the two caches of resource usage (the probes and the readings of the clock are
    a log in the world, so that an answer is tied to the probe that was made). The state
    that outlives a request (the memo of \<open>memoize\<close>) is \<open>br_memo\<close> of the run; \<open>availability_trace\<close> is an inductive
    relation over sequences of requests. The mutex around it makes a call of the closure atomic.
  \<^item> \<open>Backend_Http\<close>, \<open>Workspace_Handlers\<close>, \<open>Kind_Handlers\<close>, \<open>Storage_Handlers\<close>, \<open>Pod_Handlers\<close>, \<open>Routes\<close>
    (\<open>internal/auth\<close>, \<open>api\<close>): every handler, the table of routes and what a request runs; no data and no write
    without permission, for each operation and for the application as a whole (\<open>data_policy\<close> is the permission of each
    route); for the Workspaces, no read of the cluster either; the statuses that each operation can answer, and
    for an update which failure gives which; and that the Pod which the controller generates is the one the backend finds. A created or
    updated object names the user of the request in its audit annotation.
  \<^item> \<open>Swagger\<close> (\<open>swagger_handler.go\<close>), \<open>Responses\<close> (\<open>WriteJSON\<close> and its kin, the middleware): what is sent for a
    response when encoding or writing may fail; exactly one header, with the status of the response or 500. A path that
    is left to the library of the Swagger UI is a \<open>LibraryResponse\<close>: its status and its body are those of the library.
  \<^item> \<open>Backend_Setup\<close> (\<open>cmd/main.go\<close>, \<open>internal/server\<close>, \<open>internal/helper/k8s.go\<close>, the construction of the authorizer
    and of the repositories): configuration, clients, limits, and the order in which the process starts.

  \<^bold>\<open>Not modelled.\<close> Log lines and the set-up of the loggers, events that are only recorded, and metrics of the process.
  The encoding of JSON and the compression of responses, which are libraries. The limit on the size of a body is a
  value of the server; that a body exceeds it is an outcome of the decoders. Timeouts and cancelled contexts are
  only failures that the world may answer. The generated OpenAPI document and the pages of the Swagger UI, generated
  deep copies (values are copied anyway), what controller-runtime does with the registrations (a run of a reconciler or
  a webhook is a call of its definition), TLS, the work queue with its rate limiter beyond the configuration, the graceful
  shutdown, and the command line helpers of the end-to-end tests: these are calls of libraries without decisions
  of the program. Concurrent reconciles of the same object do not happen (the work queue excludes them);
  concurrent requests of different clients are part of the world.
\<close>

end
